(* ===== verification/Prelude.thy ===== *)
theory Prelude
  imports Main "HOL-Library.Char_ord" "HOL-Library.List_Lexorder" "HOL-Library.Product_Lexorder"
begin

text \<open>
  What every component shares.  A Python validator is a sequence of statements of the form
  \<open>if bad: raise Error\<close>; it is modelled as the list of its guards in the code's order, and
  \<open>first_error\<close> gives the error of the first guard that fires, as the first \<open>raise\<close> reached
  would.  \<open>None\<close> means that the Python function returns normally.  A function that returns a
  value or raises has the type \<open>'e + 'a\<close>, with \<open>Inl\<close> for the exception, and is composed
  with \<open>and_then\<close>.
\<close>

named_theorems checks "what it means that a guard or a sequence of guards lets a value through"

section \<open>Guards and sequences of guards\<close>

definition raise_if :: "bool \<Rightarrow> 'e \<Rightarrow> 'e option" where
  "raise_if b e = (if b then Some e else None)"

fun first_error :: "'e option list \<Rightarrow> 'e option" where
  "first_error [] = None"
| "first_error (None # gs) = first_error gs"
| "first_error (Some e # gs) = Some e"

lemma raise_if_None [checks, simp]: "raise_if b e = None \<longleftrightarrow> \<not> b"
  by (simp add: raise_if_def)

lemma raise_if_Some [simp]: "raise_if b e = Some e' \<longleftrightarrow> b \<and> e' = e"
  by (auto simp: raise_if_def)

lemma first_error_Cons [simp]:
  "first_error (g # gs) = (case g of None \<Rightarrow> first_error gs | Some e \<Rightarrow> Some e)"
  by (cases g) simp_all

lemma first_error_None_Cons [checks]:
  "first_error (g # gs) = None \<longleftrightarrow> g = None \<and> first_error gs = None"
  by (cases g) simp_all

lemma first_error_None_iff: "first_error gs = None \<longleftrightarrow> (\<forall>g \<in> set gs. g = None)"
  by (induction gs) (auto split: option.splits)

lemma first_error_map_None [checks]:
  "first_error (map f xs) = None \<longleftrightarrow> (\<forall>x \<in> set xs. f x = None)"
  by (simp add: first_error_None_iff)

lemma first_error_SomeD: "first_error gs = Some e \<Longrightarrow> Some e \<in> set gs"
  by (induction gs) (auto split: option.splits)

lemma first_error_append:
  "first_error (gs @ hs) = (case first_error gs of None \<Rightarrow> first_error hs | Some e \<Rightarrow> Some e)"
  by (induction gs) (auto split: option.splits)

lemma if_None_else [checks]:
  "(if b then x else None) = None \<longleftrightarrow> (b \<longrightarrow> x = None)"
  "(if b then None else x) = None \<longleftrightarrow> (\<not> b \<longrightarrow> x = None)"
  by simp_all

lemma if_check_None [checks]:
  "(if b then x else y) = None \<longleftrightarrow> (b \<longrightarrow> x = None) \<and> (\<not> b \<longrightarrow> y = None)"
  by simp

lemma case_option_None [checks]:
  "(case v of None \<Rightarrow> x | Some a \<Rightarrow> f a) = None \<longleftrightarrow>
     (v = None \<longrightarrow> x = None) \<and> (\<forall>a. v = Some a \<longrightarrow> f a = None)"
  by (cases v) simp_all

declare first_error.simps(1) [checks]

section \<open>Results: a value or an exception\<close>

fun and_then :: "'e + 'a \<Rightarrow> ('a \<Rightarrow> 'e + 'b) \<Rightarrow> 'e + 'b" where
  "and_then (Inl e) f = Inl e"
| "and_then (Inr a) f = f a"

definition guarded :: "'e option \<Rightarrow> 'e + 'a \<Rightarrow> 'e + 'a" where
  "guarded g r = (case g of None \<Rightarrow> r | Some e \<Rightarrow> Inl e)"

lemma and_then_Inr [simp]: "and_then r f = Inr b \<longleftrightarrow> (\<exists>a. r = Inr a \<and> f a = Inr b)"
  by (cases r) simp_all

lemma and_then_Inl:
  "and_then r f = Inl e \<longleftrightarrow> r = Inl e \<or> (\<exists>a. r = Inr a \<and> f a = Inl e)"
  by (cases r) simp_all

lemma guarded_Inr [simp]: "guarded g r = Inr a \<longleftrightarrow> g = None \<and> r = Inr a"
  by (cases g) (simp_all add: guarded_def)

lemma guarded_Inl: "guarded g r = Inl e \<longleftrightarrow> g = Some e \<or> (g = None \<and> r = Inl e)"
  by (cases g) (simp_all add: guarded_def)

lemma guarded_None [simp]: "guarded None r = r"
  by (simp add: guarded_def)

section \<open>Lists used as Python sets\<close>

text \<open>\<open>len(xs) != len(set(xs))\<close>, the code's test for a repeated element.\<close>

definition has_dup :: "'a list \<Rightarrow> bool" where
  "has_dup xs \<longleftrightarrow> length xs \<noteq> length (remdups xs)"

lemma has_dup_iff [simp]: "has_dup xs \<longleftrightarrow> \<not> distinct xs"
  by (simp add: has_dup_def) (metis length_remdups_card_conv card_distinct distinct_card)

text \<open>\<open>sorted(set(xs))\<close>.\<close>

definition sorted_set :: "'a::linorder list \<Rightarrow> 'a list" where
  "sorted_set xs = sort (remdups xs)"

lemma set_sorted_set [simp]: "set (sorted_set xs) = set xs"
  by (simp add: sorted_set_def)

lemma distinct_sorted_set [simp]: "distinct (sorted_set xs)"
  by (simp add: sorted_set_def)

lemma sorted_sorted_set [simp]: "sorted (sorted_set xs)"
  by (simp add: sorted_set_def)

text \<open>The sum of the lengths of the classes of a list under a key, over distinct keys.\<close>

lemma sum_list_filter_keys:
  assumes "distinct ks" and "\<forall>x \<in> set xs. f x \<in> set ks"
  shows "(\<Sum>k\<leftarrow>ks. length (filter (\<lambda>x. f x = k) xs)) = length xs"
  using assms(2)
proof (induction xs)
  case (Cons x xs)
  have "(\<Sum>k\<leftarrow>ks. length (filter (\<lambda>y. f y = k) (x # xs)))
      = (\<Sum>k\<leftarrow>ks. (if f x = k then 1 else 0) + length (filter (\<lambda>y. f y = k) xs))"
    by (rule arg_cong [where f = sum_list]) simp
  also have "\<dots> = (\<Sum>k\<leftarrow>ks. if f x = k then 1 else 0)
      + (\<Sum>k\<leftarrow>ks. length (filter (\<lambda>y. f y = k) xs))"
    by (simp add: sum_list_addf)
  also have "(\<Sum>k\<leftarrow>ks. if f x = k then 1 else 0) = (1::nat)"
    using assms(1) Cons.prems
    by (simp add: sum_list_distinct_conv_sum_set)
  finally show ?case using Cons by simp
qed simp

section \<open>Dictionaries built by comprehension\<close>

text \<open>
  \<open>{key(x): x for x in xs}\<close>: a later element with the same key replaces an earlier one.  The
  laws of such an index are stated once, as a locale, and every index the code builds is an
  interpretation of it.
\<close>

definition dict_by :: "('v \<Rightarrow> 'k) \<Rightarrow> 'v list \<Rightarrow> 'k \<Rightarrow> 'v option" where
  "dict_by key xs k = find (\<lambda>x. key x = k) (rev xs)"

locale index =
  fixes key :: "'v \<Rightarrow> 'k"
    and elems :: "'c \<Rightarrow> 'v list"
    and lookup :: "'c \<Rightarrow> 'k \<Rightarrow> 'v option"
  assumes lookup_hit: "lookup c k = Some v \<Longrightarrow> v \<in> set (elems c) \<and> key v = k"
    and lookup_miss: "lookup c k = None \<longleftrightarrow> k \<notin> key ` set (elems c)"
begin

lemma dom_lookup: "dom (lookup c) = key ` set (elems c)"
  using lookup_miss by (auto simp: dom_def)

lemma lookup_unique:
  assumes "distinct (map key (elems c))" and "v \<in> set (elems c)"
  shows "lookup c (key v) = Some v"
proof (cases "lookup c (key v)")
  case None
  with assms(2) show ?thesis by (simp add: lookup_miss)
next
  case (Some w)
  with assms lookup_hit [OF Some] show ?thesis
    by (simp add: distinct_map inj_on_def)
qed

lemma known_keys:
  assumes "\<forall>k \<in> set ks. lookup c k \<noteq> None"
  shows "set ks \<subseteq> key ` set (elems c)"
  using assms lookup_miss by blast

end

lemma dict_by_hit: "dict_by key xs k = Some v \<Longrightarrow> v \<in> set xs \<and> key v = k"
  by (auto simp: dict_by_def find_Some_iff dest: nth_mem) (metis length_rev nth_mem set_rev)

lemma dict_by_miss: "dict_by key xs k = None \<longleftrightarrow> k \<notin> key ` set xs"
  by (auto simp: dict_by_def find_None_iff)

lemma dict_by_Nil [simp]: "dict_by key [] k = None"
  by (simp add: dict_by_def)

interpretation dict: index key "\<lambda>xs. xs" "dict_by key" for key :: "'v \<Rightarrow> 'k"
  by unfold_locales (rule dict_by_hit, assumption, rule dict_by_miss)

end
