(* ===== verification/PyText.thy ===== *)
theory PyText
  imports Prelude
begin

text \<open>
  Python strings over the Latin-1 code points: a \<open>char\<close> is one code point below 256, so
  \<open>length\<close> counts what Python's \<open>len\<close> counts.  The string methods the code calls
  (\<open>lower\<close>, \<open>strip\<close>, \<open>isalnum\<close>, \<open>split\<close>, \<open>in\<close>) are given on
  that range, and the constrained string types of \<open>specification/models_v1.1(1).py\<close>
  (identifiers, hashes, codes) as recognisers of their regular expressions.
\<close>

section \<open>Characters\<close>

definition code_point :: "char \<Rightarrow> nat" where
  "code_point c = of_char c"

definition between :: "nat \<Rightarrow> nat \<Rightarrow> char \<Rightarrow> bool" where
  "between lo hi c \<longleftrightarrow> lo \<le> code_point c \<and> code_point c \<le> hi"

definition is_lower :: "char \<Rightarrow> bool" where
  "is_lower c \<longleftrightarrow> between 97 122 c"

definition is_upper :: "char \<Rightarrow> bool" where
  "is_upper c \<longleftrightarrow> between 65 90 c"

definition is_digit :: "char \<Rightarrow> bool" where
  "is_digit c \<longleftrightarrow> between 48 57 c"

definition is_hex :: "char \<Rightarrow> bool" where
  "is_hex c \<longleftrightarrow> is_digit c \<or> between 97 102 c"

text \<open>\<open>str.isalpha\<close> and \<open>str.isalnum\<close> of one Latin-1 character: besides the letters, the
  superscript digits and the vulgar fractions count as alphanumeric.\<close>

definition isalpha :: "char \<Rightarrow> bool" where
  "isalpha c \<longleftrightarrow> is_lower c \<or> is_upper c \<or> code_point c \<in> {170, 181, 186}
     \<or> (between 192 255 c \<and> code_point c \<notin> {215, 247})"

definition isalnum :: "char \<Rightarrow> bool" where
  "isalnum c \<longleftrightarrow> isalpha c \<or> is_digit c \<or> code_point c \<in> {178, 179, 185, 188, 189, 190}"

definition lower_char :: "char \<Rightarrow> char" where
  "lower_char c = (if is_upper c \<or> (between 192 222 c \<and> code_point c \<noteq> 215)
     then char_of (code_point c + 32) else c)"

definition lower :: "string \<Rightarrow> string" where
  "lower s = map lower_char s"

text \<open>The white space that pydantic's \<open>str_strip_whitespace\<close> trims (Unicode
  \<open>White_Space\<close>), and the one of Python's \<open>str.strip()\<close>.\<close>

definition trim_space :: "char \<Rightarrow> bool" where
  "trim_space c \<longleftrightarrow> between 9 13 c \<or> code_point c \<in> {32, 133, 160}"

definition py_space :: "char \<Rightarrow> bool" where
  "py_space c \<longleftrightarrow> trim_space c \<or> between 28 31 c"

definition strip_by :: "(char \<Rightarrow> bool) \<Rightarrow> string \<Rightarrow> string" where
  "strip_by p s = rev (dropWhile p (rev (dropWhile p s)))"

definition trimmed :: "string \<Rightarrow> bool" where
  "trimmed s \<longleftrightarrow> strip_by trim_space s = s"

lemma set_strip_by: "set (strip_by p s) \<subseteq> set s"
  by (auto simp: strip_by_def dest!: set_dropWhileD)

lemma strip_by_id:
  assumes "s \<noteq> [] \<Longrightarrow> \<not> p (hd s)" and "s \<noteq> [] \<Longrightarrow> \<not> p (last s)"
  shows "strip_by p s = s"
proof (cases "s = []")
  case False
  then have "dropWhile p s = s" using assms(1) by (cases s) auto
  moreover have "dropWhile p (rev s) = rev s"
    using assms(2) False by (metis dropWhile_eq_self_iff hd_rev)
  ultimately show ?thesis by (simp add: strip_by_def)
qed (simp add: strip_by_def)

section \<open>Substrings\<close>

fun startswith :: "string \<Rightarrow> string \<Rightarrow> bool" where
  "startswith s [] = True"
| "startswith [] (p # ps) = False"
| "startswith (c # cs) (p # ps) = (c = p \<and> startswith cs ps)"

text \<open>\<open>sub in s\<close>.\<close>

fun contains :: "string \<Rightarrow> string \<Rightarrow> bool" where
  "contains sub [] = (sub = [])"
| "contains sub (c # cs) = (startswith (c # cs) sub \<or> contains sub cs)"

text \<open>\<open>s.split(sep)\<close> for a one-character separator, and \<open>sep.join\<close>.\<close>

fun split_on :: "char \<Rightarrow> string \<Rightarrow> string list" where
  "split_on d [] = [[]]"
| "split_on d (c # cs) =
     (if c = d then [] # split_on d cs
      else (case split_on d cs of [] \<Rightarrow> [[c]] | p # ps \<Rightarrow> (c # p) # ps))"

fun join_with :: "string \<Rightarrow> string list \<Rightarrow> string" where
  "join_with sep [] = []"
| "join_with sep [x] = x"
| "join_with sep (x # y # ys) = x @ sep @ join_with sep (y # ys)"

lemma split_on_not_Nil [simp]: "split_on d s \<noteq> []"
  by (induction s) (auto split: list.splits)

lemma join_split: "join_with [d] (split_on d s) = s"
proof (induction s)
  case (Cons c cs)
  obtain p ps where ps: "split_on d cs = p # ps"
    by (cases "split_on d cs") auto
  then show ?case using Cons by (cases ps) auto
qed simp

lemma startswith_iff: "startswith s p \<longleftrightarrow> (\<exists>t. s = p @ t)"
  by (induction s p rule: startswith.induct) auto

lemma contains_iff: "contains sub s \<longleftrightarrow> (\<exists>a b. s = a @ sub @ b)"
proof (induction s)
  case (Cons c cs)
  show ?case
  proof
    assume "contains sub (c # cs)"
    then consider t where "c # cs = sub @ t" | "contains sub cs"
      by (auto simp: startswith_iff)
    then show "\<exists>a b. c # cs = a @ sub @ b"
    proof cases
      case (1 t)
      then have "c # cs = [] @ sub @ t" by simp
      then show ?thesis by blast
    next
      case 2
      then obtain a b where "cs = a @ sub @ b" using Cons by blast
      then have "c # cs = (c # a) @ sub @ b" by simp
      then show ?thesis by blast
    qed
  next
    assume "\<exists>a b. c # cs = a @ sub @ b"
    then obtain a b where ab: "c # cs = a @ sub @ b" by blast
    show "contains sub (c # cs)"
    proof (cases a)
      case Nil
      with ab have "startswith (c # cs) sub" unfolding startswith_iff by simp
      then show ?thesis by simp
    next
      case (Cons x xs)
      with ab Cons.IH show ?thesis by auto
    qed
  qed
qed simp

section \<open>Decimal integers\<close>

definition digit_char :: "nat \<Rightarrow> char" where
  "digit_char n = char_of (48 + n)"

fun dec_nat :: "nat \<Rightarrow> string" where
  "dec_nat n = (if n < 10 then [digit_char n] else dec_nat (n div 10) @ [digit_char (n mod 10)])"

declare dec_nat.simps [simp del]

text \<open>\<open>str(i)\<close> of a Python integer.\<close>

definition dec :: "int \<Rightarrow> string" where
  "dec i = (if i < 0 then CHR ''-'' # dec_nat (nat (- i)) else dec_nat (nat i))"

lemma code_point_digit_char [simp]: "n < 10 \<Longrightarrow> code_point (digit_char n) = 48 + n"
  by (simp add: code_point_def digit_char_def)

lemma is_digit_digit_char [simp]: "n < 10 \<Longrightarrow> is_digit (digit_char n)"
  by (simp add: is_digit_def between_def)

lemma dec_nat_digits: "c \<in> set (dec_nat n) \<Longrightarrow> is_digit c"
proof (induction n rule: dec_nat.induct)
  case (1 n)
  then show ?case by (subst (asm) dec_nat.simps) (auto split: if_splits)
qed

lemma dec_nat_not_Nil [simp]: "dec_nat n \<noteq> []"
  by (subst dec_nat.simps) simp

section \<open>The constrained string types of the contracts\<close>

text \<open>\<open>Field(min_length=lo, max_length=hi)\<close> on a string of a \<open>StrictModel\<close>: the value
  held is the trimmed one, and its length is checked after trimming.\<close>

definition str_field :: "nat \<Rightarrow> nat \<Rightarrow> string \<Rightarrow> bool" where
  "str_field lo hi s \<longleftrightarrow> trimmed s \<and> lo \<le> length s \<and> length s \<le> hi"

definition head_then :: "(char \<Rightarrow> bool) \<Rightarrow> (char \<Rightarrow> bool) \<Rightarrow> string \<Rightarrow> bool" where
  "head_then p q s = (case s of [] \<Rightarrow> False | c # cs \<Rightarrow> p c \<and> list_all q cs)"

definition id_char :: "char \<Rightarrow> bool" where
  "id_char c \<longleftrightarrow> is_lower c \<or> is_digit c \<or> c = CHR ''_'' \<or> c = CHR ''-''"

definition Id_ok :: "string \<Rightarrow> bool" where
  "Id_ok s \<longleftrightarrow> 3 \<le> length s \<and> length s \<le> 128 \<and> head_then is_lower id_char s"

definition uuid_pattern :: "string \<Rightarrow> bool" where
  "uuid_pattern s \<longleftrightarrow>
     (let ps = split_on (CHR ''-'') s
      in map length ps = [8, 4, 4, 4, 12] \<and> list_all (list_all is_hex) ps)"

definition PrincipalId_ok :: "string \<Rightarrow> bool" where
  "PrincipalId_ok s \<longleftrightarrow> 3 \<le> length s \<and> length s \<le> 128
     \<and> (head_then is_lower id_char s \<or> uuid_pattern s)"

definition Hash_ok :: "string \<Rightarrow> bool" where
  "Hash_ok s \<longleftrightarrow> startswith s ''sha256:'' \<and> length s = 71 \<and> list_all is_hex (drop 7 s)"

text \<open>\<open>^[A-Z][A-Z0-9_]{2,n}$\<close>: diagnostic and reason codes have \<open>n = 63\<close>, stage names
  \<open>n = 127\<close>.\<close>

definition upper_code_char :: "char \<Rightarrow> bool" where
  "upper_code_char c \<longleftrightarrow> is_upper c \<or> is_digit c \<or> c = CHR ''_''"

definition upper_code :: "nat \<Rightarrow> string \<Rightarrow> bool" where
  "upper_code n s \<longleftrightarrow> 3 \<le> length s \<and> length s \<le> Suc n \<and> head_then is_upper upper_code_char s"

lemma Id_lengthD: "Id_ok s \<Longrightarrow> 3 \<le> length s \<and> length s \<le> 128"
  by (simp add: Id_ok_def)

lemma Id_not_Nil: "Id_ok s \<Longrightarrow> s \<noteq> []"
  by (auto simp: Id_ok_def)

lemma Id_Principal: "Id_ok s \<Longrightarrow> PrincipalId_ok s"
  by (simp add: Id_ok_def PrincipalId_ok_def)

end
