(* ===== verification/PyFloat.thy ===== *)
theory PyFloat
  imports Prelude "HOL-Library.Log_Nat"
begin

text \<open>
  Python's \<open>float\<close> is an IEEE 754 binary64 number.  A finite one is a rational, so floats
  are modelled as rationals, and every arithmetic operation of the code is the exact rational
  operation followed by \<open>fl\<close>, the rounding to nearest, ties to even, with 53 significant bits
  and gradual underflow below exponent -1074.  Comparisons need no rounding.  Infinities, NaN and
  the sign of zero are not represented: every float of the modelled code is a bounded score, weight,
  cost or clock reading.
\<close>

type_synonym pyfloat = rat

section \<open>Rounding to binary64\<close>

definition two_pow :: "int \<Rightarrow> rat" where
  "two_pow e = (if 0 \<le> e then 2 ^ nat e else 1 / 2 ^ nat (- e))"

text \<open>The exponent of the leading bit of a positive rational.\<close>

definition exponent2 :: "rat \<Rightarrow> int" where
  "exponent2 x = (let (p, q) = quotient_of x; e = bitlen p - bitlen q
     in if two_pow e \<le> x then e else e - 1)"

definition round_half_even :: "rat \<Rightarrow> int" where
  "round_half_even y =
     (let f = \<lfloor>y\<rfloor>; d = y - of_int f
      in if d < 1 / 2 then f else if 1 / 2 < d then f + 1 else if even f then f else f + 1)"

definition last_bit :: "rat \<Rightarrow> int" where
  "last_bit x = max (exponent2 x - 52) (- 1074)"

definition fl_pos :: "rat \<Rightarrow> rat" where
  "fl_pos x = of_int (round_half_even (x / two_pow (last_bit x))) * two_pow (last_bit x)"

definition fl :: "rat \<Rightarrow> rat" where
  "fl x = (if x = 0 then 0 else if 0 < x then fl_pos x else - fl_pos (- x))"

definition fadd :: "rat \<Rightarrow> rat \<Rightarrow> rat" where
  "fadd a b = fl (a + b)"

definition fsub :: "rat \<Rightarrow> rat \<Rightarrow> rat" where
  "fsub a b = fl (a - b)"

definition fmul :: "rat \<Rightarrow> rat \<Rightarrow> rat" where
  "fmul a b = fl (a * b)"

text \<open>\<open>a / b\<close> of two Python integers with \<open>b \<noteq> 0\<close> is the correctly rounded quotient.\<close>

definition int_truediv :: "int \<Rightarrow> int \<Rightarrow> rat" where
  "int_truediv a b = fl (of_int a / of_int b)"

text \<open>
  \<open>sum(xs)\<close> of a list of floats in CPython 3.12: the running sum starts at the integer zero,
  the first element is added to it, and from then on the rounding errors are collected in a
  compensation term that is added at the end (Neumaier's variant of Kahan summation).
\<close>

fun comp_sum :: "rat \<Rightarrow> rat \<Rightarrow> rat list \<Rightarrow> rat \<times> rat" where
  "comp_sum s c [] = (s, c)"
| "comp_sum s c (x # xs) =
     (let t = fadd s x;
          c' = fadd c (if \<bar>x\<bar> \<le> \<bar>s\<bar> then fadd (fsub s t) x else fadd (fsub x t) s)
      in comp_sum t c' xs)"

definition py_sum :: "rat list \<Rightarrow> rat" where
  "py_sum xs = (case xs of [] \<Rightarrow> 0
     | x # rest \<Rightarrow> (let (s, c) = comp_sum (fadd 0 x) 0 rest in if c = 0 then s else fadd s c))"

section \<open>Powers of two and the leading bit\<close>

lemma two_pow_pos [simp]: "0 < two_pow e"
  by (simp add: two_pow_def)

lemma two_pow_not_neg [simp]: "\<not> two_pow e < 0"
  using two_pow_pos [of e] by linarith

lemma two_pow_nonzero [simp]: "two_pow e \<noteq> 0"
  using two_pow_pos [of e] by linarith

lemma two_pow_powi: "two_pow e = 2 powi e"
  by (auto simp: two_pow_def power_int_def field_simps)

lemma two_pow_add: "two_pow (a + b) = two_pow a * two_pow b"
  by (simp add: two_pow_powi power_int_add)

lemma two_pow_diff: "two_pow a / two_pow b = two_pow (a - b)"
  by (simp add: two_pow_powi power_int_diff)

lemma two_pow_mono: "a \<le> b \<Longrightarrow> two_pow a \<le> two_pow b"
  by (simp add: two_pow_powi power_int_increasing)

lemma two_pow_less_iff: "two_pow a < two_pow b \<longleftrightarrow> a < b"
  by (metis linorder_not_le two_pow_mono order_less_imp_not_less two_pow_powi
      power_int_strict_increasing one_less_numeral_iff semiring_norm(76))

lemma two_pow_nat: "0 \<le> e \<Longrightarrow> two_pow e = of_int (2 ^ nat e)"
  by (simp add: two_pow_def)

lemma exponent2_bounds:
  assumes "0 < x"
  shows "two_pow (exponent2 x) \<le> x \<and> x < two_pow (exponent2 x + 1)"
proof -
  obtain p q where pq: "quotient_of x = (p, q)" by fastforce
  have x: "x = of_int p / of_int q" by (rule quotient_of_div [OF pq])
  have q: "0 < q" by (rule quotient_of_denom_pos [OF pq])
  with assms x have p: "0 < p" by (simp add: zero_less_divide_iff)
  define a where "a = bitlen p"
  define b where "b = bitlen q"
  have ab: "1 \<le> a" "1 \<le> b"
    using bitlen_nonneg[of p] bitlen_nonneg[of q] p q bitlen_eq_zero_iff[of p] bitlen_eq_zero_iff[of q]
    unfolding a_def b_def by linarith+
  have pb: "2 ^ nat (a - 1) \<le> p" "p < 2 ^ nat a"
    using bitlen_bounds [OF p] by (simp_all add: a_def)
  have qb: "2 ^ nat (b - 1) \<le> q" "q < 2 ^ nat b"
    using bitlen_bounds [OF q] by (simp_all add: b_def)
  have P: "two_pow (a - 1) \<le> of_int p" "of_int p < two_pow a"
    using pb ab by (simp_all add: two_pow_nat del: of_int_power)
  have Q: "two_pow (b - 1) \<le> of_int q" "of_int q < two_pow b"
    using qb ab by (simp_all add: two_pow_nat del: of_int_power)
  have "x < two_pow a / two_pow (b - 1)"
    unfolding x using P Q q p by (intro frac_less) simp_all
  then have up: "x < two_pow (a - b + 1)" by (simp add: two_pow_diff algebra_simps)
  have "two_pow (a - 1) / two_pow b \<le> x"
    unfolding x using P Q q p by (intro frac_le) simp_all
  then have lo: "two_pow (a - b - 1) \<le> x" by (simp add: two_pow_diff algebra_simps)
  show ?thesis
    using up lo by (simp add: exponent2_def pq Let_def a_def b_def not_le)
qed

lemma exponent2_unique:
  assumes "two_pow e \<le> x" and "x < two_pow (e + 1)"
  shows "exponent2 x = e"
proof -
  have "0 < x" using assms(1) two_pow_pos [of e] by linarith
  note b = exponent2_bounds [OF this]
  have "two_pow e < two_pow (exponent2 x + 1)" using assms b by linarith
  moreover have "two_pow (exponent2 x) < two_pow (e + 1)" using assms b by linarith
  ultimately show ?thesis by (simp add: two_pow_less_iff)
qed

lemma exponent2_mono:
  assumes "0 < x" and "x \<le> y"
  shows "exponent2 x \<le> exponent2 y"
proof -
  have "two_pow (exponent2 x) < two_pow (exponent2 y + 1)"
    using exponent2_bounds [of x] exponent2_bounds [of y] assms by linarith
  then show ?thesis by (simp add: two_pow_less_iff)
qed

section \<open>Rounding is monotone and exact on representable numbers\<close>

lemma round_half_even_of_int [simp]: "round_half_even (of_int n) = n"
  by (simp add: round_half_even_def)

lemma round_half_even_cases:
  "round_half_even y = \<lfloor>y\<rfloor> \<or> round_half_even y = \<lfloor>y\<rfloor> + 1"
  by (simp add: round_half_even_def Let_def)

lemma round_half_even_mono:
  assumes "x \<le> y"
  shows "round_half_even x \<le> round_half_even y"
proof (cases "\<lfloor>x\<rfloor> = \<lfloor>y\<rfloor>")
  case True
  with assms show ?thesis by (auto simp: round_half_even_def Let_def)
next
  case False
  with floor_mono [OF assms] have "\<lfloor>x\<rfloor> + 1 \<le> \<lfloor>y\<rfloor>" by linarith
  with round_half_even_cases [of x] round_half_even_cases [of y] show ?thesis by linarith
qed

lemma last_bit_mono: "0 < x \<Longrightarrow> x \<le> y \<Longrightarrow> last_bit x \<le> last_bit y"
  using exponent2_mono [of x y] by (simp add: last_bit_def)

lemma fl_pos_le_int:
  assumes "0 < x" and "x \<le> of_int n * two_pow (last_bit x)"
  shows "fl_pos x \<le> of_int n * two_pow (last_bit x)"
proof -
  have "x / two_pow (last_bit x) \<le> of_int n"
    using assms(2) by (simp add: divide_le_eq)
  from round_half_even_mono [OF this] show ?thesis
    by (simp add: fl_pos_def)
qed

lemma fl_pos_ge_int:
  assumes "0 < x" and "of_int n * two_pow (last_bit x) \<le> x"
  shows "of_int n * two_pow (last_bit x) \<le> fl_pos x"
proof -
  have "of_int n \<le> x / two_pow (last_bit x)"
    using assms(2) by (simp add: le_divide_eq)
  from round_half_even_mono [OF this] show ?thesis
    by (simp add: fl_pos_def)
qed

lemma fl_pos_mono:
  assumes "0 < x" and "x \<le> y"
  shows "fl_pos x \<le> fl_pos y"
proof (cases "last_bit x = last_bit y")
  case True
  have "x / two_pow (last_bit y) \<le> y / two_pow (last_bit y)"
    using assms(2) by (intro divide_right_mono) (simp_all add: less_imp_le)
  from round_half_even_mono [OF this] True show ?thesis
    by (simp add: fl_pos_def)
next
  case False
  with last_bit_mono [OF assms] have lt: "last_bit x < last_bit y" by simp
  define e where "e = exponent2 y"
  have ey: "last_bit y = e - 52" and ex: "exponent2 x < e"
    using lt exponent2_mono [OF assms] by (auto simp: last_bit_def e_def max_def split: if_splits)
  have y0: "0 < y" using assms by linarith
  have "two_pow (exponent2 x + 1) \<le> two_pow e" using ex by (intro two_pow_mono) simp
  then have xe: "x \<le> two_pow e" using exponent2_bounds [OF assms(1)] by linarith
  have split: "two_pow e = of_int (2 ^ nat (e - k)) * two_pow k" if "k \<le> e" for k
    using that two_pow_add [of "e - k" k] by (simp add: two_pow_nat)
  have "fl_pos x \<le> two_pow e"
    using fl_pos_le_int [OF assms(1), of "2 ^ nat (e - last_bit x)"] split [of "last_bit x"] xe lt ey
    by simp
  moreover have "two_pow e \<le> fl_pos y"
    using fl_pos_ge_int [OF y0, of "2 ^ nat (e - last_bit y)"] split [of "last_bit y"] ey
      exponent2_bounds [OF y0] by (simp add: e_def)
  ultimately show ?thesis by linarith
qed

lemma fl_pos_nonneg: "0 < x \<Longrightarrow> 0 \<le> fl_pos x"
  using fl_pos_ge_int [of x 0] by simp

theorem fl_mono: "x \<le> y \<Longrightarrow> fl x \<le> fl y"
  using fl_pos_mono [of x y] fl_pos_mono [of "- y" "- x"] fl_pos_nonneg [of y] fl_pos_nonneg [of "- x"]
  by (auto simp: fl_def)

lemma fl_pos_exact:
  assumes "0 < m" and "m < 2 ^ 53" and "- 1074 \<le> j"
  shows "fl_pos (of_int m * two_pow j) = of_int m * two_pow j"
proof -
  let ?x = "of_int m * two_pow j"
  have pos: "0 < ?x" using assms(1) by simp
  have "of_int m < two_pow 53" using assms(2) by (simp add: two_pow_def)
  then have "?x < two_pow (53 + j)" by (simp add: two_pow_add)
  then have "two_pow (exponent2 ?x) < two_pow (53 + j)"
    using exponent2_bounds [OF pos] by linarith
  then have le: "last_bit ?x \<le> j"
    using assms(3) by (simp add: two_pow_less_iff last_bit_def)
  define k where "k = last_bit ?x"
  have "?x / two_pow k = of_int (m * 2 ^ nat (j - k))"
    using le two_pow_diff [of j k] by (simp add: k_def two_pow_nat flip: times_divide_eq_right)
  then have "?x = of_int (m * 2 ^ nat (j - k)) * two_pow k" by (simp add: field_simps)
  moreover have "fl_pos ?x = of_int (m * 2 ^ nat (j - k)) * two_pow k"
    unfolding fl_pos_def k_def [symmetric] \<open>?x / two_pow k = _\<close> round_half_even_of_int ..
  ultimately show ?thesis by (rule trans [OF _ sym, rotated])
qed

theorem fl_exact:
  assumes "\<bar>m\<bar> < 2 ^ 53" and "- 1074 \<le> j"
  shows "fl (of_int m * two_pow j) = of_int m * two_pow j"
  using fl_pos_exact [of m j] fl_pos_exact [of "- m" j] assms
  by (auto simp: fl_def zero_less_mult_iff not_less)

lemma fl_zero [simp]: "fl 0 = 0"
  by (simp add: fl_def)

lemma fl_of_int: "\<bar>n\<bar> < 2 ^ 53 \<Longrightarrow> fl (of_int n) = of_int n"
  using fl_exact [of n 0] by (simp add: two_pow_def)

lemma fl_one [simp]: "fl 1 = 1"
  using fl_of_int [of 1] by simp

lemma fl_nonneg: "0 \<le> x \<Longrightarrow> 0 \<le> fl x"
  using fl_mono [of 0 x] by simp

lemma fl_unit: "0 \<le> x \<Longrightarrow> x \<le> 1 \<Longrightarrow> 0 \<le> fl x \<and> fl x \<le> 1"
  using fl_mono [of 0 x] fl_mono [of x 1] by simp

lemma fl_int_upper: "x \<le> of_int n \<Longrightarrow> \<bar>n\<bar> < 2 ^ 53 \<Longrightarrow> fl x \<le> of_int n"
  using fl_mono [of x "of_int n"] by (simp add: fl_of_int)

lemma fl_int_lower: "of_int n \<le> x \<Longrightarrow> \<bar>n\<bar> < 2 ^ 53 \<Longrightarrow> of_int n \<le> fl x"
  using fl_mono [of "of_int n" x] by (simp add: fl_of_int)

lemma int_truediv_unit:
  "0 \<le> a \<Longrightarrow> a \<le> b \<Longrightarrow> 0 < b \<Longrightarrow> 0 \<le> int_truediv a b \<and> int_truediv a b \<le> 1"
  unfolding int_truediv_def by (rule fl_unit) simp_all

lemma int_truediv_zero [simp]: "int_truediv 0 b = 0"
  by (simp add: int_truediv_def)

end
