(* ===== verification/Canonical.thy ===== *)
theory Canonical
  imports PyText PyFloat "HOL-Library.Word"
begin

text \<open>
  \<open>canonical.py\<close>: JSON values, their canonical serialisation, SHA-256 and the stable
  identifiers derived from it.  \<open>hashlib.sha256\<close> and \<open>json.dumps\<close> belong to the
  standard library and are written out, so that a digest is a value of the model and not an
  uninterpreted symbol.  The locale \<open>id_supply\<close> is the interface under which the other
  components use stable identifiers; it is interpreted on \<open>stable_id\<close> at the end.
\<close>

unbundle bit_operations_syntax

section \<open>JSON values\<close>

text \<open>An object is the list of its items in insertion order, as a Python dictionary is.\<close>

datatype json = JNull | JBool bool | JInt int | JFloat pyfloat | JStr string
  | JList "json list" | JObj "(string \<times> json) list"

section \<open>The shortest decimal of a float\<close>

fun scan10 :: "nat \<Rightarrow> rat \<Rightarrow> nat" where
  "scan10 0 x = 0"
| "scan10 (Suc fuel) x = (if 1 \<le> x then 0 else Suc (scan10 fuel (10 * x)))"

definition exponent10 :: "rat \<Rightarrow> int" where
  "exponent10 x = (if 1 \<le> x then int (length (dec_nat (nat \<lfloor>x\<rfloor>))) - 1 else - int (scan10 400 x))"

definition ten_pow :: "int \<Rightarrow> rat" where
  "ten_pow e = (if 0 \<le> e then 10 ^ nat e else 1 / 10 ^ nat (- e))"

text \<open>The candidates with \<open>n\<close> significant digits on either side of \<open>x\<close> that read back
  as \<open>x\<close>, and the first length at which there is one.\<close>

definition digit_candidates :: "rat \<Rightarrow> nat \<Rightarrow> int list" where
  "digit_candidates x n =
     (let u = ten_pow (exponent10 x - int n + 1); f = \<lfloor>x / u\<rfloor>;
          near = (if x / u - of_int f \<le> 1 / 2 then [f, f + 1] else [f + 1, f])
      in filter (\<lambda>d. fl (of_int d * u) = x) near)"

definition shortest_digits :: "rat \<Rightarrow> int \<times> int" where
  "shortest_digits x =
     (case filter (\<lambda>n. digit_candidates x n \<noteq> []) [1..<18] of
        [] \<Rightarrow> (0, 0)
      | n # _ \<Rightarrow> (hd (digit_candidates x n), exponent10 x - int n + 1))"

fun drop_zeros :: "string \<Rightarrow> string" where
  "drop_zeros (CHR ''0'' # c # cs) = drop_zeros (c # cs)"
| "drop_zeros cs = cs"

definition pos_float_repr :: "rat \<Rightarrow> string" where
  "pos_float_repr x =
     (let (d, e) = shortest_digits x;
          all_ds = dec_nat (nat d);
          ds = rev (drop_zeros (rev all_ds));
          decpt = int (length all_ds) + e
      in if decpt \<le> - 4 \<or> 16 < decpt then
           (let ex = decpt - 1; a = dec_nat (nat \<bar>ex\<bar>)
            in [hd ds] @ (if tl ds = [] then [] else CHR ''.'' # tl ds) @ ''e''
               @ (if ex < 0 then ''-'' else ''+'') @ (if length a < 2 then ''0'' @ a else a))
         else if decpt \<le> 0 then ''0.'' @ replicate (nat (- decpt)) (CHR ''0'') @ ds
         else if int (length ds) \<le> decpt then
           ds @ replicate (nat decpt - length ds) (CHR ''0'') @ ''.0''
         else take (nat decpt) ds @ ''.'' @ drop (nat decpt) ds)"

definition float_repr :: "pyfloat \<Rightarrow> string" where
  "float_repr x = (if x = 0 then ''0.0'' else if x < 0 then ''-'' @ pos_float_repr (- x)
     else pos_float_repr x)"

section \<open>Canonical JSON text\<close>

definition hex_digit :: "nat \<Rightarrow> char" where
  "hex_digit n = (if n < 10 then char_of (48 + n) else char_of (87 + n))"

text \<open>\<open>ensure_ascii=False\<close>: only the quote, the backslash and the control characters are
  escaped.\<close>

definition escape_char :: "char \<Rightarrow> string" where
  "escape_char c =
     (let n = code_point c in
      if n = 34 then [CHR 0x5C, CHR 0x22]
      else if n = 92 then [CHR 0x5C, CHR 0x5C]
      else if n = 10 then [CHR 0x5C, CHR ''n'']
      else if n = 13 then [CHR 0x5C, CHR ''r'']
      else if n = 9 then [CHR 0x5C, CHR ''t'']
      else if n = 12 then [CHR 0x5C, CHR ''f'']
      else if n = 8 then [CHR 0x5C, CHR ''b'']
      else if n < 32 then [CHR 0x5C, CHR ''u'', CHR ''0'', CHR ''0'', hex_digit (n div 16), hex_digit (n mod 16)]
      else [c])"

definition quote :: "string \<Rightarrow> string" where
  "quote s = [CHR 0x22] @ concat (map escape_char s) @ [CHR 0x22]"

text \<open>\<open>sort_keys=True\<close> at every level, separators without spaces.\<close>

fun dumps :: "json \<Rightarrow> string" where
  "dumps JNull = ''null''"
| "dumps (JBool b) = (if b then ''true'' else ''false'')"
| "dumps (JInt i) = dec i"
| "dumps (JFloat x) = float_repr x"
| "dumps (JStr s) = quote s"
| "dumps (JList xs) = ''['' @ join_with '','' (map dumps xs) @ '']''"
| "dumps (JObj kvs) = ''{'' @ join_with '',''
     (map (\<lambda>(k, t). quote k @ '':'' @ t)
        (sort_key fst (map (\<lambda>(k, v). (k, dumps v)) kvs))) @ ''}''"

definition utf8_char :: "char \<Rightarrow> 8 word list" where
  "utf8_char c = (let n = code_point c in
     if n < 128 then [word_of_nat n] else [word_of_nat (192 + n div 64), word_of_nat (128 + n mod 64)])"

definition utf8 :: "string \<Rightarrow> 8 word list" where
  "utf8 s = concat (map utf8_char s)"

definition canonical_bytes :: "json \<Rightarrow> 8 word list" where
  "canonical_bytes v = utf8 (dumps v)"

section \<open>SHA-256\<close>

type_synonym word32 = "32 word"

text \<open>The round constants, two in each double word.\<close>

definition halves :: "64 word \<Rightarrow> word32 list" where
  "halves w = [ucast (drop_bit 32 w), ucast w]"

definition sha_k :: "word32 list" where
  "sha_k = concat (map halves [
     0x428a2f9871374491, 0xb5c0fbcfe9b5dba5, 0x3956c25b59f111f1, 0x923f82a4ab1c5ed5,
     0xd807aa9812835b01, 0x243185be550c7dc3, 0x72be5d7480deb1fe, 0x9bdc06a7c19bf174,
     0xe49b69c1efbe4786, 0x0fc19dc6240ca1cc, 0x2de92c6f4a7484aa, 0x5cb0a9dc76f988da,
     0x983e5152a831c66d, 0xb00327c8bf597fc7, 0xc6e00bf3d5a79147, 0x06ca635114292967,
     0x27b70a852e1b2138, 0x4d2c6dfc53380d13, 0x650a7354766a0abb, 0x81c2c92e92722c85,
     0xa2bfe8a1a81a664b, 0xc24b8b70c76c51a3, 0xd192e819d6990624, 0xf40e3585106aa070,
     0x19a4c1161e376c08, 0x2748774c34b0bcb5, 0x391c0cb34ed8aa4a, 0x5b9cca4f682e6ff3,
     0x748f82ee78a5636f, 0x84c878148cc70208, 0x90befffaa4506ceb, 0xbef9a3f7c67178f2])"

definition sha_init :: "word32 list" where
  "sha_init = [
     0x6a09e667, 0xbb67ae85, 0x3c6ef372, 0xa54ff53a,
     0x510e527f, 0x9b05688c, 0x1f83d9ab, 0x5be0cd19]"

definition word_bytes :: "nat \<Rightarrow> nat \<Rightarrow> 8 word list" where
  "word_bytes n k = map (\<lambda>i. word_of_nat (n div 256 ^ i)) (rev [0..<k])"

text \<open>A one bit, zeros up to eight bytes short of a block, and the length in bits.\<close>

definition sha_pad :: "8 word list \<Rightarrow> 8 word list" where
  "sha_pad bs = bs @ [0x80] @ replicate ((119 - length bs mod 64) mod 64) 0 @ word_bytes (8 * length bs) 8"

function chunks :: "nat \<Rightarrow> 'a list \<Rightarrow> 'a list list" where
  "chunks n xs = (if n = 0 \<or> xs = [] then [] else take n xs # chunks n (drop n xs))"
  by pat_completeness auto
termination
  by (relation "measure (\<lambda>(n, xs). length xs)") auto

declare chunks.simps [simp del]

definition word32_of :: "8 word list \<Rightarrow> word32" where
  "word32_of bs = foldl (\<lambda>w b. push_bit 8 w OR ucast b) 0 bs"

definition small_sigma0 :: "word32 \<Rightarrow> word32" where
  "small_sigma0 w = word_rotr 7 w XOR word_rotr 18 w XOR drop_bit 3 w"

definition small_sigma1 :: "word32 \<Rightarrow> word32" where
  "small_sigma1 w = word_rotr 17 w XOR word_rotr 19 w XOR drop_bit 10 w"

definition big_sigma0 :: "word32 \<Rightarrow> word32" where
  "big_sigma0 w = word_rotr 2 w XOR word_rotr 13 w XOR word_rotr 22 w"

definition big_sigma1 :: "word32 \<Rightarrow> word32" where
  "big_sigma1 w = word_rotr 6 w XOR word_rotr 11 w XOR word_rotr 25 w"

fun extend_schedule :: "nat \<Rightarrow> word32 list \<Rightarrow> word32 list" where
  "extend_schedule 0 ws = ws"
| "extend_schedule (Suc n) ws =
     (let i = length ws in extend_schedule n
        (ws @ [small_sigma1 (ws ! (i - 2)) + ws ! (i - 7) + small_sigma0 (ws ! (i - 15)) + ws ! (i - 16)]))"

fun sha_round :: "word32 list \<Rightarrow> word32 \<times> word32 \<Rightarrow> word32 list" where
  "sha_round [a, b, c, d, e, f, g, h] (k, w) =
     (let t1 = h + big_sigma1 e + ((e AND f) XOR (NOT e AND g)) + k + w;
          t2 = big_sigma0 a + ((a AND b) XOR (a AND c) XOR (b AND c))
      in [t1 + t2, a, b, c, d + t1, e, f, g])"
| "sha_round st _ = st"

definition sha_block :: "word32 list \<Rightarrow> 8 word list \<Rightarrow> word32 list" where
  "sha_block st block =
     (let ws = extend_schedule 48 (map word32_of (chunks 4 block))
      in map2 (+) st (foldl sha_round st (zip sha_k ws)))"

definition sha256 :: "8 word list \<Rightarrow> word32 list" where
  "sha256 bs = foldl sha_block sha_init (chunks 64 (sha_pad bs))"

definition hex_word :: "word32 \<Rightarrow> string" where
  "hex_word w = map (\<lambda>i. hex_digit (unat (drop_bit (4 * i) w AND 15))) (rev [0..<8])"

definition hexdigest :: "8 word list \<Rightarrow> string" where
  "hexdigest bs = concat (map hex_word (sha256 bs))"

section \<open>Hashes and stable identifiers\<close>

definition sha256_bytes :: "8 word list \<Rightarrow> string" where
  "sha256_bytes bs = ''sha256:'' @ hexdigest bs"

definition sha256_text :: "string \<Rightarrow> string" where
  "sha256_text s = sha256_bytes (utf8 s)"

definition canonical_hash :: "json \<Rightarrow> string" where
  "canonical_hash v = sha256_bytes (canonical_bytes v)"

definition normalized_prefix :: "string \<Rightarrow> string" where
  "normalized_prefix p = strip_by (\<lambda>c. c = CHR ''_'')
     (filter (\<lambda>c. isalnum c \<or> c = CHR ''_'') (lower p))"

definition stable_id_length :: "nat \<Rightarrow> string \<Rightarrow> json list \<Rightarrow> string + string" where
  "stable_id_length n p parts =
     (let np = normalized_prefix p in
      if np = [] \<or> \<not> isalpha (hd np)
      then Inl ''stable ID prefix must begin with a letter''
      else Inr (np @ ''_'' @ take n (hexdigest (canonical_bytes (JList parts)))))"

abbreviation stable_id :: "string \<Rightarrow> json list \<Rightarrow> string + string" where
  "stable_id \<equiv> stable_id_length 20"

section \<open>The shape of digests and identifiers\<close>

lemma hex_digit_is_hex: "n < 16 \<Longrightarrow> is_hex (hex_digit n)"
  by (auto simp: hex_digit_def is_hex_def is_digit_def between_def code_point_def)

lemma nibble_less: "unat (w AND 15 :: word32) < 16"
proof -
  have "unat (w AND 15) \<le> unat (15 :: word32)"
    using word_and_le1 [of w 15] by (simp only: word_le_nat_alt)
  then show ?thesis by simp
qed

lemma hex_word_hex: "list_all is_hex (hex_word w)"
  by (simp add: hex_word_def list_all_iff hex_digit_is_hex nibble_less)

lemma length_hex_word [simp]: "length (hex_word w) = 8"
  by (simp add: hex_word_def)

lemma length_sha_round: "length st = 8 \<Longrightarrow> length (sha_round st kw) = 8"
  by (cases "(st, kw)" rule: sha_round.cases) (simp_all add: Let_def)

lemma length_sha_rounds: "length st = 8 \<Longrightarrow> length (foldl sha_round st kws) = 8"
  by (induction kws arbitrary: st) (simp_all add: length_sha_round)

lemma length_sha_block: "length st = 8 \<Longrightarrow> length (sha_block st b) = 8"
  by (simp add: sha_block_def Let_def length_sha_rounds)

lemma length_sha_blocks: "length st = 8 \<Longrightarrow> length (foldl sha_block st bs) = 8"
  by (induction bs arbitrary: st) (simp_all add: length_sha_block)

lemma length_sha256 [simp]: "length (sha256 bs) = 8"
  unfolding sha256_def by (rule length_sha_blocks) (simp add: sha_init_def)

lemma length_concat_const: "\<forall>x \<in> set xs. length (f x) = n \<Longrightarrow> length (concat (map f xs)) = n * length xs"
  by (induction xs) simp_all

lemma length_hexdigest [simp]: "length (hexdigest bs) = 64"
  using length_concat_const [of "sha256 bs" hex_word 8] by (simp add: hexdigest_def)

lemma hexdigest_hex: "list_all is_hex (hexdigest bs)"
  using hex_word_hex by (auto simp: hexdigest_def list_all_iff)

lemma hex_id_char: "is_hex c \<Longrightarrow> id_char c"
  by (auto simp: is_hex_def id_char_def is_lower_def between_def)

lemma Hash_sha256_bytes [simp]: "Hash_ok (sha256_bytes bs)"
  by (simp add: Hash_ok_def sha256_bytes_def startswith_iff hexdigest_hex)

lemma Hash_canonical_hash [simp]: "Hash_ok (canonical_hash v)"
  by (simp add: canonical_hash_def)

text \<open>
  A prefix is good when what is left of it begins with an ASCII lower-case letter and consists of
  identifier characters, with room for the underscore and the digest.
\<close>

definition good_prefix :: "string \<Rightarrow> bool" where
  "good_prefix p \<longleftrightarrow> head_then is_lower id_char (normalized_prefix p) \<and> length (normalized_prefix p) \<le> 100"

lemma take_hex_id: "c \<in> set (take n (hexdigest bs)) \<Longrightarrow> id_char c"
  using hexdigest_hex [of bs] by (auto simp: list_all_iff dest!: in_set_takeD intro: hex_id_char)

lemma stable_id_good:
  assumes "good_prefix p" and "1 \<le> n" and "n \<le> 24"
  shows "\<exists>s. stable_id_length n p parts = Inr s \<and> Id_ok s"
proof -
  obtain c cs where np: "normalized_prefix p = c # cs" "is_lower c" "list_all id_char cs" "length cs < 100"
    using assms(1) by (auto simp: good_prefix_def head_then_def split: list.splits)
  have "isalpha c" using np(2) by (simp add: isalpha_def)
  moreover have "Id_ok ((c # cs) @ ''_'' @ take n (hexdigest (canonical_bytes (JList parts))))"
    using np assms(2,3) by (auto simp: Id_ok_def head_then_def list_all_iff id_char_def [of "CHR ''_''"]
        dest: take_hex_id)
  ultimately show ?thesis
    using np by (simp add: stable_id_length_def)
qed

text \<open>
  What the planner, the job store and the gateway rely on when they mint an identifier: for the
  prefixes they use, no exception and a valid identifier.
\<close>

locale id_supply =
  fixes mk :: "string \<Rightarrow> json list \<Rightarrow> string + string"
    and good :: "string \<Rightarrow> bool"
  assumes mk_good: "good p \<Longrightarrow> \<exists>s. mk p parts = Inr s \<and> Id_ok s"
begin

lemma mk_Inr: "good p \<Longrightarrow> mk p parts = Inr (projr (mk p parts))"
  using mk_good [of p parts] by auto

lemma mk_valid: "good p \<Longrightarrow> mk p parts = Inr s \<Longrightarrow> Id_ok s"
  using mk_good [of p parts] by auto

lemma mk_no_error: "good p \<Longrightarrow> mk p parts \<noteq> Inl e"
  using mk_good [of p parts] by auto

lemma mk_Id: "good p \<Longrightarrow> Id_ok (projr (mk p parts))"
  using mk_good [of p parts] by auto

end

interpretation ids: id_supply stable_id good_prefix
  by unfold_locales (rule stable_id_good, simp_all)

end
