(* ===== verification/ContractsBase.thy ===== *)
theory ContractsBase
  imports Canonical
begin

text \<open>
  The canonical contracts of \<open>specification/models_v1.1(1).py\<close>, first part: the helpers, the
  enumerations, diagnostics, source locators, artifacts, evidence and the prompt envelope.

  Each \<open>StrictModel\<close> class \<open>C\<close> is a record \<open>C\<close> with the class's fields in order, and
  \<open>C_validate\<close> is what its constructor checks: the declared constraints of every field (and
  of every nested model), then the class's \<open>model_validator\<close> branch by branch.  A value is
  \<open>C_validate\<close>-clean exactly when the constructor can return it.  A record holds the values after
  pydantic has parsed and trimmed them (\<open>str_strip_whitespace\<close>), so constrained strings are
  required to be trimmed; unknown keys (\<open>extra="forbid"\<close>) cannot be written in a record.
  \<open>Literal\<close> types are strings with a membership constraint, as they are in Python.
\<close>

section \<open>Constants and helpers\<close>

definition LEGACY_SCHEMA_VERSION :: string where
  "LEGACY_SCHEMA_VERSION = ''1.1.0''"

definition CONTRACT_VERSION :: string where
  "CONTRACT_VERSION = ''1.2.0''"

text \<open>
  What the constructor of a \<open>StrictModel\<close> may raise: the fields that violate their
  declaration, all together, or, when every field is accepted, the first \<open>ValueError\<close> of the
  class's \<open>model_validator(mode="after")\<close>.
\<close>

datatype contract_error = FieldErrors "string list" | ValueErr string

definition fail_if :: "bool \<Rightarrow> string \<Rightarrow> contract_error option" where
  "fail_if b msg = raise_if b (ValueErr msg)"

definition field_errors :: "(string \<times> bool) list \<Rightarrow> contract_error option" where
  "field_errors cs = (case map fst (filter (\<lambda>c. \<not> snd c) cs) of
     [] \<Rightarrow> None | bad \<Rightarrow> Some (FieldErrors bad))"

definition valid :: "('a \<Rightarrow> contract_error option) \<Rightarrow> 'a \<Rightarrow> bool" where
  "valid v x \<longleftrightarrow> v x = None"

definition opt_all :: "('a \<Rightarrow> bool) \<Rightarrow> 'a option \<Rightarrow> bool" where
  "opt_all p v = (case v of None \<Rightarrow> True | Some a \<Rightarrow> p a)"

definition opt_check :: "('a \<Rightarrow> contract_error option) \<Rightarrow> 'a option \<Rightarrow> contract_error option" where
  "opt_check f v = (case v of None \<Rightarrow> None | Some a \<Rightarrow> f a)"

text \<open>\<open>not value\<close> for an optional string, list or dictionary.\<close>

definition falsy :: "'a list option \<Rightarrow> bool" where
  "falsy v = (case v of None \<Rightarrow> True | Some xs \<Rightarrow> xs = [])"

text \<open>A dictionary field has distinct, trimmed keys.\<close>

definition dict_keys :: "(string \<times> 'a) list \<Rightarrow> bool" where
  "dict_keys kvs \<longleftrightarrow> distinct (map fst kvs) \<and> list_all (trimmed \<circ> fst) kvs"

definition Score_ok :: "pyfloat \<Rightarrow> bool" where
  "Score_ok x \<longleftrightarrow> 0 \<le> x \<and> x \<le> 1"

lemma fail_if_None [simp, checks]: "fail_if b msg = None \<longleftrightarrow> \<not> b"
  by (simp add: fail_if_def)

lemma fail_if_Some [simp]: "fail_if b msg = Some e \<longleftrightarrow> b \<and> e = ValueErr msg"
  by (auto simp: fail_if_def)

lemma field_errors_None [checks]: "field_errors cs = None \<longleftrightarrow> list_all snd cs"
proof -
  have "field_errors cs = None \<longleftrightarrow> filter (\<lambda>c. \<not> snd c) cs = []"
    by (cases "filter (\<lambda>c. \<not> snd c) cs") (simp_all add: field_errors_def)
  then show ?thesis by (simp add: filter_empty_conv list_all_iff)
qed

lemma opt_check_None [checks]: "opt_check f v = None \<longleftrightarrow> (\<forall>a. v = Some a \<longrightarrow> f a = None)"
  by (simp add: opt_check_def split: option.splits)

lemma opt_all_simps [simp]: "opt_all p None" "opt_all p (Some a) = p a"
  by (simp_all add: opt_all_def)

lemma falsy_simps [simp]: "falsy None" "falsy (Some xs) \<longleftrightarrow> xs = []"
  by (simp_all add: falsy_def)

section \<open>Times\<close>

text \<open>
  A Python \<open>datetime\<close>: the wall-clock reading in microseconds and the offset from UTC, which a
  naive one does not have.  Aware ones are compared by the instant they denote.
\<close>

record datetime =
  wall_us :: int
  utc_offset :: "int option"

definition instant :: "datetime \<Rightarrow> int" where
  "instant t = wall_us t - (case utc_offset t of None \<Rightarrow> 0 | Some off \<Rightarrow> off)"

definition require_utc :: "datetime \<Rightarrow> string \<Rightarrow> contract_error option" where
  "require_utc t field = fail_if (utc_offset t \<noteq> Some 0) (field @ '' must be timezone-aware UTC'')"

definition utc_time :: "int \<Rightarrow> datetime" where
  "utc_time us = \<lparr>wall_us = us, utc_offset = Some 0\<rparr>"

lemma require_utc_None [simp, checks]: "require_utc t f = None \<longleftrightarrow> utc_offset t = Some 0"
  by (simp add: require_utc_def)

lemma utc_time_simps [simp]: "utc_offset (utc_time u) = Some 0" "instant (utc_time u) = u"
  by (simp_all add: utc_time_def instant_def)

section \<open>Private references\<close>

definition forbidden_markers :: "string list" where
  "forbidden_markers = [''://'', ''?'', ''#'', ''x-amz-signature'', ''x-amz-credential'',
     ''x-amz-security-token'', ''authorization='', ''access_token='', ''token='']"

definition forward_slashes :: "string \<Rightarrow> string" where
  "forward_slashes s = map (\<lambda>c. if c = CHR 0x5C then CHR ''/'' else c) s"

definition require_private_reference :: "string \<Rightarrow> string \<Rightarrow> contract_error option" where
  "require_private_reference ref field = first_error [
     fail_if (startswith ref ''/'' \<or> startswith ref [CHR 0x5C]
         \<or> list_ex (\<lambda>marker. contains marker (lower ref)) forbidden_markers)
       (field @ '' must be a private opaque reference, not a capability''),
     fail_if (list_ex (\<lambda>part. part \<in> {[], ''.'', ''..''}) (split_on (CHR ''/'') (forward_slashes ref)))
       (field @ '' contains an unsafe path segment'')]"

section \<open>Further string patterns\<close>

text \<open>\<open>^P(?:0[1-9]|1[01])_[A-Z0-9_]+_V1$\<close>, \<open>^1\.1\.\d+$\<close> and the tail of
  \<open>^[a-z][a-z0-9_.-]*$\<close>.\<close>

definition prompt_id_pattern :: "string \<Rightarrow> bool" where
  "prompt_id_pattern s \<longleftrightarrow>
     (let middle = take (length s - 7) (drop 4 s) in
      8 \<le> length s \<and> s ! 0 = CHR ''P''
      \<and> ((s ! 1 = CHR ''0'' \<and> between 49 57 (s ! 2)) \<or> (s ! 1 = CHR ''1'' \<and> s ! 2 \<in> {CHR ''0'', CHR ''1''}))
      \<and> s ! 3 = CHR ''_'' \<and> list_all upper_code_char middle \<and> drop (length s - 3) s = ''_V1'')"

definition prompt_version_pattern :: "string \<Rightarrow> bool" where
  "prompt_version_pattern s \<longleftrightarrow> startswith s ''1.1.'' \<and> drop 4 s \<noteq> [] \<and> list_all is_digit (drop 4 s)"

definition event_char :: "char \<Rightarrow> bool" where
  "event_char c \<longleftrightarrow> id_char c \<or> c = CHR ''.''"

section \<open>Enumerations\<close>

datatype ContextMode =
  CLOSED | COURSE_ENRICHED

datatype AssessmentModality =
  WRITTEN | ORAL | MIXED

datatype Severity =
  INFO | WARNING | ERROR | CRITICAL

datatype ArtifactRole =
  ASSIGNMENT_PROMPT | RUBRIC | COURSE_SOURCE | SUBMISSION | DERIVED_PREVIEW

datatype EvidenceModality =
  HEADING | PARAGRAPH | LIST | TABLE | CELL_RANGE | FORMULA | SLIDE_SHAPE | SPEAKER_NOTES
  | CODE_SYMBOL | CODE_SPAN | NOTEBOOK_CELL | IMAGE_REGION | CHART | EQUATION | OTHER

datatype CognitiveOperation =
  JUSTIFY_DECISION | EXPLAIN_MECHANISM | RECONSTRUCT_REASONING | CONNECT_INTERNAL
  | PREDICT_LOCAL_CONSEQUENCE | IDENTIFY_DEPENDENCY | CRITIQUE_LIMITATION
  | INTERPRET_REPRESENTATION | TRACE_FLOW

datatype AnchorStructure =
  SINGLE_FRAGMENT | PAIRED_FRAGMENTS | TABLE_OR_RANGE | CODE_CONTEXT | FIGURE_WITH_CONTEXT
  | SEQUENCE | CROSS_ARTIFACT

datatype ResponseFormat =
  OPEN_SHORT | STRUCTURED_BULLETS | CHOICE | ANNOTATION_OR_DIAGRAM | ORAL_EQUIVALENT

datatype DifficultyBand =
  LOW | MEDIUM | HIGH

datatype StructuredJustificationMode =
  NOT_REQUIRED | SELECTED | ALL

datatype ReasoningEffort =
  MINIMAL | LOW | MEDIUM | HIGH

datatype ModelInputModality =
  TEXT | IMAGE | PDF | AUDIO | VIDEO

datatype ModelOutputModality =
  TEXT | STRUCTURED_JSON

datatype WorkflowStatus =
  DRAFT | BLOCKED | READY | NEEDS_REVIEW | APPROVED | PUBLISHED
  | INSUFFICIENT_RELEVANT_EVIDENCE | INSUFFICIENT_DISTINCT_QUESTION_OPPORTUNITIES
  | EVIDENCE_MAPPING_UNCERTAIN | ASSESSMENT_PLAN_INFEASIBLE | TECHNICAL_FAILURE
  | REJECTED_SECURITY

datatype ReviewDecision =
  ACCEPT | REJECT | ESCALATE

datatype ReviewCheckStatus =
  PASS | WARN | FAIL

datatype BlueprintApprovalRecommendation =
  APPROVE | APPROVE_WITH_CHANGES | REJECT

datatype RepairStatus =
  REPAIRED | UNREPAIRABLE

datatype QuestionReviewActionType =
  ACCEPT | REJECT | EDIT | REGENERATE

datatype SubmissionProcessingStatus =
  UPLOADED | VALIDATING | PARSING | EVIDENCE_READY | MAPPING_OPPORTUNITIES | PLANNING
  | GENERATING | VALIDATING_QUESTIONS | GUIDE_READY | NEEDS_REVIEW | APPROVED
  | INSUFFICIENT_RELEVANT_EVIDENCE | INSUFFICIENT_DISTINCT_QUESTION_OPPORTUNITIES
  | EVIDENCE_MAPPING_UNCERTAIN | ASSESSMENT_PLAN_INFEASIBLE | TECHNICAL_FAILURE
  | REJECTED_SECURITY | CANCELLED

datatype StageRunStatus =
  QUEUED | RUNNING | SUCCEEDED | FAILED | CANCELLED

datatype FailureClass =
  TRANSIENT | PERMANENT | SECURITY | VALIDATION | PRECONDITION | PROVIDER | CANCELLATION

datatype JobControlActionType =
  RETRY | CANCEL | RESUME

datatype JobControlStatus =
  REQUESTED | APPLIED | REJECTED

datatype CoverageScope =
  SUBMISSION | ACTIVITY

datatype CoveragePlanningRole =
  PRIMARY | RESERVE | EXCLUDED

datatype CoverageOutcome =
  PLANNED | GENERATED | REVIEWED | APPROVED | FAILED | EXCLUDED

datatype ExportKind =
  ASSESSMENT_PDF | ASSESSMENT_HTML | GUIDE_PDF | GUIDE_HTML | COVERAGE_CSV | COVERAGE_JSON
  | CANONICAL_JSON

datatype ExportStatus =
  QUEUED | READY | FAILED

datatype FeedbackTargetType =
  ACTIVITY | ASSESSMENT | QUESTION

datatype FeedbackRating =
  VERY_UNHELPFUL | UNHELPFUL | NEUTRAL | HELPFUL | VERY_HELPFUL

datatype FeedbackCategory =
  GROUNDING | ANSWERABILITY | QUESTION_QUALITY | GUIDE_QUALITY | COVERAGE | WORKFLOW | EXPORT
  | OTHER

datatype QuestionReviewRecordStatus =
  APPLIED | FAILED

datatype RevalidationStatus =
  NOT_REQUIRED | PASSED | FAILED

text \<open>Membership in \<open>{TRANSIENT, PROVIDER}\<close>, which \<open>None\<close> does not have.\<close>

definition retryable_class :: "FailureClass option \<Rightarrow> bool" where
  "retryable_class c \<longleftrightarrow> c \<in> {Some FailureClass.TRANSIENT, Some FailureClass.PROVIDER}"

section \<open>Diagnostics and locators\<close>

record Diagnostic =
  code :: "string"
  severity :: "Severity"
  message :: "string"
  evidence_ids :: "string list"
  source_ids :: "string list"
  retryable :: "bool"
  details :: "(string \<times> json) list"

definition Diagnostic_validate :: "Diagnostic \<Rightarrow> contract_error option" where
  "Diagnostic_validate x = first_error [
     field_errors [
         (''code'', upper_code 63 (Diagnostic.code x)),
         (''message'', str_field 3 1000 (Diagnostic.message x)),
         (''evidence_ids'', length (Diagnostic.evidence_ids x) \<le> 100 \<and> list_all Id_ok (Diagnostic.evidence_ids x)),
         (''source_ids'', length (Diagnostic.source_ids x) \<le> 100 \<and> list_all Id_ok (Diagnostic.source_ids x)),
         (''details'', dict_keys (Diagnostic.details x))]]"

record PageLocator =
  kind :: "string"
  page :: "int"
  bbox :: "pyfloat list"
  block_index :: "int option"

definition PageLocator_validate :: "PageLocator \<Rightarrow> contract_error option" where
  "PageLocator_validate x = first_error [
     field_errors [
         (''kind'', (PageLocator.kind x) = ''PAGE_BBOX''),
         (''page'', 1 \<le> (PageLocator.page x)),
         (''bbox'', 4 \<le> length (PageLocator.bbox x) \<and> length (PageLocator.bbox x) \<le> 4),
         (''block_index'', opt_all (\<lambda>e. 0 \<le> e) (PageLocator.block_index x))],
     fail_if (PageLocator.bbox x ! 2 < PageLocator.bbox x ! 0 \<or> PageLocator.bbox x ! 3 < PageLocator.bbox x ! 1) ''bbox must be ordered [x0,y0,x1,y1]'']"

record DocumentLocator =
  kind :: "string"
  paragraph_index :: "int option"
  heading_path :: "string list"
  table_index :: "int option"
  row :: "int option"
  column :: "int option"

definition DocumentLocator_validate :: "DocumentLocator \<Rightarrow> contract_error option" where
  "DocumentLocator_validate x = first_error [
     field_errors [
         (''kind'', (DocumentLocator.kind x) = ''DOCUMENT_PATH''),
         (''paragraph_index'', opt_all (\<lambda>e. 0 \<le> e) (DocumentLocator.paragraph_index x)),
         (''heading_path'', length (DocumentLocator.heading_path x) \<le> 20 \<and> list_all trimmed (DocumentLocator.heading_path x)),
         (''table_index'', opt_all (\<lambda>e. 0 \<le> e) (DocumentLocator.table_index x)),
         (''row'', opt_all (\<lambda>e. 0 \<le> e) (DocumentLocator.row x)),
         (''column'', opt_all (\<lambda>e. 0 \<le> e) (DocumentLocator.column x))]]"

record SlideLocator =
  kind :: "string"
  slide_number :: "int"
  shape_id :: "string option"
  "notes" :: "bool"

definition SlideLocator_validate :: "SlideLocator \<Rightarrow> contract_error option" where
  "SlideLocator_validate x = first_error [
     field_errors [
         (''kind'', (SlideLocator.kind x) = ''SLIDE_SHAPE''),
         (''slide_number'', 1 \<le> (SlideLocator.slide_number x)),
         (''shape_id'', opt_all (str_field 0 128) (SlideLocator.shape_id x))]]"

record SheetLocator =
  kind :: "string"
  workbook :: "string option"
  sheet :: "string"
  range_a1 :: "string"

definition SheetLocator_validate :: "SheetLocator \<Rightarrow> contract_error option" where
  "SheetLocator_validate x = first_error [
     field_errors [
         (''kind'', (SheetLocator.kind x) = ''SHEET_RANGE''),
         (''workbook'', opt_all (str_field 0 255) (SheetLocator.workbook x)),
         (''sheet'', str_field 1 255 (SheetLocator.sheet x)),
         (''range_a1'', str_field 1 128 (SheetLocator.range_a1 x))]]"

record CodeLocator =
  kind :: "string"
  path :: "string"
  start_line :: "int"
  end_line :: "int"
  start_column :: "int option"
  end_column :: "int option"
  symbol :: "string option"

definition CodeLocator_validate :: "CodeLocator \<Rightarrow> contract_error option" where
  "CodeLocator_validate x = first_error [
     field_errors [
         (''kind'', (CodeLocator.kind x) = ''CODE_SPAN''),
         (''path'', str_field 1 1024 (CodeLocator.path x)),
         (''start_line'', 1 \<le> (CodeLocator.start_line x)),
         (''end_line'', 1 \<le> (CodeLocator.end_line x)),
         (''start_column'', opt_all (\<lambda>e. 0 \<le> e) (CodeLocator.start_column x)),
         (''end_column'', opt_all (\<lambda>e. 0 \<le> e) (CodeLocator.end_column x)),
         (''symbol'', opt_all (str_field 0 512) (CodeLocator.symbol x))],
     fail_if (CodeLocator.end_line x < CodeLocator.start_line x) ''end_line must be >= start_line'']"

record NotebookLocator =
  kind :: "string"
  path :: "string"
  cell_id :: "string"
  cell_index :: "int"
  output_index :: "int option"

definition NotebookLocator_validate :: "NotebookLocator \<Rightarrow> contract_error option" where
  "NotebookLocator_validate x = first_error [
     field_errors [
         (''kind'', (NotebookLocator.kind x) = ''NOTEBOOK_CELL''),
         (''path'', str_field 1 1024 (NotebookLocator.path x)),
         (''cell_id'', str_field 1 255 (NotebookLocator.cell_id x)),
         (''cell_index'', 0 \<le> (NotebookLocator.cell_index x)),
         (''output_index'', opt_all (\<lambda>e. 0 \<le> e) (NotebookLocator.output_index x))]]"

record ImageLocator =
  kind :: "string"
  path :: "string"
  bbox :: "pyfloat list"
  coordinate_space :: "string"

definition ImageLocator_validate :: "ImageLocator \<Rightarrow> contract_error option" where
  "ImageLocator_validate x = first_error [
     field_errors [
         (''kind'', (ImageLocator.kind x) = ''IMAGE_REGION''),
         (''path'', str_field 1 1024 (ImageLocator.path x)),
         (''bbox'', 4 \<le> length (ImageLocator.bbox x) \<and> length (ImageLocator.bbox x) \<le> 4),
         (''coordinate_space'', (ImageLocator.coordinate_space x) \<in> {''PIXELS'', ''NORMALIZED''})]]"

text \<open>The union discriminated by \<open>kind\<close>.\<close>

datatype SourceLocator = LPage PageLocator | LDocument DocumentLocator | LSlide SlideLocator
  | LSheet SheetLocator | LCode CodeLocator | LNotebook NotebookLocator | LImage ImageLocator

fun SourceLocator_validate :: "SourceLocator \<Rightarrow> contract_error option" where
  "SourceLocator_validate (LPage l) = PageLocator_validate l"
| "SourceLocator_validate (LDocument l) = DocumentLocator_validate l"
| "SourceLocator_validate (LSlide l) = SlideLocator_validate l"
| "SourceLocator_validate (LSheet l) = SheetLocator_validate l"
| "SourceLocator_validate (LCode l) = CodeLocator_validate l"
| "SourceLocator_validate (LNotebook l) = NotebookLocator_validate l"
| "SourceLocator_validate (LImage l) = ImageLocator_validate l"

section \<open>Artifacts and evidence\<close>

record ArtifactRef =
  schema_version :: "string"
  artifact_id :: "string"
  role :: "ArtifactRole"
  filename :: "string"
  media_type :: "string"
  sha256 :: "string"
  byte_size :: "int"
  parser_id :: "string option"
  parser_version :: "string option"

definition ArtifactRef_validate :: "ArtifactRef \<Rightarrow> contract_error option" where
  "ArtifactRef_validate x = first_error [
     field_errors [
         (''schema_version'', (ArtifactRef.schema_version x) = LEGACY_SCHEMA_VERSION),
         (''artifact_id'', Id_ok (ArtifactRef.artifact_id x)),
         (''filename'', str_field 1 512 (ArtifactRef.filename x)),
         (''media_type'', str_field 3 255 (ArtifactRef.media_type x)),
         (''sha256'', Hash_ok (ArtifactRef.sha256 x)),
         (''byte_size'', 0 \<le> (ArtifactRef.byte_size x)),
         (''parser_id'', opt_all (str_field 0 128) (ArtifactRef.parser_id x)),
         (''parser_version'', opt_all (str_field 0 128) (ArtifactRef.parser_version x))]]"

record EvidenceRelation =
  relation :: "string"
  target_evidence_id :: "string"
  confidence :: "pyfloat"

definition EvidenceRelation_validate :: "EvidenceRelation \<Rightarrow> contract_error option" where
  "EvidenceRelation_validate x = first_error [
     field_errors [
         (''relation'', (EvidenceRelation.relation x) \<in> {''CONTAINS'', ''DEPENDS_ON'', ''REFERENCES'', ''CONTINUES'', ''DERIVED_FROM'', ''CORROBORATES'', ''CONTRADICTS''}),
         (''target_evidence_id'', Id_ok (EvidenceRelation.target_evidence_id x)),
         (''confidence'', Score_ok (EvidenceRelation.confidence x))]]"

record EvidenceUnit =
  schema_version :: "string"
  evidence_id :: "string"
  tenant_id :: "string"
  submission_id :: "string option"
  artifact_id :: "string"
  artifact_hash :: "string"
  source_role :: "ArtifactRole"
  modality :: "EvidenceModality"
  locator :: "SourceLocator"
  content_text :: "string option"
  structured_content :: "((string \<times> json) list) option"
  language :: "string option"
  extraction_confidence :: "pyfloat"
  ocr_used :: "bool"
  sensitive_labels :: "string list"
  relations :: "EvidenceRelation list"
  normalized_hash :: "string"

definition EvidenceUnit_validate :: "EvidenceUnit \<Rightarrow> contract_error option" where
  "EvidenceUnit_validate x = first_error [
     field_errors [
         (''schema_version'', (EvidenceUnit.schema_version x) = LEGACY_SCHEMA_VERSION),
         (''evidence_id'', Id_ok (EvidenceUnit.evidence_id x)),
         (''tenant_id'', Id_ok (EvidenceUnit.tenant_id x)),
         (''submission_id'', opt_all Id_ok (EvidenceUnit.submission_id x)),
         (''artifact_id'', Id_ok (EvidenceUnit.artifact_id x)),
         (''artifact_hash'', Hash_ok (EvidenceUnit.artifact_hash x)),
         (''locator'', valid SourceLocator_validate (EvidenceUnit.locator x)),
         (''content_text'', opt_all (str_field 0 100000) (EvidenceUnit.content_text x)),
         (''structured_content'', opt_all dict_keys (EvidenceUnit.structured_content x)),
         (''language'', opt_all (str_field 0 35) (EvidenceUnit.language x)),
         (''extraction_confidence'', Score_ok (EvidenceUnit.extraction_confidence x)),
         (''sensitive_labels'', length (EvidenceUnit.sensitive_labels x) \<le> 50 \<and> list_all trimmed (EvidenceUnit.sensitive_labels x)),
         (''relations'', length (EvidenceUnit.relations x) \<le> 500 \<and> list_all (valid EvidenceRelation_validate) (EvidenceUnit.relations x)),
         (''normalized_hash'', Hash_ok (EvidenceUnit.normalized_hash x))],
     fail_if (falsy (EvidenceUnit.content_text x) \<and> falsy (EvidenceUnit.structured_content x)) ''evidence must contain text or structured_content'',
     fail_if (EvidenceUnit.source_role x = ArtifactRole.SUBMISSION \<and> falsy (EvidenceUnit.submission_id x)) ''submission evidence requires submission_id'']"

record CoursePassage =
  source_id :: "string"
  artifact_id :: "string"
  artifact_hash :: "string"
  title :: "string"
  locator :: "SourceLocator"
  content_text :: "string"
  language :: "string option"
  extraction_confidence :: "pyfloat"

definition CoursePassage_validate :: "CoursePassage \<Rightarrow> contract_error option" where
  "CoursePassage_validate x = first_error [
     field_errors [
         (''source_id'', Id_ok (CoursePassage.source_id x)),
         (''artifact_id'', Id_ok (CoursePassage.artifact_id x)),
         (''artifact_hash'', Hash_ok (CoursePassage.artifact_hash x)),
         (''title'', str_field 1 500 (CoursePassage.title x)),
         (''locator'', valid SourceLocator_validate (CoursePassage.locator x)),
         (''content_text'', str_field 1 50000 (CoursePassage.content_text x)),
         (''language'', opt_all (str_field 0 35) (CoursePassage.language x)),
         (''extraction_confidence'', Score_ok (CoursePassage.extraction_confidence x))]]"

record SourceCitation =
  source_id :: "string"
  locator :: "SourceLocator"
  supported_claim :: "string"

definition SourceCitation_validate :: "SourceCitation \<Rightarrow> contract_error option" where
  "SourceCitation_validate x = first_error [
     field_errors [
         (''source_id'', Id_ok (SourceCitation.source_id x)),
         (''locator'', valid SourceLocator_validate (SourceCitation.locator x)),
         (''supported_claim'', str_field 1 1000 (SourceCitation.supported_claim x))]]"

record EvidenceBundle =
  schema_version :: "string"
  bundle_id :: "string"
  tenant_id :: "string"
  activity_id :: "string"
  submission_id :: "string"
  context_mode :: "ContextMode"
  allowed_evidence_ids :: "string list"
  evidence_units :: "EvidenceUnit list"
  course_passages :: "CoursePassage list"

definition EvidenceBundle_validate :: "EvidenceBundle \<Rightarrow> contract_error option" where
  "EvidenceBundle_validate x = first_error [
     field_errors [
         (''schema_version'', (EvidenceBundle.schema_version x) = LEGACY_SCHEMA_VERSION),
         (''bundle_id'', Id_ok (EvidenceBundle.bundle_id x)),
         (''tenant_id'', Id_ok (EvidenceBundle.tenant_id x)),
         (''activity_id'', Id_ok (EvidenceBundle.activity_id x)),
         (''submission_id'', Id_ok (EvidenceBundle.submission_id x)),
         (''allowed_evidence_ids'', 1 \<le> length (EvidenceBundle.allowed_evidence_ids x) \<and> length (EvidenceBundle.allowed_evidence_ids x) \<le> 500 \<and> list_all Id_ok (EvidenceBundle.allowed_evidence_ids x)),
         (''evidence_units'', 1 \<le> length (EvidenceBundle.evidence_units x) \<and> length (EvidenceBundle.evidence_units x) \<le> 500 \<and> list_all (valid EvidenceUnit_validate) (EvidenceBundle.evidence_units x)),
         (''course_passages'', length (EvidenceBundle.course_passages x) \<le> 100 \<and> list_all (valid CoursePassage_validate) (EvidenceBundle.course_passages x))],
     fail_if (has_dup (map EvidenceUnit.evidence_id (EvidenceBundle.evidence_units x))) ''evidence_units must have unique evidence_id values'',
     fail_if (set (map EvidenceUnit.evidence_id (EvidenceBundle.evidence_units x)) \<noteq> set (EvidenceBundle.allowed_evidence_ids x)) ''allowed_evidence_ids must exactly match evidence_units'',
     first_error (map (\<lambda>u. first_error [
         fail_if (EvidenceUnit.tenant_id u \<noteq> EvidenceBundle.tenant_id x) ''evidence unit belongs to another tenant'',
         fail_if (EvidenceUnit.submission_id u \<noteq> Some (EvidenceBundle.submission_id x)) ''evidence unit belongs to another submission''])
       (EvidenceBundle.evidence_units x)),
     fail_if (has_dup (map CoursePassage.source_id (EvidenceBundle.course_passages x))) ''course_passages must have unique source_id values'',
     fail_if (EvidenceBundle.context_mode x = ContextMode.CLOSED \<and> EvidenceBundle.course_passages x \<noteq> []) ''CLOSED evidence bundle cannot include course passages'']"

record TrustedPromptContext =
  tenant_id :: "string"
  activity_id :: "string"
  submission_id :: "string option"
  blueprint_id :: "string option"
  blueprint_version :: "int option"
  allowed_evidence_ids :: "string list"
  allowed_course_source_ids :: "string list"
  output_language :: "string"
  context_mode :: "ContextMode"

definition TrustedPromptContext_validate :: "TrustedPromptContext \<Rightarrow> contract_error option" where
  "TrustedPromptContext_validate x = first_error [
     field_errors [
         (''tenant_id'', Id_ok (TrustedPromptContext.tenant_id x)),
         (''activity_id'', Id_ok (TrustedPromptContext.activity_id x)),
         (''submission_id'', opt_all Id_ok (TrustedPromptContext.submission_id x)),
         (''blueprint_id'', opt_all Id_ok (TrustedPromptContext.blueprint_id x)),
         (''blueprint_version'', opt_all (\<lambda>e. 1 \<le> e) (TrustedPromptContext.blueprint_version x)),
         (''allowed_evidence_ids'', length (TrustedPromptContext.allowed_evidence_ids x) \<le> 500 \<and> list_all Id_ok (TrustedPromptContext.allowed_evidence_ids x)),
         (''allowed_course_source_ids'', length (TrustedPromptContext.allowed_course_source_ids x) \<le> 100 \<and> list_all Id_ok (TrustedPromptContext.allowed_course_source_ids x)),
         (''output_language'', str_field 2 35 (TrustedPromptContext.output_language x))],
     fail_if ((TrustedPromptContext.blueprint_id x = None) \<noteq> (TrustedPromptContext.blueprint_version x = None)) ''blueprint_id and blueprint_version must both be set or absent'',
     fail_if (TrustedPromptContext.context_mode x = ContextMode.CLOSED \<and> TrustedPromptContext.allowed_course_source_ids x \<noteq> []) ''CLOSED context cannot authorize course sources'']"

record ModelTaskEnvelope =
  schema_version :: "string"
  prompt_id :: "string"
  prompt_version :: "string"
  output_schema_name :: "string"
  output_schema_version :: "string"
  trusted_context :: "TrustedPromptContext"
  payload :: "(string \<times> json) list"

definition ModelTaskEnvelope_validate :: "ModelTaskEnvelope \<Rightarrow> contract_error option" where
  "ModelTaskEnvelope_validate x = first_error [
     field_errors [
         (''schema_version'', (ModelTaskEnvelope.schema_version x) = LEGACY_SCHEMA_VERSION),
         (''prompt_id'', prompt_id_pattern (ModelTaskEnvelope.prompt_id x)),
         (''prompt_version'', prompt_version_pattern (ModelTaskEnvelope.prompt_version x)),
         (''output_schema_name'', str_field 3 128 (ModelTaskEnvelope.output_schema_name x)),
         (''output_schema_version'', (ModelTaskEnvelope.output_schema_version x) = LEGACY_SCHEMA_VERSION),
         (''trusted_context'', valid TrustedPromptContext_validate (ModelTaskEnvelope.trusted_context x)),
         (''payload'', dict_keys (ModelTaskEnvelope.payload x))]]"

end
