(* ===== verification/ContractsActivity.thy ===== *)
theory ContractsActivity
  imports ContractsBase
begin

text \<open>
  The contracts of the activity side: configuration, specification, rubric, ambiguities,
  policies, the blueprint catalogue and its review.
\<close>

record ActivityConfig =
  schema_version :: "string"
  activity_id :: "string"
  tenant_id :: "string"
  title :: "string"
  output_language :: "string"
  context_mode :: "ContextMode"
  assessment_modality :: "AssessmentModality"
  question_count :: "int"
  target_total_minutes :: "int"
  structured_justification_mode :: "StructuredJustificationMode"
  priority_criterion_ids :: "string list"
  allowed_response_formats :: "ResponseFormat list"
  allowed_artifact_media_types :: "string list"
  course_source_ids :: "string list"
  adaptation_policy_id :: "string option"
  require_blueprint_approval :: "bool"

definition ActivityConfig_validate :: "ActivityConfig \<Rightarrow> contract_error option" where
  "ActivityConfig_validate x = first_error [
     field_errors [
         (''schema_version'', (ActivityConfig.schema_version x) = LEGACY_SCHEMA_VERSION),
         (''activity_id'', Id_ok (ActivityConfig.activity_id x)),
         (''tenant_id'', Id_ok (ActivityConfig.tenant_id x)),
         (''title'', str_field 1 300 (ActivityConfig.title x)),
         (''output_language'', str_field 2 35 (ActivityConfig.output_language x)),
         (''question_count'', 1 \<le> (ActivityConfig.question_count x) \<and> (ActivityConfig.question_count x) \<le> 20),
         (''target_total_minutes'', 3 \<le> (ActivityConfig.target_total_minutes x) \<and> (ActivityConfig.target_total_minutes x) \<le> 120),
         (''priority_criterion_ids'', length (ActivityConfig.priority_criterion_ids x) \<le> 100 \<and> list_all Id_ok (ActivityConfig.priority_criterion_ids x)),
         (''allowed_response_formats'', 1 \<le> length (ActivityConfig.allowed_response_formats x)),
         (''allowed_artifact_media_types'', 1 \<le> length (ActivityConfig.allowed_artifact_media_types x) \<and> length (ActivityConfig.allowed_artifact_media_types x) \<le> 50 \<and> list_all trimmed (ActivityConfig.allowed_artifact_media_types x)),
         (''course_source_ids'', list_all Id_ok (ActivityConfig.course_source_ids x)),
         (''adaptation_policy_id'', opt_all Id_ok (ActivityConfig.adaptation_policy_id x)),
         (''require_blueprint_approval'', (ActivityConfig.require_blueprint_approval x))],
     fail_if (ActivityConfig.context_mode x = ContextMode.COURSE_ENRICHED \<and> ActivityConfig.course_source_ids x = []) ''COURSE_ENRICHED requires course_source_ids'',
     fail_if (has_dup (ActivityConfig.allowed_response_formats x)) ''allowed_response_formats must be unique'']"

record SourcedStatement =
  statement_id :: "string"
  "text" :: "string"
  evidence_ids :: "string list"
  certainty :: "string"

definition SourcedStatement_validate :: "SourcedStatement \<Rightarrow> contract_error option" where
  "SourcedStatement_validate x = first_error [
     field_errors [
         (''statement_id'', Id_ok (SourcedStatement.statement_id x)),
         (''text'', str_field 1 2000 (SourcedStatement.text x)),
         (''evidence_ids'', 1 \<le> length (SourcedStatement.evidence_ids x) \<and> length (SourcedStatement.evidence_ids x) \<le> 50 \<and> list_all Id_ok (SourcedStatement.evidence_ids x)),
         (''certainty'', (SourcedStatement.certainty x) \<in> {''EXPLICIT'', ''WEAK_INFERENCE'', ''MISSING''})]]"

record ActivitySpec =
  schema_version :: "string"
  activity_id :: "string"
  status :: "WorkflowStatus"
  learning_outcomes :: "SourcedStatement list"
  expected_products :: "SourcedStatement list"
  requirements :: "SourcedStatement list"
  allowed_materials :: "SourcedStatement list"
  prohibited_materials :: "SourcedStatement list"
  contradictions :: "Diagnostic list"
  diagnostics :: "Diagnostic list"

definition ActivitySpec_validate :: "ActivitySpec \<Rightarrow> contract_error option" where
  "ActivitySpec_validate x = first_error [
     field_errors [
         (''schema_version'', (ActivitySpec.schema_version x) = LEGACY_SCHEMA_VERSION),
         (''activity_id'', Id_ok (ActivitySpec.activity_id x)),
         (''learning_outcomes'', list_all (valid SourcedStatement_validate) (ActivitySpec.learning_outcomes x)),
         (''expected_products'', list_all (valid SourcedStatement_validate) (ActivitySpec.expected_products x)),
         (''requirements'', list_all (valid SourcedStatement_validate) (ActivitySpec.requirements x)),
         (''allowed_materials'', list_all (valid SourcedStatement_validate) (ActivitySpec.allowed_materials x)),
         (''prohibited_materials'', list_all (valid SourcedStatement_validate) (ActivitySpec.prohibited_materials x)),
         (''contradictions'', list_all (valid Diagnostic_validate) (ActivitySpec.contradictions x)),
         (''diagnostics'', list_all (valid Diagnostic_validate) (ActivitySpec.diagnostics x))]]"

record RubricLevel =
  level_id :: "string"
  label :: "string"
  ordinal :: "int"
  descriptor :: "string option"
  evidence_ids :: "string list"

definition RubricLevel_validate :: "RubricLevel \<Rightarrow> contract_error option" where
  "RubricLevel_validate x = first_error [
     field_errors [
         (''level_id'', Id_ok (RubricLevel.level_id x)),
         (''label'', str_field 1 200 (RubricLevel.label x)),
         (''ordinal'', 0 \<le> (RubricLevel.ordinal x) \<and> (RubricLevel.ordinal x) \<le> 20),
         (''descriptor'', opt_all (str_field 0 4000) (RubricLevel.descriptor x)),
         (''evidence_ids'', length (RubricLevel.evidence_ids x) \<le> 50 \<and> list_all Id_ok (RubricLevel.evidence_ids x))]]"

record RubricCriterion =
  criterion_id :: "string"
  name :: "string"
  description :: "string option"
  evidence_ids :: "string list"
  grading_weight :: "pyfloat option"
  levels :: "RubricLevel list"
  observables :: "string list"
  verification_fit :: "string"
  overlaps_with :: "string list"

definition RubricCriterion_validate :: "RubricCriterion \<Rightarrow> contract_error option" where
  "RubricCriterion_validate x = first_error [
     field_errors [
         (''criterion_id'', Id_ok (RubricCriterion.criterion_id x)),
         (''name'', str_field 1 300 (RubricCriterion.name x)),
         (''description'', opt_all (str_field 0 4000) (RubricCriterion.description x)),
         (''evidence_ids'', 1 \<le> length (RubricCriterion.evidence_ids x) \<and> length (RubricCriterion.evidence_ids x) \<le> 100 \<and> list_all Id_ok (RubricCriterion.evidence_ids x)),
         (''grading_weight'', opt_all (\<lambda>e. 0 \<le> e \<and> e \<le> 1) (RubricCriterion.grading_weight x)),
         (''levels'', length (RubricCriterion.levels x) \<le> 20 \<and> list_all (valid RubricLevel_validate) (RubricCriterion.levels x)),
         (''observables'', length (RubricCriterion.observables x) \<le> 50 \<and> list_all trimmed (RubricCriterion.observables x)),
         (''verification_fit'', (RubricCriterion.verification_fit x) \<in> {''HIGH'', ''MEDIUM'', ''LOW'', ''NOT_VERIFIABLE''}),
         (''overlaps_with'', list_all Id_ok (RubricCriterion.overlaps_with x))]]"

record RubricSpec =
  schema_version :: "string"
  activity_id :: "string"
  status :: "WorkflowStatus"
  scale_label :: "string option"
  criteria :: "RubricCriterion list"
  reported_weight_total :: "pyfloat option"
  diagnostics :: "Diagnostic list"

definition RubricSpec_validate :: "RubricSpec \<Rightarrow> contract_error option" where
  "RubricSpec_validate x = first_error [
     field_errors [
         (''schema_version'', (RubricSpec.schema_version x) = LEGACY_SCHEMA_VERSION),
         (''activity_id'', Id_ok (RubricSpec.activity_id x)),
         (''scale_label'', opt_all (str_field 0 200) (RubricSpec.scale_label x)),
         (''criteria'', list_all (valid RubricCriterion_validate) (RubricSpec.criteria x)),
         (''reported_weight_total'', opt_all (\<lambda>e. 0 \<le> e \<and> e \<le> 100) (RubricSpec.reported_weight_total x)),
         (''diagnostics'', list_all (valid Diagnostic_validate) (RubricSpec.diagnostics x))]]"

record DecisionOption =
  option_id :: "string"
  label :: "string"
  consequence :: "string"

definition DecisionOption_validate :: "DecisionOption \<Rightarrow> contract_error option" where
  "DecisionOption_validate x = first_error [
     field_errors [
         (''option_id'', Id_ok (DecisionOption.option_id x)),
         (''label'', str_field 1 300 (DecisionOption.label x)),
         (''consequence'', str_field 1 1000 (DecisionOption.consequence x))]]"

record AmbiguityIssue =
  issue_id :: "string"
  issue_code :: "string"
  severity :: "Severity"
  evidence_ids :: "string list"
  explanation :: "string"
  options :: "DecisionOption list"
  recommended_option_id :: "string"
  blocking :: "bool"

definition AmbiguityIssue_validate :: "AmbiguityIssue \<Rightarrow> contract_error option" where
  "AmbiguityIssue_validate x = first_error [
     field_errors [
         (''issue_id'', Id_ok (AmbiguityIssue.issue_id x)),
         (''issue_code'', upper_code 63 (AmbiguityIssue.issue_code x)),
         (''evidence_ids'', list_all Id_ok (AmbiguityIssue.evidence_ids x)),
         (''explanation'', str_field 1 1500 (AmbiguityIssue.explanation x)),
         (''options'', 2 \<le> length (AmbiguityIssue.options x) \<and> length (AmbiguityIssue.options x) \<le> 3 \<and> list_all (valid DecisionOption_validate) (AmbiguityIssue.options x)),
         (''recommended_option_id'', Id_ok (AmbiguityIssue.recommended_option_id x))],
     fail_if (AmbiguityIssue.recommended_option_id x \<notin> set (map DecisionOption.option_id (AmbiguityIssue.options x))) ''recommended_option_id must reference an option'']"

record AmbiguityReport =
  schema_version :: "string"
  activity_id :: "string"
  issues :: "AmbiguityIssue list"
  blocked :: "bool"

definition AmbiguityReport_validate :: "AmbiguityReport \<Rightarrow> contract_error option" where
  "AmbiguityReport_validate x = first_error [
     field_errors [
         (''schema_version'', (AmbiguityReport.schema_version x) = LEGACY_SCHEMA_VERSION),
         (''activity_id'', Id_ok (AmbiguityReport.activity_id x)),
         (''issues'', length (AmbiguityReport.issues x) \<le> 8 \<and> list_all (valid AmbiguityIssue_validate) (AmbiguityReport.issues x))]]"

record PolicyDecision =
  schema_version :: "string"
  decision_id :: "string"
  issue_id :: "string"
  selected_option_id :: "string"
  decided_by :: "string"
  decided_at :: "datetime"
  "note" :: "string option"

definition PolicyDecision_validate :: "PolicyDecision \<Rightarrow> contract_error option" where
  "PolicyDecision_validate x = first_error [
     field_errors [
         (''schema_version'', (PolicyDecision.schema_version x) = LEGACY_SCHEMA_VERSION),
         (''decision_id'', Id_ok (PolicyDecision.decision_id x)),
         (''issue_id'', Id_ok (PolicyDecision.issue_id x)),
         (''selected_option_id'', Id_ok (PolicyDecision.selected_option_id x)),
         (''decided_by'', PrincipalId_ok (PolicyDecision.decided_by x)),
         (''note'', opt_all (str_field 0 2000) (PolicyDecision.note x))]]"

record StructuredJustificationPolicy =
  mode :: "StructuredJustificationMode"
  selected_opportunity_template_ids :: "string list"

definition StructuredJustificationPolicy_validate :: "StructuredJustificationPolicy \<Rightarrow> contract_error option" where
  "StructuredJustificationPolicy_validate x = first_error [
     field_errors [
         (''selected_opportunity_template_ids'', length (StructuredJustificationPolicy.selected_opportunity_template_ids x) \<le> 200 \<and> list_all Id_ok (StructuredJustificationPolicy.selected_opportunity_template_ids x))],
     (if StructuredJustificationPolicy.mode x = StructuredJustificationMode.SELECTED
      then fail_if (StructuredJustificationPolicy.selected_opportunity_template_ids x = []) ''SELECTED mode requires opportunity template ids''
      else fail_if (StructuredJustificationPolicy.selected_opportunity_template_ids x \<noteq> []) ''selected ids are allowed only in SELECTED mode'')]"

record AssessmentPlanningPolicy =
  schema_version :: "string"
  policy_id :: "string"
  minimum_opportunity_quality :: "pyfloat"
  minimum_evidence_fit :: "pyfloat"
  activity_priority_weight :: "pyfloat"
  evidence_fit_weight :: "pyfloat"
  opportunity_quality_weight :: "pyfloat"
  repeated_dimension_penalty :: "pyfloat"
  repeated_variant_penalty :: "pyfloat"
  evidence_overlap_penalty :: "pyfloat"
  maximum_evidence_overlap :: "pyfloat"
  max_reserve_opportunities :: "int"

definition AssessmentPlanningPolicy_validate :: "AssessmentPlanningPolicy \<Rightarrow> contract_error option" where
  "AssessmentPlanningPolicy_validate x = first_error [
     field_errors [
         (''schema_version'', (AssessmentPlanningPolicy.schema_version x) = LEGACY_SCHEMA_VERSION),
         (''policy_id'', Id_ok (AssessmentPlanningPolicy.policy_id x)),
         (''minimum_opportunity_quality'', Score_ok (AssessmentPlanningPolicy.minimum_opportunity_quality x)),
         (''minimum_evidence_fit'', Score_ok (AssessmentPlanningPolicy.minimum_evidence_fit x)),
         (''activity_priority_weight'', 0 \<le> (AssessmentPlanningPolicy.activity_priority_weight x) \<and> (AssessmentPlanningPolicy.activity_priority_weight x) \<le> 1),
         (''evidence_fit_weight'', 0 \<le> (AssessmentPlanningPolicy.evidence_fit_weight x) \<and> (AssessmentPlanningPolicy.evidence_fit_weight x) \<le> 1),
         (''opportunity_quality_weight'', 0 \<le> (AssessmentPlanningPolicy.opportunity_quality_weight x) \<and> (AssessmentPlanningPolicy.opportunity_quality_weight x) \<le> 1),
         (''repeated_dimension_penalty'', 0 \<le> (AssessmentPlanningPolicy.repeated_dimension_penalty x) \<and> (AssessmentPlanningPolicy.repeated_dimension_penalty x) \<le> 1),
         (''repeated_variant_penalty'', 0 \<le> (AssessmentPlanningPolicy.repeated_variant_penalty x) \<and> (AssessmentPlanningPolicy.repeated_variant_penalty x) \<le> 1),
         (''evidence_overlap_penalty'', 0 \<le> (AssessmentPlanningPolicy.evidence_overlap_penalty x) \<and> (AssessmentPlanningPolicy.evidence_overlap_penalty x) \<le> 1),
         (''maximum_evidence_overlap'', Score_ok (AssessmentPlanningPolicy.maximum_evidence_overlap x)),
         (''max_reserve_opportunities'', 0 \<le> (AssessmentPlanningPolicy.max_reserve_opportunities x) \<and> (AssessmentPlanningPolicy.max_reserve_opportunities x) \<le> 10)]]"

record BlueprintPolicy =
  schema_version :: "string"
  policy_id :: "string"
  activity_id :: "string"
  question_count :: "int"
  target_total_minutes :: "int"
  allowed_response_formats :: "ResponseFormat list"
  priority_criterion_ids :: "string list"
  required_criterion_ids :: "string list"
  structured_justification_policy :: "StructuredJustificationPolicy"
  planning_policy :: "AssessmentPlanningPolicy"
  max_local_regenerations :: "int"
  human_review_required :: "bool"

definition BlueprintPolicy_validate :: "BlueprintPolicy \<Rightarrow> contract_error option" where
  "BlueprintPolicy_validate x = first_error [
     field_errors [
         (''schema_version'', (BlueprintPolicy.schema_version x) = LEGACY_SCHEMA_VERSION),
         (''policy_id'', Id_ok (BlueprintPolicy.policy_id x)),
         (''activity_id'', Id_ok (BlueprintPolicy.activity_id x)),
         (''question_count'', 1 \<le> (BlueprintPolicy.question_count x) \<and> (BlueprintPolicy.question_count x) \<le> 20),
         (''target_total_minutes'', 3 \<le> (BlueprintPolicy.target_total_minutes x) \<and> (BlueprintPolicy.target_total_minutes x) \<le> 120),
         (''allowed_response_formats'', 1 \<le> length (BlueprintPolicy.allowed_response_formats x) \<and> length (BlueprintPolicy.allowed_response_formats x) \<le> 20),
         (''priority_criterion_ids'', length (BlueprintPolicy.priority_criterion_ids x) \<le> 100 \<and> list_all Id_ok (BlueprintPolicy.priority_criterion_ids x)),
         (''required_criterion_ids'', length (BlueprintPolicy.required_criterion_ids x) \<le> 100 \<and> list_all Id_ok (BlueprintPolicy.required_criterion_ids x)),
         (''structured_justification_policy'', valid StructuredJustificationPolicy_validate (BlueprintPolicy.structured_justification_policy x)),
         (''planning_policy'', valid AssessmentPlanningPolicy_validate (BlueprintPolicy.planning_policy x)),
         (''max_local_regenerations'', 0 \<le> (BlueprintPolicy.max_local_regenerations x) \<and> (BlueprintPolicy.max_local_regenerations x) \<le> 3),
         (''human_review_required'', (BlueprintPolicy.human_review_required x))],
     fail_if (has_dup (BlueprintPolicy.allowed_response_formats x)) ''allowed_response_formats must be unique'']"

record QuestionGenerationPolicy =
  schema_version :: "string"
  policy_id :: "string"
  max_anchor_fragments :: "int"
  max_course_passages :: "int"
  require_accessible_alternative :: "bool"
  max_local_regenerations :: "int"

definition QuestionGenerationPolicy_validate :: "QuestionGenerationPolicy \<Rightarrow> contract_error option" where
  "QuestionGenerationPolicy_validate x = first_error [
     field_errors [
         (''schema_version'', (QuestionGenerationPolicy.schema_version x) = LEGACY_SCHEMA_VERSION),
         (''policy_id'', Id_ok (QuestionGenerationPolicy.policy_id x)),
         (''max_anchor_fragments'', 1 \<le> (QuestionGenerationPolicy.max_anchor_fragments x) \<and> (QuestionGenerationPolicy.max_anchor_fragments x) \<le> 8),
         (''max_course_passages'', 0 \<le> (QuestionGenerationPolicy.max_course_passages x) \<and> (QuestionGenerationPolicy.max_course_passages x) \<le> 50),
         (''max_local_regenerations'', 0 \<le> (QuestionGenerationPolicy.max_local_regenerations x) \<and> (QuestionGenerationPolicy.max_local_regenerations x) \<le> 3)]]"

record QuestionValidationPolicy =
  schema_version :: "string"
  policy_id :: "string"
  minimum_groundedness :: "pyfloat"
  minimum_anchor_sufficiency :: "pyfloat"
  minimum_answerability :: "pyfloat"
  minimum_criterion_relevance :: "pyfloat"
  escalate_below_confidence :: "pyfloat"
  critical_failure_codes :: "string list"

definition QuestionValidationPolicy_validate :: "QuestionValidationPolicy \<Rightarrow> contract_error option" where
  "QuestionValidationPolicy_validate x = first_error [
     field_errors [
         (''schema_version'', (QuestionValidationPolicy.schema_version x) = LEGACY_SCHEMA_VERSION),
         (''policy_id'', Id_ok (QuestionValidationPolicy.policy_id x)),
         (''minimum_groundedness'', Score_ok (QuestionValidationPolicy.minimum_groundedness x)),
         (''minimum_anchor_sufficiency'', Score_ok (QuestionValidationPolicy.minimum_anchor_sufficiency x)),
         (''minimum_answerability'', Score_ok (QuestionValidationPolicy.minimum_answerability x)),
         (''minimum_criterion_relevance'', Score_ok (QuestionValidationPolicy.minimum_criterion_relevance x)),
         (''escalate_below_confidence'', Score_ok (QuestionValidationPolicy.escalate_below_confidence x)),
         (''critical_failure_codes'', length (QuestionValidationPolicy.critical_failure_codes x) \<le> 100 \<and> list_all trimmed (QuestionValidationPolicy.critical_failure_codes x))]]"

record VerificationFactors =
  learning_relevance :: "pyfloat"
  centrality :: "pyfloat"
  expected_evidence :: "pyfloat"
  discriminative_potential :: "pyfloat"
  auditability :: "pyfloat"
  short_response_observability :: "pyfloat"

definition VerificationFactors_validate :: "VerificationFactors \<Rightarrow> contract_error option" where
  "VerificationFactors_validate x = first_error [
     field_errors [
         (''learning_relevance'', Score_ok (VerificationFactors.learning_relevance x)),
         (''centrality'', Score_ok (VerificationFactors.centrality x)),
         (''expected_evidence'', Score_ok (VerificationFactors.expected_evidence x)),
         (''discriminative_potential'', Score_ok (VerificationFactors.discriminative_potential x)),
         (''auditability'', Score_ok (VerificationFactors.auditability x)),
         (''short_response_observability'', Score_ok (VerificationFactors.short_response_observability x))]]"

record EvidenceRequirement =
  allowed_modalities :: "EvidenceModality list"
  min_distinct_units :: "int"
  min_extraction_confidence :: "pyfloat"
  min_alignment :: "pyfloat"
  cross_artifact_required :: "bool"
  course_sources_allowed :: "bool"

definition EvidenceRequirement_validate :: "EvidenceRequirement \<Rightarrow> contract_error option" where
  "EvidenceRequirement_validate x = first_error [
     field_errors [
         (''allowed_modalities'', 1 \<le> length (EvidenceRequirement.allowed_modalities x)),
         (''min_distinct_units'', 1 \<le> (EvidenceRequirement.min_distinct_units x) \<and> (EvidenceRequirement.min_distinct_units x) \<le> 20),
         (''min_extraction_confidence'', Score_ok (EvidenceRequirement.min_extraction_confidence x)),
         (''min_alignment'', Score_ok (EvidenceRequirement.min_alignment x))]]"

record SupportedOperation =
  cognitive_operation :: "CognitiveOperation"
  support_strength :: "pyfloat"
  rationale :: "string"

definition SupportedOperation_validate :: "SupportedOperation \<Rightarrow> contract_error option" where
  "SupportedOperation_validate x = first_error [
     field_errors [
         (''support_strength'', Score_ok (SupportedOperation.support_strength x)),
         (''rationale'', str_field 1 800 (SupportedOperation.rationale x))]]"

record QuestionOpportunityTemplate =
  opportunity_template_id :: "string"
  cognitive_operation :: "CognitiveOperation"
  focus :: "string"
  observable :: "string"
  difficulty :: "DifficultyBand"
  target_minutes :: "int"
  allowed_anchor_structures :: "AnchorStructure list"
  allowed_response_formats :: "ResponseFormat list"
  verification_potential :: "pyfloat"
  minimum_quality :: "pyfloat"
  student_justification_required :: "bool"

definition QuestionOpportunityTemplate_validate :: "QuestionOpportunityTemplate \<Rightarrow> contract_error option" where
  "QuestionOpportunityTemplate_validate x = first_error [
     field_errors [
         (''opportunity_template_id'', Id_ok (QuestionOpportunityTemplate.opportunity_template_id x)),
         (''focus'', str_field 1 1000 (QuestionOpportunityTemplate.focus x)),
         (''observable'', str_field 1 1000 (QuestionOpportunityTemplate.observable x)),
         (''target_minutes'', 1 \<le> (QuestionOpportunityTemplate.target_minutes x) \<and> (QuestionOpportunityTemplate.target_minutes x) \<le> 60),
         (''allowed_anchor_structures'', 1 \<le> length (QuestionOpportunityTemplate.allowed_anchor_structures x)),
         (''allowed_response_formats'', 1 \<le> length (QuestionOpportunityTemplate.allowed_response_formats x)),
         (''verification_potential'', Score_ok (QuestionOpportunityTemplate.verification_potential x)),
         (''minimum_quality'', Score_ok (QuestionOpportunityTemplate.minimum_quality x))]]"

record EvidenceVariant =
  variant_id :: "string"
  name :: "string"
  description :: "string"
  evidence_requirement :: "EvidenceRequirement"
  verification_potential :: "pyfloat"
  supported_operations :: "SupportedOperation list"
  question_opportunities :: "QuestionOpportunityTemplate list"

definition EvidenceVariant_validate :: "EvidenceVariant \<Rightarrow> contract_error option" where
  "EvidenceVariant_validate x = first_error [
     field_errors [
         (''variant_id'', Id_ok (EvidenceVariant.variant_id x)),
         (''name'', str_field 1 300 (EvidenceVariant.name x)),
         (''description'', str_field 1 1200 (EvidenceVariant.description x)),
         (''evidence_requirement'', valid EvidenceRequirement_validate (EvidenceVariant.evidence_requirement x)),
         (''verification_potential'', Score_ok (EvidenceVariant.verification_potential x)),
         (''supported_operations'', 1 \<le> length (EvidenceVariant.supported_operations x) \<and> length (EvidenceVariant.supported_operations x) \<le> 9 \<and> list_all (valid SupportedOperation_validate) (EvidenceVariant.supported_operations x)),
         (''question_opportunities'', 1 \<le> length (EvidenceVariant.question_opportunities x) \<and> length (EvidenceVariant.question_opportunities x) \<le> 100 \<and> list_all (valid QuestionOpportunityTemplate_validate) (EvidenceVariant.question_opportunities x))],
     fail_if (has_dup (map SupportedOperation.cognitive_operation (EvidenceVariant.supported_operations x))) ''supported cognitive operations must be unique'',
     fail_if (list_ex (\<lambda>q. QuestionOpportunityTemplate.cognitive_operation q
          \<notin> set (map SupportedOperation.cognitive_operation (EvidenceVariant.supported_operations x)))
        (EvidenceVariant.question_opportunities x)) ''question opportunity uses an unsupported operation'',
     fail_if (has_dup (map QuestionOpportunityTemplate.opportunity_template_id (EvidenceVariant.question_opportunities x))) ''opportunity_template_ids must be unique within a variant'']"

record BlueprintDimension =
  dimension_id :: "string"
  name :: "string"
  criterion_ids :: "string list"
  learning_outcome_ids :: "string list"
  grading_weight :: "pyfloat option"
  verification_priority :: "pyfloat"
  factors :: "VerificationFactors"
  justification :: "string"
  evidence_variants :: "EvidenceVariant list"

definition BlueprintDimension_validate :: "BlueprintDimension \<Rightarrow> contract_error option" where
  "BlueprintDimension_validate x = first_error [
     field_errors [
         (''dimension_id'', Id_ok (BlueprintDimension.dimension_id x)),
         (''name'', str_field 1 300 (BlueprintDimension.name x)),
         (''criterion_ids'', 1 \<le> length (BlueprintDimension.criterion_ids x) \<and> list_all Id_ok (BlueprintDimension.criterion_ids x)),
         (''learning_outcome_ids'', list_all Id_ok (BlueprintDimension.learning_outcome_ids x)),
         (''grading_weight'', opt_all (\<lambda>e. 0 \<le> e \<and> e \<le> 1) (BlueprintDimension.grading_weight x)),
         (''verification_priority'', Score_ok (BlueprintDimension.verification_priority x)),
         (''factors'', valid VerificationFactors_validate (BlueprintDimension.factors x)),
         (''justification'', str_field 1 1000 (BlueprintDimension.justification x)),
         (''evidence_variants'', 1 \<le> length (BlueprintDimension.evidence_variants x) \<and> list_all (valid EvidenceVariant_validate) (BlueprintDimension.evidence_variants x))]]"

record AssessmentConstraints =
  question_count :: "int"
  target_total_minutes :: "int"
  allowed_response_formats :: "ResponseFormat list"
  minimum_opportunity_quality :: "pyfloat"
  max_reserve_opportunities :: "int"
  structured_justification_policy :: "StructuredJustificationPolicy"

definition AssessmentConstraints_validate :: "AssessmentConstraints \<Rightarrow> contract_error option" where
  "AssessmentConstraints_validate x = first_error [
     field_errors [
         (''question_count'', 1 \<le> (AssessmentConstraints.question_count x) \<and> (AssessmentConstraints.question_count x) \<le> 20),
         (''target_total_minutes'', 3 \<le> (AssessmentConstraints.target_total_minutes x) \<and> (AssessmentConstraints.target_total_minutes x) \<le> 120),
         (''allowed_response_formats'', 1 \<le> length (AssessmentConstraints.allowed_response_formats x) \<and> length (AssessmentConstraints.allowed_response_formats x) \<le> 20),
         (''minimum_opportunity_quality'', Score_ok (AssessmentConstraints.minimum_opportunity_quality x)),
         (''max_reserve_opportunities'', 0 \<le> (AssessmentConstraints.max_reserve_opportunities x) \<and> (AssessmentConstraints.max_reserve_opportunities x) \<le> 10),
         (''structured_justification_policy'', valid StructuredJustificationPolicy_validate (AssessmentConstraints.structured_justification_policy x))]]"

record AssessmentBlueprint =
  schema_version :: "string"
  blueprint_id :: "string"
  blueprint_version :: "int"
  activity_id :: "string"
  status :: "WorkflowStatus"
  context_mode :: "ContextMode"
  dimensions :: "BlueprintDimension list"
  assessment_constraints :: "AssessmentConstraints"
  decision_ids :: "string list"
  diagnostics :: "Diagnostic list"
  approved_by :: "string option"
  approved_at :: "datetime option"

definition blueprint_variants :: "AssessmentBlueprint \<Rightarrow> EvidenceVariant list" where
  "blueprint_variants x = concat (map BlueprintDimension.evidence_variants (AssessmentBlueprint.dimensions x))"

definition blueprint_templates :: "AssessmentBlueprint \<Rightarrow> QuestionOpportunityTemplate list" where
  "blueprint_templates x = concat (map EvidenceVariant.question_opportunities (blueprint_variants x))"

definition AssessmentBlueprint_validate :: "AssessmentBlueprint \<Rightarrow> contract_error option" where
  "AssessmentBlueprint_validate x = first_error [
     field_errors [
         (''schema_version'', (AssessmentBlueprint.schema_version x) = LEGACY_SCHEMA_VERSION),
         (''blueprint_id'', Id_ok (AssessmentBlueprint.blueprint_id x)),
         (''blueprint_version'', 1 \<le> (AssessmentBlueprint.blueprint_version x)),
         (''activity_id'', Id_ok (AssessmentBlueprint.activity_id x)),
         (''dimensions'', 1 \<le> length (AssessmentBlueprint.dimensions x) \<and> list_all (valid BlueprintDimension_validate) (AssessmentBlueprint.dimensions x)),
         (''assessment_constraints'', valid AssessmentConstraints_validate (AssessmentBlueprint.assessment_constraints x)),
         (''decision_ids'', list_all Id_ok (AssessmentBlueprint.decision_ids x)),
         (''diagnostics'', list_all (valid Diagnostic_validate) (AssessmentBlueprint.diagnostics x)),
         (''approved_by'', opt_all PrincipalId_ok (AssessmentBlueprint.approved_by x))],
     fail_if (has_dup (map BlueprintDimension.dimension_id (AssessmentBlueprint.dimensions x))) ''dimension_ids must be unique'',
     fail_if (has_dup (map EvidenceVariant.variant_id (blueprint_variants x))) ''variant_ids must be unique across the blueprint'',
     fail_if (has_dup (map QuestionOpportunityTemplate.opportunity_template_id (blueprint_templates x))) ''opportunity_template_ids must be unique across the blueprint'',
     fail_if (list_ex (\<lambda>q. \<not> set (QuestionOpportunityTemplate.allowed_response_formats q)
          \<subseteq> set (AssessmentConstraints.allowed_response_formats (AssessmentBlueprint.assessment_constraints x)))
        (blueprint_templates x)) ''opportunity response format is not allowed by constraints'',
     fail_if (\<not> set (StructuredJustificationPolicy.selected_opportunity_template_ids
          (AssessmentConstraints.structured_justification_policy (AssessmentBlueprint.assessment_constraints x)))
        \<subseteq> set (map QuestionOpportunityTemplate.opportunity_template_id (blueprint_templates x))) ''justification policy references an unknown opportunity'',
     fail_if ((AssessmentBlueprint.approved_by x = None) \<noteq> (AssessmentBlueprint.approved_at x = None)) ''approved_by and approved_at must both be set or absent'']"

record BlueprintReviewCheck =
  check_code :: "string"
  category :: "string"
  status :: "ReviewCheckStatus"
  message :: "string"
  referenced_ids :: "string list"
  correction :: "string option"
  critical :: "bool"

definition BlueprintReviewCheck_validate :: "BlueprintReviewCheck \<Rightarrow> contract_error option" where
  "BlueprintReviewCheck_validate x = first_error [
     field_errors [
         (''check_code'', upper_code 63 (BlueprintReviewCheck.check_code x)),
         (''category'', (BlueprintReviewCheck.category x) \<in> {''CONSTRUCT'', ''SOURCE_FIDELITY'', ''COVERAGE'', ''COMPARABILITY'', ''COGNITIVE_DEMAND'', ''TIME'', ''FORMAT_FEASIBILITY'', ''OPPORTUNITY_CATALOG'', ''PLAN_FEASIBILITY'', ''ACCESSIBILITY''}),
         (''message'', str_field 3 1500 (BlueprintReviewCheck.message x)),
         (''referenced_ids'', length (BlueprintReviewCheck.referenced_ids x) \<le> 100 \<and> list_all Id_ok (BlueprintReviewCheck.referenced_ids x)),
         (''correction'', opt_all (str_field 0 1500) (BlueprintReviewCheck.correction x))]]"

record BlueprintReview =
  schema_version :: "string"
  activity_id :: "string"
  blueprint_id :: "string"
  blueprint_version :: "int"
  status :: "string"
  approval_recommendation :: "BlueprintApprovalRecommendation option"
  checks :: "BlueprintReviewCheck list"
  diagnostics :: "Diagnostic list"

definition BlueprintReview_validate :: "BlueprintReview \<Rightarrow> contract_error option" where
  "BlueprintReview_validate x = first_error [
     field_errors [
         (''schema_version'', (BlueprintReview.schema_version x) = LEGACY_SCHEMA_VERSION),
         (''activity_id'', Id_ok (BlueprintReview.activity_id x)),
         (''blueprint_id'', Id_ok (BlueprintReview.blueprint_id x)),
         (''blueprint_version'', 1 \<le> (BlueprintReview.blueprint_version x)),
         (''status'', (BlueprintReview.status x) \<in> {''READY'', ''NEEDS_REVIEW'', ''TECHNICAL_FAILURE''}),
         (''checks'', length (BlueprintReview.checks x) \<le> 100 \<and> list_all (valid BlueprintReviewCheck_validate) (BlueprintReview.checks x)),
         (''diagnostics'', list_all (valid Diagnostic_validate) (BlueprintReview.diagnostics x))],
     fail_if (BlueprintReview.status x = ''READY'' \<and> BlueprintReview.approval_recommendation x = None) ''READY review requires approval_recommendation'',
     fail_if (BlueprintReview.status x \<noteq> ''READY'' \<and> BlueprintReview.approval_recommendation x \<noteq> None) ''non-READY review cannot recommend approval'',
     fail_if (list_ex (\<lambda>c. BlueprintReviewCheck.critical c \<and> BlueprintReviewCheck.status c = ReviewCheckStatus.FAIL)
          (BlueprintReview.checks x)
        \<and> BlueprintReview.approval_recommendation x \<noteq> Some BlueprintApprovalRecommendation.REJECT) ''critical FAIL requires REJECT'']"

end
