(* ===== verification/ContractsQuestion.thy ===== *)
theory ContractsQuestion
  imports ContractsActivity
begin

text \<open>
  The contracts of the question side: evidence mapping, opportunities, the assessment plan,
  candidates, reviews, guides, the assessment itself, bulk approval and review actions.
\<close>

record EvidenceAlignment =
  dimension_id :: "string"
  variant_ids :: "string list"
  criterion_ids :: "string list"
  strength :: "pyfloat"
  justification :: "string"

definition EvidenceAlignment_validate :: "EvidenceAlignment \<Rightarrow> contract_error option" where
  "EvidenceAlignment_validate x = first_error [
     field_errors [
         (''dimension_id'', Id_ok (EvidenceAlignment.dimension_id x)),
         (''variant_ids'', 1 \<le> length (EvidenceAlignment.variant_ids x) \<and> length (EvidenceAlignment.variant_ids x) \<le> 50 \<and> list_all Id_ok (EvidenceAlignment.variant_ids x)),
         (''criterion_ids'', list_all Id_ok (EvidenceAlignment.criterion_ids x)),
         (''strength'', Score_ok (EvidenceAlignment.strength x)),
         (''justification'', str_field 1 800 (EvidenceAlignment.justification x))]]"

record EvidenceClaim =
  claim_id :: "string"
  "text" :: "string"
  evidence_ids :: "string list"
  alignments :: "EvidenceAlignment list"
  supported_operations :: "CognitiveOperation list"
  specificity :: "pyfloat"
  auditability :: "pyfloat"
  self_containment :: "pyfloat"
  ambiguity_risk :: "pyfloat"
  uncertainties :: "string list"

definition EvidenceClaim_validate :: "EvidenceClaim \<Rightarrow> contract_error option" where
  "EvidenceClaim_validate x = first_error [
     field_errors [
         (''claim_id'', Id_ok (EvidenceClaim.claim_id x)),
         (''text'', str_field 1 1500 (EvidenceClaim.text x)),
         (''evidence_ids'', 1 \<le> length (EvidenceClaim.evidence_ids x) \<and> length (EvidenceClaim.evidence_ids x) \<le> 50 \<and> list_all Id_ok (EvidenceClaim.evidence_ids x)),
         (''alignments'', list_all (valid EvidenceAlignment_validate) (EvidenceClaim.alignments x)),
         (''specificity'', Score_ok (EvidenceClaim.specificity x)),
         (''auditability'', Score_ok (EvidenceClaim.auditability x)),
         (''self_containment'', Score_ok (EvidenceClaim.self_containment x)),
         (''ambiguity_risk'', Score_ok (EvidenceClaim.ambiguity_risk x)),
         (''uncertainties'', length (EvidenceClaim.uncertainties x) \<le> 20 \<and> list_all trimmed (EvidenceClaim.uncertainties x))]]"

record EvidenceVariantMatch =
  dimension_id :: "string"
  variant_id :: "string"
  evidence_ids :: "string list"
  evidence_fit :: "pyfloat"
  mapping_confidence :: "pyfloat"
  justification :: "string"

definition EvidenceVariantMatch_validate :: "EvidenceVariantMatch \<Rightarrow> contract_error option" where
  "EvidenceVariantMatch_validate x = first_error [
     field_errors [
         (''dimension_id'', Id_ok (EvidenceVariantMatch.dimension_id x)),
         (''variant_id'', Id_ok (EvidenceVariantMatch.variant_id x)),
         (''evidence_ids'', 1 \<le> length (EvidenceVariantMatch.evidence_ids x) \<and> length (EvidenceVariantMatch.evidence_ids x) \<le> 50 \<and> list_all Id_ok (EvidenceVariantMatch.evidence_ids x)),
         (''evidence_fit'', Score_ok (EvidenceVariantMatch.evidence_fit x)),
         (''mapping_confidence'', Score_ok (EvidenceVariantMatch.mapping_confidence x)),
         (''justification'', str_field 1 1000 (EvidenceVariantMatch.justification x))]]"

record QuestionOpportunity =
  opportunity_id :: "string"
  opportunity_template_id :: "string"
  submission_id :: "string"
  dimension_id :: "string"
  variant_id :: "string"
  evidence_ids :: "string list"
  cognitive_operation :: "CognitiveOperation"
  focus :: "string"
  observable :: "string"
  difficulty :: "DifficultyBand"
  target_minutes :: "int"
  allowed_anchor_structures :: "AnchorStructure list"
  allowed_response_formats :: "ResponseFormat list"
  activity_priority :: "pyfloat"
  evidence_fit :: "pyfloat"
  opportunity_quality :: "pyfloat"
  student_justification_required :: "bool"

definition QuestionOpportunity_validate :: "QuestionOpportunity \<Rightarrow> contract_error option" where
  "QuestionOpportunity_validate x = first_error [
     field_errors [
         (''opportunity_id'', Id_ok (QuestionOpportunity.opportunity_id x)),
         (''opportunity_template_id'', Id_ok (QuestionOpportunity.opportunity_template_id x)),
         (''submission_id'', Id_ok (QuestionOpportunity.submission_id x)),
         (''dimension_id'', Id_ok (QuestionOpportunity.dimension_id x)),
         (''variant_id'', Id_ok (QuestionOpportunity.variant_id x)),
         (''evidence_ids'', 1 \<le> length (QuestionOpportunity.evidence_ids x) \<and> length (QuestionOpportunity.evidence_ids x) \<le> 50 \<and> list_all Id_ok (QuestionOpportunity.evidence_ids x)),
         (''focus'', str_field 1 1000 (QuestionOpportunity.focus x)),
         (''observable'', str_field 1 1000 (QuestionOpportunity.observable x)),
         (''target_minutes'', 1 \<le> (QuestionOpportunity.target_minutes x) \<and> (QuestionOpportunity.target_minutes x) \<le> 60),
         (''allowed_anchor_structures'', 1 \<le> length (QuestionOpportunity.allowed_anchor_structures x)),
         (''allowed_response_formats'', 1 \<le> length (QuestionOpportunity.allowed_response_formats x)),
         (''activity_priority'', Score_ok (QuestionOpportunity.activity_priority x)),
         (''evidence_fit'', Score_ok (QuestionOpportunity.evidence_fit x)),
         (''opportunity_quality'', Score_ok (QuestionOpportunity.opportunity_quality x))]]"

record EvidenceMapPatch =
  schema_version :: "string"
  submission_id :: "string"
  status :: "string"
  claims :: "EvidenceClaim list"
  variant_matches :: "EvidenceVariantMatch list"
  opportunities :: "QuestionOpportunity list"
  diagnostics :: "Diagnostic list"

definition EvidenceMapPatch_validate :: "EvidenceMapPatch \<Rightarrow> contract_error option" where
  "EvidenceMapPatch_validate x = first_error [
     field_errors [
         (''schema_version'', (EvidenceMapPatch.schema_version x) = LEGACY_SCHEMA_VERSION),
         (''submission_id'', Id_ok (EvidenceMapPatch.submission_id x)),
         (''status'', (EvidenceMapPatch.status x) \<in> {''READY'', ''INSUFFICIENT_RELEVANT_EVIDENCE'', ''INSUFFICIENT_DISTINCT_QUESTION_OPPORTUNITIES'', ''EVIDENCE_MAPPING_UNCERTAIN'', ''TECHNICAL_FAILURE''}),
         (''claims'', list_all (valid EvidenceClaim_validate) (EvidenceMapPatch.claims x)),
         (''variant_matches'', list_all (valid EvidenceVariantMatch_validate) (EvidenceMapPatch.variant_matches x)),
         (''opportunities'', list_all (valid QuestionOpportunity_validate) (EvidenceMapPatch.opportunities x)),
         (''diagnostics'', list_all (valid Diagnostic_validate) (EvidenceMapPatch.diagnostics x))],
     fail_if (has_dup (map QuestionOpportunity.opportunity_id (EvidenceMapPatch.opportunities x))) ''opportunity_ids must be unique'',
     fail_if (list_ex (\<lambda>q. QuestionOpportunity.submission_id q \<noteq> EvidenceMapPatch.submission_id x) (EvidenceMapPatch.opportunities x)) ''opportunities must belong to the mapped submission'',
     fail_if (EvidenceMapPatch.status x \<noteq> ''READY'' \<and> EvidenceMapPatch.opportunities x \<noteq> []) ''non-READY mapping cannot expose usable opportunities'']"

record AssessmentPlan =
  schema_version :: "string"
  plan_id :: "string"
  submission_id :: "string"
  blueprint_id :: "string"
  blueprint_version :: "int"
  status :: "string"
  question_count :: "int"
  selected_opportunity_ids :: "string list"
  reserve_opportunity_ids :: "string list"
  estimated_total_minutes :: "int"
  diagnostics :: "Diagnostic list"

definition AssessmentPlan_validate :: "AssessmentPlan \<Rightarrow> contract_error option" where
  "AssessmentPlan_validate x = first_error [
     field_errors [
         (''schema_version'', (AssessmentPlan.schema_version x) = LEGACY_SCHEMA_VERSION),
         (''plan_id'', Id_ok (AssessmentPlan.plan_id x)),
         (''submission_id'', Id_ok (AssessmentPlan.submission_id x)),
         (''blueprint_id'', Id_ok (AssessmentPlan.blueprint_id x)),
         (''blueprint_version'', 1 \<le> (AssessmentPlan.blueprint_version x)),
         (''status'', (AssessmentPlan.status x) \<in> {''READY'', ''INSUFFICIENT_RELEVANT_EVIDENCE'', ''INSUFFICIENT_DISTINCT_QUESTION_OPPORTUNITIES'', ''EVIDENCE_MAPPING_UNCERTAIN'', ''ASSESSMENT_PLAN_INFEASIBLE''}),
         (''question_count'', 1 \<le> (AssessmentPlan.question_count x) \<and> (AssessmentPlan.question_count x) \<le> 20),
         (''selected_opportunity_ids'', length (AssessmentPlan.selected_opportunity_ids x) \<le> 20 \<and> list_all Id_ok (AssessmentPlan.selected_opportunity_ids x)),
         (''reserve_opportunity_ids'', length (AssessmentPlan.reserve_opportunity_ids x) \<le> 10 \<and> list_all Id_ok (AssessmentPlan.reserve_opportunity_ids x)),
         (''estimated_total_minutes'', 0 \<le> (AssessmentPlan.estimated_total_minutes x) \<and> (AssessmentPlan.estimated_total_minutes x) \<le> 120),
         (''diagnostics'', list_all (valid Diagnostic_validate) (AssessmentPlan.diagnostics x))],
     fail_if (has_dup (AssessmentPlan.selected_opportunity_ids x) \<or> has_dup (AssessmentPlan.reserve_opportunity_ids x)) ''planned opportunity ids must be unique'',
     fail_if (set (AssessmentPlan.selected_opportunity_ids x) \<inter> set (AssessmentPlan.reserve_opportunity_ids x) \<noteq> {}) ''primary and reserve opportunities must be disjoint'',
     fail_if (AssessmentPlan.status x = ''READY'' \<and> int (length (AssessmentPlan.selected_opportunity_ids x)) \<noteq> AssessmentPlan.question_count x) ''READY plan requires exactly question_count primaries'',
     fail_if (AssessmentPlan.status x \<noteq> ''READY'' \<and> (AssessmentPlan.selected_opportunity_ids x \<noteq> [] \<or> AssessmentPlan.reserve_opportunity_ids x \<noteq> [])) ''failed plan cannot contain a partial assessment'']"

record AnchorFragment =
  evidence_id :: "string"
  display_text :: "string option"
  transformation :: "string"
  locator :: "SourceLocator"

definition AnchorFragment_validate :: "AnchorFragment \<Rightarrow> contract_error option" where
  "AnchorFragment_validate x = first_error [
     field_errors [
         (''evidence_id'', Id_ok (AnchorFragment.evidence_id x)),
         (''display_text'', opt_all (str_field 0 20000) (AnchorFragment.display_text x)),
         (''transformation'', (AnchorFragment.transformation x) \<in> {''LITERAL'', ''CROP'', ''TABLE_SLICE'', ''CODE_CONTEXT'', ''ALT_TEXT''}),
         (''locator'', valid SourceLocator_validate (AnchorFragment.locator x))]]"

record Anchor =
  anchor_id :: "string"
  "structure" :: "AnchorStructure"
  fragments :: "AnchorFragment list"
  student_facing_label :: "string option"
  self_containment_score :: "pyfloat"
  answer_leakage_risk :: "pyfloat"

definition Anchor_validate :: "Anchor \<Rightarrow> contract_error option" where
  "Anchor_validate x = first_error [
     field_errors [
         (''anchor_id'', Id_ok (Anchor.anchor_id x)),
         (''fragments'', 1 \<le> length (Anchor.fragments x) \<and> length (Anchor.fragments x) \<le> 8 \<and> list_all (valid AnchorFragment_validate) (Anchor.fragments x)),
         (''student_facing_label'', opt_all (str_field 0 300) (Anchor.student_facing_label x)),
         (''self_containment_score'', Score_ok (Anchor.self_containment_score x)),
         (''answer_leakage_risk'', Score_ok (Anchor.answer_leakage_risk x))]]"

record ObservableElement =
  element_id :: "string"
  description :: "string"
  evidence_ids :: "string list"
  source_ids :: "string list"
  required_for_level_2 :: "bool"

definition ObservableElement_validate :: "ObservableElement \<Rightarrow> contract_error option" where
  "ObservableElement_validate x = first_error [
     field_errors [
         (''element_id'', Id_ok (ObservableElement.element_id x)),
         (''description'', str_field 1 1000 (ObservableElement.description x)),
         (''evidence_ids'', 1 \<le> length (ObservableElement.evidence_ids x) \<and> list_all Id_ok (ObservableElement.evidence_ids x)),
         (''source_ids'', length (ObservableElement.source_ids x) \<le> 50 \<and> list_all Id_ok (ObservableElement.source_ids x))]]"

record GuideLevel =
  level :: "int"
  label :: "string"
  descriptor :: "string"
  observable_element_ids :: "string list"

definition GuideLevel_validate :: "GuideLevel \<Rightarrow> contract_error option" where
  "GuideLevel_validate x = first_error [
     field_errors [
         (''level'', 0 \<le> (GuideLevel.level x) \<and> (GuideLevel.level x) \<le> 3),
         (''label'', str_field 1 100 (GuideLevel.label x)),
         (''descriptor'', str_field 1 2000 (GuideLevel.descriptor x)),
         (''observable_element_ids'', list_all Id_ok (GuideLevel.observable_element_ids x))]]"

record GuideDraft =
  purpose :: "string"
  observable_elements :: "ObservableElement list"
  acceptable_alternatives :: "string list"
  misconceptions :: "string list"
  levels :: "GuideLevel list"
  cannot_infer :: "string list"

definition GuideDraft_validate :: "GuideDraft \<Rightarrow> contract_error option" where
  "GuideDraft_validate x = first_error [
     field_errors [
         (''purpose'', str_field 1 1000 (GuideDraft.purpose x)),
         (''observable_elements'', length (GuideDraft.observable_elements x) \<le> 20 \<and> list_all (valid ObservableElement_validate) (GuideDraft.observable_elements x)),
         (''acceptable_alternatives'', length (GuideDraft.acceptable_alternatives x) \<le> 20 \<and> list_all trimmed (GuideDraft.acceptable_alternatives x)),
         (''misconceptions'', length (GuideDraft.misconceptions x) \<le> 20 \<and> list_all trimmed (GuideDraft.misconceptions x)),
         (''levels'', length (GuideDraft.levels x) \<le> 4 \<and> list_all (valid GuideLevel_validate) (GuideDraft.levels x)),
         (''cannot_infer'', length (GuideDraft.cannot_infer x) \<le> 20 \<and> list_all trimmed (GuideDraft.cannot_infer x))]]"

record EvaluationGuideItem =
  question_id :: "string"
  guide :: "GuideDraft"

definition EvaluationGuideItem_validate :: "EvaluationGuideItem \<Rightarrow> contract_error option" where
  "EvaluationGuideItem_validate x = first_error [
     field_errors [
         (''question_id'', Id_ok (EvaluationGuideItem.question_id x)),
         (''guide'', valid GuideDraft_validate (EvaluationGuideItem.guide x))]]"

record EvaluationGuide =
  schema_version :: "string"
  guide_id :: "string"
  assessment_id :: "string"
  submission_id :: "string"
  status :: "string"
  items :: "EvaluationGuideItem list"
  diagnostics :: "Diagnostic list"
  created_at :: "datetime"

definition EvaluationGuide_validate :: "EvaluationGuide \<Rightarrow> contract_error option" where
  "EvaluationGuide_validate x = first_error [
     field_errors [
         (''schema_version'', (EvaluationGuide.schema_version x) = LEGACY_SCHEMA_VERSION),
         (''guide_id'', Id_ok (EvaluationGuide.guide_id x)),
         (''assessment_id'', Id_ok (EvaluationGuide.assessment_id x)),
         (''submission_id'', Id_ok (EvaluationGuide.submission_id x)),
         (''status'', (EvaluationGuide.status x) \<in> {''READY'', ''NEEDS_REVIEW'', ''TECHNICAL_FAILURE''}),
         (''items'', length (EvaluationGuide.items x) \<le> 20 \<and> list_all (valid EvaluationGuideItem_validate) (EvaluationGuide.items x)),
         (''diagnostics'', list_all (valid Diagnostic_validate) (EvaluationGuide.diagnostics x))],
     fail_if (has_dup (map EvaluationGuideItem.question_id (EvaluationGuide.items x))) ''EvaluationGuide question_ids must be unique'',
     fail_if (EvaluationGuide.status x = ''READY'' \<and> EvaluationGuide.items x = []) ''READY guide requires items'']"

record ChoiceOption =
  option_id :: "string"
  "text" :: "string"
  is_best_answer :: "bool"
  evaluator_rationale :: "string"
  misconception :: "string option"

definition ChoiceOption_validate :: "ChoiceOption \<Rightarrow> contract_error option" where
  "ChoiceOption_validate x = first_error [
     field_errors [
         (''option_id'', Id_ok (ChoiceOption.option_id x)),
         (''text'', str_field 1 1000 (ChoiceOption.text x)),
         (''evaluator_rationale'', str_field 1 1500 (ChoiceOption.evaluator_rationale x)),
         (''misconception'', opt_all (str_field 0 1000) (ChoiceOption.misconception x))]]"

record RejectedQuestionFingerprint =
  fingerprint_id :: "string"
  opportunity_id :: "string"
  evidence_ids :: "string list"
  normalized_question_hash :: "string"
  rejection_codes :: "string list"

definition RejectedQuestionFingerprint_validate :: "RejectedQuestionFingerprint \<Rightarrow> contract_error option" where
  "RejectedQuestionFingerprint_validate x = first_error [
     field_errors [
         (''fingerprint_id'', Id_ok (RejectedQuestionFingerprint.fingerprint_id x)),
         (''opportunity_id'', Id_ok (RejectedQuestionFingerprint.opportunity_id x)),
         (''evidence_ids'', length (RejectedQuestionFingerprint.evidence_ids x) \<le> 50 \<and> list_all Id_ok (RejectedQuestionFingerprint.evidence_ids x)),
         (''normalized_question_hash'', Hash_ok (RejectedQuestionFingerprint.normalized_question_hash x)),
         (''rejection_codes'', length (RejectedQuestionFingerprint.rejection_codes x) \<le> 20 \<and> list_all trimmed (RejectedQuestionFingerprint.rejection_codes x))]]"

record QuestionCandidate =
  candidate_id :: "string"
  submission_id :: "string"
  opportunity_id :: "string"
  opportunity_template_id :: "string"
  dimension_id :: "string"
  variant_id :: "string"
  cognitive_operation :: "CognitiveOperation"
  response_format :: "ResponseFormat"
  difficulty :: "DifficultyBand"
  estimated_minutes :: "int"
  question_text :: "string"
  anchor :: "Anchor"
  evidence_ids :: "string list"
  course_source_ids :: "string list"
  citations :: "SourceCitation list"
  choices :: "ChoiceOption list"
  student_justification_required :: "bool"
  preliminary_guide :: "GuideDraft"
  uncertainties :: "string list"

definition choices_error :: "ChoiceOption list \<Rightarrow> contract_error option" where
  "choices_error cs = first_error [
     fail_if (length cs < 3 \<or> length (filter ChoiceOption.is_best_answer cs) \<noteq> 1)
       ''choice question requires >=3 options and one best answer'',
     fail_if (list_ex (\<lambda>c. \<not> ChoiceOption.is_best_answer c \<and> falsy (ChoiceOption.misconception c)) cs)
       ''every distractor requires a defendable misconception'']"

definition QuestionCandidate_validate :: "QuestionCandidate \<Rightarrow> contract_error option" where
  "QuestionCandidate_validate x = first_error [
     field_errors [
         (''candidate_id'', Id_ok (QuestionCandidate.candidate_id x)),
         (''submission_id'', Id_ok (QuestionCandidate.submission_id x)),
         (''opportunity_id'', Id_ok (QuestionCandidate.opportunity_id x)),
         (''opportunity_template_id'', Id_ok (QuestionCandidate.opportunity_template_id x)),
         (''dimension_id'', Id_ok (QuestionCandidate.dimension_id x)),
         (''variant_id'', Id_ok (QuestionCandidate.variant_id x)),
         (''estimated_minutes'', 1 \<le> (QuestionCandidate.estimated_minutes x) \<and> (QuestionCandidate.estimated_minutes x) \<le> 60),
         (''question_text'', str_field 5 4000 (QuestionCandidate.question_text x)),
         (''anchor'', valid Anchor_validate (QuestionCandidate.anchor x)),
         (''evidence_ids'', 1 \<le> length (QuestionCandidate.evidence_ids x) \<and> length (QuestionCandidate.evidence_ids x) \<le> 50 \<and> list_all Id_ok (QuestionCandidate.evidence_ids x)),
         (''course_source_ids'', length (QuestionCandidate.course_source_ids x) \<le> 50 \<and> list_all Id_ok (QuestionCandidate.course_source_ids x)),
         (''citations'', length (QuestionCandidate.citations x) \<le> 50 \<and> list_all (valid SourceCitation_validate) (QuestionCandidate.citations x)),
         (''choices'', length (QuestionCandidate.choices x) \<le> 8 \<and> list_all (valid ChoiceOption_validate) (QuestionCandidate.choices x)),
         (''preliminary_guide'', valid GuideDraft_validate (QuestionCandidate.preliminary_guide x)),
         (''uncertainties'', length (QuestionCandidate.uncertainties x) \<le> 20 \<and> list_all trimmed (QuestionCandidate.uncertainties x))],
     fail_if (\<not> set (map AnchorFragment.evidence_id (Anchor.fragments (QuestionCandidate.anchor x))) \<subseteq> set (QuestionCandidate.evidence_ids x)) ''anchor evidence must be included in evidence_ids'',
     (if QuestionCandidate.response_format x = ResponseFormat.CHOICE
      then choices_error (QuestionCandidate.choices x)
      else fail_if (QuestionCandidate.choices x \<noteq> []) ''choices allowed only for CHOICE''),
     fail_if (set (QuestionCandidate.course_source_ids x) \<noteq> set (map SourceCitation.source_id (QuestionCandidate.citations x))) ''course_source_ids must exactly match citation source_ids'']"

record QuestionGenerationResult =
  schema_version :: "string"
  submission_id :: "string"
  opportunity_id :: "string"
  context_mode :: "ContextMode"
  status :: "string"
  candidate :: "QuestionCandidate option"
  diagnostics :: "Diagnostic list"

definition QuestionGenerationResult_validate :: "QuestionGenerationResult \<Rightarrow> contract_error option" where
  "QuestionGenerationResult_validate x = first_error [
     field_errors [
         (''schema_version'', (QuestionGenerationResult.schema_version x) = LEGACY_SCHEMA_VERSION),
         (''submission_id'', Id_ok (QuestionGenerationResult.submission_id x)),
         (''opportunity_id'', Id_ok (QuestionGenerationResult.opportunity_id x)),
         (''status'', (QuestionGenerationResult.status x) \<in> {''READY'', ''REPLACEMENT_REQUIRED'', ''TECHNICAL_FAILURE''}),
         (''candidate'', opt_all (valid QuestionCandidate_validate) (QuestionGenerationResult.candidate x)),
         (''diagnostics'', list_all (valid Diagnostic_validate) (QuestionGenerationResult.diagnostics x))],
     (case QuestionGenerationResult.candidate x of None \<Rightarrow> None | Some c \<Rightarrow> first_error [
       fail_if (QuestionCandidate.submission_id c \<noteq> QuestionGenerationResult.submission_id x
         \<or> QuestionCandidate.opportunity_id c \<noteq> QuestionGenerationResult.opportunity_id x) ''candidate must belong to the requested opportunity'',
       fail_if (QuestionGenerationResult.context_mode x = ContextMode.CLOSED
         \<and> (QuestionCandidate.course_source_ids c \<noteq> [] \<or> QuestionCandidate.citations c \<noteq> [])) ''CLOSED result cannot contain course citations'']),
     fail_if (QuestionGenerationResult.status x = ''READY'' \<and> QuestionGenerationResult.candidate x = None) ''READY result requires a candidate'',
     fail_if (QuestionGenerationResult.status x \<noteq> ''READY'' \<and> QuestionGenerationResult.candidate x \<noteq> None) ''failed result cannot expose an unvalidated candidate'']"

record QuestionScores =
  groundedness :: "pyfloat"
  anchor_sufficiency :: "pyfloat"
  criterion_relevance :: "pyfloat"
  answerability :: "pyfloat"
  cognitive_demand :: "pyfloat"
  submission_specificity :: "pyfloat"
  clarity :: "pyfloat"
  accessibility :: "pyfloat"
  discriminative_potential :: "pyfloat"
  guide_observability :: "pyfloat"

definition QuestionScores_validate :: "QuestionScores \<Rightarrow> contract_error option" where
  "QuestionScores_validate x = first_error [
     field_errors [
         (''groundedness'', Score_ok (QuestionScores.groundedness x)),
         (''anchor_sufficiency'', Score_ok (QuestionScores.anchor_sufficiency x)),
         (''criterion_relevance'', Score_ok (QuestionScores.criterion_relevance x)),
         (''answerability'', Score_ok (QuestionScores.answerability x)),
         (''cognitive_demand'', Score_ok (QuestionScores.cognitive_demand x)),
         (''submission_specificity'', Score_ok (QuestionScores.submission_specificity x)),
         (''clarity'', Score_ok (QuestionScores.clarity x)),
         (''accessibility'', Score_ok (QuestionScores.accessibility x)),
         (''discriminative_potential'', Score_ok (QuestionScores.discriminative_potential x)),
         (''guide_observability'', Score_ok (QuestionScores.guide_observability x))]]"

record QuestionSemanticReview =
  candidate_id :: "string"
  decision :: "ReviewDecision"
  critical_failure_codes :: "string list"
  scores :: "QuestionScores"
  estimated_difficulty :: "DifficultyBand"
  estimated_minutes :: "int"
  confidence :: "pyfloat"
  justifications :: "string list"
  evidence_ids :: "string list"
  source_ids :: "string list"
  diagnostics :: "Diagnostic list"

definition QuestionSemanticReview_validate :: "QuestionSemanticReview \<Rightarrow> contract_error option" where
  "QuestionSemanticReview_validate x = first_error [
     field_errors [
         (''candidate_id'', Id_ok (QuestionSemanticReview.candidate_id x)),
         (''critical_failure_codes'', list_all trimmed (QuestionSemanticReview.critical_failure_codes x)),
         (''scores'', valid QuestionScores_validate (QuestionSemanticReview.scores x)),
         (''estimated_minutes'', 1 \<le> (QuestionSemanticReview.estimated_minutes x) \<and> (QuestionSemanticReview.estimated_minutes x) \<le> 60),
         (''confidence'', Score_ok (QuestionSemanticReview.confidence x)),
         (''justifications'', length (QuestionSemanticReview.justifications x) \<le> 20 \<and> list_all trimmed (QuestionSemanticReview.justifications x)),
         (''evidence_ids'', length (QuestionSemanticReview.evidence_ids x) \<le> 50 \<and> list_all Id_ok (QuestionSemanticReview.evidence_ids x)),
         (''source_ids'', length (QuestionSemanticReview.source_ids x) \<le> 50 \<and> list_all Id_ok (QuestionSemanticReview.source_ids x)),
         (''diagnostics'', list_all (valid Diagnostic_validate) (QuestionSemanticReview.diagnostics x))]]"

record QuestionReviewResult =
  schema_version :: "string"
  submission_id :: "string"
  opportunity_id :: "string"
  status :: "string"
  review :: "QuestionSemanticReview option"
  diagnostics :: "Diagnostic list"

definition QuestionReviewResult_validate :: "QuestionReviewResult \<Rightarrow> contract_error option" where
  "QuestionReviewResult_validate x = first_error [
     field_errors [
         (''schema_version'', (QuestionReviewResult.schema_version x) = LEGACY_SCHEMA_VERSION),
         (''submission_id'', Id_ok (QuestionReviewResult.submission_id x)),
         (''opportunity_id'', Id_ok (QuestionReviewResult.opportunity_id x)),
         (''status'', (QuestionReviewResult.status x) \<in> {''READY'', ''NEEDS_REVIEW'', ''TECHNICAL_FAILURE''}),
         (''review'', opt_all (valid QuestionSemanticReview_validate) (QuestionReviewResult.review x)),
         (''diagnostics'', list_all (valid Diagnostic_validate) (QuestionReviewResult.diagnostics x))],
     fail_if (QuestionReviewResult.status x = ''READY'' \<and> QuestionReviewResult.review x = None) ''READY review result requires a review'']"

record SelectedQuestion =
  question_id :: "string"
  source_candidate_id :: "string"
  opportunity_id :: "string"
  opportunity_template_id :: "string"
  dimension_id :: "string"
  variant_id :: "string"
  cognitive_operation :: "CognitiveOperation"
  response_format :: "ResponseFormat"
  difficulty :: "DifficultyBand"
  estimated_minutes :: "int"
  question_text :: "string"
  anchor :: "Anchor"
  evidence_ids :: "string list"
  course_source_ids :: "string list"
  citations :: "SourceCitation list"
  choices :: "ChoiceOption list"
  student_justification_required :: "bool"
  preliminary_guide :: "GuideDraft"
  planning_score :: "pyfloat"

definition SelectedQuestion_validate :: "SelectedQuestion \<Rightarrow> contract_error option" where
  "SelectedQuestion_validate x = first_error [
     field_errors [
         (''question_id'', Id_ok (SelectedQuestion.question_id x)),
         (''source_candidate_id'', Id_ok (SelectedQuestion.source_candidate_id x)),
         (''opportunity_id'', Id_ok (SelectedQuestion.opportunity_id x)),
         (''opportunity_template_id'', Id_ok (SelectedQuestion.opportunity_template_id x)),
         (''dimension_id'', Id_ok (SelectedQuestion.dimension_id x)),
         (''variant_id'', Id_ok (SelectedQuestion.variant_id x)),
         (''estimated_minutes'', 1 \<le> (SelectedQuestion.estimated_minutes x) \<and> (SelectedQuestion.estimated_minutes x) \<le> 60),
         (''question_text'', str_field 5 4000 (SelectedQuestion.question_text x)),
         (''anchor'', valid Anchor_validate (SelectedQuestion.anchor x)),
         (''evidence_ids'', 1 \<le> length (SelectedQuestion.evidence_ids x) \<and> list_all Id_ok (SelectedQuestion.evidence_ids x)),
         (''course_source_ids'', list_all Id_ok (SelectedQuestion.course_source_ids x)),
         (''citations'', length (SelectedQuestion.citations x) \<le> 50 \<and> list_all (valid SourceCitation_validate) (SelectedQuestion.citations x)),
         (''choices'', list_all (valid ChoiceOption_validate) (SelectedQuestion.choices x)),
         (''preliminary_guide'', valid GuideDraft_validate (SelectedQuestion.preliminary_guide x)),
         (''planning_score'', Score_ok (SelectedQuestion.planning_score x))],
     fail_if (\<not> set (map AnchorFragment.evidence_id (Anchor.fragments (SelectedQuestion.anchor x))) \<subseteq> set (SelectedQuestion.evidence_ids x)) ''anchor evidence must be included in evidence_ids'',
     fail_if (set (SelectedQuestion.course_source_ids x) \<noteq> set (map SourceCitation.source_id (SelectedQuestion.citations x))) ''course_source_ids must exactly match citation source_ids'',
     (if SelectedQuestion.response_format x = ResponseFormat.CHOICE
      then choices_error (SelectedQuestion.choices x)
      else fail_if (SelectedQuestion.choices x \<noteq> []) ''choices allowed only for CHOICE'')]"

record CoverageItem =
  dimension_id :: "string"
  available_variant_count :: "int"
  available_opportunity_count :: "int"
  selected_opportunity_count :: "int"
  reused_variant_count :: "int"
  evidence_unit_count :: "int"
  diagnostics :: "Diagnostic list"

definition CoverageItem_validate :: "CoverageItem \<Rightarrow> contract_error option" where
  "CoverageItem_validate x = first_error [
     field_errors [
         (''dimension_id'', Id_ok (CoverageItem.dimension_id x)),
         (''available_variant_count'', 0 \<le> (CoverageItem.available_variant_count x)),
         (''available_opportunity_count'', 0 \<le> (CoverageItem.available_opportunity_count x)),
         (''selected_opportunity_count'', 0 \<le> (CoverageItem.selected_opportunity_count x)),
         (''reused_variant_count'', 0 \<le> (CoverageItem.reused_variant_count x)),
         (''evidence_unit_count'', 0 \<le> (CoverageItem.evidence_unit_count x)),
         (''diagnostics'', list_all (valid Diagnostic_validate) (CoverageItem.diagnostics x))]]"

record StructuredJustificationSummary =
  mode :: "StructuredJustificationMode"
  required_question_ids :: "string list"
  limited_evidence_notice_required :: "bool"

definition StructuredJustificationSummary_validate :: "StructuredJustificationSummary \<Rightarrow> contract_error option" where
  "StructuredJustificationSummary_validate x = first_error [
     field_errors [
         (''required_question_ids'', length (StructuredJustificationSummary.required_question_ids x) \<le> 20 \<and> list_all Id_ok (StructuredJustificationSummary.required_question_ids x))],
     (if StructuredJustificationSummary.mode x = StructuredJustificationMode.NOT_REQUIRED
      then fail_if (StructuredJustificationSummary.required_question_ids x \<noteq> []) ''NOT_REQUIRED cannot list required questions''
      else fail_if (StructuredJustificationSummary.mode x = StructuredJustificationMode.SELECTED \<and> StructuredJustificationSummary.required_question_ids x = []) ''SELECTED requires at least one question''),
     fail_if (StructuredJustificationSummary.limited_evidence_notice_required x \<noteq> (StructuredJustificationSummary.mode x \<noteq> StructuredJustificationMode.ALL)) ''limited evidence notice is required exactly when justification is not required for all questions'']"

record Lineage =
  assignment_prompt_hashes :: "string list"
  rubric_hashes :: "string list"
  submission_hashes :: "string list"
  blueprint_id :: "string"
  blueprint_version :: "int"
  parser_versions :: "(string \<times> string) list"
  prompt_versions :: "(string \<times> string) list"
  schema_version :: "string"
  model_snapshots :: "(string \<times> string) list"
  policy_hash :: "string"
  planner_version :: "string"
  renderer_version :: "string"

definition Lineage_validate :: "Lineage \<Rightarrow> contract_error option" where
  "Lineage_validate x = first_error [
     field_errors [
         (''assignment_prompt_hashes'', list_all Hash_ok (Lineage.assignment_prompt_hashes x)),
         (''rubric_hashes'', list_all Hash_ok (Lineage.rubric_hashes x)),
         (''submission_hashes'', list_all Hash_ok (Lineage.submission_hashes x)),
         (''blueprint_id'', Id_ok (Lineage.blueprint_id x)),
         (''blueprint_version'', 1 \<le> (Lineage.blueprint_version x)),
         (''parser_versions'', dict_keys (Lineage.parser_versions x) \<and> list_all ((trimmed) \<circ> snd) (Lineage.parser_versions x)),
         (''prompt_versions'', dict_keys (Lineage.prompt_versions x) \<and> list_all ((trimmed) \<circ> snd) (Lineage.prompt_versions x)),
         (''schema_version'', (Lineage.schema_version x) = LEGACY_SCHEMA_VERSION),
         (''model_snapshots'', dict_keys (Lineage.model_snapshots x) \<and> list_all ((trimmed) \<circ> snd) (Lineage.model_snapshots x)),
         (''policy_hash'', Hash_ok (Lineage.policy_hash x)),
         (''planner_version'', trimmed (Lineage.planner_version x)),
         (''renderer_version'', trimmed (Lineage.renderer_version x))]]"

record Assessment =
  schema_version :: "string"
  assessment_id :: "string"
  tenant_id :: "string"
  activity_id :: "string"
  submission_id :: "string"
  subject_ref :: "string"
  status :: "WorkflowStatus"
  context_mode :: "ContextMode"
  assessment_plan_id :: "string"
  question_count :: "int"
  questions :: "SelectedQuestion list"
  coverage :: "CoverageItem list"
  structured_justification :: "StructuredJustificationSummary"
  diagnostics :: "Diagnostic list"
  lineage :: "Lineage"
  created_at :: "datetime"
  approved_by :: "string option"
  approved_at :: "datetime option"

definition required_ids :: "SelectedQuestion list \<Rightarrow> string list" where
  "required_ids qs = map SelectedQuestion.question_id (filter SelectedQuestion.student_justification_required qs)"

definition Assessment_validate :: "Assessment \<Rightarrow> contract_error option" where
  "Assessment_validate x = first_error [
     field_errors [
         (''schema_version'', (Assessment.schema_version x) = LEGACY_SCHEMA_VERSION),
         (''assessment_id'', Id_ok (Assessment.assessment_id x)),
         (''tenant_id'', Id_ok (Assessment.tenant_id x)),
         (''activity_id'', Id_ok (Assessment.activity_id x)),
         (''submission_id'', Id_ok (Assessment.submission_id x)),
         (''subject_ref'', Id_ok (Assessment.subject_ref x)),
         (''assessment_plan_id'', Id_ok (Assessment.assessment_plan_id x)),
         (''question_count'', 1 \<le> (Assessment.question_count x) \<and> (Assessment.question_count x) \<le> 20),
         (''questions'', list_all (valid SelectedQuestion_validate) (Assessment.questions x)),
         (''coverage'', list_all (valid CoverageItem_validate) (Assessment.coverage x)),
         (''structured_justification'', valid StructuredJustificationSummary_validate (Assessment.structured_justification x)),
         (''diagnostics'', list_all (valid Diagnostic_validate) (Assessment.diagnostics x)),
         (''lineage'', valid Lineage_validate (Assessment.lineage x)),
         (''approved_by'', opt_all PrincipalId_ok (Assessment.approved_by x))],
     fail_if (has_dup (map SelectedQuestion.question_id (Assessment.questions x))) ''assessment question_ids must be unique'',
     fail_if (Assessment.status x \<in> {WorkflowStatus.READY, WorkflowStatus.NEEDS_REVIEW, WorkflowStatus.APPROVED, WorkflowStatus.PUBLISHED}
        \<and> int (length (Assessment.questions x)) \<noteq> Assessment.question_count x) ''usable assessment requires exactly question_count questions'',
     fail_if (Assessment.context_mode x = ContextMode.CLOSED
        \<and> list_ex (\<lambda>q. SelectedQuestion.course_source_ids q \<noteq> [] \<or> SelectedQuestion.citations q \<noteq> []) (Assessment.questions x)) ''CLOSED assessment cannot contain course citations'',
     (if Assessment.status x \<in> {WorkflowStatus.APPROVED, WorkflowStatus.PUBLISHED} then first_error [
       fail_if (Assessment.questions x = []) ''approved assessment requires questions'',
       fail_if (Assessment.approved_by x = None \<or> Assessment.approved_at x = None) ''approved assessment requires human approval metadata'']
      else None),
     fail_if ((Assessment.approved_by x = None) \<noteq> (Assessment.approved_at x = None)) ''approved_by and approved_at must both be set or absent'',
     fail_if (set (StructuredJustificationSummary.required_question_ids (Assessment.structured_justification x))
        \<noteq> set (required_ids (Assessment.questions x))) ''structured justification summary must match questions'',
     fail_if (StructuredJustificationSummary.mode (Assessment.structured_justification x) = StructuredJustificationMode.ALL
        \<and> set (required_ids (Assessment.questions x)) \<noteq> set (map SelectedQuestion.question_id (Assessment.questions x))) ''ALL requires justification for every question'',
     fail_if (StructuredJustificationSummary.mode (Assessment.structured_justification x) = StructuredJustificationMode.NOT_REQUIRED
        \<and> required_ids (Assessment.questions x) \<noteq> []) ''NOT_REQUIRED cannot require a question justification'']"

record AssessmentVersionRef =
  assessment_id :: "string"
  assessment_version :: "int"

definition AssessmentVersionRef_validate :: "AssessmentVersionRef \<Rightarrow> contract_error option" where
  "AssessmentVersionRef_validate x = first_error [
     field_errors [
         (''assessment_id'', Id_ok (AssessmentVersionRef.assessment_id x)),
         (''assessment_version'', 1 \<le> (AssessmentVersionRef.assessment_version x))]]"

record BulkApprovalRequest =
  schema_version :: "string"
  request_id :: "string"
  tenant_id :: "string"
  actor_id :: "string"
  targets :: "AssessmentVersionRef list"
  explicit_confirmation :: "string"
  requested_at :: "datetime"

definition version_key :: "AssessmentVersionRef \<Rightarrow> string \<times> int" where
  "version_key r = (AssessmentVersionRef.assessment_id r, AssessmentVersionRef.assessment_version r)"

definition BulkApprovalRequest_validate :: "BulkApprovalRequest \<Rightarrow> contract_error option" where
  "BulkApprovalRequest_validate x = first_error [
     field_errors [
         (''schema_version'', (BulkApprovalRequest.schema_version x) = LEGACY_SCHEMA_VERSION),
         (''request_id'', Id_ok (BulkApprovalRequest.request_id x)),
         (''tenant_id'', Id_ok (BulkApprovalRequest.tenant_id x)),
         (''actor_id'', PrincipalId_ok (BulkApprovalRequest.actor_id x)),
         (''targets'', 1 \<le> length (BulkApprovalRequest.targets x) \<and> length (BulkApprovalRequest.targets x) \<le> 500 \<and> list_all (valid AssessmentVersionRef_validate) (BulkApprovalRequest.targets x)),
         (''explicit_confirmation'', (BulkApprovalRequest.explicit_confirmation x) = ''CONFIRM_BULK_APPROVAL_OF_ALL_ELIGIBLE_SELECTED_ASSESSMENTS'')],
     fail_if (has_dup (map version_key (BulkApprovalRequest.targets x))) ''bulk approval targets must be unique'']"

record BulkApprovalExclusion =
  target :: "AssessmentVersionRef"
  reason_code :: "string"
  message :: "string"
  requires_individual_review :: "bool"

definition BulkApprovalExclusion_validate :: "BulkApprovalExclusion \<Rightarrow> contract_error option" where
  "BulkApprovalExclusion_validate x = first_error [
     field_errors [
         (''target'', valid AssessmentVersionRef_validate (BulkApprovalExclusion.target x)),
         (''reason_code'', upper_code 63 (BulkApprovalExclusion.reason_code x)),
         (''message'', str_field 3 1000 (BulkApprovalExclusion.message x)),
         (''requires_individual_review'', (BulkApprovalExclusion.requires_individual_review x))]]"

record BulkApprovalRecord =
  schema_version :: "string"
  approval_id :: "string"
  request_id :: "string"
  tenant_id :: "string"
  actor_id :: "string"
  scope :: "string"
  approved_at :: "datetime"
  requested_targets :: "AssessmentVersionRef list"
  approved_targets :: "AssessmentVersionRef list"
  excluded_targets :: "BulkApprovalExclusion list"

definition BulkApprovalRecord_validate :: "BulkApprovalRecord \<Rightarrow> contract_error option" where
  "BulkApprovalRecord_validate x = first_error [
     field_errors [
         (''schema_version'', (BulkApprovalRecord.schema_version x) = LEGACY_SCHEMA_VERSION),
         (''approval_id'', Id_ok (BulkApprovalRecord.approval_id x)),
         (''request_id'', Id_ok (BulkApprovalRecord.request_id x)),
         (''tenant_id'', Id_ok (BulkApprovalRecord.tenant_id x)),
         (''actor_id'', PrincipalId_ok (BulkApprovalRecord.actor_id x)),
         (''scope'', (BulkApprovalRecord.scope x) = ''SELECTED_ELIGIBLE_ASSESSMENTS''),
         (''requested_targets'', 1 \<le> length (BulkApprovalRecord.requested_targets x) \<and> length (BulkApprovalRecord.requested_targets x) \<le> 500 \<and> list_all (valid AssessmentVersionRef_validate) (BulkApprovalRecord.requested_targets x)),
         (''approved_targets'', length (BulkApprovalRecord.approved_targets x) \<le> 500 \<and> list_all (valid AssessmentVersionRef_validate) (BulkApprovalRecord.approved_targets x)),
         (''excluded_targets'', length (BulkApprovalRecord.excluded_targets x) \<le> 500 \<and> list_all (valid BulkApprovalExclusion_validate) (BulkApprovalRecord.excluded_targets x))],
     fail_if (version_key ` set (BulkApprovalRecord.approved_targets x)
        \<inter> (version_key \<circ> BulkApprovalExclusion.target) ` set (BulkApprovalRecord.excluded_targets x) \<noteq> {}) ''a target cannot be both approved and excluded'',
     fail_if (version_key ` set (BulkApprovalRecord.approved_targets x)
        \<union> (version_key \<circ> BulkApprovalExclusion.target) ` set (BulkApprovalRecord.excluded_targets x)
        \<noteq> version_key ` set (BulkApprovalRecord.requested_targets x)) ''approved and excluded targets must partition the request'']"

record QuestionReviewAction =
  schema_version :: "string"
  action_id :: "string"
  assessment_id :: "string"
  question_id :: "string"
  action :: "QuestionReviewActionType"
  actor_id :: "string"
  occurred_at :: "datetime"
  reason_code :: "string option"
  "note" :: "string option"
  replacement :: "SelectedQuestion option"

definition QuestionReviewAction_validate :: "QuestionReviewAction \<Rightarrow> contract_error option" where
  "QuestionReviewAction_validate x = first_error [
     field_errors [
         (''schema_version'', (QuestionReviewAction.schema_version x) = LEGACY_SCHEMA_VERSION),
         (''action_id'', Id_ok (QuestionReviewAction.action_id x)),
         (''assessment_id'', Id_ok (QuestionReviewAction.assessment_id x)),
         (''question_id'', Id_ok (QuestionReviewAction.question_id x)),
         (''actor_id'', PrincipalId_ok (QuestionReviewAction.actor_id x)),
         (''reason_code'', opt_all (upper_code 63) (QuestionReviewAction.reason_code x)),
         (''note'', opt_all (str_field 0 2000) (QuestionReviewAction.note x)),
         (''replacement'', opt_all (valid SelectedQuestion_validate) (QuestionReviewAction.replacement x))],
     fail_if (QuestionReviewAction.action x = QuestionReviewActionType.EDIT \<and> QuestionReviewAction.replacement x = None) ''EDIT review action requires replacement'',
     fail_if (QuestionReviewAction.action x = QuestionReviewActionType.EDIT
        \<and> (case QuestionReviewAction.replacement x of None \<Rightarrow> False | Some q \<Rightarrow> SelectedQuestion.question_id q \<noteq> QuestionReviewAction.question_id x)) ''EDIT replacement must preserve question_id'',
     fail_if (QuestionReviewAction.action x \<noteq> QuestionReviewActionType.EDIT \<and> QuestionReviewAction.replacement x \<noteq> None) ''replacement is allowed only for EDIT'',
     fail_if (QuestionReviewAction.action x \<in> {QuestionReviewActionType.REJECT, QuestionReviewActionType.REGENERATE}
        \<and> falsy (QuestionReviewAction.reason_code x)) ''REJECT/REGENERATE require reason_code'']"

end
