(* ===== verification/ContractsRuntime.thy ===== *)
theory ContractsRuntime
  imports ContractsQuestion
begin

text \<open>
  The contracts of the runtime: model routes and their resolution, the call ledger, domain
  events, job status, stage runs and job control records.
\<close>

record ModelCapabilities =
  input_modalities :: "ModelInputModality list"
  output_modalities :: "ModelOutputModality list"
  structured_outputs :: "bool"
  max_context_tokens :: "int"
  supported_reasoning_efforts :: "ReasoningEffort list"
  supports_zero_data_retention :: "bool"
  supported_regions :: "string list"

definition ModelCapabilities_validate :: "ModelCapabilities \<Rightarrow> contract_error option" where
  "ModelCapabilities_validate x = first_error [
     field_errors [
         (''input_modalities'', 1 \<le> length (ModelCapabilities.input_modalities x)),
         (''output_modalities'', 1 \<le> length (ModelCapabilities.output_modalities x)),
         (''max_context_tokens'', 0 < (ModelCapabilities.max_context_tokens x)),
         (''supported_reasoning_efforts'', 1 \<le> length (ModelCapabilities.supported_reasoning_efforts x)),
         (''supported_regions'', length (ModelCapabilities.supported_regions x) \<le> 100 \<and> list_all trimmed (ModelCapabilities.supported_regions x))]]"

record ModelRoute =
  schema_version :: "string"
  route_id :: "string"
  task :: "string"
  provider :: "string"
  model :: "string"
  model_snapshot :: "string"
  reasoning_effort :: "ReasoningEffort"
  temperature :: "pyfloat"
  capabilities :: "ModelCapabilities"
  retention_mode :: "string"
  region :: "string option"
  max_cost_usd :: "pyfloat"
  max_input_tokens :: "int"
  max_output_tokens :: "int"
  fallback_route_id :: "string option"
  reason_codes :: "string list"

definition ModelRoute_validate :: "ModelRoute \<Rightarrow> contract_error option" where
  "ModelRoute_validate x = first_error [
     field_errors [
         (''schema_version'', (ModelRoute.schema_version x) = LEGACY_SCHEMA_VERSION),
         (''route_id'', Id_ok (ModelRoute.route_id x)),
         (''task'', trimmed (ModelRoute.task x)),
         (''provider'', (ModelRoute.provider x) \<in> {''openai'', ''anthropic'', ''google'', ''other''}),
         (''model'', str_field 1 255 (ModelRoute.model x)),
         (''model_snapshot'', str_field 1 255 (ModelRoute.model_snapshot x)),
         (''temperature'', 0 \<le> (ModelRoute.temperature x) \<and> (ModelRoute.temperature x) \<le> 2),
         (''capabilities'', valid ModelCapabilities_validate (ModelRoute.capabilities x)),
         (''retention_mode'', (ModelRoute.retention_mode x) \<in> {''DEFAULT'', ''MAM'', ''ZDR''}),
         (''region'', opt_all (str_field 0 100) (ModelRoute.region x)),
         (''max_cost_usd'', 0 < (ModelRoute.max_cost_usd x)),
         (''max_input_tokens'', 0 < (ModelRoute.max_input_tokens x)),
         (''max_output_tokens'', 0 < (ModelRoute.max_output_tokens x)),
         (''fallback_route_id'', opt_all Id_ok (ModelRoute.fallback_route_id x)),
         (''reason_codes'', list_all trimmed (ModelRoute.reason_codes x))],
     fail_if (ModelRoute.reasoning_effort x \<notin> set (ModelCapabilities.supported_reasoning_efforts (ModelRoute.capabilities x))) ''route reasoning_effort is not supported by the model'',
     fail_if (ModelRoute.retention_mode x = ''ZDR'' \<and> \<not> ModelCapabilities.supports_zero_data_retention (ModelRoute.capabilities x)) ''ZDR route requires a compatible model capability'',
     fail_if (case ModelRoute.region x of None \<Rightarrow> False
        | Some r \<Rightarrow> ModelCapabilities.supported_regions (ModelRoute.capabilities x) \<noteq> []
            \<and> r \<notin> set (ModelCapabilities.supported_regions (ModelRoute.capabilities x))) ''route region is not supported by the model'']"

record ModelRouteResolution =
  schema_version :: "string"
  resolution_id :: "string"
  task :: "string"
  status :: "string"
  required_input_modalities :: "ModelInputModality list"
  required_output_modalities :: "ModelOutputModality list"
  route :: "ModelRoute option"
  evaluated_route_ids :: "string list"
  reason_codes :: "string list"

definition ModelRouteResolution_validate :: "ModelRouteResolution \<Rightarrow> contract_error option" where
  "ModelRouteResolution_validate x = first_error [
     field_errors [
         (''schema_version'', (ModelRouteResolution.schema_version x) = LEGACY_SCHEMA_VERSION),
         (''resolution_id'', Id_ok (ModelRouteResolution.resolution_id x)),
         (''task'', trimmed (ModelRouteResolution.task x)),
         (''status'', (ModelRouteResolution.status x) \<in> {''RESOLVED'', ''NEEDS_REVIEW'', ''BLOCKED''}),
         (''required_input_modalities'', 1 \<le> length (ModelRouteResolution.required_input_modalities x)),
         (''required_output_modalities'', 1 \<le> length (ModelRouteResolution.required_output_modalities x)),
         (''route'', opt_all (valid ModelRoute_validate) (ModelRouteResolution.route x)),
         (''evaluated_route_ids'', length (ModelRouteResolution.evaluated_route_ids x) \<le> 100 \<and> list_all Id_ok (ModelRouteResolution.evaluated_route_ids x)),
         (''reason_codes'', 1 \<le> length (ModelRouteResolution.reason_codes x) \<and> length (ModelRouteResolution.reason_codes x) \<le> 100 \<and> list_all trimmed (ModelRouteResolution.reason_codes x))],
     fail_if (ModelRouteResolution.status x = ''RESOLVED'' \<and> ModelRouteResolution.route x = None) ''RESOLVED requires a route'',
     fail_if (ModelRouteResolution.status x \<noteq> ''RESOLVED'' \<and> ModelRouteResolution.route x \<noteq> None) ''unresolved routing cannot expose a callable route'',
     (case ModelRouteResolution.route x of None \<Rightarrow> None | Some r \<Rightarrow> first_error [
       fail_if (\<not> set (ModelRouteResolution.required_input_modalities x) \<subseteq> set (ModelCapabilities.input_modalities (ModelRoute.capabilities r))) ''resolved route lacks a required input modality'',
       fail_if (\<not> set (ModelRouteResolution.required_output_modalities x) \<subseteq> set (ModelCapabilities.output_modalities (ModelRoute.capabilities r))) ''resolved route lacks a required output modality''])]"

record ModelCallLedger =
  schema_version :: "string"
  model_call_id :: "string"
  tenant_id :: "string"
  job_id :: "string"
  stage :: "string"
  prompt_id :: "string"
  prompt_version :: "string"
  prompt_hash :: "string"
  input_bundle_hash :: "string"
  schema_name :: "string"
  schema_version_used :: "string"
  route :: "ModelRoute"
  input_tokens :: "int"
  cached_input_tokens :: "int"
  output_tokens :: "int"
  latency_ms :: "int"
  estimated_cost_usd :: "pyfloat"
  actual_cost_usd :: "pyfloat option"
  result :: "string"
  attempt :: "int"
  created_at :: "datetime"

definition ModelCallLedger_validate :: "ModelCallLedger \<Rightarrow> contract_error option" where
  "ModelCallLedger_validate x = first_error [
     field_errors [
         (''schema_version'', (ModelCallLedger.schema_version x) = LEGACY_SCHEMA_VERSION),
         (''model_call_id'', Id_ok (ModelCallLedger.model_call_id x)),
         (''tenant_id'', Id_ok (ModelCallLedger.tenant_id x)),
         (''job_id'', Id_ok (ModelCallLedger.job_id x)),
         (''stage'', trimmed (ModelCallLedger.stage x)),
         (''prompt_id'', trimmed (ModelCallLedger.prompt_id x)),
         (''prompt_version'', trimmed (ModelCallLedger.prompt_version x)),
         (''prompt_hash'', Hash_ok (ModelCallLedger.prompt_hash x)),
         (''input_bundle_hash'', Hash_ok (ModelCallLedger.input_bundle_hash x)),
         (''schema_name'', trimmed (ModelCallLedger.schema_name x)),
         (''schema_version_used'', trimmed (ModelCallLedger.schema_version_used x)),
         (''route'', valid ModelRoute_validate (ModelCallLedger.route x)),
         (''input_tokens'', 0 \<le> (ModelCallLedger.input_tokens x)),
         (''cached_input_tokens'', 0 \<le> (ModelCallLedger.cached_input_tokens x)),
         (''output_tokens'', 0 \<le> (ModelCallLedger.output_tokens x)),
         (''latency_ms'', 0 \<le> (ModelCallLedger.latency_ms x)),
         (''estimated_cost_usd'', 0 \<le> (ModelCallLedger.estimated_cost_usd x)),
         (''actual_cost_usd'', opt_all (\<lambda>e. 0 \<le> e) (ModelCallLedger.actual_cost_usd x)),
         (''result'', (ModelCallLedger.result x) \<in> {''SCHEMA_VALID'', ''SCHEMA_INVALID'', ''SAFETY_BLOCK'', ''RATE_LIMIT'', ''TIMEOUT'', ''PROVIDER_ERROR''}),
         (''attempt'', 1 \<le> (ModelCallLedger.attempt x) \<and> (ModelCallLedger.attempt x) \<le> 10)]]"

record EventActor =
  kind :: "string"
  actor_ident :: "string"

definition EventActor_validate :: "EventActor \<Rightarrow> contract_error option" where
  "EventActor_validate x = first_error [
     field_errors [
         (''kind'', (EventActor.kind x) \<in> {''USER'', ''SERVICE'', ''SYSTEM''}),
         (''id'', PrincipalId_ok (EventActor.actor_ident x))]]"

record DomainEvent =
  schema_version :: "string"
  event_id :: "string"
  event_type :: "string"
  event_version :: "string"
  occurred_at :: "datetime"
  tenant_id :: "string"
  aggregate_id :: "string"
  aggregate_version :: "int"
  actor :: "EventActor"
  correlation_id :: "string"
  causation_id :: "string option"
  payload :: "(string \<times> json) list"

definition DomainEvent_validate :: "DomainEvent \<Rightarrow> contract_error option" where
  "DomainEvent_validate x = first_error [
     field_errors [
         (''schema_version'', (DomainEvent.schema_version x) = LEGACY_SCHEMA_VERSION),
         (''event_id'', Id_ok (DomainEvent.event_id x)),
         (''event_type'', str_field 3 128 (DomainEvent.event_type x) \<and> head_then is_lower event_char (DomainEvent.event_type x)),
         (''event_version'', (DomainEvent.event_version x) = LEGACY_SCHEMA_VERSION),
         (''tenant_id'', Id_ok (DomainEvent.tenant_id x)),
         (''aggregate_id'', Id_ok (DomainEvent.aggregate_id x)),
         (''aggregate_version'', 1 \<le> (DomainEvent.aggregate_version x)),
         (''actor'', valid EventActor_validate (DomainEvent.actor x)),
         (''correlation_id'', Id_ok (DomainEvent.correlation_id x)),
         (''causation_id'', opt_all Id_ok (DomainEvent.causation_id x)),
         (''payload'', dict_keys (DomainEvent.payload x))]]"

record JobStatus =
  schema_version :: "string"
  job_id :: "string"
  tenant_id :: "string"
  aggregate_id :: "string"
  stage :: "string"
  status :: "string"
  progress :: "pyfloat"
  attempt :: "int"
  diagnostics :: "Diagnostic list"
  started_at :: "datetime option"
  finished_at :: "datetime option"

definition JobStatus_validate :: "JobStatus \<Rightarrow> contract_error option" where
  "JobStatus_validate x = first_error [
     field_errors [
         (''schema_version'', (JobStatus.schema_version x) = LEGACY_SCHEMA_VERSION),
         (''job_id'', Id_ok (JobStatus.job_id x)),
         (''tenant_id'', Id_ok (JobStatus.tenant_id x)),
         (''aggregate_id'', Id_ok (JobStatus.aggregate_id x)),
         (''stage'', trimmed (JobStatus.stage x)),
         (''status'', (JobStatus.status x) \<in> {''QUEUED'', ''RUNNING'', ''SUCCEEDED'', ''FAILED'', ''NEEDS_REVIEW''}),
         (''progress'', Score_ok (JobStatus.progress x)),
         (''attempt'', 0 \<le> (JobStatus.attempt x)),
         (''diagnostics'', list_all (valid Diagnostic_validate) (JobStatus.diagnostics x))]]"

record SubmissionProcessingState =
  schema_version :: "string"
  submission_id :: "string"
  activity_id :: "string"
  status :: "SubmissionProcessingStatus"
  current_stage :: "string option"
  progress :: "pyfloat"
  active_job_id :: "string option"
  diagnostics :: "Diagnostic list"
  updated_at :: "datetime"

definition SubmissionProcessingState_validate :: "SubmissionProcessingState \<Rightarrow> contract_error option" where
  "SubmissionProcessingState_validate x = first_error [
     field_errors [
         (''schema_version'', (SubmissionProcessingState.schema_version x) = LEGACY_SCHEMA_VERSION),
         (''submission_id'', Id_ok (SubmissionProcessingState.submission_id x)),
         (''activity_id'', Id_ok (SubmissionProcessingState.activity_id x)),
         (''current_stage'', opt_all (str_field 0 128) (SubmissionProcessingState.current_stage x)),
         (''progress'', Score_ok (SubmissionProcessingState.progress x)),
         (''active_job_id'', opt_all Id_ok (SubmissionProcessingState.active_job_id x)),
         (''diagnostics'', list_all (valid Diagnostic_validate) (SubmissionProcessingState.diagnostics x))]]"

record StageRun =
  schema_version :: "string"
  stage_run_id :: "string"
  tenant_id :: "string"
  job_id :: "string"
  aggregate_id :: "string"
  stage :: "string"
  stage_key :: "string"
  input_hash :: "string"
  policy_hash :: "string"
  component_version :: "string"
  status :: "StageRunStatus"
  attempt :: "int"
  retryable :: "bool"
  failure_class :: "FailureClass option"
  output_ref :: "string option"
  output_hash :: "string option"
  diagnostics :: "Diagnostic list"
  created_at :: "datetime"
  started_at :: "datetime option"
  cancel_requested_at :: "datetime option"
  finished_at :: "datetime option"

definition StageRun_validate :: "StageRun \<Rightarrow> contract_error option" where
  "StageRun_validate x = first_error [
     field_errors [
         (''schema_version'', (StageRun.schema_version x) = CONTRACT_VERSION),
         (''stage_run_id'', Id_ok (StageRun.stage_run_id x)),
         (''tenant_id'', Id_ok (StageRun.tenant_id x)),
         (''job_id'', Id_ok (StageRun.job_id x)),
         (''aggregate_id'', Id_ok (StageRun.aggregate_id x)),
         (''stage'', str_field 3 128 (StageRun.stage x) \<and> upper_code 127 (StageRun.stage x)),
         (''stage_key'', Hash_ok (StageRun.stage_key x)),
         (''input_hash'', Hash_ok (StageRun.input_hash x)),
         (''policy_hash'', Hash_ok (StageRun.policy_hash x)),
         (''component_version'', str_field 1 128 (StageRun.component_version x)),
         (''attempt'', 1 \<le> (StageRun.attempt x) \<and> (StageRun.attempt x) \<le> 10),
         (''output_ref'', opt_all (str_field 1 1024) (StageRun.output_ref x)),
         (''output_hash'', opt_all Hash_ok (StageRun.output_hash x)),
         (''diagnostics'', length (StageRun.diagnostics x) \<le> 100 \<and> list_all (valid Diagnostic_validate) (StageRun.diagnostics x))],
     require_utc (StageRun.created_at x) ''created_at'',
     opt_check (\<lambda>t. require_utc t ''started_at'') (StageRun.started_at x),
     opt_check (\<lambda>t. require_utc t ''cancel_requested_at'') (StageRun.cancel_requested_at x),
     opt_check (\<lambda>t. require_utc t ''finished_at'') (StageRun.finished_at x),
     opt_check (\<lambda>t. fail_if (instant t < instant (StageRun.created_at x)) ''started_at cannot precede created_at'')
       (StageRun.started_at x),
     opt_check (\<lambda>t. fail_if (instant t < instant (StageRun.created_at x)) ''cancel_requested_at cannot precede created_at'')
       (StageRun.cancel_requested_at x),
     opt_check (\<lambda>t. fail_if (instant t < instant (case StageRun.started_at x of Some s \<Rightarrow> s | None \<Rightarrow> StageRun.created_at x)) ''finished_at cannot precede stage execution'')
       (StageRun.finished_at x),
     fail_if ((StageRun.output_ref x = None) \<noteq> (StageRun.output_hash x = None)) ''output_ref and output_hash must both be set or absent'',
     opt_check (\<lambda>r. require_private_reference r ''output_ref'') (StageRun.output_ref x),
     (case StageRun.status x of
        StageRunStatus.QUEUED \<Rightarrow> fail_if (StageRun.started_at x \<noteq> None \<or> StageRun.cancel_requested_at x \<noteq> None
          \<or> StageRun.finished_at x \<noteq> None) ''QUEUED stage cannot have execution timestamps''
      | StageRunStatus.RUNNING \<Rightarrow> fail_if (StageRun.started_at x = None \<or> StageRun.finished_at x \<noteq> None) ''RUNNING stage requires started_at and no finished_at''
      | _ \<Rightarrow> fail_if (StageRun.started_at x = None \<or> StageRun.finished_at x = None) ''terminal stage requires started_at and finished_at''),
     (case StageRun.status x of
        StageRunStatus.SUCCEEDED \<Rightarrow> first_error [
          fail_if (StageRun.output_ref x = None) ''SUCCEEDED stage requires a durable output reference'',
          fail_if (StageRun.failure_class x \<noteq> None \<or> StageRun.retryable x) ''SUCCEEDED stage cannot expose failure state'']
      | StageRunStatus.FAILED \<Rightarrow> first_error [
          fail_if (StageRun.failure_class x = None \<or> StageRun.diagnostics x = []) ''FAILED stage requires failure_class and diagnostics'',
          fail_if (StageRun.failure_class x = Some FailureClass.CANCELLATION) ''FAILED stage cannot use CANCELLATION failure class'',
          fail_if (StageRun.output_ref x \<noteq> None) ''FAILED stage cannot expose a reusable output'']
      | StageRunStatus.CANCELLED \<Rightarrow> first_error [
          fail_if (StageRun.failure_class x \<noteq> Some FailureClass.CANCELLATION) ''CANCELLED stage requires CANCELLATION failure class'',
          fail_if (StageRun.cancel_requested_at x = None) ''CANCELLED stage requires cancel_requested_at'',
          fail_if (StageRun.output_ref x \<noteq> None \<or> StageRun.retryable x) ''CANCELLED stage cannot expose output or retryable state'']
      | _ \<Rightarrow> fail_if (StageRun.failure_class x \<noteq> None \<or> StageRun.retryable x \<or> StageRun.output_ref x \<noteq> None) ''non-terminal stage cannot expose result or failure state''),
     fail_if (StageRun.retryable x \<and> \<not> retryable_class (StageRun.failure_class x)) ''only transient/provider failures may be retryable'']"

record JobControlRecord =
  schema_version :: "string"
  control_id :: "string"
  tenant_id :: "string"
  job_id :: "string"
  aggregate_id :: "string"
  action :: "JobControlActionType"
  status :: "JobControlStatus"
  actor_id :: "string"
  source_attempt :: "int"
  reason_code :: "string"
  target_stage :: "string option"
  failure_class :: "FailureClass option"
  resulting_job_id :: "string option"
  diagnostics :: "Diagnostic list"
  requested_at :: "datetime"
  decided_at :: "datetime option"

definition JobControlRecord_validate :: "JobControlRecord \<Rightarrow> contract_error option" where
  "JobControlRecord_validate x = first_error [
     field_errors [
         (''schema_version'', (JobControlRecord.schema_version x) = CONTRACT_VERSION),
         (''control_id'', Id_ok (JobControlRecord.control_id x)),
         (''tenant_id'', Id_ok (JobControlRecord.tenant_id x)),
         (''job_id'', Id_ok (JobControlRecord.job_id x)),
         (''aggregate_id'', Id_ok (JobControlRecord.aggregate_id x)),
         (''actor_id'', PrincipalId_ok (JobControlRecord.actor_id x)),
         (''source_attempt'', 0 \<le> (JobControlRecord.source_attempt x) \<and> (JobControlRecord.source_attempt x) \<le> 10),
         (''reason_code'', upper_code 63 (JobControlRecord.reason_code x)),
         (''target_stage'', opt_all (\<lambda>e. str_field 3 128 e \<and> upper_code 127 e) (JobControlRecord.target_stage x)),
         (''resulting_job_id'', opt_all Id_ok (JobControlRecord.resulting_job_id x)),
         (''diagnostics'', length (JobControlRecord.diagnostics x) \<le> 100 \<and> list_all (valid Diagnostic_validate) (JobControlRecord.diagnostics x))],
     require_utc (JobControlRecord.requested_at x) ''requested_at'',
     opt_check (\<lambda>t. first_error [
         require_utc t ''decided_at'',
         fail_if (instant t < instant (JobControlRecord.requested_at x)) ''decided_at cannot precede requested_at'']) (JobControlRecord.decided_at x),
     (if JobControlRecord.action x \<in> {JobControlActionType.RETRY, JobControlActionType.RESUME}
      then fail_if (JobControlRecord.target_stage x = None) ''RETRY/RESUME require target_stage''
      else fail_if (JobControlRecord.target_stage x \<noteq> None) ''CANCEL cannot specify target_stage''),
     (if JobControlRecord.action x = JobControlActionType.RETRY
      then fail_if (JobControlRecord.failure_class x = None) ''RETRY requires the classified source failure''
      else fail_if (JobControlRecord.failure_class x \<noteq> None) ''failure_class is allowed only for RETRY''),
     (case JobControlRecord.status x of
        JobControlStatus.REQUESTED \<Rightarrow> fail_if (JobControlRecord.decided_at x \<noteq> None \<or> JobControlRecord.resulting_job_id x \<noteq> None) ''REQUESTED control cannot expose an outcome''
      | JobControlStatus.REJECTED \<Rightarrow> first_error [
          fail_if (JobControlRecord.decided_at x = None \<or> JobControlRecord.resulting_job_id x \<noteq> None) ''REJECTED control requires decision without a new job'',
          fail_if (JobControlRecord.diagnostics x = []) ''REJECTED control requires diagnostics'']
      | JobControlStatus.APPLIED \<Rightarrow> first_error [
          fail_if (JobControlRecord.decided_at x = None) ''APPLIED control requires decided_at'',
          (if JobControlRecord.action x \<in> {JobControlActionType.RETRY, JobControlActionType.RESUME}
           then fail_if (JobControlRecord.resulting_job_id x = None \<or> JobControlRecord.resulting_job_id x = Some (JobControlRecord.job_id x)) ''applied RETRY/RESUME requires a distinct resulting job''
           else fail_if (JobControlRecord.resulting_job_id x \<noteq> None) ''applied CANCEL does not create a new job''),
          fail_if (JobControlRecord.action x = JobControlActionType.RETRY \<and> \<not> retryable_class (JobControlRecord.failure_class x)) ''only transient/provider failures may be retried''])]"

end
