(* ===== verification/Diagnostics.thy ===== *)
theory Diagnostics
  imports ContractsBase
begin

text \<open>
  \<open>diagnostics.py\<close>: the constructor of content-minimising diagnostics, and \<open>construct\<close>,
  the call of a contract class: it returns the object or raises what the class's validator says.
\<close>

definition construct :: "('a \<Rightarrow> contract_error option) \<Rightarrow> 'a \<Rightarrow> contract_error + 'a" where
  "construct v x = (case v x of None \<Rightarrow> Inr x | Some e \<Rightarrow> Inl e)"

lemma construct_Inr [simp]: "construct v x = Inr y \<longleftrightarrow> v x = None \<and> y = x"
  by (auto simp: construct_def split: option.splits)

lemma construct_Inl [simp]: "construct v x = Inl e \<longleftrightarrow> v x = Some e"
  by (auto simp: construct_def split: option.splits)

definition SENSITIVE_DETAIL_KEYS :: "string list" where
  "SENSITIVE_DETAIL_KEYS = [''content'', ''content_text'', ''display_text'', ''email'', ''name'',
     ''prompt'', ''secret'', ''student_text'']"

definition long_string :: "json \<Rightarrow> bool" where
  "long_string v = (case v of JStr s \<Rightarrow> 256 < length s | _ \<Rightarrow> False)"

definition safe_details :: "(string \<times> json) list \<Rightarrow> contract_error + (string \<times> json) list" where
  "safe_details items = guarded
     (first_error (map (\<lambda>(k, v). first_error [
        fail_if (lower k \<in> set SENSITIVE_DETAIL_KEYS)
          (''sensitive diagnostic detail key is forbidden: '' @ k),
        fail_if (long_string v) (''diagnostic detail is too long: '' @ k)]) items))
     (Inr items)"

definition diagnostic :: "string \<Rightarrow> string \<Rightarrow> Severity \<Rightarrow> string list \<Rightarrow> string list \<Rightarrow> bool
    \<Rightarrow> (string \<times> json) list \<Rightarrow> contract_error + Diagnostic" where
  "diagnostic cd msg sev eids sids retry dets =
     and_then (safe_details dets) (\<lambda>clean. construct Diagnostic_validate
       \<lparr>code = cd, severity = sev, message = msg, evidence_ids = eids, source_ids = sids,
        retryable = retry, details = clean\<rparr>)"

lemma safe_details_Inr:
  "safe_details items = Inr clean \<longleftrightarrow> clean = items
     \<and> (\<forall>(k, v) \<in> set items. lower k \<notin> set SENSITIVE_DETAIL_KEYS \<and> \<not> long_string v)"
  by (auto simp: safe_details_def checks split: prod.splits)

lemma diagnostic_Inr:
  "diagnostic cd msg sev eids sids retry dets = Inr d \<Longrightarrow>
     Diagnostic_validate d = None \<and> Diagnostic.code d = cd \<and> Diagnostic.severity d = sev
     \<and> Diagnostic.evidence_ids d = eids \<and> Diagnostic.retryable d = retry \<and> Diagnostic.details d = dets"
  by (auto simp: diagnostic_def safe_details_Inr)

lemma diagnostic_details_safe:
  "diagnostic cd msg sev eids sids retry dets = Inr d \<Longrightarrow> (k, v) \<in> set (Diagnostic.details d)
     \<Longrightarrow> lower k \<notin> set SENSITIVE_DETAIL_KEYS \<and> \<not> long_string v"
  by (auto simp: diagnostic_def safe_details_Inr)

end
