(* ===== verification/SafeText.thy ===== *)
theory SafeText
  imports PyText
begin

text \<open>
  The regular expressions of \<open>_check_safe_generated_text\<close>.  They are sequences of character
  classes, repetitions and word boundaries; \<open>rx_match\<close> tries them with Python's backtracking
  (a match exists iff some choice of the repetitions succeeds) and \<open>rx_search\<close> at every position.
\<close>

datatype rx_item = Bound | One "char \<Rightarrow> bool" | Many "char \<Rightarrow> bool"

definition word_char :: "char \<Rightarrow> bool" where
  "word_char c \<longleftrightarrow> isalnum c \<or> c = CHR ''_''"

definition word_opt :: "char option \<Rightarrow> bool" where
  "word_opt c = (case c of None \<Rightarrow> False | Some x \<Rightarrow> word_char x)"

definition head_opt :: "string \<Rightarrow> char option" where
  "head_opt s = (case s of [] \<Rightarrow> None | c # _ \<Rightarrow> Some c)"

definition boundary :: "char option \<Rightarrow> string \<Rightarrow> bool" where
  "boundary prev s \<longleftrightarrow> word_opt prev \<noteq> word_opt (head_opt s)"

function rx_match :: "rx_item list \<Rightarrow> char option \<Rightarrow> string \<Rightarrow> bool" where
  "rx_match [] prev s = True"
| "rx_match (Bound # items) prev s = (boundary prev s \<and> rx_match items prev s)"
| "rx_match (One p # items) prev s =
     (case s of [] \<Rightarrow> False | c # cs \<Rightarrow> p c \<and> rx_match items (Some c) cs)"
| "rx_match (Many p # items) prev s = (rx_match items prev s
     \<or> (case s of [] \<Rightarrow> False | c # cs \<Rightarrow> p c \<and> rx_match (Many p # items) (Some c) cs))"
  by pat_completeness auto
termination
  by (relation "measure (\<lambda>(items, prev, s). length items + length s)") auto

fun rx_search_from :: "rx_item list \<Rightarrow> char option \<Rightarrow> string \<Rightarrow> bool" where
  "rx_search_from items prev [] = rx_match items prev []"
| "rx_search_from items prev (c # cs) =
     (rx_match items prev (c # cs) \<or> rx_search_from items (Some c) cs)"

definition rx_search :: "rx_item list \<Rightarrow> string \<Rightarrow> bool" where
  "rx_search items s = rx_search_from items None s"

section \<open>The patterns\<close>

definition exactly :: "string \<Rightarrow> rx_item list" where
  "exactly w = map (\<lambda>c. One (\<lambda>x. x = c)) w"

definition ignoring_case :: "string \<Rightarrow> rx_item list" where
  "ignoring_case w = map (\<lambda>c. One (\<lambda>x. lower_char x = c)) w"

definition between_bounds :: "rx_item list \<Rightarrow> rx_item list" where
  "between_bounds items = Bound # items @ [Bound]"

definition ascii_alpha :: "char \<Rightarrow> bool" where
  "ascii_alpha c \<longleftrightarrow> is_lower c \<or> is_upper c"

definition aws_key_char :: "char \<Rightarrow> bool" where
  "aws_key_char c \<longleftrightarrow> is_digit c \<or> is_upper c"

definition sk_char :: "char \<Rightarrow> bool" where
  "sk_char c \<longleftrightarrow> ascii_alpha c \<or> is_digit c \<or> c = CHR ''_'' \<or> c = CHR ''-''"

definition email_local_char :: "char \<Rightarrow> bool" where
  "email_local_char c \<longleftrightarrow> ascii_alpha c \<or> is_digit c \<or> c \<in> set ''._%+-''"

definition email_domain_char :: "char \<Rightarrow> bool" where
  "email_domain_char c \<longleftrightarrow> ascii_alpha c \<or> is_digit c \<or> c = CHR ''.'' \<or> c = CHR ''-''"

definition secret_patterns :: "rx_item list list" where
  "secret_patterns =
     [between_bounds (exactly ''AKIA'' @ replicate 16 (One aws_key_char)),
      between_bounds (exactly ''sk-'' @ replicate 16 (One sk_char) @ [Many sk_char]),
      between_bounds ([One email_local_char, Many email_local_char] @ exactly ''@''
        @ [One email_domain_char, Many email_domain_char] @ exactly ''.''
        @ [One ascii_alpha, One ascii_alpha, Many ascii_alpha])]"

text \<open>The alternatives, the optional groups written out; the accented letter is a Latin-1 code
  point.\<close>

definition prohibited_phrases :: "string list" where
  "prohibited_phrases = [''detector de ia'', ''hecho por ia'', ''autor'', ''autor'' @ [CHR 0xED] @ ''a'',
     ''fraude'', ''culpable'', ''otro estudiante'', ''system prompt'', ''ignore instructions'',
     ''ignore all instructions'', ''ignore previous instructions'']"

definition prohibited_claim :: "string \<Rightarrow> bool" where
  "prohibited_claim s = list_ex (\<lambda>w. rx_search (between_bounds (ignoring_case w)) s) prohibited_phrases"

definition exposes_secret :: "string \<Rightarrow> bool" where
  "exposes_secret s = list_ex (\<lambda>p. rx_search p s) secret_patterns"

section \<open>What a match means\<close>

definition last_opt :: "char option \<Rightarrow> string \<Rightarrow> char option" where
  "last_opt prev s = (if s = [] then prev else Some (last s))"

lemma last_opt_simps [simp]:
  "last_opt prev [] = prev" "last_opt (Some c) s = last_opt prev (c # s)"
  by (simp_all add: last_opt_def)

lemma rx_search_from_intro:
  "rx_match items (last_opt prev a) b \<Longrightarrow> rx_search_from items prev (a @ b)"
proof (induction a arbitrary: prev)
  case Nil
  then show ?case by (cases b) simp_all
next
  case (Cons c a)
  then show ?case using Cons.IH [of "Some c"] by (simp del: last_opt_simps(2) add: last_opt_def split: if_splits)
qed

lemma rx_match_One_list:
  "length w = length ps \<Longrightarrow> list_all2 (\<lambda>p c. p c) ps w \<Longrightarrow> rx_match items (last_opt prev w) b
     \<Longrightarrow> rx_match (map One ps @ items) prev (w @ b)"
proof (induction ps arbitrary: w prev)
  case (Cons p ps)
  then obtain c w' where "w = c # w'" by (cases w) auto
  with Cons show ?case by (simp del: last_opt_simps(2)) (simp add: last_opt_def split: if_splits)
qed simp

lemma phrase_match:
  assumes "map lower_char w = p" and "boundary (last_opt None a) (w @ b)" and "boundary (last_opt None (a @ w)) b"
  shows "rx_search (between_bounds (ignoring_case p)) (a @ w @ b)"
proof -
  have "list_all2 (\<lambda>p c. p c) (map (\<lambda>c x. lower_char x = c) p) w"
    using assms(1) by (auto simp: list_all2_conv_all_nth)
  moreover have "last_opt (last_opt None a) w = last_opt None (a @ w)" by (simp add: last_opt_def)
  ultimately have "rx_match (map One (map (\<lambda>c x. lower_char x = c) p) @ [Bound]) (last_opt None a) (w @ b)"
    using assms by (intro rx_match_One_list) auto
  then have "rx_match (between_bounds (ignoring_case p)) (last_opt None a) (w @ b)"
    using assms(2) by (simp add: between_bounds_def ignoring_case_def o_def)
  from rx_search_from_intro [OF this] show ?thesis by (simp add: rx_search_def)
qed

lemma aws_key_match:
  assumes "length k = 16" and "list_all aws_key_char k"
    and "boundary (last_opt None a) (CHR ''A'' # b)" and "boundary (Some (last k)) b"
  shows "exposes_secret (a @ ''AKIA'' @ k @ b)"
proof -
  let ?ps = "map (\<lambda>c x. x = c) ''AKIA'' @ replicate 16 aws_key_char"
  have "list_all2 (\<lambda>p c. p c) (replicate 16 aws_key_char) k"
    using assms(1,2) by (auto simp: list_all2_conv_all_nth list_all_length)
  then have "list_all2 (\<lambda>p c. p c) ?ps (''AKIA'' @ k)" by simp
  moreover have "last_opt (last_opt None a) (''AKIA'' @ k) = Some (last k)"
    using assms(1) by (auto simp: last_opt_def)
  ultimately have "rx_match (map One ?ps @ [Bound]) (last_opt None a) ((''AKIA'' @ k) @ b)"
    using assms by (intro rx_match_One_list) auto
  then have "rx_match (hd secret_patterns) (last_opt None a) (''AKIA'' @ k @ b)"
    using assms(3) by (simp add: secret_patterns_def between_bounds_def exactly_def boundary_def head_opt_def)
  from rx_search_from_intro [OF this] show ?thesis
    by (simp add: exposes_secret_def rx_search_def secret_patterns_def)
qed

end
