(* ===== verification/Validation.thy ===== *)
theory Validation
  imports ContractsRuntime Diagnostics SafeText
begin

text \<open>
  \<open>validation.py\<close>: the contextual validators.  Each is the list of its guards in the code's
  order; \<open>None\<close> means that the function returns, \<open>Some\<close> carries the code and the message of the
  first \<open>ContextValidationError\<close> raised.  The dictionaries the code builds by comprehension are
  \<open>dict_by\<close>, whose laws are those of the locale \<open>index\<close>.
\<close>

datatype context_error = CtxErr (err_code: string) (err_message: string)

definition ctx_if :: "bool \<Rightarrow> string \<Rightarrow> string \<Rightarrow> context_error option" where
  "ctx_if b c msg = raise_if b (CtxErr c msg)"

lemma ctx_if_None [simp, checks]: "ctx_if b c msg = None \<longleftrightarrow> \<not> b"
  by (simp add: ctx_if_def)

lemma ctx_if_Some [simp]: "ctx_if b c msg = Some e \<longleftrightarrow> b \<and> e = CtxErr c msg"
  by (auto simp: ctx_if_def)

section \<open>Context\<close>

record EvidenceContext =
  tenant_id :: string
  submission_id :: string
  evidence_by_id :: "string \<Rightarrow> EvidenceUnit option"
  course_sources_by_id :: "string \<Rightarrow> CoursePassage option"

definition from_bundle :: "EvidenceBundle \<Rightarrow> EvidenceContext" where
  "from_bundle b = \<lparr>EvidenceContext.tenant_id = EvidenceBundle.tenant_id b,
     submission_id = EvidenceBundle.submission_id b,
     evidence_by_id = dict_by EvidenceUnit.evidence_id (EvidenceBundle.evidence_units b),
     course_sources_by_id = dict_by CoursePassage.source_id (EvidenceBundle.course_passages b)\<rparr>"

definition require_unique :: "string list \<Rightarrow> string \<Rightarrow> string \<Rightarrow> context_error option" where
  "require_unique values c lbl = ctx_if (has_dup values) c (lbl @ '' must be unique'')"

lemma require_unique_None [simp, checks]: "require_unique vs c l = None \<longleftrightarrow> distinct vs"
  by (simp add: require_unique_def)

text \<open>\<open>astimezone(timezone.utc)\<close> keeps the instant and sets the offset to zero.\<close>

definition astimezone_utc :: "datetime \<Rightarrow> datetime" where
  "astimezone_utc t = utc_time (instant t)"

definition validate_utc :: "datetime \<Rightarrow> string \<Rightarrow> context_error option" where
  "validate_utc t lbl = first_error [
     ctx_if (utc_offset t = None) ''DATETIME_NOT_UTC'' (lbl @ '' must be timezone-aware''),
     ctx_if (utc_offset (astimezone_utc t) \<noteq> Some 0) ''DATETIME_NOT_UTC'' (lbl @ '' must be UTC'')]"

definition validate_complete_diagnostics :: "Diagnostic list \<Rightarrow> string \<Rightarrow> bool \<Rightarrow> context_error option" where
  "validate_complete_diagnostics ds st matching = first_error [
     ctx_if (ds = []) ''DIAGNOSTIC_INCOMPLETE'' ''failed output requires diagnostics'',
     ctx_if (matching \<and> \<not> list_ex (\<lambda>d. Diagnostic.code d = st) ds)
       ''DIAGNOSTIC_INCOMPLETE'' ''failed output requires a diagnostic matching its status'',
     first_error (map (\<lambda>d. first_error [
       ctx_if (Diagnostic.severity d \<notin> {Severity.ERROR, Severity.CRITICAL})
         ''DIAGNOSTIC_INCOMPLETE'' ''failed output diagnostics must be ERROR or CRITICAL'',
       ctx_if (Diagnostic.retryable d)
         ''DIAGNOSTIC_INCOMPLETE'' ''domain fail-closed diagnostics are not retryable'']) ds)]"

definition evidence_context_error :: "EvidenceBundle \<Rightarrow> context_error option" where
  "evidence_context_error b = first_error [
     ctx_if (set (EvidenceBundle.allowed_evidence_ids b)
         \<noteq> set (map EvidenceUnit.evidence_id (EvidenceBundle.evidence_units b)))
       ''EVIDENCE_ALLOWLIST_MISMATCH'' ''evidence allowlist mismatch'',
     first_error (map (\<lambda>u. first_error [
       ctx_if (EvidenceUnit.tenant_id u \<noteq> EvidenceBundle.tenant_id b)
         ''CROSS_TENANT_EVIDENCE'' ''evidence belongs to another tenant'',
       ctx_if (EvidenceUnit.submission_id u \<noteq> Some (EvidenceBundle.submission_id b))
         ''CROSS_SUBMISSION_EVIDENCE'' ''evidence belongs to another submission'',
       ctx_if (EvidenceUnit.source_role u \<noteq> ArtifactRole.SUBMISSION)
         ''EVIDENCE_ROLE_MISMATCH'' ''submission bundle contains a non-submission role''])
       (EvidenceBundle.evidence_units b)),
     ctx_if (EvidenceBundle.context_mode b = ContextMode.CLOSED \<and> EvidenceBundle.course_passages b \<noteq> [])
       ''UNAUTHORIZED_SOURCE'' ''closed context cannot contain course passages'']"

definition validate_evidence_context :: "EvidenceBundle \<Rightarrow> context_error + EvidenceContext" where
  "validate_evidence_context b = guarded (evidence_context_error b) (Inr (from_bundle b))"

section \<open>The blueprint index\<close>

definition variant_paths :: "AssessmentBlueprint \<Rightarrow> (BlueprintDimension \<times> EvidenceVariant) list" where
  "variant_paths bp = concat (map (\<lambda>d. map (\<lambda>v. (d, v)) (BlueprintDimension.evidence_variants d))
     (AssessmentBlueprint.dimensions bp))"

definition template_paths :: "AssessmentBlueprint \<Rightarrow> (EvidenceVariant \<times> QuestionOpportunityTemplate) list" where
  "template_paths bp = concat (map (\<lambda>(d, v). map (\<lambda>t. (v, t)) (EvidenceVariant.question_opportunities v))
     (variant_paths bp))"

definition dimension_by_id :: "AssessmentBlueprint \<Rightarrow> string \<Rightarrow> BlueprintDimension option" where
  "dimension_by_id bp = dict_by BlueprintDimension.dimension_id (AssessmentBlueprint.dimensions bp)"

definition variant_by_id :: "AssessmentBlueprint \<Rightarrow> string \<Rightarrow> EvidenceVariant option" where
  "variant_by_id bp = dict_by EvidenceVariant.variant_id (map snd (variant_paths bp))"

definition template_by_id :: "AssessmentBlueprint \<Rightarrow> string \<Rightarrow> QuestionOpportunityTemplate option" where
  "template_by_id bp = dict_by QuestionOpportunityTemplate.opportunity_template_id (map snd (template_paths bp))"

definition blueprint_index :: "AssessmentBlueprint \<Rightarrow> (string \<Rightarrow> BlueprintDimension option)
    \<times> (string \<Rightarrow> EvidenceVariant option) \<times> (string \<Rightarrow> QuestionOpportunityTemplate option)" where
  "blueprint_index bp = (dimension_by_id bp, variant_by_id bp, template_by_id bp)"

definition variant_dimension_id :: "AssessmentBlueprint \<Rightarrow> string \<Rightarrow> string option" where
  "variant_dimension_id bp vid = map_option (BlueprintDimension.dimension_id \<circ> fst)
     (dict_by (EvidenceVariant.variant_id \<circ> snd) (variant_paths bp) vid)"

definition template_variant_id :: "AssessmentBlueprint \<Rightarrow> string \<Rightarrow> string option" where
  "template_variant_id bp tid = map_option (EvidenceVariant.variant_id \<circ> fst)
     (dict_by (QuestionOpportunityTemplate.opportunity_template_id \<circ> snd) (template_paths bp) tid)"

section \<open>The evidence map\<close>

definition alignment_error :: "AssessmentBlueprint \<Rightarrow> EvidenceAlignment \<Rightarrow> context_error option" where
  "alignment_error bp al =
     (case dimension_by_id bp (EvidenceAlignment.dimension_id al) of
        None \<Rightarrow> Some (CtxErr ''INVENTED_ID'' ''claim alignment references an unknown dimension'')
      | Some d \<Rightarrow> first_error [
          ctx_if (\<not> set (EvidenceAlignment.criterion_ids al) \<subseteq> set (BlueprintDimension.criterion_ids d))
            ''BLUEPRINT_REFERENCE_MISMATCH'' ''claim alignment widens the dimension criteria'',
          first_error (map (\<lambda>vid. first_error [
            ctx_if (variant_by_id bp vid = None)
              ''INVENTED_ID'' ''claim alignment references an unknown variant'',
            ctx_if (variant_dimension_id bp vid \<noteq> Some (EvidenceAlignment.dimension_id al))
              ''BLUEPRINT_REFERENCE_MISMATCH'' ''claim alignment variant belongs to another dimension''])
            (EvidenceAlignment.variant_ids al))])"

definition operations_of :: "EvidenceVariant \<Rightarrow> CognitiveOperation set" where
  "operations_of v = set (map SupportedOperation.cognitive_operation (EvidenceVariant.supported_operations v))"

definition aligned_operations :: "AssessmentBlueprint \<Rightarrow> EvidenceClaim \<Rightarrow> CognitiveOperation set" where
  "aligned_operations bp cl = \<Union> (set (map (\<lambda>vid. operations_of (the (variant_by_id bp vid)))
     (concat (map EvidenceAlignment.variant_ids (EvidenceClaim.alignments cl)))))"

definition claim_error :: "AssessmentBlueprint \<Rightarrow> EvidenceContext \<Rightarrow> EvidenceClaim \<Rightarrow> context_error option" where
  "claim_error bp ctx cl = first_error [
     ctx_if (list_ex (\<lambda>e. evidence_by_id ctx e = None) (EvidenceClaim.evidence_ids cl))
       ''INVENTED_EVIDENCE_ID'' ''claim references unknown evidence'',
     first_error (map (alignment_error bp) (EvidenceClaim.alignments cl)),
     ctx_if (\<not> set (EvidenceClaim.supported_operations cl) \<subseteq> aligned_operations bp cl)
       ''UNSUPPORTED_COGNITIVE_OPERATION'' ''claim widens the operations supported by its alignments'']"

text \<open>The evidence units behind a list of known identifiers.\<close>

definition units_of :: "EvidenceContext \<Rightarrow> string list \<Rightarrow> EvidenceUnit list" where
  "units_of ctx ids = map (\<lambda>e. the (evidence_by_id ctx e)) ids"

definition match_error :: "AssessmentBlueprint \<Rightarrow> EvidenceContext \<Rightarrow> EvidenceVariantMatch \<Rightarrow> context_error option" where
  "match_error bp ctx mt =
     (let dim = EvidenceVariantMatch.dimension_id mt; var = EvidenceVariantMatch.variant_id mt;
          ids = EvidenceVariantMatch.evidence_ids mt;
          req = EvidenceVariant.evidence_requirement (the (variant_by_id bp var));
          chosen = units_of ctx ids
      in first_error [
        ctx_if (dimension_by_id bp dim = None \<or> variant_by_id bp var = None)
          ''INVENTED_ID'' ''mapping references an unknown blueprint ID'',
        ctx_if (variant_dimension_id bp var \<noteq> Some dim)
          ''BLUEPRINT_REFERENCE_MISMATCH'' ''variant match path is invalid'',
        ctx_if (list_ex (\<lambda>e. evidence_by_id ctx e = None) ids)
          ''INVENTED_EVIDENCE_ID'' ''mapping references unknown evidence'',
        require_unique ids ''DUPLICATE_ID'' ''variant match evidence IDs'',
        ctx_if (EvidenceVariantMatch.mapping_confidence mt < EvidenceRequirement.min_alignment req)
          ''EVIDENCE_MAPPING_UNCERTAIN'' ''variant match confidence is below the blueprint alignment floor'',
        ctx_if (int (card (set ids)) < EvidenceRequirement.min_distinct_units req)
          ''INSUFFICIENT_RELEVANT_EVIDENCE'' ''variant match does not satisfy the minimum distinct evidence units'',
        ctx_if (list_ex (\<lambda>u. EvidenceUnit.modality u \<notin> set (EvidenceRequirement.allowed_modalities req)) chosen)
          ''EVIDENCE_MODALITY_MISMATCH'' ''variant match uses a disallowed modality'',
        ctx_if (list_ex (\<lambda>u. EvidenceUnit.extraction_confidence u
               < EvidenceRequirement.min_extraction_confidence req) chosen)
          ''EVIDENCE_CONFIDENCE_LOW'' ''variant match uses evidence below the confidence floor'',
        ctx_if (EvidenceRequirement.cross_artifact_required req
            \<and> card (set (map EvidenceUnit.artifact_id chosen)) < 2)
          ''INSUFFICIENT_RELEVANT_EVIDENCE'' ''variant match requires distinct artifacts''])"

definition match_by_path :: "EvidenceMapPatch \<Rightarrow> string \<times> string \<Rightarrow> EvidenceVariantMatch option" where
  "match_by_path mp = dict_by (\<lambda>mt. (EvidenceVariantMatch.dimension_id mt, EvidenceVariantMatch.variant_id mt))
     (EvidenceMapPatch.variant_matches mp)"

definition inherits :: "QuestionOpportunity \<Rightarrow> QuestionOpportunityTemplate \<Rightarrow> BlueprintDimension \<Rightarrow> bool" where
  "inherits q t d \<longleftrightarrow>
     QuestionOpportunity.focus q = QuestionOpportunityTemplate.focus t
     \<and> QuestionOpportunity.observable q = QuestionOpportunityTemplate.observable t
     \<and> QuestionOpportunity.difficulty q = QuestionOpportunityTemplate.difficulty t
     \<and> QuestionOpportunity.target_minutes q = QuestionOpportunityTemplate.target_minutes t
     \<and> QuestionOpportunity.allowed_anchor_structures q = QuestionOpportunityTemplate.allowed_anchor_structures t
     \<and> QuestionOpportunity.allowed_response_formats q = QuestionOpportunityTemplate.allowed_response_formats t
     \<and> QuestionOpportunity.student_justification_required q
        = QuestionOpportunityTemplate.student_justification_required t
     \<and> QuestionOpportunity.activity_priority q = BlueprintDimension.verification_priority d"

definition opportunity_error ::
  "AssessmentBlueprint \<Rightarrow> EvidenceContext \<Rightarrow> EvidenceMapPatch \<Rightarrow> QuestionOpportunity \<Rightarrow> context_error option" where
  "opportunity_error bp ctx mp q =
     (let dim = QuestionOpportunity.dimension_id q; var = QuestionOpportunity.variant_id q;
          tpl = QuestionOpportunity.opportunity_template_id q; ids = QuestionOpportunity.evidence_ids q;
          d = the (dimension_by_id bp dim); v = the (variant_by_id bp var); t = the (template_by_id bp tpl);
          mt = the (match_by_path mp (dim, var)); req = EvidenceVariant.evidence_requirement v;
          chosen = units_of ctx ids
      in first_error [
        ctx_if (QuestionOpportunity.submission_id q \<noteq> EvidenceMapPatch.submission_id mp)
          ''CROSS_SUBMISSION_EVIDENCE'' ''opportunity belongs to another submission'',
        ctx_if (dimension_by_id bp dim = None \<or> variant_by_id bp var = None \<or> template_by_id bp tpl = None)
          ''INVENTED_ID'' ''opportunity references an unknown ID'',
        ctx_if (v \<notin> set (BlueprintDimension.evidence_variants d) \<or> t \<notin> set (EvidenceVariant.question_opportunities v))
          ''BLUEPRINT_REFERENCE_MISMATCH'' ''opportunity path is invalid'',
        ctx_if (variant_dimension_id bp var \<noteq> Some dim \<or> template_variant_id bp tpl \<noteq> Some var)
          ''BLUEPRINT_REFERENCE_MISMATCH'' ''opportunity path is invalid'',
        ctx_if (match_by_path mp (dim, var) = None)
          ''BLUEPRINT_REFERENCE_MISMATCH'' ''opportunity has no validated variant match'',
        ctx_if (list_ex (\<lambda>e. evidence_by_id ctx e = None) ids)
          ''INVENTED_EVIDENCE_ID'' ''opportunity references unknown evidence'',
        ctx_if (\<not> set ids \<subseteq> set (EvidenceVariantMatch.evidence_ids mt))
          ''UNAUTHORIZED_EVIDENCE'' ''opportunity widens the evidence of its variant match'',
        ctx_if (QuestionOpportunity.evidence_fit q \<noteq> EvidenceVariantMatch.evidence_fit mt)
          ''BLUEPRINT_REFERENCE_MISMATCH'' ''opportunity changes the evidence fit of its variant match'',
        ctx_if (QuestionOpportunity.cognitive_operation q \<notin> operations_of v)
          ''UNSUPPORTED_COGNITIVE_OPERATION'' ''opportunity widens the variant operation'',
        ctx_if (QuestionOpportunity.cognitive_operation q \<noteq> QuestionOpportunityTemplate.cognitive_operation t)
          ''UNSUPPORTED_COGNITIVE_OPERATION'' ''opportunity changes its template operation'',
        ctx_if (\<not> inherits q t d)
          ''BLUEPRINT_REFERENCE_MISMATCH'' ''opportunity changes source-bound template constraints'',
        ctx_if (list_ex (\<lambda>e. evidence_by_id ctx e = None) ids)
          ''INVENTED_EVIDENCE_ID'' ''opportunity references unknown evidence'',
        require_unique ids ''DUPLICATE_ID'' ''opportunity evidence IDs'',
        ctx_if (int (card (set ids)) < EvidenceRequirement.min_distinct_units req)
          ''INSUFFICIENT_RELEVANT_EVIDENCE'' ''opportunity does not satisfy the variant evidence requirement'',
        ctx_if (list_ex (\<lambda>u. EvidenceUnit.modality u \<notin> set (EvidenceRequirement.allowed_modalities req)) chosen)
          ''EVIDENCE_MODALITY_MISMATCH'' ''opportunity uses a disallowed modality'',
        ctx_if (list_ex (\<lambda>u. EvidenceUnit.extraction_confidence u
               < EvidenceRequirement.min_extraction_confidence req) chosen)
          ''EVIDENCE_CONFIDENCE_LOW'' ''opportunity uses evidence below the confidence floor'',
        ctx_if (EvidenceRequirement.cross_artifact_required req
            \<and> card (set (map EvidenceUnit.artifact_id chosen)) < 2)
          ''INSUFFICIENT_RELEVANT_EVIDENCE'' ''opportunity requires evidence from distinct artifacts''])"

definition validate_evidence_map ::
  "EvidenceMapPatch \<Rightarrow> AssessmentBlueprint \<Rightarrow> EvidenceBundle \<Rightarrow> context_error option" where
  "validate_evidence_map mp bp b =
     (let ctx = from_bundle b in first_error [
        evidence_context_error b,
        ctx_if (EvidenceMapPatch.submission_id mp \<noteq> EvidenceBundle.submission_id b)
          ''CROSS_SUBMISSION_EVIDENCE'' ''mapping belongs to another submission'',
        (if EvidenceMapPatch.status mp \<noteq> ''READY'' then first_error [
           ctx_if (EvidenceMapPatch.opportunities mp \<noteq> [] \<or> EvidenceMapPatch.claims mp \<noteq> []
               \<or> EvidenceMapPatch.variant_matches mp \<noteq> [])
             ''PARTIAL_ASSESSMENT_FORBIDDEN'' ''failed mapping cannot expose usable annotations'',
           validate_complete_diagnostics (EvidenceMapPatch.diagnostics mp) (EvidenceMapPatch.status mp) True]
         else first_error [
           require_unique (map EvidenceClaim.claim_id (EvidenceMapPatch.claims mp)) ''DUPLICATE_ID'' ''claim IDs'',
           require_unique (map (\<lambda>mt. EvidenceVariantMatch.dimension_id mt @ '':'' @ EvidenceVariantMatch.variant_id mt)
               (EvidenceMapPatch.variant_matches mp)) ''DUPLICATE_ID'' ''variant match paths'',
           first_error (map (claim_error bp ctx) (EvidenceMapPatch.claims mp)),
           first_error (map (match_error bp ctx) (EvidenceMapPatch.variant_matches mp)),
           first_error (map (opportunity_error bp ctx mp) (EvidenceMapPatch.opportunities mp))])])"

section \<open>The plan\<close>

definition validate_assessment_plan :: "AssessmentPlan \<Rightarrow> EvidenceMapPatch \<Rightarrow> context_error option" where
  "validate_assessment_plan pl mp =
     (let planned = AssessmentPlan.selected_opportunity_ids pl @ AssessmentPlan.reserve_opportunity_ids pl
      in first_error [
        ctx_if (AssessmentPlan.submission_id pl \<noteq> EvidenceMapPatch.submission_id mp)
          ''CROSS_SUBMISSION_EVIDENCE'' ''plan submission mismatch'',
        (if AssessmentPlan.status pl = ''READY'' then first_error [
           ctx_if (int (length (AssessmentPlan.selected_opportunity_ids pl)) \<noteq> AssessmentPlan.question_count pl)
             ''PARTIAL_ASSESSMENT_FORBIDDEN'' ''ready plan does not contain exactly N'',
           ctx_if (\<not> set planned \<subseteq> set (map QuestionOpportunity.opportunity_id (EvidenceMapPatch.opportunities mp)))
             ''INVENTED_ID'' ''plan references unknown opportunities'',
           require_unique planned ''PLAN_DUPLICATE_OPPORTUNITY'' ''planned opportunity IDs'']
         else first_error [
           ctx_if (AssessmentPlan.selected_opportunity_ids pl \<noteq> [] \<or> AssessmentPlan.reserve_opportunity_ids pl \<noteq> [])
             ''PARTIAL_ASSESSMENT_FORBIDDEN'' ''failed plan contains a partial assessment'',
           validate_complete_diagnostics (AssessmentPlan.diagnostics pl) (AssessmentPlan.status pl) True])])"

section \<open>Generated questions\<close>

definition check_safe_generated_text :: "string \<Rightarrow> context_error option" where
  "check_safe_generated_text s = first_error [
     ctx_if (prohibited_claim s)
       ''QUESTION_SECURITY_FAIL'' ''generated question contains a prohibited claim or instruction'',
     ctx_if (exposes_secret s) ''QUESTION_PII'' ''generated question exposes PII or a secret'']"

text \<open>Two locators have the same JSON dump iff they are equal: the dump holds the kind and every
  field.\<close>

definition fragment_error :: "EvidenceContext \<Rightarrow> AnchorFragment \<Rightarrow> context_error option" where
  "fragment_error ctx fr =
     (case evidence_by_id ctx (AnchorFragment.evidence_id fr) of
        None \<Rightarrow> Some (CtxErr ''INVENTED_EVIDENCE_ID'' ''anchor uses unknown evidence'')
      | Some u \<Rightarrow> first_error [
          ctx_if (AnchorFragment.locator fr \<noteq> EvidenceUnit.locator u)
            ''ANCHOR_NOT_DERIVABLE'' ''anchor locator does not match evidence'',
          ctx_if (AnchorFragment.display_text fr = None)
            ''ANCHOR_NOT_DERIVABLE'' ''Stage 0 anchor requires display text'',
          (if AnchorFragment.transformation fr \<in> {''LITERAL'', ''CROP'', ''CODE_CONTEXT'', ''ALT_TEXT''}
           then ctx_if (\<not> contains (the (AnchorFragment.display_text fr))
                  (case EvidenceUnit.content_text u of None \<Rightarrow> [] | Some txt \<Rightarrow> txt))
               ''ANCHOR_NOT_DERIVABLE'' ''anchor text is not derivable from evidence''
           else if AnchorFragment.transformation fr = ''TABLE_SLICE''
           then ctx_if (EvidenceUnit.structured_content u = None)
               ''ANCHOR_NOT_DERIVABLE'' ''table slice has no structured evidence''
           else None)])"

definition element_error :: "string list \<Rightarrow> string list \<Rightarrow> string \<Rightarrow> string \<Rightarrow> ObservableElement \<Rightarrow> context_error option" where
  "element_error evidence sources evidence_msg source_msg el = first_error [
     ctx_if (\<not> set (ObservableElement.evidence_ids el) \<subseteq> set evidence) ''UNAUTHORIZED_EVIDENCE'' evidence_msg,
     ctx_if (\<not> set (ObservableElement.source_ids el) \<subseteq> set sources) ''UNAUTHORIZED_SOURCE'' source_msg]"

definition candidate_path_error :: "QuestionCandidate \<Rightarrow> QuestionOpportunity \<Rightarrow> EvidenceBundle \<Rightarrow> context_error option" where
  "candidate_path_error c q b = first_error [
     ctx_if (QuestionCandidate.submission_id c \<noteq> EvidenceBundle.submission_id b
         \<or> QuestionCandidate.submission_id c \<noteq> QuestionOpportunity.submission_id q)
       ''CROSS_SUBMISSION_EVIDENCE'' ''candidate submission mismatch'',
     ctx_if (QuestionCandidate.opportunity_id c \<noteq> QuestionOpportunity.opportunity_id q)
       ''INVENTED_ID'' ''candidate opportunity mismatch'',
     ctx_if (QuestionCandidate.opportunity_template_id c \<noteq> QuestionOpportunity.opportunity_template_id q
         \<or> QuestionCandidate.dimension_id c \<noteq> QuestionOpportunity.dimension_id q
         \<or> QuestionCandidate.variant_id c \<noteq> QuestionOpportunity.variant_id q)
       ''BLUEPRINT_REFERENCE_MISMATCH'' ''candidate changes its opportunity path'',
     ctx_if (QuestionCandidate.cognitive_operation c \<noteq> QuestionOpportunity.cognitive_operation q)
       ''UNSUPPORTED_COGNITIVE_OPERATION'' ''candidate changes the planned operation'',
     ctx_if (QuestionCandidate.response_format c \<notin> set (QuestionOpportunity.allowed_response_formats q))
       ''RESPONSE_FORMAT_NOT_ALLOWED'' ''candidate uses a response format outside the opportunity'',
     ctx_if (QuestionCandidate.difficulty c \<noteq> QuestionOpportunity.difficulty q
         \<or> QuestionCandidate.estimated_minutes c \<noteq> QuestionOpportunity.target_minutes q
         \<or> QuestionCandidate.student_justification_required c
            \<noteq> QuestionOpportunity.student_justification_required q)
       ''BLUEPRINT_REFERENCE_MISMATCH'' ''candidate changes planned difficulty, time or justification'',
     ctx_if (Anchor.structure (QuestionCandidate.anchor c) \<notin> set (QuestionOpportunity.allowed_anchor_structures q))
       ''ANCHOR_STRUCTURE_NOT_ALLOWED'' ''candidate uses an anchor structure outside the opportunity'']"

definition citation_error :: "QuestionCandidate \<Rightarrow> EvidenceBundle \<Rightarrow> context_error option" where
  "citation_error c b =
     (if EvidenceBundle.context_mode b = ContextMode.CLOSED
      then ctx_if (QuestionCandidate.course_source_ids c \<noteq> [] \<or> QuestionCandidate.citations c \<noteq> [])
        ''UNAUTHORIZED_SOURCE'' ''closed question cites course sources''
      else first_error [
        ctx_if (set (QuestionCandidate.course_source_ids c)
            \<noteq> set (map SourceCitation.source_id (QuestionCandidate.citations c)))
          ''UNAUTHORIZED_SOURCE'' ''citation IDs do not match'',
        ctx_if (list_ex (\<lambda>sid. course_sources_by_id (from_bundle b) sid = None) (QuestionCandidate.course_source_ids c))
          ''UNAUTHORIZED_SOURCE'' ''course source is not allowlisted''])"

definition validate_question_candidate ::
  "QuestionCandidate \<Rightarrow> QuestionOpportunity \<Rightarrow> EvidenceBundle \<Rightarrow> context_error option" where
  "validate_question_candidate c q b =
     (let ctx = from_bundle b in first_error [
        evidence_context_error b,
        candidate_path_error c q b,
        ctx_if (\<not> set (QuestionCandidate.evidence_ids c) \<subseteq> set (QuestionOpportunity.evidence_ids q))
          ''UNAUTHORIZED_EVIDENCE'' ''candidate widens the opportunity evidence'',
        ctx_if (list_ex (\<lambda>e. evidence_by_id ctx e = None) (QuestionCandidate.evidence_ids c))
          ''INVENTED_EVIDENCE_ID'' ''candidate uses unknown evidence'',
        first_error (map (element_error (QuestionCandidate.evidence_ids c) (QuestionCandidate.course_source_ids c)
            ''candidate guide widens candidate evidence'' ''candidate guide widens candidate sources'')
          (GuideDraft.observable_elements (QuestionCandidate.preliminary_guide c))),
        check_safe_generated_text (QuestionCandidate.question_text c),
        first_error (map (fragment_error ctx) (Anchor.fragments (QuestionCandidate.anchor c))),
        citation_error c b])"

definition validate_generation_result ::
  "QuestionGenerationResult \<Rightarrow> QuestionOpportunity \<Rightarrow> EvidenceBundle \<Rightarrow> context_error option" where
  "validate_generation_result r q b =
     (if QuestionGenerationResult.status r = ''READY''
      then (case QuestionGenerationResult.candidate r of
          None \<Rightarrow> Some (CtxErr ''MODEL_OUTPUT_INVALID'' ''ready generation has no candidate'')
        | Some c \<Rightarrow> validate_question_candidate c q b)
      else first_error [
        ctx_if (QuestionGenerationResult.candidate r \<noteq> None)
          ''PARTIAL_ASSESSMENT_FORBIDDEN'' ''failed generation exposes a candidate'',
        validate_complete_diagnostics (QuestionGenerationResult.diagnostics r) (QuestionGenerationResult.status r) False])"

section \<open>Reviews\<close>

definition below_threshold :: "QuestionSemanticReview \<Rightarrow> QuestionValidationPolicy \<Rightarrow> bool" where
  "below_threshold rv vp =
     (let sc = QuestionSemanticReview.scores rv in
        QuestionScores.groundedness sc < QuestionValidationPolicy.minimum_groundedness vp
        \<or> QuestionScores.anchor_sufficiency sc < QuestionValidationPolicy.minimum_anchor_sufficiency vp
        \<or> QuestionScores.criterion_relevance sc < QuestionValidationPolicy.minimum_criterion_relevance vp
        \<or> QuestionScores.answerability sc < QuestionValidationPolicy.minimum_answerability vp
        \<or> QuestionSemanticReview.confidence rv < QuestionValidationPolicy.escalate_below_confidence vp)"

definition ready_review_error ::
  "QuestionReviewResult \<Rightarrow> QuestionSemanticReview \<Rightarrow> QuestionGenerationResult \<Rightarrow> QuestionCandidate
     \<Rightarrow> QuestionValidationPolicy \<Rightarrow> context_error option" where
  "ready_review_error r rv g c vp = first_error [
     ctx_if (QuestionSemanticReview.candidate_id rv \<noteq> QuestionCandidate.candidate_id c)
       ''INVENTED_ID'' ''review candidate mismatch'',
     ctx_if (QuestionReviewResult.submission_id r \<noteq> QuestionGenerationResult.submission_id g
         \<or> QuestionReviewResult.opportunity_id r \<noteq> QuestionGenerationResult.opportunity_id g)
       ''INVENTED_ID'' ''review result request mismatch'',
     ctx_if (\<not> set (QuestionSemanticReview.evidence_ids rv) \<subseteq> set (QuestionCandidate.evidence_ids c))
       ''UNAUTHORIZED_EVIDENCE'' ''review widens candidate evidence'',
     ctx_if (\<not> set (QuestionSemanticReview.source_ids rv) \<subseteq> set (QuestionCandidate.course_source_ids c))
       ''UNAUTHORIZED_SOURCE'' ''review widens candidate sources'',
     ctx_if (QuestionSemanticReview.estimated_difficulty rv \<noteq> QuestionCandidate.difficulty c
         \<or> QuestionSemanticReview.estimated_minutes rv \<noteq> QuestionCandidate.estimated_minutes c)
       ''BLUEPRINT_REFERENCE_MISMATCH'' ''review changes planned difficulty or time'',
     ctx_if (QuestionSemanticReview.decision rv = ReviewDecision.ACCEPT
         \<and> (below_threshold rv vp \<or> QuestionSemanticReview.critical_failure_codes rv \<noteq> []))
       ''QUESTION_POLICY_VIOLATION''
       ''an accepted question violates validation thresholds or critical gates'']"

definition validate_review_result ::
  "QuestionReviewResult \<Rightarrow> QuestionGenerationResult \<Rightarrow> QuestionValidationPolicy \<Rightarrow> context_error option" where
  "validate_review_result r g vp =
     (if QuestionReviewResult.status r = ''READY''
      then (case (QuestionReviewResult.review r, QuestionGenerationResult.candidate g) of
          (Some rv, Some c) \<Rightarrow> ready_review_error r rv g c vp
        | _ \<Rightarrow> Some (CtxErr ''MODEL_OUTPUT_INVALID'' ''ready review is incomplete''))
      else first_error [
        ctx_if (QuestionReviewResult.review r \<noteq> None)
          ''PARTIAL_ASSESSMENT_FORBIDDEN'' ''abstained review contains scores'',
        validate_complete_diagnostics (QuestionReviewResult.diagnostics r) (QuestionReviewResult.status r) False])"

section \<open>The evaluation guide\<close>

definition guide_item_error :: "(string \<Rightarrow> SelectedQuestion option) \<Rightarrow> EvaluationGuideItem \<Rightarrow> context_error option" where
  "guide_item_error questions_by_id it =
     (let qn = the (questions_by_id (EvaluationGuideItem.question_id it)); g = EvaluationGuideItem.guide it
      in first_error [
        ctx_if (map GuideLevel.level (GuideDraft.levels g) \<noteq> [0, 1, 2, 3])
          ''GUIDE_INCOMPLETE'' ''guide levels must be 0,1,2,3'',
        first_error (map (\<lambda>lv. ctx_if (\<not> set (GuideLevel.observable_element_ids lv)
              \<subseteq> set (map ObservableElement.element_id (GuideDraft.observable_elements g)))
            ''INVENTED_ID'' ''guide level uses unknown element'') (GuideDraft.levels g)),
        first_error (map (element_error (SelectedQuestion.evidence_ids qn) (SelectedQuestion.course_source_ids qn)
            ''guide widens question evidence'' ''guide widens sources'') (GuideDraft.observable_elements g))])"

definition validate_evaluation_guide ::
  "EvaluationGuide \<Rightarrow> Assessment \<Rightarrow> EvidenceBundle \<Rightarrow> context_error option" where
  "validate_evaluation_guide g a b = first_error [
     ctx_if (EvaluationGuide.assessment_id g \<noteq> Assessment.assessment_id a)
       ''INVENTED_ID'' ''guide assessment mismatch'',
     ctx_if (EvaluationGuide.submission_id g \<noteq> Assessment.submission_id a
         \<or> EvaluationGuide.submission_id g \<noteq> EvidenceBundle.submission_id b)
       ''CROSS_SUBMISSION_EVIDENCE'' ''guide submission mismatch'',
     (if EvaluationGuide.status g = ''READY'' then first_error [
        ctx_if (set (map EvaluationGuideItem.question_id (EvaluationGuide.items g))
            \<noteq> set (map SelectedQuestion.question_id (Assessment.questions a)))
          ''GUIDE_INCOMPLETE'' ''guide must cover every question exactly'',
        first_error (map (guide_item_error (dict_by SelectedQuestion.question_id (Assessment.questions a)))
          (EvaluationGuide.items g))]
      else first_error [
        ctx_if (EvaluationGuide.items g \<noteq> [])
          ''PARTIAL_ASSESSMENT_FORBIDDEN'' ''failed guide contains partial items'',
        validate_complete_diagnostics (EvaluationGuide.diagnostics g) (EvaluationGuide.status g) False])]"

end
