(* ===== verification/Planning.thy ===== *)
theory Planning
  imports ContractsQuestion Diagnostics
begin

text \<open>
  \<open>planning.py\<close>: the deterministic selection of exactly N primary opportunities and a disjoint
  reserve, or a complete failed plan.  Scores are binary64 numbers and every arithmetic step is
  rounded as Python rounds it (theory \<open>PyFloat\<close>).  \<open>select_states\<close> is the beam search of
  \<open>_select_exact\<close>: one round per question, each round extends every state by every later
  candidate that fits, sorts the extensions and keeps the best \<open>beam_width\<close> of them.
\<close>

definition PLANNER_VERSION :: string where
  "PLANNER_VERSION = ''stage0-planner/1.0.0''"

record ScoredOpportunity =
  opportunity :: QuestionOpportunity
  base_score :: pyfloat

record PlanState =
  selected :: "nat list"
  score :: pyfloat
  minutes :: int

section \<open>Scores\<close>

definition evidence_overlap :: "QuestionOpportunity \<Rightarrow> QuestionOpportunity \<Rightarrow> pyfloat" where
  "evidence_overlap l r =
     (let ls = set (QuestionOpportunity.evidence_ids l); rs = set (QuestionOpportunity.evidence_ids r)
      in if ls \<union> rs = {} then 0 else int_truediv (int (card (ls \<inter> rs))) (int (card (ls \<union> rs))))"

definition base_score_of :: "QuestionOpportunity \<Rightarrow> AssessmentPlanningPolicy \<Rightarrow> pyfloat" where
  "base_score_of q pol = fadd
     (fadd (fmul (QuestionOpportunity.activity_priority q) (AssessmentPlanningPolicy.activity_priority_weight pol))
           (fmul (QuestionOpportunity.evidence_fit q) (AssessmentPlanningPolicy.evidence_fit_weight pol)))
     (fmul (QuestionOpportunity.opportunity_quality q) (AssessmentPlanningPolicy.opportunity_quality_weight pol))"

definition marginal_score ::
  "QuestionOpportunity \<Rightarrow> QuestionOpportunity list \<Rightarrow> AssessmentPlanningPolicy \<Rightarrow> pyfloat" where
  "marginal_score q chosen pol =
     (let same_dimension = length (filter (\<lambda>i. QuestionOpportunity.dimension_id i = QuestionOpportunity.dimension_id q) chosen);
          same_variant = length (filter (\<lambda>i. QuestionOpportunity.variant_id i = QuestionOpportunity.variant_id q) chosen);
          dimension_penalty = fmul (AssessmentPlanningPolicy.repeated_dimension_penalty pol) (of_nat same_dimension);
          variant_penalty = fmul (AssessmentPlanningPolicy.repeated_variant_penalty pol) (of_nat same_variant);
          overlaps = map (\<lambda>i. evidence_overlap i q) chosen;
          overlap_penalty = fmul (AssessmentPlanningPolicy.evidence_overlap_penalty pol) (py_sum overlaps)
      in fsub (fsub (fsub (base_score_of q pol) dimension_penalty) variant_penalty) overlap_penalty)"

section \<open>Failed plans\<close>

text \<open>The messages by status; the two accented letters are Latin-1 code points.\<close>

definition failure_message :: "string \<Rightarrow> string option" where
  "failure_message st =
     (if st = ''INSUFFICIENT_RELEVANT_EVIDENCE''
      then Some (''No existe evidencia pertinente suficiente para planificar la evaluaci'' @ [CHR 0xF3] @ ''n.'')
      else if st = ''INSUFFICIENT_DISTINCT_QUESTION_OPPORTUNITIES''
      then Some (''No existen oportunidades sustancialmente distintas suficientes para el n'' @ [CHR 0xFA] @ ''mero solicitado.'')
      else if st = ''EVIDENCE_MAPPING_UNCERTAIN''
      then Some (''El mapeo entre evidencia, dimensi'' @ [CHR 0xF3] @ ''n y variante no alcanza la confianza requerida.'')
      else if st = ''ASSESSMENT_PLAN_INFEASIBLE''
      then Some (''Las oportunidades v'' @ [CHR 0xE1] @ ''lidas no satisfacen conjuntamente las restricciones no relajables.'')
      else None)"

definition stable_id_or_raise :: "string \<Rightarrow> json list \<Rightarrow> contract_error + string" where
  "stable_id_or_raise p parts = (case stable_id p parts of Inl msg \<Rightarrow> Inl (ValueErr msg) | Inr s \<Rightarrow> Inr s)"

text \<open>An unknown status is a \<open>KeyError\<close> in the code; no caller passes one.\<close>

definition complete_failure ::
  "string \<Rightarrow> string \<Rightarrow> AssessmentBlueprint \<Rightarrow> int \<Rightarrow> string list \<Rightarrow> (string \<times> json) list
     \<Rightarrow> contract_error + AssessmentPlan" where
  "complete_failure st sub bp qn eids dets =
     (case failure_message st of
        None \<Rightarrow> Inl (ValueErr (''KeyError: '' @ st))
      | Some msg \<Rightarrow>
          and_then (stable_id_or_raise ''plan''
              [JStr sub, JStr (AssessmentBlueprint.blueprint_id bp),
               JInt (AssessmentBlueprint.blueprint_version bp), JStr st, JInt qn])
            (\<lambda>pid. and_then (diagnostic st msg Severity.ERROR (take 100 eids) [] False dets)
               (\<lambda>d. construct AssessmentPlan_validate
                  \<lparr>AssessmentPlan.schema_version = LEGACY_SCHEMA_VERSION, plan_id = pid, submission_id = sub,
                   blueprint_id = AssessmentBlueprint.blueprint_id bp,
                   blueprint_version = AssessmentBlueprint.blueprint_version bp, status = st,
                   question_count = qn, selected_opportunity_ids = [], reserve_opportunity_ids = [],
                   estimated_total_minutes = 0, diagnostics = [d]\<rparr>)))"

definition failure_from_mapping ::
  "EvidenceMapPatch \<Rightarrow> AssessmentBlueprint \<Rightarrow> int \<Rightarrow> contract_error + AssessmentPlan" where
  "failure_from_mapping mp bp qn = guarded
     (fail_if (EvidenceMapPatch.status mp \<notin> {''INSUFFICIENT_RELEVANT_EVIDENCE'',
          ''INSUFFICIENT_DISTINCT_QUESTION_OPPORTUNITIES'', ''EVIDENCE_MAPPING_UNCERTAIN''})
        (''mapping status cannot enter planner: '' @ EvidenceMapPatch.status mp))
     (complete_failure (EvidenceMapPatch.status mp) (EvidenceMapPatch.submission_id mp) bp qn
        (sorted_set (concat (map Diagnostic.evidence_ids (EvidenceMapPatch.diagnostics mp))))
        [(''mapping_status'', JStr (EvidenceMapPatch.status mp))])"

section \<open>Candidates\<close>

definition is_candidate ::
  "AssessmentBlueprint \<Rightarrow> AssessmentPlanningPolicy \<Rightarrow> QuestionOpportunity \<Rightarrow> bool" where
  "is_candidate bp pol q \<longleftrightarrow>
     AssessmentPlanningPolicy.minimum_opportunity_quality pol \<le> QuestionOpportunity.opportunity_quality q
     \<and> AssessmentPlanningPolicy.minimum_evidence_fit pol \<le> QuestionOpportunity.evidence_fit q
     \<and> set (QuestionOpportunity.allowed_response_formats q)
       \<inter> set (AssessmentConstraints.allowed_response_formats (AssessmentBlueprint.assessment_constraints bp)) \<noteq> {}"

definition valid_candidates ::
  "EvidenceMapPatch \<Rightarrow> AssessmentBlueprint \<Rightarrow> AssessmentPlanningPolicy \<Rightarrow> ScoredOpportunity list" where
  "valid_candidates mp bp pol =
     sort_key (\<lambda>s. (- base_score s, QuestionOpportunity.opportunity_id (opportunity s)))
       (map (\<lambda>q. \<lparr>opportunity = q, base_score = base_score_of q pol\<rparr>)
          (filter (is_candidate bp pol) (EvidenceMapPatch.opportunities mp)))"

section \<open>The exact selection\<close>

abbreviation beam_width :: nat where
  "beam_width \<equiv> 512"

definition picked :: "ScoredOpportunity list \<Rightarrow> nat list \<Rightarrow> QuestionOpportunity list" where
  "picked scored is = map (\<lambda>i. opportunity (scored ! i)) is"

definition extend_state ::
  "ScoredOpportunity list \<Rightarrow> int \<Rightarrow> AssessmentPlanningPolicy \<Rightarrow> PlanState \<Rightarrow> PlanState list" where
  "extend_state scored max_minutes pol st =
     (let start = (if selected st = [] then 0 else last (selected st) + 1);
          items = picked scored (selected st)
      in concat (map (\<lambda>i.
           (let cand = opportunity (scored ! i);
                mins = minutes st + QuestionOpportunity.target_minutes cand
            in if max_minutes < mins then []
               else if list_ex (\<lambda>prior. AssessmentPlanningPolicy.maximum_evidence_overlap pol
                                  < evidence_overlap cand prior) items then []
               else [\<lparr>selected = selected st @ [i],
                      score = fadd (score st) (marginal_score cand items pol), minutes = mins\<rparr>]))
         [start..<length scored]))"

definition state_key :: "ScoredOpportunity list \<Rightarrow> PlanState \<Rightarrow> pyfloat \<times> int \<times> string list" where
  "state_key scored st =
     (- score st, minutes st, map QuestionOpportunity.opportunity_id (picked scored (selected st)))"

definition next_states ::
  "ScoredOpportunity list \<Rightarrow> int \<Rightarrow> AssessmentPlanningPolicy \<Rightarrow> PlanState list \<Rightarrow> PlanState list" where
  "next_states scored max_minutes pol sts =
     sort_key (state_key scored) (concat (map (extend_state scored max_minutes pol) sts))"

fun select_states ::
  "nat \<Rightarrow> ScoredOpportunity list \<Rightarrow> nat \<Rightarrow> int \<Rightarrow> AssessmentPlanningPolicy \<Rightarrow> PlanState list
     \<Rightarrow> PlanState list option" where
  "select_states beam scored 0 max_minutes pol sts = Some sts"
| "select_states beam scored (Suc n) max_minutes pol sts =
     (let nxt = next_states scored max_minutes pol sts
      in if nxt = [] then None else select_states beam scored n max_minutes pol (take beam nxt))"

definition start_state :: PlanState where
  "start_state = \<lparr>selected = [], score = 0, minutes = 0\<rparr>"

definition flags_of :: "ScoredOpportunity list \<Rightarrow> nat list \<Rightarrow> bool set" where
  "flags_of scored is = set (map QuestionOpportunity.student_justification_required (picked scored is))"

definition outside :: "ScoredOpportunity list \<Rightarrow> nat list \<Rightarrow> nat list" where
  "outside scored is = filter (\<lambda>i. i \<notin> set is) [0..<length scored]"

definition replaceable :: "ScoredOpportunity list \<Rightarrow> AssessmentPlanningPolicy \<Rightarrow> PlanState \<Rightarrow> bool" where
  "replaceable scored pol st \<longleftrightarrow>
     True \<in> flags_of scored (selected st)
     \<and> (AssessmentPlanningPolicy.max_reserve_opportunities pol = 0
        \<or> flags_of scored (selected st) \<subseteq> flags_of scored (outside scored (selected st)))"

definition select_exact ::
  "nat \<Rightarrow> ScoredOpportunity list \<Rightarrow> nat \<Rightarrow> int \<Rightarrow> AssessmentPlanningPolicy \<Rightarrow> StructuredJustificationMode
     \<Rightarrow> PlanState option" where
  "select_exact beam scored count max_minutes pol jmode =
     (case select_states beam scored count max_minutes pol [start_state] of
        None \<Rightarrow> None
      | Some [] \<Rightarrow> None
      | Some (st # sts) \<Rightarrow>
          if jmode \<noteq> StructuredJustificationMode.SELECTED then Some st
          else find (replaceable scored pol) (st # sts))"

section \<open>The reserve\<close>

definition reserve_order ::
  "QuestionOpportunity list \<Rightarrow> AssessmentPlanningPolicy \<Rightarrow> QuestionOpportunity list \<Rightarrow> QuestionOpportunity list" where
  "reserve_order primary pol cands =
     sort_key (\<lambda>q. (- marginal_score q primary pol, QuestionOpportunity.opportunity_id q)) cands"

text \<open>One compatible replacement for each justification class of the primary set, the required
  class first.\<close>

definition add_compatible :: "QuestionOpportunity list \<Rightarrow> bool \<Rightarrow> QuestionOpportunity list \<Rightarrow> QuestionOpportunity list" where
  "add_compatible cands flag res =
     (case find (\<lambda>q. QuestionOpportunity.student_justification_required q = flag \<and> q \<notin> set res) cands of
        None \<Rightarrow> res | Some q \<Rightarrow> res @ [q])"

definition primary_classes :: "QuestionOpportunity list \<Rightarrow> bool list" where
  "primary_classes primary =
     filter (\<lambda>b. b \<in> set (map QuestionOpportunity.student_justification_required primary)) [True, False]"

definition append_new :: "'a list \<Rightarrow> 'a \<Rightarrow> 'a list" where
  "append_new res q = (if q \<in> set res then res else res @ [q])"

definition build_reserve ::
  "QuestionOpportunity list \<Rightarrow> AssessmentPlanningPolicy \<Rightarrow> QuestionOpportunity list \<Rightarrow> QuestionOpportunity list" where
  "build_reserve primary pol cands =
     (if AssessmentPlanningPolicy.max_reserve_opportunities pol = 0 then []
      else take (nat (AssessmentPlanningPolicy.max_reserve_opportunities pol))
        (foldl append_new
           (foldl (\<lambda>res flag. add_compatible cands flag res) [] (primary_classes primary)) cands))"

section \<open>The plan\<close>

definition ready_plan ::
  "EvidenceMapPatch \<Rightarrow> AssessmentBlueprint \<Rightarrow> AssessmentPlanningPolicy \<Rightarrow> int \<Rightarrow> ScoredOpportunity list
     \<Rightarrow> PlanState \<Rightarrow> contract_error + AssessmentPlan" where
  "ready_plan mp bp pol qn scored st =
     (let primary = picked scored (selected st);
          reserve = build_reserve primary pol
            (reserve_order primary pol (picked scored (outside scored (selected st))));
          selected_ids = map QuestionOpportunity.opportunity_id primary;
          reserve_ids = map QuestionOpportunity.opportunity_id reserve
      in and_then (stable_id_or_raise ''plan''
             [JStr (EvidenceMapPatch.submission_id mp), JStr (AssessmentBlueprint.blueprint_id bp),
              JInt (AssessmentBlueprint.blueprint_version bp), JList (map JStr selected_ids),
              JList (map JStr reserve_ids), JStr PLANNER_VERSION])
           (\<lambda>pid. construct AssessmentPlan_validate
              \<lparr>AssessmentPlan.schema_version = LEGACY_SCHEMA_VERSION, plan_id = pid,
               submission_id = EvidenceMapPatch.submission_id mp,
               blueprint_id = AssessmentBlueprint.blueprint_id bp,
               blueprint_version = AssessmentBlueprint.blueprint_version bp, status = ''READY'',
               question_count = qn, selected_opportunity_ids = selected_ids,
               reserve_opportunity_ids = reserve_ids,
               estimated_total_minutes = sum_list (map QuestionOpportunity.target_minutes primary),
               diagnostics = []\<rparr>))"

definition build_assessment_plan ::
  "EvidenceMapPatch \<Rightarrow> AssessmentBlueprint \<Rightarrow> AssessmentPlanningPolicy \<Rightarrow> contract_error + AssessmentPlan" where
  "build_assessment_plan mp bp pol =
     (let cons = AssessmentBlueprint.assessment_constraints bp;
          qn = AssessmentConstraints.question_count cons;
          sub = EvidenceMapPatch.submission_id mp;
          all_ids = sorted_set (concat (map QuestionOpportunity.evidence_ids (EvidenceMapPatch.opportunities mp)));
          scored = valid_candidates mp bp pol
      in if sub = [] then Inl (ValueErr ''mapping submission_id is required'')
         else if EvidenceMapPatch.status mp \<noteq> ''READY'' then failure_from_mapping mp bp qn
         else if scored = [] then
           complete_failure ''INSUFFICIENT_RELEVANT_EVIDENCE'' sub bp qn all_ids
             [(''valid_opportunity_count'', JInt 0), (''required_question_count'', JInt qn)]
         else if int (length scored) < qn then
           complete_failure ''INSUFFICIENT_DISTINCT_QUESTION_OPPORTUNITIES'' sub bp qn all_ids
             [(''distinct_opportunity_count'', JInt (int (length scored))), (''required_question_count'', JInt qn)]
         else (case select_exact beam_width scored (nat qn) (AssessmentConstraints.target_total_minutes cons) pol
                      (StructuredJustificationPolicy.mode (AssessmentConstraints.structured_justification_policy cons)) of
             None \<Rightarrow> complete_failure ''ASSESSMENT_PLAN_INFEASIBLE'' sub bp qn all_ids
               [(''valid_opportunity_count'', JInt (int (length scored))), (''required_question_count'', JInt qn),
                (''target_total_minutes'', JInt (AssessmentConstraints.target_total_minutes cons))]
           | Some st \<Rightarrow> ready_plan mp bp pol qn scored st))"

end
