(* ===== verification/PlanningSearch.thy ===== *)
theory PlanningSearch
  imports Planning "HOL-Library.Multiset"
begin

text \<open>
  The beam search against its specification.  \<open>feasible\<close> says which index lists are selections
  that respect the code's constraints; every state the search reaches is \<open>state_of\<close> a feasible
  list, and as long as no round has more than \<open>beam\<close> states the search reaches all of them.
\<close>

section \<open>The specification of a selection\<close>

definition total_minutes :: "ScoredOpportunity list \<Rightarrow> nat list \<Rightarrow> int" where
  "total_minutes scored is = sum_list (map QuestionOpportunity.target_minutes (picked scored is))"

definition low_overlap :: "AssessmentPlanningPolicy \<Rightarrow> QuestionOpportunity \<Rightarrow> QuestionOpportunity \<Rightarrow> bool" where
  "low_overlap pol earlier later \<longleftrightarrow>
     evidence_overlap later earlier \<le> AssessmentPlanningPolicy.maximum_evidence_overlap pol"

definition feasible :: "ScoredOpportunity list \<Rightarrow> int \<Rightarrow> AssessmentPlanningPolicy \<Rightarrow> nat list \<Rightarrow> bool" where
  "feasible scored mx pol is \<longleftrightarrow>
     sorted_wrt (<) is \<and> (\<forall>i \<in> set is. i < length scored)
     \<and> (is = [] \<or> total_minutes scored is \<le> mx)
     \<and> sorted_wrt (low_overlap pol) (picked scored is)"

text \<open>The score of a selection: the marginal scores added from left to right, each rounded.\<close>

definition path_score :: "ScoredOpportunity list \<Rightarrow> AssessmentPlanningPolicy \<Rightarrow> nat list \<Rightarrow> pyfloat" where
  "path_score scored pol is = snd (foldl (\<lambda>(pre, s) i.
     (pre @ [i], fadd s (marginal_score (opportunity (scored ! i)) (picked scored pre) pol))) ([], 0) is)"

definition state_of :: "ScoredOpportunity list \<Rightarrow> AssessmentPlanningPolicy \<Rightarrow> nat list \<Rightarrow> PlanState" where
  "state_of scored pol is =
     \<lparr>selected = is, score = path_score scored pol is, minutes = total_minutes scored is\<rparr>"

lemma picked_simps [simp]:
  "picked scored [] = []"
  "picked scored (is @ js) = picked scored is @ picked scored js"
  "picked scored (i # is) = opportunity (scored ! i) # picked scored is"
  "length (picked scored is) = length is"
  by (simp_all add: picked_def)

lemma total_minutes_simps [simp]:
  "total_minutes scored [] = 0"
  "total_minutes scored (is @ [i]) =
     total_minutes scored is + QuestionOpportunity.target_minutes (opportunity (scored ! i))"
  by (simp_all add: total_minutes_def)

lemma path_score_Nil [simp]: "path_score scored pol [] = 0"
  by (simp add: path_score_def)

lemma path_prefix:
  "fst (foldl (\<lambda>(pre, s) i.
     (pre @ [i], fadd s (marginal_score (opportunity (scored ! i)) (picked scored pre) pol))) (p, s) is) = p @ is"
  by (induction "is" arbitrary: p s) simp_all

lemma path_score_snoc [simp]:
  "path_score scored pol (is @ [i]) =
     fadd (path_score scored pol is) (marginal_score (opportunity (scored ! i)) (picked scored is) pol)"
proof -
  obtain p s where ps: "foldl (\<lambda>(pre, s) i.
     (pre @ [i], fadd s (marginal_score (opportunity (scored ! i)) (picked scored pre) pol))) ([], 0) is = (p, s)"
    by fastforce
  then have "p = is" using path_prefix [of scored pol "[]" 0 "is"] by simp
  with ps show ?thesis by (simp add: path_score_def)
qed

lemma state_of_sel [simp]:
  "selected (state_of scored pol is) = is"
  "score (state_of scored pol is) = path_score scored pol is"
  "minutes (state_of scored pol is) = total_minutes scored is"
  by (simp_all add: state_of_def)

lemma state_of_inj [simp]: "state_of scored pol is = state_of scored pol js \<longleftrightarrow> is = js"
  by (metis state_of_sel(1))

lemma state_of_Nil [simp]: "state_of scored pol [] = start_state"
  by (simp add: start_state_def state_of_def)

lemma feasible_Nil [simp]: "feasible scored mx pol []"
  by (simp add: feasible_def)

lemma sorted_last_less:
  assumes "sorted_wrt (<) (is :: nat list)"
  shows "(if is = [] then 0 else last is + 1) \<le> i \<longleftrightarrow> (\<forall>j \<in> set is. j < i)"
  using assms by (induction "is" rule: rev_induct) (auto simp: sorted_wrt_append)

lemma feasible_snoc:
  assumes "\<forall>s \<in> set scored. 0 \<le> QuestionOpportunity.target_minutes (opportunity s)"
  shows "feasible scored mx pol (is @ [i]) \<longleftrightarrow>
     feasible scored mx pol is \<and> (\<forall>j \<in> set is. j < i) \<and> i < length scored
     \<and> total_minutes scored (is @ [i]) \<le> mx
     \<and> (\<forall>q \<in> set (picked scored is). low_overlap pol q (opportunity (scored ! i)))"
proof -
  have "i < length scored \<Longrightarrow> 0 \<le> QuestionOpportunity.target_minutes (opportunity (scored ! i))"
    using assms by simp
  then show ?thesis by (auto simp: feasible_def sorted_wrt_append)
qed

lemma feasible_take:
  assumes "\<forall>s \<in> set scored. 0 \<le> QuestionOpportunity.target_minutes (opportunity s)"
    and "feasible scored mx pol is"
  shows "feasible scored mx pol (take k is)"
  using assms(2)
proof (induction "is" rule: rev_induct)
  case (snoc i "is")
  then show ?case by (cases "k \<le> length is") (auto simp: feasible_snoc [OF assms(1)])
qed simp

section \<open>One round\<close>

lemma extend_state_eq:
  "extend_state scored mx pol (state_of scored pol is) =
     map (\<lambda>i. state_of scored pol (is @ [i]))
       (filter (\<lambda>i. total_minutes scored (is @ [i]) \<le> mx
            \<and> (\<forall>q \<in> set (picked scored is). low_overlap pol q (opportunity (scored ! i))))
          [(if is = [] then 0 else last is + 1)..<length scored])"
proof -
  have c: "concat (map (\<lambda>i. if P i then [] else if Q i then [] else [f i]) xs)
      = map f (filter (\<lambda>i. \<not> P i \<and> \<not> Q i) xs)"
    for P Q :: "nat \<Rightarrow> bool" and f :: "nat \<Rightarrow> PlanState" and xs
    by (induction xs) simp_all
  show ?thesis
    by (simp add: extend_state_def Let_def c state_of_def [of _ _ "_ @ [_]"] list_ex_iff not_less
        low_overlap_def Ball_def)
qed

definition round_lists ::
  "ScoredOpportunity list \<Rightarrow> int \<Rightarrow> AssessmentPlanningPolicy \<Rightarrow> nat list list \<Rightarrow> nat list list" where
  "round_lists scored mx pol L = concat (map (\<lambda>is. map (\<lambda>i. is @ [i])
       (filter (\<lambda>i. total_minutes scored (is @ [i]) \<le> mx
            \<and> (\<forall>q \<in> set (picked scored is). low_overlap pol q (opportunity (scored ! i))))
          [(if is = [] then 0 else last is + 1)..<length scored])) L)"

lemma next_states_eq:
  "next_states scored mx pol (map (state_of scored pol) L) =
     sort_key (state_key scored) (map (state_of scored pol) (round_lists scored mx pol L))"
  by (simp add: next_states_def round_lists_def extend_state_eq map_concat o_def)

lemma next_states_of_lists:
  "\<exists>L'. next_states scored mx pol (map (state_of scored pol) L) = map (state_of scored pol) L'
     \<and> mset L' = mset (round_lists scored mx pol L)"
proof -
  let ?R = "round_lists scored mx pol L"
  let ?L = "map selected (next_states scored mx pol (map (state_of scored pol) L))"
  have "\<forall>x \<in> set (sort_key (state_key scored) (map (state_of scored pol) ?R)). \<exists>is. x = state_of scored pol is"
    by auto
  then have "next_states scored mx pol (map (state_of scored pol) L) = map (state_of scored pol) ?L"
    unfolding next_states_eq by (auto intro!: map_idI [symmetric] simp: o_def)
  moreover have "mset ?L = mset ?R"
    unfolding next_states_eq mset_map mset_sort by (simp add: multiset.map_comp o_def)
  ultimately show ?thesis by blast
qed

lemma in_round_lists:
  "js \<in> set (round_lists scored mx pol L) \<longleftrightarrow> (\<exists>is i. js = is @ [i] \<and> is \<in> set L
     \<and> (if is = [] then 0 else last is + 1) \<le> i \<and> i < length scored \<and> total_minutes scored (is @ [i]) \<le> mx
     \<and> (\<forall>q \<in> set (picked scored is). low_overlap pol q (opportunity (scored ! i))))"
  unfolding round_lists_def by (auto simp del: total_minutes_simps split del: if_split)

lemma feasible_lengthI:
  assumes pos: "\<forall>s \<in> set scored. 0 \<le> QuestionOpportunity.target_minutes (opportunity s)"
    and L: "\<forall>is \<in> set L. feasible scored mx pol is \<and> length is = k"
    and m: "js \<in> set (round_lists scored mx pol L)"
  shows "feasible scored mx pol js \<and> length js = Suc k"
proof -
  from m obtain "is" i where js: "js = is @ [i]" "is \<in> set L" "(if is = [] then 0 else last is + 1) \<le> i"
      "i < length scored" "total_minutes scored (is @ [i]) \<le> mx"
      "\<forall>q \<in> set (picked scored is). low_overlap pol q (opportunity (scored ! i))"
    unfolding in_round_lists by blast
  moreover have "sorted_wrt (<) is" using L js(2) by (simp add: feasible_def)
  ultimately show ?thesis
    using L sorted_last_less [of "is" i] by (auto simp: feasible_snoc [OF pos])
qed

lemma feasible_lengthD:
  assumes pos: "\<forall>s \<in> set scored. 0 \<le> QuestionOpportunity.target_minutes (opportunity s)"
    and L: "\<forall>is. feasible scored mx pol is \<and> length is = k \<longrightarrow> is \<in> set L"
    and js: "feasible scored mx pol js" "length js = Suc k"
  shows "js \<in> set (round_lists scored mx pol L)"
proof -
  from js(2) obtain "is" i where i: "js = is @ [i]" "length is = k"
    by (cases js rule: rev_cases) auto
  with js(1) have f: "feasible scored mx pol is" "\<forall>j \<in> set is. j < i" "i < length scored"
      "total_minutes scored (is @ [i]) \<le> mx"
      "\<forall>q \<in> set (picked scored is). low_overlap pol q (opportunity (scored ! i))"
    by (auto simp: feasible_snoc [OF pos])
  then have "(if is = [] then 0 else last is + 1) \<le> i"
    using sorted_last_less [of "is" i] by (simp add: feasible_def)
  moreover have "is \<in> set L" using L f(1) i(2) by blast
  ultimately show ?thesis
    using f i(1) unfolding in_round_lists by blast
qed

lemma distinct_round_lists: "distinct L \<Longrightarrow> distinct (round_lists scored mx pol L)"
proof (induction L)
  case (Cons x L)
  then show ?case
    by (auto simp: round_lists_def distinct_map inj_on_def)
qed (simp add: round_lists_def)

section \<open>All rounds\<close>

lemma select_states_sound:
  assumes pos: "\<forall>s \<in> set scored. 0 \<le> QuestionOpportunity.target_minutes (opportunity s)"
    and "\<forall>is \<in> set L. feasible scored mx pol is \<and> length is = k"
    and "select_states beam scored n mx pol (map (state_of scored pol) L) = Some out"
  shows "\<exists>L'. out = map (state_of scored pol) L' \<and> (\<forall>is \<in> set L'. feasible scored mx pol is \<and> length is = k + n)"
  using assms(2,3)
proof (induction n arbitrary: k L)
  case 0
  then show ?case by auto
next
  case (Suc n)
  obtain L' where L': "next_states scored mx pol (map (state_of scored pol) L) = map (state_of scored pol) L'"
      "mset L' = mset (round_lists scored mx pol L)"
    using next_states_of_lists by blast
  have "\<forall>is \<in> set L'. feasible scored mx pol is \<and> length is = Suc k"
    using feasible_lengthI [OF pos Suc.prems(1)] L'(2) by (metis set_mset_mset)
  then have "\<forall>is \<in> set (take beam L'). feasible scored mx pol is \<and> length is = Suc k"
    by (meson in_set_takeD)
  from Suc.IH [OF this] Suc.prems(2) L'(1) show ?case
    by (auto simp: Let_def take_map split: if_splits)
qed

lemma select_states_nonempty:
  assumes "0 < beam" and "sts \<noteq> []" and "select_states beam scored n mx pol sts = Some out"
  shows "out \<noteq> []"
  using assms by (induction beam scored n mx pol sts rule: select_states.induct)
    (auto simp: Let_def split: if_splits)

section \<open>Without truncation the search is exhaustive\<close>

text \<open>A round cannot have more states than there are index sets of its size.\<close>

lemma distinct_lists_bound:
  assumes "distinct L" and "\<forall>is \<in> set L. feasible scored mx pol is \<and> length is = k"
  shows "length L \<le> length scored choose k"
proof -
  let ?K = "{A. A \<subseteq> {..<length scored} \<and> card A = k}"
  have inj: "inj_on set (set L)"
  proof (rule inj_onI)
    fix xs ys assume "xs \<in> set L" "ys \<in> set L" "set xs = set ys"
    with assms(2) show "xs = ys"
      by (metis feasible_def strict_sorted_equal)
  qed
  have "set ` set L \<subseteq> ?K"
    using assms(2) by (auto simp: feasible_def distinct_card strict_sorted_iff)
  then have "card (set ` set L) \<le> card ?K" by (intro card_mono) (simp_all add: finite_subset [of _ "Pow {..<length scored}"])
  also have "card ?K = length scored choose k" using n_subsets [of "{..<length scored}" k] by simp
  finally show ?thesis using card_image [OF inj] distinct_card [OF assms(1)] by simp
qed

lemma select_states_complete:
  assumes pos: "\<forall>s \<in> set scored. 0 \<le> QuestionOpportunity.target_minutes (opportunity s)"
    and wide: "\<forall>j \<le> k + n. length scored choose j \<le> beam"
    and "distinct L" and "\<forall>is. is \<in> set L \<longleftrightarrow> feasible scored mx pol is \<and> length is = k"
  shows "(case select_states beam scored n mx pol (map (state_of scored pol) L) of
      None \<Rightarrow> \<forall>is. \<not> (feasible scored mx pol is \<and> length is = k + n)
    | Some out \<Rightarrow> \<exists>L'. out = map (state_of scored pol) L' \<and> distinct L'
        \<and> (\<forall>is. is \<in> set L' \<longleftrightarrow> feasible scored mx pol is \<and> length is = k + n)
        \<and> (0 < n \<longrightarrow> sorted (map (state_key scored) out)))"
  using assms(2-)
proof (induction n arbitrary: k L)
  case 0
  then show ?case by auto
next
  case (Suc n)
  obtain L' where L': "next_states scored mx pol (map (state_of scored pol) L) = map (state_of scored pol) L'"
      "mset L' = mset (round_lists scored mx pol L)"
    using next_states_of_lists by blast
  have set: "set L' = set (round_lists scored mx pol L)" using L'(2) by (rule mset_eq_setD)
  have dist: "distinct L'"
    using distinct_round_lists [OF Suc.prems(2), of scored mx pol] L'(2) by (metis mset_eq_imp_distinct_iff)
  have iff: "\<forall>is. is \<in> set L' \<longleftrightarrow> feasible scored mx pol is \<and> length is = Suc k"
    unfolding set using feasible_lengthI [OF pos] feasible_lengthD [OF pos] Suc.prems(3) by blast
  then have "length L' \<le> length scored choose Suc k"
    by (intro distinct_lists_bound [OF dist]) auto
  also have "\<dots> \<le> beam" using Suc.prems(1) by simp
  finally have all: "take beam L' = L'" by simp
  have srt: "sorted (map (state_key scored) (map (state_of scored pol) L'))"
    using L'(1) by (simp add: next_states_def flip: L'(1))
  show ?case
  proof (cases "L' = []")
    case True
    have none: "\<not> (feasible scored mx pol is \<and> length is = k + Suc n)" for "is"
    proof
      assume a: "feasible scored mx pol is \<and> length is = k + Suc n"
      have "feasible scored mx pol (take (Suc k) is) \<and> length (take (Suc k) is) = Suc k"
        using a feasible_take [OF pos] by simp
      with iff True show False by (metis empty_iff empty_set)
    qed
    with True L'(1) show ?thesis by (simp add: Let_def)
  next
    case False
    have IH: "(case select_states beam scored n mx pol (map (state_of scored pol) L') of
        None \<Rightarrow> \<forall>is. \<not> (feasible scored mx pol is \<and> length is = Suc k + n)
      | Some out \<Rightarrow> \<exists>L''. out = map (state_of scored pol) L'' \<and> distinct L''
        \<and> (\<forall>is. is \<in> set L'' \<longleftrightarrow> feasible scored mx pol is \<and> length is = Suc k + n)
        \<and> (0 < n \<longrightarrow> sorted (map (state_key scored) out)))"
      using Suc.IH [OF _ dist iff] Suc.prems(1) by simp
    have eq: "select_states beam scored (Suc n) mx pol (map (state_of scored pol) L)
        = select_states beam scored n mx pol (map (state_of scored pol) L')"
      using False L'(1) all by (simp add: Let_def take_map)
    show ?thesis
    proof (cases n)
      case 0
      then show ?thesis unfolding eq using srt dist iff by auto
    next
      case (Suc m)
      then show ?thesis unfolding eq using IH by (auto split: option.splits)
    qed
  qed
qed

lemma select_states_all:
  assumes pos: "\<forall>s \<in> set scored. 0 \<le> QuestionOpportunity.target_minutes (opportunity s)"
    and wide: "\<forall>j \<le> n. length scored choose j \<le> beam"
  shows "(case select_states beam scored n mx pol [start_state] of
      None \<Rightarrow> \<forall>is. \<not> (feasible scored mx pol is \<and> length is = n)
    | Some out \<Rightarrow> \<exists>L'. out = map (state_of scored pol) L' \<and> distinct L'
        \<and> (\<forall>is. is \<in> set L' \<longleftrightarrow> feasible scored mx pol is \<and> length is = n)
        \<and> (0 < n \<longrightarrow> sorted (map (state_key scored) out)))"
proof -
  have base: "\<forall>is. is \<in> set [[]] \<longleftrightarrow> feasible scored mx pol is \<and> length is = 0" by auto
  show ?thesis
    using select_states_complete [OF pos _ _ base, of n beam, unfolded add_0_left] wide by simp
qed

end
