(* ===== verification/PlanningPlan.thy ===== *)
theory PlanningPlan
  imports PlanningSearch
begin

text \<open>
  What \<open>build_assessment_plan\<close> returns.  The hypotheses of the results are that the mapping, the
  blueprint and the policy are values their classes can construct; the section on contracts turns
  that into the facts the proofs use.
\<close>

section \<open>What the contracts give\<close>

lemma map_contract:
  assumes "EvidenceMapPatch_validate mp = None"
  shows "Id_ok (EvidenceMapPatch.submission_id mp)"
    and "distinct (map QuestionOpportunity.opportunity_id (EvidenceMapPatch.opportunities mp))"
    and "q \<in> set (EvidenceMapPatch.opportunities mp) \<Longrightarrow> QuestionOpportunity_validate q = None"
    and "d \<in> set (EvidenceMapPatch.diagnostics mp) \<Longrightarrow> Diagnostic_validate d = None"
    and "EvidenceMapPatch.status mp \<in> {''READY'', ''INSUFFICIENT_RELEVANT_EVIDENCE'',
       ''INSUFFICIENT_DISTINCT_QUESTION_OPPORTUNITIES'', ''EVIDENCE_MAPPING_UNCERTAIN'', ''TECHNICAL_FAILURE''}"
  using assms by (auto simp: EvidenceMapPatch_validate_def checks list_all_iff valid_def)

lemma opportunity_contract:
  assumes "QuestionOpportunity_validate q = None"
  shows "Id_ok (QuestionOpportunity.opportunity_id q)"
    and "1 \<le> QuestionOpportunity.target_minutes q"
    and "list_all Id_ok (QuestionOpportunity.evidence_ids q)"
    and "QuestionOpportunity.evidence_ids q \<noteq> []"
  using assms by (auto simp: QuestionOpportunity_validate_def checks)

lemma diagnostic_contract: "Diagnostic_validate d = None \<Longrightarrow> list_all Id_ok (Diagnostic.evidence_ids d)"
  by (simp add: Diagnostic_validate_def checks)

lemma blueprint_contract:
  assumes "AssessmentBlueprint_validate bp = None"
  shows "Id_ok (AssessmentBlueprint.blueprint_id bp)" and "1 \<le> AssessmentBlueprint.blueprint_version bp"
    and "AssessmentConstraints_validate (AssessmentBlueprint.assessment_constraints bp) = None"
  using assms by (auto simp: AssessmentBlueprint_validate_def checks valid_def)

lemma constraints_contract:
  assumes "AssessmentConstraints_validate c = None"
  shows "1 \<le> AssessmentConstraints.question_count c" "AssessmentConstraints.question_count c \<le> 20"
    and "AssessmentConstraints.target_total_minutes c \<le> 120"
  using assms by (auto simp: AssessmentConstraints_validate_def checks)

lemma policy_contract:
  assumes "AssessmentPlanningPolicy_validate pol = None"
  shows "0 \<le> AssessmentPlanningPolicy.max_reserve_opportunities pol"
    and "AssessmentPlanningPolicy.max_reserve_opportunities pol \<le> 10"
  using assms by (auto simp: AssessmentPlanningPolicy_validate_def checks)

section \<open>Candidates\<close>

lemma set_valid_candidates:
  "opportunity ` set (valid_candidates mp bp pol) = {q \<in> set (EvidenceMapPatch.opportunities mp). is_candidate bp pol q}"
  by (force simp: valid_candidates_def)

lemma length_valid_candidates:
  "length (valid_candidates mp bp pol) = length (filter (is_candidate bp pol) (EvidenceMapPatch.opportunities mp))"
  by (simp add: valid_candidates_def)

lemma distinct_candidate_ids:
  assumes "distinct (map QuestionOpportunity.opportunity_id (EvidenceMapPatch.opportunities mp))"
  shows "distinct (map (QuestionOpportunity.opportunity_id \<circ> opportunity) (valid_candidates mp bp pol))"
proof -
  let ?C = "map (\<lambda>q. \<lparr>opportunity = q, base_score = base_score_of q pol\<rparr>)
          (filter (is_candidate bp pol) (EvidenceMapPatch.opportunities mp))"
  have "mset (map (QuestionOpportunity.opportunity_id \<circ> opportunity) (valid_candidates mp bp pol))
      = mset (map (QuestionOpportunity.opportunity_id \<circ> opportunity) ?C)"
    by (simp add: valid_candidates_def multiset.map_comp o_def)
  moreover have "distinct (map (QuestionOpportunity.opportunity_id \<circ> opportunity) ?C)"
    using assms by (simp add: o_def distinct_map_filter)
  ultimately show ?thesis using mset_eq_imp_distinct_iff by blast
qed

lemma candidate_minutes:
  assumes "EvidenceMapPatch_validate mp = None"
  shows "\<forall>s \<in> set (valid_candidates mp bp pol). 1 \<le> QuestionOpportunity.target_minutes (opportunity s)"
proof
  fix s assume "s \<in> set (valid_candidates mp bp pol)"
  then have "opportunity s \<in> set (EvidenceMapPatch.opportunities mp)"
    using set_valid_candidates [of mp bp pol] by blast
  then show "1 \<le> QuestionOpportunity.target_minutes (opportunity s)"
    using map_contract(3) [OF assms] opportunity_contract(2) by blast
qed

lemma candidate_minutes_nonneg:
  assumes "EvidenceMapPatch_validate mp = None"
  shows "\<forall>s \<in> set (valid_candidates mp bp pol). 0 \<le> QuestionOpportunity.target_minutes (opportunity s)"
  using candidate_minutes [OF assms, of bp pol] by force

text \<open>The candidate list does not depend on the order in which the mapping lists its
  opportunities.\<close>

lemma valid_candidates_perm:
  assumes "mset (EvidenceMapPatch.opportunities mp) = mset (EvidenceMapPatch.opportunities mp')"
    and "distinct (map QuestionOpportunity.opportunity_id (EvidenceMapPatch.opportunities mp))"
  shows "valid_candidates mp bp pol = valid_candidates mp' bp pol"
proof -
  let ?key = "\<lambda>s. (- base_score s, QuestionOpportunity.opportunity_id (opportunity s))"
  let ?C = "\<lambda>m. map (\<lambda>q. \<lparr>opportunity = q, base_score = base_score_of q pol\<rparr>)
          (filter (is_candidate bp pol) (EvidenceMapPatch.opportunities m))"
  have m: "mset (?C mp) = mset (?C mp')" using assms(1) by simp
  have "inj_on ?key (set (?C mp))"
    using assms(2) by (auto simp: inj_on_def distinct_map)
  then show ?thesis
    unfolding valid_candidates_def using m
    by (intro sort_key_inj_key_eq) (simp_all add: mset_sort)
qed

section \<open>The selection\<close>

lemma select_exact_sound:
  assumes pos: "\<forall>s \<in> set scored. 0 \<le> QuestionOpportunity.target_minutes (opportunity s)"
    and sel: "select_exact beam scored n mx pol jm = Some st"
  shows "\<exists>is. st = state_of scored pol is \<and> feasible scored mx pol is \<and> length is = n
     \<and> (jm = StructuredJustificationMode.SELECTED \<longrightarrow> replaceable scored pol st)"
proof -
  from sel obtain out where out: "select_states beam scored n mx pol (map (state_of scored pol) [[]]) = Some out"
      "st \<in> set out" "jm = StructuredJustificationMode.SELECTED \<longrightarrow> replaceable scored pol st"
    by (auto simp: select_exact_def find_Some_iff split: option.splits list.splits if_splits
        dest: nth_mem)
  have "\<forall>is \<in> set [[]]. feasible scored mx pol is \<and> length is = 0" by simp
  from select_states_sound [OF pos this out(1)] out(2,3) show ?thesis by auto
qed

lemma select_exact_complete:
  assumes pos: "\<forall>s \<in> set scored. 0 \<le> QuestionOpportunity.target_minutes (opportunity s)"
    and wide: "\<forall>j \<le> n. length scored choose j \<le> beam" and beam: "0 < beam"
    and none: "select_exact beam scored n mx pol jm = None"
    and f: "feasible scored mx pol is" "length is = n"
  shows "jm = StructuredJustificationMode.SELECTED \<and> \<not> replaceable scored pol (state_of scored pol is)"
proof -
  note c = select_states_all [OF pos wide, of mx pol]
  have "select_states beam scored n mx pol [start_state] \<noteq> None"
    using c f by (auto split: option.splits)
  then obtain L' where L': "select_states beam scored n mx pol [start_state] = Some (map (state_of scored pol) L')"
      "\<forall>is. is \<in> set L' \<longleftrightarrow> feasible scored mx pol is \<and> length is = n"
    using c wide by (auto simp: split: option.splits)
  have "state_of scored pol is \<in> set (map (state_of scored pol) L')" using L'(2) f by simp
  with none L'(1) show ?thesis
    by (auto simp: select_exact_def find_None_iff split: list.splits if_splits)
qed

lemma select_exact_best:
  assumes pos: "\<forall>s \<in> set scored. 0 \<le> QuestionOpportunity.target_minutes (opportunity s)"
    and wide: "\<forall>j \<le> n. length scored choose j \<le> beam" and n: "0 < n"
    and jm: "jm \<noteq> StructuredJustificationMode.SELECTED"
    and sel: "select_exact beam scored n mx pol jm = Some st"
    and f: "feasible scored mx pol is" "length is = n"
  shows "path_score scored pol is \<le> score st"
proof -
  note c = select_states_all [OF pos wide, of mx pol]
  from sel jm obtain sts where sts: "select_states beam scored n mx pol [start_state] = Some (st # sts)"
    by (auto simp: select_exact_def split: option.splits list.splits)
  with c [unfolded sts option.case] n obtain L' where L': "st # sts = map (state_of scored pol) L'"
      "\<forall>is. is \<in> set L' \<longleftrightarrow> feasible scored mx pol is \<and> length is = n"
      "sorted (map (state_key scored) (st # sts))"
    by (elim exE conjE) (rule that, assumption, assumption, erule mp, assumption)
  have "state_of scored pol is \<in> set (st # sts)" using L'(1,2) f by simp
  with L'(3) have "state_key scored st \<le> state_key scored (state_of scored pol is)" by auto
  then show ?thesis by (auto simp: state_key_def less_eq_prod_def)
qed

section \<open>The reserve\<close>

lemma set_add_compatible:
  "set (add_compatible cands flag res) \<subseteq> set res \<union> set cands"
  by (auto simp: add_compatible_def find_Some_iff split: option.splits)

lemma distinct_add_compatible: "distinct res \<Longrightarrow> distinct (add_compatible cands flag res)"
  by (auto simp: add_compatible_def find_Some_iff split: option.splits)

lemma add_compatible_keeps: "set res \<subseteq> set (add_compatible cands flag res)"
  by (auto simp: add_compatible_def split: option.splits)

lemma length_add_compatible: "length (add_compatible cands flag res) \<le> Suc (length res)"
  by (simp add: add_compatible_def split: option.splits)

lemma add_compatible_covers:
  assumes "q \<in> set cands" and "QuestionOpportunity.student_justification_required q = flag"
  shows "\<exists>r \<in> set (add_compatible cands flag res). QuestionOpportunity.student_justification_required r = flag"
proof (cases "find (\<lambda>q. QuestionOpportunity.student_justification_required q = flag \<and> q \<notin> set res) cands")
  case None
  then have "add_compatible cands flag res = res" by (simp add: add_compatible_def)
  moreover have "q \<in> set res" using None assms by (auto simp: find_None_iff)
  ultimately show ?thesis using assms(2) by auto
next
  case (Some r)
  then have "QuestionOpportunity.student_justification_required r = flag" by (auto simp: find_Some_iff)
  with Some show ?thesis by (simp add: add_compatible_def)
qed

lemma append_new_prefix: "\<exists>t. foldl append_new res cands = res @ t"
proof (induction cands arbitrary: res)
  case (Cons q cands)
  obtain t where "foldl append_new (append_new res q) cands = append_new res q @ t" using Cons.IH by blast
  moreover have "append_new res q = res \<or> append_new res q = res @ [q]" by (simp add: append_new_def)
  ultimately show ?case by auto
qed simp

lemma set_append_new: "set (foldl append_new res cands) = set res \<union> set cands"
  by (induction cands arbitrary: res) (auto simp: append_new_def)

lemma distinct_append_new: "distinct res \<Longrightarrow> distinct (foldl append_new res cands)"
  by (induction cands arbitrary: res) (auto simp: append_new_def)

definition compatible_part ::
  "QuestionOpportunity list \<Rightarrow> QuestionOpportunity list \<Rightarrow> QuestionOpportunity list" where
  "compatible_part primary cands = foldl (\<lambda>res flag. add_compatible cands flag res) [] (primary_classes primary)"

lemma primary_classes_cases:
  "primary_classes primary \<in> {[], [True], [False], [True, False]}"
  by (simp add: primary_classes_def)

lemma compatible_part_facts:
  "set (compatible_part primary cands) \<subseteq> set cands" "distinct (compatible_part primary cands)"
  "length (compatible_part primary cands) \<le> 2"
proof -
  have s1: "set (add_compatible cands f []) \<subseteq> set cands" for f
    using set_add_compatible [of cands f "[]"] by simp
  have s2: "set (add_compatible cands g (add_compatible cands f [])) \<subseteq> set cands" for f g
    using s1 [of f] set_add_compatible [of cands g "add_compatible cands f []"] by blast
  have len: "length (add_compatible cands f []) \<le> 1" for f
    using length_add_compatible [of cands f "[]"] by simp
  have len2: "length (add_compatible cands g (add_compatible cands f [])) \<le> 2" for f g
    using length_add_compatible [of cands g "add_compatible cands f []"] len [of f] by simp
  note pc = primary_classes_cases [of primary]
  show "set (compatible_part primary cands) \<subseteq> set cands"
    using pc s1 s2 by (elim insertE) (simp_all add: compatible_part_def)
  show "distinct (compatible_part primary cands)"
    using pc by (auto simp: compatible_part_def distinct_add_compatible)
  show "length (compatible_part primary cands) \<le> 2"
    using pc len2 order_trans [OF len, of 2] by (elim insertE) (simp_all add: compatible_part_def)
qed

lemma compatible_part_covers:
  assumes "p \<in> set primary" and "q \<in> set cands"
    and "QuestionOpportunity.student_justification_required q = QuestionOpportunity.student_justification_required p"
  shows "\<exists>r \<in> set (compatible_part primary cands).
     QuestionOpportunity.student_justification_required r = QuestionOpportunity.student_justification_required p"
proof -
  let ?f = "QuestionOpportunity.student_justification_required p"
  have "?f \<in> set (primary_classes primary)" using assms(1) by (auto simp: primary_classes_def)
  then have "primary_classes primary \<in> {[?f], [True, False]}"
    using primary_classes_cases [of primary] by auto
  moreover have "\<exists>r \<in> set (add_compatible cands ?f res). QuestionOpportunity.student_justification_required r = ?f" for res
    using assms(2,3) by (rule add_compatible_covers)
  ultimately show ?thesis
    using add_compatible_keeps by (cases ?f) (fastforce simp: compatible_part_def)+
qed

lemma build_reserve_eq:
  "AssessmentPlanningPolicy.max_reserve_opportunities pol \<noteq> 0 \<Longrightarrow>
   build_reserve primary pol cands = take (nat (AssessmentPlanningPolicy.max_reserve_opportunities pol))
     (foldl append_new (compatible_part primary cands) cands)"
  by (simp add: build_reserve_def compatible_part_def)

lemma build_reserve_facts:
  assumes "0 \<le> AssessmentPlanningPolicy.max_reserve_opportunities pol"
  shows "set (build_reserve primary pol cands) \<subseteq> set cands" "distinct (build_reserve primary pol cands)"
    "int (length (build_reserve primary pol cands)) \<le> AssessmentPlanningPolicy.max_reserve_opportunities pol"
proof -
  let ?all = "foldl append_new (compatible_part primary cands) cands"
  have "set ?all \<subseteq> set cands" using compatible_part_facts(1) by (auto simp: set_append_new)
  moreover have "distinct ?all" using compatible_part_facts(2) by (rule distinct_append_new)
  moreover have "build_reserve primary pol cands = []
      \<or> build_reserve primary pol cands = take (nat (AssessmentPlanningPolicy.max_reserve_opportunities pol)) ?all"
    by (simp add: build_reserve_def compatible_part_def)
  ultimately show "set (build_reserve primary pol cands) \<subseteq> set cands"
    "distinct (build_reserve primary pol cands)"
    "int (length (build_reserve primary pol cands)) \<le> AssessmentPlanningPolicy.max_reserve_opportunities pol"
    using assms set_take_subset [of _ ?all] by (fastforce simp del: set_append_new)+
qed

text \<open>With room for two, the reserve holds a replacement for every justification class that the
  candidates outside the primary set can replace.\<close>

lemma build_reserve_covers:
  assumes "2 \<le> AssessmentPlanningPolicy.max_reserve_opportunities pol"
    and "p \<in> set primary" and "q \<in> set cands"
    and "QuestionOpportunity.student_justification_required q = QuestionOpportunity.student_justification_required p"
  shows "\<exists>r \<in> set (build_reserve primary pol cands).
     QuestionOpportunity.student_justification_required r = QuestionOpportunity.student_justification_required p"
proof -
  let ?m = "nat (AssessmentPlanningPolicy.max_reserve_opportunities pol)"
  obtain t where t: "foldl append_new (compatible_part primary cands) cands = compatible_part primary cands @ t"
    using append_new_prefix by blast
  have "length (compatible_part primary cands) \<le> ?m"
    using compatible_part_facts(3) [of primary cands] assms(1) by linarith
  then have "set (compatible_part primary cands) \<subseteq> set (build_reserve primary pol cands)"
    using assms(1) t by (simp add: build_reserve_eq)
  then show ?thesis using compatible_part_covers [OF assms(2-4)] by blast
qed

end
