(* ===== verification/PlanningResult.thy ===== *)
theory PlanningResult
  imports PlanningPlan
begin

text \<open>
  The result of \<open>build_assessment_plan\<close>: it never raises on values its classes can construct, a
  READY plan meets every restriction of the blueprint and of the policy, an infeasible one says
  that no selection does, and the order in which the mapping lists opportunities is irrelevant.
\<close>

section \<open>Failed plans\<close>

definition failure_statuses :: "string set" where
  "failure_statuses = {''INSUFFICIENT_RELEVANT_EVIDENCE'', ''INSUFFICIENT_DISTINCT_QUESTION_OPPORTUNITIES'',
     ''EVIDENCE_MAPPING_UNCERTAIN'', ''ASSESSMENT_PLAN_INFEASIBLE''}"

lemma plan_prefix: "good_prefix ''plan''"
  by code_simp

lemma stable_plan_id: "\<exists>pid. stable_id_or_raise ''plan'' parts = Inr pid \<and> Id_ok pid"
  using ids.mk_good [OF plan_prefix, of parts] by (auto simp: stable_id_or_raise_def)

lemma failure_message_known:
  "st \<in> failure_statuses \<Longrightarrow> \<exists>msg. failure_message st = Some msg \<and> str_field 3 1000 msg"
proof -
  assume "st \<in> failure_statuses"
  then have "failure_message st \<noteq> None \<and> str_field 3 1000 (the (failure_message st))"
    unfolding failure_statuses_def by (elim insertE emptyE; hypsubst) code_simp+
  then show ?thesis by auto
qed

lemma failure_code: "st \<in> failure_statuses \<Longrightarrow> upper_code 63 st"
  unfolding failure_statuses_def by (elim insertE emptyE; hypsubst) code_simp+

lemma diagnostic_total:
  assumes "upper_code 63 cd" "str_field 3 1000 msg" "length eids \<le> 100" "list_all Id_ok eids"
    and "\<forall>(k, v) \<in> set dets. lower k \<notin> set SENSITIVE_DETAIL_KEYS \<and> \<not> long_string v" and "dict_keys dets"
  shows "\<exists>d. diagnostic cd msg sev eids [] retry dets = Inr d"
  using assms by (auto simp: diagnostic_def safe_details_Inr Diagnostic_validate_def checks)

definition safe_dets :: "(string \<times> json) list \<Rightarrow> bool" where
  "safe_dets dets \<longleftrightarrow> dict_keys dets
     \<and> list_all (\<lambda>(k, v). lower k \<notin> set SENSITIVE_DETAIL_KEYS \<and> \<not> long_string v) dets"

lemma complete_failure_total:
  assumes st: "st \<in> failure_statuses" and sub: "Id_ok sub" and bp: "AssessmentBlueprint_validate bp = None"
    and qn: "1 \<le> qn" "qn \<le> 20" and eids: "list_all Id_ok eids" and dets: "safe_dets dets"
  shows "\<exists>plan. complete_failure st sub bp qn eids dets = Inr plan"
proof -
  obtain msg where msg: "failure_message st = Some msg" "str_field 3 1000 msg"
    using failure_message_known [OF st] by blast
  obtain pid where pid: "stable_id_or_raise ''plan'' [JStr sub, JStr (AssessmentBlueprint.blueprint_id bp),
      JInt (AssessmentBlueprint.blueprint_version bp), JStr st, JInt qn] = Inr pid" "Id_ok pid"
    using stable_plan_id by blast
  have "list_all Id_ok (take 100 eids)" using eids by (auto simp: list_all_iff dest: in_set_takeD)
  then obtain d where d: "diagnostic st msg Severity.ERROR (take 100 eids) [] False dets = Inr d"
    using diagnostic_total [OF failure_code [OF st] msg(2), of "take 100 eids" dets Severity.ERROR False] dets
    by (auto simp: safe_dets_def list_all_iff)
  have "st \<noteq> ''READY'' \<and> st \<in> {''READY'', ''INSUFFICIENT_RELEVANT_EVIDENCE'',
      ''INSUFFICIENT_DISTINCT_QUESTION_OPPORTUNITIES'', ''EVIDENCE_MAPPING_UNCERTAIN'', ''ASSESSMENT_PLAN_INFEASIBLE''}"
    using st by (auto simp: failure_statuses_def)
  then show ?thesis
    using msg pid d qn sub blueprint_contract(1,2) [OF bp] diagnostic_Inr [OF d]
    by (auto simp: complete_failure_def AssessmentPlan_validate_def checks valid_def)
qed

lemma complete_failure_shape:
  "complete_failure st sub bp qn eids dets = Inr plan \<Longrightarrow>
     AssessmentPlan_validate plan = None \<and> AssessmentPlan.status plan = st
     \<and> AssessmentPlan.submission_id plan = sub \<and> AssessmentPlan.question_count plan = qn
     \<and> AssessmentPlan.blueprint_id plan = AssessmentBlueprint.blueprint_id bp
     \<and> AssessmentPlan.blueprint_version plan = AssessmentBlueprint.blueprint_version bp
     \<and> AssessmentPlan.selected_opportunity_ids plan = [] \<and> AssessmentPlan.reserve_opportunity_ids plan = []
     \<and> AssessmentPlan.estimated_total_minutes plan = 0
     \<and> (\<exists>d. AssessmentPlan.diagnostics plan = [d] \<and> Diagnostic.code d = st \<and> Diagnostic.severity d = Severity.ERROR
          \<and> Diagnostic.details d = dets)"
  by (auto simp: complete_failure_def dest!: diagnostic_Inr split: option.splits)

section \<open>Ready plans\<close>

lemma set_picked: "set (picked scored is) = (\<lambda>i. opportunity (scored ! i)) ` set is"
  by (simp add: picked_def)

lemma set_outside [simp]: "set (outside scored is) = {..<length scored} - set is"
  by (auto simp: outside_def)

lemma distinct_picked_ids:
  assumes "distinct (map (QuestionOpportunity.opportunity_id \<circ> opportunity) scored)"
    and "distinct is" and "\<forall>i \<in> set is. i < length scored"
  shows "distinct (map QuestionOpportunity.opportunity_id (picked scored is))"
  using assms by (auto simp: picked_def o_def distinct_map inj_on_def distinct_conv_nth)

text \<open>What the code computes from the chosen state.\<close>

definition primary_of :: "ScoredOpportunity list \<Rightarrow> PlanState \<Rightarrow> QuestionOpportunity list" where
  "primary_of scored st = picked scored (selected st)"

definition reserve_of ::
  "AssessmentPlanningPolicy \<Rightarrow> ScoredOpportunity list \<Rightarrow> PlanState \<Rightarrow> QuestionOpportunity list" where
  "reserve_of pol scored st = build_reserve (primary_of scored st) pol
     (reserve_order (primary_of scored st) pol (picked scored (outside scored (selected st))))"

lemma ready_plan_shape:
  "ready_plan mp bp pol qn scored st = Inr plan \<Longrightarrow>
     AssessmentPlan_validate plan = None \<and> AssessmentPlan.status plan = ''READY''
     \<and> AssessmentPlan.submission_id plan = EvidenceMapPatch.submission_id mp
     \<and> AssessmentPlan.question_count plan = qn
     \<and> AssessmentPlan.blueprint_id plan = AssessmentBlueprint.blueprint_id bp
     \<and> AssessmentPlan.blueprint_version plan = AssessmentBlueprint.blueprint_version bp
     \<and> AssessmentPlan.selected_opportunity_ids plan = map QuestionOpportunity.opportunity_id (primary_of scored st)
     \<and> AssessmentPlan.reserve_opportunity_ids plan = map QuestionOpportunity.opportunity_id (reserve_of pol scored st)
     \<and> AssessmentPlan.estimated_total_minutes plan
        = sum_list (map QuestionOpportunity.target_minutes (primary_of scored st))"
  by (auto simp: ready_plan_def Let_def primary_of_def reserve_of_def)

lemma reserve_of_facts:
  assumes "0 \<le> AssessmentPlanningPolicy.max_reserve_opportunities pol"
  shows "set (reserve_of pol scored st) \<subseteq> set (picked scored (outside scored (selected st)))"
    "distinct (reserve_of pol scored st)"
    "int (length (reserve_of pol scored st)) \<le> AssessmentPlanningPolicy.max_reserve_opportunities pol"
  using build_reserve_facts [OF assms, of "primary_of scored st"
      "reserve_order (primary_of scored st) pol (picked scored (outside scored (selected st)))"]
  by (simp_all add: reserve_of_def reserve_order_def)

lemma plan_ids_distinct:
  assumes ids: "distinct (map (QuestionOpportunity.opportunity_id \<circ> opportunity) scored)"
    and f: "feasible scored mx pol (selected st)"
    and mr: "0 \<le> AssessmentPlanningPolicy.max_reserve_opportunities pol"
  shows "distinct (map QuestionOpportunity.opportunity_id (primary_of scored st @ reserve_of pol scored st))"
proof -
  let ?id = "QuestionOpportunity.opportunity_id"
  let ?all = "selected st @ outside scored (selected st)"
  have "distinct (selected st)" "\<forall>i \<in> set (selected st). i < length scored"
    using f by (auto simp: feasible_def strict_sorted_iff)
  then have "distinct ?all" "\<forall>i \<in> set ?all. i < length scored"
    by (auto simp: outside_def)
  from distinct_picked_ids [OF ids this]
  have all: "distinct (map ?id (primary_of scored st @ picked scored (outside scored (selected st))))"
    by (simp add: primary_of_def)
  have "inj_on ?id (set (reserve_of pol scored st))"
    using all reserve_of_facts(1) [OF mr, of scored st] by (auto simp: distinct_map intro: inj_on_subset)
  then have "distinct (map ?id (reserve_of pol scored st))"
    using reserve_of_facts(2) [OF mr] by (simp add: distinct_map)
  moreover have "?id ` set (primary_of scored st) \<inter> ?id ` set (reserve_of pol scored st) = {}"
    using all reserve_of_facts(1) [OF mr, of scored st] by (auto simp: image_iff)
  ultimately show ?thesis using all by simp
qed

section \<open>The planner\<close>

text \<open>The three inputs are values their classes can construct.\<close>

definition planner_inputs ::
  "EvidenceMapPatch \<Rightarrow> AssessmentBlueprint \<Rightarrow> AssessmentPlanningPolicy \<Rightarrow> bool" where
  "planner_inputs mp bp pol \<longleftrightarrow> EvidenceMapPatch_validate mp = None
     \<and> AssessmentBlueprint_validate bp = None \<and> AssessmentPlanningPolicy_validate pol = None"

definition question_count_of :: "AssessmentBlueprint \<Rightarrow> nat" where
  "question_count_of bp = nat (AssessmentConstraints.question_count (AssessmentBlueprint.assessment_constraints bp))"

definition minutes_limit :: "AssessmentBlueprint \<Rightarrow> int" where
  "minutes_limit bp = AssessmentConstraints.target_total_minutes (AssessmentBlueprint.assessment_constraints bp)"

definition justification_mode :: "AssessmentBlueprint \<Rightarrow> StructuredJustificationMode" where
  "justification_mode bp = StructuredJustificationPolicy.mode
     (AssessmentConstraints.structured_justification_policy (AssessmentBlueprint.assessment_constraints bp))"

definition planner_search ::
  "EvidenceMapPatch \<Rightarrow> AssessmentBlueprint \<Rightarrow> AssessmentPlanningPolicy \<Rightarrow> PlanState option" where
  "planner_search mp bp pol = select_exact beam_width (valid_candidates mp bp pol) (question_count_of bp)
     (minutes_limit bp) pol (justification_mode bp)"

lemma planner_inputsD:
  assumes "planner_inputs mp bp pol"
  shows "EvidenceMapPatch_validate mp = None" "AssessmentBlueprint_validate bp = None"
    "0 \<le> AssessmentPlanningPolicy.max_reserve_opportunities pol"
    "AssessmentPlanningPolicy.max_reserve_opportunities pol \<le> 10"
    "1 \<le> question_count_of bp" "question_count_of bp \<le> 20"
    "AssessmentConstraints.question_count (AssessmentBlueprint.assessment_constraints bp) = int (question_count_of bp)"
    "minutes_limit bp \<le> 120"
  using assms policy_contract [of pol] constraints_contract [OF blueprint_contract(3) [of bp]]
  by (auto simp: planner_inputs_def question_count_of_def minutes_limit_def)

lemma planner_minutes_nonneg:
  "planner_inputs mp bp pol \<Longrightarrow>
    \<forall>s \<in> set (valid_candidates mp bp pol). 0 \<le> QuestionOpportunity.target_minutes (opportunity s)"
  by (rule candidate_minutes_nonneg) (rule planner_inputsD(1))

lemma planner_search_sound:
  assumes inp: "planner_inputs mp bp pol" and sel: "planner_search mp bp pol = Some st"
  shows "feasible (valid_candidates mp bp pol) (minutes_limit bp) pol (selected st)"
    "length (selected st) = question_count_of bp"
    "justification_mode bp = StructuredJustificationMode.SELECTED \<Longrightarrow>
       replaceable (valid_candidates mp bp pol) pol st"
    "score st = path_score (valid_candidates mp bp pol) pol (selected st)"
  using select_exact_sound [OF planner_minutes_nonneg [OF inp] sel [unfolded planner_search_def]] by auto

text \<open>The branches of \<open>build_assessment_plan\<close> that return a plan.\<close>

lemma build_plan_cases:
  assumes "build_assessment_plan mp bp pol = Inr plan"
  obtains (mapping) "EvidenceMapPatch.status mp \<noteq> ''READY''"
      "failure_from_mapping mp bp (AssessmentConstraints.question_count (AssessmentBlueprint.assessment_constraints bp)) = Inr plan"
    | (failed) st eids dets where "EvidenceMapPatch.status mp = ''READY''" "st \<in> failure_statuses"
      "complete_failure st (EvidenceMapPatch.submission_id mp) bp
         (AssessmentConstraints.question_count (AssessmentBlueprint.assessment_constraints bp)) eids dets = Inr plan"
      "st = ''ASSESSMENT_PLAN_INFEASIBLE'' \<longleftrightarrow> AssessmentConstraints.question_count
          (AssessmentBlueprint.assessment_constraints bp) \<le> int (length (valid_candidates mp bp pol))
          \<and> valid_candidates mp bp pol \<noteq> [] \<and> planner_search mp bp pol = None"
    | (ready) st where "EvidenceMapPatch.status mp = ''READY''" "planner_search mp bp pol = Some st"
      "ready_plan mp bp pol (AssessmentConstraints.question_count (AssessmentBlueprint.assessment_constraints bp))
         (valid_candidates mp bp pol) st = Inr plan"
  using assms
  by (auto simp: build_assessment_plan_def Let_def planner_search_def question_count_of_def minutes_limit_def
      justification_mode_def failure_statuses_def split: if_splits option.splits)

lemma failure_from_mapping_shape:
  assumes "failure_from_mapping mp bp qn = Inr plan"
  shows "AssessmentPlan.status plan = EvidenceMapPatch.status mp" "AssessmentPlan.status plan \<noteq> ''READY''"
    "AssessmentPlan_validate plan = None"
  using assms by (auto simp: failure_from_mapping_def dest!: complete_failure_shape)

lemma ready_planE:
  assumes "build_assessment_plan mp bp pol = Inr plan" and "AssessmentPlan.status plan = ''READY''"
  obtains st where "planner_search mp bp pol = Some st"
      "ready_plan mp bp pol (AssessmentConstraints.question_count (AssessmentBlueprint.assessment_constraints bp))
         (valid_candidates mp bp pol) st = Inr plan"
  using assms(1)
proof (cases rule: build_plan_cases)
  case mapping
  then show ?thesis using failure_from_mapping_shape(2) assms(2) by blast
next
  case (failed st eids dets)
  then show ?thesis using complete_failure_shape [OF failed(3)] assms(2) by (auto simp: failure_statuses_def)
qed (use that in blast)

end
