(* ===== verification/PlanningExample.thy ===== *)
theory PlanningExample
  imports PlanningResult
begin

text \<open>
  One concrete activity, shared by the witnesses: a blueprint with one dimension and two question
  templates, a policy, and a mapping with four opportunities on four evidence units.
\<close>

definition ex_template :: "string \<Rightarrow> bool \<Rightarrow> QuestionOpportunityTemplate" where
  "ex_template t j = \<lparr>QuestionOpportunityTemplate.opportunity_template_id = t,
     cognitive_operation = CognitiveOperation.JUSTIFY_DECISION, focus = ''focus'', observable = ''observable'',
     difficulty = DifficultyBand.MEDIUM, target_minutes = 5,
     allowed_anchor_structures = [AnchorStructure.SINGLE_FRAGMENT],
     allowed_response_formats = [ResponseFormat.OPEN_SHORT],
     verification_potential = 1/2, minimum_quality = 1/2, student_justification_required = j\<rparr>"

definition ex_variant :: EvidenceVariant where
  "ex_variant = \<lparr>EvidenceVariant.variant_id = ''var_a'', name = ''variant'', description = ''one variant'',
     evidence_requirement = \<lparr>EvidenceRequirement.allowed_modalities = [EvidenceModality.PARAGRAPH],
        min_distinct_units = 1, min_extraction_confidence = 1/2, min_alignment = 1/2,
        cross_artifact_required = False, course_sources_allowed = False\<rparr>,
     verification_potential = 1/2,
     supported_operations = [\<lparr>SupportedOperation.cognitive_operation = CognitiveOperation.JUSTIFY_DECISION,
        support_strength = 1/2, rationale = ''supported''\<rparr>],
     question_opportunities = [ex_template ''tpl_one'' True, ex_template ''tpl_two'' False]\<rparr>"

definition ex_dimension :: BlueprintDimension where
  "ex_dimension = \<lparr>BlueprintDimension.dimension_id = ''dim_a'', name = ''dimension'',
     criterion_ids = [''crit_a''], learning_outcome_ids = [], grading_weight = None,
     verification_priority = 1/2,
     factors = \<lparr>VerificationFactors.learning_relevance = 1/2, centrality = 1/2, expected_evidence = 1/2,
       discriminative_potential = 1/2, auditability = 1/2, short_response_observability = 1/2\<rparr>,
     justification = ''because'', evidence_variants = [ex_variant]\<rparr>"

definition ex_constraints :: "StructuredJustificationMode \<Rightarrow> AssessmentConstraints" where
  "ex_constraints jm = \<lparr>AssessmentConstraints.question_count = 2, target_total_minutes = 10,
     allowed_response_formats = [ResponseFormat.OPEN_SHORT], minimum_opportunity_quality = 1/2,
     max_reserve_opportunities = 2,
     structured_justification_policy = \<lparr>StructuredJustificationPolicy.mode = jm,
       selected_opportunity_template_ids =
         (if jm = StructuredJustificationMode.SELECTED then [''tpl_one''] else [])\<rparr>\<rparr>"

definition ex_blueprint :: "StructuredJustificationMode \<Rightarrow> AssessmentBlueprint" where
  "ex_blueprint jm = \<lparr>AssessmentBlueprint.schema_version = LEGACY_SCHEMA_VERSION,
     blueprint_id = ''bp_a'', blueprint_version = 1, activity_id = ''act_a'',
     status = WorkflowStatus.APPROVED, context_mode = ContextMode.CLOSED,
     dimensions = [ex_dimension], assessment_constraints = ex_constraints jm,
     decision_ids = [], diagnostics = [], approved_by = None, approved_at = None\<rparr>"

definition ex_policy :: "int \<Rightarrow> AssessmentPlanningPolicy" where
  "ex_policy reserve = \<lparr>AssessmentPlanningPolicy.schema_version = LEGACY_SCHEMA_VERSION,
     policy_id = ''pol_a'', minimum_opportunity_quality = 1/2, minimum_evidence_fit = 1/2,
     activity_priority_weight = 1/2, evidence_fit_weight = 1/4, opportunity_quality_weight = 1/4,
     repeated_dimension_penalty = 1/8, repeated_variant_penalty = 1/8, evidence_overlap_penalty = 1/4,
     maximum_evidence_overlap = 1/2, max_reserve_opportunities = reserve\<rparr>"

definition ex_opportunity :: "string \<Rightarrow> string \<Rightarrow> string \<Rightarrow> bool \<Rightarrow> pyfloat \<Rightarrow> QuestionOpportunity" where
  "ex_opportunity oid tpl ev j quality = \<lparr>QuestionOpportunity.opportunity_id = oid,
     opportunity_template_id = tpl, submission_id = ''sub_a'', dimension_id = ''dim_a'',
     variant_id = ''var_a'', evidence_ids = [ev],
     cognitive_operation = CognitiveOperation.JUSTIFY_DECISION, focus = ''focus'', observable = ''observable'',
     difficulty = DifficultyBand.MEDIUM, target_minutes = 5,
     allowed_anchor_structures = [AnchorStructure.SINGLE_FRAGMENT],
     allowed_response_formats = [ResponseFormat.OPEN_SHORT],
     activity_priority = 1/2, evidence_fit = 1/2, opportunity_quality = quality,
     student_justification_required = j\<rparr>"

definition ex_opportunities :: "QuestionOpportunity list" where
  "ex_opportunities =
     [ex_opportunity ''opp_a'' ''tpl_one'' ''ev_a'' True 1, ex_opportunity ''opp_b'' ''tpl_two'' ''ev_b'' False 1,
      ex_opportunity ''opp_c'' ''tpl_one'' ''ev_c'' True (1/2), ex_opportunity ''opp_d'' ''tpl_two'' ''ev_d'' False (1/2)]"

definition ex_overlapping :: "QuestionOpportunity list" where
  "ex_overlapping =
     [ex_opportunity ''opp_a'' ''tpl_one'' ''ev_a'' True 1, ex_opportunity ''opp_b'' ''tpl_two'' ''ev_a'' False 1]"

definition ex_mapping :: "QuestionOpportunity list \<Rightarrow> EvidenceMapPatch" where
  "ex_mapping qs = \<lparr>EvidenceMapPatch.schema_version = LEGACY_SCHEMA_VERSION, submission_id = ''sub_a'',
     status = ''READY'', claims = [],
     variant_matches = [\<lparr>EvidenceVariantMatch.dimension_id = ''dim_a'', variant_id = ''var_a'',
       evidence_ids = [''ev_a'', ''ev_b'', ''ev_c'', ''ev_d''], evidence_fit = 1/2, mapping_confidence = 1/2,
       justification = ''because''\<rparr>],
     opportunities = qs, diagnostics = []\<rparr>"

lemmas ex_defs = ex_template_def ex_variant_def ex_dimension_def ex_constraints_def ex_blueprint_def
  ex_policy_def ex_opportunity_def ex_opportunities_def ex_overlapping_def ex_mapping_def

text \<open>The example is a legal input of the planner, whatever the mode and the order of the
  opportunities, and the search finds \<open>opp_a\<close> and \<open>opp_b\<close>.\<close>

lemma ex_inputs:
  "planner_inputs (ex_mapping ex_opportunities) (ex_blueprint StructuredJustificationMode.SELECTED) (ex_policy 2)"
  "planner_inputs (ex_mapping ex_opportunities) (ex_blueprint StructuredJustificationMode.ALL) (ex_policy 2)"
  "planner_inputs (ex_mapping ex_opportunities) (ex_blueprint StructuredJustificationMode.SELECTED) (ex_policy 1)"
  "planner_inputs (ex_mapping ex_overlapping) (ex_blueprint StructuredJustificationMode.ALL) (ex_policy 2)"
  by code_simp+

lemma ex_fmul:
  "fmul (1/2) (1/2) = 1/4" "fmul (1/2) (1/4) = 1/8" "fmul 1 (1/4) = 1/4"
  "fadd (1/4) (1/8) = 3/8" "fadd (3/8) (1/4) = 5/8" "fadd (3/8) (1/8) = 1/2"
  by code_simp+

lemma ex_scores:
  "base_score_of (ex_opportunity oid tpl ev j 1) (ex_policy r) = 5/8"
  "base_score_of (ex_opportunity oid tpl ev j (1/2)) (ex_policy r) = 1/2"
  by (simp_all add: base_score_of_def ex_opportunity_def ex_policy_def ex_fmul)

lemma ex_is_candidate [simp]:
  "is_candidate (ex_blueprint jm) (ex_policy r) (ex_opportunity oid tpl ev j 1)"
  "is_candidate (ex_blueprint jm) (ex_policy r) (ex_opportunity oid tpl ev j (1/2))"
  by (simp_all add: is_candidate_def ex_defs)

definition ex_scored :: "ScoredOpportunity list" where
  "ex_scored = [\<lparr>opportunity = ex_opportunity ''opp_a'' ''tpl_one'' ''ev_a'' True 1, base_score = 5/8\<rparr>,
     \<lparr>opportunity = ex_opportunity ''opp_b'' ''tpl_two'' ''ev_b'' False 1, base_score = 5/8\<rparr>,
     \<lparr>opportunity = ex_opportunity ''opp_c'' ''tpl_one'' ''ev_c'' True (1/2), base_score = 1/2\<rparr>,
     \<lparr>opportunity = ex_opportunity ''opp_d'' ''tpl_two'' ''ev_d'' False (1/2), base_score = 1/2\<rparr>]"

lemma ex_scored_sorted:
  "sort_key (\<lambda>s. (- base_score s, QuestionOpportunity.opportunity_id (opportunity s))) ex_scored = ex_scored"
  by code_simp

lemma ex_candidates:
  "valid_candidates (ex_mapping ex_opportunities) (ex_blueprint jm) (ex_policy r) = ex_scored"
proof -
  have "map (\<lambda>q. \<lparr>opportunity = q, base_score = base_score_of q (ex_policy r)\<rparr>)
      (filter (is_candidate (ex_blueprint jm) (ex_policy r)) ex_opportunities) = ex_scored"
    by (simp add: ex_opportunities_def ex_scored_def ex_scores)
  then show ?thesis
    using ex_scored_sorted by (simp add: valid_candidates_def ex_mapping_def)
qed

lemma ex_feasible: "feasible ex_scored 10 (ex_policy r) [0, 1]"
  by (simp add: feasible_def total_minutes_def ex_scored_def picked_def low_overlap_def evidence_overlap_def
      ex_opportunity_def ex_policy_def int_truediv_unit)

lemma ex_replaceable: "replaceable ex_scored (ex_policy r) (state_of ex_scored (ex_policy r) [0, 1])"
  by (simp add: replaceable_def flags_of_def outside_def ex_scored_def picked_def ex_opportunity_def upt_rec)

end
