(* ===== verification/PlannerCorrect.thy ===== *)
theory PlannerCorrect
  imports PlanningExample
begin

text \<open>
  The properties of \<open>build_assessment_plan\<close>.
\<close>

section \<open>Totality\<close>

text \<open>What a READY plan promises about the opportunities behind its identifiers.\<close>

definition keeps_restrictions ::
  "EvidenceMapPatch \<Rightarrow> AssessmentBlueprint \<Rightarrow> AssessmentPlanningPolicy
     \<Rightarrow> QuestionOpportunity list \<Rightarrow> QuestionOpportunity list \<Rightarrow> bool" where
  "keeps_restrictions mp bp pol primary reserve \<longleftrightarrow>
     set primary \<union> set reserve \<subseteq> {q \<in> set (EvidenceMapPatch.opportunities mp). is_candidate bp pol q}
     \<and> length primary = question_count_of bp
     \<and> distinct (map QuestionOpportunity.opportunity_id (primary @ reserve))
     \<and> int (length reserve) \<le> AssessmentPlanningPolicy.max_reserve_opportunities pol
     \<and> sum_list (map QuestionOpportunity.target_minutes primary) \<le> minutes_limit bp
     \<and> sorted_wrt (low_overlap pol) primary"

lemma search_keeps_restrictions:
  assumes inp: "planner_inputs mp bp pol" and st: "planner_search mp bp pol = Some st"
  shows "keeps_restrictions mp bp pol (primary_of (valid_candidates mp bp pol) st)
           (reserve_of pol (valid_candidates mp bp pol) st)"
proof -
  let ?sc = "valid_candidates mp bp pol"
  note f = planner_search_sound(1) [OF inp st]
  have idx: "\<forall>i \<in> set (selected st @ outside ?sc (selected st)). opportunity (?sc ! i) \<in> opportunity ` set ?sc"
    using f by (auto simp: feasible_def)
  have "set (picked ?sc (selected st @ outside ?sc (selected st))) \<subseteq> opportunity ` set ?sc"
    using idx unfolding set_picked by blast
  then have sub: "set (primary_of ?sc st) \<union> set (reserve_of pol ?sc st)
      \<subseteq> {q \<in> set (EvidenceMapPatch.opportunities mp). is_candidate bp pol q}"
    using reserve_of_facts(1) [OF planner_inputsD(3) [OF inp], of ?sc st]
    unfolding set_valid_candidates by (auto simp: primary_of_def)
  have "selected st \<noteq> []"
    using planner_search_sound(2) [OF inp st] planner_inputsD(5) [OF inp] by auto
  then show ?thesis
    using sub f planner_search_sound(2) [OF inp st] reserve_of_facts(3) [OF planner_inputsD(3) [OF inp]]
      plan_ids_distinct [OF distinct_candidate_ids [OF map_contract(2) [OF planner_inputsD(1) [OF inp]]] f
        planner_inputsD(3) [OF inp]]
    by (simp add: keeps_restrictions_def primary_of_def feasible_def total_minutes_def)
qed

lemma ready_plan_total:
  assumes inp: "planner_inputs mp bp pol" and st: "planner_search mp bp pol = Some st"
  shows "\<exists>plan. ready_plan mp bp pol
     (AssessmentConstraints.question_count (AssessmentBlueprint.assessment_constraints bp))
     (valid_candidates mp bp pol) st = Inr plan"
proof -
  let ?sc = "valid_candidates mp bp pol" and ?q = "question_count_of bp"
  let ?pr = "primary_of ?sc st" and ?re = "reserve_of pol ?sc st"
  note k = search_keeps_restrictions [OF inp st, unfolded keeps_restrictions_def]
  note qs = map_contract(3) [OF planner_inputsD(1) [OF inp]]
  have ids: "\<forall>q \<in> set ?pr \<union> set ?re. Id_ok (QuestionOpportunity.opportunity_id q)
      \<and> 0 \<le> QuestionOpportunity.target_minutes q"
    using k opportunity_contract(1,2) qs by (smt (verit) mem_Collect_eq subset_eq)
  have mins: "0 \<le> sum_list (map QuestionOpportunity.target_minutes ?pr)"
    using ids by (intro sum_list_nonneg) auto
  have qn: "length ?pr = ?q" "1 \<le> ?q" "?q \<le> 20" using k planner_inputsD(5,6) [OF inp] by auto
  have re: "length ?re \<le> 10" using k planner_inputsD(4) [OF inp] by linarith
  have lim: "sum_list (map QuestionOpportunity.target_minutes ?pr) \<le> 120"
    using k planner_inputsD(8) [OF inp] by linarith
  have dis: "distinct (map QuestionOpportunity.opportunity_id ?pr)"
      "distinct (map QuestionOpportunity.opportunity_id ?re)"
      "set (map QuestionOpportunity.opportunity_id ?pr) \<inter> set (map QuestionOpportunity.opportunity_id ?re) = {}"
    using k by auto
  have contract: "AssessmentPlan_validate
      \<lparr>AssessmentPlan.schema_version = LEGACY_SCHEMA_VERSION, plan_id = pid,
       submission_id = EvidenceMapPatch.submission_id mp,
       blueprint_id = AssessmentBlueprint.blueprint_id bp,
       blueprint_version = AssessmentBlueprint.blueprint_version bp, status = ''READY'',
       question_count = int ?q, selected_opportunity_ids = map QuestionOpportunity.opportunity_id ?pr,
       reserve_opportunity_ids = map QuestionOpportunity.opportunity_id ?re,
       estimated_total_minutes = sum_list (map QuestionOpportunity.target_minutes ?pr),
       diagnostics = []\<rparr> = None" if "Id_ok pid" for pid
    using that ids mins qn re lim dis blueprint_contract(1,2) [OF planner_inputsD(2) [OF inp]]
      map_contract(1) [OF planner_inputsD(1) [OF inp]]
    by (simp add: AssessmentPlan_validate_def checks list_all_iff)
  obtain pid where "stable_id_or_raise ''plan''
             [JStr (EvidenceMapPatch.submission_id mp), JStr (AssessmentBlueprint.blueprint_id bp),
              JInt (AssessmentBlueprint.blueprint_version bp),
              JList (map JStr (map QuestionOpportunity.opportunity_id ?pr)),
              JList (map JStr (map QuestionOpportunity.opportunity_id ?re)), JStr PLANNER_VERSION] = Inr pid" "Id_ok pid"
    using stable_plan_id by blast
  then show ?thesis
    using contract planner_inputsD(7) [OF inp]
    by (simp add: ready_plan_def Let_def flip: primary_of_def reserve_of_def)
qed

lemma safe_dets_simps [simp]:
  "safe_dets [(''mapping_status'', JStr s)] \<longleftrightarrow> length s \<le> 256"
  "safe_dets [(''valid_opportunity_count'', JInt a), (''required_question_count'', JInt b)]"
  "safe_dets [(''distinct_opportunity_count'', JInt a), (''required_question_count'', JInt b)]"
  "safe_dets [(''valid_opportunity_count'', JInt a), (''required_question_count'', JInt b),
     (''target_total_minutes'', JInt c)]"
proof -
  have tr: "list_all trimmed [''mapping_status'', ''valid_opportunity_count'', ''required_question_count'',
      ''distinct_opportunity_count'', ''target_total_minutes'']"
    by code_simp
  have "dict_keys [(''mapping_status'', JStr s)]"
    "dict_keys [(''valid_opportunity_count'', JInt a), (''required_question_count'', JInt b)]"
    "dict_keys [(''distinct_opportunity_count'', JInt a), (''required_question_count'', JInt b)]"
    "dict_keys [(''valid_opportunity_count'', JInt a), (''required_question_count'', JInt b),
       (''target_total_minutes'', JInt c)]"
    using tr by (simp_all add: dict_keys_def)
  moreover have "lower ''mapping_status'' \<notin> set SENSITIVE_DETAIL_KEYS"
    "lower ''valid_opportunity_count'' \<notin> set SENSITIVE_DETAIL_KEYS"
    "lower ''distinct_opportunity_count'' \<notin> set SENSITIVE_DETAIL_KEYS"
    "lower ''required_question_count'' \<notin> set SENSITIVE_DETAIL_KEYS"
    "lower ''target_total_minutes'' \<notin> set SENSITIVE_DETAIL_KEYS"
    by code_simp+
  ultimately show "safe_dets [(''mapping_status'', JStr s)] \<longleftrightarrow> length s \<le> 256"
    "safe_dets [(''valid_opportunity_count'', JInt a), (''required_question_count'', JInt b)]"
    "safe_dets [(''distinct_opportunity_count'', JInt a), (''required_question_count'', JInt b)]"
    "safe_dets [(''valid_opportunity_count'', JInt a), (''required_question_count'', JInt b),
       (''target_total_minutes'', JInt c)]"
    by (simp_all add: safe_dets_def long_string_def not_less)
qed

lemma build_plan_total:
  assumes inp: "planner_inputs mp bp pol" and st: "EvidenceMapPatch.status mp \<noteq> ''TECHNICAL_FAILURE''"
  shows "\<exists>plan. build_assessment_plan mp bp pol = Inr plan"
proof -
  let ?q = "AssessmentConstraints.question_count (AssessmentBlueprint.assessment_constraints bp)"
  note m = map_contract [OF planner_inputsD(1) [OF inp]]
  have q: "1 \<le> ?q" "?q \<le> 20" using planner_inputsD(5-7) [OF inp] by auto
  note fail = complete_failure_total [OF _ m(1) planner_inputsD(2) [OF inp] q]
  have eids: "list_all Id_ok (sorted_set (concat (map QuestionOpportunity.evidence_ids (EvidenceMapPatch.opportunities mp))))"
    using m(3) opportunity_contract(3) by (fastforce simp: list_all_iff)
  have dids: "list_all Id_ok (sorted_set (concat (map Diagnostic.evidence_ids (EvidenceMapPatch.diagnostics mp))))"
    using m(4) diagnostic_contract by (fastforce simp: list_all_iff)
  show ?thesis
  proof (cases "EvidenceMapPatch.status mp = ''READY''")
    case False
    with m(5) st have "EvidenceMapPatch.status mp \<in> failure_statuses" "length (EvidenceMapPatch.status mp) \<le> 256"
        "EvidenceMapPatch.status mp \<in> {''INSUFFICIENT_RELEVANT_EVIDENCE'',
          ''INSUFFICIENT_DISTINCT_QUESTION_OPPORTUNITIES'', ''EVIDENCE_MAPPING_UNCERTAIN''}"
      by (auto simp: failure_statuses_def)
    then show ?thesis
      using False fail [OF _ dids, of "EvidenceMapPatch.status mp" "[(''mapping_status'', JStr (EvidenceMapPatch.status mp))]"]
        Id_not_Nil [OF m(1)]
      by (simp add: build_assessment_plan_def Let_def failure_from_mapping_def)
  next
    case True
    note bp = build_assessment_plan_def [of mp bp pol, unfolded Let_def, folded minutes_limit_def
        justification_mode_def question_count_of_def planner_search_def]
    show ?thesis
      unfolding bp using True Id_not_Nil [OF m(1)] fail [OF _ eids]
        ready_plan_total [OF inp, unfolded planner_search_def]
      by (simp add: failure_statuses_def split: option.split)
  qed
qed

section \<open>Properties\<close>

lemma build_plan_valid:
  assumes "build_assessment_plan mp bp pol = Inr plan"
  shows "AssessmentPlan_validate plan = None"
    and "AssessmentPlan.question_count plan
       = AssessmentConstraints.question_count (AssessmentBlueprint.assessment_constraints bp)"
    and "EvidenceMapPatch.status mp \<noteq> ''READY'' \<Longrightarrow> AssessmentPlan.status plan = EvidenceMapPatch.status mp"
  using assms
  by (cases rule: build_plan_cases;
      auto simp: failure_from_mapping_def dest!: complete_failure_shape ready_plan_shape)+

lemma enough_candidates:
  assumes "planner_inputs mp bp pol" and "planner_search mp bp pol = Some st"
  shows "question_count_of bp \<le> length (valid_candidates mp bp pol)"
proof -
  let ?n = "length (valid_candidates mp bp pol)"
  have "set (selected st) \<subseteq> {..<?n}" and "distinct (selected st)"
    using planner_search_sound(1) [OF assms] by (auto simp: feasible_def strict_sorted_iff)
  then have "length (selected st) \<le> ?n"
    by (metis card_lessThan card_mono distinct_card finite_lessThan)
  then show ?thesis using planner_search_sound(2) [OF assms] by simp
qed

lemma build_plan_ready:
  assumes inp: "planner_inputs mp bp pol" and "EvidenceMapPatch.status mp = ''READY''"
    and st: "planner_search mp bp pol = Some st"
  shows "build_assessment_plan mp bp pol = ready_plan mp bp pol
     (AssessmentConstraints.question_count (AssessmentBlueprint.assessment_constraints bp))
     (valid_candidates mp bp pol) st"
proof -
  have "valid_candidates mp bp pol \<noteq> []"
    using enough_candidates [OF inp st] planner_inputsD(5) [OF inp] by auto
  then show ?thesis
    using assms enough_candidates [OF inp st] planner_inputsD(7) [OF inp]
      Id_not_Nil [OF map_contract(1) [OF planner_inputsD(1) [OF inp]]]
    by (simp add: build_assessment_plan_def Let_def planner_search_def minutes_limit_def justification_mode_def)
qed

lemma ex_ready:
  assumes inp: "planner_inputs (ex_mapping ex_opportunities) (ex_blueprint jm) (ex_policy r)"
  shows "\<exists>plan. build_assessment_plan (ex_mapping ex_opportunities) (ex_blueprint jm) (ex_policy r) = Inr plan
     \<and> AssessmentPlan.status plan = ''READY''"
proof -
  let ?mp = "ex_mapping ex_opportunities" and ?bp = "ex_blueprint jm"
  have simps': "question_count_of ?bp = 2"
      "minutes_limit ?bp = 10" "EvidenceMapPatch.status ?mp = ''READY''" "length ex_scored = 4"
      "AssessmentConstraints.question_count (AssessmentBlueprint.assessment_constraints ?bp) = 2"
    by (simp_all add: ex_mapping_def ex_blueprint_def ex_constraints_def question_count_of_def
        minutes_limit_def ex_scored_def)
  note simps = ex_candidates [of jm r] simps'
  have "4 choose j \<le> beam_width" for j
    using binomial_le_pow2 [of 4 j] by simp
  then have "planner_search ?mp ?bp (ex_policy r) \<noteq> None"
    using select_exact_complete [OF planner_minutes_nonneg [OF inp], unfolded simps,
        of 2 beam_width 10 "ex_policy r" _ "[0, 1]"] ex_feasible [of r] ex_replaceable
    by (auto simp: planner_search_def simps)
  then obtain st where st: "planner_search ?mp ?bp (ex_policy r) = Some st" by blast
  show ?thesis
    using build_plan_ready [OF inp simps(4) st] ready_plan_total [OF inp st] ready_plan_shape by metis
qed

text \<open>C1: a READY plan keeps every restriction.  Its primary and reserve identifiers name
  opportunities of the mapping that pass the quality, fit and format filters, all different;
  there are exactly N primary ones, their minutes add up to the estimate and do not exceed the
  target, no two of them share more evidence than the policy allows, and the reserve is not larger
  than the policy says.\<close>

theorem ready_plan_correct:
  assumes "planner_inputs mp bp pol" and "build_assessment_plan mp bp pol = Inr plan"
    and "AssessmentPlan.status plan = ''READY''"
  shows "\<exists>primary reserve.
     AssessmentPlan.selected_opportunity_ids plan = map QuestionOpportunity.opportunity_id primary
     \<and> AssessmentPlan.reserve_opportunity_ids plan = map QuestionOpportunity.opportunity_id reserve
     \<and> AssessmentPlan.estimated_total_minutes plan = sum_list (map QuestionOpportunity.target_minutes primary)
     \<and> keeps_restrictions mp bp pol primary reserve"
proof -
  obtain st where "planner_search mp bp pol = Some st"
      "ready_plan mp bp pol (AssessmentConstraints.question_count (AssessmentBlueprint.assessment_constraints bp))
         (valid_candidates mp bp pol) st = Inr plan"
    using ready_planE [OF assms(2,3)] by blast
  then show ?thesis
    using search_keeps_restrictions [OF assms(1)] ready_plan_shape by metis
qed

theorem ready_plan_correct_witness:
  "\<exists>plan primary reserve.
     build_assessment_plan (ex_mapping ex_opportunities)
       (ex_blueprint StructuredJustificationMode.SELECTED) (ex_policy 2) = Inr plan
     \<and> AssessmentPlan.selected_opportunity_ids plan = map QuestionOpportunity.opportunity_id primary
     \<and> keeps_restrictions (ex_mapping ex_opportunities)
       (ex_blueprint StructuredJustificationMode.SELECTED) (ex_policy 2) primary reserve"
  using ex_ready [OF ex_inputs(1)] ready_plan_correct [OF ex_inputs(1)] by blast

text \<open>C2: the planner is total.  On values its classes can construct it returns a plan, whatever the
  mapping says short of TECHNICAL_FAILURE, and the plan passes the checks of its own class; a
  mapping that is not READY keeps its status.\<close>

theorem planner_total:
  assumes "planner_inputs mp bp pol" and "EvidenceMapPatch.status mp \<noteq> ''TECHNICAL_FAILURE''"
  shows "\<exists>plan. build_assessment_plan mp bp pol = Inr plan \<and> AssessmentPlan_validate plan = None
     \<and> (EvidenceMapPatch.status mp \<noteq> ''READY'' \<longrightarrow> AssessmentPlan.status plan = EvidenceMapPatch.status mp)"
  using build_plan_total [OF assms] build_plan_valid by blast

theorem planner_total_witness:
  "\<exists>plan. build_assessment_plan (ex_mapping ex_opportunities)
     (ex_blueprint StructuredJustificationMode.SELECTED) (ex_policy 2) = Inr plan"
  using planner_total [OF ex_inputs(1)] by (auto simp: ex_mapping_def)

text \<open>C3: the order in which the mapping lists its opportunities is irrelevant.\<close>

theorem planner_order_independent:
  assumes "planner_inputs mp bp pol" and "mset qs = mset (EvidenceMapPatch.opportunities mp)"
  shows "build_assessment_plan (mp\<lparr>EvidenceMapPatch.opportunities := qs\<rparr>) bp pol = build_assessment_plan mp bp pol"
proof -
  let ?mp = "mp\<lparr>EvidenceMapPatch.opportunities := qs\<rparr>"
  have "valid_candidates mp bp pol = valid_candidates ?mp bp pol"
    using assms(2) map_contract(2) [OF planner_inputsD(1) [OF assms(1)]]
    by (intro valid_candidates_perm) simp_all
  moreover have "set qs = set (EvidenceMapPatch.opportunities mp)"
    using assms(2) by (metis set_mset_mset)
  then have "sorted_set (concat (map QuestionOpportunity.evidence_ids qs))
      = sorted_set (concat (map QuestionOpportunity.evidence_ids (EvidenceMapPatch.opportunities mp)))"
    by (simp add: sorted_set_def sorted_list_of_set_sort_remdups [symmetric])
  ultimately show ?thesis
    by (simp add: build_assessment_plan_def Let_def failure_from_mapping_def ready_plan_def split: option.split)
qed

theorem planner_order_independent_witness:
  "build_assessment_plan (ex_mapping (rev ex_opportunities))
     (ex_blueprint StructuredJustificationMode.SELECTED) (ex_policy 2)
   = build_assessment_plan (ex_mapping ex_opportunities)
     (ex_blueprint StructuredJustificationMode.SELECTED) (ex_policy 2)"
  using planner_order_independent [OF ex_inputs(1), of "rev ex_opportunities"] by (simp add: ex_mapping_def)

section \<open>The beam does not cut\<close>

text \<open>No round over at most eleven candidates has more than 462 states, so the beam of 512 keeps
  them all.\<close>

lemma choose_le_beam:
  assumes "n \<le> 11"
  shows "n choose k \<le> beam_width"
proof -
  have "m choose k \<le> Suc m choose k" for m by (cases k) simp_all
  from lift_Suc_mono_le [of "\<lambda>m. m choose k", OF this assms] have "n choose k \<le> 11 choose k" .
  also have "\<dots> \<le> 11 choose (11 div 2)" by (rule binomial_maximum)
  also have "(11::nat) choose (11 div 2) = 462" by (simp add: binomial_fact' [of 5 11] fact_numeral)
  finally show ?thesis by simp
qed

lemma infeasible_planE:
  assumes "build_assessment_plan mp bp pol = Inr plan"
    and "EvidenceMapPatch.status mp = ''READY''" and "AssessmentPlan.status plan = ''ASSESSMENT_PLAN_INFEASIBLE''"
  shows "planner_search mp bp pol = None"
  using assms(1)
proof (cases rule: build_plan_cases)
  case (failed st eids dets)
  then show ?thesis using complete_failure_shape [OF failed(3)] assms(3) by auto
next
  case (ready st)
  then show ?thesis using ready_plan_shape [OF ready(3)] assms(3) by simp
qed (use assms in simp)

text \<open>C4: when a READY mapping has at most eleven usable opportunities, an
  ASSESSMENT_PLAN_INFEASIBLE plan means that no selection of N of them fits: every one that
  respects the minutes and the overlap lacks, in SELECTED mode, the justification guarantee.\<close>

theorem infeasible_plan_complete:
  assumes "planner_inputs mp bp pol" and "EvidenceMapPatch.status mp = ''READY''"
    and "length (valid_candidates mp bp pol) \<le> 11"
    and "build_assessment_plan mp bp pol = Inr plan"
    and "AssessmentPlan.status plan = ''ASSESSMENT_PLAN_INFEASIBLE''"
    and "feasible (valid_candidates mp bp pol) (minutes_limit bp) pol is" and "length is = question_count_of bp"
  shows "justification_mode bp = StructuredJustificationMode.SELECTED
     \<and> \<not> replaceable (valid_candidates mp bp pol) pol (state_of (valid_candidates mp bp pol) pol is)"
  using infeasible_planE [OF assms(4,2,5)] assms(6,7) choose_le_beam [OF assms(3)]
    select_exact_complete [OF planner_minutes_nonneg [OF assms(1)], of "question_count_of bp" beam_width]
  by (simp add: planner_search_def)

lemma ex_overlapping_infeasible:
  "planner_search (ex_mapping ex_overlapping) (ex_blueprint jm) (ex_policy r) = None"
  if inp: "planner_inputs (ex_mapping ex_overlapping) (ex_blueprint jm) (ex_policy r)"
proof (cases "planner_search (ex_mapping ex_overlapping) (ex_blueprint jm) (ex_policy r)")
  case (Some st)
  note k = search_keeps_restrictions [OF inp Some, unfolded keeps_restrictions_def]
  let ?pr = "primary_of (valid_candidates (ex_mapping ex_overlapping) (ex_blueprint jm) (ex_policy r)) st"
  have "\<forall>q \<in> set ?pr. QuestionOpportunity.evidence_ids q = [''ev_a'']"
    using k by (auto simp: ex_mapping_def ex_overlapping_def ex_opportunity_def)
  moreover obtain p q where "?pr = [p, q]"
    using k by (auto simp: question_count_of_def ex_blueprint_def ex_constraints_def length_Suc_conv numeral_2_eq_2)
  moreover have "int_truediv 1 1 = 1" by code_simp
  ultimately show ?thesis
    using k by (simp add: low_overlap_def evidence_overlap_def ex_policy_def)
qed

theorem infeasible_plan_complete_witness:
  "\<exists>plan. build_assessment_plan (ex_mapping ex_overlapping)
       (ex_blueprint StructuredJustificationMode.ALL) (ex_policy 2) = Inr plan
     \<and> AssessmentPlan.status plan = ''ASSESSMENT_PLAN_INFEASIBLE''
     \<and> \<not> feasible (valid_candidates (ex_mapping ex_overlapping)
          (ex_blueprint StructuredJustificationMode.ALL) (ex_policy 2)) 10 (ex_policy 2) [0, 1]"
proof -
  let ?mp = "ex_mapping ex_overlapping" and ?bp = "ex_blueprint StructuredJustificationMode.ALL"
  let ?sc = "valid_candidates ?mp ?bp (ex_policy 2)"
  have s: "question_count_of ?bp = 2" "minutes_limit ?bp = 10" "EvidenceMapPatch.status ?mp = ''READY''"
      "justification_mode ?bp \<noteq> StructuredJustificationMode.SELECTED"
      "AssessmentConstraints.question_count (AssessmentBlueprint.assessment_constraints ?bp) = 2"
    by (simp_all add: ex_blueprint_def ex_constraints_def question_count_of_def minutes_limit_def
        ex_mapping_def justification_mode_def)
  have len: "length ?sc = 2" by (simp add: length_valid_candidates ex_mapping_def ex_overlapping_def)
  obtain plan where p: "build_assessment_plan ?mp ?bp (ex_policy 2) = Inr plan"
    using build_plan_total [OF ex_inputs(4)] s(3) by auto
  have "AssessmentPlan.status plan = ''ASSESSMENT_PLAN_INFEASIBLE''"
    using p
  proof (cases rule: build_plan_cases)
    case (failed st eids dets)
    then show ?thesis
      using complete_failure_shape [OF failed(3)] ex_overlapping_infeasible [OF ex_inputs(4)] len s(5) by auto
  qed (use s(3) ex_overlapping_infeasible [OF ex_inputs(4)] in auto)
  then show ?thesis
    using infeasible_plan_complete [OF ex_inputs(4) s(3) _ p, of "[0, 1]"] p len s by auto
qed

text \<open>C5: outside SELECTED mode, over at most eleven usable opportunities, the plan has the highest
  score of all selections that fit.\<close>

theorem ready_plan_best:
  assumes "planner_inputs mp bp pol" and "justification_mode bp \<noteq> StructuredJustificationMode.SELECTED"
    and "length (valid_candidates mp bp pol) \<le> 11"
    and "build_assessment_plan mp bp pol = Inr plan" and "AssessmentPlan.status plan = ''READY''"
  shows "\<exists>best. AssessmentPlan.selected_opportunity_ids plan
        = map QuestionOpportunity.opportunity_id (picked (valid_candidates mp bp pol) best)
     \<and> feasible (valid_candidates mp bp pol) (minutes_limit bp) pol best \<and> length best = question_count_of bp
     \<and> (\<forall>is. feasible (valid_candidates mp bp pol) (minutes_limit bp) pol is \<and> length is = question_count_of bp
          \<longrightarrow> path_score (valid_candidates mp bp pol) pol is \<le> path_score (valid_candidates mp bp pol) pol best)"
proof -
  let ?sc = "valid_candidates mp bp pol"
  obtain st where st: "planner_search mp bp pol = Some st"
      "ready_plan mp bp pol (AssessmentConstraints.question_count (AssessmentBlueprint.assessment_constraints bp))
         ?sc st = Inr plan"
    using ready_planE [OF assms(4,5)] by blast
  have "path_score ?sc pol is \<le> score st"
    if "feasible ?sc (minutes_limit bp) pol is" "length is = question_count_of bp" for "is"
    using select_exact_best [OF planner_minutes_nonneg [OF assms(1)] _ _ assms(2) st(1) [unfolded planner_search_def] that]
      choose_le_beam [OF assms(3)] planner_inputsD(5) [OF assms(1)] by simp
  then show ?thesis
    using planner_search_sound [OF assms(1) st(1)] ready_plan_shape [OF st(2)]
    by (intro exI [of _ "selected st"]) (simp add: primary_of_def)
qed

theorem ready_plan_best_witness:
  "\<exists>plan best. build_assessment_plan (ex_mapping ex_opportunities)
       (ex_blueprint StructuredJustificationMode.ALL) (ex_policy 2) = Inr plan
     \<and> AssessmentPlan.selected_opportunity_ids plan = map QuestionOpportunity.opportunity_id (picked ex_scored best)
     \<and> path_score ex_scored (ex_policy 2) [0, 1] \<le> path_score ex_scored (ex_policy 2) best"
proof -
  let ?bp = "ex_blueprint StructuredJustificationMode.ALL"
  have s: "question_count_of ?bp = 2" "minutes_limit ?bp = 10" "length ex_scored \<le> 11"
      "justification_mode ?bp \<noteq> StructuredJustificationMode.SELECTED"
    by (simp_all add: ex_blueprint_def ex_constraints_def question_count_of_def minutes_limit_def
        ex_scored_def justification_mode_def)
  obtain plan where p: "build_assessment_plan (ex_mapping ex_opportunities) ?bp (ex_policy 2) = Inr plan"
      "AssessmentPlan.status plan = ''READY''"
    using ex_ready [OF ex_inputs(2)] by blast
  show ?thesis
    using ready_plan_best [OF ex_inputs(2) s(4) _ p] ex_feasible [of 2] p(1) s(3)
    unfolding ex_candidates s by fastforce
qed

section \<open>The justification guarantee\<close>

lemma picked_outside_class:
  assumes "p \<in> set (picked sc is)" and "flags_of sc is \<subseteq> flags_of sc js"
  shows "\<exists>q \<in> set (picked sc js). QuestionOpportunity.student_justification_required q
     = QuestionOpportunity.student_justification_required p"
  using assms by (auto simp: flags_of_def)

text \<open>C6: in SELECTED mode a READY plan asks for the structured justification at least once, and with
  room for two reserves every primary opportunity has a reserve of the same justification class.\<close>

theorem ready_plan_replaceable:
  assumes "planner_inputs mp bp pol" and "justification_mode bp = StructuredJustificationMode.SELECTED"
    and "2 \<le> AssessmentPlanningPolicy.max_reserve_opportunities pol"
    and "build_assessment_plan mp bp pol = Inr plan" and "AssessmentPlan.status plan = ''READY''"
  shows "\<exists>primary reserve.
     AssessmentPlan.selected_opportunity_ids plan = map QuestionOpportunity.opportunity_id primary
     \<and> AssessmentPlan.reserve_opportunity_ids plan = map QuestionOpportunity.opportunity_id reserve
     \<and> keeps_restrictions mp bp pol primary reserve
     \<and> (\<exists>p \<in> set primary. QuestionOpportunity.student_justification_required p)
     \<and> (\<forall>p \<in> set primary. \<exists>r \<in> set reserve. QuestionOpportunity.student_justification_required r
           = QuestionOpportunity.student_justification_required p)"
proof -
  let ?sc = "valid_candidates mp bp pol"
  obtain st where st: "planner_search mp bp pol = Some st"
      "ready_plan mp bp pol (AssessmentConstraints.question_count (AssessmentBlueprint.assessment_constraints bp))
         ?sc st = Inr plan"
    using ready_planE [OF assms(4,5)] by blast
  have rep: "True \<in> flags_of ?sc (selected st)"
      "flags_of ?sc (selected st) \<subseteq> flags_of ?sc (outside ?sc (selected st))"
    using planner_search_sound(3) [OF assms(1) st(1) assms(2)] assms(3) by (auto simp: replaceable_def)
  have "\<exists>r \<in> set (reserve_of pol ?sc st). QuestionOpportunity.student_justification_required r
           = QuestionOpportunity.student_justification_required p" if p: "p \<in> set (primary_of ?sc st)" for p
  proof -
    obtain q where "q \<in> set (picked ?sc (outside ?sc (selected st)))"
        "QuestionOpportunity.student_justification_required q = QuestionOpportunity.student_justification_required p"
      using picked_outside_class [OF p [unfolded primary_of_def] rep(2)] by blast
    then show ?thesis
      unfolding reserve_of_def using build_reserve_covers [OF assms(3) p] by (simp add: reserve_order_def)
  qed
  moreover have "\<exists>p \<in> set (primary_of ?sc st). QuestionOpportunity.student_justification_required p"
    using rep(1) by (auto simp: flags_of_def primary_of_def)
  ultimately show ?thesis
    using search_keeps_restrictions [OF assms(1) st(1)] ready_plan_shape [OF st(2)] by blast
qed

theorem ready_plan_replaceable_witness:
  "\<exists>plan (primary :: QuestionOpportunity list). build_assessment_plan (ex_mapping ex_opportunities)
       (ex_blueprint StructuredJustificationMode.SELECTED) (ex_policy 2) = Inr plan
     \<and> AssessmentPlan.selected_opportunity_ids plan = map QuestionOpportunity.opportunity_id primary
     \<and> (\<exists>p \<in> set primary. QuestionOpportunity.student_justification_required p)"
proof -
  have "justification_mode (ex_blueprint StructuredJustificationMode.SELECTED) = StructuredJustificationMode.SELECTED"
      "2 \<le> AssessmentPlanningPolicy.max_reserve_opportunities (ex_policy 2)"
    by (simp_all add: justification_mode_def ex_blueprint_def ex_constraints_def ex_policy_def)
  note r = ready_plan_replaceable [OF ex_inputs(1) this]
  obtain plan where p: "build_assessment_plan (ex_mapping ex_opportunities)
       (ex_blueprint StructuredJustificationMode.SELECTED) (ex_policy 2) = Inr plan"
      "AssessmentPlan.status plan = ''READY''"
    using ex_ready [OF ex_inputs(1)] by blast
  from r [OF p] p(1) show ?thesis by blast
qed

text \<open>With room for one reserve the guarantee is lost.  On the example, in SELECTED mode, the plan
  is READY, its primary opportunities are of both classes, and one of them has no reserve of its
  class.\<close>

theorem one_reserve_misses_a_class:
  "\<exists>plan (primary :: QuestionOpportunity list) (reserve :: QuestionOpportunity list) p. build_assessment_plan (ex_mapping ex_opportunities)
       (ex_blueprint StructuredJustificationMode.SELECTED) (ex_policy 1) = Inr plan
     \<and> AssessmentPlan.status plan = ''READY''
     \<and> AssessmentPlan.selected_opportunity_ids plan = map QuestionOpportunity.opportunity_id primary
     \<and> AssessmentPlan.reserve_opportunity_ids plan = map QuestionOpportunity.opportunity_id reserve
     \<and> p \<in> set primary
     \<and> QuestionOpportunity.student_justification_required p
         \<notin> QuestionOpportunity.student_justification_required ` set reserve"
proof -
  let ?mp = "ex_mapping ex_opportunities" and ?bp = "ex_blueprint StructuredJustificationMode.SELECTED"
  obtain plan where p: "build_assessment_plan ?mp ?bp (ex_policy 1) = Inr plan" "AssessmentPlan.status plan = ''READY''"
    using ex_ready [OF ex_inputs(3)] by blast
  obtain st where st: "planner_search ?mp ?bp (ex_policy 1) = Some st"
      "ready_plan ?mp ?bp (ex_policy 1)
         (AssessmentConstraints.question_count (AssessmentBlueprint.assessment_constraints ?bp))
         (valid_candidates ?mp ?bp (ex_policy 1)) st = Inr plan"
    using ready_planE [OF p] by blast
  note sound = planner_search_sound [OF ex_inputs(3) st(1), unfolded ex_candidates]
  have s: "question_count_of ?bp = 2"
      "justification_mode ?bp = StructuredJustificationMode.SELECTED"
      "AssessmentPlanningPolicy.max_reserve_opportunities (ex_policy 1) = 1"
    by (simp_all add: justification_mode_def ex_blueprint_def ex_constraints_def ex_policy_def question_count_of_def)
  obtain i j where ij: "selected st = [i, j]" "i < j" "j < 4"
    using sound(1,2) s(1) by (auto simp: length_Suc_conv numeral_2_eq_2 feasible_def ex_scored_def)
  let ?f = "QuestionOpportunity.student_justification_required"
  have pairs: "list_all (\<lambda>is. True \<in> flags_of ex_scored is
        \<and> flags_of ex_scored is \<subseteq> flags_of ex_scored (outside ex_scored is)
        \<longrightarrow> flags_of ex_scored is = {True, False}) [[0, 1], [0, 2], [0, 3], [1, 2], [1, 3], [2, 3]]"
    by code_simp
  have "[i, j] \<in> set [[0, 1], [0, 2], [0, 3], [1, 2], [1, 3], [2, 3]]"
    using ij(2,3) by (auto simp: less_Suc_eq numeral_eq_Suc)
  moreover have "True \<in> flags_of ex_scored [i, j]"
      "flags_of ex_scored [i, j] \<subseteq> flags_of ex_scored (outside ex_scored [i, j])"
    using sound(3) [OF s(2)] s(3) unfolding replaceable_def ij(1) by simp_all
  ultimately have "flags_of ex_scored [i, j] = {True, False}"
    using pairs unfolding list_all_iff by blast
  then have both: "\<exists>p \<in> set (primary_of ex_scored st). ?f p = b" for b
    using ij(1) by (cases b) (auto simp: flags_of_def primary_of_def set_eq_iff image_iff)
  let ?re = "reserve_of (ex_policy 1) ex_scored st"
  have "length ?re \<le> 1" using reserve_of_facts(3) [of "ex_policy 1" ex_scored st] s(3) by simp
  then have "?re = [] \<or> (\<exists>r. ?re = [r])" by (cases ?re) auto
  then have "\<forall>r \<in> set ?re. ?f r \<noteq> (\<not> ?f (hd ?re))" by auto
  then obtain b where b: "\<forall>r \<in> set ?re. ?f r \<noteq> b" by blast
  obtain q where q: "q \<in> set (primary_of ex_scored st)" "?f q = b" using both by blast
  note shape = ready_plan_shape [OF st(2), unfolded ex_candidates]
  have "?f q \<notin> ?f ` set ?re" using b q(2) by auto
  then show ?thesis
    by (intro exI [of _ plan] exI [of _ "primary_of ex_scored st"] exI [of _ ?re] exI [of _ q] conjI)
      (use p shape q(1) in simp_all)
qed

end
