(* ===== verification/ValidationCorrect.thy ===== *)
theory ValidationCorrect
  imports Validation PlannerCorrect
begin

text \<open>
  What the contextual validators guarantee: an object they accept refers only to evidence units of
  the bundle, of its tenant and its submission, quotes them literally, and keeps to the blueprint.
\<close>

section \<open>The dictionaries\<close>

lemma index_of_dict:
  assumes "\<And>c. lookup c = dict_by key (elems c)"
  shows "index key elems lookup"
proof
  fix c k v
  show "lookup c k = Some v \<Longrightarrow> v \<in> set (elems c) \<and> key v = k"
    unfolding assms by (rule dict_by_hit)
  show "lookup c k = None \<longleftrightarrow> k \<notin> key ` set (elems c)"
    unfolding assms by (rule dict_by_miss)
qed

interpretation units: index EvidenceUnit.evidence_id EvidenceBundle.evidence_units "\<lambda>b. evidence_by_id (from_bundle b)"
  by (rule index_of_dict) (simp add: from_bundle_def)

interpretation passages: index CoursePassage.source_id EvidenceBundle.course_passages
    "\<lambda>b. course_sources_by_id (from_bundle b)"
  by (rule index_of_dict) (simp add: from_bundle_def)

interpretation dims: index BlueprintDimension.dimension_id AssessmentBlueprint.dimensions dimension_by_id
  by (rule index_of_dict) (simp add: dimension_by_id_def)

interpretation vars: index EvidenceVariant.variant_id "\<lambda>bp. map snd (variant_paths bp)" variant_by_id
  by (rule index_of_dict) (simp add: variant_by_id_def)

interpretation templates: index QuestionOpportunityTemplate.opportunity_template_id
    "\<lambda>bp. map snd (template_paths bp)" template_by_id
  by (rule index_of_dict) (simp add: template_by_id_def)

section \<open>Evidence\<close>

definition grounded_unit :: "EvidenceBundle \<Rightarrow> string \<Rightarrow> EvidenceUnit \<Rightarrow> bool" where
  "grounded_unit b e u \<longleftrightarrow> u \<in> set (EvidenceBundle.evidence_units b) \<and> EvidenceUnit.evidence_id u = e
     \<and> EvidenceUnit.tenant_id u = EvidenceBundle.tenant_id b
     \<and> EvidenceUnit.submission_id u = Some (EvidenceBundle.submission_id b)
     \<and> EvidenceUnit.source_role u = ArtifactRole.SUBMISSION
     \<and> e \<in> set (EvidenceBundle.allowed_evidence_ids b)"

lemma evidence_grounded:
  assumes "evidence_context_error b = None" and "evidence_by_id (from_bundle b) e = Some u"
  shows "grounded_unit b e u"
  using assms units.lookup_hit [OF assms(2)]
  by (auto simp: evidence_context_error_def checks grounded_unit_def)

lemma evidence_known:
  assumes "evidence_context_error b = None" and "evidence_by_id (from_bundle b) e \<noteq> None"
  shows "\<exists>u. evidence_by_id (from_bundle b) e = Some u \<and> grounded_unit b e u"
  using assms evidence_grounded by blast

text \<open>What an accepted opportunity of a mapping is.\<close>

definition grounded_opportunity :: "AssessmentBlueprint \<Rightarrow> EvidenceBundle \<Rightarrow> QuestionOpportunity \<Rightarrow> bool" where
  "grounded_opportunity bp b q \<longleftrightarrow> (\<exists>d v t.
       d \<in> set (AssessmentBlueprint.dimensions bp) \<and> BlueprintDimension.dimension_id d = QuestionOpportunity.dimension_id q
     \<and> v \<in> set (BlueprintDimension.evidence_variants d) \<and> EvidenceVariant.variant_id v = QuestionOpportunity.variant_id q
     \<and> t \<in> set (EvidenceVariant.question_opportunities v)
     \<and> QuestionOpportunityTemplate.opportunity_template_id t = QuestionOpportunity.opportunity_template_id q
     \<and> inherits q t d \<and> QuestionOpportunity.cognitive_operation q = QuestionOpportunityTemplate.cognitive_operation t
     \<and> QuestionOpportunity.cognitive_operation q \<in> operations_of v
     \<and> QuestionOpportunity.submission_id q = EvidenceBundle.submission_id b
     \<and> EvidenceRequirement.min_distinct_units (EvidenceVariant.evidence_requirement v)
          \<le> int (length (QuestionOpportunity.evidence_ids q))
     \<and> distinct (QuestionOpportunity.evidence_ids q)
     \<and> (\<forall>e \<in> set (QuestionOpportunity.evidence_ids q). \<exists>u. grounded_unit b e u
          \<and> EvidenceUnit.modality u \<in> set (EvidenceRequirement.allowed_modalities (EvidenceVariant.evidence_requirement v))
          \<and> EvidenceRequirement.min_extraction_confidence (EvidenceVariant.evidence_requirement v)
              \<le> EvidenceUnit.extraction_confidence u))"

lemma opportunity_grounded:
  assumes ev: "evidence_context_error b = None" and sub: "EvidenceMapPatch.submission_id mp = EvidenceBundle.submission_id b"
    and ok: "opportunity_error bp (from_bundle b) mp q = None"
  shows "grounded_opportunity bp b q"
proof -
  note ok' = ok [unfolded opportunity_error_def Let_def first_error_None_Cons ctx_if_None require_unique_None
      list_ex_iff de_Morgan_disj not_not]
  from ok' obtain d v t where d: "dimension_by_id bp (QuestionOpportunity.dimension_id q) = Some d"
      and v: "variant_by_id bp (QuestionOpportunity.variant_id q) = Some v"
      and t: "template_by_id bp (QuestionOpportunity.opportunity_template_id q) = Some t" by blast
  note hits = dims.lookup_hit [OF d] vars.lookup_hit [OF v] templates.lookup_hit [OF t]
  have units: "\<exists>u. grounded_unit b e u
          \<and> EvidenceUnit.modality u \<in> set (EvidenceRequirement.allowed_modalities (EvidenceVariant.evidence_requirement v))
          \<and> EvidenceRequirement.min_extraction_confidence (EvidenceVariant.evidence_requirement v)
              \<le> EvidenceUnit.extraction_confidence u" if e: "e \<in> set (QuestionOpportunity.evidence_ids q)" for e
  proof -
    obtain u where u: "evidence_by_id (from_bundle b) e = Some u" "grounded_unit b e u"
      using evidence_known [OF ev] ok' e by blast
    then have "u \<in> set (units_of (from_bundle b) (QuestionOpportunity.evidence_ids q))"
      using e by (force simp: units_of_def)
    then show ?thesis using ok' u(2) v by (metis not_less option.sel)
  qed
  have "int (card (set (QuestionOpportunity.evidence_ids q))) = int (length (QuestionOpportunity.evidence_ids q))"
    using ok' by (simp add: distinct_card)
  then show ?thesis
    unfolding grounded_opportunity_def
    using ok' hits d v t units sub by (intro exI [of _ d] exI [of _ v] exI [of _ t]) auto
qed

lemma ready_map_checks:
  assumes "validate_evidence_map mp bp b = None" and "EvidenceMapPatch.status mp = ''READY''"
  shows "evidence_context_error b = None" "EvidenceMapPatch.submission_id mp = EvidenceBundle.submission_id b"
    "\<forall>q \<in> set (EvidenceMapPatch.opportunities mp). opportunity_error bp (from_bundle b) mp q = None"
    "\<forall>cl \<in> set (EvidenceMapPatch.claims mp). claim_error bp (from_bundle b) cl = None"
  using assms by (simp_all add: validate_evidence_map_def Let_def checks)

section \<open>Candidates and guides\<close>

text \<open>The transformations whose text must be quoted from the evidence.\<close>

definition quoting :: "string set" where
  "quoting = {''LITERAL'', ''CROP'', ''CODE_CONTEXT'', ''ALT_TEXT''}"

definition quoted_fragment :: "EvidenceBundle \<Rightarrow> AnchorFragment \<Rightarrow> bool" where
  "quoted_fragment b fr \<longleftrightarrow> (\<exists>u shown. grounded_unit b (AnchorFragment.evidence_id fr) u
     \<and> AnchorFragment.locator fr = EvidenceUnit.locator u \<and> AnchorFragment.display_text fr = Some shown
     \<and> (AnchorFragment.transformation fr \<in> quoting \<and> shown \<noteq> [] \<longrightarrow>
          (\<exists>before after. EvidenceUnit.content_text u = Some (before @ shown @ after))))"

lemma contains_text:
  assumes "contains shown (case txt of None \<Rightarrow> [] | Some s \<Rightarrow> s)" and "shown \<noteq> []"
  shows "\<exists>before after. txt = Some (before @ shown @ after)"
  using assms by (cases "txt") (auto simp: contains_iff)

lemma fragment_quoted:
  assumes "evidence_context_error b = None" and "fragment_error (from_bundle b) fr = None"
  shows "quoted_fragment b fr"
proof -
  obtain u where u: "evidence_by_id (from_bundle b) (AnchorFragment.evidence_id fr) = Some u"
    using assms(2) by (auto simp: fragment_error_def split: option.splits)
  obtain shown where shown: "AnchorFragment.display_text fr = Some shown"
    using assms(2) u by (auto simp: fragment_error_def checks)
  have loc: "AnchorFragment.locator fr = EvidenceUnit.locator u"
    and quote: "AnchorFragment.transformation fr \<in> quoting \<Longrightarrow>
      contains shown (case EvidenceUnit.content_text u of None \<Rightarrow> [] | Some txt \<Rightarrow> txt)"
    using assms(2) u shown by (simp_all add: fragment_error_def quoting_def checks)
  show ?thesis
    unfolding quoted_fragment_def
    using evidence_grounded [OF assms(1) u] loc shown contains_text [OF quote]
    by (intro exI [of _ u] exI [of _ shown]) blast
qed

lemma candidate_checks:
  assumes "validate_question_candidate c q b = None"
  shows "evidence_context_error b = None" "candidate_path_error c q b = None"
    "set (QuestionCandidate.evidence_ids c) \<subseteq> set (QuestionOpportunity.evidence_ids q)"
    "check_safe_generated_text (QuestionCandidate.question_text c) = None"
    "\<forall>fr \<in> set (Anchor.fragments (QuestionCandidate.anchor c)). fragment_error (from_bundle b) fr = None"
    "citation_error c b = None"
    "\<forall>e \<in> set (QuestionCandidate.evidence_ids c). evidence_by_id (from_bundle b) e \<noteq> None"
  using assms by (simp_all add: validate_question_candidate_def Let_def checks list_ex_iff)

lemma guide_item_checks:
  assumes "guide_item_error look it = None" and "look (EvaluationGuideItem.question_id it) = Some qn"
  shows "map GuideLevel.level (GuideDraft.levels (EvaluationGuideItem.guide it)) = [0, 1, 2, 3]"
    "\<forall>el \<in> set (GuideDraft.observable_elements (EvaluationGuideItem.guide it)).
       set (ObservableElement.evidence_ids el) \<subseteq> set (SelectedQuestion.evidence_ids qn)
       \<and> set (ObservableElement.source_ids el) \<subseteq> set (SelectedQuestion.course_source_ids qn)"
  using assms by (simp_all add: guide_item_error_def Let_def checks element_error_def)

lemma assessment_distinct:
  "Assessment_validate a = None \<Longrightarrow> distinct (map SelectedQuestion.question_id (Assessment.questions a))"
  by (simp add: Assessment_validate_def checks)

lemma guide_distinct:
  "EvaluationGuide_validate g = None \<Longrightarrow> distinct (map EvaluationGuideItem.question_id (EvaluationGuide.items g))"
  by (simp add: EvaluationGuide_validate_def checks)

section \<open>Plans\<close>

lemma failed_diagnostics_complete:
  assumes "complete_failure st sub bp qn eids dets = Inr plan"
  shows "validate_complete_diagnostics (AssessmentPlan.diagnostics plan) (AssessmentPlan.status plan) True = None"
  using assms
  by (auto simp: complete_failure_def validate_complete_diagnostics_def checks dest!: diagnostic_Inr
      split: option.splits)

lemma failed_plan_accepted:
  assumes "complete_failure st (EvidenceMapPatch.submission_id mp) bp qn eids dets = Inr plan" and "st \<noteq> ''READY''"
  shows "validate_assessment_plan plan mp = None"
  using complete_failure_shape [OF assms(1)] failed_diagnostics_complete [OF assms(1)] assms(2)
  by (simp add: validate_assessment_plan_def Let_def checks)

lemma ready_plan_accepted:
  assumes inp: "planner_inputs mp bp pol" and st: "planner_search mp bp pol = Some st"
    and pl: "ready_plan mp bp pol (AssessmentConstraints.question_count (AssessmentBlueprint.assessment_constraints bp))
      (valid_candidates mp bp pol) st = Inr plan"
  shows "validate_assessment_plan plan mp = None"
proof -
  let ?pr = "primary_of (valid_candidates mp bp pol) st" and ?re = "reserve_of pol (valid_candidates mp bp pol) st"
  note k = search_keeps_restrictions [OF inp st, unfolded keeps_restrictions_def]
  note sh = ready_plan_shape [OF pl]
  have sub: "set (map QuestionOpportunity.opportunity_id (?pr @ ?re))
      \<subseteq> set (map QuestionOpportunity.opportunity_id (EvidenceMapPatch.opportunities mp))"
    and dis: "distinct (map QuestionOpportunity.opportunity_id (?pr @ ?re))"
    and len: "int (length ?pr) = AssessmentPlan.question_count plan"
    using k sh planner_inputsD(7) [OF inp] by auto
  have planned: "AssessmentPlan.selected_opportunity_ids plan @ AssessmentPlan.reserve_opportunity_ids plan
      = map QuestionOpportunity.opportunity_id (?pr @ ?re)"
    and cnt: "length (AssessmentPlan.selected_opportunity_ids plan) = length ?pr"
    using sh by simp_all
  have own: "AssessmentPlan.submission_id plan = EvidenceMapPatch.submission_id mp"
      "AssessmentPlan.status plan = ''READY''" using sh by simp_all
  show ?thesis
    unfolding validate_assessment_plan_def Let_def planned first_error_None_Cons ctx_if_None require_unique_None
    using sub dis len cnt own by (simp add: checks del: map_append)
qed

lemma planner_output_checks:
  assumes inp: "planner_inputs mp bp pol" and pl: "build_assessment_plan mp bp pol = Inr plan"
  shows "validate_assessment_plan plan mp = None"
  using pl
proof (cases rule: build_plan_cases)
  case mapping
  then show ?thesis using failed_plan_accepted [of "EvidenceMapPatch.status mp"] unfolding failure_from_mapping_def guarded_Inr by blast
next
  case (failed st eids dets)
  then show ?thesis using failed_plan_accepted [OF failed(3)] failed(2) by (auto simp: failure_statuses_def)
next
  case (ready st)
  then show ?thesis using ready_plan_accepted [OF inp] by blast
qed

end
