(* ===== verification/ValidationClaims.thy ===== *)
theory ValidationClaims
  imports ValidationCorrect
begin

text \<open>
  The properties of the contextual validators, and a bundle, a candidate, a review and a guide on
  which they hold.
\<close>

section \<open>An example\<close>

definition ex_locator :: "int \<Rightarrow> SourceLocator" where
  "ex_locator pg = LPage \<lparr>PageLocator.kind = ''PAGE_BBOX'', page = pg, bbox = [0, 0, 1, 1], block_index = None\<rparr>"

definition ex_unit :: "string \<Rightarrow> EvidenceUnit" where
  "ex_unit e = \<lparr>EvidenceUnit.schema_version = LEGACY_SCHEMA_VERSION, evidence_id = e, tenant_id = ''tenant_a'',
     submission_id = Some ''sub_a'', artifact_id = ''art_a'', artifact_hash = ''sha256:'' @ replicate 64 (CHR ''0''),
     source_role = ArtifactRole.SUBMISSION, modality = EvidenceModality.PARAGRAPH, locator = ex_locator 1,
     content_text = Some ''I chose a queue because order matters.'', structured_content = None, language = None,
     extraction_confidence = 1, ocr_used = False, sensitive_labels = [], relations = [],
     normalized_hash = ''sha256:'' @ replicate 64 (CHR ''0'')\<rparr>"

definition ex_bundle :: EvidenceBundle where
  "ex_bundle = \<lparr>EvidenceBundle.schema_version = LEGACY_SCHEMA_VERSION, bundle_id = ''bun_a'',
     tenant_id = ''tenant_a'', activity_id = ''act_a'', submission_id = ''sub_a'',
     context_mode = ContextMode.CLOSED, allowed_evidence_ids = [''ev_a'', ''ev_b'', ''ev_c'', ''ev_d''],
     evidence_units = map ex_unit [''ev_a'', ''ev_b'', ''ev_c'', ''ev_d''], course_passages = []\<rparr>"

definition ex_element :: ObservableElement where
  "ex_element = \<lparr>ObservableElement.element_id = ''elem_a'', description = ''names the order'',
     evidence_ids = [''ev_a''], source_ids = [], required_for_level_2 = True\<rparr>"

definition ex_guide_draft :: GuideDraft where
  "ex_guide_draft = \<lparr>GuideDraft.purpose = ''purpose'', observable_elements = [ex_element],
     acceptable_alternatives = [], misconceptions = [],
     levels = map (\<lambda>n. \<lparr>GuideLevel.level = n, label = ''level'', descriptor = ''descriptor'',
        observable_element_ids = [''elem_a'']\<rparr>) [0, 1, 2, 3],
     cannot_infer = []\<rparr>"

definition ex_anchor :: Anchor where
  "ex_anchor = \<lparr>Anchor.anchor_id = ''anc_a'', structure = AnchorStructure.SINGLE_FRAGMENT,
     fragments = [\<lparr>AnchorFragment.evidence_id = ''ev_a'', display_text = Some ''a queue because'',
        transformation = ''LITERAL'', locator = ex_locator 1\<rparr>],
     student_facing_label = None, self_containment_score = 1, answer_leakage_risk = 0\<rparr>"

definition ex_candidate :: QuestionCandidate where
  "ex_candidate = \<lparr>QuestionCandidate.candidate_id = ''cand_a'', submission_id = ''sub_a'',
     opportunity_id = ''opp_a'', opportunity_template_id = ''tpl_one'', dimension_id = ''dim_a'', variant_id = ''var_a'',
     cognitive_operation = CognitiveOperation.JUSTIFY_DECISION, response_format = ResponseFormat.OPEN_SHORT,
     difficulty = DifficultyBand.MEDIUM, estimated_minutes = 5,
     question_text = ''Why a queue?'', anchor = ex_anchor, evidence_ids = [''ev_a''], course_source_ids = [],
     citations = [], choices = [], student_justification_required = True, preliminary_guide = ex_guide_draft,
     uncertainties = []\<rparr>"

definition ex_generation :: QuestionGenerationResult where
  "ex_generation = \<lparr>QuestionGenerationResult.schema_version = LEGACY_SCHEMA_VERSION, submission_id = ''sub_a'',
     opportunity_id = ''opp_a'', context_mode = ContextMode.CLOSED, status = ''READY'',
     candidate = Some ex_candidate, diagnostics = []\<rparr>"

definition ex_review :: "pyfloat \<Rightarrow> QuestionReviewResult" where
  "ex_review sc = \<lparr>QuestionReviewResult.schema_version = LEGACY_SCHEMA_VERSION, submission_id = ''sub_a'',
     opportunity_id = ''opp_a'', status = ''READY'',
     review = Some \<lparr>QuestionSemanticReview.candidate_id = ''cand_a'', decision = ReviewDecision.ACCEPT,
       critical_failure_codes = [],
       scores = \<lparr>QuestionScores.groundedness = sc, anchor_sufficiency = sc, criterion_relevance = sc, answerability = sc,
         cognitive_demand = sc, submission_specificity = sc, clarity = sc, accessibility = sc,
         discriminative_potential = sc, guide_observability = sc\<rparr>,
       estimated_difficulty = DifficultyBand.MEDIUM, estimated_minutes = 5, confidence = sc, justifications = [],
       evidence_ids = [''ev_a''], source_ids = [], diagnostics = []\<rparr>,
     diagnostics = []\<rparr>"

definition ex_validation_policy :: QuestionValidationPolicy where
  "ex_validation_policy = \<lparr>QuestionValidationPolicy.schema_version = LEGACY_SCHEMA_VERSION, policy_id = ''pol_v'',
     minimum_groundedness = 1/2, minimum_anchor_sufficiency = 1/2, minimum_answerability = 1/2,
     minimum_criterion_relevance = 1/2, escalate_below_confidence = 1/2, critical_failure_codes = []\<rparr>"

definition zero_hash :: string where
  "zero_hash = ''sha256:'' @ replicate 64 (CHR ''0'')"

definition ex_question :: SelectedQuestion where
  "ex_question = \<lparr>SelectedQuestion.question_id = ''q_a'', source_candidate_id = ''cand_a'',
     opportunity_id = ''opp_a'', opportunity_template_id = ''tpl_one'', dimension_id = ''dim_a'', variant_id = ''var_a'',
     cognitive_operation = CognitiveOperation.JUSTIFY_DECISION, response_format = ResponseFormat.OPEN_SHORT,
     difficulty = DifficultyBand.MEDIUM, estimated_minutes = 5,
     question_text = ''Why a queue?'', anchor = ex_anchor, evidence_ids = [''ev_a''], course_source_ids = [],
     citations = [], choices = [], student_justification_required = True, preliminary_guide = ex_guide_draft,
     planning_score = 1/2\<rparr>"

definition ex_assessment :: Assessment where
  "ex_assessment = \<lparr>Assessment.schema_version = LEGACY_SCHEMA_VERSION, assessment_id = ''asm_a'',
     tenant_id = ''tenant_a'', activity_id = ''act_a'', submission_id = ''sub_a'', subject_ref = ''subject_a'',
     status = WorkflowStatus.READY, context_mode = ContextMode.CLOSED, assessment_plan_id = ''plan_a'',
     question_count = 1, questions = [ex_question], coverage = [],
     structured_justification = \<lparr>StructuredJustificationSummary.mode = StructuredJustificationMode.ALL,
       required_question_ids = [''q_a''], limited_evidence_notice_required = False\<rparr>,
     diagnostics = [],
     lineage = \<lparr>Lineage.assignment_prompt_hashes = [], rubric_hashes = [], submission_hashes = [],
       blueprint_id = ''bp_a'', blueprint_version = 1, parser_versions = [], prompt_versions = [],
       schema_version = LEGACY_SCHEMA_VERSION, model_snapshots = [], policy_hash = zero_hash,
       planner_version = ''p'', renderer_version = ''r''\<rparr>,
     created_at = utc_time 0, approved_by = None, approved_at = None\<rparr>"

definition ex_guide :: EvaluationGuide where
  "ex_guide = \<lparr>EvaluationGuide.schema_version = LEGACY_SCHEMA_VERSION, guide_id = ''guide_a'',
     assessment_id = ''asm_a'', submission_id = ''sub_a'', status = ''READY'',
     items = [\<lparr>EvaluationGuideItem.question_id = ''q_a'', guide = ex_guide_draft\<rparr>],
     diagnostics = [], created_at = utc_time 0\<rparr>"

lemma ex_map_accepted:
  "validate_evidence_map (ex_mapping ex_opportunities) (ex_blueprint StructuredJustificationMode.SELECTED) ex_bundle = None"
  by code_simp

lemma ex_bundle_context: "evidence_context_error ex_bundle = None"
  by (simp add: evidence_context_error_def ex_bundle_def ex_unit_def checks)

lemma ex_candidate_parts:
  "candidate_path_error ex_candidate (hd ex_opportunities) ex_bundle = None"
  "check_safe_generated_text (QuestionCandidate.question_text ex_candidate) = None"
  "citation_error ex_candidate ex_bundle = None"
  by code_simp+

lemma ex_fragment:
  "fragment_error (from_bundle ex_bundle) (hd (Anchor.fragments ex_anchor)) = None"
  by (simp add: fragment_error_def from_bundle_def ex_bundle_def ex_anchor_def ex_unit_def dict_by_def checks)

lemma ex_candidate_accepted: "validate_question_candidate ex_candidate (hd ex_opportunities) ex_bundle = None"
  using ex_bundle_context ex_candidate_parts ex_fragment
  by (simp add: validate_question_candidate_def Let_def checks ex_candidate_def ex_anchor_def ex_opportunities_def
      ex_opportunity_def ex_guide_draft_def ex_element_def element_error_def)
    (simp add: from_bundle_def ex_bundle_def dict_by_def ex_unit_def)

lemma ex_candidate_valid: "QuestionCandidate_validate ex_candidate = None"
  by code_simp

lemma ex_review_accepted:
  "validate_review_result (ex_review 1) ex_generation ex_validation_policy = None"
  "validate_review_result (ex_review (1/4)) ex_generation ex_validation_policy
     = Some (CtxErr ''QUESTION_POLICY_VIOLATION''
         ''an accepted question violates validation thresholds or critical gates'')"
  by (simp_all add: validate_review_result_def ex_review_def ex_generation_def ready_review_error_def
      ex_candidate_def below_threshold_def ex_validation_policy_def Let_def ctx_if_def raise_if_def)

lemma ex_guide_accepted:
  "validate_evaluation_guide ex_guide ex_assessment ex_bundle = None"
  by (simp add: validate_evaluation_guide_def ex_guide_def ex_assessment_def ex_bundle_def guide_item_error_def
      ex_guide_draft_def ex_element_def element_error_def ex_question_def dict_by_def checks Let_def)

lemma ex_guide_valid: "EvaluationGuide_validate ex_guide = None"
  by code_simp

lemma ex_assessment_valid: "Assessment_validate ex_assessment = None"
  by code_simp

section \<open>Properties\<close>

text \<open>C15: an opportunity of an accepted READY mapping comes from the blueprint and stands on the
  submission: its dimension, variant and template are a path of the blueprint and it inherits the
  template's constraints; each of its evidence identifiers names a unit of the bundle, of its tenant
  and submission, in an allowed modality and above the confidence floor; and there are as many
  different ones as the variant demands.\<close>

theorem accepted_map_grounded:
  assumes "validate_evidence_map mp bp b = None" and "EvidenceMapPatch.status mp = ''READY''"
    and "q \<in> set (EvidenceMapPatch.opportunities mp)"
  shows "grounded_opportunity bp b q"
  using ready_map_checks [OF assms(1,2)] assms(3) by (blast intro: opportunity_grounded)

theorem accepted_map_grounded_witness:
  "grounded_opportunity (ex_blueprint StructuredJustificationMode.SELECTED) ex_bundle (hd ex_opportunities)"
  by (rule accepted_map_grounded [OF ex_map_accepted]) (simp_all add: ex_mapping_def ex_opportunities_def)

text \<open>C16: an accepted candidate is grounded.  Every fragment of its anchor points at a unit of the
  bundle, of the tenant and the submission, that the opportunity allows, at the unit's own place,
  and a quoting fragment is a piece of the unit's text; in a CLOSED context it cites nothing, and
  otherwise only passages of the bundle.\<close>

theorem accepted_candidate_grounded:
  assumes "QuestionCandidate_validate c = None" and "validate_question_candidate c q b = None"
  shows "(\<forall>fr \<in> set (Anchor.fragments (QuestionCandidate.anchor c)). quoted_fragment b fr
       \<and> AnchorFragment.evidence_id fr \<in> set (QuestionOpportunity.evidence_ids q))
     \<and> (EvidenceBundle.context_mode b = ContextMode.CLOSED \<longrightarrow> QuestionCandidate.citations c = [])
     \<and> (\<forall>sid \<in> set (QuestionCandidate.course_source_ids c). \<exists>psg \<in> set (EvidenceBundle.course_passages b).
          CoursePassage.source_id psg = sid)"
proof -
  note k = candidate_checks [OF assms(2)]
  have "set (map AnchorFragment.evidence_id (Anchor.fragments (QuestionCandidate.anchor c)))
      \<subseteq> set (QuestionCandidate.evidence_ids c)"
    using assms(1) by (simp add: QuestionCandidate_validate_def checks)
  moreover have "\<exists>psg \<in> set (EvidenceBundle.course_passages b). CoursePassage.source_id psg = sid"
    if "sid \<in> set (QuestionCandidate.course_source_ids c)" for sid
  proof -
    have "course_sources_by_id (from_bundle b) sid \<noteq> None"
      using k(6) that by (auto simp: citation_error_def checks list_ex_iff split: if_splits)
    then show ?thesis using passages.lookup_hit [of b sid] by blast
  qed
  moreover have "EvidenceBundle.context_mode b = ContextMode.CLOSED \<longrightarrow> QuestionCandidate.citations c = []"
    using k(6) by (simp add: citation_error_def checks)
  ultimately show ?thesis
    using k(1,3,5) fragment_quoted by (auto simp: image_subset_iff)
qed

theorem accepted_candidate_grounded_witness:
  "quoted_fragment ex_bundle (hd (Anchor.fragments ex_anchor))"
  using accepted_candidate_grounded [OF ex_candidate_valid ex_candidate_accepted]
  by (simp add: ex_candidate_def ex_anchor_def)

text \<open>The text of an accepted candidate contains, as a word, no prohibited phrase in upper or
  lower case, and no AWS access key.\<close>

theorem accepted_text_safe:
  assumes "validate_question_candidate c q b = None"
    and "QuestionCandidate.question_text c = pre @ w @ post"
    and "boundary (last_opt None pre) (w @ post)" and "boundary (last_opt None (pre @ w)) post"
  shows "lower w \<notin> set prohibited_phrases
     \<and> (\<forall>key. w = ''AKIA'' @ key \<and> length key = 16 \<longrightarrow> \<not> list_all aws_key_char key)"
proof (intro conjI allI impI)
  have safe: "\<not> prohibited_claim (pre @ w @ post)" "\<not> exposes_secret (pre @ w @ post)"
    using candidate_checks(4) [OF assms(1)] assms(2)
    by (simp_all add: check_safe_generated_text_def checks)
  show "lower w \<notin> set prohibited_phrases"
    using safe(1) phrase_match [OF _ assms(3,4), of "lower w"]
    by (auto simp: prohibited_claim_def list_ex_iff lower_def)
  fix key assume w: "w = ''AKIA'' @ key \<and> length key = 16"
  then have "key \<noteq> []" by auto
  with w have "boundary (last_opt None pre) (CHR ''A'' # post)" "boundary (Some (last key)) post"
    using assms(3,4) by (auto simp: boundary_def head_opt_def last_opt_def)
  from aws_key_match [OF _ _ this] show "\<not> list_all aws_key_char key"
    using safe(2) w by auto
qed

theorem accepted_text_safe_witness:
  "lower ''queue'' \<notin> set prohibited_phrases"
proof -
  have t: "QuestionCandidate.question_text ex_candidate = ''Why a '' @ ''queue'' @ ''?''"
    by (simp add: ex_candidate_def)
  have b: "boundary (last_opt None ''Why a '') (''queue'' @ ''?'')"
    "boundary (last_opt None (''Why a '' @ ''queue'')) ''?''" by code_simp+
  from accepted_text_safe [OF ex_candidate_accepted t b] show ?thesis by blast
qed

text \<open>C17: a review whose decision is ACCEPT passes only when every gated score and the confidence
  reach the policy and no critical failure is recorded; it is about the generated candidate, and its
  evidence is the candidate's.\<close>

theorem accepted_review_meets_policy:
  assumes "validate_review_result r g vp = None" and "QuestionReviewResult.status r = ''READY''"
  shows "\<exists>rv c. QuestionReviewResult.review r = Some rv \<and> QuestionGenerationResult.candidate g = Some c
     \<and> QuestionSemanticReview.candidate_id rv = QuestionCandidate.candidate_id c
     \<and> set (QuestionSemanticReview.evidence_ids rv) \<subseteq> set (QuestionCandidate.evidence_ids c)
     \<and> (QuestionSemanticReview.decision rv = ReviewDecision.ACCEPT \<longrightarrow>
          QuestionValidationPolicy.minimum_groundedness vp
            \<le> QuestionScores.groundedness (QuestionSemanticReview.scores rv)
        \<and> QuestionValidationPolicy.minimum_anchor_sufficiency vp
            \<le> QuestionScores.anchor_sufficiency (QuestionSemanticReview.scores rv)
        \<and> QuestionValidationPolicy.minimum_criterion_relevance vp
            \<le> QuestionScores.criterion_relevance (QuestionSemanticReview.scores rv)
        \<and> QuestionValidationPolicy.minimum_answerability vp
            \<le> QuestionScores.answerability (QuestionSemanticReview.scores rv)
        \<and> QuestionValidationPolicy.escalate_below_confidence vp \<le> QuestionSemanticReview.confidence rv
        \<and> QuestionSemanticReview.critical_failure_codes rv = [])"
proof -
  obtain rv c where rc: "QuestionReviewResult.review r = Some rv" "QuestionGenerationResult.candidate g = Some c"
      "ready_review_error r rv g c vp = None"
    using assms by (auto simp: validate_review_result_def split: option.splits)
  then show ?thesis
    by (intro exI [of _ rv] exI [of _ c])
      (auto simp: ready_review_error_def checks below_threshold_def Let_def not_less)
qed

theorem accepted_review_meets_policy_witness:
  "\<exists>rv. QuestionReviewResult.review (ex_review 1) = Some rv
     \<and> 1/2 \<le> QuestionScores.groundedness (QuestionSemanticReview.scores rv)"
  using accepted_review_meets_policy [OF ex_review_accepted(1)] by (auto simp: ex_review_def ex_validation_policy_def)

text \<open>C18: an accepted READY guide has exactly one item per question of the assessment, in some
  order, and each item has the levels 0 to 3 and stays within the evidence and the sources of its
  question.\<close>

theorem accepted_guide_covers:
  assumes "validate_evaluation_guide g a b = None" and "EvaluationGuide.status g = ''READY''"
    and "EvaluationGuide_validate g = None" and "Assessment_validate a = None"
  shows "mset (map EvaluationGuideItem.question_id (EvaluationGuide.items g))
       = mset (map SelectedQuestion.question_id (Assessment.questions a))
     \<and> (\<forall>it \<in> set (EvaluationGuide.items g). \<exists>qn \<in> set (Assessment.questions a).
          SelectedQuestion.question_id qn = EvaluationGuideItem.question_id it
        \<and> map GuideLevel.level (GuideDraft.levels (EvaluationGuideItem.guide it)) = [0, 1, 2, 3]
        \<and> (\<forall>el \<in> set (GuideDraft.observable_elements (EvaluationGuideItem.guide it)).
             set (ObservableElement.evidence_ids el) \<subseteq> set (SelectedQuestion.evidence_ids qn)
           \<and> set (ObservableElement.source_ids el) \<subseteq> set (SelectedQuestion.course_source_ids qn)))"
proof -
  let ?look = "dict_by SelectedQuestion.question_id (Assessment.questions a)"
  have ids: "set (map EvaluationGuideItem.question_id (EvaluationGuide.items g))
      = set (map SelectedQuestion.question_id (Assessment.questions a))"
    and items: "\<forall>it \<in> set (EvaluationGuide.items g). guide_item_error ?look it = None"
    using assms(1,2) by (simp_all add: validate_evaluation_guide_def checks)
  have "\<exists>qn \<in> set (Assessment.questions a). SelectedQuestion.question_id qn = EvaluationGuideItem.question_id it
      \<and> ?look (EvaluationGuideItem.question_id it) = Some qn" if "it \<in> set (EvaluationGuide.items g)" for it
  proof -
    have "EvaluationGuideItem.question_id it \<in> SelectedQuestion.question_id ` set (Assessment.questions a)"
      using ids that by auto
    then obtain qn where "?look (EvaluationGuideItem.question_id it) = Some qn"
      using dict.lookup_miss [of SelectedQuestion.question_id "Assessment.questions a"] by (metis not_None_eq)
    with dict.lookup_hit [OF this] show ?thesis by blast
  qed
  moreover have "mset (map EvaluationGuideItem.question_id (EvaluationGuide.items g))
       = mset (map SelectedQuestion.question_id (Assessment.questions a))"
    using ids guide_distinct [OF assms(3)] assessment_distinct [OF assms(4)] set_eq_iff_mset_eq_distinct by blast
  ultimately show ?thesis
    using items guide_item_checks [of ?look] by (intro conjI ballI) (assumption, metis)
qed

theorem accepted_guide_covers_witness:
  "mset (map EvaluationGuideItem.question_id (EvaluationGuide.items ex_guide))
     = mset (map SelectedQuestion.question_id (Assessment.questions ex_assessment))"
  using accepted_guide_covers [OF ex_guide_accepted _ ex_guide_valid ex_assessment_valid]
  by (simp add: ex_guide_def)

text \<open>Whatever the planner returns is accepted by the plan validator.\<close>

theorem planner_output_accepted:
  assumes "planner_inputs mp bp pol" and "build_assessment_plan mp bp pol = Inr plan"
  shows "validate_assessment_plan plan mp = None"
  by (rule planner_output_checks [OF assms])

theorem planner_output_accepted_witness:
  "\<exists>plan. build_assessment_plan (ex_mapping ex_opportunities)
     (ex_blueprint StructuredJustificationMode.SELECTED) (ex_policy 2) = Inr plan
     \<and> validate_assessment_plan plan (ex_mapping ex_opportunities) = None"
  using ex_ready [OF ex_inputs(1)] planner_output_accepted [OF ex_inputs(1)] by blast

text \<open>C19: from the evidence to the plan.  When the mapping passes its validator, every opportunity a
  READY plan selects or reserves, by whatever identifier, is grounded in the bundle.\<close>

theorem planned_opportunities_grounded:
  assumes "validate_evidence_map mp bp b = None" and "planner_inputs mp bp pol"
    and "build_assessment_plan mp bp pol = Inr plan" and "AssessmentPlan.status plan = ''READY''"
    and "oid \<in> set (AssessmentPlan.selected_opportunity_ids plan @ AssessmentPlan.reserve_opportunity_ids plan)"
  shows "\<exists>q. QuestionOpportunity.opportunity_id q = oid \<and> q \<in> set (EvidenceMapPatch.opportunities mp)
     \<and> grounded_opportunity bp b q"
proof -
  have "EvidenceMapPatch.status mp = ''READY''"
    using build_plan_valid(3) [OF assms(3)] assms(4) by metis
  note checks = ready_map_checks [OF assms(1) this]
  have "oid \<in> set (map QuestionOpportunity.opportunity_id (EvidenceMapPatch.opportunities mp))"
    using planner_output_checks [OF assms(2,3)] assms(4,5)
    unfolding validate_assessment_plan_def Let_def first_error_None_Cons ctx_if_None if_check_None by blast
  then obtain q where "q \<in> set (EvidenceMapPatch.opportunities mp)" "QuestionOpportunity.opportunity_id q = oid"
    by auto
  with opportunity_grounded [OF checks(1,2)] checks(3) show ?thesis by blast
qed

theorem planned_opportunities_grounded_witness:
  "\<exists>plan q. build_assessment_plan (ex_mapping ex_opportunities)
     (ex_blueprint StructuredJustificationMode.SELECTED) (ex_policy 2) = Inr plan
     \<and> QuestionOpportunity.opportunity_id q = hd (AssessmentPlan.selected_opportunity_ids plan)
     \<and> hd (AssessmentPlan.selected_opportunity_ids plan) \<in> set (AssessmentPlan.selected_opportunity_ids plan)
     \<and> grounded_opportunity (ex_blueprint StructuredJustificationMode.SELECTED) ex_bundle q"
proof -
  obtain plan where p: "build_assessment_plan (ex_mapping ex_opportunities)
       (ex_blueprint StructuredJustificationMode.SELECTED) (ex_policy 2) = Inr plan"
      "AssessmentPlan.status plan = ''READY''"
    using ex_ready [OF ex_inputs(1)] by blast
  have "AssessmentPlan.selected_opportunity_ids plan \<noteq> []"
    using build_plan_valid(1) [OF p(1)] p(2) by (auto simp: AssessmentPlan_validate_def checks)
  then have hd: "hd (AssessmentPlan.selected_opportunity_ids plan) \<in> set (AssessmentPlan.selected_opportunity_ids plan)"
    by simp
  have "hd (AssessmentPlan.selected_opportunity_ids plan)
      \<in> set (AssessmentPlan.selected_opportunity_ids plan @ AssessmentPlan.reserve_opportunity_ids plan)"
    using hd by simp
  from planned_opportunities_grounded [OF ex_map_accepted ex_inputs(1) p this] p(1) hd show ?thesis by blast
qed

text \<open>\<open>validate_utc\<close> accepts every aware time, whatever its offset: it compares the offset of the
  converted time with that of UTC, and both are zero.  The contracts' own \<open>require_utc\<close> rejects it.\<close>

theorem validate_utc_accepts_every_offset:
  "(validate_utc t lbl = None \<longleftrightarrow> utc_offset t \<noteq> None)
   \<and> (require_utc t fld = None \<longleftrightarrow> utc_offset t = Some 0)"
  by (simp add: validate_utc_def checks astimezone_utc_def)

end
