(* ===== verification/ContractsStage2.thy ===== *)
theory ContractsStage2
  imports ContractsRuntime
begin

text \<open>
  The contracts of stage 2 (coverage, exports, metrics, feedback, review records) and the prompt
  request roots.
\<close>

record CoverageTraceItem =
  submission_id :: "string"
  assessment_id :: "string option"
  assessment_version :: "int option"
  dimension_id :: "string"
  criterion_ids :: "string list"
  variant_id :: "string"
  opportunity_id :: "string"
  evidence_ids :: "string list"
  cognitive_operation :: "CognitiveOperation"
  planning_role :: "CoveragePlanningRole"
  outcome :: "CoverageOutcome"
  reused_variant :: "bool"
  failure_code :: "string option"
  exclusion_reason_code :: "string option"
  diagnostics :: "Diagnostic list"

definition CoverageTraceItem_validate :: "CoverageTraceItem \<Rightarrow> contract_error option" where
  "CoverageTraceItem_validate x = first_error [
     field_errors [
         (''submission_id'', Id_ok (CoverageTraceItem.submission_id x)),
         (''assessment_id'', opt_all Id_ok (CoverageTraceItem.assessment_id x)),
         (''assessment_version'', opt_all (\<lambda>e. 1 \<le> e) (CoverageTraceItem.assessment_version x)),
         (''dimension_id'', Id_ok (CoverageTraceItem.dimension_id x)),
         (''criterion_ids'', length (CoverageTraceItem.criterion_ids x) \<le> 100 \<and> list_all Id_ok (CoverageTraceItem.criterion_ids x)),
         (''variant_id'', Id_ok (CoverageTraceItem.variant_id x)),
         (''opportunity_id'', Id_ok (CoverageTraceItem.opportunity_id x)),
         (''evidence_ids'', length (CoverageTraceItem.evidence_ids x) \<le> 50 \<and> list_all Id_ok (CoverageTraceItem.evidence_ids x)),
         (''failure_code'', opt_all (upper_code 63) (CoverageTraceItem.failure_code x)),
         (''exclusion_reason_code'', opt_all (upper_code 63) (CoverageTraceItem.exclusion_reason_code x)),
         (''diagnostics'', length (CoverageTraceItem.diagnostics x) \<le> 100 \<and> list_all (valid Diagnostic_validate) (CoverageTraceItem.diagnostics x))],
     fail_if ((CoverageTraceItem.assessment_id x = None) \<noteq> (CoverageTraceItem.assessment_version x = None)) ''assessment_id and assessment_version must be paired'',
     fail_if (has_dup (CoverageTraceItem.criterion_ids x)) ''coverage criterion_ids must be unique'',
     fail_if (has_dup (CoverageTraceItem.evidence_ids x)) ''coverage evidence_ids must be unique'',
     fail_if (CoverageTraceItem.planning_role x \<in> {CoveragePlanningRole.PRIMARY, CoveragePlanningRole.RESERVE} \<and> CoverageTraceItem.evidence_ids x = []) ''planned opportunity requires evidence_ids'',
     (if CoverageTraceItem.planning_role x = CoveragePlanningRole.EXCLUDED
      then fail_if (CoverageTraceItem.outcome x \<noteq> CoverageOutcome.EXCLUDED \<or> CoverageTraceItem.exclusion_reason_code x = None) ''excluded opportunity requires outcome and reason''
      else fail_if (CoverageTraceItem.outcome x = CoverageOutcome.EXCLUDED \<or> CoverageTraceItem.exclusion_reason_code x \<noteq> None) ''exclusion fields are allowed only for EXCLUDED planning role''),
     fail_if ((CoverageTraceItem.outcome x = CoverageOutcome.FAILED) \<noteq> (CoverageTraceItem.failure_code x \<noteq> None)) ''failure_code is required exactly for FAILED outcome'']"

record CoverageReport =
  schema_version :: "string"
  report_id :: "string"
  tenant_id :: "string"
  activity_id :: "string"
  scope :: "CoverageScope"
  submission_id :: "string option"
  assessment_id :: "string option"
  assessment_version :: "int option"
  blueprint_id :: "string"
  blueprint_version :: "int"
  source_snapshot_hash :: "string"
  summary :: "CoverageItem list"
  traces :: "CoverageTraceItem list"
  diagnostics :: "Diagnostic list"
  generated_at :: "datetime"

definition counts_match :: "CoverageItem \<Rightarrow> CoverageTraceItem list \<Rightarrow> bool" where
  "counts_match i ts \<longleftrightarrow>
     CoverageItem.available_variant_count i = int (card (set (map CoverageTraceItem.variant_id ts)))
     \<and> CoverageItem.available_opportunity_count i = int (length ts)
     \<and> CoverageItem.selected_opportunity_count i =
         int (length (filter (\<lambda>t. CoverageTraceItem.planning_role t = CoveragePlanningRole.PRIMARY) ts))
     \<and> CoverageItem.reused_variant_count i = int (length (filter CoverageTraceItem.reused_variant ts))
     \<and> CoverageItem.evidence_unit_count i = int (card (set (concat (map CoverageTraceItem.evidence_ids ts))))"

definition CoverageReport_validate :: "CoverageReport \<Rightarrow> contract_error option" where
  "CoverageReport_validate x = first_error [
     field_errors [
         (''schema_version'', (CoverageReport.schema_version x) = CONTRACT_VERSION),
         (''report_id'', Id_ok (CoverageReport.report_id x)),
         (''tenant_id'', Id_ok (CoverageReport.tenant_id x)),
         (''activity_id'', Id_ok (CoverageReport.activity_id x)),
         (''submission_id'', opt_all Id_ok (CoverageReport.submission_id x)),
         (''assessment_id'', opt_all Id_ok (CoverageReport.assessment_id x)),
         (''assessment_version'', opt_all (\<lambda>e. 1 \<le> e) (CoverageReport.assessment_version x)),
         (''blueprint_id'', Id_ok (CoverageReport.blueprint_id x)),
         (''blueprint_version'', 1 \<le> (CoverageReport.blueprint_version x)),
         (''source_snapshot_hash'', Hash_ok (CoverageReport.source_snapshot_hash x)),
         (''summary'', 1 \<le> length (CoverageReport.summary x) \<and> length (CoverageReport.summary x) \<le> 500 \<and> list_all (valid CoverageItem_validate) (CoverageReport.summary x)),
         (''traces'', length (CoverageReport.traces x) \<le> 10000 \<and> list_all (valid CoverageTraceItem_validate) (CoverageReport.traces x)),
         (''diagnostics'', length (CoverageReport.diagnostics x) \<le> 500 \<and> list_all (valid Diagnostic_validate) (CoverageReport.diagnostics x))],
     require_utc (CoverageReport.generated_at x) ''generated_at'',
     fail_if ((CoverageReport.assessment_id x = None) \<noteq> (CoverageReport.assessment_version x = None)) ''assessment_id and assessment_version must be paired'',
     (if CoverageReport.scope x = CoverageScope.SUBMISSION then first_error [
       fail_if (CoverageReport.submission_id x = None) ''SUBMISSION coverage requires submission_id'',
       fail_if (list_ex (\<lambda>t. Some (CoverageTraceItem.submission_id t) \<noteq> CoverageReport.submission_id x) (CoverageReport.traces x)) ''coverage trace belongs to another submission'',
       fail_if (CoverageReport.assessment_id x \<noteq> None \<and>
         list_ex (\<lambda>t. CoverageTraceItem.assessment_id t \<noteq> CoverageReport.assessment_id x
           \<or> CoverageTraceItem.assessment_version t \<noteq> CoverageReport.assessment_version x) (CoverageReport.traces x)) ''coverage trace belongs to another assessment version'']
      else fail_if (CoverageReport.submission_id x \<noteq> None \<or> CoverageReport.assessment_id x \<noteq> None) ''ACTIVITY coverage cannot select one submission/assessment''),
     fail_if (has_dup (map (\<lambda>t. (CoverageTraceItem.submission_id t, CoverageTraceItem.opportunity_id t)) (CoverageReport.traces x))) ''coverage traces must have unique submission/opportunity pairs'',
     fail_if (has_dup (map CoverageItem.dimension_id (CoverageReport.summary x))) ''coverage summary dimension_ids must be unique'',
     fail_if (\<not> set (map CoverageTraceItem.dimension_id (CoverageReport.traces x)) \<subseteq> set (map CoverageItem.dimension_id (CoverageReport.summary x))) ''every trace dimension requires a summary item'',
     first_error (map (\<lambda>i. fail_if (\<not> counts_match i
         (filter (\<lambda>t. CoverageTraceItem.dimension_id t = CoverageItem.dimension_id i) (CoverageReport.traces x))) ''coverage summary counts must match traceable items'')
       (CoverageReport.summary x))]"

record ExportArtifact =
  export_artifact_id :: "string"
  kind :: "ExportKind"
  media_type :: "string"
  object_key :: "string"
  sha256 :: "string"
  byte_size :: "int"
  created_at :: "datetime"

fun expected_media_type :: "ExportKind \<Rightarrow> string" where
  "expected_media_type ExportKind.ASSESSMENT_PDF = ''application/pdf''"
| "expected_media_type ExportKind.ASSESSMENT_HTML = ''text/html''"
| "expected_media_type ExportKind.GUIDE_PDF = ''application/pdf''"
| "expected_media_type ExportKind.GUIDE_HTML = ''text/html''"
| "expected_media_type ExportKind.COVERAGE_CSV = ''text/csv''"
| "expected_media_type ExportKind.COVERAGE_JSON = ''application/json''"
| "expected_media_type ExportKind.CANONICAL_JSON = ''application/json''"

definition ExportArtifact_validate :: "ExportArtifact \<Rightarrow> contract_error option" where
  "ExportArtifact_validate x = first_error [
     field_errors [
         (''export_artifact_id'', Id_ok (ExportArtifact.export_artifact_id x)),
         (''media_type'', str_field 3 255 (ExportArtifact.media_type x)),
         (''object_key'', str_field 1 1024 (ExportArtifact.object_key x)),
         (''sha256'', Hash_ok (ExportArtifact.sha256 x)),
         (''byte_size'', 1 \<le> (ExportArtifact.byte_size x))],
     require_utc (ExportArtifact.created_at x) ''created_at'',
     require_private_reference (ExportArtifact.object_key x) ''object_key'',
     fail_if (ExportArtifact.media_type x \<noteq> expected_media_type (ExportArtifact.kind x)) ''export media_type does not match kind'']"

record ExportRecord =
  schema_version :: "string"
  export_id :: "string"
  tenant_id :: "string"
  activity_id :: "string"
  assessment_id :: "string"
  assessment_version :: "int"
  requested_by :: "string"
  requested_kinds :: "ExportKind list"
  status :: "ExportStatus"
  assessment_snapshot_hash :: "string"
  guide_snapshot_hash :: "string option"
  coverage_snapshot_hash :: "string option"
  renderer_version :: "string"
  artifacts :: "ExportArtifact list"
  model_call_delta :: "int"
  diagnostics :: "Diagnostic list"
  requested_at :: "datetime"
  completed_at :: "datetime option"

definition ExportRecord_validate :: "ExportRecord \<Rightarrow> contract_error option" where
  "ExportRecord_validate x = first_error [
     field_errors [
         (''schema_version'', (ExportRecord.schema_version x) = CONTRACT_VERSION),
         (''export_id'', Id_ok (ExportRecord.export_id x)),
         (''tenant_id'', Id_ok (ExportRecord.tenant_id x)),
         (''activity_id'', Id_ok (ExportRecord.activity_id x)),
         (''assessment_id'', Id_ok (ExportRecord.assessment_id x)),
         (''assessment_version'', 1 \<le> (ExportRecord.assessment_version x)),
         (''requested_by'', PrincipalId_ok (ExportRecord.requested_by x)),
         (''requested_kinds'', 1 \<le> length (ExportRecord.requested_kinds x) \<and> length (ExportRecord.requested_kinds x) \<le> 7),
         (''assessment_snapshot_hash'', Hash_ok (ExportRecord.assessment_snapshot_hash x)),
         (''guide_snapshot_hash'', opt_all Hash_ok (ExportRecord.guide_snapshot_hash x)),
         (''coverage_snapshot_hash'', opt_all Hash_ok (ExportRecord.coverage_snapshot_hash x)),
         (''renderer_version'', str_field 1 128 (ExportRecord.renderer_version x)),
         (''artifacts'', length (ExportRecord.artifacts x) \<le> 7 \<and> list_all (valid ExportArtifact_validate) (ExportRecord.artifacts x)),
         (''model_call_delta'', (ExportRecord.model_call_delta x) = 0),
         (''diagnostics'', length (ExportRecord.diagnostics x) \<le> 100 \<and> list_all (valid Diagnostic_validate) (ExportRecord.diagnostics x))],
     require_utc (ExportRecord.requested_at x) ''requested_at'',
     opt_check (\<lambda>t. first_error [
         require_utc t ''completed_at'',
         fail_if (instant t < instant (ExportRecord.requested_at x)) ''completed_at cannot precede requested_at'']) (ExportRecord.completed_at x),
     fail_if (has_dup (ExportRecord.requested_kinds x)) ''requested export kinds must be unique'',
     fail_if (set (ExportRecord.requested_kinds x) \<inter> {ExportKind.GUIDE_PDF, ExportKind.GUIDE_HTML, ExportKind.CANONICAL_JSON} \<noteq> {}
        \<and> falsy (ExportRecord.guide_snapshot_hash x)) ''guide export requires guide_snapshot_hash'',
     fail_if (set (ExportRecord.requested_kinds x) \<inter> {ExportKind.COVERAGE_CSV, ExportKind.COVERAGE_JSON} \<noteq> {}
        \<and> falsy (ExportRecord.coverage_snapshot_hash x)) ''coverage export requires coverage_snapshot_hash'',
     fail_if (has_dup (map ExportArtifact.export_artifact_id (ExportRecord.artifacts x))) ''export artifact IDs must be unique'',
     fail_if (has_dup (map ExportArtifact.object_key (ExportRecord.artifacts x))) ''export object keys must be unique'',
     fail_if (has_dup (map ExportArtifact.kind (ExportRecord.artifacts x))) ''an export record has at most one artifact per kind'',
     (case ExportRecord.status x of
        ExportStatus.QUEUED \<Rightarrow> fail_if (ExportRecord.completed_at x \<noteq> None \<or> ExportRecord.artifacts x \<noteq> []) ''QUEUED export cannot expose completed artifacts''
      | ExportStatus.READY \<Rightarrow> (case ExportRecord.completed_at x of
            None \<Rightarrow> Some (ValueErr ''READY export requires completed_at'')
          | Some done_at \<Rightarrow> first_error [
              fail_if (set (map ExportArtifact.kind (ExportRecord.artifacts x)) \<noteq> set (ExportRecord.requested_kinds x)) ''READY export must contain every requested kind exactly once'',
              fail_if (list_ex (\<lambda>a. instant (ExportArtifact.created_at a) < instant (ExportRecord.requested_at x)
                \<or> instant done_at < instant (ExportArtifact.created_at a)) (ExportRecord.artifacts x)) ''export artifact timestamp is outside the render window''])
      | ExportStatus.FAILED \<Rightarrow> fail_if (ExportRecord.completed_at x = None \<or> ExportRecord.artifacts x \<noteq> [] \<or> ExportRecord.diagnostics x = []) ''FAILED export requires diagnostics and no artifacts'')]"

record TechnicalMetricAggregate =
  job_count :: "int"
  succeeded_count :: "int"
  failed_count :: "int"
  cancelled_count :: "int"
  retry_count :: "int"
  latency_p50_ms :: "int"
  latency_p95_ms :: "int"
  input_tokens :: "int"
  cached_input_tokens :: "int"
  output_tokens :: "int"
  estimated_cost_usd :: "pyfloat"
  actual_cost_usd :: "pyfloat"

definition TechnicalMetricAggregate_validate :: "TechnicalMetricAggregate \<Rightarrow> contract_error option" where
  "TechnicalMetricAggregate_validate x = first_error [
     field_errors [
         (''job_count'', 0 \<le> (TechnicalMetricAggregate.job_count x)),
         (''succeeded_count'', 0 \<le> (TechnicalMetricAggregate.succeeded_count x)),
         (''failed_count'', 0 \<le> (TechnicalMetricAggregate.failed_count x)),
         (''cancelled_count'', 0 \<le> (TechnicalMetricAggregate.cancelled_count x)),
         (''retry_count'', 0 \<le> (TechnicalMetricAggregate.retry_count x)),
         (''latency_p50_ms'', 0 \<le> (TechnicalMetricAggregate.latency_p50_ms x)),
         (''latency_p95_ms'', 0 \<le> (TechnicalMetricAggregate.latency_p95_ms x)),
         (''input_tokens'', 0 \<le> (TechnicalMetricAggregate.input_tokens x)),
         (''cached_input_tokens'', 0 \<le> (TechnicalMetricAggregate.cached_input_tokens x)),
         (''output_tokens'', 0 \<le> (TechnicalMetricAggregate.output_tokens x)),
         (''estimated_cost_usd'', 0 \<le> (TechnicalMetricAggregate.estimated_cost_usd x)),
         (''actual_cost_usd'', 0 \<le> (TechnicalMetricAggregate.actual_cost_usd x))],
     fail_if (TechnicalMetricAggregate.succeeded_count x + TechnicalMetricAggregate.failed_count x + TechnicalMetricAggregate.cancelled_count x > TechnicalMetricAggregate.job_count x) ''terminal job counts cannot exceed job_count'',
     fail_if (TechnicalMetricAggregate.latency_p95_ms x < TechnicalMetricAggregate.latency_p50_ms x) ''latency p95 must be >= p50'',
     fail_if (TechnicalMetricAggregate.cached_input_tokens x > TechnicalMetricAggregate.input_tokens x) ''cached input tokens cannot exceed input tokens'']"

record QualityMetricAggregate =
  assessment_count :: "int"
  fail_closed_count :: "int"
  defect_count :: "int"
  exact_plan_count :: "int"
  replacement_count :: "int"

definition QualityMetricAggregate_validate :: "QualityMetricAggregate \<Rightarrow> contract_error option" where
  "QualityMetricAggregate_validate x = first_error [
     field_errors [
         (''assessment_count'', 0 \<le> (QualityMetricAggregate.assessment_count x)),
         (''fail_closed_count'', 0 \<le> (QualityMetricAggregate.fail_closed_count x)),
         (''defect_count'', 0 \<le> (QualityMetricAggregate.defect_count x)),
         (''exact_plan_count'', 0 \<le> (QualityMetricAggregate.exact_plan_count x)),
         (''replacement_count'', 0 \<le> (QualityMetricAggregate.replacement_count x))],
     fail_if (QualityMetricAggregate.fail_closed_count x + QualityMetricAggregate.assessment_count x < QualityMetricAggregate.exact_plan_count x) ''exact_plan_count exceeds observable outcomes'']"

record HumanReviewMetricAggregate =
  reviewed_question_count :: "int"
  accepted_count :: "int"
  edited_count :: "int"
  rejected_count :: "int"
  regenerated_count :: "int"
  review_seconds :: "int"

definition HumanReviewMetricAggregate_validate :: "HumanReviewMetricAggregate \<Rightarrow> contract_error option" where
  "HumanReviewMetricAggregate_validate x = first_error [
     field_errors [
         (''reviewed_question_count'', 0 \<le> (HumanReviewMetricAggregate.reviewed_question_count x)),
         (''accepted_count'', 0 \<le> (HumanReviewMetricAggregate.accepted_count x)),
         (''edited_count'', 0 \<le> (HumanReviewMetricAggregate.edited_count x)),
         (''rejected_count'', 0 \<le> (HumanReviewMetricAggregate.rejected_count x)),
         (''regenerated_count'', 0 \<le> (HumanReviewMetricAggregate.regenerated_count x)),
         (''review_seconds'', 0 \<le> (HumanReviewMetricAggregate.review_seconds x))]]"

record StageMetricAggregate =
  stage :: "string"
  runs :: "int"
  succeeded :: "int"
  failed :: "int"
  cancelled :: "int"
  retries :: "int"
  latency_p50_ms :: "int"
  latency_p95_ms :: "int"

definition StageMetricAggregate_validate :: "StageMetricAggregate \<Rightarrow> contract_error option" where
  "StageMetricAggregate_validate x = first_error [
     field_errors [
         (''stage'', str_field 3 128 (StageMetricAggregate.stage x) \<and> upper_code 127 (StageMetricAggregate.stage x)),
         (''runs'', 0 \<le> (StageMetricAggregate.runs x)),
         (''succeeded'', 0 \<le> (StageMetricAggregate.succeeded x)),
         (''failed'', 0 \<le> (StageMetricAggregate.failed x)),
         (''cancelled'', 0 \<le> (StageMetricAggregate.cancelled x)),
         (''retries'', 0 \<le> (StageMetricAggregate.retries x)),
         (''latency_p50_ms'', 0 \<le> (StageMetricAggregate.latency_p50_ms x)),
         (''latency_p95_ms'', 0 \<le> (StageMetricAggregate.latency_p95_ms x))],
     fail_if (StageMetricAggregate.succeeded x + StageMetricAggregate.failed x + StageMetricAggregate.cancelled x > StageMetricAggregate.runs x) ''terminal stage counts cannot exceed runs'',
     fail_if (StageMetricAggregate.latency_p95_ms x < StageMetricAggregate.latency_p50_ms x) ''stage latency p95 must be >= p50'']"

record ModelMetricAggregate =
  route_id :: "string"
  provider :: "string"
  model :: "string"
  model_snapshot :: "string"
  call_count :: "int"
  schema_valid_count :: "int"
  error_count :: "int"
  input_tokens :: "int"
  cached_input_tokens :: "int"
  output_tokens :: "int"
  latency_p50_ms :: "int"
  latency_p95_ms :: "int"
  estimated_cost_usd :: "pyfloat"
  actual_cost_usd :: "pyfloat"

definition ModelMetricAggregate_validate :: "ModelMetricAggregate \<Rightarrow> contract_error option" where
  "ModelMetricAggregate_validate x = first_error [
     field_errors [
         (''route_id'', Id_ok (ModelMetricAggregate.route_id x)),
         (''provider'', (ModelMetricAggregate.provider x) \<in> {''openai'', ''anthropic'', ''google'', ''other''}),
         (''model'', str_field 1 255 (ModelMetricAggregate.model x)),
         (''model_snapshot'', str_field 1 255 (ModelMetricAggregate.model_snapshot x)),
         (''call_count'', 0 \<le> (ModelMetricAggregate.call_count x)),
         (''schema_valid_count'', 0 \<le> (ModelMetricAggregate.schema_valid_count x)),
         (''error_count'', 0 \<le> (ModelMetricAggregate.error_count x)),
         (''input_tokens'', 0 \<le> (ModelMetricAggregate.input_tokens x)),
         (''cached_input_tokens'', 0 \<le> (ModelMetricAggregate.cached_input_tokens x)),
         (''output_tokens'', 0 \<le> (ModelMetricAggregate.output_tokens x)),
         (''latency_p50_ms'', 0 \<le> (ModelMetricAggregate.latency_p50_ms x)),
         (''latency_p95_ms'', 0 \<le> (ModelMetricAggregate.latency_p95_ms x)),
         (''estimated_cost_usd'', 0 \<le> (ModelMetricAggregate.estimated_cost_usd x)),
         (''actual_cost_usd'', 0 \<le> (ModelMetricAggregate.actual_cost_usd x))],
     fail_if (ModelMetricAggregate.schema_valid_count x + ModelMetricAggregate.error_count x > ModelMetricAggregate.call_count x) ''model result counts cannot exceed call_count'',
     fail_if (ModelMetricAggregate.cached_input_tokens x > ModelMetricAggregate.input_tokens x) ''cached model tokens cannot exceed input tokens'',
     fail_if (ModelMetricAggregate.latency_p95_ms x < ModelMetricAggregate.latency_p50_ms x) ''model latency p95 must be >= p50'']"

record ExperimentMetrics =
  schema_version :: "string"
  metrics_id :: "string"
  tenant_id :: "string"
  activity_id :: "string"
  technical :: "TechnicalMetricAggregate"
  quality :: "QualityMetricAggregate"
  human_review :: "HumanReviewMetricAggregate"
  by_stage :: "StageMetricAggregate list"
  by_model :: "ModelMetricAggregate list"
  window_start :: "datetime"
  window_end :: "datetime"
  generated_at :: "datetime"

definition ExperimentMetrics_validate :: "ExperimentMetrics \<Rightarrow> contract_error option" where
  "ExperimentMetrics_validate x = first_error [
     field_errors [
         (''schema_version'', (ExperimentMetrics.schema_version x) = CONTRACT_VERSION),
         (''metrics_id'', Id_ok (ExperimentMetrics.metrics_id x)),
         (''tenant_id'', Id_ok (ExperimentMetrics.tenant_id x)),
         (''activity_id'', Id_ok (ExperimentMetrics.activity_id x)),
         (''technical'', valid TechnicalMetricAggregate_validate (ExperimentMetrics.technical x)),
         (''quality'', valid QualityMetricAggregate_validate (ExperimentMetrics.quality x)),
         (''human_review'', valid HumanReviewMetricAggregate_validate (ExperimentMetrics.human_review x)),
         (''by_stage'', length (ExperimentMetrics.by_stage x) \<le> 100 \<and> list_all (valid StageMetricAggregate_validate) (ExperimentMetrics.by_stage x)),
         (''by_model'', length (ExperimentMetrics.by_model x) \<le> 100 \<and> list_all (valid ModelMetricAggregate_validate) (ExperimentMetrics.by_model x))],
     require_utc (ExperimentMetrics.window_start x) ''window_start'',
     require_utc (ExperimentMetrics.window_end x) ''window_end'',
     require_utc (ExperimentMetrics.generated_at x) ''generated_at'',
     fail_if (instant (ExperimentMetrics.window_end x) < instant (ExperimentMetrics.window_start x)) ''metrics window_end cannot precede window_start'',
     fail_if (instant (ExperimentMetrics.generated_at x) < instant (ExperimentMetrics.window_end x)) ''metrics generated_at cannot precede window_end'',
     fail_if (has_dup (map StageMetricAggregate.stage (ExperimentMetrics.by_stage x))) ''stage metric dimensions must be unique'',
     fail_if (has_dup (map (\<lambda>m. (ModelMetricAggregate.route_id m, ModelMetricAggregate.model_snapshot m)) (ExperimentMetrics.by_model x))) ''model metric dimensions must be unique'']"

record FeedbackEvent =
  schema_version :: "string"
  feedback_id :: "string"
  tenant_id :: "string"
  activity_id :: "string"
  assessment_id :: "string option"
  assessment_version :: "int option"
  question_id :: "string option"
  target_type :: "FeedbackTargetType"
  actor_id :: "string"
  category :: "FeedbackCategory"
  rating :: "FeedbackRating"
  comment :: "string option"
  training_use_allowed :: "bool"
  public_dataset_use_allowed :: "bool"
  academic_decision_use_allowed :: "bool"
  created_at :: "datetime"

definition FeedbackEvent_validate :: "FeedbackEvent \<Rightarrow> contract_error option" where
  "FeedbackEvent_validate x = first_error [
     field_errors [
         (''schema_version'', (FeedbackEvent.schema_version x) = CONTRACT_VERSION),
         (''feedback_id'', Id_ok (FeedbackEvent.feedback_id x)),
         (''tenant_id'', Id_ok (FeedbackEvent.tenant_id x)),
         (''activity_id'', Id_ok (FeedbackEvent.activity_id x)),
         (''assessment_id'', opt_all Id_ok (FeedbackEvent.assessment_id x)),
         (''assessment_version'', opt_all (\<lambda>e. 1 \<le> e) (FeedbackEvent.assessment_version x)),
         (''question_id'', opt_all Id_ok (FeedbackEvent.question_id x)),
         (''actor_id'', PrincipalId_ok (FeedbackEvent.actor_id x)),
         (''comment'', opt_all (str_field 1 2000) (FeedbackEvent.comment x)),
         (''training_use_allowed'', \<not> (FeedbackEvent.training_use_allowed x)),
         (''public_dataset_use_allowed'', \<not> (FeedbackEvent.public_dataset_use_allowed x)),
         (''academic_decision_use_allowed'', \<not> (FeedbackEvent.academic_decision_use_allowed x))],
     require_utc (FeedbackEvent.created_at x) ''created_at'',
     fail_if ((FeedbackEvent.assessment_id x = None) \<noteq> (FeedbackEvent.assessment_version x = None)) ''assessment_id and assessment_version must be paired'',
     (case FeedbackEvent.target_type x of
        FeedbackTargetType.ACTIVITY \<Rightarrow> fail_if (FeedbackEvent.assessment_id x \<noteq> None \<or> FeedbackEvent.question_id x \<noteq> None) ''ACTIVITY feedback cannot target assessment/question''
      | FeedbackTargetType.ASSESSMENT \<Rightarrow> fail_if (FeedbackEvent.assessment_id x = None \<or> FeedbackEvent.question_id x \<noteq> None) ''ASSESSMENT feedback requires only assessment target''
      | FeedbackTargetType.QUESTION \<Rightarrow> fail_if (FeedbackEvent.assessment_id x = None \<or> FeedbackEvent.question_id x = None) ''QUESTION feedback requires assessment and question targets'')]"

record QuestionReviewActionRecord =
  schema_version :: "string"
  record_id :: "string"
  tenant_id :: "string"
  activity_id :: "string"
  submission_id :: "string"
  assessment_id :: "string"
  assessment_version_before :: "int"
  assessment_version_after :: "int option"
  action :: "QuestionReviewAction"
  status :: "QuestionReviewRecordStatus"
  revalidation_status :: "RevalidationStatus"
  before_question :: "SelectedQuestion"
  after_question :: "SelectedQuestion option"
  lineage_before :: "Lineage"
  lineage_after :: "Lineage option"
  diagnostics :: "Diagnostic list"
  recorded_at :: "datetime"

text \<open>The three parts of \<open>revision_is_versioned\<close> that the status and the action select.\<close>

definition failed_action_error :: "QuestionReviewActionRecord \<Rightarrow> contract_error option" where
  "failed_action_error x = first_error [
     fail_if (QuestionReviewAction.action (QuestionReviewActionRecord.action x)
         \<notin> {QuestionReviewActionType.EDIT, QuestionReviewActionType.REGENERATE})
       ''only EDIT/REGENERATE may record failed revalidation'',
     fail_if (QuestionReviewActionRecord.revalidation_status x \<noteq> RevalidationStatus.FAILED)
       ''failed review action requires FAILED revalidation'',
     fail_if (QuestionReviewActionRecord.assessment_version_after x \<noteq> None
         \<or> QuestionReviewActionRecord.after_question x \<noteq> None
         \<or> QuestionReviewActionRecord.lineage_after x \<noteq> None
         \<or> QuestionReviewActionRecord.diagnostics x = [])
       ''failed review action cannot expose a resulting version'']"

definition accept_action_error :: "QuestionReviewActionRecord \<Rightarrow> contract_error option" where
  "accept_action_error x =
     fail_if (QuestionReviewActionRecord.assessment_version_after x
           \<noteq> Some (QuestionReviewActionRecord.assessment_version_before x)
         \<or> QuestionReviewActionRecord.after_question x \<noteq> Some (QuestionReviewActionRecord.before_question x)
         \<or> QuestionReviewActionRecord.lineage_after x \<noteq> Some (QuestionReviewActionRecord.lineage_before x)
         \<or> QuestionReviewActionRecord.revalidation_status x \<noteq> RevalidationStatus.NOT_REQUIRED)
       ''ACCEPT must preserve version, question, and lineage''"

definition applied_mutation_error :: "QuestionReviewActionRecord \<Rightarrow> contract_error option" where
  "applied_mutation_error x = first_error [
     fail_if (QuestionReviewActionRecord.assessment_version_after x
           \<noteq> Some (QuestionReviewActionRecord.assessment_version_before x + 1))
       ''mutating review action must create the next assessment version'',
     fail_if (QuestionReviewActionRecord.lineage_after x = None)
       ''mutating review action requires resulting lineage'',
     (if QuestionReviewAction.action (QuestionReviewActionRecord.action x) = QuestionReviewActionType.REJECT
      then first_error [
        fail_if (QuestionReviewActionRecord.after_question x \<noteq> None)
          ''REJECT cannot expose an accepted after question'',
        fail_if (QuestionReviewActionRecord.revalidation_status x \<noteq> RevalidationStatus.NOT_REQUIRED)
          ''REJECT does not run semantic revalidation'']
      else (case QuestionReviewActionRecord.after_question x of
          None \<Rightarrow> Some (ValueErr ''EDIT/REGENERATE require an after question when applied'')
        | Some q \<Rightarrow> first_error [
            fail_if (SelectedQuestion.question_id q
                \<noteq> QuestionReviewAction.question_id (QuestionReviewActionRecord.action x))
              ''review replacement must preserve question_id'',
            fail_if (QuestionReviewActionRecord.revalidation_status x \<noteq> RevalidationStatus.PASSED)
              ''applied EDIT/REGENERATE requires passed revalidation'',
            fail_if (QuestionReviewAction.action (QuestionReviewActionRecord.action x) = QuestionReviewActionType.EDIT
                \<and> QuestionReviewAction.replacement (QuestionReviewActionRecord.action x) \<noteq> Some q)
              ''EDIT after question must equal canonical action replacement'',
            fail_if (QuestionReviewAction.action (QuestionReviewActionRecord.action x)
                  = QuestionReviewActionType.REGENERATE
                \<and> SelectedQuestion.opportunity_id q
                  = SelectedQuestion.opportunity_id (QuestionReviewActionRecord.before_question x))
              ''REGENERATE must use a distinct reserve opportunity'']))]"

definition QuestionReviewActionRecord_validate :: "QuestionReviewActionRecord \<Rightarrow> contract_error option" where
  "QuestionReviewActionRecord_validate x = first_error [
     field_errors [
         (''schema_version'', (QuestionReviewActionRecord.schema_version x) = CONTRACT_VERSION),
         (''record_id'', Id_ok (QuestionReviewActionRecord.record_id x)),
         (''tenant_id'', Id_ok (QuestionReviewActionRecord.tenant_id x)),
         (''activity_id'', Id_ok (QuestionReviewActionRecord.activity_id x)),
         (''submission_id'', Id_ok (QuestionReviewActionRecord.submission_id x)),
         (''assessment_id'', Id_ok (QuestionReviewActionRecord.assessment_id x)),
         (''assessment_version_before'', 1 \<le> (QuestionReviewActionRecord.assessment_version_before x)),
         (''assessment_version_after'', opt_all (\<lambda>e. 1 \<le> e) (QuestionReviewActionRecord.assessment_version_after x)),
         (''action'', valid QuestionReviewAction_validate (QuestionReviewActionRecord.action x)),
         (''before_question'', valid SelectedQuestion_validate (QuestionReviewActionRecord.before_question x)),
         (''after_question'', opt_all (valid SelectedQuestion_validate) (QuestionReviewActionRecord.after_question x)),
         (''lineage_before'', valid Lineage_validate (QuestionReviewActionRecord.lineage_before x)),
         (''lineage_after'', opt_all (valid Lineage_validate) (QuestionReviewActionRecord.lineage_after x)),
         (''diagnostics'', length (QuestionReviewActionRecord.diagnostics x) \<le> 100 \<and> list_all (valid Diagnostic_validate) (QuestionReviewActionRecord.diagnostics x))],
     require_utc (QuestionReviewActionRecord.recorded_at x) ''recorded_at'',
     require_utc (QuestionReviewAction.occurred_at (QuestionReviewActionRecord.action x)) ''action.occurred_at'',
     fail_if (instant (QuestionReviewActionRecord.recorded_at x) < instant (QuestionReviewAction.occurred_at (QuestionReviewActionRecord.action x))) ''recorded_at cannot precede action occurrence'',
     fail_if (QuestionReviewAction.assessment_id (QuestionReviewActionRecord.action x) \<noteq> QuestionReviewActionRecord.assessment_id x) ''action belongs to another assessment'',
     fail_if (SelectedQuestion.question_id (QuestionReviewActionRecord.before_question x) \<noteq> QuestionReviewAction.question_id (QuestionReviewActionRecord.action x)) ''before question does not match action question_id'',
     (if QuestionReviewActionRecord.status x = QuestionReviewRecordStatus.FAILED then failed_action_error x
      else if QuestionReviewAction.action (QuestionReviewActionRecord.action x) = QuestionReviewActionType.ACCEPT then accept_action_error x
      else applied_mutation_error x)]"

record ProblemDetail =
  "type" :: "string"
  title :: "string"
  status :: "int"
  detail :: "string"
  "instance" :: "string option"
  code :: "string"
  trace_id :: "string option"
  retryable :: "bool"
  problem_fields :: "(string \<times> string list) list"

definition ProblemDetail_validate :: "ProblemDetail \<Rightarrow> contract_error option" where
  "ProblemDetail_validate x = first_error [
     field_errors [
         (''type'', trimmed (ProblemDetail.type x)),
         (''title'', trimmed (ProblemDetail.title x)),
         (''status'', 400 \<le> (ProblemDetail.status x) \<and> (ProblemDetail.status x) \<le> 599),
         (''detail'', trimmed (ProblemDetail.detail x)),
         (''instance'', opt_all trimmed (ProblemDetail.instance x)),
         (''code'', upper_code 63 (ProblemDetail.code x)),
         (''trace_id'', opt_all trimmed (ProblemDetail.trace_id x)),
         (''fields'', dict_keys (ProblemDetail.problem_fields x) \<and> list_all ((list_all trimmed) \<circ> snd) (ProblemDetail.problem_fields x))]]"

record ActivitySpecRequest =
  schema_version :: "string"
  activity_config :: "ActivityConfig"
  prompt_evidence :: "EvidenceUnit list"

definition ActivitySpecRequest_validate :: "ActivitySpecRequest \<Rightarrow> contract_error option" where
  "ActivitySpecRequest_validate x = first_error [
     field_errors [
         (''schema_version'', (ActivitySpecRequest.schema_version x) = LEGACY_SCHEMA_VERSION),
         (''activity_config'', valid ActivityConfig_validate (ActivitySpecRequest.activity_config x)),
         (''prompt_evidence'', 1 \<le> length (ActivitySpecRequest.prompt_evidence x) \<and> length (ActivitySpecRequest.prompt_evidence x) \<le> 500 \<and> list_all (valid EvidenceUnit_validate) (ActivitySpecRequest.prompt_evidence x))]]"

record RubricNormalizeRequest =
  schema_version :: "string"
  activity_spec :: "ActivitySpec"
  rubric_evidence :: "EvidenceUnit list"

definition RubricNormalizeRequest_validate :: "RubricNormalizeRequest \<Rightarrow> contract_error option" where
  "RubricNormalizeRequest_validate x = first_error [
     field_errors [
         (''schema_version'', (RubricNormalizeRequest.schema_version x) = LEGACY_SCHEMA_VERSION),
         (''activity_spec'', valid ActivitySpec_validate (RubricNormalizeRequest.activity_spec x)),
         (''rubric_evidence'', 1 \<le> length (RubricNormalizeRequest.rubric_evidence x) \<and> length (RubricNormalizeRequest.rubric_evidence x) \<le> 500 \<and> list_all (valid EvidenceUnit_validate) (RubricNormalizeRequest.rubric_evidence x))]]"

record AmbiguityTriageRequest =
  schema_version :: "string"
  activity_spec :: "ActivitySpec"
  rubric_spec :: "RubricSpec option"
  rule_findings :: "Diagnostic list"

definition AmbiguityTriageRequest_validate :: "AmbiguityTriageRequest \<Rightarrow> contract_error option" where
  "AmbiguityTriageRequest_validate x = first_error [
     field_errors [
         (''schema_version'', (AmbiguityTriageRequest.schema_version x) = LEGACY_SCHEMA_VERSION),
         (''activity_spec'', valid ActivitySpec_validate (AmbiguityTriageRequest.activity_spec x)),
         (''rubric_spec'', opt_all (valid RubricSpec_validate) (AmbiguityTriageRequest.rubric_spec x)),
         (''rule_findings'', length (AmbiguityTriageRequest.rule_findings x) \<le> 100 \<and> list_all (valid Diagnostic_validate) (AmbiguityTriageRequest.rule_findings x))]]"

record BlueprintBuildRequest =
  schema_version :: "string"
  activity_spec :: "ActivitySpec"
  rubric_spec :: "RubricSpec option"
  resolved_decisions :: "PolicyDecision list"
  blueprint_policy :: "BlueprintPolicy"

definition BlueprintBuildRequest_validate :: "BlueprintBuildRequest \<Rightarrow> contract_error option" where
  "BlueprintBuildRequest_validate x = first_error [
     field_errors [
         (''schema_version'', (BlueprintBuildRequest.schema_version x) = LEGACY_SCHEMA_VERSION),
         (''activity_spec'', valid ActivitySpec_validate (BlueprintBuildRequest.activity_spec x)),
         (''rubric_spec'', opt_all (valid RubricSpec_validate) (BlueprintBuildRequest.rubric_spec x)),
         (''resolved_decisions'', length (BlueprintBuildRequest.resolved_decisions x) \<le> 100 \<and> list_all (valid PolicyDecision_validate) (BlueprintBuildRequest.resolved_decisions x)),
         (''blueprint_policy'', valid BlueprintPolicy_validate (BlueprintBuildRequest.blueprint_policy x))]]"

record BlueprintReviewRequest =
  schema_version :: "string"
  blueprint :: "AssessmentBlueprint"
  activity_spec :: "ActivitySpec"
  rubric_spec :: "RubricSpec option"
  resolved_decisions :: "PolicyDecision list"
  blueprint_policy :: "BlueprintPolicy"

definition BlueprintReviewRequest_validate :: "BlueprintReviewRequest \<Rightarrow> contract_error option" where
  "BlueprintReviewRequest_validate x = first_error [
     field_errors [
         (''schema_version'', (BlueprintReviewRequest.schema_version x) = LEGACY_SCHEMA_VERSION),
         (''blueprint'', valid AssessmentBlueprint_validate (BlueprintReviewRequest.blueprint x)),
         (''activity_spec'', valid ActivitySpec_validate (BlueprintReviewRequest.activity_spec x)),
         (''rubric_spec'', opt_all (valid RubricSpec_validate) (BlueprintReviewRequest.rubric_spec x)),
         (''resolved_decisions'', length (BlueprintReviewRequest.resolved_decisions x) \<le> 100 \<and> list_all (valid PolicyDecision_validate) (BlueprintReviewRequest.resolved_decisions x)),
         (''blueprint_policy'', valid BlueprintPolicy_validate (BlueprintReviewRequest.blueprint_policy x))]]"

record EvidenceMapRequest =
  schema_version :: "string"
  blueprint :: "AssessmentBlueprint"
  evidence_bundle :: "EvidenceBundle"

definition EvidenceMapRequest_validate :: "EvidenceMapRequest \<Rightarrow> contract_error option" where
  "EvidenceMapRequest_validate x = first_error [
     field_errors [
         (''schema_version'', (EvidenceMapRequest.schema_version x) = LEGACY_SCHEMA_VERSION),
         (''blueprint'', valid AssessmentBlueprint_validate (EvidenceMapRequest.blueprint x)),
         (''evidence_bundle'', valid EvidenceBundle_validate (EvidenceMapRequest.evidence_bundle x))]]"

record QuestionBuildRequest =
  schema_version :: "string"
  plan :: "AssessmentPlan"
  opportunity :: "QuestionOpportunity"
  evidence_bundle :: "EvidenceBundle"
  generation_policy :: "QuestionGenerationPolicy"
  avoid :: "RejectedQuestionFingerprint list"

definition QuestionBuildRequest_validate :: "QuestionBuildRequest \<Rightarrow> contract_error option" where
  "QuestionBuildRequest_validate x = first_error [
     field_errors [
         (''schema_version'', (QuestionBuildRequest.schema_version x) = LEGACY_SCHEMA_VERSION),
         (''plan'', valid AssessmentPlan_validate (QuestionBuildRequest.plan x)),
         (''opportunity'', valid QuestionOpportunity_validate (QuestionBuildRequest.opportunity x)),
         (''evidence_bundle'', valid EvidenceBundle_validate (QuestionBuildRequest.evidence_bundle x)),
         (''generation_policy'', valid QuestionGenerationPolicy_validate (QuestionBuildRequest.generation_policy x)),
         (''avoid'', length (QuestionBuildRequest.avoid x) \<le> 100 \<and> list_all (valid RejectedQuestionFingerprint_validate) (QuestionBuildRequest.avoid x))],
     fail_if (AssessmentPlan.status (QuestionBuildRequest.plan x) \<noteq> ''READY'') ''question generation requires a READY plan'',
     fail_if (QuestionOpportunity.opportunity_id (QuestionBuildRequest.opportunity x)
        \<notin> set (AssessmentPlan.selected_opportunity_ids (QuestionBuildRequest.plan x)) \<union> set (AssessmentPlan.reserve_opportunity_ids (QuestionBuildRequest.plan x))) ''opportunity is not authorized by the assessment plan'',
     fail_if (QuestionOpportunity.submission_id (QuestionBuildRequest.opportunity x) \<noteq> AssessmentPlan.submission_id (QuestionBuildRequest.plan x)) ''opportunity and plan submissions do not match'',
     fail_if (EvidenceBundle.submission_id (QuestionBuildRequest.evidence_bundle x) \<noteq> AssessmentPlan.submission_id (QuestionBuildRequest.plan x)) ''evidence bundle and plan submissions do not match'']"

record QuestionReviewRequest =
  schema_version :: "string"
  generation_result :: "QuestionGenerationResult"
  opportunity :: "QuestionOpportunity"
  evidence_bundle :: "EvidenceBundle"
  validation_policy :: "QuestionValidationPolicy"

definition QuestionReviewRequest_validate :: "QuestionReviewRequest \<Rightarrow> contract_error option" where
  "QuestionReviewRequest_validate x = first_error [
     field_errors [
         (''schema_version'', (QuestionReviewRequest.schema_version x) = LEGACY_SCHEMA_VERSION),
         (''generation_result'', valid QuestionGenerationResult_validate (QuestionReviewRequest.generation_result x)),
         (''opportunity'', valid QuestionOpportunity_validate (QuestionReviewRequest.opportunity x)),
         (''evidence_bundle'', valid EvidenceBundle_validate (QuestionReviewRequest.evidence_bundle x)),
         (''validation_policy'', valid QuestionValidationPolicy_validate (QuestionReviewRequest.validation_policy x))],
     fail_if (QuestionGenerationResult.opportunity_id (QuestionReviewRequest.generation_result x)
        \<noteq> QuestionOpportunity.opportunity_id (QuestionReviewRequest.opportunity x)) ''generation result and opportunity do not match'']"

record GuideBuildRequest =
  schema_version :: "string"
  guide_id :: "string"
  assessment :: "Assessment"
  evidence_bundle :: "EvidenceBundle"

definition GuideBuildRequest_validate :: "GuideBuildRequest \<Rightarrow> contract_error option" where
  "GuideBuildRequest_validate x = first_error [
     field_errors [
         (''schema_version'', (GuideBuildRequest.schema_version x) = LEGACY_SCHEMA_VERSION),
         (''guide_id'', Id_ok (GuideBuildRequest.guide_id x)),
         (''assessment'', valid Assessment_validate (GuideBuildRequest.assessment x)),
         (''evidence_bundle'', valid EvidenceBundle_validate (GuideBuildRequest.evidence_bundle x))]]"

record SchemaValidationIssue =
  path :: "string"
  error_type :: "string"
  message :: "string"

definition SchemaValidationIssue_validate :: "SchemaValidationIssue \<Rightarrow> contract_error option" where
  "SchemaValidationIssue_validate x = first_error [
     field_errors [
         (''path'', str_field 1 1000 (SchemaValidationIssue.path x)),
         (''error_type'', str_field 1 200 (SchemaValidationIssue.error_type x)),
         (''message'', str_field 1 1000 (SchemaValidationIssue.message x))]]"

record SchemaRepairRequest =
  schema_version :: "string"
  target_schema_name :: "string"
  invalid_output :: "json"
  validation_issues :: "SchemaValidationIssue list"

definition SchemaRepairRequest_validate :: "SchemaRepairRequest \<Rightarrow> contract_error option" where
  "SchemaRepairRequest_validate x = first_error [
     field_errors [
         (''schema_version'', (SchemaRepairRequest.schema_version x) = LEGACY_SCHEMA_VERSION),
         (''target_schema_name'', str_field 3 128 (SchemaRepairRequest.target_schema_name x)),
         (''validation_issues'', 1 \<le> length (SchemaRepairRequest.validation_issues x) \<and> length (SchemaRepairRequest.validation_issues x) \<le> 100 \<and> list_all (valid SchemaValidationIssue_validate) (SchemaRepairRequest.validation_issues x))]]"

record SchemaRepairResult =
  schema_version :: "string"
  target_schema_name :: "string"
  repair_status :: "RepairStatus"
  repaired_output :: "((string \<times> json) list) option"
  diagnostics :: "Diagnostic list"

definition SchemaRepairResult_validate :: "SchemaRepairResult \<Rightarrow> contract_error option" where
  "SchemaRepairResult_validate x = first_error [
     field_errors [
         (''schema_version'', (SchemaRepairResult.schema_version x) = LEGACY_SCHEMA_VERSION),
         (''target_schema_name'', str_field 3 128 (SchemaRepairResult.target_schema_name x)),
         (''repaired_output'', opt_all dict_keys (SchemaRepairResult.repaired_output x)),
         (''diagnostics'', list_all (valid Diagnostic_validate) (SchemaRepairResult.diagnostics x))],
     fail_if (SchemaRepairResult.repair_status x = RepairStatus.REPAIRED \<and> SchemaRepairResult.repaired_output x = None) ''REPAIRED requires repaired_output'',
     fail_if (SchemaRepairResult.repair_status x = RepairStatus.UNREPAIRABLE \<and> SchemaRepairResult.repaired_output x \<noteq> None) ''UNREPAIRABLE cannot include repaired_output'']"

end
