(* ===== verification/PyTime.thy ===== *)
theory PyTime
  imports ContractsBase
begin

text \<open>
  \<open>datetime.isoformat()\<close> of a Python datetime (the record of theory \<open>ContractsBase\<close>): the proleptic
  Gregorian date of the wall clock, the time of day, the microseconds when there are any, and the
  offset when there is one.
\<close>

definition pad :: "nat \<Rightarrow> int \<Rightarrow> string" where
  "pad n i = (let s = dec i in replicate (n - length s) (CHR ''0'') @ s)"

text \<open>Year, month and day of a day number counted from 1970-01-01.\<close>

definition civil :: "int \<Rightarrow> int \<times> int \<times> int" where
  "civil days =
     (let z = days + 719468; era = z div 146097; doe = z mod 146097;
          yoe = (doe - doe div 1460 + doe div 36524 - doe div 146096) div 365;
          doy = doe - (365 * yoe + yoe div 4 - yoe div 100);
          mth = (5 * doy + 2) div 153; d = doy - (153 * mth + 2) div 5 + 1;
          mo = (if mth < 10 then mth + 3 else mth - 9)
      in ((if mo \<le> 2 then 1 else 0) + yoe + 400 * era, mo, d))"

definition clock_text :: "int \<Rightarrow> string" where
  "clock_text us =
     (let secs = us div 1000000; frac = us mod 1000000
      in pad 2 (secs div 3600) @ '':'' @ pad 2 (secs div 60 mod 60) @ '':'' @ pad 2 (secs mod 60)
         @ (if frac = 0 then [] else ''.'' @ pad 6 frac))"

definition offset_text :: "int \<Rightarrow> string" where
  "offset_text off =
     (let a = \<bar>off\<bar>; secs = a div 1000000; frac = a mod 1000000
      in (if off < 0 then ''-'' else ''+'') @ pad 2 (secs div 3600) @ '':'' @ pad 2 (secs div 60 mod 60)
         @ (if secs mod 60 = 0 \<and> frac = 0 then []
            else '':'' @ pad 2 (secs mod 60) @ (if frac = 0 then [] else ''.'' @ pad 6 frac)))"

definition isoformat :: "datetime \<Rightarrow> string" where
  "isoformat t =
     (let (y, mo, d) = civil (wall_us t div 86400000000)
      in pad 4 y @ ''-'' @ pad 2 mo @ ''-'' @ pad 2 d @ ''T'' @ clock_text (wall_us t mod 86400000000)
         @ (case utc_offset t of None \<Rightarrow> [] | Some off \<Rightarrow> offset_text off))"

definition minus_seconds :: "datetime \<Rightarrow> int \<Rightarrow> datetime" where
  "minus_seconds t s = t\<lparr>wall_us := wall_us t - 1000000 * s\<rparr>"

text \<open>A datetime inside canonical JSON (\<open>to_jsonable\<close>): the UTC time with a \<open>Z\<close>; a naive one raises.\<close>

definition canonical_time :: "datetime \<Rightarrow> string + string" where
  "canonical_time t = (case utc_offset t of
      None \<Rightarrow> Inl ''naive datetime is not canonical''
    | Some off \<Rightarrow> Inr (isoformat \<lparr>wall_us = instant t, utc_offset = None\<rparr> @ ''Z''))"

lemma minus_seconds_simps [simp]:
  "utc_offset (minus_seconds t s) = utc_offset t" "instant (minus_seconds t s) = instant t - 1000000 * s"
  by (simp_all add: minus_seconds_def instant_def)

lemma isoformat_examples:
  "isoformat (utc_time 0) = ''1970-01-01T00:00:00+00:00''"
  "isoformat (utc_time 951782399000001) = ''2000-02-28T23:59:59.000001+00:00''"
  by code_simp+

end
