(* ===== verification/RowTable.thy ===== *)
theory RowTable
  imports Prelude
begin

text \<open>
  A table of the database: rows with a primary key, read by key, inserted, and replaced.  The laws
  the operations need are stated as a locale that extends the one of an index; each table of the job
  store is an interpretation.
\<close>

definition get_row :: "('r \<Rightarrow> 'k) \<Rightarrow> 'r list \<Rightarrow> 'k \<Rightarrow> 'r option" where
  "get_row key rows k = find (\<lambda>r. key r = k) rows"

definition set_row :: "('r \<Rightarrow> 'k) \<Rightarrow> 'r \<Rightarrow> 'r list \<Rightarrow> 'r list" where
  "set_row key r rows = map (\<lambda>x. if key x = key r then r else x) rows"

lemma get_row_hit: "get_row key rows k = Some r \<Longrightarrow> r \<in> set rows \<and> key r = k"
  by (auto simp: get_row_def find_Some_iff)

lemma get_row_miss: "get_row key rows k = None \<longleftrightarrow> k \<notin> key ` set rows"
  by (auto simp: get_row_def find_None_iff)

lemma map_key_set_row [simp]: "map key (set_row key r rows) = map key rows"
  by (simp add: set_row_def)

lemma get_row_prefix: "get_row key rows k = Some x \<Longrightarrow> get_row key (rows @ rs) k = Some x"
  by (induction rows) (auto simp: get_row_def)

lemma get_row_unique: "distinct (map key rows) \<Longrightarrow> r \<in> set rows \<Longrightarrow> get_row key rows (key r) = Some r"
  by (induction rows) (auto simp: get_row_def)

locale row_table = index key elems lookup
  for key :: "'r \<Rightarrow> 'k" and elems :: "'t \<Rightarrow> 'r list" and lookup :: "'t \<Rightarrow> 'k \<Rightarrow> 'r option" +
  fixes replace :: "'r \<Rightarrow> 't \<Rightarrow> 't" and insert_row :: "'r \<Rightarrow> 't \<Rightarrow> 't"
  assumes elems_replace: "elems (replace r t) = set_row key r (elems t)"
    and elems_insert: "elems (insert_row r t) = elems t @ [r]"
begin

lemma mem_replaceD: "x \<in> set (elems (replace r t)) \<Longrightarrow> x = r \<or> (x \<in> set (elems t) \<and> key x \<noteq> key r)"
  by (auto simp: elems_replace set_row_def split: if_splits)

lemma mem_replace:
  assumes "lookup t (key r) = Some old"
  shows "x \<in> set (elems (replace r t)) \<longleftrightarrow> x = r \<or> (x \<in> set (elems t) \<and> key x \<noteq> key r)"
  using lookup_hit [OF assms] by (force simp: elems_replace set_row_def)

lemma mem_insert [simp]: "x \<in> set (elems (insert_row r t)) \<longleftrightarrow> x = r \<or> x \<in> set (elems t)"
  by (auto simp: elems_insert)

lemma all_replace:
  assumes "\<forall>x \<in> set (elems t). P x" and "P r"
  shows "\<forall>x \<in> set (elems (replace r t)). P x"
  using assms mem_replaceD by blast

lemma keys_replace [simp]: "map key (elems (replace r t)) = map key (elems t)"
  by (simp add: elems_replace)

lemma key_set_replace: "key ` set (elems (replace r t)) = key ` set (elems t)"
  by (metis keys_replace set_map)

lemma distinct_replace: "distinct (map key (elems t)) \<Longrightarrow> distinct (map key (elems (replace r t)))"
  by simp

lemma distinct_insert:
  "distinct (map key (elems t)) \<Longrightarrow> lookup t (key r) = None \<Longrightarrow> distinct (map key (elems (insert_row r t)))"
  by (simp add: elems_insert lookup_miss)

lemma lookup_replace:
  assumes "distinct (map key (elems t))" and "lookup t (key r) \<noteq> None"
  shows "lookup (replace r t) (key r) = Some r"
proof -
  obtain old where "lookup t (key r) = Some old" using assms(2) by blast
  then have "r \<in> set (elems (replace r t))" by (simp add: mem_replace)
  then show ?thesis using lookup_unique distinct_replace [OF assms(1)] by blast
qed

lemma lookup_replace_other:
  assumes "distinct (map key (elems t))" and "k \<noteq> key r"
  shows "lookup (replace r t) k = lookup t k"
proof (cases "lookup t k")
  case None
  then have "k \<notin> key ` set (elems t)" by (simp add: lookup_miss)
  then have "k \<notin> key ` set (elems (replace r t))" by (simp only: key_set_replace simp_thms)
  then have "lookup (replace r t) k = None" by (simp add: lookup_miss)
  with None show ?thesis by simp
next
  case (Some x)
  with lookup_hit [OF Some] assms(2) have x: "x \<in> set (elems t)" "key x = k" "key x \<noteq> key r" by auto
  then have "x \<in> set (elems (replace r t))" by (force simp: elems_replace set_row_def)
  then show ?thesis
    using lookup_unique [OF distinct_replace [OF assms(1)]] x(2) Some by metis
qed

lemma lookup_insert:
  assumes "distinct (map key (elems t))" and "lookup t (key r) = None"
  shows "lookup (insert_row r t) (key r) = Some r"
proof -
  have "r \<in> set (elems (insert_row r t))" by simp
  then show ?thesis using lookup_unique [OF distinct_insert [OF assms]] by blast
qed

end

lemma row_table_of:
  assumes "\<And>t. lookup t = get_row key (elems t)"
    and "\<And>r t. elems (replace r t) = set_row key r (elems t)"
    and "\<And>r t. elems (insert_row r t) = elems t @ [r]"
  shows "row_table key elems lookup replace insert_row"
proof
  fix t k r
  show "lookup t k = Some r \<Longrightarrow> r \<in> set (elems t) \<and> key r = k"
    unfolding assms(1) by (rule get_row_hit)
  show "lookup t k = None \<longleftrightarrow> k \<notin> key ` set (elems t)"
    unfolding assms(1) by (rule get_row_miss)
qed (rule assms(2) assms(3))+

end
