(* ===== verification/JobStore.thy ===== *)
theory JobStore
  imports ContractsStage2 Diagnostics PyTime RowTable
begin

text \<open>
  The durable job queue of \<open>web/repository.py\<close>: the rows of the tables it reads and writes, and its
  operations.  An operation is one transaction: it returns \<open>Inl\<close> and nothing is written when it
  raises, and otherwise its result with the new store.  The constraints of the tables are checked
  when the transaction commits, as the database does.  \<open>utc_now()\<close> is an argument.  Columns that
  no job operation reads or writes are left out of the rows.
\<close>

datatype repo_error = NotFound string | Conflict string | ValueError string | IntegrityError
  | ContractError contract_error

definition conflict_if :: "bool \<Rightarrow> string \<Rightarrow> repo_error option" where
  "conflict_if b msg = raise_if b (Conflict msg)"

lemma conflict_if_None [simp, checks]: "conflict_if b msg = None \<longleftrightarrow> \<not> b"
  by (simp add: conflict_if_def)

definition checked :: "('a \<Rightarrow> contract_error option) \<Rightarrow> 'a \<Rightarrow> repo_error + 'a" where
  "checked v x = (case v x of None \<Rightarrow> Inr x | Some e \<Rightarrow> Inl (ContractError e))"

lemma checked_Inr [simp]: "checked v x = Inr y \<longleftrightarrow> v x = None \<and> y = x"
  by (auto simp: checked_def split: option.splits)

definition found :: "'a option \<Rightarrow> string \<Rightarrow> repo_error + 'a" where
  "found r msg = (case r of None \<Rightarrow> Inl (NotFound msg) | Some x \<Rightarrow> Inr x)"

lemma found_Inr [simp]: "found r msg = Inr x \<longleftrightarrow> r = Some x"
  by (auto simp: found_def split: option.splits)

section \<open>Rows\<close>

definition JOB_CONTROL_STATES :: "string list" where
  "JOB_CONTROL_STATES = [''ACTIVE'', ''CANCEL_REQUESTED'', ''CANCELLED'']"

definition JOB_FAILURE_CLASSES :: "string list" where
  "JOB_FAILURE_CLASSES = [''TRANSIENT'', ''PERMANENT'', ''SECURITY'', ''VALIDATION'', ''PRECONDITION'',
     ''PROVIDER'', ''CANCELLATION'']"

definition RETRYABLE_JOB_FAILURE_CLASSES :: "string list" where
  "RETRYABLE_JOB_FAILURE_CLASSES = [''TRANSIENT'', ''PROVIDER'']"

definition MAX_JOB_ATTEMPTS :: int where
  "MAX_JOB_ATTEMPTS = 3"

record ActivityRow =
  ident :: string
  tenant_id :: string
  status :: string
  config :: json
  blueprint_policy :: json
  created_by :: string
  created_at :: datetime
  updated_at :: datetime

record ArtifactRow =
  ident :: string
  tenant_id :: string
  activity_id :: string
  submission_id :: "string option"
  scope_key :: string
  role :: string
  filename :: string
  object_key :: string
  declared_media_type :: string
  expected_byte_size :: int
  media_type :: "string option"
  byte_size :: "int option"
  sha256 :: "string option"
  status :: string
  upload_expires_at :: datetime
  created_at :: datetime

record SubmissionRow =
  ident :: string
  tenant_id :: string
  activity_id :: string
  subject_ref :: string
  blueprint_version :: "int option"
  state :: SubmissionProcessingState
  active_job_id :: "string option"
  created_at :: datetime
  updated_at :: datetime

record JobRow =
  ident :: string
  tenant_id :: string
  kind :: string
  aggregate_id :: string
  stage :: string
  status :: string
  progress :: pyfloat
  attempt :: int
  diagnostics :: "Diagnostic list"
  control_state :: string
  failure_class :: "string option"
  max_attempts :: int
  next_attempt_at :: "datetime option"
  resume_from_stage :: "string option"
  cancel_requested_at :: "datetime option"
  cancel_requested_by :: "string option"
  cancelled_at :: "datetime option"
  created_at :: datetime
  started_at :: "datetime option"
  finished_at :: "datetime option"

record StageRunRow =
  ident :: string
  job_id :: string
  tenant_id :: string
  stage :: string
  stage_key :: string
  status :: string
  attempt :: int
  input_hash :: string
  policy_hash :: string
  component_version :: "string option"
  "output" :: "json option"
  output_hash :: "string option"
  failure_class :: "string option"
  next_attempt_at :: "datetime option"
  resumed_from_stage_run_id :: "string option"
  diagnostics :: "Diagnostic list"
  started_at :: datetime
  finished_at :: "datetime option"

record AssessmentRow =
  row_id :: string
  assessment_id :: string
  tenant_id :: string
  submission_id :: string
  version :: int
  status :: string
  etag :: string
  data :: Assessment
  created_at :: datetime

record GuideRow =
  guide_id :: string
  assessment_id :: string
  tenant_id :: string
  submission_id :: string
  data :: EvaluationGuide

record AuditEventRow =
  ident :: string
  tenant_id :: string
  event_type :: string
  aggregate_id :: string
  actor_id :: string
  payload :: json
  occurred_at :: datetime

text \<open>A row of \<open>job_control_records\<close> repeats the fields of the record it stores, so the record is the
  row; the same holds of the rows of \<open>question_review_actions\<close>, whose two further columns are the hashes of
  the record's snapshots.\<close>

record JobStore =
  jobs :: "JobRow list"
  controls :: "JobControlRecord list"
  activities :: "ActivityRow list"
  submissions :: "SubmissionRow list"
  artifacts :: "ArtifactRow list"
  stage_runs :: "StageRunRow list"
  assessments :: "AssessmentRow list"
  guides :: "GuideRow list"
  audits :: "AuditEventRow list"
  review_actions :: "QuestionReviewActionRecord list"

section \<open>Constraints of the tables\<close>

definition job_row_ok :: "JobRow \<Rightarrow> bool" where
  "job_row_ok r \<longleftrightarrow> JobRow.control_state r \<in> set JOB_CONTROL_STATES
     \<and> (case JobRow.failure_class r of None \<Rightarrow> True | Some f \<Rightarrow> f \<in> set JOB_FAILURE_CLASSES)
     \<and> 1 \<le> JobRow.max_attempts r \<and> JobRow.max_attempts r \<le> 10
     \<and> (JobRow.control_state r \<noteq> ''CANCELLED''
        \<or> JobRow.status r = ''FAILED'' \<and> JobRow.failure_class r = Some ''CANCELLATION''
          \<and> JobRow.cancelled_at r \<noteq> None)"

definition continuation_key :: "JobControlRecord \<Rightarrow> string \<times> string \<times> int" where
  "continuation_key c = (JobControlRecord.tenant_id c, JobControlRecord.job_id c, JobControlRecord.source_attempt c)"

definition scope_of :: "ArtifactRow \<Rightarrow> string \<times> string \<times> string \<times> string" where
  "scope_of f = (ArtifactRow.tenant_id f, ArtifactRow.activity_id f, ArtifactRow.scope_key f, ArtifactRow.role f)"

definition subject_of :: "SubmissionRow \<Rightarrow> string \<times> string \<times> string" where
  "subject_of r = (SubmissionRow.tenant_id r, SubmissionRow.activity_id r, SubmissionRow.subject_ref r)"

definition revision_of :: "AssessmentRow \<Rightarrow> string \<times> int" where
  "revision_of r = (AssessmentRow.submission_id r, AssessmentRow.version r)"

text \<open>The constraints of the tables that hold content; none of them refers to a job.\<close>

definition content_integrity :: "JobStore \<Rightarrow> bool" where
  "content_integrity s \<longleftrightarrow>
     distinct (map ArtifactRow.ident (artifacts s)) \<and> distinct (map scope_of (artifacts s))
     \<and> distinct (map ArtifactRow.object_key (artifacts s)) \<and> distinct (map subject_of (submissions s))
     \<and> distinct (map AssessmentRow.row_id (assessments s)) \<and> distinct (map revision_of (assessments s))
     \<and> distinct (map AssessmentRow.etag (assessments s)) \<and> distinct (map GuideRow.guide_id (guides s))
     \<and> distinct (map AuditEventRow.ident (audits s))
     \<and> distinct (map QuestionReviewActionRecord.record_id (review_actions s))"

definition integrity :: "JobStore \<Rightarrow> bool" where
  "integrity s \<longleftrightarrow> distinct (map JobRow.ident (jobs s)) \<and> list_all job_row_ok (jobs s)
     \<and> distinct (map JobControlRecord.control_id (controls s)) \<and> distinct (map continuation_key (controls s))
     \<and> distinct (map SubmissionRow.ident (submissions s)) \<and> distinct (map ActivityRow.ident (activities s))
     \<and> content_integrity s"

definition commit :: "'a \<times> JobStore \<Rightarrow> repo_error + 'a \<times> JobStore" where
  "commit r = (if integrity (snd r) then Inr r else Inl IntegrityError)"

lemma commit_Inr [simp]: "commit r = Inr q \<longleftrightarrow> integrity (snd r) \<and> q = r"
  by (auto simp: commit_def)

text \<open>\<open>except IntegrityError: raise Conflict(msg)\<close>.\<close>

fun on_integrity :: "string \<Rightarrow> repo_error + 'a \<Rightarrow> repo_error + 'a" where
  "on_integrity msg (Inl IntegrityError) = Inl (Conflict msg)"
| "on_integrity msg r = r"

lemma on_integrity_Inr [simp]: "on_integrity msg r = Inr x \<longleftrightarrow> r = Inr x"
  by (cases "(msg, r)" rule: on_integrity.cases) simp_all

section \<open>Access to the tables\<close>

definition get_job :: "JobStore \<Rightarrow> string \<Rightarrow> JobRow option" where
  "get_job s = get_row JobRow.ident (jobs s)"

definition put_job :: "JobRow \<Rightarrow> JobStore \<Rightarrow> JobStore" where
  "put_job r s = s\<lparr>jobs := set_row JobRow.ident r (jobs s)\<rparr>"

definition add_job :: "JobRow \<Rightarrow> JobStore \<Rightarrow> JobStore" where
  "add_job r s = s\<lparr>jobs := jobs s @ [r]\<rparr>"

definition get_submission :: "JobStore \<Rightarrow> string \<Rightarrow> SubmissionRow option" where
  "get_submission s = get_row SubmissionRow.ident (submissions s)"

definition put_submission :: "SubmissionRow \<Rightarrow> JobStore \<Rightarrow> JobStore" where
  "put_submission r s = s\<lparr>submissions := set_row SubmissionRow.ident r (submissions s)\<rparr>"

definition add_submission :: "SubmissionRow \<Rightarrow> JobStore \<Rightarrow> JobStore" where
  "add_submission r s = s\<lparr>submissions := submissions s @ [r]\<rparr>"

definition get_activity :: "JobStore \<Rightarrow> string \<Rightarrow> ActivityRow option" where
  "get_activity s = get_row ActivityRow.ident (activities s)"

definition put_activity :: "ActivityRow \<Rightarrow> JobStore \<Rightarrow> JobStore" where
  "put_activity r s = s\<lparr>activities := set_row ActivityRow.ident r (activities s)\<rparr>"

definition add_activity :: "ActivityRow \<Rightarrow> JobStore \<Rightarrow> JobStore" where
  "add_activity r s = s\<lparr>activities := activities s @ [r]\<rparr>"

interpretation job_table: row_table JobRow.ident jobs get_job put_job add_job
  by (rule row_table_of) (simp_all add: get_job_def put_job_def add_job_def)

interpretation submission_table: row_table SubmissionRow.ident submissions get_submission put_submission add_submission
  by (rule row_table_of) (simp_all add: get_submission_def put_submission_def add_submission_def)

interpretation activity_table: row_table ActivityRow.ident activities get_activity put_activity add_activity
  by (rule row_table_of) (simp_all add: get_activity_def put_activity_def add_activity_def)

text \<open>\<open>select ... where id = ... and tenant_id = ...\<close>, for a primary key.\<close>

definition of_tenant :: "('r \<Rightarrow> string) \<Rightarrow> string \<Rightarrow> 'r option \<Rightarrow> 'r option" where
  "of_tenant tenant t r = (case r of None \<Rightarrow> None | Some x \<Rightarrow> if tenant x = t then Some x else None)"

lemma of_tenant_Some [simp]: "of_tenant tenant t r = Some x \<longleftrightarrow> r = Some x \<and> tenant x = t"
  by (auto simp: of_tenant_def split: option.splits)

definition lock_job :: "JobStore \<Rightarrow> string \<Rightarrow> string \<Rightarrow> repo_error + JobRow" where
  "lock_job s jid tid = found (of_tenant JobRow.tenant_id tid (get_job s jid)) ''job not found''"

definition the_submission :: "JobStore \<Rightarrow> string \<Rightarrow> string \<Rightarrow> SubmissionRow option" where
  "the_submission s sid tid = of_tenant SubmissionRow.tenant_id tid (get_submission s sid)"

definition the_activity :: "JobStore \<Rightarrow> string \<Rightarrow> string \<Rightarrow> ActivityRow option" where
  "the_activity s aid tid = of_tenant ActivityRow.tenant_id tid (get_activity s aid)"

section \<open>Queueing\<close>

definition job_row :: "JobStatus \<Rightarrow> string \<Rightarrow> datetime \<Rightarrow> JobRow" where
  "job_row st knd now = \<lparr>JobRow.ident = JobStatus.job_id st, tenant_id = JobStatus.tenant_id st, kind = knd,
     aggregate_id = JobStatus.aggregate_id st, stage = JobStatus.stage st, status = JobStatus.status st,
     progress = JobStatus.progress st, attempt = JobStatus.attempt st, diagnostics = JobStatus.diagnostics st,
     control_state = ''ACTIVE'', failure_class = None, max_attempts = MAX_JOB_ATTEMPTS, next_attempt_at = None,
     resume_from_stage = None, cancel_requested_at = None, cancel_requested_by = None, cancelled_at = None,
     created_at = now, started_at = JobStatus.started_at st, finished_at = JobStatus.finished_at st\<rparr>"

definition queue_activity_job ::
  "JobStatus \<Rightarrow> string list \<Rightarrow> datetime \<Rightarrow> JobStore \<Rightarrow> repo_error + unit \<times> JobStore" where
  "queue_activity_job st allowed now s =
     and_then (found (the_activity s (JobStatus.aggregate_id st) (JobStatus.tenant_id st)) ''activity not found'') (\<lambda>a.
     guarded (first_error [
         conflict_if (ActivityRow.status a \<notin> set allowed) ''ACTIVITY_PIPELINE_ALREADY_STARTED'',
         conflict_if (list_ex (\<lambda>f. ArtifactRow.activity_id f = ActivityRow.ident a
              \<and> ArtifactRow.tenant_id f = ActivityRow.tenant_id a \<and> ArtifactRow.submission_id f = None
              \<and> ArtifactRow.status f \<noteq> ''COMPLETE'') (artifacts s)) ''ARTIFACT_UPLOAD_PENDING''])
       (commit ((), add_job (job_row st ''ACTIVITY'' now)
          (put_activity (a\<lparr>ActivityRow.status := ''QUEUED'', ActivityRow.updated_at := now\<rparr>) s))))"

definition queue_submission_job ::
  "JobStatus \<Rightarrow> SubmissionProcessingState \<Rightarrow> int \<Rightarrow> datetime \<Rightarrow> JobStore \<Rightarrow> repo_error + unit \<times> JobStore" where
  "queue_submission_job st new ver now s =
     and_then (found (the_submission s (SubmissionProcessingState.submission_id new) (JobStatus.tenant_id st))
         ''submission not found'') (\<lambda>sub.
     and_then (checked SubmissionProcessingState_validate (SubmissionRow.state sub)) (\<lambda>current.
     (let files = filter (\<lambda>f. ArtifactRow.submission_id f = Some (SubmissionRow.ident sub)
             \<and> ArtifactRow.tenant_id f = SubmissionRow.tenant_id sub) (artifacts s)
      in guarded (first_error [
           conflict_if (SubmissionProcessingState.status current \<noteq> SubmissionProcessingStatus.UPLOADED
              \<or> \<not> falsy (SubmissionRow.active_job_id sub)) ''SUBMISSION_PIPELINE_ALREADY_STARTED'',
           conflict_if (length files \<noteq> 1 \<or> ArtifactRow.status (hd files) \<noteq> ''COMPLETE'') ''SUBMISSION_ARTIFACT_REQUIRED''])
         (commit ((), add_job (job_row st ''SUBMISSION'' now)
            (put_submission (sub\<lparr>SubmissionRow.state := new, SubmissionRow.active_job_id := SubmissionProcessingState.active_job_id new, SubmissionRow.blueprint_version := Some ver, SubmissionRow.updated_at := now\<rparr>) s))))))"

definition set_submission_state ::
  "SubmissionProcessingState \<Rightarrow> datetime \<Rightarrow> JobStore \<Rightarrow> repo_error + unit \<times> JobStore" where
  "set_submission_state new now s =
     and_then (found (get_submission s (SubmissionProcessingState.submission_id new)) ''submission not found'') (\<lambda>sub.
     commit ((), put_submission (sub\<lparr>SubmissionRow.state := new, SubmissionRow.active_job_id := SubmissionProcessingState.active_job_id new, SubmissionRow.updated_at := now\<rparr>) s))"

definition set_activity_status ::
  "string \<Rightarrow> string \<Rightarrow> string \<Rightarrow> datetime \<Rightarrow> JobStore \<Rightarrow> repo_error + unit \<times> JobStore" where
  "set_activity_status aid tid new now s =
     and_then (found (the_activity s aid tid) ''activity not found'') (\<lambda>a.
     commit ((), put_activity (a\<lparr>ActivityRow.status := new, ActivityRow.updated_at := now\<rparr>) s))"

definition save_job_status ::
  "JobStatus \<Rightarrow> string option \<Rightarrow> datetime \<Rightarrow> JobStore \<Rightarrow> repo_error + unit \<times> JobStore" where
  "save_job_status st knd now s =
     (case get_job s (JobStatus.job_id st) of
        None \<Rightarrow> (case knd of None \<Rightarrow> Inl (NotFound ''job not found'')
          | Some k \<Rightarrow> commit ((), add_job (job_row st k now) s))
      | Some r \<Rightarrow>
          if JobRow.tenant_id r \<noteq> JobStatus.tenant_id st then Inl (NotFound ''job not found'')
          else guarded (conflict_if (JobRow.control_state r \<in> {''CANCEL_REQUESTED'', ''CANCELLED''}
                 \<and> JobStatus.status st = ''SUCCEEDED'') ''JOB_CANCEL_REQUESTED'')
            (let r' = r\<lparr>JobRow.stage := JobStatus.stage st, JobRow.status := JobStatus.status st, JobRow.progress := JobStatus.progress st, JobRow.attempt := JobStatus.attempt st, JobRow.diagnostics := JobStatus.diagnostics st, JobRow.started_at := JobStatus.started_at st, JobRow.finished_at := JobStatus.finished_at st\<rparr>
             in commit ((), put_job (if JobStatus.status st = ''SUCCEEDED''
                  then r'\<lparr>JobRow.failure_class := None, JobRow.next_attempt_at := None\<rparr> else r') s)))"

end
