(* ===== verification/JobControl.thy ===== *)
theory JobControl
  imports JobStore
begin

text \<open>
  The control operations of the job queue: cancellation, retry, resume, the recovery of stale jobs,
  the claim by a worker, and the publication of a submission's assessment.
\<close>

section \<open>Cancellation\<close>

definition cancel_diagnostic :: Diagnostic where
  "cancel_diagnostic = \<lparr>Diagnostic.code = ''JOB_CANCELLED'', severity = Severity.ERROR,
     message = ''The durable job was cancelled by an authorized actor.'', evidence_ids = [], source_ids = [],
     retryable = False, details = []\<rparr>"

definition append_diagnostic_once :: "Diagnostic list \<Rightarrow> Diagnostic \<Rightarrow> Diagnostic list" where
  "append_diagnostic_once ds d = (if list_ex (\<lambda>e. Diagnostic.code e = Diagnostic.code d) ds then ds else ds @ [d])"

definition cancelled_row :: "JobRow \<Rightarrow> datetime \<Rightarrow> JobRow" where
  "cancelled_row r t = r\<lparr>JobRow.status := ''FAILED'', JobRow.control_state := ''CANCELLED'',
     JobRow.failure_class := Some ''CANCELLATION'', JobRow.finished_at := Some t, JobRow.cancelled_at := Some t,
     JobRow.next_attempt_at := None,
     JobRow.diagnostics := append_diagnostic_once (JobRow.diagnostics r) cancel_diagnostic\<rparr>"

definition cancelled_submission :: "JobRow \<Rightarrow> SubmissionRow \<Rightarrow> datetime \<Rightarrow> SubmissionRow" where
  "cancelled_submission r sub t = sub\<lparr>SubmissionRow.state := (SubmissionRow.state sub)\<lparr>
        SubmissionProcessingState.status := SubmissionProcessingStatus.CANCELLED,
        SubmissionProcessingState.current_stage := Some (JobRow.stage r),
        SubmissionProcessingState.active_job_id := None,
        SubmissionProcessingState.diagnostics :=
          SubmissionProcessingState.diagnostics (SubmissionRow.state sub) @ [cancel_diagnostic],
        SubmissionProcessingState.updated_at := t\<rparr>,
     SubmissionRow.active_job_id := None, SubmissionRow.updated_at := t\<rparr>"

definition complete_cancellation :: "JobRow \<Rightarrow> datetime \<Rightarrow> JobStore \<Rightarrow> repo_error + JobRow \<times> JobStore" where
  "complete_cancellation r t s =
     (let r' = cancelled_row r t; s' = put_job r' s
      in if JobRow.kind r = ''ACTIVITY'' then
           and_then (found (the_activity s (JobRow.aggregate_id r) (JobRow.tenant_id r)) ''activity not found'')
             (\<lambda>a. Inr (r', put_activity (a\<lparr>ActivityRow.status := ''DRAFT'', ActivityRow.updated_at := t\<rparr>) s'))
         else if JobRow.kind r \<noteq> ''SUBMISSION'' then Inr (r', s')
         else and_then (found (the_submission s (JobRow.aggregate_id r) (JobRow.tenant_id r)) ''submission not found'')
           (\<lambda>sub. and_then (checked SubmissionProcessingState_validate (SubmissionRow.state sub))
             (\<lambda>current. Inr (r', put_submission (cancelled_submission r sub t) s'))))"

definition control_record ::
  "string \<Rightarrow> JobRow \<Rightarrow> JobControlActionType \<Rightarrow> string \<Rightarrow> string \<Rightarrow> string option \<Rightarrow> FailureClass option
     \<Rightarrow> string option \<Rightarrow> datetime \<Rightarrow> JobControlRecord" where
  "control_record cid r act who reason tgt failure cont t =
     \<lparr>JobControlRecord.schema_version = CONTRACT_VERSION, control_id = cid, tenant_id = JobRow.tenant_id r,
      job_id = JobRow.ident r, aggregate_id = JobRow.aggregate_id r, action = act, status = JobControlStatus.APPLIED,
      actor_id = who, source_attempt = JobRow.attempt r, reason_code = reason, target_stage = tgt,
      failure_class = failure, resulting_job_id = cont, diagnostics = [], requested_at = t, decided_at = Some t\<rparr>"

definition add_control :: "JobControlRecord \<Rightarrow> JobStore \<Rightarrow> JobStore" where
  "add_control c s = s\<lparr>controls := controls s @ [c]\<rparr>"

definition control_identifier ::
  "string option \<Rightarrow> string \<Rightarrow> string \<Rightarrow> string \<Rightarrow> datetime \<Rightarrow> repo_error + string" where
  "control_identifier given tid jid who t =
     (if given \<noteq> None \<and> given \<noteq> Some [] then Inr (the given)
      else case stable_id ''ctl'' [JStr tid, JStr jid, JStr ''CANCEL'', JStr who, JStr (isoformat t)] of
          Inl msg \<Rightarrow> Inl (ValueError msg) | Inr i \<Rightarrow> Inr i)"

definition request_job_cancel ::
  "string \<Rightarrow> string \<Rightarrow> string \<Rightarrow> string option \<Rightarrow> string \<Rightarrow> datetime \<Rightarrow> JobStore
     \<Rightarrow> repo_error + JobRow \<times> JobStore" where
  "request_job_cancel jid tid who given reason now s =
     and_then (lock_job s jid tid) (\<lambda>r.
       if JobRow.control_state r = ''CANCELLED'' then Inr (r, s)
       else if JobRow.control_state r = ''CANCEL_REQUESTED'' then Inr (r, s)
       else guarded (conflict_if (JobRow.status r \<notin> {''QUEUED'', ''RUNNING''}) ''JOB_NOT_CANCELLABLE'')
         (let r' = r\<lparr>JobRow.control_state := ''CANCEL_REQUESTED'', JobRow.cancel_requested_at := Some now,
              JobRow.cancel_requested_by := Some who, JobRow.next_attempt_at := None\<rparr>
          in and_then (control_identifier given tid jid who now) (\<lambda>cid.
             and_then (checked JobControlRecord_validate
                (control_record cid r' JobControlActionType.CANCEL who reason None None None now)) (\<lambda>c.
             let s' = add_control c (put_job r' s)
             in if JobRow.status r = ''QUEUED'' then and_then (complete_cancellation r' now s') commit
                else commit (r', s')))))"

definition complete_job_cancellation ::
  "string \<Rightarrow> string \<Rightarrow> datetime \<Rightarrow> JobStore \<Rightarrow> repo_error + JobRow \<times> JobStore" where
  "complete_job_cancellation jid tid now s =
     and_then (lock_job s jid tid) (\<lambda>r.
       if JobRow.control_state r = ''CANCELLED'' then Inr (r, s)
       else guarded (conflict_if (JobRow.control_state r \<noteq> ''CANCEL_REQUESTED'') ''JOB_CANCEL_NOT_REQUESTED'')
         (and_then (complete_cancellation r now s) commit))"

definition job_cancel_requested :: "string \<Rightarrow> string \<Rightarrow> JobStore \<Rightarrow> repo_error + bool" where
  "job_cancel_requested jid tid s =
     and_then (lock_job s jid tid) (\<lambda>r. Inr (JobRow.control_state r \<in> {''CANCEL_REQUESTED'', ''CANCELLED''}))"

section \<open>Retry and resume\<close>

definition has_applied_continuation :: "JobStore \<Rightarrow> JobRow \<Rightarrow> bool" where
  "has_applied_continuation s r = list_ex (\<lambda>c. JobControlRecord.tenant_id c = JobRow.tenant_id r
     \<and> JobControlRecord.job_id c = JobRow.ident r \<and> JobControlRecord.source_attempt c = JobRow.attempt r
     \<and> JobControlRecord.action c \<in> {JobControlActionType.RETRY, JobControlActionType.RESUME}
     \<and> JobControlRecord.status c = JobControlStatus.APPLIED) (controls s)"

definition activate_resulting_submission_job ::
  "JobRow \<Rightarrow> JobRow \<Rightarrow> datetime \<Rightarrow> JobStore \<Rightarrow> repo_error + JobStore" where
  "activate_resulting_submission_job src cont t s =
     (if JobRow.kind src \<noteq> ''SUBMISSION'' then Inr s
      else and_then (found (the_submission s (JobRow.aggregate_id src) (JobRow.tenant_id src))
          ''submission not found'')
        (\<lambda>sub. and_then (checked SubmissionProcessingState_validate (SubmissionRow.state sub))
          (\<lambda>current. Inr (put_submission (sub\<lparr>SubmissionRow.state := current\<lparr>
               SubmissionProcessingState.current_stage := Some (JobRow.stage cont),
               SubmissionProcessingState.active_job_id := Some (JobRow.ident cont),
               SubmissionProcessingState.updated_at := t\<rparr>,
             SubmissionRow.active_job_id := Some (JobRow.ident cont), SubmissionRow.updated_at := t\<rparr>) s))))"

definition continuation_row ::
  "JobRow \<Rightarrow> string \<Rightarrow> string \<Rightarrow> int \<Rightarrow> datetime option \<Rightarrow> datetime \<Rightarrow> JobRow" where
  "continuation_row src rid from_stage limit nxt now =
     \<lparr>JobRow.ident = rid, tenant_id = JobRow.tenant_id src, kind = JobRow.kind src,
      aggregate_id = JobRow.aggregate_id src, stage = from_stage, status = ''QUEUED'',
      progress = JobRow.progress src, attempt = JobRow.attempt src, diagnostics = [],
      control_state = ''ACTIVE'', failure_class = None, max_attempts = limit, next_attempt_at = nxt,
      resume_from_stage = Some from_stage, cancel_requested_at = None, cancel_requested_by = None,
      cancelled_at = None, created_at = now, started_at = None, finished_at = None\<rparr>"

definition failure_of :: "string \<Rightarrow> FailureClass option" where
  "failure_of f = map_of [(''TRANSIENT'', FailureClass.TRANSIENT), (''PERMANENT'', FailureClass.PERMANENT),
     (''SECURITY'', FailureClass.SECURITY), (''VALIDATION'', FailureClass.VALIDATION),
     (''PRECONDITION'', FailureClass.PRECONDITION), (''PROVIDER'', FailureClass.PROVIDER),
     (''CANCELLATION'', FailureClass.CANCELLATION)] f"

text \<open>The latest failed run of the stage is told when the retry is due:
  \<open>order_by(attempt.desc(), started_at.desc()).limit(1)\<close>.\<close>

definition latest_failed_stage :: "JobStore \<Rightarrow> JobRow \<Rightarrow> string \<Rightarrow> StageRunRow option" where
  "latest_failed_stage s r stg =
     (case sort_key (\<lambda>x. (- StageRunRow.attempt x, - instant (StageRunRow.started_at x)))
         (filter (\<lambda>x. StageRunRow.job_id x = JobRow.ident r \<and> StageRunRow.tenant_id x = JobRow.tenant_id r
            \<and> StageRunRow.status x = ''FAILED'' \<and> StageRunRow.stage x = stg) (stage_runs s)) of
        [] \<Rightarrow> None | x # _ \<Rightarrow> Some x)"

definition note_stage_retry :: "JobRow \<Rightarrow> string \<Rightarrow> string \<Rightarrow> datetime \<Rightarrow> JobStore \<Rightarrow> JobStore" where
  "note_stage_retry r stg failure nxt s =
     (case latest_failed_stage s r stg of None \<Rightarrow> s
      | Some x \<Rightarrow> s\<lparr>stage_runs := set_row StageRunRow.ident (x\<lparr>StageRunRow.failure_class := Some failure,
          StageRunRow.next_attempt_at := Some nxt\<rparr>) (stage_runs s)\<rparr>)"

definition retry_guards ::
  "JobRow \<Rightarrow> string \<Rightarrow> int \<Rightarrow> string \<Rightarrow> JobStore \<Rightarrow> repo_error option" where
  "retry_guards src failure effective_max rid s = first_error [
     conflict_if (JobRow.control_state src \<noteq> ''ACTIVE'') ''JOB_CANCEL_REQUESTED'',
     conflict_if (JobRow.status src \<noteq> ''FAILED'') ''JOB_NOT_RETRYABLE'',
     conflict_if (JobRow.failure_class src \<noteq> Some failure) ''JOB_FAILURE_CLASS_MISMATCH'',
     conflict_if (effective_max \<le> JobRow.attempt src) ''JOB_RETRY_LIMIT_EXHAUSTED'',
     conflict_if (has_applied_continuation s src) ''JOB_CONTINUATION_ALREADY_SCHEDULED'',
     conflict_if (failure = ''PROVIDER'' \<and> \<not> list_ex Diagnostic.retryable (JobRow.diagnostics src))
       ''JOB_FAILURE_NOT_RETRYABLE'',
     conflict_if (get_job s rid \<noteq> None) ''JOB_RESULT_ALREADY_EXISTS'']"

definition schedule_job_retry ::
  "string \<Rightarrow> string \<Rightarrow> string \<Rightarrow> string \<Rightarrow> string \<Rightarrow> string \<Rightarrow> string \<Rightarrow> datetime \<Rightarrow> string \<Rightarrow> int option
     \<Rightarrow> datetime \<Rightarrow> JobStore \<Rightarrow> repo_error + JobRow \<times> JobStore" where
  "schedule_job_retry jid tid rid cid who reason failure nxt from_stage limit now s =
     guarded (first_error [
         conflict_if (failure \<notin> set RETRYABLE_JOB_FAILURE_CLASSES) ''JOB_FAILURE_NOT_RETRYABLE'',
         conflict_if (rid = jid) ''JOB_RETRY_REQUIRES_DISTINCT_JOB'',
         (case limit of None \<Rightarrow> None | Some n \<Rightarrow>
            raise_if (n < 1 \<or> 10 < n) (ValueError ''max_attempts must be between 1 and 10''))])
       (on_integrity ''JOB_RETRY_ALREADY_SCHEDULED''
         (and_then (lock_job s jid tid) (\<lambda>src.
           let effective_max = (case limit of None \<Rightarrow> JobRow.max_attempts src | Some n \<Rightarrow> n);
               cont = continuation_row src rid from_stage effective_max (Some nxt) now
           in guarded (retry_guards src failure effective_max rid s)
             (and_then (activate_resulting_submission_job src cont now (add_job cont s)) (\<lambda>s'.
              and_then (checked JobControlRecord_validate (control_record cid src JobControlActionType.RETRY
                 who reason (Some from_stage) (failure_of failure) (Some rid) now)) (\<lambda>c.
              commit (cont, add_control c (note_stage_retry src from_stage failure nxt s'))))))))"

definition resume_guards :: "JobRow \<Rightarrow> string \<Rightarrow> JobStore \<Rightarrow> repo_error option" where
  "resume_guards src rid s = first_error [
     conflict_if (JobRow.control_state src \<noteq> ''ACTIVE'') ''JOB_CANCEL_REQUESTED'',
     conflict_if (JobRow.status src \<notin> {''FAILED'', ''NEEDS_REVIEW''}) ''JOB_NOT_RESUMABLE'',
     conflict_if (JobRow.status src = ''FAILED''
        \<and> JobRow.failure_class src \<notin> {Some ''PRECONDITION'', Some ''VALIDATION''}) ''JOB_NOT_RESUMABLE'',
     conflict_if (JobRow.max_attempts src \<le> JobRow.attempt src) ''JOB_RETRY_LIMIT_EXHAUSTED'',
     conflict_if (has_applied_continuation s src) ''JOB_CONTINUATION_ALREADY_SCHEDULED'',
     conflict_if (get_job s rid \<noteq> None) ''JOB_RESULT_ALREADY_EXISTS'']"

definition schedule_job_resume ::
  "string \<Rightarrow> string \<Rightarrow> string \<Rightarrow> string \<Rightarrow> string \<Rightarrow> string \<Rightarrow> string \<Rightarrow> datetime option
     \<Rightarrow> datetime \<Rightarrow> JobStore \<Rightarrow> repo_error + JobRow \<times> JobStore" where
  "schedule_job_resume jid tid rid cid who reason from_stage nxt now s =
     guarded (conflict_if (rid = jid) ''JOB_RESUME_REQUIRES_DISTINCT_JOB'')
       (on_integrity ''JOB_RESUME_ALREADY_SCHEDULED''
         (and_then (lock_job s jid tid) (\<lambda>src.
           let cont = continuation_row src rid from_stage (JobRow.max_attempts src) nxt now
           in guarded (resume_guards src rid s)
             (and_then (activate_resulting_submission_job src cont now (add_job cont s)) (\<lambda>s'.
              and_then (checked JobControlRecord_validate (control_record cid src JobControlActionType.RESUME
                 who reason (Some from_stage) None (Some rid) now)) (\<lambda>c.
              commit (cont, add_control c s')))))))"

section \<open>Failures found from outside\<close>

text \<open>The projection of a failed job on its aggregate, shared by \<open>fail_queued_dispatch\<close> and
  \<open>reconcile_stale_jobs\<close>.\<close>

definition fail_aggregate :: "JobRow \<Rightarrow> Diagnostic \<Rightarrow> datetime \<Rightarrow> JobStore \<Rightarrow> repo_error + JobStore" where
  "fail_aggregate r d t s =
     (if JobRow.kind r = ''ACTIVITY'' then
        (case the_activity s (JobRow.aggregate_id r) (JobRow.tenant_id r) of None \<Rightarrow> Inr s
         | Some a \<Rightarrow> Inr (put_activity (a\<lparr>ActivityRow.status := ''TECHNICAL_FAILURE'', ActivityRow.updated_at := t\<rparr>) s))
      else if JobRow.kind r = ''SUBMISSION'' then
        (case the_submission s (JobRow.aggregate_id r) (JobRow.tenant_id r) of None \<Rightarrow> Inr s
         | Some sub \<Rightarrow>
             if SubmissionRow.active_job_id sub \<noteq> Some (JobRow.ident r) then Inr s
             else and_then (checked SubmissionProcessingState_validate (SubmissionRow.state sub))
               (\<lambda>current. Inr (put_submission (sub\<lparr>SubmissionRow.state := current\<lparr>
                    SubmissionProcessingState.status := SubmissionProcessingStatus.TECHNICAL_FAILURE,
                    SubmissionProcessingState.current_stage := Some (JobRow.stage r),
                    SubmissionProcessingState.active_job_id := Some (JobRow.ident r),
                    SubmissionProcessingState.diagnostics := [d],
                    SubmissionProcessingState.updated_at := t\<rparr>, SubmissionRow.updated_at := t\<rparr>) s)))
      else Inr s)"

definition failed_row :: "JobRow \<Rightarrow> string \<Rightarrow> Diagnostic \<Rightarrow> datetime \<Rightarrow> JobRow" where
  "failed_row r failure d t = r\<lparr>JobRow.status := ''FAILED'', JobRow.failure_class := Some failure,
     JobRow.diagnostics := [d], JobRow.next_attempt_at := None, JobRow.finished_at := Some t\<rparr>"

definition fail_queued_dispatch ::
  "string \<Rightarrow> string \<Rightarrow> Diagnostic \<Rightarrow> string \<Rightarrow> datetime \<Rightarrow> JobStore \<Rightarrow> repo_error + bool \<times> JobStore" where
  "fail_queued_dispatch jid tid d failure now s =
     and_then (lock_job s jid tid) (\<lambda>r.
       if JobRow.status r \<noteq> ''QUEUED'' \<or> JobRow.control_state r \<noteq> ''ACTIVE'' then Inr (False, s)
       else and_then (fail_aggregate r d now (put_job (failed_row r failure d now) s))
         (\<lambda>s'. commit (True, s')))"

definition lease_diagnostic :: Diagnostic where
  "lease_diagnostic = \<lparr>Diagnostic.code = ''JOB_LEASE_EXPIRED'', severity = Severity.ERROR,
     message = ''The worker lease expired before a terminal state was persisted.'', evidence_ids = [],
     source_ids = [], retryable = True, details = []\<rparr>"

definition is_stale :: "datetime \<Rightarrow> JobRow \<Rightarrow> bool" where
  "is_stale cutoff r \<longleftrightarrow> JobRow.status r = ''RUNNING''
     \<and> (case JobRow.started_at r of None \<Rightarrow> False | Some t \<Rightarrow> instant t \<le> instant cutoff)"

definition stale_jobs :: "datetime \<Rightarrow> JobStore \<Rightarrow> JobRow list" where
  "stale_jobs cutoff s = take 100 (sort_key (\<lambda>r. (instant (the (JobRow.started_at r)), JobRow.ident r))
     (filter (is_stale cutoff) (jobs s)))"

definition reconcile_row :: "datetime \<Rightarrow> JobRow \<Rightarrow> JobStore \<Rightarrow> repo_error + JobStore" where
  "reconcile_row t r s =
     (if JobRow.control_state r = ''CANCEL_REQUESTED'' then
        and_then (complete_cancellation r t s) (\<lambda>p. Inr (snd p))
      else if JobRow.control_state r \<noteq> ''ACTIVE'' then Inr s
      else fail_aggregate r lease_diagnostic t (put_job (failed_row r ''TRANSIENT'' lease_diagnostic t) s))"

fun reconcile_rows :: "datetime \<Rightarrow> JobRow list \<Rightarrow> JobStore \<Rightarrow> repo_error + JobStore" where
  "reconcile_rows t [] s = Inr s"
| "reconcile_rows t (r # rs) s = and_then (reconcile_row t r s) (reconcile_rows t rs)"

definition reconcile_stale_jobs ::
  "int \<Rightarrow> datetime \<Rightarrow> JobStore \<Rightarrow> repo_error + nat \<times> JobStore" where
  "reconcile_stale_jobs lease_seconds now s =
     guarded (raise_if (lease_seconds < 300 \<or> 7200 < lease_seconds)
         (ValueError ''job lease must be between 300 and 7200 seconds''))
       (let rows = stale_jobs (minus_seconds now lease_seconds) s
        in and_then (reconcile_rows now rows s) (\<lambda>s'. commit (length rows, s')))"

section \<open>The claim\<close>

definition claimable :: "datetime \<Rightarrow> JobRow \<Rightarrow> bool" where
  "claimable now r \<longleftrightarrow> JobRow.status r = ''QUEUED'' \<and> JobRow.control_state r = ''ACTIVE''
     \<and> JobRow.attempt r < JobRow.max_attempts r
     \<and> (case JobRow.next_attempt_at r of None \<Rightarrow> True | Some t \<Rightarrow> instant t \<le> instant now)"

definition next_claim :: "datetime \<Rightarrow> JobStore \<Rightarrow> JobRow option" where
  "next_claim now s =
     (case sort_key (\<lambda>r. (instant (JobRow.created_at r), JobRow.ident r)) (filter (claimable now) (jobs s)) of
        [] \<Rightarrow> None | r # _ \<Rightarrow> Some r)"

definition claimed_row :: "JobRow \<Rightarrow> datetime \<Rightarrow> JobRow" where
  "claimed_row r now = r\<lparr>JobRow.status := ''RUNNING'', JobRow.attempt := JobRow.attempt r + 1,
     JobRow.started_at := Some now, JobRow.finished_at := None, JobRow.next_attempt_at := None\<rparr>"

text \<open>The recovery commits in a transaction of its own, at \<open>before\<close>; the claim follows at \<open>now\<close>, on
  the recovered store.\<close>

definition claim_next_job ::
  "int \<Rightarrow> datetime \<Rightarrow> datetime \<Rightarrow> JobStore \<Rightarrow> repo_error + JobRow option \<times> JobStore" where
  "claim_next_job lease_seconds before now s =
     and_then (reconcile_stale_jobs lease_seconds before s) (\<lambda>(n, s').
       case next_claim now s' of None \<Rightarrow> Inr (None, s')
       | Some r \<Rightarrow> commit (Some (claimed_row r now), put_job (claimed_row r now) s'))"

section \<open>Publication\<close>

definition published_state :: "SubmissionRow \<Rightarrow> JobRow \<Rightarrow> datetime \<Rightarrow> SubmissionProcessingState" where
  "published_state sub job now = \<lparr>SubmissionProcessingState.schema_version = LEGACY_SCHEMA_VERSION,
     submission_id = SubmissionRow.ident sub, activity_id = SubmissionRow.activity_id sub,
     status = SubmissionProcessingStatus.NEEDS_REVIEW, current_stage = Some ''NEEDS_REVIEW'', progress = 1,
     active_job_id = Some (JobRow.ident job), diagnostics = [], updated_at = now\<rparr>"

definition merge_assessment :: "AssessmentRow \<Rightarrow> AssessmentRow list \<Rightarrow> AssessmentRow list" where
  "merge_assessment r rows = (if AssessmentRow.row_id r \<in> set (map AssessmentRow.row_id rows)
     then set_row AssessmentRow.row_id r rows else rows @ [r])"

definition merge_guide :: "GuideRow \<Rightarrow> GuideRow list \<Rightarrow> GuideRow list" where
  "merge_guide r rows = (if GuideRow.guide_id r \<in> set (map GuideRow.guide_id rows)
     then set_row GuideRow.guide_id r rows else rows @ [r])"

definition inconsistent_finalization :: "string \<Rightarrow> AssessmentRow \<Rightarrow> GuideRow \<Rightarrow> bool" where
  "inconsistent_finalization tid a g \<longleftrightarrow>
     AssessmentRow.tenant_id a \<noteq> tid \<or> GuideRow.tenant_id g \<noteq> tid
     \<or> AssessmentRow.submission_id a \<noteq> GuideRow.submission_id g
     \<or> AssessmentRow.assessment_id a \<noteq> GuideRow.assessment_id g
     \<or> Assessment.submission_id (AssessmentRow.data a) \<noteq> AssessmentRow.submission_id a
     \<or> Assessment.assessment_id (AssessmentRow.data a) \<noteq> AssessmentRow.assessment_id a
     \<or> Assessment.status (AssessmentRow.data a) \<noteq> WorkflowStatus.NEEDS_REVIEW
     \<or> EvaluationGuide.assessment_id (GuideRow.data g) \<noteq> AssessmentRow.assessment_id a
     \<or> EvaluationGuide.status (GuideRow.data g) \<noteq> ''READY''"

definition finished_row :: "JobRow \<Rightarrow> datetime \<Rightarrow> JobRow" where
  "finished_row job now = job\<lparr>JobRow.stage := ''ASSEMBLE'', JobRow.status := ''SUCCEEDED'', JobRow.progress := 1,
     JobRow.failure_class := None, JobRow.next_attempt_at := None, JobRow.finished_at := Some now\<rparr>"

definition finalize_submission_assessment ::
  "string \<Rightarrow> string \<Rightarrow> AssessmentRow \<Rightarrow> GuideRow \<Rightarrow> datetime \<Rightarrow> JobStore \<Rightarrow> repo_error + bool \<times> JobStore" where
  "finalize_submission_assessment jid tid a g now s =
     and_then (checked Assessment_validate (AssessmentRow.data a)) (\<lambda>av.
     and_then (checked EvaluationGuide_validate (GuideRow.data g)) (\<lambda>gv.
     guarded (raise_if (inconsistent_finalization tid a g)
         (ValueError ''assessment finalization references are inconsistent''))
      (and_then (lock_job s jid tid) (\<lambda>job.
       and_then (found (the_submission s (AssessmentRow.submission_id a) tid) ''submission not found'') (\<lambda>sub.
         if JobRow.control_state job \<noteq> ''ACTIVE'' then
           (if JobRow.control_state job = ''CANCEL_REQUESTED'' then
              and_then (complete_cancellation job now s) (\<lambda>p. commit (False, snd p))
            else Inr (False, s))
         else guarded (conflict_if (JobRow.status job \<noteq> ''RUNNING''
                \<or> SubmissionRow.active_job_id sub \<noteq> Some (JobRow.ident job)) ''SUBMISSION_FINALIZATION_STATE_CHANGED'')
           (and_then (checked SubmissionProcessingState_validate (published_state sub job now)) (\<lambda>new.
             commit (True, (put_submission (sub\<lparr>SubmissionRow.state := new,
                 SubmissionRow.active_job_id := Some (JobRow.ident job), SubmissionRow.updated_at := now\<rparr>)
               (put_job (finished_row job now) s))
                 \<lparr>assessments := merge_assessment a (assessments s), guides := merge_guide g (guides s)\<rparr>)))))))) "

end
