(* ===== verification/JobSteps.thy ===== *)
theory JobSteps
  imports JobControl "HOL-Library.Multiset"
begin

text \<open>
  The job queue as a transition system: a step is a successful operation, of whatever caller.  The
  invariant says that the constraints of the tables hold, that only an active job is successful, that
  a submission's row and its state name the same active job, and that every applied retry or resume
  names a job of the same tenant and aggregate; and along every run a job keeps its identity, while
  its control state only moves towards CANCELLED.
\<close>

section \<open>The invariant\<close>

definition control_rank :: "string \<Rightarrow> nat" where
  "control_rank c = (if c = ''ACTIVE'' then 0 else if c = ''CANCEL_REQUESTED'' then 1 else 2)"

definition job_le :: "JobRow \<Rightarrow> JobRow \<Rightarrow> bool" where
  "job_le r r' \<longleftrightarrow> JobRow.ident r' = JobRow.ident r \<and> JobRow.tenant_id r' = JobRow.tenant_id r
     \<and> JobRow.kind r' = JobRow.kind r \<and> JobRow.aggregate_id r' = JobRow.aggregate_id r
     \<and> JobRow.created_at r' = JobRow.created_at r
     \<and> control_rank (JobRow.control_state r) \<le> control_rank (JobRow.control_state r')"

definition evolves :: "JobStore \<Rightarrow> JobStore \<Rightarrow> bool" where
  "evolves s s' \<longleftrightarrow> (\<forall>r \<in> set (jobs s). \<exists>r' \<in> set (jobs s'). job_le r r')"

definition job_ok :: "JobRow \<Rightarrow> bool" where
  "job_ok r \<longleftrightarrow> (JobRow.status r = ''SUCCEEDED'' \<longrightarrow> JobRow.control_state r = ''ACTIVE'')"

definition submission_ok :: "SubmissionRow \<Rightarrow> bool" where
  "submission_ok sub \<longleftrightarrow> SubmissionRow.active_job_id sub
     = SubmissionProcessingState.active_job_id (SubmissionRow.state sub)"

definition linked :: "JobStore \<Rightarrow> JobControlRecord \<Rightarrow> bool" where
  "linked s c \<longleftrightarrow> (\<forall>rid. JobControlRecord.resulting_job_id c = Some rid \<longrightarrow>
     (\<exists>r \<in> set (jobs s). JobRow.ident r = rid \<and> JobRow.tenant_id r = JobControlRecord.tenant_id c
        \<and> JobRow.aggregate_id r = JobControlRecord.aggregate_id c))"

definition core :: "JobStore \<Rightarrow> bool" where
  "core s \<longleftrightarrow> (\<forall>r \<in> set (jobs s). job_ok r) \<and> (\<forall>sub \<in> set (submissions s). submission_ok sub)
     \<and> (\<forall>c \<in> set (controls s). JobControlRecord_validate c = None \<and> linked s c)"

definition distinct_jobs :: "JobStore \<Rightarrow> bool" where
  "distinct_jobs s \<longleftrightarrow> distinct (map JobRow.ident (jobs s))"

definition job_invariant :: "JobStore \<Rightarrow> bool" where
  "job_invariant s \<longleftrightarrow> integrity s \<and> core s"

lemma job_le_refl [simp]: "job_le r r"
  by (simp add: job_le_def)

lemma job_le_trans: "job_le a b \<Longrightarrow> job_le b c \<Longrightarrow> job_le a c"
  by (auto simp: job_le_def)

lemma evolves_refl [simp]: "evolves s s"
  unfolding evolves_def using job_le_refl by blast

lemma evolves_trans: "evolves a b \<Longrightarrow> evolves b c \<Longrightarrow> evolves a c"
  unfolding evolves_def by (meson job_le_trans)

lemma linked_evolves: "linked s c \<Longrightarrow> evolves s s' \<Longrightarrow> linked s' c"
  unfolding linked_def evolves_def job_le_def by metis

lemma integrity_distinct: "integrity s \<Longrightarrow> distinct_jobs s"
  by (simp add: integrity_def distinct_jobs_def)

section \<open>The tables change one at a time\<close>

lemma table_simps [simp]:
  "jobs (put_submission x s) = jobs s" "controls (put_submission x s) = controls s"
  "jobs (put_activity y s) = jobs s" "controls (put_activity y s) = controls s"
  "submissions (put_activity y s) = submissions s"
  "submissions (put_job r s) = submissions s" "controls (put_job r s) = controls s"
  "submissions (add_job r s) = submissions s" "controls (add_job r s) = controls s"
  "jobs (add_control c s) = jobs s" "submissions (add_control c s) = submissions s"
  "controls (add_control c s) = controls s @ [c]" "jobs (add_job r s) = jobs s @ [r]"
  "jobs (note_stage_retry r stg f t s) = jobs s" "controls (note_stage_retry r stg f t s) = controls s"
  "submissions (note_stage_retry r stg f t s) = submissions s"
  by (simp_all add: put_submission_def put_activity_def put_job_def add_job_def add_control_def
      note_stage_retry_def split: option.splits)

lemma evolves_same_jobs: "jobs s' = jobs s \<Longrightarrow> evolves s s'"
  unfolding evolves_def by (simp, blast intro: job_le_refl)

lemma linked_same_jobs: "jobs s' = jobs s \<Longrightarrow> linked s' c = linked s c"
  by (simp add: linked_def)

lemma evolves_add_job [simp]: "evolves s (add_job r s)"
  unfolding evolves_def by (simp, blast intro: job_le_refl)

lemma evolves_put_job:
  assumes d: "distinct_jobs s" and old: "get_job s (JobRow.ident r) = Some old" and le: "job_le old r"
  shows "evolves s (put_job r s)"
proof -
  have "\<exists>r' \<in> set (jobs (put_job r s)). job_le x r'" if x: "x \<in> set (jobs s)" for x
  proof (cases "JobRow.ident x = JobRow.ident r")
    case True
    then have "get_job s (JobRow.ident r) = Some x"
      using job_table.lookup_unique [OF d [unfolded distinct_jobs_def] x] by simp
    with old le have "job_le x r" by simp
    moreover have "r \<in> set (jobs (put_job r s))" using job_table.mem_replace [OF old] by blast
    ultimately show ?thesis by blast
  next
    case False
    with x have "x \<in> set (jobs (put_job r s))" using job_table.mem_replace [OF old] by blast
    then show ?thesis using job_le_refl by blast
  qed
  then show ?thesis by (simp add: evolves_def)
qed

lemma evolves_simps [simp]:
  "evolves s (add_control c t) = evolves s t" "evolves s (note_stage_retry r stg f d t) = evolves s t"
  "evolves s (put_submission x t) = evolves s t" "evolves s (put_activity y t) = evolves s t"
  by (simp_all add: evolves_def)

lemma core_put_job:
  assumes "core s" and d: "distinct_jobs s" and old: "get_job s (JobRow.ident r) = Some old"
    and le: "job_le old r" and "job_ok r"
  shows "core (put_job r s)"
proof -
  have "\<forall>x \<in> set (jobs (put_job r s)). job_ok x"
    using assms(1,5) by (intro job_table.all_replace) (simp_all add: core_def)
  then show ?thesis
    using assms(1) linked_evolves [OF _ evolves_put_job [OF d old le]] by (simp add: core_def)
qed

lemma core_add_job:
  assumes "core s" and "job_ok r"
  shows "core (add_job r s)"
  using assms linked_evolves [OF _ evolves_add_job] by (auto simp: core_def)

lemma core_put_submission:
  assumes "core s" and "submission_ok sub"
  shows "core (put_submission sub s)"
  using assms submission_table.mem_replaceD [of _ sub s] linked_same_jobs [of "put_submission sub s" s]
  unfolding core_def table_simps by blast

lemma core_put_activity: "core s \<Longrightarrow> core (put_activity a s)"
  using linked_same_jobs [of "put_activity a s" s] by (simp add: core_def)

lemma core_note_stage_retry: "core s \<Longrightarrow> core (note_stage_retry r stg f t s)"
  using linked_same_jobs [of "note_stage_retry r stg f t s" s] by (simp add: core_def)

lemma core_add_control:
  "core s \<Longrightarrow> JobControlRecord_validate c = None \<Longrightarrow> linked s c \<Longrightarrow> core (add_control c s)"
  using linked_same_jobs [of "add_control c s" s] by (auto simp: core_def)

lemma distinct_jobs_simps [simp]:
  "distinct_jobs (put_job r s) = distinct_jobs s" "distinct_jobs (put_submission x s) = distinct_jobs s"
  "distinct_jobs (put_activity y s) = distinct_jobs s" "distinct_jobs (add_control c s) = distinct_jobs s"
  by (simp_all add: distinct_jobs_def)

lemma get_job_simps [simp]:
  "get_job (put_submission x s) = get_job s" "get_job (put_activity y s) = get_job s"
  "get_job (add_control c s) = get_job s"
  by (simp_all add: get_job_def)

lemma get_job_ident: "get_job s k = Some r \<Longrightarrow> JobRow.ident r = k"
  using job_table.lookup_hit by blast

lemma get_job_mem: "get_job s k = Some r \<Longrightarrow> r \<in> set (jobs s)"
  using job_table.lookup_hit by blast

lemma lock_jobD: "lock_job s jid tid = Inr r \<Longrightarrow> get_job s jid = Some r \<and> JobRow.ident r = jid
     \<and> JobRow.tenant_id r = tid"
  by (auto simp: lock_job_def dest: get_job_ident)

lemma core_submission:
  "core s \<Longrightarrow> the_submission s sid tid = Some sub \<Longrightarrow> submission_ok sub"
  using submission_table.lookup_hit by (auto simp: the_submission_def core_def)

section \<open>The operations keep it\<close>

text \<open>What every operation does to the store: identities persist, control states only advance, and
  the invariant of the rows survives.\<close>

definition keeps :: "JobStore \<Rightarrow> JobStore \<Rightarrow> bool" where
  "keeps s s' \<longleftrightarrow> evolves s s' \<and> core s'"

lemma keeps_refl: "core s \<Longrightarrow> keeps s s"
  by (simp add: keeps_def)

lemma keeps_trans: "keeps a b \<Longrightarrow> keeps b c \<Longrightarrow> keeps a c"
  using evolves_trans by (auto simp: keeps_def)

lemma keeps_put_job:
  "core s \<Longrightarrow> distinct_jobs s \<Longrightarrow> get_job s (JobRow.ident r) = Some old \<Longrightarrow> job_le old r \<Longrightarrow> job_ok r
     \<Longrightarrow> keeps s (put_job r s)"
  using core_put_job evolves_put_job by (auto simp: keeps_def)

lemma keeps_put_submission: "core s \<Longrightarrow> submission_ok sub \<Longrightarrow> keeps s (put_submission sub s)"
  using core_put_submission evolves_same_jobs by (auto simp: keeps_def)

lemma keeps_put_activity: "core s \<Longrightarrow> keeps s (put_activity a s)"
  using core_put_activity evolves_same_jobs by (auto simp: keeps_def)

lemma keeps_core: "keeps s s' \<Longrightarrow> core s'"
  by (simp add: keeps_def)

lemma put_job_lookups:
  assumes "distinct_jobs s" and "get_job s (JobRow.ident r) \<noteq> None"
  shows "get_job (put_job r s) (JobRow.ident r) = Some r"
    and "k \<noteq> JobRow.ident r \<Longrightarrow> get_job (put_job r s) k = get_job s k"
  using assms job_table.lookup_replace job_table.lookup_replace_other by (auto simp: distinct_jobs_def)

lemma job_row_ok [simp]: "job_ok (job_row st k now)" "job_ok (continuation_row src rid stg n nxt now)"
  by (simp_all add: job_ok_def job_row_def continuation_row_def)

lemma cancelled_row_facts [simp]:
  "JobRow.ident (cancelled_row r t) = JobRow.ident r" "job_ok (cancelled_row r t)"
  "JobRow.control_state (cancelled_row r t) = ''CANCELLED''"
  by (simp_all add: cancelled_row_def job_ok_def)

lemma job_le_cancelled: "job_le r (cancelled_row r t)"
  by (simp add: job_le_def cancelled_row_def control_rank_def)

lemma complete_cancellation_keeps:
  assumes c: "core s" and d: "distinct_jobs s" and r: "get_job s (JobRow.ident r) = Some r"
    and run: "complete_cancellation r t s = Inr (r', s')"
  shows "keeps s s'" and "distinct_jobs s'" and "r' = cancelled_row r t"
    and "get_job s' (JobRow.ident r) = Some (cancelled_row r t)"
    and "k \<noteq> JobRow.ident r \<Longrightarrow> get_job s' k = get_job s k"
proof -
  let ?s1 = "put_job (cancelled_row r t) s"
  have k1: "keeps s ?s1"
    using keeps_put_job [OF c d, of "cancelled_row r t" r] r job_le_cancelled by simp
  note l1 = put_job_lookups [OF d, of "cancelled_row r t"]
  have "s' = ?s1 \<or> (\<exists>a. s' = put_activity a ?s1) \<or> (\<exists>sub. s' = put_submission (cancelled_submission r sub t) ?s1)"
    and r': "r' = cancelled_row r t"
    using run by (auto simp: complete_cancellation_def Let_def split: if_splits)
  moreover have "submission_ok (cancelled_submission r sub t)" for sub
    by (simp add: submission_ok_def cancelled_submission_def)
  ultimately show "keeps s s'" and "distinct_jobs s'" and "r' = cancelled_row r t"
    and "get_job s' (JobRow.ident r) = Some (cancelled_row r t)"
    and "k \<noteq> JobRow.ident r \<Longrightarrow> get_job s' k = get_job s k"
    using k1 l1 r d keeps_trans [OF k1] keeps_put_activity [OF keeps_core [OF k1]]
      keeps_put_submission [OF keeps_core [OF k1]] by auto
qed

lemma queue_activity_keeps:
  assumes "job_invariant s" and "queue_activity_job st allowed now s = Inr (u, s')"
  shows "keeps s s'"
proof -
  obtain a where s': "s' = add_job (job_row st ''ACTIVITY'' now) (put_activity a s)"
    using assms(2) by (auto simp: queue_activity_job_def)
  have "core (put_activity a s)" using assms(1) core_put_activity by (simp add: job_invariant_def)
  moreover have "evolves s s'" unfolding s' using evolves_trans [OF evolves_same_jobs evolves_add_job] by simp
  ultimately show ?thesis by (simp add: keeps_def s' core_add_job)
qed

lemma queue_submission_keeps:
  assumes "job_invariant s" and "queue_submission_job st new v now s = Inr (u, s')"
  shows "keeps s s'"
proof -
  obtain sub where s': "s' = add_job (job_row st ''SUBMISSION'' now) (put_submission sub s)" and sub: "submission_ok sub"
    using assms(2) by (auto simp: queue_submission_job_def Let_def submission_ok_def)
  have "core (put_submission sub s)" using assms(1) sub core_put_submission by (simp add: job_invariant_def)
  moreover have "evolves s s'" unfolding s' using evolves_trans [OF evolves_same_jobs evolves_add_job] by simp
  ultimately show ?thesis by (simp add: keeps_def s' core_add_job)
qed

lemma set_submission_state_keeps:
  assumes "job_invariant s" and "set_submission_state new now s = Inr (u, s')"
  shows "keeps s s'"
  using assms by (auto simp: set_submission_state_def job_invariant_def submission_ok_def intro!: keeps_put_submission)

lemma set_activity_status_keeps:
  assumes "job_invariant s" and "set_activity_status aid tid new now s = Inr (u, s')"
  shows "keeps s s'"
  using assms by (auto simp: set_activity_status_def job_invariant_def intro!: keeps_put_activity)

lemma save_job_status_keeps:
  assumes inv: "job_invariant s" and run: "save_job_status st knd now s = Inr (u, s')"
  shows "keeps s s'"
proof (cases "get_job s (JobStatus.job_id st)")
  case None
  then show ?thesis
    using run inv core_add_job by (auto simp: save_job_status_def keeps_def job_invariant_def split: option.splits)
next
  case (Some r)
  have id: "JobRow.ident r = JobStatus.job_id st" by (rule get_job_ident [OF Some])
  obtain r' where s': "s' = put_job r' s" and le: "job_le r r'" and ok: "job_ok r'"
  proof -
    have ok0: "JobStatus.status st = ''SUCCEEDED'' \<Longrightarrow> JobRow.control_state r = ''ACTIVE''"
      if "s' = s'" using run Some inv get_job_mem [OF Some]
      by (auto simp: save_job_status_def job_invariant_def integrity_def list_all_iff job_row_ok_def
          JOB_CONTROL_STATES_def split: if_splits)
    show thesis
      using run Some ok0
      by (intro that) (auto simp: save_job_status_def Let_def job_le_def job_ok_def split: if_splits)
  qed
  have "JobRow.ident r' = JobStatus.job_id st" using le id by (simp add: job_le_def)
  then show ?thesis
    unfolding s' using inv Some le ok integrity_distinct
    by (intro keeps_put_job) (simp_all add: job_invariant_def)
qed

lemma request_job_cancel_keeps:
  assumes inv: "job_invariant s" and run: "request_job_cancel jid tid who given reason now s = Inr (x, s')"
  shows "keeps s s'"
proof -
  have c: "core s" and d: "distinct_jobs s" using inv integrity_distinct by (simp_all add: job_invariant_def)
  obtain r where r: "get_job s jid = Some r" "JobRow.ident r = jid" "lock_job s jid tid = Inr r"
    using run lock_jobD by (auto simp: request_job_cancel_def)
  define r' where "r' = r\<lparr>JobRow.control_state := ''CANCEL_REQUESTED'', JobRow.cancel_requested_at := Some now,
              JobRow.cancel_requested_by := Some who, JobRow.next_attempt_at := None\<rparr>"
  show ?thesis
  proof (cases "JobRow.control_state r \<in> {''CANCELLED'', ''CANCEL_REQUESTED''}")
    case True
    then show ?thesis using run r(3) c keeps_refl by (auto simp: request_job_cancel_def)
  next
    case False
    then obtain cid ct where ct: "JobControlRecord_validate ct = None"
        "ct = control_record cid r' JobControlActionType.CANCEL who reason None None None now"
        and s': "s' = add_control ct (put_job r' s)
          \<or> (\<exists>q. complete_cancellation r' now (add_control ct (put_job r' s)) = Inr (q, s'))"
        and st: "JobRow.status r \<in> {''QUEUED'', ''RUNNING''}"
      using run r(3) by (auto simp: request_job_cancel_def Let_def r'_def [symmetric] split: if_splits)
    have "control_rank (JobRow.control_state r) \<le> 1"
      using inv get_job_mem [OF r(1)] False
      by (auto simp: job_invariant_def integrity_def list_all_iff job_row_ok_def JOB_CONTROL_STATES_def control_rank_def)
    then have le: "job_le r r'" by (simp add: job_le_def r'_def control_rank_def)
    have ok: "job_ok r'" using st by (auto simp: job_ok_def r'_def)
    have id: "JobRow.ident r' = jid" using r(2) by (simp add: r'_def)
    have k1: "keeps s (put_job r' s)" using keeps_put_job [OF c d _ le ok] r(1) id by simp
    have "linked (put_job r' s) ct" using ct(2) by (simp add: linked_def control_record_def)
    then have core1: "core (add_control ct (put_job r' s))"
      using core_add_control [OF keeps_core [OF k1] ct(1)] by simp
    have k2: "keeps s (add_control ct (put_job r' s))"
      using k1 core1 by (simp add: keeps_def)
    have "get_job (add_control ct (put_job r' s)) (JobRow.ident r') = Some r'"
      using put_job_lookups(1) [OF d, of r'] r(1) id by simp
    then show ?thesis
      using s' k2 complete_cancellation_keeps(1) [OF core1 _ _] d keeps_trans [OF k2] by auto
  qed
qed

lemma complete_job_cancellation_keeps:
  assumes inv: "job_invariant s" and run: "complete_job_cancellation jid tid now s = Inr (x, s')"
  shows "keeps s s'"
proof -
  have c: "core s" and d: "distinct_jobs s" using inv integrity_distinct by (simp_all add: job_invariant_def)
  obtain r where "lock_job s jid tid = Inr r"
      and s': "s' = s \<or> (\<exists>q. complete_cancellation r now s = Inr (q, s'))"
    using run by (auto simp: complete_job_cancellation_def split: if_splits)
  then have "get_job s (JobRow.ident r) = Some r" using lock_jobD by metis
  then show ?thesis using s' complete_cancellation_keeps(1) [OF c d] keeps_refl [OF c] by blast
qed

lemma activate_keeps:
  assumes "core s" and "activate_resulting_submission_job src r t s = Inr s'"
  shows "keeps s s'" and "jobs s' = jobs s"
proof -
  show "keeps s s'"
    using assms keeps_refl
    by (auto simp: activate_resulting_submission_job_def submission_ok_def intro!: keeps_put_submission split: if_splits)
  show "jobs s' = jobs s"
    using assms(2) by (auto simp: activate_resulting_submission_job_def split: if_splits)
qed

text \<open>Retry and resume both add the continuation, move the submission to it, and record the
  control.\<close>

lemma continuation_keeps:
  assumes inv: "job_invariant s" and act: "activate_resulting_submission_job src r now (add_job r s) = Inr s1"
    and r: "r = continuation_row src rid stg n nxt now"
    and ct: "JobControlRecord_validate ct = None" "ct = control_record cid src act' who reason tgt f (Some rid) now"
  shows "keeps s (add_control ct s1)" and "keeps s (add_control ct (note_stage_retry src stg f' nx s1))"
proof -
  have c: "core (add_job r s)" using inv core_add_job r by (simp add: job_invariant_def)
  note a = activate_keeps [OF c act]
  have "keeps s (add_job r s)" using c by (simp add: keeps_def)
  from keeps_trans [OF this a(1)] have k: "keeps s s1" .
  have "r \<in> set (jobs s1)" using a(2) by simp
  moreover have "JobRow.ident r = rid" "JobRow.tenant_id r = JobRow.tenant_id src"
      "JobRow.aggregate_id r = JobRow.aggregate_id src"
    by (simp_all add: r continuation_row_def)
  ultimately have l: "linked s1 ct" using ct(2) by (auto simp: linked_def control_record_def)
  show "keeps s (add_control ct s1)"
    using k core_add_control [OF keeps_core [OF k] ct(1) l] by (simp add: keeps_def)
  have "core (note_stage_retry src stg f' nx s1)" using core_note_stage_retry [OF keeps_core [OF k]] .
  moreover have "linked (note_stage_retry src stg f' nx s1) ct"
    using l linked_same_jobs [of "note_stage_retry src stg f' nx s1" s1] by simp
  ultimately show "keeps s (add_control ct (note_stage_retry src stg f' nx s1))"
    using k core_add_control [OF _ ct(1)] by (simp add: keeps_def)
qed

lemma schedule_job_retry_keeps:
  assumes "job_invariant s"
    and "schedule_job_retry jid tid rid cid who reason failure nxt stg limit now s = Inr (x, s')"
  shows "keeps s s'"
  using assms by (auto simp: schedule_job_retry_def Let_def intro!: continuation_keeps(2))

lemma schedule_job_resume_keeps:
  assumes "job_invariant s"
    and "schedule_job_resume jid tid rid cid who reason stg nxt now s = Inr (x, s')"
  shows "keeps s s'"
  using assms by (auto simp: schedule_job_resume_def Let_def intro!: continuation_keeps(1))

section \<open>Failures, claims and publication\<close>

lemma fail_aggregate_keeps:
  assumes "core s" and "fail_aggregate r d t s = Inr s'"
  shows "keeps s s'" and "jobs s' = jobs s"
proof -
  show "keeps s s'"
    using assms keeps_refl
    by (auto simp: fail_aggregate_def submission_ok_def intro!: keeps_put_submission keeps_put_activity
        split: if_splits option.splits)
  show "jobs s' = jobs s"
    using assms(2) by (auto simp: fail_aggregate_def split: if_splits option.splits)
qed

lemma failed_row_facts [simp]:
  "JobRow.ident (failed_row r f d t) = JobRow.ident r" "job_ok (failed_row r f d t)" "job_le r (failed_row r f d t)"
  by (simp_all add: failed_row_def job_ok_def job_le_def)

lemma same_jobs_lookup: "jobs s' = jobs s \<Longrightarrow> get_job s' k = get_job s k"
  by (simp add: get_job_def)

lemma fail_job_keeps:
  assumes c: "core s" and d: "distinct_jobs s" and r: "get_job s (JobRow.ident r) = Some r"
    and run: "fail_aggregate r dg t (put_job (failed_row r f dg t) s) = Inr s'"
  shows "keeps s s'" and "distinct_jobs s'"
    and "k \<noteq> JobRow.ident r \<Longrightarrow> get_job s' k = get_job s k"
proof -
  have k1: "keeps s (put_job (failed_row r f dg t) s)"
    using keeps_put_job [OF c d, of "failed_row r f dg t" r] r by simp
  note a = fail_aggregate_keeps [OF keeps_core [OF k1] run]
  show "keeps s s'" by (rule keeps_trans [OF k1 a(1)])
  show "distinct_jobs s'" using d a(2) distinct_jobs_simps(1) [of "failed_row r f dg t" s]
    unfolding distinct_jobs_def by simp
  show "get_job s' k = get_job s k" if "k \<noteq> JobRow.ident r"
    using put_job_lookups(2) [OF d, of "failed_row r f dg t" k] r that same_jobs_lookup [OF a(2)] by simp
qed

lemma fail_queued_dispatch_keeps:
  assumes inv: "job_invariant s" and run: "fail_queued_dispatch jid tid dg f now s = Inr (x, s')"
  shows "keeps s s'"
proof -
  have c: "core s" and d: "distinct_jobs s" using inv integrity_distinct by (simp_all add: job_invariant_def)
  obtain r where l: "lock_job s jid tid = Inr r"
    using run by (cases "lock_job s jid tid") (simp_all add: fail_queued_dispatch_def)
  have s': "s' = s \<or> fail_aggregate r dg now (put_job (failed_row r f dg now) s) = Inr s'"
  proof (cases "JobRow.status r \<noteq> ''QUEUED'' \<or> JobRow.control_state r \<noteq> ''ACTIVE''")
    case True
    then show ?thesis using run l by (simp add: fail_queued_dispatch_def)
  next
    case False
    then show ?thesis using run l by (auto simp: fail_queued_dispatch_def)
  qed
  from l have "get_job s (JobRow.ident r) = Some r" using lock_jobD by metis
  then show ?thesis using s' fail_job_keeps(1) [OF c d] keeps_refl [OF c] by blast
qed

lemma reconcile_row_keeps:
  assumes c: "core s" and d: "distinct_jobs s" and r: "get_job s (JobRow.ident r) = Some r"
    and run: "reconcile_row t r s = Inr s'"
  shows "keeps s s' \<and> distinct_jobs s' \<and> (\<forall>k. k \<noteq> JobRow.ident r \<longrightarrow> get_job s' k = get_job s k)"
proof -
  consider (cancel) "JobRow.control_state r = ''CANCEL_REQUESTED''"
    | (other) "JobRow.control_state r \<noteq> ''CANCEL_REQUESTED''" "JobRow.control_state r \<noteq> ''ACTIVE''"
    | (active) "JobRow.control_state r = ''ACTIVE''" by blast
  then show ?thesis
  proof cases
    case cancel
    then obtain p where "complete_cancellation r t s = Inr p" "s' = snd p"
      using run by (cases "complete_cancellation r t s") (simp_all add: reconcile_row_def)
    then have "complete_cancellation r t s = Inr (fst p, s')" by simp
    from complete_cancellation_keeps [OF c d r this] show ?thesis by blast
  next
    case other
    then have "s' = s" using run by (simp add: reconcile_row_def)
    then show ?thesis using keeps_refl [OF c] d by simp
  next
    case active
    then have "fail_aggregate r lease_diagnostic t (put_job (failed_row r ''TRANSIENT'' lease_diagnostic t) s) = Inr s'"
      using run by (simp add: reconcile_row_def)
    from fail_job_keeps [OF c d r this] show ?thesis by blast
  qed
qed

lemma reconcile_rows_keeps:
  assumes "core s" and "distinct_jobs s" and "\<forall>r \<in> set rs. get_job s (JobRow.ident r) = Some r"
    and "distinct (map JobRow.ident rs)" and "reconcile_rows t rs s = Inr s'"
  shows "keeps s s'"
  using assms
proof (induction rs arbitrary: s)
  case Nil
  then show ?case using keeps_refl by simp
next
  case (Cons r rs)
  then obtain s1 where s1: "reconcile_row t r s = Inr s1" "reconcile_rows t rs s1 = Inr s'" by auto
  have "get_job s (JobRow.ident r) = Some r" using Cons.prems(3) by simp
  note k = reconcile_row_keeps [OF Cons.prems(1,2) this s1(1)]
  have "\<forall>x \<in> set rs. get_job s1 (JobRow.ident x) = Some x"
    using Cons.prems(3,4) k by (metis (no_types, lifting) distinct.simps(2) image_eqI list.set_intros(2) list.set_map list.simps(9))
  moreover have "core s1" using k keeps_core by blast
  ultimately have "keeps s1 s'"
    using Cons.IH [OF _ _ _ _ s1(2)] k Cons.prems(4) by simp
  then show ?case using k keeps_trans by blast
qed

lemma stale_jobs_facts:
  "set (stale_jobs cutoff s) \<subseteq> set (filter (is_stale cutoff) (jobs s))"
  "distinct_jobs s \<Longrightarrow> distinct (map JobRow.ident (stale_jobs cutoff s))"
proof -
  let ?L = "sort_key (\<lambda>r. (instant (the (JobRow.started_at r)), JobRow.ident r)) (filter (is_stale cutoff) (jobs s))"
  show "set (stale_jobs cutoff s) \<subseteq> set (filter (is_stale cutoff) (jobs s))"
    using set_take_subset [of 100 ?L] by (simp add: stale_jobs_def)
  assume "distinct_jobs s"
  then have "distinct (map JobRow.ident (filter (is_stale cutoff) (jobs s)))"
    by (simp add: distinct_jobs_def distinct_map_filter)
  moreover have "mset (map JobRow.ident ?L) = mset (map JobRow.ident (filter (is_stale cutoff) (jobs s)))"
    unfolding mset_map mset_sort ..
  ultimately have "distinct (map JobRow.ident ?L)" by (metis mset_eq_imp_distinct_iff)
  then show "distinct (map JobRow.ident (stale_jobs cutoff s))"
    unfolding stale_jobs_def take_map [symmetric] by (rule distinct_take)
qed

lemma reconcile_stale_jobs_keeps:
  assumes inv: "job_invariant s" and run: "reconcile_stale_jobs lease now s = Inr (n, s')"
  shows "keeps s s'" and "integrity s'"
proof -
  have c: "core s" and d: "distinct_jobs s" using inv integrity_distinct by (simp_all add: job_invariant_def)
  let ?rows = "stale_jobs (minus_seconds now lease) s"
  have rr: "reconcile_rows now ?rows s = Inr s'" and i: "integrity s'"
    using run by (auto simp: reconcile_stale_jobs_def Let_def)
  have "\<forall>r \<in> set ?rows. get_job s (JobRow.ident r) = Some r"
    using stale_jobs_facts(1) job_table.lookup_unique [OF d [unfolded distinct_jobs_def]] by fastforce
  from reconcile_rows_keeps [OF c d this stale_jobs_facts(2) [OF d] rr] show "keeps s s'" .
  show "integrity s'" by (rule i)
qed

lemma head_of_case: "(case xs of [] \<Rightarrow> None | x # _ \<Rightarrow> Some x) = Some r \<Longrightarrow> r \<in> set xs"
  by (auto split: list.splits)

lemma next_claim_mem: "next_claim now s = Some r \<Longrightarrow> r \<in> set (jobs s) \<and> claimable now r"
  unfolding next_claim_def by (drule head_of_case) simp

lemma claimed_row_facts [simp]:
  "JobRow.ident (claimed_row r now) = JobRow.ident r" "job_ok (claimed_row r now)" "job_le r (claimed_row r now)"
  by (simp_all add: claimed_row_def job_ok_def job_le_def)

lemma claim_next_job_keeps:
  assumes inv: "job_invariant s" and run: "claim_next_job lease t0 now s = Inr (x, s')"
  shows "keeps s s'" and "integrity s'"
proof -
  obtain n s1 where s1: "reconcile_stale_jobs lease t0 s = Inr (n, s1)"
      and rest: "(next_claim now s1 = None \<and> s' = s1) \<or> (\<exists>r. next_claim now s1 = Some r
         \<and> s' = put_job (claimed_row r now) s1 \<and> integrity s')"
    using run by (auto simp: claim_next_job_def split: option.splits)
  note k = reconcile_stale_jobs_keeps [OF inv s1]
  have d: "distinct_jobs s1" using integrity_distinct [OF k(2)] .
  have "keeps s1 (put_job (claimed_row r now) s1)" if "next_claim now s1 = Some r" for r
    using keeps_put_job [OF keeps_core [OF k(1)] d, of "claimed_row r now" r]
      job_table.lookup_unique [OF d [unfolded distinct_jobs_def]] next_claim_mem [OF that] by simp
  then show "keeps s s'" and "integrity s'" using rest k keeps_trans [OF k(1)] by auto
qed

lemma finalize_keeps:
  assumes inv: "job_invariant s" and run: "finalize_submission_assessment jid tid a g now s = Inr (x, s')"
  shows "keeps s s'"
proof -
  have c: "core s" and d: "distinct_jobs s" using inv integrity_distinct by (simp_all add: job_invariant_def)
  obtain job sub where job: "lock_job s jid tid = Inr job"
      and cases: "(\<exists>q. complete_cancellation job now s = Inr (q, s')) \<or> s' = s
       \<or> (JobRow.control_state job = ''ACTIVE'' \<and> (let sub' = sub\<lparr>SubmissionRow.state := published_state sub job now,
            SubmissionRow.active_job_id := Some (JobRow.ident job), SubmissionRow.updated_at := now\<rparr>
          in s' = (put_submission sub' (put_job (finished_row job now) s))
               \<lparr>assessments := merge_assessment a (assessments s), guides := merge_guide g (guides s)\<rparr>))"
    using run by (auto simp: finalize_submission_assessment_def Let_def split: if_splits)
  have g: "get_job s (JobRow.ident job) = Some job" using lock_jobD [OF job] by simp
  have le: "job_le job (finished_row job now)" by (simp add: job_le_def finished_row_def)
  have fin: "keeps s ((put_submission (sub\<lparr>SubmissionRow.state := published_state sub job now,
            SubmissionRow.active_job_id := Some (JobRow.ident job), SubmissionRow.updated_at := now\<rparr>)
              (put_job (finished_row job now) s))\<lparr>assessments := as, guides := gs\<rparr>)"
    if "JobRow.control_state job = ''ACTIVE''" for as gs
  proof -
    have "job_ok (finished_row job now)" using that by (simp add: job_ok_def finished_row_def)
    then have k: "keeps s (put_job (finished_row job now) s)"
      using keeps_put_job [OF c d, of "finished_row job now" job] g le by (simp add: finished_row_def)
    let ?s2 = "put_submission (sub\<lparr>SubmissionRow.state := published_state sub job now,
            SubmissionRow.active_job_id := Some (JobRow.ident job), SubmissionRow.updated_at := now\<rparr>)
              (put_job (finished_row job now) s)"
    have "keeps s ?s2"
      using keeps_trans [OF k keeps_put_submission [OF keeps_core [OF k]]]
      by (simp add: submission_ok_def published_state_def)
    then show ?thesis
      by (simp add: keeps_def evolves_def core_def linked_def)
  qed
  show ?thesis
    using cases complete_cancellation_keeps(1) [OF c d g] keeps_refl [OF c] fin unfolding Let_def by blast
qed

end
