(* ===== verification/JobClaims.thy ===== *)
theory JobClaims
  imports JobSteps
begin

text \<open>
  The runs of the job queue and its properties: a step is any successful operation, called by anyone
  with any arguments its types allow, so the order of the steps is that of the commits.
\<close>

section \<open>Runs\<close>

inductive job_step :: "JobStore \<Rightarrow> JobStore \<Rightarrow> bool" where
  queue_activity: "JobStatus_validate st = None \<Longrightarrow> queue_activity_job st allowed now s = Inr (u, s') \<Longrightarrow> job_step s s'"
| queue_submission: "JobStatus_validate st = None \<Longrightarrow> queue_submission_job st new v now s = Inr (u, s') \<Longrightarrow> job_step s s'"
| set_submission: "set_submission_state new now s = Inr (u, s') \<Longrightarrow> job_step s s'"
| set_activity: "set_activity_status aid tid stt now s = Inr (u, s') \<Longrightarrow> job_step s s'"
| save_status: "save_job_status st knd now s = Inr (u, s') \<Longrightarrow> job_step s s'"
| request_cancel: "request_job_cancel jid tid who given reason now s = Inr (r, s') \<Longrightarrow> job_step s s'"
| complete_cancel: "complete_job_cancellation jid tid now s = Inr (r, s') \<Longrightarrow> job_step s s'"
| retry: "schedule_job_retry jid tid rid cid who reason failure nxt stg limit now s = Inr (r, s') \<Longrightarrow> job_step s s'"
| resume: "schedule_job_resume jid tid rid cid who reason stg due now s = Inr (r, s') \<Longrightarrow> job_step s s'"
| dispatch_failure: "fail_queued_dispatch jid tid dg failure now s = Inr (b, s') \<Longrightarrow> job_step s s'"
| reconcile: "reconcile_stale_jobs lease now s = Inr (n, s') \<Longrightarrow> job_step s s'"
| claim: "claim_next_job lease t0 now s = Inr (c, s') \<Longrightarrow> job_step s s'"
| finalize: "finalize_submission_assessment jid tid a g now s = Inr (b, s') \<Longrightarrow> job_step s s'"

inductive_cases job_stepE: "job_step s s'"

text \<open>A store before any job: the activities and the submissions exist.\<close>

definition initial_store :: "JobStore \<Rightarrow> bool" where
  "initial_store s \<longleftrightarrow> integrity s \<and> jobs s = [] \<and> controls s = [] \<and> (\<forall>sub \<in> set (submissions s). submission_ok sub)"

inductive reachable :: "JobStore \<Rightarrow> bool" where
  start: "initial_store s \<Longrightarrow> reachable s"
| step: "reachable s \<Longrightarrow> job_step s s' \<Longrightarrow> reachable s'"

lemmas operations_keep = queue_activity_keeps queue_submission_keeps set_submission_state_keeps
  set_activity_status_keeps save_job_status_keeps request_job_cancel_keeps complete_job_cancellation_keeps
  schedule_job_retry_keeps schedule_job_resume_keeps fail_queued_dispatch_keeps reconcile_stale_jobs_keeps(1)
  claim_next_job_keeps(1) finalize_keeps

lemma step_keeps: "job_invariant s \<Longrightarrow> job_step s s' \<Longrightarrow> keeps s s'"
  by (erule job_stepE) (blast intro: operations_keep)+

lemma commits:
  "queue_activity_job st allowed now s = Inr (u, s') \<Longrightarrow> integrity s'"
  "queue_submission_job st new v now s = Inr (u, s') \<Longrightarrow> integrity s'"
  "set_submission_state new now s = Inr (u, s') \<Longrightarrow> integrity s'"
  "set_activity_status aid tid stt now s = Inr (u, s') \<Longrightarrow> integrity s'"
  "schedule_job_retry jid tid rid cid who reason failure nxt stg limit now s = Inr (r, s') \<Longrightarrow> integrity s'"
  "schedule_job_resume jid tid rid cid who reason stg due now s = Inr (r, s') \<Longrightarrow> integrity s'"
  by (auto simp: queue_activity_job_def queue_submission_job_def set_submission_state_def set_activity_status_def
      schedule_job_retry_def schedule_job_resume_def Let_def)

lemma save_commits: "save_job_status st knd now s = Inr (u, s') \<Longrightarrow> integrity s'"
  by (auto simp: save_job_status_def Let_def split: option.splits if_splits)

lemma conditional_commits:
  "integrity s \<Longrightarrow> request_job_cancel jid tid who given reason now s = Inr (r, s') \<Longrightarrow> integrity s'"
  "integrity s \<Longrightarrow> complete_job_cancellation jid tid now s = Inr (r, s') \<Longrightarrow> integrity s'"
  "integrity s \<Longrightarrow> finalize_submission_assessment jid tid a g now s = Inr (b, s') \<Longrightarrow> integrity s'"
  by (auto simp: request_job_cancel_def complete_job_cancellation_def finalize_submission_assessment_def Let_def
      split: if_splits)

lemma dispatch_commits:
  assumes "integrity s" and "fail_queued_dispatch jid tid dg failure now s = Inr (b, s')"
  shows "integrity s'"
proof -
  obtain r where l: "lock_job s jid tid = Inr r"
    using assms(2) by (cases "lock_job s jid tid") (simp_all add: fail_queued_dispatch_def)
  show ?thesis
  proof (cases "JobRow.status r \<noteq> ''QUEUED'' \<or> JobRow.control_state r \<noteq> ''ACTIVE''")
    case True
    then show ?thesis using assms l by (simp add: fail_queued_dispatch_def)
  next
    case False
    then show ?thesis using assms l by (auto simp: fail_queued_dispatch_def)
  qed
qed

lemma step_integrity:
  assumes inv: "job_invariant s" and st: "job_step s s'"
  shows "integrity s'"
proof -
  have i: "integrity s" using inv by (simp add: job_invariant_def)
  show ?thesis
    using st by (cases rule: job_step.cases) (blast intro: commits save_commits conditional_commits [OF i]
      dispatch_commits [OF i] reconcile_stale_jobs_keeps(2) [OF inv] claim_next_job_keeps(2) [OF inv])+
qed

lemma step_invariant: "job_invariant s \<Longrightarrow> job_step s s' \<Longrightarrow> job_invariant s'"
  using step_keeps [of s s'] step_integrity [of s s'] keeps_core [of s s'] unfolding job_invariant_def by blast

lemma initial_invariant: "initial_store s \<Longrightarrow> job_invariant s"
  by (simp add: initial_store_def job_invariant_def core_def)

lemma run_keeps:
  assumes "job_step\<^sup>*\<^sup>* s s'" and "job_invariant s"
  shows "evolves s s' \<and> job_invariant s'"
  using assms
proof (induction rule: rtranclp_induct)
  case base
  then show ?case by simp
next
  case (step y z)
  then have "job_invariant y" "evolves s y" by auto
  with step_keeps step_invariant step.hyps(2) show ?case
    using evolves_trans by (auto simp: keeps_def)
qed

section \<open>An example run\<close>

definition ex_state :: "SubmissionProcessingStatus \<Rightarrow> string option \<Rightarrow> SubmissionProcessingState" where
  "ex_state st job = \<lparr>SubmissionProcessingState.schema_version = LEGACY_SCHEMA_VERSION, submission_id = ''sub_a'',
     activity_id = ''act_a'', status = st, current_stage = None, progress = 0, active_job_id = job, diagnostics = [],
     updated_at = utc_time 0\<rparr>"

definition ex_empty :: JobStore where
  "ex_empty = \<lparr>jobs = [], controls = [], activities = [], submissions = [\<lparr>SubmissionRow.ident = ''sub_a'',
       tenant_id = ''tenant_a'', activity_id = ''act_a'', subject_ref = ''subject_a'', blueprint_version = None,
       state = ex_state SubmissionProcessingStatus.UPLOADED None, active_job_id = None, created_at = utc_time 0, updated_at = utc_time 0\<rparr>],
     artifacts = [\<lparr>ArtifactRow.ident = ''art_a'', tenant_id = ''tenant_a'', activity_id = ''act_a'',
       submission_id = Some ''sub_a'', scope_key = ''sub_a'', role = ''SUBMISSION'', filename = ''essay.txt'',
       object_key = ''key_a'', declared_media_type = ''text/plain'', expected_byte_size = 9,
       media_type = Some ''text/plain'', byte_size = Some 9, sha256 = None, status = ''COMPLETE'',
       upload_expires_at = utc_time 0, created_at = utc_time 0\<rparr>],
     stage_runs = [], assessments = [], guides = [], audits = [], review_actions = []\<rparr>"

definition ex_status :: "string \<Rightarrow> int \<Rightarrow> JobStatus" where
  "ex_status st n = \<lparr>JobStatus.schema_version = LEGACY_SCHEMA_VERSION, job_id = ''job_a'', tenant_id = ''tenant_a'',
     aggregate_id = ''sub_a'', stage = ''PARSE'', status = st, progress = 0, attempt = n, diagnostics = [],
     started_at = None, finished_at = None\<rparr>"

definition ex_queue :: "repo_error + unit \<times> JobStore" where
  "ex_queue = queue_submission_job (ex_status ''QUEUED'' 0)
     (ex_state SubmissionProcessingStatus.VALIDATING (Some ''job_a'')) 1 (utc_time 1) ex_empty"

definition ex_claim :: "repo_error + JobRow option \<times> JobStore" where
  "ex_claim = claim_next_job 3900 (utc_time 2) (utc_time 2) (snd (projr ex_queue))"

definition ex_late :: datetime where
  "ex_late = utc_time 4000000002"

definition ex_reconcile :: "repo_error + nat \<times> JobStore" where
  "ex_reconcile = reconcile_stale_jobs 3900 ex_late (snd (projr ex_claim))"

definition ex_retry :: "repo_error + JobRow \<times> JobStore" where
  "ex_retry = schedule_job_retry ''job_a'' ''tenant_a'' ''job_b'' ''ctl_a'' ''user_a'' ''RETRY_REQUESTED'' ''TRANSIENT''
     ex_late ''PARSE'' None ex_late (snd (projr ex_reconcile))"

definition ex_cancel :: "repo_error + JobRow \<times> JobStore" where
  "ex_cancel = request_job_cancel ''job_a'' ''tenant_a'' ''user_a'' (Some ''ctl_c'') ''USER_REQUESTED'' (utc_time 3)
     (snd (projr ex_claim))"

lemma ex_queue_runs: "\<not> isl ex_queue"
  by code_simp

lemma ex_claim_runs: "\<not> isl ex_claim"
  by code_simp

lemma ex_reconcile_runs: "\<not> isl ex_reconcile"
  by code_simp

lemma ex_retry_runs: "\<not> isl ex_retry"
  by code_simp

lemma ex_cancel_runs: "\<not> isl ex_cancel"
  by code_simp

lemma right_result: "\<not> isl r \<Longrightarrow> r = Inr (fst (projr r), snd (projr r))"
  by (cases r) simp_all

lemma ex_results:
  "ex_queue = Inr ((), snd (projr ex_queue))" "ex_claim = Inr (fst (projr ex_claim), snd (projr ex_claim))"
  "ex_reconcile = Inr (fst (projr ex_reconcile), snd (projr ex_reconcile))"
  "ex_retry = Inr (fst (projr ex_retry), snd (projr ex_retry))"
  "ex_cancel = Inr (fst (projr ex_cancel), snd (projr ex_cancel))"
  using right_result [OF ex_queue_runs] right_result [OF ex_claim_runs] right_result [OF ex_reconcile_runs]
    right_result [OF ex_retry_runs] right_result [OF ex_cancel_runs] by simp_all

lemma ex_steps:
  "queue_submission_job (ex_status ''QUEUED'' 0) (ex_state SubmissionProcessingStatus.VALIDATING (Some ''job_a'')) 1
     (utc_time 1) ex_empty = Inr ((), snd (projr ex_queue))"
  "claim_next_job 3900 (utc_time 2) (utc_time 2) (snd (projr ex_queue)) = Inr (fst (projr ex_claim), snd (projr ex_claim))"
  "request_job_cancel ''job_a'' ''tenant_a'' ''user_a'' (Some ''ctl_c'') ''USER_REQUESTED'' (utc_time 3)
     (snd (projr ex_claim)) = Inr (fst (projr ex_cancel), snd (projr ex_cancel))"
  "reconcile_stale_jobs 3900 ex_late (snd (projr ex_claim)) = Inr (fst (projr ex_reconcile), snd (projr ex_reconcile))"
  "schedule_job_retry ''job_a'' ''tenant_a'' ''job_b'' ''ctl_a'' ''user_a'' ''RETRY_REQUESTED'' ''TRANSIENT''
     ex_late ''PARSE'' None ex_late (snd (projr ex_reconcile)) = Inr (fst (projr ex_retry), snd (projr ex_retry))"
  using ex_results by (simp_all only: ex_queue_def [symmetric] ex_claim_def [symmetric] ex_cancel_def [symmetric]
    ex_reconcile_def [symmetric] ex_retry_def [symmetric])

lemma ex_initial: "initial_store ex_empty"
  by (simp add: initial_store_def ex_empty_def integrity_def content_integrity_def submission_ok_def ex_state_def)

lemma ex_reachable: "reachable (snd (projr ex_queue))" "reachable (snd (projr ex_claim))"
proof -
  have "JobStatus_validate (ex_status ''QUEUED'' 0) = None" by code_simp
  then have "job_step ex_empty (snd (projr ex_queue))"
    by (rule job_step.queue_submission) (rule ex_steps(1))
  then show q: "reachable (snd (projr ex_queue))" by (rule reachable.step [OF reachable.start [OF ex_initial]])
  have "job_step (snd (projr ex_queue)) (snd (projr ex_claim))"
    by (rule job_step.claim) (rule ex_steps(2))
  then show "reachable (snd (projr ex_claim))" by (rule reachable.step [OF q])
qed

lemma reachable_job_invariant: "reachable s \<Longrightarrow> job_invariant s"
  by (induction rule: reachable.induct) (blast intro: initial_invariant step_invariant)+

section \<open>Properties\<close>

text \<open>C21: every reachable store of the queue satisfies the invariant: the constraints of the tables
  hold, no job that is being or has been cancelled is SUCCEEDED, a submission's row and its state name
  the same active job, and every applied retry or resume names a job of the store with the same tenant
  and aggregate.\<close>

theorem reachable_stores_are_consistent:
  assumes "reachable s"
  shows "job_invariant s"
  by (rule reachable_job_invariant [OF assms])

theorem reachable_stores_are_consistent_witness: "job_invariant (snd (projr ex_claim))"
  by (rule reachable_stores_are_consistent [OF ex_reachable(2)])

text \<open>C22: cancellation is irrevocable.  From the request on, whatever operations follow and in whatever
  order, the job stays of its tenant and aggregate, is never active again and never SUCCEEDED; once it
  is CANCELLED it stays CANCELLED and FAILED.\<close>

theorem cancellation_is_final:
  assumes "reachable s" and "job_step\<^sup>*\<^sup>* s s'" and "r \<in> set (jobs s)" and "JobRow.control_state r \<noteq> ''ACTIVE''"
  shows "\<exists>r' \<in> set (jobs s'). JobRow.ident r' = JobRow.ident r \<and> JobRow.tenant_id r' = JobRow.tenant_id r
     \<and> JobRow.aggregate_id r' = JobRow.aggregate_id r
     \<and> JobRow.control_state r' \<noteq> ''ACTIVE'' \<and> JobRow.status r' \<noteq> ''SUCCEEDED''
     \<and> (JobRow.control_state r = ''CANCELLED'' \<longrightarrow>
          JobRow.control_state r' = ''CANCELLED'' \<and> JobRow.status r' = ''FAILED'')"
proof -
  have inv: "evolves s s'" "job_invariant s'"
    using run_keeps [OF assms(2) reachable_job_invariant [OF assms(1)]] by auto
  then obtain r' where r': "r' \<in> set (jobs s')" "job_le r r'"
    using assms(3) by (auto simp: evolves_def)
  then have row: "job_row_ok r'" and ok: "job_ok r'"
    using inv(2) by (auto simp: job_invariant_def integrity_def list_all_iff core_def)
  have rank: "control_rank (JobRow.control_state r) \<le> control_rank (JobRow.control_state r')"
    using r'(2) by (simp add: job_le_def)
  have st: "JobRow.control_state r' \<in> {''ACTIVE'', ''CANCEL_REQUESTED'', ''CANCELLED''}"
    using row by (simp add: job_row_ok_def JOB_CONTROL_STATES_def)
  have "JobRow.control_state r' \<noteq> ''ACTIVE''"
    using rank assms(4) by (auto simp: control_rank_def split: if_splits)
  moreover have "JobRow.control_state r' = ''CANCELLED''" if "JobRow.control_state r = ''CANCELLED''"
    using rank st that by (auto simp: control_rank_def)
  ultimately show ?thesis
    using r' row ok by (intro bexI [OF _ r'(1)]) (auto simp: job_le_def job_ok_def job_row_ok_def)
qed

lemma ex_cancel_requested:
  "list_ex (\<lambda>r. JobRow.ident r = ''job_a'' \<and> JobRow.control_state r = ''CANCEL_REQUESTED'') (jobs (snd (projr ex_cancel)))"
  by code_simp

theorem cancellation_is_final_witness:
  "\<exists>r' \<in> set (jobs (snd (projr ex_cancel))). JobRow.ident r' = ''job_a'' \<and> JobRow.status r' \<noteq> ''SUCCEEDED''"
proof -
  have "job_step (snd (projr ex_claim)) (snd (projr ex_cancel))"
    by (rule job_step.request_cancel) (rule ex_steps(3))
  then have "reachable (snd (projr ex_cancel))" by (rule reachable.step [OF ex_reachable(2)])
  moreover obtain r where "r \<in> set (jobs (snd (projr ex_cancel)))" "JobRow.ident r = ''job_a''"
      "JobRow.control_state r \<noteq> ''ACTIVE''"
    using ex_cancel_requested by (auto simp: list_ex_iff)
  ultimately show ?thesis
    using cancellation_is_final [OF _ rtranclp.rtrancl_refl] by metis
qed

text \<open>C23: a claim takes, among the queued, active and due jobs with attempts left, the one created
  first (the smaller identifier on a tie), and leaves it RUNNING with one more attempt, never more
  than its limit.\<close>

theorem claim_takes_the_first:
  assumes "reachable s" and "claim_next_job lease t0 now s = Inr (Some r, s')"
  shows "\<exists>s1 q. q \<in> set (jobs s1) \<and> claimable now q \<and> r = claimed_row q now \<and> get_job s' (JobRow.ident r) = Some r
     \<and> reconcile_stale_jobs lease t0 s = Inr (length (stale_jobs (minus_seconds t0 lease) s), s1)
     \<and> JobRow.attempt r = JobRow.attempt q + 1 \<and> JobRow.attempt r \<le> JobRow.max_attempts r
     \<and> JobRow.status r = ''RUNNING'' \<and> JobRow.control_state r = ''ACTIVE''
     \<and> (\<forall>other \<in> set (jobs s1). claimable now other \<longrightarrow>
          (instant (JobRow.created_at q), JobRow.ident q) \<le> (instant (JobRow.created_at other), JobRow.ident other))"
proof -
  let ?key = "\<lambda>r. (instant (JobRow.created_at r), JobRow.ident r)"
  obtain n s1 where s1: "reconcile_stale_jobs lease t0 s = Inr (n, s1)"
      and rest: "(case next_claim now s1 of None \<Rightarrow> Inr (None, s1)
         | Some r \<Rightarrow> commit (Some (claimed_row r now), put_job (claimed_row r now) s1)) = Inr (Some r, s')"
    using assms(2) by (auto simp: claim_next_job_def)
  have n: "n = length (stale_jobs (minus_seconds t0 lease) s)"
    using s1 by (auto simp: reconcile_stale_jobs_def Let_def)
  obtain q where q: "next_claim now s1 = Some q" "r = claimed_row q now" "s' = put_job (claimed_row q now) s1"
    using rest by (auto split: option.splits)
  note mem = next_claim_mem [OF q(1)]
  obtain rest' where srt: "sort_key ?key (filter (claimable now) (jobs s1)) = q # rest'"
    using q(1) by (auto simp: next_claim_def split: list.splits)
  have "sorted (map ?key (q # rest'))" using sorted_sort_key [of ?key "filter (claimable now) (jobs s1)"] srt by simp
  then have "\<forall>other \<in> set (q # rest'). ?key q \<le> ?key other" by auto
  moreover have "set (q # rest') = {other \<in> set (jobs s1). claimable now other}"
    using srt by (metis set_filter set_sort)
  ultimately have first: "\<forall>other \<in> set (jobs s1). claimable now other \<longrightarrow> ?key q \<le> ?key other" by auto
  have d: "distinct_jobs s1"
    using integrity_distinct reconcile_stale_jobs_keeps(2) [OF reachable_job_invariant [OF assms(1)] s1] .
  have "get_job s' (JobRow.ident r) = Some r"
    using put_job_lookups(1) [OF d, of "claimed_row q now"] q(2,3)
      job_table.lookup_unique [OF d [unfolded distinct_jobs_def]] mem by simp
  then show ?thesis
    using mem first q(2) s1 n by (intro exI [of _ s1] exI [of _ q]) (auto simp: claimed_row_def claimable_def)
qed

lemma ex_claimed: "fst (projr ex_claim) \<noteq> None"
  by code_simp

theorem claim_takes_the_first_witness:
  "\<exists>r. fst (projr ex_claim) = Some r \<and> JobRow.status r = ''RUNNING'' \<and> JobRow.attempt r \<le> JobRow.max_attempts r"
proof -
  obtain r where r: "fst (projr ex_claim) = Some r" using ex_claimed by blast
  have "claim_next_job 3900 (utc_time 2) (utc_time 2) (snd (projr ex_queue)) = Inr (Some r, snd (projr ex_claim))"
    using ex_steps(2) r by simp
  from claim_takes_the_first [OF ex_reachable(1) this] r show ?thesis by blast
qed

end
