(* ===== verification/JobHistory.thy ===== *)
theory JobHistory
  imports JobClaims ValidationClaims
begin

text \<open>
  What stays of a job over any later run: the records of applied retries and resumes, which make a
  source job continue at most once; the recovery of expired leases; and the race between publication
  and cancellation.
\<close>

section \<open>Applied controls are never lost\<close>

definition recorded :: "JobStore \<Rightarrow> JobStore \<Rightarrow> bool" where
  "recorded s s' \<longleftrightarrow> set (controls s) \<subseteq> set (controls s')"

lemma recorded_refl [simp]: "recorded s s"
  by (simp add: recorded_def)

lemma recorded_trans: "recorded a b \<Longrightarrow> recorded b c \<Longrightarrow> recorded a c"
  by (auto simp: recorded_def)

lemma recorded_same: "controls s' = controls s \<Longrightarrow> recorded s s'"
  by (simp add: recorded_def)

lemma complete_cancellation_controls:
  "complete_cancellation r t s = Inr (r', s') \<Longrightarrow> controls s' = controls s"
  by (auto simp: complete_cancellation_def Let_def split: if_splits)

lemma fail_aggregate_controls: "fail_aggregate r d t s = Inr s' \<Longrightarrow> controls s' = controls s"
  by (auto simp: fail_aggregate_def split: if_splits option.splits)

lemma reconcile_row_controls:
  assumes "reconcile_row t r s = Inr s'"
  shows "controls s' = controls s"
proof (cases "JobRow.control_state r = ''CANCEL_REQUESTED''")
  case True
  then obtain p where "complete_cancellation r t s = Inr p" "s' = snd p"
    using assms by (cases "complete_cancellation r t s") (simp_all add: reconcile_row_def)
  then show ?thesis using complete_cancellation_controls [of r t s "fst p" "snd p"] by simp
next
  case False
  then show ?thesis using assms fail_aggregate_controls
    by (force simp: reconcile_row_def split: if_splits)
qed

lemma reconcile_rows_controls: "reconcile_rows t rs s = Inr s' \<Longrightarrow> controls s' = controls s"
  by (induction rs arbitrary: s) (auto dest: reconcile_row_controls)

lemma reconcile_controls: "reconcile_stale_jobs lease now s = Inr (n, s') \<Longrightarrow> controls s' = controls s"
  by (auto simp: reconcile_stale_jobs_def Let_def dest: reconcile_rows_controls)

lemma activate_controls:
  "activate_resulting_submission_job src r t s = Inr s' \<Longrightarrow> controls s' = controls s"
  by (auto simp: activate_resulting_submission_job_def split: if_splits)

lemma save_controls: "save_job_status st knd now s = Inr (u, s') \<Longrightarrow> controls s' = controls s"
  by (auto simp: save_job_status_def Let_def split: option.splits if_splits)

lemma dispatch_controls:
  assumes "fail_queued_dispatch jid tid dg f now s = Inr (b, s')"
  shows "controls s' = controls s"
proof -
  obtain r where l: "lock_job s jid tid = Inr r"
    using assms by (cases "lock_job s jid tid") (simp_all add: fail_queued_dispatch_def)
  show ?thesis
  proof (cases "JobRow.status r \<noteq> ''QUEUED'' \<or> JobRow.control_state r \<noteq> ''ACTIVE''")
    case True
    then show ?thesis using assms l by (simp add: fail_queued_dispatch_def)
  next
    case False
    then have "fail_aggregate r dg now (put_job (failed_row r f dg now) s) = Inr s'"
      using assms l by (auto simp: fail_queued_dispatch_def)
    then show ?thesis using fail_aggregate_controls by fastforce
  qed
qed

lemma claim_controls: "claim_next_job lease t0 now s = Inr (c, s') \<Longrightarrow> controls s' = controls s"
  by (auto simp: claim_next_job_def dest: reconcile_controls split: option.splits)

lemma cancel_recorded:
  assumes run: "request_job_cancel jid tid who given reason now s = Inr (x, s')"
  shows "recorded s s'"
proof -
  obtain r where r: "lock_job s jid tid = Inr r"
    using run by (cases "lock_job s jid tid") (simp_all add: request_job_cancel_def)
  show ?thesis
  proof (cases "JobRow.control_state r \<in> {''CANCELLED'', ''CANCEL_REQUESTED''}")
    case True
    then show ?thesis using run r by (auto simp: request_job_cancel_def)
  next
    case False
    then obtain ct r1 where "s' = add_control ct (put_job r1 s)
          \<or> (\<exists>q. complete_cancellation r1 now (add_control ct (put_job r1 s)) = Inr (q, s'))"
      using run r by (auto simp: request_job_cancel_def Let_def split: if_splits)
    then have "controls s' = controls (add_control ct (put_job r1 s))"
      using complete_cancellation_controls by metis
    then show ?thesis by (auto simp: recorded_def)
  qed
qed

lemma complete_cancel_recorded:
  assumes run: "complete_job_cancellation jid tid now s = Inr (x, s')"
  shows "recorded s s'"
proof -
  obtain r where "s' = s \<or> (\<exists>q. complete_cancellation r now s = Inr (q, s'))"
    using run by (auto simp: complete_job_cancellation_def split: if_splits)
  then show ?thesis using recorded_same complete_cancellation_controls recorded_refl by metis
qed

lemma finalize_recorded:
  assumes run: "finalize_submission_assessment jid tid a g now s = Inr (b, s')"
  shows "recorded s s'"
proof -
  obtain job where "(\<exists>q. complete_cancellation job now s = Inr (q, s')) \<or> controls s' = controls s"
    using run by (auto simp: finalize_submission_assessment_def Let_def split: if_splits)
  then show ?thesis using recorded_same complete_cancellation_controls by metis
qed

lemma retry_recorded:
  assumes "schedule_job_retry jid tid rid cid who reason failure nxt stg limit now s = Inr (r, s')"
  shows "recorded s s'"
  using assms by (auto simp: schedule_job_retry_def Let_def recorded_def dest!: activate_controls)

lemma resume_recorded:
  assumes "schedule_job_resume jid tid rid cid who reason stg nxt now s = Inr (r, s')"
  shows "recorded s s'"
  using assms by (auto simp: schedule_job_resume_def Let_def recorded_def dest!: activate_controls)

lemma quiet_controls:
  "queue_activity_job st allowed now s = Inr (u, s') \<Longrightarrow> controls s' = controls s"
  "queue_submission_job st new v now s = Inr (u, s') \<Longrightarrow> controls s' = controls s"
  "set_submission_state new now s = Inr (u, s') \<Longrightarrow> controls s' = controls s"
  "set_activity_status aid tid stt now s = Inr (u, s') \<Longrightarrow> controls s' = controls s"
  by (auto simp: queue_activity_job_def queue_submission_job_def set_submission_state_def set_activity_status_def Let_def)

lemma step_recorded:
  assumes "job_step s s'"
  shows "recorded s s'"
  using assms by (cases rule: job_step.cases)
    (blast intro: recorded_same quiet_controls save_controls dispatch_controls claim_controls reconcile_controls
      cancel_recorded complete_cancel_recorded finalize_recorded retry_recorded resume_recorded)+

lemma run_recorded: "job_step\<^sup>*\<^sup>* s s' \<Longrightarrow> recorded s s'"
  by (induction rule: rtranclp_induct) (auto dest: step_recorded recorded_trans)

section \<open>A source continues at most once\<close>

lemma continued_blocks_retry:
  assumes "lock_job s jid tid = Inr r" and "has_applied_continuation s r"
  shows "isl (schedule_job_retry jid tid rid cid who reason failure nxt stg limit now s)"
proof -
  have "retry_guards r failure n rid s \<noteq> None" for n
    using assms(2) by (auto simp: retry_guards_def split: option.splits)
  then have "schedule_job_retry jid tid rid cid who reason failure nxt stg limit now s \<noteq> Inr q" for q
    using assms(1) by (auto simp: schedule_job_retry_def Let_def)
  then show ?thesis by (metis sum.collapse(2))
qed

lemma continued_blocks_resume:
  assumes "lock_job s jid tid = Inr r" and "has_applied_continuation s r"
  shows "isl (schedule_job_resume jid tid rid cid who reason stg nxt now s)"
proof -
  have "resume_guards r rid s \<noteq> None"
    using assms(2) by (auto simp: resume_guards_def split: option.splits)
  then have "schedule_job_resume jid tid rid cid who reason stg nxt now s \<noteq> Inr q" for q
    using assms(1) by (auto simp: schedule_job_resume_def Let_def)
  then show ?thesis by (metis sum.collapse(2))
qed

lemma isl_on_integrity [simp]: "isl (on_integrity msg r) \<longleftrightarrow> isl r"
  by (cases "(msg, r)" rule: on_integrity.cases) simp_all

lemma retry_needs_lock:
  assumes "\<not> isl (schedule_job_retry jid tid rid cid who reason failure nxt stg limit now s)"
  shows "\<exists>r. lock_job s jid tid = Inr r"
  using assms by (cases "lock_job s jid tid") (auto simp: schedule_job_retry_def guarded_def split: option.splits)

lemma resume_needs_lock:
  assumes "\<not> isl (schedule_job_resume jid tid rid cid who reason stg nxt now s)"
  shows "\<exists>r. lock_job s jid tid = Inr r"
  using assms by (cases "lock_job s jid tid") (auto simp: schedule_job_resume_def guarded_def split: option.splits)

text \<open>What a scheduled retry has written.\<close>

lemma retry_written:
  assumes d: "distinct_jobs s"
    and run: "schedule_job_retry jid tid rid cid who reason failure nxt stg limit now s = Inr (r, s1)"
  shows "\<exists>src n. lock_job s jid tid = Inr src \<and> retry_guards src failure n rid s = None
     \<and> failure \<in> set RETRYABLE_JOB_FAILURE_CLASSES \<and> rid \<noteq> jid
     \<and> n = (case limit of None \<Rightarrow> JobRow.max_attempts src | Some m \<Rightarrow> m)
     \<and> r = continuation_row src rid stg n (Some nxt) now \<and> get_job s1 rid = Some r
     \<and> (\<exists>c \<in> set (controls s1). JobControlRecord.tenant_id c = JobRow.tenant_id src
          \<and> JobControlRecord.job_id c = JobRow.ident src \<and> JobControlRecord.source_attempt c = JobRow.attempt src
          \<and> JobControlRecord.action c = JobControlActionType.RETRY \<and> JobControlRecord.status c = JobControlStatus.APPLIED)"
proof -
  obtain src where l: "lock_job s jid tid = Inr src" using retry_needs_lock run by (metis isl_def sum.distinct(1))
  define n where "n = (case limit of None \<Rightarrow> JobRow.max_attempts src | Some m \<Rightarrow> m)"
  note retry = run [unfolded schedule_job_retry_def Let_def, simplified l and_then.simps, folded n_def]
  have src: "retry_guards src failure n rid s = None" "failure \<in> set RETRYABLE_JOB_FAILURE_CLASSES" "rid \<noteq> jid"
      "r = continuation_row src rid stg n (Some nxt) now"
    using retry by (auto split: option.splits)
  obtain s2 c where s2: "activate_resulting_submission_job src r now (add_job r s) = Inr s2"
      "c = control_record cid src JobControlActionType.RETRY who reason (Some stg) (failure_of failure) (Some rid) now"
      "s1 = add_control c (note_stage_retry src stg failure nxt s2)"
    using retry by auto
  have "jobs s2 = jobs (add_job r s)"
    using s2(1) by (auto simp: activate_resulting_submission_job_def split: if_splits)
  then have "get_job s1 rid = get_job (add_job r s) rid"
    by (simp add: s2(3) get_job_def)
  also have "\<dots> = Some r"
    using src(1,4) job_table.lookup_insert [OF d [unfolded distinct_jobs_def], of r]
    by (auto simp: retry_guards_def continuation_row_def split: option.splits)
  finally have "get_job s1 rid = Some r" .
  moreover have "\<exists>c \<in> set (controls s1). JobControlRecord.tenant_id c = JobRow.tenant_id src
          \<and> JobControlRecord.job_id c = JobRow.ident src \<and> JobControlRecord.source_attempt c = JobRow.attempt src
          \<and> JobControlRecord.action c = JobControlActionType.RETRY \<and> JobControlRecord.status c = JobControlStatus.APPLIED"
    by (rule bexI [of _ c]) (simp_all add: s2(2,3) control_record_def)
  ultimately show ?thesis using l n_def src by blast
qed

section \<open>Recovery clears the expired leases\<close>

definition settled :: "JobStore \<Rightarrow> string \<Rightarrow> bool" where
  "settled s k \<longleftrightarrow> (\<exists>r. get_job s k = Some r \<and> JobRow.status r = ''FAILED'')"

lemma reconcile_row_settles:
  assumes c: "core s" and d: "distinct_jobs s" and r: "get_job s (JobRow.ident r) = Some r" and ok: "job_row_ok r"
    and run: "reconcile_row t r s = Inr s'"
  shows "settled s' (JobRow.ident r)"
proof -
  consider (cancel) "JobRow.control_state r = ''CANCEL_REQUESTED''"
    | (gone) "JobRow.control_state r = ''CANCELLED''" | (active) "JobRow.control_state r = ''ACTIVE''"
    using ok by (auto simp: job_row_ok_def JOB_CONTROL_STATES_def)
  then show ?thesis
  proof cases
    case cancel
    then obtain p where "complete_cancellation r t s = Inr p" "s' = snd p"
      using run by (cases "complete_cancellation r t s") (simp_all add: reconcile_row_def)
    then have "complete_cancellation r t s = Inr (fst p, s')" by simp
    from complete_cancellation_keeps(4) [OF c d r this] show ?thesis by (simp add: settled_def cancelled_row_def)
  next
    case gone
    then have "s' = s" "JobRow.status r = ''FAILED''" using run ok by (simp_all add: reconcile_row_def job_row_ok_def)
    then show ?thesis using r by (simp add: settled_def)
  next
    case active
    then have f: "fail_aggregate r lease_diagnostic t (put_job (failed_row r ''TRANSIENT'' lease_diagnostic t) s) = Inr s'"
      using run by (simp add: reconcile_row_def)
    let ?s1 = "put_job (failed_row r ''TRANSIENT'' lease_diagnostic t) s"
    have k1: "keeps s ?s1" using keeps_put_job [OF c d, of "failed_row r ''TRANSIENT'' lease_diagnostic t" r] r by simp
    have "get_job s' (JobRow.ident r) = get_job ?s1 (JobRow.ident r)"
      by (rule same_jobs_lookup [OF fail_aggregate_keeps(2) [OF keeps_core [OF k1] f]])
    then show ?thesis
      using put_job_lookups(1) [OF d, of "failed_row r ''TRANSIENT'' lease_diagnostic t"] r
      by (simp add: settled_def failed_row_def)
  qed
qed

lemma reconcile_rows_settle:
  assumes "core s" and "distinct_jobs s" and "\<forall>r \<in> set rs. get_job s (JobRow.ident r) = Some r \<and> job_row_ok r"
    and "distinct (map JobRow.ident rs)" and "reconcile_rows t rs s = Inr s'"
  shows "(\<forall>k \<in> JobRow.ident ` set rs. settled s' k) \<and> (\<forall>k. k \<notin> JobRow.ident ` set rs \<longrightarrow> get_job s' k = get_job s k)"
  using assms
proof (induction rs arbitrary: s)
  case Nil
  then show ?case by simp
next
  case (Cons r rs)
  then obtain s1 where s1: "reconcile_row t r s = Inr s1" "reconcile_rows t rs s1 = Inr s'" by auto
  have r: "get_job s (JobRow.ident r) = Some r" "job_row_ok r" using Cons.prems(3) by simp_all
  note k = reconcile_row_keeps [OF Cons.prems(1,2) r(1) s1(1)]
  have fresh: "JobRow.ident r \<notin> JobRow.ident ` set rs" using Cons.prems(4) by simp
  have "get_job s1 (JobRow.ident x) = Some x \<and> job_row_ok x" if "x \<in> set rs" for x
  proof -
    have "JobRow.ident x \<noteq> JobRow.ident r" using fresh that by (metis image_eqI)
    then show ?thesis using k Cons.prems(3) that by simp
  qed
  moreover have "core s1" "distinct_jobs s1" using k keeps_core by blast+
  ultimately have ih: "(\<forall>k \<in> JobRow.ident ` set rs. settled s' k)"
      "(\<forall>k. k \<notin> JobRow.ident ` set rs \<longrightarrow> get_job s' k = get_job s1 k)"
    using Cons.IH [OF _ _ _ _ s1(2)] Cons.prems(4) by auto
  have "settled s' (JobRow.ident r)"
    using reconcile_row_settles [OF Cons.prems(1,2) r s1(1)] ih(2) fresh by (simp add: settled_def)
  then show ?case using ih k by simp
qed

section \<open>Publication\<close>

lemma mem_merge_assessment: "a \<in> set (merge_assessment a rows)"
  by (force simp: merge_assessment_def set_row_def)

lemma mem_merge_guide: "g \<in> set (merge_guide g rows)"
  by (force simp: merge_guide_def set_row_def)

definition published_row :: "SubmissionRow \<Rightarrow> JobRow \<Rightarrow> datetime \<Rightarrow> SubmissionRow" where
  "published_row sub job now = sub\<lparr>SubmissionRow.state := published_state sub job now,
     SubmissionRow.active_job_id := Some (JobRow.ident job), SubmissionRow.updated_at := now\<rparr>"

lemma complete_cancellation_outputs:
  "complete_cancellation r t s = Inr (r', s') \<Longrightarrow> assessments s' = assessments s \<and> guides s' = guides s"
  by (auto simp: complete_cancellation_def Let_def put_job_def put_activity_def put_submission_def split: if_splits)

lemma finalize_cases:
  assumes run: "finalize_submission_assessment jid tid a g now s = Inr (b, s')"
  obtains job sub where "lock_job s jid tid = Inr job" "the_submission s (AssessmentRow.submission_id a) tid = Some sub"
    "b" "JobRow.control_state job = ''ACTIVE''" "JobRow.status job = ''RUNNING''"
    "SubmissionRow.active_job_id sub = Some (JobRow.ident job)" "\<not> inconsistent_finalization tid a g"
    "s' = (put_submission (published_row sub job now) (put_job (finished_row job now) s))
        \<lparr>assessments := merge_assessment a (assessments s), guides := merge_guide g (guides s)\<rparr>"
  | job sub q where "lock_job s jid tid = Inr job" "the_submission s (AssessmentRow.submission_id a) tid = Some sub"
    "\<not> b" "JobRow.control_state job = ''CANCEL_REQUESTED''" "complete_cancellation job now s = Inr (q, s')"
  | job sub where "lock_job s jid tid = Inr job" "the_submission s (AssessmentRow.submission_id a) tid = Some sub"
    "\<not> b" "JobRow.control_state job \<noteq> ''ACTIVE''" "JobRow.control_state job \<noteq> ''CANCEL_REQUESTED''" "s' = s"
proof -
  obtain job where l: "lock_job s jid tid = Inr job"
    using run by (auto simp: finalize_submission_assessment_def)
  obtain sub where t: "the_submission s (AssessmentRow.submission_id a) tid = Some sub"
    using run by (auto simp: finalize_submission_assessment_def)
  note run' = run [unfolded finalize_submission_assessment_def, simplified l t, simplified]
  show thesis
  proof (cases "JobRow.control_state job = ''ACTIVE''")
    case True
    then show thesis using run' by (intro that(1) [OF l t]) (auto simp: published_row_def)
  next
    case False
    show thesis
    proof (cases "JobRow.control_state job = ''CANCEL_REQUESTED''")
      case True
      then obtain p where "complete_cancellation job now s = Inr p" "s' = snd p" "\<not> b"
        using run' by auto
      then show thesis using that(2) [OF l t _ True, of "fst p"] by simp
    next
      case no: False
      then show thesis using run' False that(3) [OF l t _ False no] by auto
    qed
  qed
qed

section \<open>Properties\<close>

text \<open>C24: a job is retried only after a failure of the class the retry names, TRANSIENT or PROVIDER, with
  attempts left, and the retry is a new QUEUED job with the attempts already used; from then on,
  whatever operations follow, no further retry or resume of the source is scheduled for that attempt.\<close>

theorem retry_continues_once:
  assumes "reachable s"
    and "schedule_job_retry jid tid rid cid who reason failure nxt stg limit now s = Inr (r, s1)"
    and "job_step\<^sup>*\<^sup>* s1 s'" and "get_job s jid = Some src" and "get_job s' jid = Some src'"
    and "JobRow.attempt src' = JobRow.attempt src"
  shows "JobRow.tenant_id src = tid \<and> JobRow.status src = ''FAILED'' \<and> JobRow.control_state src = ''ACTIVE''
     \<and> JobRow.failure_class src = Some failure \<and> failure \<in> {''TRANSIENT'', ''PROVIDER''}
     \<and> get_job s rid = None \<and> get_job s1 rid = Some r \<and> JobRow.status r = ''QUEUED''
     \<and> JobRow.attempt r = JobRow.attempt src \<and> JobRow.attempt r < JobRow.max_attempts r
     \<and> isl (schedule_job_retry jid tid2 rid2 cid2 who2 reason2 failure2 nxt2 stg2 limit2 now2 s')
     \<and> isl (schedule_job_resume jid tid2 rid2 cid2 who2 reason2 stg2 due2 now2 s')"
proof -
  have inv: "job_invariant s" by (rule reachable_job_invariant [OF assms(1)])
  have d: "distinct_jobs s" using inv integrity_distinct by (simp add: job_invariant_def)
  obtain src0 n c where w: "lock_job s jid tid = Inr src0" "retry_guards src0 failure n rid s = None"
      "failure \<in> set RETRYABLE_JOB_FAILURE_CLASSES" "r = continuation_row src0 rid stg n (Some nxt) now"
      "get_job s1 rid = Some r"
    and c: "c \<in> set (controls s1)" "JobControlRecord.tenant_id c = JobRow.tenant_id src0"
      "JobControlRecord.job_id c = JobRow.ident src0" "JobControlRecord.source_attempt c = JobRow.attempt src0"
      "JobControlRecord.action c = JobControlActionType.RETRY" "JobControlRecord.status c = JobControlStatus.APPLIED"
    using retry_written [OF d assms(2)] by blast
  have src0: "src0 = src" "JobRow.tenant_id src = tid" "JobRow.ident src = jid"
    using lock_jobD [OF w(1)] assms(4) by simp_all
  have run: "job_step\<^sup>*\<^sup>* s s'"
    using job_step.retry [OF assms(2)] assms(3) by (rule converse_rtranclp_into_rtranclp)
  note ev = run_keeps [OF run inv]
  obtain x where x: "x \<in> set (jobs s')" "job_le src x"
    using ev get_job_mem [OF assms(4)] by (auto simp: evolves_def)
  have d': "distinct_jobs s'" using ev integrity_distinct by (simp add: job_invariant_def)
  have "get_job s' (JobRow.ident x) = Some x"
    using job_table.lookup_unique [OF d' [unfolded distinct_jobs_def] x(1)] .
  then have "x = src'" using x(2) src0(3) assms(5) by (simp add: job_le_def)
  then have same: "JobRow.tenant_id src' = tid" "JobRow.ident src' = jid"
    using x(2) src0(2,3) by (simp_all add: job_le_def)
  have "c \<in> set (controls s')" using run_recorded [OF assms(3)] c(1) by (auto simp: recorded_def)
  then have app: "has_applied_continuation s' src'"
    using c src0 same assms(6) by (auto simp: has_applied_continuation_def list_ex_iff)
  have only: "lock_job s' jid t = Inr y \<Longrightarrow> y = src'" for t y
    using lock_jobD assms(5) by fastforce
  have "isl (schedule_job_retry jid tid2 rid2 cid2 who2 reason2 failure2 nxt2 stg2 limit2 now2 s')"
    using retry_needs_lock continued_blocks_retry app only by metis
  moreover have "isl (schedule_job_resume jid tid2 rid2 cid2 who2 reason2 stg2 due2 now2 s')"
    using resume_needs_lock continued_blocks_resume app only by metis
  ultimately show ?thesis
    using w src0 by (auto simp: retry_guards_def RETRYABLE_JOB_FAILURE_CLASSES_def continuation_row_def
        split: option.splits)
qed

lemma ex_reconciled_reachable: "reachable (snd (projr ex_reconcile))"
  by (rule reachable.step [OF ex_reachable(2) job_step.reconcile [OF ex_steps(4)]])

definition ex_source :: "repo_error + JobRow \<times> JobStore \<Rightarrow> JobRow option" where
  "ex_source r = get_job (snd (projr r)) ''job_a''"

lemma ex_sources: "ex_source ex_retry \<noteq> None \<and> get_job (snd (projr ex_reconcile)) ''job_a'' \<noteq> None
    \<and> JobRow.attempt (the (ex_source ex_retry)) = JobRow.attempt (the (get_job (snd (projr ex_reconcile)) ''job_a''))"
  by code_simp

theorem retry_continues_once_witness:
  "isl (schedule_job_retry ''job_a'' ''tenant_a'' ''job_c'' ''ctl_b'' ''user_a'' ''RETRY_REQUESTED'' ''TRANSIENT''
     ex_late ''PARSE'' None ex_late (snd (projr ex_retry)))"
proof -
  obtain src src' where "get_job (snd (projr ex_reconcile)) ''job_a'' = Some src"
      "get_job (snd (projr ex_retry)) ''job_a'' = Some src'" "JobRow.attempt src' = JobRow.attempt src"
    using ex_sources by (auto simp: ex_source_def)
  from retry_continues_once [OF ex_reconciled_reachable ex_steps(5) rtranclp.rtrancl_refl this]
  show ?thesis by blast
qed

text \<open>C25: a recovery that finds fewer than a hundred expired leases leaves none behind: no job of the
  resulting store still runs under a lease that ended before the cutoff, and every job it found is FAILED.\<close>

theorem recovery_clears_leases:
  assumes "reachable s" and "reconcile_stale_jobs lease now s = Inr (n, s')" and "n < 100"
  shows "filter (is_stale (minus_seconds now lease)) (jobs s') = []
     \<and> n = length (filter (is_stale (minus_seconds now lease)) (jobs s))
     \<and> (\<forall>r \<in> set (jobs s). is_stale (minus_seconds now lease) r \<longrightarrow>
          (\<exists>r'. get_job s' (JobRow.ident r) = Some r' \<and> JobRow.status r' = ''FAILED''))"
proof -
  let ?cut = "minus_seconds now lease"
  have inv: "job_invariant s" by (rule reachable_job_invariant [OF assms(1)])
  have c: "core s" and d: "distinct_jobs s" using inv integrity_distinct by (simp_all add: job_invariant_def)
  have ok: "\<forall>r \<in> set (jobs s). job_row_ok r"
    using inv by (simp add: job_invariant_def integrity_def list_all_iff)
  let ?rows = "stale_jobs ?cut s"
  have run: "reconcile_rows now ?rows s = Inr s'" and n: "n = length ?rows" and i: "integrity s'"
    using assms(2) by (auto simp: reconcile_stale_jobs_def Let_def)
  have len: "length (filter (is_stale ?cut) (jobs s)) = n"
    using n assms(3) by (simp add: stale_jobs_def)
  then have rows: "set ?rows = {r \<in> set (jobs s). is_stale ?cut r}"
    using assms(3) by (simp add: stale_jobs_def)
  have "\<forall>r \<in> set ?rows. get_job s (JobRow.ident r) = Some r \<and> job_row_ok r"
    using rows ok job_table.lookup_unique [OF d [unfolded distinct_jobs_def]] by simp
  note st = reconcile_rows_settle [OF c d this stale_jobs_facts(2) [OF d] run]
  have d': "distinct_jobs s'" by (rule integrity_distinct [OF i])
  have clean: "\<not> is_stale ?cut x" if x: "x \<in> set (jobs s')" for x
  proof
    assume stale: "is_stale ?cut x"
    have gx: "get_job s' (JobRow.ident x) = Some x"
      using job_table.lookup_unique [OF d' [unfolded distinct_jobs_def] x] .
    show False
    proof (cases "JobRow.ident x \<in> JobRow.ident ` set ?rows")
      case True
      then have "settled s' (JobRow.ident x)" using st by blast
      then show False using gx stale by (simp add: settled_def is_stale_def)
    next
      case False
      then have "get_job s (JobRow.ident x) = Some x" using st gx by simp
      then show False using False rows stale get_job_mem by blast
    qed
  qed
  have "filter (is_stale ?cut) (jobs s') = []" using clean by (simp add: filter_empty_conv)
  moreover have "\<forall>r \<in> set (jobs s). is_stale ?cut r \<longrightarrow> settled s' (JobRow.ident r)" using st rows by blast
  ultimately show ?thesis using len by (simp add: settled_def)
qed

lemma ex_reconciled_one: "fst (projr ex_reconcile) = 1"
  by code_simp

theorem recovery_clears_leases_witness: "filter (is_stale (minus_seconds ex_late 3900)) (jobs (snd (projr ex_reconcile))) = []"
  using recovery_clears_leases [OF ex_reachable(2) ex_steps(4)] ex_reconciled_one by simp

text \<open>C26: publication and cancellation exclude each other.  When the finalization of a submission reports
  success, the job was active, running and the submission's active job; it is now finished and the
  assessment, its guide and the new state of the submission are stored.  Otherwise the job was being
  cancelled: it is CANCELLED afterwards and no assessment or guide has been written.\<close>

theorem publication_excludes_cancellation:
  assumes "reachable s" and "finalize_submission_assessment jid tid a g now s = Inr (b, s')"
  shows "\<exists>job sub. get_job s jid = Some job \<and> JobRow.tenant_id job = tid
     \<and> the_submission s (AssessmentRow.submission_id a) tid = Some sub
     \<and> (if b then JobRow.control_state job = ''ACTIVE'' \<and> JobRow.status job = ''RUNNING''
            \<and> SubmissionRow.active_job_id sub = Some jid
            \<and> Assessment.status (AssessmentRow.data a) = WorkflowStatus.NEEDS_REVIEW
            \<and> get_job s' jid = Some (finished_row job now) \<and> a \<in> set (assessments s') \<and> g \<in> set (guides s')
            \<and> the_submission s' (AssessmentRow.submission_id a) tid = Some (published_row sub job now)
        else JobRow.control_state job \<noteq> ''ACTIVE'' \<and> assessments s' = assessments s \<and> guides s' = guides s
            \<and> (\<exists>r. get_job s' jid = Some r \<and> JobRow.control_state r = ''CANCELLED'' \<and> JobRow.status r = ''FAILED''))"
  using assms(2)
proof (cases rule: finalize_cases)
  case (1 job sub)
  have d: "distinct_jobs s" and ds: "distinct (map SubmissionRow.ident (submissions s))"
    using reachable_job_invariant [OF assms(1)] integrity_distinct by (simp_all add: job_invariant_def integrity_def)
  let ?s2 = "put_submission (published_row sub job now) (put_job (finished_row job now) s)"
  have j: "get_job s jid = Some job" "JobRow.ident job = jid" "JobRow.tenant_id job = tid"
    using lock_jobD [OF 1(1)] by simp_all
  have "get_job s' jid = get_job (put_job (finished_row job now) s) jid"
    by (simp add: 1(8) get_job_def)
  also have "\<dots> = Some (finished_row job now)"
    using put_job_lookups(1) [OF d, of "finished_row job now"] j by (simp add: finished_row_def)
  finally have job': "get_job s' jid = Some (finished_row job now)" .
  have sub: "get_submission s (AssessmentRow.submission_id a) = Some sub" "SubmissionRow.tenant_id sub = tid"
    using 1(2) by (simp_all add: the_submission_def)
  then have si: "SubmissionRow.ident sub = AssessmentRow.submission_id a"
    using submission_table.lookup_hit by blast
  have "get_submission (put_job (finished_row job now) s) (AssessmentRow.submission_id a) = Some sub"
    using sub(1) by (simp add: get_submission_def put_job_def)
  then have "get_submission ?s2 (SubmissionRow.ident (published_row sub job now)) = Some (published_row sub job now)"
    using submission_table.lookup_replace [of "put_job (finished_row job now) s" "published_row sub job now"] ds si
    by (simp add: published_row_def put_job_def)
  then have "get_submission s' (AssessmentRow.submission_id a) = Some (published_row sub job now)"
    by (simp add: 1(8) get_submission_def published_row_def si)
  then have "the_submission s' (AssessmentRow.submission_id a) tid = Some (published_row sub job now)"
    using sub(2) by (simp add: the_submission_def published_row_def)
  moreover have "a \<in> set (assessments s')" "g \<in> set (guides s')"
    using mem_merge_assessment mem_merge_guide by (simp_all add: 1(8))
  ultimately show ?thesis
    using 1 j job' by (auto simp: inconsistent_finalization_def)
next
  case (2 job sub q)
  have inv: "core s" "distinct_jobs s"
    using reachable_job_invariant [OF assms(1)] integrity_distinct by (simp_all add: job_invariant_def)
  have j: "get_job s jid = Some job" "JobRow.ident job = jid" "JobRow.tenant_id job = tid"
    using lock_jobD [OF 2(1)] by simp_all
  then have "get_job s' jid = Some (cancelled_row job now)"
    using complete_cancellation_keeps(4) [OF inv _ 2(5)] by simp
  then show ?thesis
    using 2 j complete_cancellation_outputs [OF 2(5)] by (simp add: cancelled_row_def)
next
  case (3 job sub)
  have j: "get_job s jid = Some job" "JobRow.ident job = jid" "JobRow.tenant_id job = tid"
    using lock_jobD [OF 3(1)] by simp_all
  have "job_row_ok job"
    using reachable_job_invariant [OF assms(1)] get_job_mem [OF j(1)]
    by (simp add: job_invariant_def integrity_def list_all_iff)
  then show ?thesis
    using 3 j by (auto simp: job_row_ok_def JOB_CONTROL_STATES_def)
qed

definition ex_result :: AssessmentRow where
  "ex_result = \<lparr>AssessmentRow.row_id = ''row_a'', assessment_id = ''asm_a'', tenant_id = ''tenant_a'',
     submission_id = ''sub_a'', version = 1, status = ''NEEDS_REVIEW'', etag = ''etag_a'',
     data = ex_assessment\<lparr>Assessment.status := WorkflowStatus.NEEDS_REVIEW\<rparr>, created_at = utc_time 4\<rparr>"

definition ex_result_guide :: GuideRow where
  "ex_result_guide = \<lparr>GuideRow.guide_id = ''guide_a'', assessment_id = ''asm_a'', tenant_id = ''tenant_a'',
     submission_id = ''sub_a'', data = ex_guide\<rparr>"

definition ex_running :: JobRow where
  "ex_running = the (get_job (snd (projr ex_claim)) ''job_a'')"

definition ex_submission :: SubmissionRow where
  "ex_submission = the (get_submission (snd (projr ex_claim)) ''sub_a'')"

definition ex_published :: JobStore where
  "ex_published = put_submission (published_row ex_submission ex_running (utc_time 4))
     (put_job (finished_row ex_running (utc_time 4)) (snd (projr ex_claim)))"

definition ex_publication :: JobStore where
  "ex_publication = ex_published\<lparr>assessments := merge_assessment ex_result (assessments (snd (projr ex_claim))),
     guides := merge_guide ex_result_guide (guides (snd (projr ex_claim)))\<rparr>"

lemma ex_result_valid:
  "Assessment_validate (AssessmentRow.data ex_result) = None" "EvaluationGuide_validate (GuideRow.data ex_result_guide) = None"
proof -
  show "Assessment_validate (AssessmentRow.data ex_result) = None"
    by code_simp
  show "EvaluationGuide_validate (GuideRow.data ex_result_guide) = None"
    by (simp add: ex_result_guide_def ex_guide_valid)
qed

lemma ex_result_consistent: "\<not> inconsistent_finalization ''tenant_a'' ex_result ex_result_guide"
  by code_simp

lemma ex_rows:
  "get_job (snd (projr ex_claim)) ''job_a'' \<noteq> None" "get_submission (snd (projr ex_claim)) ''sub_a'' \<noteq> None"
  "JobRow.tenant_id ex_running = ''tenant_a''" "SubmissionRow.tenant_id ex_submission = ''tenant_a''"
  "JobRow.control_state ex_running = ''ACTIVE''" "JobRow.status ex_running = ''RUNNING''"
  "SubmissionRow.active_job_id ex_submission = Some (JobRow.ident ex_running)"
  by code_simp+

lemma ex_published_checks:
  "SubmissionProcessingState_validate (published_state ex_submission ex_running (utc_time 4)) = None"
  "integrity ex_publication"
  by code_simp+

lemma ex_finalize:
  "finalize_submission_assessment ''job_a'' ''tenant_a'' ex_result ex_result_guide (utc_time 4) (snd (projr ex_claim))
     = Inr (True, ex_publication)"
proof -
  have l: "lock_job (snd (projr ex_claim)) ''job_a'' ''tenant_a'' = Inr ex_running"
    using ex_rows(1,3) by (auto simp: lock_job_def ex_running_def)
  have t: "the_submission (snd (projr ex_claim)) (AssessmentRow.submission_id ex_result) ''tenant_a'' = Some ex_submission"
    using ex_rows(2,4) by (auto simp: the_submission_def ex_submission_def ex_result_def)
  show ?thesis
    unfolding finalize_submission_assessment_def
    using ex_result_valid ex_result_consistent ex_rows(5-7) ex_published_checks(1) ex_published_checks(2) [unfolded ex_publication_def ex_published_def published_row_def] l t
    by (simp add: ex_publication_def ex_published_def published_row_def)
qed

theorem publication_excludes_cancellation_witness:
  "ex_result \<in> set (assessments ex_publication)
     \<and> (\<exists>job. get_job ex_publication ''job_a'' = Some (finished_row job (utc_time 4)))"
  using publication_excludes_cancellation [OF ex_reachable(2) ex_finalize] by auto

end
