(* ===== verification/StageStore.thy ===== *)
theory StageStore
  imports JobHistory
begin

text \<open>
  The durable store of stage results in \<open>web/repository.py\<close>: \<open>save_stage\<close>, \<open>stage_by_key\<close> and
  \<open>stage_runs_for_job\<close>.  A stage is addressed by the hash of its tenant, name, inputs, policy and
  component version; its abstract specification is a cache, a partial map from addresses to outputs
  to which a successful run adds its output when the address is free.
\<close>

record StageArgs =
  job_id :: string
  tenant_id :: string
  stage :: string
  inputs :: json
  component_version :: string
  policy_hash :: string
  "output" :: "json option"
  status :: string
  diagnostics :: "Diagnostic list"
  failure_class :: "string option"
  next_attempt_at :: "datetime option"
  attempt :: "int option"
  resumed_from_stage_run_id :: "string option"

definition stage_address :: "string \<Rightarrow> string \<Rightarrow> json \<Rightarrow> string \<Rightarrow> string \<Rightarrow> string" where
  "stage_address tid stg ins pol ver = canonical_hash (JObj [(''tenant_id'', JStr tid), (''stage'', JStr stg),
     (''inputs'', ins), (''policy_hash'', JStr pol), (''component_version'', JStr ver)])"

definition args_address :: "StageArgs \<Rightarrow> string" where
  "args_address a = stage_address (StageArgs.tenant_id a) (StageArgs.stage a) (StageArgs.inputs a)
     (StageArgs.policy_hash a) (StageArgs.component_version a)"

text \<open>\<open>canonical_hash(output)\<close>, also of an absent output.\<close>

definition output_digest :: "json option \<Rightarrow> string" where
  "output_digest r = canonical_hash (case r of None \<Rightarrow> JNull | Some j \<Rightarrow> j)"

section \<open>The table\<close>

text \<open>The rows under the partial unique index \<open>uq_stage_runs_succeeded_stage_key\<close>.\<close>

definition indexed :: "StageRunRow \<Rightarrow> bool" where
  "indexed r \<longleftrightarrow> StageRunRow.status r = ''SUCCEEDED'' \<and> StageRunRow.component_version r \<noteq> None
     \<and> StageRunRow.output_hash r \<noteq> None"

definition attempt_key :: "StageRunRow \<Rightarrow> string \<times> string \<times> int" where
  "attempt_key r = (StageRunRow.job_id r, StageRunRow.stage_key r, StageRunRow.attempt r)"

definition stage_integrity :: "StageRunRow list \<Rightarrow> bool" where
  "stage_integrity rows \<longleftrightarrow> distinct (map StageRunRow.ident rows) \<and> distinct (map attempt_key rows)
     \<and> distinct (map StageRunRow.stage_key (filter indexed rows))
     \<and> list_all (\<lambda>r. case StageRunRow.failure_class r of None \<Rightarrow> True | Some f \<Rightarrow> f \<in> set JOB_FAILURE_CLASSES) rows"

definition succeeded_at :: "string \<Rightarrow> string \<Rightarrow> string \<Rightarrow> JobStore \<Rightarrow> StageRunRow option" where
  "succeeded_at tid key ver s = find (\<lambda>r. StageRunRow.tenant_id r = tid \<and> StageRunRow.stage_key r = key
     \<and> StageRunRow.status r = ''SUCCEEDED'' \<and> StageRunRow.component_version r = Some ver
     \<and> StageRunRow.output_hash r \<noteq> None) (stage_runs s)"

definition attempt_at :: "string \<Rightarrow> string \<Rightarrow> int \<Rightarrow> JobStore \<Rightarrow> StageRunRow option" where
  "attempt_at jid key n s = find (\<lambda>r. attempt_key r = (jid, key, n)) (stage_runs s)"

definition valid_success :: "StageArgs \<Rightarrow> StageRunRow \<Rightarrow> bool" where
  "valid_success a r \<longleftrightarrow> StageRunRow.tenant_id r = StageArgs.tenant_id a \<and> StageRunRow.stage r = StageArgs.stage a
     \<and> StageRunRow.stage_key r = args_address a \<and> StageRunRow.status r = ''SUCCEEDED''
     \<and> StageRunRow.input_hash r = canonical_hash (StageArgs.inputs a)
     \<and> StageRunRow.policy_hash r = StageArgs.policy_hash a
     \<and> StageRunRow.component_version r = Some (StageArgs.component_version a)
     \<and> StageRunRow.output_hash r = Some (output_digest (StageRunRow.output r))"

definition stage_args_error :: "StageArgs \<Rightarrow> repo_error option" where
  "stage_args_error a = first_error [
     raise_if (case StageArgs.failure_class a of None \<Rightarrow> False | Some f \<Rightarrow> f \<notin> set JOB_FAILURE_CLASSES)
       (ValueError ''unknown stage failure class''),
     raise_if (StageArgs.status a = ''SUCCEEDED'' \<and> (StageArgs.failure_class a \<noteq> None \<or> StageArgs.next_attempt_at a \<noteq> None))
       (ValueError ''a succeeded stage cannot retain retry failure state''),
     raise_if (StageArgs.status a = ''SUCCEEDED'' \<and> StageArgs.output a = None)
       (ValueError ''a succeeded stage requires a reusable output''),
     raise_if (StageArgs.status a \<noteq> ''SUCCEEDED'' \<and> StageArgs.output a \<noteq> None)
       (ValueError ''a non-succeeded stage cannot retain reusable output'')]"

text \<open>\<open>attempt or (job.attempt if job is not None else 1)\<close>.\<close>

definition stage_attempt :: "StageArgs \<Rightarrow> JobStore \<Rightarrow> int" where
  "stage_attempt a s =
     (let default = (case of_tenant JobRow.tenant_id (StageArgs.tenant_id a) (get_job s (StageArgs.job_id a)) of
          None \<Rightarrow> 1 | Some j \<Rightarrow> JobRow.attempt j)
      in case StageArgs.attempt a of None \<Rightarrow> default | Some n \<Rightarrow> if n = 0 then default else n)"

definition new_stage_row :: "string \<Rightarrow> StageArgs \<Rightarrow> int \<Rightarrow> datetime \<Rightarrow> StageRunRow" where
  "new_stage_row rid a n now = \<lparr>StageRunRow.ident = rid, job_id = StageArgs.job_id a,
     tenant_id = StageArgs.tenant_id a, stage = StageArgs.stage a, stage_key = args_address a,
     status = StageArgs.status a, attempt = n, input_hash = canonical_hash (StageArgs.inputs a),
     policy_hash = StageArgs.policy_hash a, component_version = Some (StageArgs.component_version a),
     output = StageArgs.output a, output_hash = map_option canonical_hash (StageArgs.output a),
     failure_class = StageArgs.failure_class a, next_attempt_at = StageArgs.next_attempt_at a,
     resumed_from_stage_run_id = StageArgs.resumed_from_stage_run_id a, diagnostics = StageArgs.diagnostics a,
     started_at = now, finished_at = Some now\<rparr>"

definition updated_stage_row :: "StageRunRow \<Rightarrow> StageArgs \<Rightarrow> datetime \<Rightarrow> StageRunRow" where
  "updated_stage_row r a now = r\<lparr>StageRunRow.status := StageArgs.status a, StageRunRow.output := StageArgs.output a,
     StageRunRow.output_hash := map_option canonical_hash (StageArgs.output a),
     StageRunRow.failure_class := StageArgs.failure_class a, StageRunRow.next_attempt_at := StageArgs.next_attempt_at a,
     StageRunRow.diagnostics := StageArgs.diagnostics a, StageRunRow.finished_at := Some now\<rparr>"

definition attempt_conflict :: "StageArgs \<Rightarrow> StageRunRow \<Rightarrow> bool" where
  "attempt_conflict a r \<longleftrightarrow> StageRunRow.tenant_id r \<noteq> StageArgs.tenant_id a \<or> StageRunRow.stage r \<noteq> StageArgs.stage a
     \<or> StageRunRow.input_hash r \<noteq> canonical_hash (StageArgs.inputs a)
     \<or> StageRunRow.policy_hash r \<noteq> StageArgs.policy_hash a
     \<or> StageRunRow.component_version r \<noteq> Some (StageArgs.component_version a)"

definition reuse :: "StageArgs \<Rightarrow> StageRunRow \<Rightarrow> JobStore \<Rightarrow> repo_error + (StageRunRow \<times> bool) \<times> JobStore" where
  "reuse a r s = guarded (conflict_if (\<not> valid_success a r) ''STAGE_REUSE_HASH_MISMATCH'') (Inr ((r, True), s))"

definition put_stage :: "StageRunRow \<Rightarrow> JobStore \<Rightarrow> JobStore" where
  "put_stage r s = s\<lparr>stage_runs := set_row StageRunRow.ident r (stage_runs s)\<rparr>"

definition add_stage :: "StageRunRow \<Rightarrow> JobStore \<Rightarrow> JobStore" where
  "add_stage r s = s\<lparr>stage_runs := stage_runs s @ [r]\<rparr>"

text \<open>The insertion: when the constraints refuse it, the transaction is rolled back and the row that won
  is looked up.\<close>

definition insert_stage ::
  "StageArgs \<Rightarrow> StageRunRow \<Rightarrow> JobStore \<Rightarrow> repo_error + (StageRunRow \<times> bool) \<times> JobStore" where
  "insert_stage a r s =
     (if stage_integrity (stage_runs (add_stage r s)) then Inr ((r, False), add_stage r s)
      else case succeeded_at (StageArgs.tenant_id a) (args_address a) (StageArgs.component_version a) s of
          None \<Rightarrow> Inl (Conflict ''STAGE_ATTEMPT_CONFLICT'')
        | Some w \<Rightarrow> if valid_success a w then Inr ((w, True), s) else Inl (Conflict ''STAGE_ATTEMPT_CONFLICT''))"

definition update_stage ::
  "StageArgs \<Rightarrow> StageRunRow \<Rightarrow> datetime \<Rightarrow> JobStore \<Rightarrow> repo_error + (StageRunRow \<times> bool) \<times> JobStore" where
  "update_stage a r now s =
     (if StageRunRow.status r = ''SUCCEEDED'' then reuse a r s
      else guarded (conflict_if (attempt_conflict a r) ''STAGE_ATTEMPT_CONFLICT'')
        (let r' = updated_stage_row r a now
         in if stage_integrity (stage_runs (put_stage r' s)) then Inr ((r', False), put_stage r' s)
            else Inl IntegrityError))"

definition save_stage ::
  "StageArgs \<Rightarrow> datetime \<Rightarrow> JobStore \<Rightarrow> repo_error + (StageRunRow \<times> bool) \<times> JobStore" where
  "save_stage a now s = guarded (stage_args_error a)
     (case succeeded_at (StageArgs.tenant_id a) (args_address a) (StageArgs.component_version a) s of
        Some r \<Rightarrow> reuse a r s
      | None \<Rightarrow> (let n = stage_attempt a s in
          guarded (raise_if (n < 1) (ValueError ''stage attempt must be positive''))
           (case attempt_at (StageArgs.job_id a) (args_address a) n s of
              Some r \<Rightarrow> update_stage a r now s
            | None \<Rightarrow> (case stable_id ''stage'' [JStr (StageArgs.job_id a), JStr (StageArgs.stage a),
                   JStr (args_address a), JInt n] of
                Inl msg \<Rightarrow> Inl (ValueError msg) | Inr rid \<Rightarrow> insert_stage a (new_stage_row rid a n now) s))))"

definition stage_by_key ::
  "string \<Rightarrow> string \<Rightarrow> json \<Rightarrow> string \<Rightarrow> string \<Rightarrow> JobStore \<Rightarrow> StageRunRow option" where
  "stage_by_key tid stg ins pol ver s =
     (case succeeded_at tid (stage_address tid stg ins pol ver) ver s of None \<Rightarrow> None
      | Some r \<Rightarrow>
          if StageRunRow.stage r \<noteq> stg \<or> StageRunRow.input_hash r \<noteq> canonical_hash ins
             \<or> StageRunRow.policy_hash r \<noteq> pol \<or> StageRunRow.component_version r \<noteq> Some ver
             \<or> StageRunRow.output_hash r \<noteq> Some (output_digest (StageRunRow.output r))
          then None else Some r)"

definition stage_runs_for_job :: "string \<Rightarrow> string \<Rightarrow> JobStore \<Rightarrow> StageRunRow list" where
  "stage_runs_for_job jid tid s =
     sort_key (\<lambda>r. (StageRunRow.attempt r, instant (StageRunRow.started_at r), StageRunRow.ident r))
       (filter (\<lambda>r. StageRunRow.job_id r = jid \<and> StageRunRow.tenant_id r = tid) (stage_runs s))"

section \<open>The cache it implements\<close>

definition cache :: "JobStore \<Rightarrow> string \<Rightarrow> json option" where
  "cache s key = (case find (\<lambda>r. indexed r \<and> StageRunRow.stage_key r = key) (stage_runs s) of
     None \<Rightarrow> None | Some r \<Rightarrow> StageRunRow.output r)"

definition honest_row :: "StageRunRow \<Rightarrow> bool" where
  "honest_row r \<longleftrightarrow> (indexed r \<longrightarrow> StageRunRow.output r \<noteq> None
     \<and> StageRunRow.output_hash r = Some (output_digest (StageRunRow.output r)))"

definition stage_invariant :: "JobStore \<Rightarrow> bool" where
  "stage_invariant s \<longleftrightarrow> stage_integrity (stage_runs s) \<and> list_all honest_row (stage_runs s)"

section \<open>Every operation refines the cache\<close>

lemma find_SomeD: "find p xs = Some x \<Longrightarrow> x \<in> set xs \<and> p x"
  by (auto simp: find_Some_iff)

lemma indexed_unique:
  assumes "stage_integrity (stage_runs s)" and "x \<in> set (stage_runs s)" and "y \<in> set (stage_runs s)"
    and "indexed x" and "indexed y" and "StageRunRow.stage_key x = StageRunRow.stage_key y"
  shows "x = y"
proof -
  have "inj_on StageRunRow.stage_key (set (filter indexed (stage_runs s)))"
    using assms(1) by (simp add: stage_integrity_def distinct_map)
  from inj_onD [OF this assms(6)] show ?thesis using assms by simp
qed

lemma cache_at:
  assumes "stage_integrity (stage_runs s)" and "r \<in> set (stage_runs s)" and "indexed r"
  shows "cache s (StageRunRow.stage_key r) = StageRunRow.output r"
proof (cases "find (\<lambda>x. indexed x \<and> StageRunRow.stage_key x = StageRunRow.stage_key r) (stage_runs s)")
  case None
  then show ?thesis using assms(2,3) by (auto simp: find_None_iff)
next
  case (Some x)
  then have "x = r" using find_SomeD [OF Some] indexed_unique [OF assms(1)] assms(2,3) by blast
  then show ?thesis using Some by (simp add: cache_def)
qed

lemma cache_free:
  assumes "\<forall>r \<in> set (stage_runs s). indexed r \<longrightarrow> StageRunRow.stage_key r \<noteq> key"
  shows "cache s key = None"
proof -
  have "find (\<lambda>x. indexed x \<and> StageRunRow.stage_key x = key) (stage_runs s) = None"
    using assms by (auto simp: find_None_iff)
  then show ?thesis by (simp add: cache_def)
qed

text \<open>A table that gains one successful row gains one entry of the cache, and nothing else changes.\<close>

lemma cache_gains:
  assumes i: "stage_integrity (stage_runs s)" and i': "stage_integrity (stage_runs s')" and r: "indexed r"
    and rows: "\<And>x. indexed x \<Longrightarrow> x \<in> set (stage_runs s') \<longleftrightarrow> x = r \<or> x \<in> set (stage_runs s)"
    and fresh: "r \<notin> set (stage_runs s)"
  shows "cache s (StageRunRow.stage_key r) = None \<and> cache s' = (cache s)(StageRunRow.stage_key r := StageRunRow.output r)"
proof (intro conjI ext)
  show "cache s (StageRunRow.stage_key r) = None"
  proof (rule cache_free, intro ballI impI notI)
    fix x assume "x \<in> set (stage_runs s)" "indexed x" "StageRunRow.stage_key x = StageRunRow.stage_key r"
    then have "x = r" using indexed_unique [OF i', of x r] rows r by blast
    then show False using fresh \<open>x \<in> set (stage_runs s)\<close> by simp
  qed
  fix key
  show "cache s' key = ((cache s)(StageRunRow.stage_key r := StageRunRow.output r)) key"
  proof (cases "\<exists>x \<in> set (stage_runs s'). indexed x \<and> StageRunRow.stage_key x = key")
    case True
    then obtain x where x: "x \<in> set (stage_runs s')" "indexed x" "StageRunRow.stage_key x = key" by blast
    show ?thesis
    proof (cases "x = r")
      case True
      then show ?thesis using cache_at [OF i' x(1,2)] x by simp
    next
      case False
      then have "x \<in> set (stage_runs s)" using rows x by blast
      moreover have "StageRunRow.stage_key r \<noteq> key"
        using indexed_unique [OF i' x(1) _ x(2) r] rows r x(3) False by blast
      ultimately show ?thesis using cache_at [OF i' x(1,2)] cache_at [OF i _ x(2)] x(3) by auto
    qed
  next
    case False
    then have "cache s' key = None" "cache s key = None" "StageRunRow.stage_key r \<noteq> key"
      using cache_free [of s' key] cache_free [of s key] rows r by blast+
    then show ?thesis by simp
  qed
qed

lemma cache_same:
  assumes i: "stage_integrity (stage_runs s)" and i': "stage_integrity (stage_runs s')"
    and rows: "\<And>x. indexed x \<Longrightarrow> x \<in> set (stage_runs s') \<longleftrightarrow> x \<in> set (stage_runs s)"
  shows "cache s' = cache s"
proof
  fix key
  show "cache s' key = cache s key"
  proof (cases "\<exists>x \<in> set (stage_runs s). indexed x \<and> StageRunRow.stage_key x = key")
    case True
    then obtain x where x: "x \<in> set (stage_runs s)" "indexed x" "StageRunRow.stage_key x = key" by blast
    then show ?thesis using cache_at [OF i x(1,2)] cache_at [OF i' _ x(2)] rows by simp
  next
    case False
    then show ?thesis using cache_free [of s key] cache_free [of s' key] rows by auto
  qed
qed

lemma succeeded_at_row:
  assumes "succeeded_at tid key ver s = Some r"
  shows "r \<in> set (stage_runs s) \<and> indexed r \<and> StageRunRow.stage_key r = key"
  using find_SomeD [OF assms [unfolded succeeded_at_def]] by (simp add: indexed_def)

lemma mem_put_stage:
  assumes "stage_integrity (stage_runs s)" and "old \<in> set (stage_runs s)" and "StageRunRow.ident old = StageRunRow.ident r"
  shows "x \<in> set (stage_runs (put_stage r s)) \<longleftrightarrow> x = r \<or> (x \<in> set (stage_runs s) \<and> x \<noteq> old)"
proof -
  have "x = old" if "x \<in> set (stage_runs s)" "StageRunRow.ident x = StageRunRow.ident old" for x
    using assms(1,2) that by (auto simp: stage_integrity_def distinct_map inj_on_def)
  then have same: "StageRunRow.ident x = StageRunRow.ident r \<longleftrightarrow> x = old" if "x \<in> set (stage_runs s)" for x
    using that assms(3) by metis
  have "set (stage_runs (put_stage r s)) = (\<lambda>x. if StageRunRow.ident x = StageRunRow.ident r then r else x) ` set (stage_runs s)"
    by (simp add: put_stage_def set_row_def)
  also have "\<dots> = (\<lambda>x. if x = old then r else x) ` set (stage_runs s)"
    using same by (intro image_cong refl) simp
  finally show ?thesis using assms(2) by (auto simp: image_iff)
qed

lemma reuse_Inr:
  "reuse a r s = Inr ((x, b), s') \<longleftrightarrow> valid_success a r \<and> x = r \<and> b \<and> s' = s"
  by (auto simp: reuse_def)

lemma valid_success_indexed: "valid_success a r \<Longrightarrow> indexed r \<and> StageRunRow.stage_key r = args_address a"
  by (simp add: valid_success_def indexed_def)

lemma stored_result:
  assumes "(if c then Inr ((x, d), t) else Inl e) = (Inr ((r, b), s') :: repo_error + (StageRunRow \<times> bool) \<times> JobStore)"
  shows "c" and "x = r" and "d = b" and "t = s'"
  using assms by (cases c; simp)+

lemma save_stage_cases [consumes 1, case_names reused updated inserted]:
  assumes run: "save_stage a now s = Inr ((r, b), s')"
  obtains "b" "s' = s" "r \<in> set (stage_runs s)" "valid_success a r"
  | old where "\<not> b" "old \<in> set (stage_runs s)" "StageRunRow.status old \<noteq> ''SUCCEEDED''"
      "StageRunRow.stage_key old = args_address a" "\<not> attempt_conflict a old" "r = updated_stage_row old a now"
      "s' = put_stage r s" "stage_integrity (stage_runs s')"
  | rid n where "\<not> b" "r = new_stage_row rid a n now" "s' = add_stage r s" "stage_integrity (stage_runs s')"
proof -
  have ok: "stage_args_error a = None" using run by (simp add: save_stage_def)
  let ?found = "succeeded_at (StageArgs.tenant_id a) (args_address a) (StageArgs.component_version a) s"
  show thesis
  proof (cases ?found)
    case (Some x)
    then have "reuse a x s = Inr ((r, b), s')" using run by (simp add: save_stage_def)
    then show thesis using that(1) succeeded_at_row [OF Some] by (simp add: reuse_Inr)
  next
    case none: None
    let ?n = "stage_attempt a s"
    show thesis
    proof (cases "attempt_at (StageArgs.job_id a) (args_address a) ?n s")
      case (Some x)
      have u: "update_stage a x now s = Inr ((r, b), s')" using run none Some by (simp add: save_stage_def Let_def)
      have x: "x \<in> set (stage_runs s)" "StageRunRow.stage_key x = args_address a"
        using find_SomeD [OF Some [unfolded attempt_at_def]] by (simp_all add: attempt_key_def)
      show thesis
      proof (cases "StageRunRow.status x = ''SUCCEEDED''")
        case True
        then show thesis using u x that(1) by (simp add: update_stage_def reuse_Inr)
      next
        case False
        have g: "\<not> attempt_conflict a x"
          and c: "(if stage_integrity (stage_runs (put_stage (updated_stage_row x a now) s))
             then Inr ((updated_stage_row x a now, False), put_stage (updated_stage_row x a now) s)
             else Inl IntegrityError) = Inr ((r, b), s')"
          using u False by (simp_all add: update_stage_def Let_def split del: if_split)
        note res = stored_result [OF c]
        show thesis
          by (rule that(2) [OF _ x(1) False x(2) g]) (use res in blast)+
      qed
    next
      case None
      then obtain rid where "insert_stage a (new_stage_row rid a ?n now) s = Inr ((r, b), s')"
        using run none by (auto simp: save_stage_def Let_def split: sum.splits)
      then have c: "(if stage_integrity (stage_runs (add_stage (new_stage_row rid a ?n now) s))
          then Inr ((new_stage_row rid a ?n now, False), add_stage (new_stage_row rid a ?n now) s)
          else Inl (Conflict ''STAGE_ATTEMPT_CONFLICT'')) = Inr ((r, b), s')"
        unfolding insert_stage_def none option.case .
      note res = stored_result [OF c]
      show thesis by (rule that(3)) (use res in blast)+
    qed
  qed
qed

lemma new_row_facts:
  assumes "stage_args_error a = None" and "StageArgs.status a = ''SUCCEEDED''"
  shows "valid_success a (new_stage_row rid a n now)"
    and "\<not> attempt_conflict a old \<Longrightarrow> StageRunRow.stage_key old = args_address a \<Longrightarrow> valid_success a (updated_stage_row old a now)"
proof -
  obtain j where "StageArgs.output a = Some j" using assms by (auto simp: stage_args_error_def split: option.splits)
  then show "valid_success a (new_stage_row rid a n now)"
    and "\<not> attempt_conflict a old \<Longrightarrow> StageRunRow.stage_key old = args_address a \<Longrightarrow> valid_success a (updated_stage_row old a now)"
    using assms(2) by (simp_all add: valid_success_def new_stage_row_def updated_stage_row_def attempt_conflict_def output_digest_def)
qed

lemma failed_row_facts':
  assumes "StageArgs.status a \<noteq> ''SUCCEEDED''"
  shows "\<not> indexed (new_stage_row rid a n now)" and "\<not> indexed (updated_stage_row old a now)"
  using assms by (simp_all add: indexed_def new_stage_row_def updated_stage_row_def)

lemma row_output:
  "StageRunRow.output (new_stage_row rid a n now) = StageArgs.output a"
  "StageRunRow.output (updated_stage_row old a now) = StageArgs.output a"
  "StageRunRow.ident (updated_stage_row old a now) = StageRunRow.ident old"
  "StageRunRow.status (updated_stage_row old a now) = StageArgs.status a"
  by (simp_all add: new_stage_row_def updated_stage_row_def)

text \<open>Which rows of the index a successful call leaves.\<close>

lemma save_stage_rows:
  assumes i: "stage_integrity (stage_runs s)" and run: "save_stage a now s = Inr ((r, b), s')"
  shows "stage_integrity (stage_runs s')
     \<and> (if b then s' = s \<and> r \<in> set (stage_runs s) \<and> valid_success a r
        else StageRunRow.output r = StageArgs.output a
          \<and> (\<forall>x. indexed x \<longrightarrow> (x \<in> set (stage_runs s') \<longleftrightarrow> x = r \<or> x \<in> set (stage_runs s)))
          \<and> r \<in> set (stage_runs s')
          \<and> (if StageArgs.status a = ''SUCCEEDED'' then valid_success a r \<and> r \<notin> set (stage_runs s) else \<not> indexed r))"
proof -
  have ok: "stage_args_error a = None" using run by (simp add: save_stage_def)
  show ?thesis using run
  proof (cases rule: save_stage_cases)
    case reused
    then show ?thesis using i by simp
  next
    case (updated old)
    have id: "StageRunRow.ident old = StageRunRow.ident r" by (simp add: updated(6) row_output)
    note mem = mem_put_stage [OF i updated(2) id]
    have "\<not> indexed old" using updated(3) by (simp add: indexed_def)
    moreover have "r \<notin> set (stage_runs s)" if "StageArgs.status a = ''SUCCEEDED''"
    proof
      assume "r \<in> set (stage_runs s)"
      then have "r = old" using i updated(2) id by (auto simp: stage_integrity_def distinct_map inj_on_def)
      then show False using updated(3,6) that row_output(4) by metis
    qed
    ultimately show ?thesis
      using updated mem new_row_facts(2) [OF ok _ updated(5,4)] failed_row_facts'(2) [of a old now]
      by (auto simp: row_output)
  next
    case (inserted rid n)
    have "StageRunRow.ident r \<notin> StageRunRow.ident ` set (stage_runs s)"
      using inserted(3,4) by (simp add: stage_integrity_def add_stage_def)
    then have "r \<notin> set (stage_runs s)" by blast
    then show ?thesis
      using inserted new_row_facts(1) [OF ok] failed_row_facts'(1) [of a] by (auto simp: row_output add_stage_def)
  qed
qed

section \<open>Runs of the store\<close>

definition same_index :: "JobStore \<Rightarrow> JobStore \<Rightarrow> bool" where
  "same_index s s' \<longleftrightarrow> stage_integrity (stage_runs s')
     \<and> (\<forall>x. indexed x \<longrightarrow> (x \<in> set (stage_runs s') \<longleftrightarrow> x \<in> set (stage_runs s)))"

lemma same_index_same: "stage_integrity (stage_runs s) \<Longrightarrow> stage_runs s' = stage_runs s \<Longrightarrow> same_index s s'"
  by (simp add: same_index_def)

lemma latest_failed_row: "latest_failed_stage s r stg = Some x \<Longrightarrow> x \<in> set (stage_runs s) \<and> StageRunRow.status x = ''FAILED''"
proof -
  let ?key = "\<lambda>x. (- StageRunRow.attempt x, - instant (StageRunRow.started_at x))"
  let ?rows = "filter (\<lambda>x. StageRunRow.job_id x = JobRow.ident r \<and> StageRunRow.tenant_id x = JobRow.tenant_id r
            \<and> StageRunRow.status x = ''FAILED'' \<and> StageRunRow.stage x = stg) (stage_runs s)"
  assume "latest_failed_stage s r stg = Some x"
  then have "x \<in> set (sort_key ?key ?rows)" unfolding latest_failed_stage_def by (rule head_of_case)
  then show ?thesis by simp
qed

lemma filter_replaced: "\<not> p x \<Longrightarrow> \<not> p z \<Longrightarrow> filter p (map (\<lambda>y. if y = x then z else y) xs) = filter p xs"
  by (induction xs) auto

lemma note_retry_same_index:
  assumes i: "stage_integrity (stage_runs s)" and f: "f \<in> set RETRYABLE_JOB_FAILURE_CLASSES"
  shows "same_index s (note_stage_retry r stg f nxt s)"
proof (cases "latest_failed_stage s r stg")
  case None
  then show ?thesis using i same_index_same by (simp add: note_stage_retry_def)
next
  case (Some x)
  let ?x = "x\<lparr>StageRunRow.failure_class := Some f, StageRunRow.next_attempt_at := Some nxt\<rparr>"
  have s': "note_stage_retry r stg f nxt s = put_stage ?x s"
    using Some by (simp add: note_stage_retry_def put_stage_def)
  have x: "x \<in> set (stage_runs s)" "\<not> indexed x" using latest_failed_row [OF Some] by (simp_all add: indexed_def)
  then have nx: "\<not> indexed ?x" by (simp add: indexed_def)
  have same: "StageRunRow.ident y = StageRunRow.ident x \<longleftrightarrow> y = x" if "y \<in> set (stage_runs s)" for y
    using i x(1) that by (auto simp: stage_integrity_def distinct_map inj_on_def)
  have rows: "stage_runs (put_stage ?x s) = map (\<lambda>y. if y = x then ?x else y) (stage_runs s)"
    unfolding put_stage_def set_row_def using same by simp
  have "filter indexed (stage_runs (put_stage ?x s)) = filter indexed (stage_runs s)"
    unfolding rows by (rule filter_replaced [where p = indexed, OF x(2) nx])
  moreover have "map attempt_key (stage_runs (put_stage ?x s)) = map attempt_key (stage_runs s)"
    "map StageRunRow.ident (stage_runs (put_stage ?x s)) = map StageRunRow.ident (stage_runs s)"
    unfolding rows by (simp_all add: attempt_key_def)
  moreover have "f \<in> set JOB_FAILURE_CLASSES"
    using f by (auto simp: RETRYABLE_JOB_FAILURE_CLASSES_def JOB_FAILURE_CLASSES_def)
  then have "list_all (\<lambda>r. case StageRunRow.failure_class r of None \<Rightarrow> True | Some f \<Rightarrow> f \<in> set JOB_FAILURE_CLASSES)
      (stage_runs (put_stage ?x s))"
    using i unfolding rows by (auto simp: stage_integrity_def list_all_iff)
  ultimately have "stage_integrity (stage_runs (put_stage ?x s))"
    using i by (simp add: stage_integrity_def)
  then show ?thesis
    using mem_put_stage [OF i x(1), of ?x] x(2) nx s' by (auto simp: same_index_def)
qed


lemma same_index_stages:
  "stage_runs s1 = stage_runs s \<Longrightarrow> stage_runs s2 = stage_runs s3 \<Longrightarrow> same_index s1 s2 \<Longrightarrow> same_index s s3"
  by (simp add: same_index_def)

lemma note_stage_retry_runs:
  "stage_runs s1 = stage_runs s \<Longrightarrow> stage_runs (note_stage_retry r stg f nxt s1) = stage_runs (note_stage_retry r stg f nxt s)"
  by (simp add: note_stage_retry_def latest_failed_stage_def split: option.splits)

lemma table_stages [simp]:
  "stage_runs (put_job j s) = stage_runs s" "stage_runs (add_job j s) = stage_runs s"
  "stage_runs (put_submission x s) = stage_runs s" "stage_runs (put_activity y s) = stage_runs s"
  "stage_runs (add_control c s) = stage_runs s"
  by (simp_all add: put_job_def add_job_def put_submission_def put_activity_def add_control_def)

lemma complete_cancellation_stages:
  "complete_cancellation r t s = Inr (r', s') \<Longrightarrow> stage_runs s' = stage_runs s"
  by (auto simp: complete_cancellation_def Let_def split: if_splits)

lemma fail_aggregate_stages: "fail_aggregate r d t s = Inr s' \<Longrightarrow> stage_runs s' = stage_runs s"
  by (auto simp: fail_aggregate_def split: if_splits option.splits)

lemma reconcile_row_stages:
  assumes "reconcile_row t r s = Inr s'"
  shows "stage_runs s' = stage_runs s"
proof (cases "JobRow.control_state r = ''CANCEL_REQUESTED''")
  case True
  then obtain p where "complete_cancellation r t s = Inr p" "s' = snd p"
    using assms by (cases "complete_cancellation r t s") (simp_all add: reconcile_row_def)
  then show ?thesis using complete_cancellation_stages [of r t s "fst p" "snd p"] by simp
next
  case False
  then show ?thesis using assms fail_aggregate_stages by (force simp: reconcile_row_def split: if_splits)
qed

lemma reconcile_rows_stages: "reconcile_rows t rs s = Inr s' \<Longrightarrow> stage_runs s' = stage_runs s"
  by (induction rs arbitrary: s) (auto dest: reconcile_row_stages)

lemma reconcile_stages: "reconcile_stale_jobs lease now s = Inr (n, s') \<Longrightarrow> stage_runs s' = stage_runs s"
  by (auto simp: reconcile_stale_jobs_def Let_def dest: reconcile_rows_stages)

lemma claim_stages: "claim_next_job lease t0 now s = Inr (c, s') \<Longrightarrow> stage_runs s' = stage_runs s"
  by (auto simp: claim_next_job_def dest: reconcile_stages split: option.splits)

lemma activate_stages: "activate_resulting_submission_job src r t s = Inr s' \<Longrightarrow> stage_runs s' = stage_runs s"
  by (auto simp: activate_resulting_submission_job_def split: if_splits)

lemma save_stages: "save_job_status st knd now s = Inr (u, s') \<Longrightarrow> stage_runs s' = stage_runs s"
  by (auto simp: save_job_status_def Let_def split: option.splits if_splits)

lemma resume_stages:
  "schedule_job_resume jid tid rid cid who reason stg nxt now s = Inr (r, s') \<Longrightarrow> stage_runs s' = stage_runs s"
  by (auto simp: schedule_job_resume_def Let_def dest!: activate_stages)

lemma quiet_stages:
  "queue_activity_job st allowed now s = Inr (u, s') \<Longrightarrow> stage_runs s' = stage_runs s"
  "queue_submission_job st new v now s = Inr (u, s') \<Longrightarrow> stage_runs s' = stage_runs s"
  "set_submission_state new now s = Inr (u, s') \<Longrightarrow> stage_runs s' = stage_runs s"
  "set_activity_status aid tid stt now s = Inr (u, s') \<Longrightarrow> stage_runs s' = stage_runs s"
  by (auto simp: queue_activity_job_def queue_submission_job_def set_submission_state_def set_activity_status_def Let_def)

lemma cancel_stages:
  assumes run: "request_job_cancel jid tid who given reason now s = Inr (x, s')"
  shows "stage_runs s' = stage_runs s"
proof -
  obtain r where r: "lock_job s jid tid = Inr r"
    using run by (cases "lock_job s jid tid") (simp_all add: request_job_cancel_def)
  show ?thesis
  proof (cases "JobRow.control_state r \<in> {''CANCELLED'', ''CANCEL_REQUESTED''}")
    case True
    then show ?thesis using run r by (auto simp: request_job_cancel_def)
  next
    case False
    then obtain ct r1 where "s' = add_control ct (put_job r1 s)
          \<or> (\<exists>q. complete_cancellation r1 now (add_control ct (put_job r1 s)) = Inr (q, s'))"
      using run r by (auto simp: request_job_cancel_def Let_def split: if_splits)
    then have "stage_runs s' = stage_runs (add_control ct (put_job r1 s))"
      using complete_cancellation_stages by metis
    then show ?thesis by simp
  qed
qed

lemma complete_cancel_stages:
  assumes run: "complete_job_cancellation jid tid now s = Inr (x, s')"
  shows "stage_runs s' = stage_runs s"
proof -
  obtain r where "s' = s \<or> (\<exists>q. complete_cancellation r now s = Inr (q, s'))"
    using run by (auto simp: complete_job_cancellation_def split: if_splits)
  then show ?thesis using complete_cancellation_stages by metis
qed

lemma finalize_stages:
  assumes run: "finalize_submission_assessment jid tid a g now s = Inr (b, s')"
  shows "stage_runs s' = stage_runs s"
  using run by (cases rule: finalize_cases) (simp_all add: complete_cancellation_stages)

lemma dispatch_stages:
  assumes "fail_queued_dispatch jid tid dg f now s = Inr (b, s')"
  shows "stage_runs s' = stage_runs s"
proof -
  obtain r where l: "lock_job s jid tid = Inr r"
    using assms by (cases "lock_job s jid tid") (simp_all add: fail_queued_dispatch_def)
  show ?thesis
  proof (cases "JobRow.status r \<noteq> ''QUEUED'' \<or> JobRow.control_state r \<noteq> ''ACTIVE''")
    case True
    then show ?thesis using assms l by (simp add: fail_queued_dispatch_def)
  next
    case False
    then have "fail_aggregate r dg now (put_job (failed_row r f dg now) s) = Inr s'"
      using assms l by (auto simp: fail_queued_dispatch_def)
    then show ?thesis using fail_aggregate_stages by fastforce
  qed
qed

lemma retry_stages:
  assumes i: "stage_integrity (stage_runs s)"
    and run: "schedule_job_retry jid tid rid cid who reason failure nxt stg limit now s = Inr (r, s')"
  shows "same_index s s'"
proof -
  obtain src where l: "lock_job s jid tid = Inr src" using retry_needs_lock run by (metis isl_def sum.distinct(1))
  define n where "n = (case limit of None \<Rightarrow> JobRow.max_attempts src | Some m \<Rightarrow> m)"
  note retry = run [unfolded schedule_job_retry_def Let_def, simplified l and_then.simps, folded n_def]
  have f: "failure \<in> set RETRYABLE_JOB_FAILURE_CLASSES" using retry by (auto split: option.splits)
  obtain s2 c where s2: "activate_resulting_submission_job src r now (add_job r s) = Inr s2"
      "s' = add_control c (note_stage_retry src stg failure nxt s2)"
    using retry by auto
  then have e: "stage_runs s2 = stage_runs s" using activate_stages [OF s2(1)] by simp
  have "stage_runs s' = stage_runs (note_stage_retry src stg failure nxt s)"
    using note_stage_retry_runs [OF e] by (simp add: s2(2))
  then show ?thesis using note_retry_same_index [OF i f] by (simp add: same_index_def)
qed

lemma job_step_same_index:
  assumes "job_step s s'" and i: "stage_integrity (stage_runs s)"
  shows "same_index s s'"
  using assms(1) by (cases rule: job_step.cases)
    (blast intro: same_index_same [OF i] retry_stages [OF i] quiet_stages save_stages cancel_stages complete_cancel_stages
      resume_stages dispatch_stages reconcile_stages claim_stages finalize_stages)+

inductive stage_step :: "JobStore \<Rightarrow> JobStore \<Rightarrow> bool" where
  job: "job_step s s' \<Longrightarrow> stage_step s s'"
| save: "save_stage a now s = Inr (x, s') \<Longrightarrow> stage_step s s'"

lemma stage_step_keeps:
  assumes "stage_step s s'" and i: "stage_integrity (stage_runs s)"
  shows "stage_integrity (stage_runs s') \<and> (\<forall>x \<in> set (stage_runs s). indexed x \<longrightarrow> x \<in> set (stage_runs s'))"
  using assms(1)
proof cases
  case job
  then show ?thesis using job_step_same_index [OF _ i] by (simp add: same_index_def)
next
  case (save a now x)
  obtain r b where x: "x = (r, b)" by (cases x)
  show ?thesis using save_stage_rows [OF i save [unfolded x]] by (auto split: if_splits)
qed

lemma stage_run_keeps:
  assumes "stage_step\<^sup>*\<^sup>* s s'" and "stage_integrity (stage_runs s)"
  shows "stage_integrity (stage_runs s') \<and> (\<forall>x \<in> set (stage_runs s). indexed x \<longrightarrow> x \<in> set (stage_runs s'))"
  using assms by (induction rule: rtranclp_induct) (auto dest: stage_step_keeps)

lemma find_unique:
  assumes "x \<in> set xs" and "p x" and "\<And>y. y \<in> set xs \<Longrightarrow> p y \<Longrightarrow> y = x"
  shows "find p xs = Some x"
proof (cases "find p xs")
  case None
  then show ?thesis using assms(1,2) by (auto simp: find_None_iff)
next
  case (Some y)
  then show ?thesis using assms(3) find_SomeD [OF Some] by blast
qed

lemma succeeded_at_known:
  assumes i: "stage_integrity (stage_runs s)" and r: "r \<in> set (stage_runs s)" and v: "valid_success a r"
  shows "succeeded_at (StageArgs.tenant_id a) (args_address a) (StageArgs.component_version a) s = Some r"
  unfolding succeeded_at_def
proof (rule find_unique [OF r])
  show "StageRunRow.tenant_id r = StageArgs.tenant_id a \<and> StageRunRow.stage_key r = args_address a
      \<and> StageRunRow.status r = ''SUCCEEDED'' \<and> StageRunRow.component_version r = Some (StageArgs.component_version a)
      \<and> StageRunRow.output_hash r \<noteq> None"
    using v by (simp add: valid_success_def)
next
  fix y assume y: "y \<in> set (stage_runs s)" "StageRunRow.tenant_id y = StageArgs.tenant_id a
      \<and> StageRunRow.stage_key y = args_address a \<and> StageRunRow.status y = ''SUCCEEDED''
      \<and> StageRunRow.component_version y = Some (StageArgs.component_version a) \<and> StageRunRow.output_hash y \<noteq> None"
  then have "indexed y" by (simp add: indexed_def)
  then show "y = r" using indexed_unique [OF i y(1) r] y(2) valid_success_indexed [OF v] by simp
qed

lemma stage_by_key_known:
  assumes "stage_integrity (stage_runs s)" and "r \<in> set (stage_runs s)" and v: "valid_success a r"
  shows "stage_by_key (StageArgs.tenant_id a) (StageArgs.stage a) (StageArgs.inputs a) (StageArgs.policy_hash a)
    (StageArgs.component_version a) s = Some r"
  using succeeded_at_known [OF assms] v by (simp add: stage_by_key_def args_address_def valid_success_def)

definition same_stage :: "StageArgs \<Rightarrow> StageArgs \<Rightarrow> bool" where
  "same_stage a b \<longleftrightarrow> StageArgs.tenant_id a = StageArgs.tenant_id b \<and> StageArgs.stage a = StageArgs.stage b
     \<and> StageArgs.inputs a = StageArgs.inputs b \<and> StageArgs.policy_hash a = StageArgs.policy_hash b
     \<and> StageArgs.component_version a = StageArgs.component_version b"

lemma same_stage_valid: "same_stage a b \<Longrightarrow> valid_success a r = valid_success b r"
  by (simp add: same_stage_def valid_success_def args_address_def)

section \<open>An example\<close>

definition ex_stage :: StageArgs where
  "ex_stage = \<lparr>StageArgs.job_id = ''job_a'', tenant_id = ''tenant_a'', stage = ''PARSE'', inputs = JObj [],
     component_version = ''v1'', policy_hash = zero_hash, output = Some (JInt 1), status = ''SUCCEEDED'',
     diagnostics = [], failure_class = None, next_attempt_at = None, attempt = Some 1,
     resumed_from_stage_run_id = None\<rparr>"

definition ex_stage_again :: StageArgs where
  "ex_stage_again = ex_stage\<lparr>StageArgs.job_id := ''job_b'', StageArgs.output := Some (JInt 2)\<rparr>"

lemma stage_prefix: "good_prefix ''stage''"
  by code_simp

lemma ex_stage_saved: "\<exists>r s1. save_stage ex_stage (utc_time 5) ex_empty = Inr ((r, False), s1)"
proof -
  have e: "stage_runs ex_empty = []" by (simp add: ex_empty_def)
  have n: "stage_attempt ex_stage ex_empty = 1" by (simp add: stage_attempt_def ex_stage_def)
  have a: "stage_args_error ex_stage = None" by (simp add: stage_args_error_def ex_stage_def raise_if_def)
  obtain rid where rid: "stable_id ''stage'' [JStr (StageArgs.job_id ex_stage), JStr (StageArgs.stage ex_stage),
      JStr (args_address ex_stage), JInt 1] = Inr rid"
    using ids.mk_Inr [OF stage_prefix] by blast
  have "stage_integrity (stage_runs (add_stage (new_stage_row rid ex_stage 1 (utc_time 5)) ex_empty))"
    using e by (simp add: add_stage_def stage_integrity_def new_stage_row_def ex_stage_def)
  then show ?thesis
    using e n a rid by (simp add: save_stage_def succeeded_at_def attempt_at_def insert_stage_def)
qed

lemma ex_stage_store: "stage_invariant ex_empty"
  by (simp add: stage_invariant_def stage_integrity_def ex_empty_def)

section \<open>Properties\<close>

text \<open>C30: the stage table implements a cache.  A call to \<open>save_stage\<close> that returns keeps the table's
  constraints and the honesty of its digests; a successful run adds its output under its address when
  there was none, or returns the output already there and changes nothing; an unsuccessful run never
  changes the cache.\<close>

theorem stage_store_refines_cache:
  assumes inv: "stage_invariant s" and run: "save_stage a now s = Inr ((r, b), s')"
  shows "stage_invariant s'
     \<and> (if b then s' = s \<and> StageRunRow.output r \<noteq> None \<and> cache s (args_address a) = StageRunRow.output r
        else if StageArgs.status a = ''SUCCEEDED''
        then StageArgs.output a \<noteq> None \<and> cache s (args_address a) = None \<and> StageRunRow.output r = StageArgs.output a
          \<and> cache s' = (cache s)(args_address a := StageArgs.output a)
        else cache s' = cache s)"
proof -
  have i: "stage_integrity (stage_runs s)" and h: "list_all honest_row (stage_runs s)"
    using inv by (simp_all add: stage_invariant_def)
  note rows = save_stage_rows [OF i run]
  show ?thesis
  proof (cases b)
    case True
    then have r: "s' = s" "r \<in> set (stage_runs s)" "valid_success a r" using rows by simp_all
    have "honest_row r" using h r(2) by (simp add: list_all_iff)
    then show ?thesis using True r inv valid_success_indexed [OF r(3)] cache_at [OF i r(2)] by (simp add: honest_row_def)
  next
    case nb: False
    have i': "stage_integrity (stage_runs s')" and o': "StageRunRow.output r = StageArgs.output a"
      and mem: "\<And>x. indexed x \<Longrightarrow> x \<in> set (stage_runs s') \<longleftrightarrow> x = r \<or> x \<in> set (stage_runs s)"
      using rows nb by auto
    show ?thesis
    proof (cases "StageArgs.status a = ''SUCCEEDED''")
      case True
      then have v: "valid_success a r" "r \<notin> set (stage_runs s)" using rows nb by simp_all
      have out: "StageArgs.output a \<noteq> None"
        using run True by (auto simp: save_stage_def stage_args_error_def split: option.splits)
      have "honest_row x" if "x \<in> set (stage_runs s')" for x
      proof (cases "indexed x")
        case True
        then have "x = r \<or> x \<in> set (stage_runs s)" using mem that by blast
        then show ?thesis using h v(1) out o' by (auto simp: list_all_iff honest_row_def valid_success_def)
      qed (simp add: honest_row_def)
      then have "stage_invariant s'" using i' by (simp add: stage_invariant_def list_all_iff)
      then show ?thesis
        using cache_gains [OF i i' _ mem v(2)] valid_success_indexed [OF v(1)] nb True out o' by simp
    next
      case False
      then have nr: "\<not> indexed r" using rows nb by simp
      then have mem': "x \<in> set (stage_runs s') \<longleftrightarrow> x \<in> set (stage_runs s)" if "indexed x" for x
        using mem [OF that] that by blast
      have "honest_row x" if "x \<in> set (stage_runs s')" for x
        using h mem' that by (cases "indexed x") (auto simp: list_all_iff honest_row_def)
      then have "stage_invariant s'" using i' by (simp add: stage_invariant_def list_all_iff)
      then show ?thesis using cache_same [OF i i' mem'] nb False by simp
    qed
  qed
qed

theorem stage_store_refines_cache_witness:
  "\<exists>r s1. save_stage ex_stage (utc_time 5) ex_empty = Inr ((r, False), s1) \<and> StageRunRow.output r = Some (JInt 1)
     \<and> cache s1 (args_address ex_stage) = Some (JInt 1)"
proof -
  obtain r s1 where s1: "save_stage ex_stage (utc_time 5) ex_empty = Inr ((r, False), s1)" using ex_stage_saved by blast
  have "StageArgs.status ex_stage = ''SUCCEEDED''" "StageArgs.output ex_stage = Some (JInt 1)" by (simp_all add: ex_stage_def)
  with stage_store_refines_cache [OF ex_stage_store s1] s1 show ?thesis by auto
qed

text \<open>A stage result is written once.  After a successful \<open>save_stage\<close>, whatever job operations and
  stage calls follow, a further call for the same stage returns the very same row, whatever its own
  output, and changes nothing; and the lookup finds that row.\<close>

theorem stage_result_is_written_once:
  assumes "stage_invariant s" and "save_stage a now s = Inr ((r, b), s1)" and "StageArgs.status a = ''SUCCEEDED''"
    and "stage_step\<^sup>*\<^sup>* s1 s'" and "same_stage a2 a" and "stage_args_error a2 = None"
  shows "save_stage a2 now2 s' = Inr ((r, True), s')
     \<and> stage_by_key (StageArgs.tenant_id a) (StageArgs.stage a) (StageArgs.inputs a) (StageArgs.policy_hash a)
         (StageArgs.component_version a) s' = Some r"
proof -
  have "stage_integrity (stage_runs s)" using assms(1) by (simp add: stage_invariant_def)
  note rows = save_stage_rows [OF this assms(2)]
  have v: "valid_success a r" and r: "r \<in> set (stage_runs s1)" and i: "stage_integrity (stage_runs s1)"
    using rows assms(3) by (auto split: if_splits)
  note later = stage_run_keeps [OF assms(4) i]
  have r': "r \<in> set (stage_runs s')" using later r valid_success_indexed [OF v] by blast
  have v2: "valid_success a2 r" using same_stage_valid [OF assms(5)] v by simp
  have "save_stage a2 now2 s' = Inr ((r, True), s')"
    using succeeded_at_known [OF _ r' v2] later assms(6) v2 by (simp add: save_stage_def reuse_def)
  then show ?thesis using stage_by_key_known [OF _ r' v] later by simp
qed

theorem stage_result_is_written_once_witness:
  "\<exists>r s1. save_stage ex_stage (utc_time 5) ex_empty = Inr ((r, False), s1)
     \<and> save_stage ex_stage_again (utc_time 6) s1 = Inr ((r, True), s1)"
proof -
  obtain r s1 where s1: "save_stage ex_stage (utc_time 5) ex_empty = Inr ((r, False), s1)" using ex_stage_saved by blast
  have "StageArgs.status ex_stage = ''SUCCEEDED''" by (simp add: ex_stage_def)
  moreover have "same_stage ex_stage_again ex_stage" by (simp add: same_stage_def ex_stage_again_def)
  moreover have "stage_args_error ex_stage_again = None"
    by (simp add: stage_args_error_def ex_stage_again_def ex_stage_def raise_if_def)
  ultimately show ?thesis using stage_result_is_written_once [OF ex_stage_store s1 _ rtranclp.rtrancl_refl] s1 by blast
qed

end
