(* ===== verification/RateLimit.thy ===== *)
theory RateLimit
  imports Prelude PyFloat
begin

text \<open>
  \<open>web/rate_limit.py\<close>: the fixed-window limiter in front of the HTTP surface.  The dictionary of
  windows keeps its insertion order, which decides ties when the oldest window is evicted; the reading
  of the monotonic clock, a float, is an argument, and the lock makes each call one step.
\<close>

record Window =
  started_at :: pyfloat
  count_of :: int

record Limiter =
  window_seconds :: int
  max_keys :: int
  windows :: "(string \<times> Window) list"

definition new_limiter :: "int \<Rightarrow> int \<Rightarrow> string + Limiter" where
  "new_limiter ws mk = (if ws < 1 \<or> mk < 1 then Inl ''rate limiter bounds must be positive''
     else Inr \<lparr>window_seconds = ws, max_keys = mk, windows = []\<rparr>)"

definition expired :: "Limiter \<Rightarrow> pyfloat \<Rightarrow> Window \<Rightarrow> bool" where
  "expired L now w \<longleftrightarrow> of_int (window_seconds L) \<le> fsub now (started_at w)"

text \<open>\<open>d[key] = w\<close>: the place of a key already there is kept.\<close>

definition dict_set :: "'k \<Rightarrow> 'v \<Rightarrow> ('k \<times> 'v) list \<Rightarrow> ('k \<times> 'v) list" where
  "dict_set k v d = (if k \<in> set (map fst d) then map (\<lambda>(a, b). (a, if a = k then v else b)) d else d @ [(k, v)])"

text \<open>\<open>min(d, key=...)\<close>: the first key whose window started earliest.\<close>

fun oldest_key :: "(string \<times> Window) list \<Rightarrow> string option" where
  "oldest_key [] = None"
| "oldest_key [(k, w)] = Some k"
| "oldest_key ((k, w) # (k2, w2) # d) =
     (if started_at w2 < started_at w then oldest_key ((k2, w2) # d) else oldest_key ((k, w) # d))"

definition without :: "string option \<Rightarrow> (string \<times> Window) list \<Rightarrow> (string \<times> Window) list" where
  "without k d = (case k of None \<Rightarrow> d | Some x \<Rightarrow> filter (\<lambda>p. fst p \<noteq> x) d)"

definition full :: "Limiter \<Rightarrow> (string \<times> Window) list \<Rightarrow> bool" where
  "full L d \<longleftrightarrow> max_keys L \<le> int (length d)"

definition evict :: "Limiter \<Rightarrow> pyfloat \<Rightarrow> (string \<times> Window) list" where
  "evict L now = (if full L (windows L) then
       (let kept = filter (\<lambda>p. \<not> expired L now (snd p)) (windows L)
        in if full L kept then without (oldest_key kept) kept else kept)
     else windows L)"

definition retry_after :: "Limiter \<Rightarrow> pyfloat \<Rightarrow> Window \<Rightarrow> int" where
  "retry_after L now w = max 1 \<lfloor>fadd (fsub (of_int (window_seconds L)) (fsub now (started_at w))) (fl (999 / 1000))\<rfloor>"

definition consume :: "string \<Rightarrow> int \<Rightarrow> pyfloat \<Rightarrow> Limiter \<Rightarrow> string + (bool \<times> int) \<times> Limiter" where
  "consume key limit now L =
     (if limit < 1 then Inl ''rate limit must be positive''
      else case map_of (windows L) key of
        Some w \<Rightarrow>
          if expired L now w then
            Inr ((True, 0), L\<lparr>windows := dict_set key \<lparr>started_at = now, count_of = 1\<rparr> (evict L now)\<rparr>)
          else if limit \<le> count_of w then Inr ((False, retry_after L now w), L)
          else Inr ((True, 0), L\<lparr>windows := dict_set key (w\<lparr>count_of := count_of w + 1\<rparr>) (windows L)\<rparr>)
      | None \<Rightarrow> Inr ((True, 0), L\<lparr>windows := dict_set key \<lparr>started_at = now, count_of = 1\<rparr> (evict L now)\<rparr>))"

text \<open>A sequence of calls, in the order in which they take the lock; a rejected limit leaves no trace.\<close>

type_synonym call = "string \<times> int \<times> pyfloat"

fun serve :: "call list \<Rightarrow> Limiter \<Rightarrow> (string \<times> bool) list \<times> Limiter" where
  "serve [] L = ([], L)"
| "serve ((key, limit, now) # cs) L =
     (case consume key limit now L of Inl _ \<Rightarrow> serve cs L
      | Inr ((b, _), L') \<Rightarrow> (let (es, L'') = serve cs L' in ((key, b) # es, L'')))"

section \<open>The dictionary of windows\<close>


lemma map_fst_dict_set: "map fst (dict_set k v d) = (if k \<in> set (map fst d) then map fst d else map fst d @ [k])"
  by (auto simp: dict_set_def)

lemma distinct_dict_set: "distinct (map fst d) \<Longrightarrow> distinct (map fst (dict_set k v d))"
  by (simp add: map_fst_dict_set)

lemma map_of_update:
  "map_of (map (\<lambda>(a, b). (a, if a = k then v else b)) d) x = (if x = k \<and> k \<in> fst ` set d then Some v else map_of d x)"
proof (induction d)
  case (Cons p d)
  then show ?case by (cases p; cases "fst p = k"; cases "x = k"; cases "fst p = x") simp_all
qed simp

lemma map_of_dict_set [simp]: "map_of (dict_set k v d) = (map_of d)(k \<mapsto> v)"
proof
  fix x
  show "map_of (dict_set k v d) x = ((map_of d)(k \<mapsto> v)) x"
  proof (cases "k \<in> fst ` set d")
    case True
    then show ?thesis by (simp add: dict_set_def map_of_update)
  next
    case False
    then have "map_of d k = None" by (simp add: map_of_eq_None_iff)
    with False show ?thesis by (cases "map_of d x") (auto simp: dict_set_def map_add_def)
  qed
qed

lemma length_dict_set: "length (dict_set k v d) = (if k \<in> set (map fst d) then length d else Suc (length d))"
  by (simp add: dict_set_def)

lemma oldest_key_in: "oldest_key d = Some k \<Longrightarrow> k \<in> fst ` set d"
  by (induction d rule: oldest_key.induct) (auto split: if_splits)

lemma oldest_key_None: "oldest_key d = None \<longleftrightarrow> d = []"
  by (induction d rule: oldest_key.induct) auto

lemma length_without:
  assumes "d \<noteq> []"
  shows "length (without (oldest_key d) d) < length d"
proof -
  obtain k where k: "oldest_key d = Some k" using assms oldest_key_None by blast
  then obtain v where "(k, v) \<in> set d" using oldest_key_in by fastforce
  then show ?thesis using length_filter_less [of "(k, v)" d "\<lambda>p. fst p \<noteq> k"] k by (simp add: without_def)
qed

lemma set_evict: "set (evict L now) \<subseteq> set (windows L)"
  by (auto simp: evict_def without_def Let_def split: option.splits)

lemma distinct_evict: "distinct (map fst (windows L)) \<Longrightarrow> distinct (map fst (evict L now))"
  by (simp add: evict_def without_def Let_def distinct_map_filter split: option.splits)

lemma length_evict:
  assumes "1 \<le> max_keys L" and "int (length (windows L)) \<le> max_keys L"
  shows "int (length (evict L now)) < max_keys L"
proof (cases "full L (windows L)")
  case True
  let ?kept = "filter (\<lambda>p. \<not> expired L now (snd p)) (windows L)"
  have "int (length ?kept) \<le> max_keys L"
    using assms(2) length_filter_le [of "\<lambda>p. \<not> expired L now (snd p)" "windows L"] by linarith
  moreover have "?kept \<noteq> []" if "full L ?kept" using that assms(1) by (auto simp: full_def)
  ultimately show ?thesis
    using True length_without [of ?kept] by (force simp: evict_def Let_def full_def)
next
  case False
  then show ?thesis by (simp add: evict_def full_def)
qed

section \<open>The limiter stays bounded\<close>

definition limiter_ok :: "Limiter \<Rightarrow> bool" where
  "limiter_ok L \<longleftrightarrow> 1 \<le> window_seconds L \<and> 1 \<le> max_keys L \<and> distinct (map fst (windows L))
     \<and> int (length (windows L)) \<le> max_keys L \<and> (\<forall>w \<in> snd ` set (windows L). 1 \<le> count_of w)"

lemma snd_dict_set: "snd ` set (dict_set k v d) \<subseteq> insert v (snd ` set d)"
  by (auto simp: dict_set_def split: if_splits)

lemma limiter_ok_put:
  assumes "limiter_ok L" and "1 \<le> count_of w" and "set d \<subseteq> set (windows L)" and "distinct (map fst d)"
    and "int (length d) < max_keys L \<or> (k \<in> fst ` set d \<and> int (length d) \<le> max_keys L)"
  shows "limiter_ok (L\<lparr>windows := dict_set k w d\<rparr>)"
proof -
  have "snd ` set (dict_set k w d) \<subseteq> insert w (snd ` set (windows L))"
    using snd_dict_set [of k w d] assms(3) by blast
  then have "\<forall>x \<in> snd ` set (dict_set k w d). 1 \<le> count_of x"
    using assms(1,2) by (force simp: limiter_ok_def)
  then show ?thesis
    using assms by (auto simp: limiter_ok_def distinct_dict_set length_dict_set)
qed

lemma consume_ok:
  assumes "limiter_ok L" and "consume key limit now L = Inr (r, L')"
  shows "limiter_ok L'"
proof -
  have e: "limiter_ok (L\<lparr>windows := dict_set key \<lparr>started_at = now, count_of = 1\<rparr> (evict L now)\<rparr>)"
    using assms(1) set_evict distinct_evict length_evict by (intro limiter_ok_put) (auto simp: limiter_ok_def)
  have i: "limiter_ok (L\<lparr>windows := dict_set key (w\<lparr>count_of := count_of w + 1\<rparr>) (windows L)\<rparr>)"
    if "map_of (windows L) key = Some w" for w
  proof (rule limiter_ok_put [OF assms(1)])
    have m: "(key, w) \<in> set (windows L)" using map_of_SomeD [OF that] .
    then have "1 \<le> count_of w" using assms(1) by (force simp: limiter_ok_def)
    then show "1 \<le> count_of (w\<lparr>count_of := count_of w + 1\<rparr>)" by simp
    show "int (length (windows L)) < max_keys L \<or> key \<in> fst ` set (windows L) \<and> int (length (windows L)) \<le> max_keys L"
      using m assms(1) by (force simp: limiter_ok_def)
  qed (use assms(1) in \<open>simp_all add: limiter_ok_def\<close>)
  show ?thesis using assms e i by (auto simp: consume_def split: if_splits option.splits)
qed

lemma serve_served:
  "consume key limit now L = Inr ((b, n), L') \<Longrightarrow>
     serve ((key, limit, now) # cs) L = ((key, b) # fst (serve cs L'), snd (serve cs L'))"
  by (simp add: split_beta)

lemma serve_ok: "limiter_ok L \<Longrightarrow> limiter_ok (snd (serve cs L))"
proof (induction cs arbitrary: L)
  case (Cons c cs)
  obtain key limit now where c: "c = (key, limit, now)" by (cases c)
  show ?case
  proof (cases "consume key limit now L")
    case (Inl e)
    then show ?thesis using Cons c by simp
  next
    case (Inr r)
    obtain b n L' where r: "r = ((b, n), L')" by (cases r) auto
    then have "limiter_ok (snd (serve cs L'))" using Cons consume_ok Inr by blast
    then show ?thesis using serve_served [OF Inr [unfolded r]] c by simp
  qed
qed simp

lemma consume_bounds: "consume key limit now L = Inr (r, L') \<Longrightarrow> window_seconds L' = window_seconds L \<and> max_keys L' = max_keys L"
  by (auto simp: consume_def split: if_splits option.splits)



section \<open>A live window\<close>






section \<open>The answer to a refused call\<close>

lemma fl_literal: "0 \<le> fl (999 / 1000) \<and> fl (999 / 1000) \<le> of_int 1023 * two_pow (- 10)"
proof -
  have "fl (999 / 1000) \<le> fl (of_int 1023 * two_pow (- 10))"
    by (rule fl_mono) (simp add: two_pow_def)
  also have "\<dots> = of_int 1023 * two_pow (- 10)" by (rule fl_exact) simp_all
  finally show ?thesis by (simp add: fl_nonneg)
qed

lemma fsub_le:
  assumes "0 \<le> y" and "\<bar>n\<bar> < 2 ^ 53"
  shows "fsub (of_int n) y \<le> of_int n"
  unfolding fsub_def using fl_int_upper [of "of_int n - y" n] assms by simp

lemma retry_after_bounds:
  assumes "started_at w \<le> now" and "1 \<le> window_seconds L" and "window_seconds L < 2 ^ 40"
  shows "1 \<le> retry_after L now w \<and> retry_after L now w \<le> window_seconds L"
proof -
  let ?W = "window_seconds L"
  have "0 \<le> fsub now (started_at w)" unfolding fsub_def by (rule fl_nonneg) (use assms(1) in simp)
  moreover have "\<bar>?W\<bar> < 2 ^ 53" using assms(2,3) by simp
  ultimately have le: "fsub (of_int ?W) (fsub now (started_at w)) \<le> of_int ?W" by (rule fsub_le)
  let ?c = "of_int (1024 * ?W + 1023) * two_pow (- 10)"
  have "fadd (fsub (of_int ?W) (fsub now (started_at w))) (fl (999 / 1000)) \<le> fl ?c"
    unfolding fadd_def by (rule fl_mono) (use le fl_literal in \<open>simp add: two_pow_def field_simps\<close>)
  also have "\<dots> = ?c" by (rule fl_exact) (use assms(2,3) in simp_all)
  also have "\<dots> < of_int (?W + 1)" by (simp add: two_pow_def field_simps)
  finally have "\<lfloor>fadd (fsub (of_int ?W) (fsub now (started_at w))) (fl (999 / 1000))\<rfloor> < ?W + 1"
    by (simp only: floor_less_iff)
  then show ?thesis using assms(2) by (simp add: retry_after_def)
qed

section \<open>Properties\<close>

text \<open>C27: whatever calls it serves, in whatever order and with whatever clock readings, a limiter keeps at
  most its maximum number of windows, one per key, each with a positive count.\<close>

theorem limiter_stays_bounded:
  assumes "new_limiter ws mk = Inr L"
  shows "int (length (windows (snd (serve cs L)))) \<le> mk \<and> distinct (map fst (windows (snd (serve cs L))))
     \<and> (\<forall>w \<in> snd ` set (windows (snd (serve cs L))). 1 \<le> count_of w)"
proof -
  have "limiter_ok L" and "max_keys L = mk"
    using assms by (auto simp: new_limiter_def limiter_ok_def split: if_splits)
  moreover have "max_keys (snd (serve cs L)) = max_keys L" for cs L
  proof (induction cs arbitrary: L)
    case (Cons c cs)
    then show ?case
      by (cases c) (auto simp: split_beta split: sum.splits dest: consume_bounds)
  qed simp
  ultimately show ?thesis using serve_ok [of L cs] by (simp add: limiter_ok_def)
qed

theorem limiter_stays_bounded_witness:
  "int (length (windows (snd (serve [(''a'', 1, 0), (''b'', 1, 1), (''c'', 1, 2)] \<lparr>window_seconds = 60, max_keys = 2, windows = []\<rparr>)))) \<le> 2"
proof -
  have "new_limiter 60 2 = Inr \<lparr>window_seconds = 60, max_keys = 2, windows = []\<rparr>" by (simp add: new_limiter_def)
  from limiter_stays_bounded [OF this] show ?thesis by blast
qed



text \<open>A refused call finds a live window of its key that has used up the limit, changes nothing, and
  is told to wait at least one second and at most one window.\<close>

theorem refusal_is_exact:
  assumes "limiter_ok L" and "window_seconds L < 2 ^ 40" and "\<forall>w \<in> snd ` set (windows L). started_at w \<le> now"
    and "consume key limit now L = Inr ((False, wait), L')"
  shows "L' = L \<and> 1 \<le> wait \<and> wait \<le> window_seconds L
     \<and> (\<exists>w. map_of (windows L) key = Some w \<and> \<not> expired L now w \<and> limit \<le> count_of w)"
proof -
  obtain w where m: "map_of (windows L) key = Some w"
    using assms(4) by (cases "map_of (windows L) key") (simp_all add: consume_def split: if_splits)
  then have e: "\<not> expired L now w" using assms(4) by (cases "expired L now w") (simp_all add: consume_def split: if_splits)
  have "consume key limit now L = (if limit < 1 then Inl ''rate limit must be positive'' else if limit \<le> count_of w
      then Inr ((False, retry_after L now w), L)
      else Inr ((True, 0), L\<lparr>windows := dict_set key (w\<lparr>count_of := count_of w + 1\<rparr>) (windows L)\<rparr>))"
    using e m by (simp add: consume_def)
  then have "limit \<le> count_of w \<and> retry_after L now w = wait \<and> L = L'"
    using assms(4) by (cases "limit < 1"; cases "limit \<le> count_of w"; metis Inl_Inr_False Inr_inject Pair_inject)
  then have w: "map_of (windows L) key = Some w" "\<not> expired L now w" "limit \<le> count_of w"
      "wait = retry_after L now w" "L' = L"
    using m e by blast+
  have "(key, w) \<in> set (windows L)" using map_of_SomeD [OF w(1)] .
  then have "started_at w \<le> now" using assms(3) by force
  then show ?thesis using retry_after_bounds [of w now L] w assms(1,2) by (simp add: limiter_ok_def)
qed

theorem refusal_is_exact_witness:
  "1 \<le> retry_after \<lparr>window_seconds = 60, max_keys = 2, windows = [(''a'', \<lparr>started_at = 0, count_of = 1\<rparr>)]\<rparr> 0
     \<lparr>started_at = 0, count_of = 1\<rparr>"
proof -
  let ?L = "\<lparr>window_seconds = 60, max_keys = 2, windows = [(''a'', \<lparr>started_at = 0, count_of = 1\<rparr>)]\<rparr>"
  have "consume ''a'' 1 0 ?L = Inr ((False, retry_after ?L 0 \<lparr>started_at = 0, count_of = 1\<rparr>), ?L)"
    by (simp add: consume_def expired_def fsub_def)
  from refusal_is_exact [OF _ _ _ this] show ?thesis by (simp add: limiter_ok_def)
qed

end
