(* ===== verification/WriteOnce.thy ===== *)
theory WriteOnce
  imports Main
begin

text \<open>
  The contract of a store whose entries, once there, stay: every step keeps an invariant and extends the
  partial map that the store represents.  The stage store and the idempotency store both provide it.
\<close>

lemma map_leI: "(\<And>k v. m k = Some v \<Longrightarrow> n k = Some v) \<Longrightarrow> m \<subseteq>\<^sub>m n"
  by (auto simp: map_le_def dom_def)

locale write_once =
  fixes inv :: "'s \<Rightarrow> bool" and step :: "'s \<Rightarrow> 's \<Rightarrow> bool" and entry :: "'s \<Rightarrow> 'k \<Rightarrow> 'v option"
  assumes step_inv: "inv s \<Longrightarrow> step s s' \<Longrightarrow> inv s'"
    and step_entry: "inv s \<Longrightarrow> step s s' \<Longrightarrow> entry s \<subseteq>\<^sub>m entry s'"
begin

lemma run_inv:
  assumes "step\<^sup>*\<^sup>* s s'" and "inv s"
  shows "inv s'"
  using assms by (induction rule: rtranclp_induct) (auto intro: step_inv)

lemma run_extends:
  assumes "step\<^sup>*\<^sup>* s s'" and "inv s"
  shows "entry s \<subseteq>\<^sub>m entry s'"
  using assms
proof (induction rule: rtranclp_induct)
  case (step y z)
  then have "entry s \<subseteq>\<^sub>m entry y" "inv y" using run_inv by blast+
  then show ?case using step_entry [OF _ step.hyps(2)] map_le_trans by blast
qed simp

lemma run_entry: "step\<^sup>*\<^sup>* s s' \<Longrightarrow> inv s \<Longrightarrow> entry s k = Some v \<Longrightarrow> entry s' k = Some v"
  using run_extends by (metis domI map_le_def)

end

end
