(* ===== verification/Idempotency.thy ===== *)
theory Idempotency
  imports JobStore SafeText WriteOnce
begin

text \<open>
  The idempotency keys of \<open>web/repository.py\<close>.  A request reserves its key, runs, and stores a replay
  descriptor or releases the key.  A descriptor never holds a capability, such as a signed URL.
\<close>

record IdempotencyRow =
  ident :: string
  tenant_id :: string
  key_of :: string
  fingerprint :: string
  response :: "json option"

type_synonym idem_store = "IdempotencyRow list"

section \<open>Capabilities in a descriptor\<close>

definition capability_markers :: "string list" where
  "capability_markers = [''/api/v1/objects/'', ''/api/v1/object-uploads/'', ''x-amz-algorithm='', ''x-amz-signature='',
     ''x-amz-credential='', ''x-amz-date='', ''x-amz-expires='', ''x-amz-signedheaders='', ''x-amz-security-token='']"

text \<open>\<open>https?://[^\s"/:]+:[^\s"@]+@\<close>, ignoring case.\<close>

definition user_char :: "char \<Rightarrow> bool" where
  "user_char c \<longleftrightarrow> \<not> py_space c \<and> c \<notin> {CHR 0x22, CHR ''/'', CHR '':''}"

definition password_char :: "char \<Rightarrow> bool" where
  "password_char c \<longleftrightarrow> \<not> py_space c \<and> c \<notin> {CHR 0x22, CHR ''@''}"

definition credential_url :: "string \<Rightarrow> rx_item list" where
  "credential_url scheme = ignoring_case scheme @ exactly ''://'' @ [One user_char, Many user_char]
     @ exactly '':'' @ [One password_char, Many password_char] @ exactly ''@''"

definition capability_text :: "string \<Rightarrow> bool" where
  "capability_text s \<longleftrightarrow> list_ex (\<lambda>w. contains w (lower s)) capability_markers
     \<or> rx_search (credential_url ''http'') s \<or> rx_search (credential_url ''https'') s"

definition url_key :: "string \<Rightarrow> bool" where
  "url_key k \<longleftrightarrow> startswith (rev (lower k)) (rev ''_url'')"

fun contains_transient_capability :: "json \<Rightarrow> bool" where
  "contains_transient_capability (JObj kvs) \<longleftrightarrow> list_ex (\<lambda>(k, b). url_key k \<or> b)
     (map (\<lambda>(k, v). (k, contains_transient_capability v)) kvs)"
| "contains_transient_capability (JList xs) \<longleftrightarrow> list_ex id (map contains_transient_capability xs)"
| "contains_transient_capability (JStr s) = capability_text s"
| "contains_transient_capability _ = False"

text \<open>\<open>==\<close> on the values of a JSON column: objects are equal whatever the order of their keys, and an
  integer, a boolean and a float are equal when their values are.\<close>

fun py_norm :: "json \<Rightarrow> json" where
  "py_norm (JBool b) = JFloat (if b then 1 else 0)"
| "py_norm (JInt i) = JFloat (of_int i)"
| "py_norm (JList xs) = JList (map py_norm xs)"
| "py_norm (JObj kvs) = JObj (sort_key fst (map (\<lambda>(k, v). (k, py_norm v)) kvs))"
| "py_norm v = v"

definition py_eq :: "json \<Rightarrow> json \<Rightarrow> bool" where
  "py_eq v w \<longleftrightarrow> py_norm v = py_norm w"

section \<open>The operations\<close>

definition idem_key :: "IdempotencyRow \<Rightarrow> string \<times> string" where
  "idem_key r = (IdempotencyRow.tenant_id r, IdempotencyRow.key_of r)"

definition idem_integrity :: "idem_store \<Rightarrow> bool" where
  "idem_integrity s \<longleftrightarrow> distinct (map IdempotencyRow.ident s) \<and> distinct (map idem_key s)"

definition idem_row :: "string \<Rightarrow> string \<Rightarrow> idem_store \<Rightarrow> IdempotencyRow option" where
  "idem_row tid k s = get_row idem_key s (tid, k)"

text \<open>The inner function \<open>inspect\<close>.\<close>

definition idem_inspect :: "string \<Rightarrow> string \<Rightarrow> string \<Rightarrow> idem_store \<Rightarrow> repo_error + json" where
  "idem_inspect tid k fp s =
     (case idem_row tid k s of None \<Rightarrow> Inl (Conflict ''IDEMPOTENCY_RESERVATION_LOST'')
      | Some r \<Rightarrow> guarded (conflict_if (IdempotencyRow.fingerprint r \<noteq> fp) ''IDEMPOTENCY_KEY_REUSED'')
          (case IdempotencyRow.response r of None \<Rightarrow> Inl (Conflict ''IDEMPOTENCY_REQUEST_IN_PROGRESS'')
           | Some j \<Rightarrow> Inr j))"

definition reservation :: "string \<Rightarrow> string \<Rightarrow> string \<Rightarrow> string \<Rightarrow> IdempotencyRow" where
  "reservation rid tid k fp = \<lparr>IdempotencyRow.ident = rid, tenant_id = tid, key_of = k, fingerprint = fp, response = None\<rparr>"

definition reserve_idempotency ::
  "string \<Rightarrow> string \<Rightarrow> string \<Rightarrow> idem_store \<Rightarrow> repo_error + json option \<times> idem_store" where
  "reserve_idempotency tid k fp s =
     (case idem_row tid k s of
        Some _ \<Rightarrow> and_then (idem_inspect tid k fp s) (\<lambda>j. Inr (Some j, s))
      | None \<Rightarrow> (case stable_id ''idem'' [JStr tid, JStr k] of Inl msg \<Rightarrow> Inl (ValueError msg)
          | Inr rid \<Rightarrow>
              if idem_integrity (s @ [reservation rid tid k fp]) then Inr (None, s @ [reservation rid tid k fp])
              else and_then (idem_inspect tid k fp s) (\<lambda>j. Inr (Some j, s))))"

definition complete_idempotency ::
  "string \<Rightarrow> string \<Rightarrow> string \<Rightarrow> json \<Rightarrow> idem_store \<Rightarrow> repo_error + unit \<times> idem_store" where
  "complete_idempotency tid k fp resp s =
     guarded (raise_if (contains_transient_capability resp)
         (ValueError ''IDEMPOTENCY_RESPONSE_CONTAINS_TRANSIENT_CAPABILITY''))
       (case idem_row tid k s of None \<Rightarrow> Inl (Conflict ''IDEMPOTENCY_RESERVATION_LOST'')
        | Some r \<Rightarrow> guarded (first_error [
              conflict_if (IdempotencyRow.fingerprint r \<noteq> fp) ''IDEMPOTENCY_RESERVATION_LOST'',
              conflict_if (case IdempotencyRow.response r of None \<Rightarrow> False | Some j \<Rightarrow> \<not> py_eq j resp)
                ''IDEMPOTENCY_RESPONSE_CONFLICT''])
            (Inr ((), set_row idem_key (r\<lparr>response := Some resp\<rparr>) s)))"

definition release_idempotency :: "string \<Rightarrow> string \<Rightarrow> string \<Rightarrow> idem_store \<Rightarrow> idem_store" where
  "release_idempotency tid k fp s = filter (\<lambda>r. \<not> (idem_key r = (tid, k) \<and> IdempotencyRow.fingerprint r = fp
     \<and> IdempotencyRow.response r = None)) s"

inductive idem_step :: "idem_store \<Rightarrow> idem_store \<Rightarrow> bool" where
  reserve: "reserve_idempotency tid k fp s = Inr (r, s') \<Longrightarrow> idem_step s s'"
| complete: "complete_idempotency tid k fp resp s = Inr (u, s') \<Longrightarrow> idem_step s s'"
| release: "idem_step s (release_idempotency tid k fp s)"

inductive_cases idem_stepE: "idem_step s s'"

section \<open>The table\<close>

interpretation idem_table: row_table idem_key "\<lambda>s. s" "get_row idem_key" "\<lambda>r s. set_row idem_key r s" "\<lambda>r s. s @ [r]"
  by (rule row_table_of) simp_all

definition idem_ok :: "idem_store \<Rightarrow> bool" where
  "idem_ok s \<longleftrightarrow> idem_integrity s
     \<and> list_all (\<lambda>r. case IdempotencyRow.response r of None \<Rightarrow> True | Some j \<Rightarrow> \<not> contains_transient_capability j) s"

definition replay :: "idem_store \<Rightarrow> string \<times> string \<Rightarrow> (string \<times> json) option" where
  "replay s k = (case get_row idem_key s k of None \<Rightarrow> None
     | Some r \<Rightarrow> map_option (\<lambda>j. (IdempotencyRow.fingerprint r, py_norm j)) (IdempotencyRow.response r))"

lemma reserve_cases:
  assumes "reserve_idempotency tid k fp s = Inr (r, s')"
  obtains j where "r = Some j" "s' = s" "idem_inspect tid k fp s = Inr j"
  | rid where "r = None" "s' = s @ [reservation rid tid k fp]" "get_row idem_key s (tid, k) = None" "idem_integrity s'"
  using assms
  by (auto simp: reserve_idempotency_def idem_row_def split: option.splits sum.splits if_splits)

lemma complete_cases:
  assumes "complete_idempotency tid k fp resp s = Inr (u, s')"
  obtains r where "get_row idem_key s (tid, k) = Some r" "IdempotencyRow.fingerprint r = fp"
    "\<not> contains_transient_capability resp" "s' = set_row idem_key (r\<lparr>response := Some resp\<rparr>) s"
    "\<And>j. IdempotencyRow.response r = Some j \<Longrightarrow> py_norm j = py_norm resp"
proof -
  obtain r where r: "get_row idem_key s (tid, k) = Some r"
    using assms by (cases "idem_row tid k s") (auto simp: complete_idempotency_def idem_row_def)
  note c = assms [unfolded complete_idempotency_def idem_row_def r option.case guarded_Inr]
  have fp: "IdempotencyRow.fingerprint r = fp" using c by (auto split: option.splits)
  have eq: "py_norm j = py_norm resp" if "IdempotencyRow.response r = Some j" for j
    using c that by (auto simp: py_eq_def fp split: option.splits)
  show thesis by (rule that [OF r fp _ _ eq]) (use c in auto)
qed

lemma idem_key_update [simp]: "idem_key (r\<lparr>response := x\<rparr>) = idem_key r"
  by (simp add: idem_key_def)

lemma get_row_append:
  "get_row idem_key s k \<noteq> None \<Longrightarrow> get_row idem_key (s @ [r]) k = get_row idem_key s k"
  using get_row_prefix [of idem_key s k] by auto

lemma release_keeps:
  assumes "idem_integrity s" and "get_row idem_key s k = Some r"
    and "IdempotencyRow.response r \<noteq> None \<or> k \<noteq> (tid, key)"
  shows "get_row idem_key (release_idempotency tid key fp s) k = Some r"
proof -
  have r: "r \<in> set s" "idem_key r = k" using idem_table.lookup_hit [OF assms(2)] by simp_all
  then have "r \<in> set (release_idempotency tid key fp s)"
    using assms(3) by (auto simp: release_idempotency_def)
  moreover have "distinct (map idem_key (release_idempotency tid key fp s))"
    using assms(1) by (simp add: idem_integrity_def release_idempotency_def distinct_map_filter)
  ultimately show ?thesis using idem_table.lookup_unique [of "release_idempotency tid key fp s" r] r by simp
qed

lemma idents_set_row:
  assumes "distinct (map idem_key s)" and "r \<in> set s"
  shows "map IdempotencyRow.ident (set_row idem_key (r\<lparr>response := x\<rparr>) s) = map IdempotencyRow.ident s"
proof -
  have "y = r" if "y \<in> set s" "idem_key y = idem_key r" for y
    using assms that by (auto simp: distinct_map inj_on_def)
  then show ?thesis by (auto simp: set_row_def)
qed

lemma step_ok:
  assumes ok: "idem_ok s" and st: "idem_step s s'"
  shows "idem_ok s'"
  using st
proof cases
  case (reserve tid k fp r)
  then show ?thesis using ok by (elim reserve_cases) (auto simp: idem_ok_def reservation_def)
next
  case (complete tid k fp resp u)
  then obtain r where r: "get_row idem_key s (tid, k) = Some r" "\<not> contains_transient_capability resp"
      "s' = set_row idem_key (r\<lparr>response := Some resp\<rparr>) s" by (elim complete_cases)
  have mem: "r \<in> set s" using idem_table.lookup_hit [OF r(1)] by simp
  have "map IdempotencyRow.ident s' = map IdempotencyRow.ident s"
    using ok mem r(3) idents_set_row by (simp add: idem_ok_def idem_integrity_def)
  moreover have "map idem_key s' = map idem_key s" by (simp add: r(3))
  ultimately have "idem_integrity s'" using ok by (simp add: idem_ok_def idem_integrity_def)
  moreover have "\<forall>x \<in> set s'. case IdempotencyRow.response x of None \<Rightarrow> True | Some j \<Rightarrow> \<not> contains_transient_capability j"
    unfolding r(3) by (rule idem_table.all_replace) (use ok r(2) in \<open>simp_all add: idem_ok_def list_all_iff\<close>)
  ultimately show ?thesis by (simp add: idem_ok_def list_all_iff)
next
  case (release tid k fp)
  then show ?thesis
    using ok by (auto simp: idem_ok_def idem_integrity_def release_idempotency_def distinct_map_filter list_all_iff)
qed

lemma step_replay:
  assumes ok: "idem_ok s" and st: "idem_step s s'"
  shows "replay s \<subseteq>\<^sub>m replay s'"
proof (rule map_leI)
  fix k v assume v: "replay s k = Some v"
  then obtain r j where r: "get_row idem_key s k = Some r" "IdempotencyRow.response r = Some j"
      "v = (IdempotencyRow.fingerprint r, py_norm j)"
    by (auto simp: replay_def split: option.splits)
  show "replay s' k = Some v" using st
  proof cases
    case (reserve tid key fp x)
    then show ?thesis
    proof (elim reserve_cases)
      fix rid assume "s' = s @ [reservation rid tid key fp]"
      then show ?thesis using get_row_append [of s k] r by (simp add: replay_def)
    qed (use v in simp)
  next
    case (complete tid key fp resp u)
    then obtain x where x: "get_row idem_key s (tid, key) = Some x" "IdempotencyRow.fingerprint x = fp"
        "s' = set_row idem_key (x\<lparr>response := Some resp\<rparr>) s"
        "\<And>j. IdempotencyRow.response x = Some j \<Longrightarrow> py_norm j = py_norm resp" by (elim complete_cases) blast
    have d: "distinct (map idem_key s)" using ok by (simp add: idem_ok_def idem_integrity_def)
    have kx: "idem_key x = (tid, key)" using idem_table.lookup_hit [OF x(1)] by simp
    show ?thesis
    proof (cases "k = (tid, key)")
      case True
      then have "x = r" using x(1) r(1) by simp
      moreover have "get_row idem_key s' k = Some (x\<lparr>response := Some resp\<rparr>)"
        using idem_table.lookup_replace [of s "x\<lparr>response := Some resp\<rparr>"] d x(1,3) kx True by simp
      ultimately show ?thesis using r x(4) by (simp add: replay_def)
    next
      case False
      then have "get_row idem_key s' k = Some r"
        using idem_table.lookup_replace_other [of s k "x\<lparr>response := Some resp\<rparr>"] d kx r(1) x(3) by simp
      then show ?thesis using r by (simp add: replay_def)
    qed
  next
    case (release tid key fp)
    then have "get_row idem_key s' k = Some r"
      using release_keeps [OF _ r(1)] ok r(2) by (simp add: idem_ok_def)
    then show ?thesis using r by (simp add: replay_def)
  qed
qed

interpretation descriptors: write_once idem_ok idem_step replay
  by unfold_locales (rule step_ok, assumption+, rule step_replay)

section \<open>Exclusive reservations\<close>

text \<open>The steps that do not release a given key.\<close>

inductive held_step :: "string \<times> string \<Rightarrow> idem_store \<Rightarrow> idem_store \<Rightarrow> bool" for key where
  reserve: "reserve_idempotency tid k fp s = Inr (r, s') \<Longrightarrow> held_step key s s'"
| complete: "complete_idempotency tid k fp resp s = Inr (u, s') \<Longrightarrow> held_step key s s'"
| release: "(tid, k) \<noteq> key \<Longrightarrow> held_step key s (release_idempotency tid k fp s)"

lemma held_step_keeps:
  assumes "held_step key s s'" and "get_row idem_key s key \<noteq> None" and i: "idem_integrity s"
  shows "get_row idem_key s' key \<noteq> None"
  using assms(1)
proof cases
  case (reserve tid k fp r)
  then show ?thesis using assms(2) get_row_append [OF assms(2)] by (elim reserve_cases) simp_all
next
  case (complete tid k fp resp u)
  then obtain x where "s' = set_row idem_key (x\<lparr>response := Some resp\<rparr>) s" by (elim complete_cases)
  then have "idem_key ` set s' = idem_key ` set s" using idem_table.key_set_replace by simp
  then show ?thesis using assms(2) by (simp add: idem_table.lookup_miss)
next
  case (release tid k fp)
  then show ?thesis using assms(2) release_keeps [OF i] by fastforce
qed

lemma held_step_idem: "held_step key s s' \<Longrightarrow> idem_step s s'"
  by (erule held_step.cases) (blast intro: idem_step.intros)+

lemma held_run_keeps:
  assumes "(held_step key)\<^sup>*\<^sup>* s s'" and "get_row idem_key s key \<noteq> None" and "idem_ok s"
  shows "get_row idem_key s' key \<noteq> None \<and> idem_ok s'"
  using assms
proof (induction rule: rtranclp_induct)
  case (step y z)
  then have y: "get_row idem_key y key \<noteq> None" "idem_ok y" by simp_all
  then have "idem_integrity y" by (simp add: idem_ok_def)
  then show ?case
    using held_step_keeps [OF step.hyps(2) y(1)] step_ok [OF y(2) held_step_idem [OF step.hyps(2)]] by blast
qed blast

section \<open>What a capability-free descriptor is\<close>

fun json_keys :: "json \<Rightarrow> string list" where
  "json_keys (JObj kvs) = map fst kvs @ concat (map snd (map (\<lambda>(k, v). (k, json_keys v)) kvs))"
| "json_keys (JList xs) = concat (map json_keys xs)"
| "json_keys _ = []"

fun json_strings :: "json \<Rightarrow> string list" where
  "json_strings (JObj kvs) = concat (map snd (map (\<lambda>(k, v). (k, json_strings v)) kvs))"
| "json_strings (JList xs) = concat (map json_strings xs)"
| "json_strings (JStr s) = [s]"
| "json_strings _ = []"

lemma capability_iff:
  "contains_transient_capability v \<longleftrightarrow>
     (\<exists>k \<in> set (json_keys v). url_key k) \<or> (\<exists>s \<in> set (json_strings v). capability_text s)"
proof (induction v rule: contains_transient_capability.induct)
  case (1 kvs)
  have ih: "contains_transient_capability (snd p) \<longleftrightarrow> (\<exists>k \<in> set (json_keys (snd p)). url_key k)
      \<or> (\<exists>s \<in> set (json_strings (snd p)). capability_text s)" if "p \<in> set kvs" for p
    using 1 [OF that] by (cases p) simp
  have "contains_transient_capability (JObj kvs)
      \<longleftrightarrow> (\<exists>p \<in> set kvs. url_key (fst p) \<or> contains_transient_capability (snd p))"
    by (simp add: list_ex_iff case_prod_unfold)
  moreover have "set (json_keys (JObj kvs)) = fst ` set kvs \<union> (\<Union>p \<in> set kvs. set (json_keys (snd p)))"
    by (simp add: case_prod_unfold)
  moreover have "set (json_strings (JObj kvs)) = (\<Union>p \<in> set kvs. set (json_strings (snd p)))"
    by (simp add: case_prod_unfold)
  moreover have "(\<exists>p \<in> set kvs. url_key (fst p) \<or> contains_transient_capability (snd p))
      \<longleftrightarrow> (\<exists>p \<in> set kvs. url_key (fst p) \<or> (\<exists>k \<in> set (json_keys (snd p)). url_key k)
             \<or> (\<exists>s \<in> set (json_strings (snd p)). capability_text s))"
    using ih by (intro bex_cong refl) simp
  ultimately show ?case
    by (simp only: bex_Un bex_UN bex_simps image_iff bex_disj_distrib) auto
next
  case (2 xs)
  have "contains_transient_capability (JList xs) \<longleftrightarrow> (\<exists>x \<in> set xs. contains_transient_capability x)"
    by (simp add: list_ex_iff)
  also have "\<dots> \<longleftrightarrow> (\<exists>x \<in> set xs. (\<exists>k \<in> set (json_keys x). url_key k) \<or> (\<exists>s \<in> set (json_strings x). capability_text s))"
    using 2 by (intro bex_cong refl) simp
  finally show ?case by auto
qed simp_all

lemma startswith_rev: "startswith (rev s) (rev p) \<longleftrightarrow> (\<exists>q. s = q @ p)"
proof
  assume "startswith (rev s) (rev p)"
  then obtain t where "rev s = rev p @ t" by (auto simp: startswith_iff)
  then have "s = rev t @ p" by (metis rev_append rev_rev_ident)
  then show "\<exists>q. s = q @ p" by blast
qed (auto simp: startswith_iff)

lemma url_key_suffix: "url_key k \<longleftrightarrow> (\<exists>p. lower k = p @ ''_url'')"
  unfolding url_key_def by (rule startswith_rev)

lemma rx_match_Many:
  "list_all p w \<Longrightarrow> rx_match its (last_opt prev w) b \<Longrightarrow> rx_match (Many p # its) prev (w @ b)"
proof (induction w arbitrary: prev)
  case (Cons c w)
  have "last_opt (Some c) w = last_opt prev (c # w)" by (simp add: last_opt_def)
  then have "rx_match its (last_opt (Some c) w) b" using Cons.prems(2) by (simp only:)
  then have "rx_match (Many p # its) (Some c) (w @ b)" using Cons.prems(1) by (intro Cons.IH) simp_all
  then show ?case using Cons.prems(1) by simp
qed simp

lemma rx_match_exactly: "rx_match its (last_opt prev w) b \<Longrightarrow> rx_match (exactly w @ its) prev (w @ b)"
  unfolding exactly_def
  using rx_match_One_list [of w "map (\<lambda>c x. x = c) w" its prev b]
  by (simp add: comp_def list_all2_conv_all_nth)

lemma rx_match_plus:
  assumes "w \<noteq> []" and "list_all p w" and "rx_match its (last_opt prev w) b"
  shows "rx_match (One p # Many p # its) prev (w @ b)"
proof -
  obtain c cs where w: "w = c # cs" using assms(1) by (cases w) auto
  have "last_opt (Some c) cs = last_opt prev w" by (simp add: w last_opt_def)
  then have "rx_match its (last_opt (Some c) cs) b" using assms(3) by (simp only:)
  then have "rx_match (Many p # its) (Some c) (cs @ b)" using assms(2) w by (intro rx_match_Many) simp_all
  then show ?thesis using assms(2) w by simp
qed

lemma credential_url_match:
  assumes "map lower_char w = scheme" and "u \<noteq> []" and "list_all user_char u" and "q \<noteq> []" and "list_all password_char q"
  shows "rx_search (credential_url scheme) (a @ w @ ''://'' @ u @ '':'' @ q @ ''@'' @ b)"
proof -
  have m: "rx_match (exactly ''@'' @ []) prev (''@'' @ b)" for prev by (rule rx_match_exactly) simp
  have m: "rx_match ([One password_char, Many password_char] @ exactly ''@'') prev (q @ ''@'' @ b)" for prev
    using rx_match_plus [OF assms(4,5), of "exactly ''@''" _ "''@'' @ b"] m by simp
  have m: "rx_match (exactly '':'' @ [One password_char, Many password_char] @ exactly ''@'') prev ('':'' @ q @ ''@'' @ b)" for prev
    by (rule rx_match_exactly) (rule m)
  have m: "rx_match ([One user_char, Many user_char] @ exactly '':'' @ [One password_char, Many password_char] @ exactly ''@'')
      prev (u @ '':'' @ q @ ''@'' @ b)" for prev
    using rx_match_plus [OF assms(2,3) m] by simp
  have m: "rx_match (exactly ''://'' @ [One user_char, Many user_char] @ exactly '':'' @ [One password_char, Many password_char]
      @ exactly ''@'') prev (''://'' @ u @ '':'' @ q @ ''@'' @ b)" for prev
    by (rule rx_match_exactly) (rule m)
  have "list_all2 (\<lambda>p c. p c) (map (\<lambda>c x. lower_char x = c) scheme) w"
    using assms(1) by (auto simp: list_all2_conv_all_nth)
  then have "rx_match (map One (map (\<lambda>c x. lower_char x = c) scheme) @ exactly ''://'' @ [One user_char, Many user_char]
      @ exactly '':'' @ [One password_char, Many password_char] @ exactly ''@'') (last_opt None a)
      (w @ ''://'' @ u @ '':'' @ q @ ''@'' @ b)"
    using assms(1) m by (intro rx_match_One_list) auto
  then have "rx_match (credential_url scheme) (last_opt None a) (w @ ''://'' @ u @ '':'' @ q @ ''@'' @ b)"
    by (simp add: credential_url_def ignoring_case_def comp_def)
  from rx_search_from_intro [OF this] show ?thesis by (simp add: rx_search_def)
qed

section \<open>Properties\<close>

text \<open>C32: a replay is stable.  Once a request has stored its descriptor, whatever keys are then reserved,
  completed or released, in whatever order, the same key with the same fingerprint gets that descriptor
  back (up to Python's equality), and with another fingerprint it is refused.\<close>

theorem completed_request_is_replayed:
  assumes "idem_step\<^sup>*\<^sup>* [] s" and "complete_idempotency tid k fp resp s = Inr (u, s1)" and "idem_step\<^sup>*\<^sup>* s1 s'"
  shows "(\<exists>j. reserve_idempotency tid k fp s' = Inr (Some j, s') \<and> py_eq j resp)
     \<and> (fp2 = fp \<or> reserve_idempotency tid k fp2 s' = Inl (Conflict ''IDEMPOTENCY_KEY_REUSED''))"
proof -
  have "idem_ok []" by (simp add: idem_ok_def idem_integrity_def)
  then have ok: "idem_ok s" using descriptors.run_inv [OF assms(1)] by blast
  have ok1: "idem_ok s1" using step_ok [OF ok idem_step.complete [OF assms(2)]] .
  obtain r where r: "get_row idem_key s (tid, k) = Some r" "IdempotencyRow.fingerprint r = fp"
      "s1 = set_row idem_key (r\<lparr>response := Some resp\<rparr>) s" using assms(2) by (rule complete_cases)
  have "idem_key r = (tid, k)" using idem_table.lookup_hit [OF r(1)] by simp
  then have "get_row idem_key s1 (tid, k) = Some (r\<lparr>response := Some resp\<rparr>)"
    using idem_table.lookup_replace [of s "r\<lparr>response := Some resp\<rparr>"] ok r(1,3) by (simp add: idem_ok_def idem_integrity_def)
  then have "replay s1 (tid, k) = Some (fp, py_norm resp)" by (simp add: replay_def r(2))
  from descriptors.run_entry [OF assms(3) ok1 this] obtain x j where
    x: "get_row idem_key s' (tid, k) = Some x" "IdempotencyRow.response x = Some j"
      "IdempotencyRow.fingerprint x = fp" "py_norm j = py_norm resp"
    by (auto simp: replay_def split: option.splits)
  then have "reserve_idempotency tid k fp s' = Inr (Some j, s')"
    by (simp add: reserve_idempotency_def idem_row_def idem_inspect_def conflict_if_def raise_if_def)
  moreover have "reserve_idempotency tid k fp2 s' = Inl (Conflict ''IDEMPOTENCY_KEY_REUSED'')" if "fp2 \<noteq> fp"
    using x that by (simp add: reserve_idempotency_def idem_row_def idem_inspect_def conflict_if_def raise_if_def guarded_def)
  ultimately show ?thesis using x(4) by (auto simp: py_eq_def)
qed

lemma idem_prefix: "good_prefix ''idem''"
  by code_simp

lemma ex_reserved: "\<exists>rid. reserve_idempotency ''tenant_a'' ''key_a'' ''fp'' [] = Inr (None, [reservation rid ''tenant_a'' ''key_a'' ''fp''])"
proof -
  obtain rid where "stable_id ''idem'' [JStr ''tenant_a'', JStr ''key_a''] = Inr rid"
    using ids.mk_Inr [OF idem_prefix] by blast
  then show ?thesis by (auto simp: reserve_idempotency_def idem_row_def get_row_def idem_integrity_def)
qed

lemma ex_completed:
  "complete_idempotency ''tenant_a'' ''key_a'' ''fp'' (JObj [(''id'', JInt 1)]) [reservation rid ''tenant_a'' ''key_a'' ''fp'']
     = Inr ((), [(reservation rid ''tenant_a'' ''key_a'' ''fp'')\<lparr>response := Some (JObj [(''id'', JInt 1)])\<rparr>])"
proof -
  have "\<not> contains_transient_capability (JObj [(''id'', JInt 1)])" by code_simp
  then show ?thesis
    by (simp add: complete_idempotency_def idem_row_def get_row_def set_row_def reservation_def idem_key_def
        conflict_if_def raise_if_def)
qed

lemma ex_runs:
  obtains rid where "idem_step\<^sup>*\<^sup>* [] [reservation rid ''tenant_a'' ''key_a'' ''fp'']"
    and "idem_step\<^sup>*\<^sup>* [] [(reservation rid ''tenant_a'' ''key_a'' ''fp'')\<lparr>response := Some (JObj [(''id'', JInt 1)])\<rparr>]"
proof -
  obtain rid where r: "reserve_idempotency ''tenant_a'' ''key_a'' ''fp'' [] = Inr (None, [reservation rid ''tenant_a'' ''key_a'' ''fp''])"
    using ex_reserved by blast
  have one: "idem_step\<^sup>*\<^sup>* [] [reservation rid ''tenant_a'' ''key_a'' ''fp'']"
    by (rule r_into_rtranclp, rule idem_step.reserve, rule r)
  moreover have "idem_step [reservation rid ''tenant_a'' ''key_a'' ''fp'']
      [(reservation rid ''tenant_a'' ''key_a'' ''fp'')\<lparr>response := Some (JObj [(''id'', JInt 1)])\<rparr>]"
    by (rule idem_step.complete, rule ex_completed)
  ultimately have "idem_step\<^sup>*\<^sup>* [] [(reservation rid ''tenant_a'' ''key_a'' ''fp'')\<lparr>response := Some (JObj [(''id'', JInt 1)])\<rparr>]"
    by (rule rtranclp.rtrancl_into_rtrancl)
  with one show thesis by (rule that)
qed

theorem completed_request_is_replayed_witness:
  "\<exists>rid j. reserve_idempotency ''tenant_a'' ''key_a'' ''fp''
      [(reservation rid ''tenant_a'' ''key_a'' ''fp'')\<lparr>response := Some (JObj [(''id'', JInt 1)])\<rparr>]
    = Inr (Some j, [(reservation rid ''tenant_a'' ''key_a'' ''fp'')\<lparr>response := Some (JObj [(''id'', JInt 1)])\<rparr>])"
proof (rule ex_runs)
  fix rid assume "idem_step\<^sup>*\<^sup>* [] [reservation rid ''tenant_a'' ''key_a'' ''fp'']"
  from completed_request_is_replayed [OF this ex_completed rtranclp.rtrancl_refl, THEN conjunct1]
  show ?thesis by (elim exE conjE) (rule exI, rule exI)
qed

text \<open>A reservation is exclusive.  Between the moment a request owns a key and the release of that key,
  no other request ever comes to own it, whatever it asks for and whatever happens to other keys.\<close>

theorem reservation_is_exclusive:
  assumes "idem_step\<^sup>*\<^sup>* [] s" and "reserve_idempotency tid k fp s = Inr (None, s1)" and "(held_step (tid, k))\<^sup>*\<^sup>* s1 s'"
  shows "reserve_idempotency tid k fp2 s' \<noteq> Inr (None, s2)"
proof -
  have "idem_ok []" by (simp add: idem_ok_def idem_integrity_def)
  then have ok: "idem_ok s" using descriptors.run_inv [OF assms(1)] by blast
  have ok1: "idem_ok s1" using step_ok [OF ok idem_step.reserve [OF assms(2)]] .
  obtain rid where "s1 = s @ [reservation rid tid k fp]" using assms(2) by (rule reserve_cases) auto
  then have "(tid, k) \<in> idem_key ` set s1" by (simp add: reservation_def idem_key_def)
  then have "get_row idem_key s1 (tid, k) \<noteq> None" by (simp add: idem_table.lookup_miss)
  from held_run_keeps [OF assms(3) this ok1] have "get_row idem_key s' (tid, k) \<noteq> None" by blast
  then show ?thesis by (auto simp: reserve_idempotency_def idem_row_def)
qed

theorem reservation_is_exclusive_witness:
  "\<exists>rid. reserve_idempotency ''tenant_a'' ''key_a'' ''other'' [reservation rid ''tenant_a'' ''key_a'' ''fp''] \<noteq> Inr (None, [])"
proof -
  obtain rid where "reserve_idempotency ''tenant_a'' ''key_a'' ''fp'' [] = Inr (None, [reservation rid ''tenant_a'' ''key_a'' ''fp''])"
    using ex_reserved by blast
  from reservation_is_exclusive [OF rtranclp.rtrancl_refl this rtranclp.rtrancl_refl] show ?thesis by blast
qed

text \<open>C33: no stored descriptor holds a capability, at any depth: no key ends in \<open>_url\<close>, and no string contains
  an object path or a signature parameter in upper or lower case, or a URL with a user and a password.\<close>

theorem stored_descriptors_hold_no_capability:
  assumes "idem_step\<^sup>*\<^sup>* [] s" and "r \<in> set s" and "IdempotencyRow.response r = Some j"
  shows "(\<forall>key \<in> set (json_keys j). \<nexists>p. lower key = p @ ''_url'')
     \<and> (\<forall>t \<in> set (json_strings j). (\<forall>w \<in> set capability_markers. \<nexists>a b. lower t = a @ w @ b)
          \<and> (\<nexists>a w u q b. t = a @ w @ ''://'' @ u @ '':'' @ q @ ''@'' @ b \<and> map lower_char w \<in> {''http'', ''https''}
               \<and> u \<noteq> [] \<and> list_all user_char u \<and> q \<noteq> [] \<and> list_all password_char q))"
proof -
  have "idem_ok []" by (simp add: idem_ok_def idem_integrity_def)
  then have "idem_ok s" using descriptors.run_inv [OF assms(1)] by blast
  then have free: "\<not> contains_transient_capability j" using assms(2,3) by (auto simp: idem_ok_def list_all_iff)
  have strings: "\<not> capability_text t" if "t \<in> set (json_strings j)" for t using free capability_iff that by blast
  have marker: "capability_text t" if "w \<in> set capability_markers" "lower t = a @ w @ b" for t w a b
    using that by (auto simp: capability_text_def list_ex_iff contains_iff)
  have url: "capability_text (a @ w @ ''://'' @ u @ '':'' @ q @ ''@'' @ b)"
    if "map lower_char w \<in> {''http'', ''https''}" "u \<noteq> []" "list_all user_char u" "q \<noteq> []" "list_all password_char q" for a w u q b
  proof -
    note m = credential_url_match [OF refl that(2-5), of w a b]
    from that(1) have "map lower_char w = ''http'' \<or> map lower_char w = ''https''" by (simp only: insert_iff empty_iff simp_thms)
    then show ?thesis
    proof
      assume "map lower_char w = ''http''"
      from m [unfolded this] show ?thesis unfolding capability_text_def by (intro disjI1 disjI2)
    next
      assume "map lower_char w = ''https''"
      from m [unfolded this] show ?thesis unfolding capability_text_def by (intro disjI2)
    qed
  qed
  show ?thesis
  proof (intro conjI ballI)
    show "\<nexists>p. lower key = p @ ''_url''" if "key \<in> set (json_keys j)" for key
      using free capability_iff that unfolding url_key_suffix [symmetric] by blast
    show "\<nexists>a b. lower t = a @ w @ b" if "t \<in> set (json_strings j)" "w \<in> set capability_markers" for t w
      using strings [OF that(1)] marker [OF that(2)] by blast
    show "\<nexists>a w u q b. t = a @ w @ ''://'' @ u @ '':'' @ q @ ''@'' @ b \<and> map lower_char w \<in> {''http'', ''https''}
        \<and> u \<noteq> [] \<and> list_all user_char u \<and> q \<noteq> [] \<and> list_all password_char q" if "t \<in> set (json_strings j)" for t
      using strings [OF that] url by (elim contrapos_nn exE conjE) (simp only:)
  qed
qed

theorem stored_descriptors_hold_no_capability_witness: "\<nexists>p. lower ''id'' = p @ ''_url''"
proof (rule ex_runs)
  fix rid
  let ?r = "(reservation rid ''tenant_a'' ''key_a'' ''fp'')\<lparr>response := Some (JObj [(''id'', JInt 1)])\<rparr>"
  assume "idem_step\<^sup>*\<^sup>* [] [?r]"
  then have "\<forall>key \<in> set (json_keys (JObj [(''id'', JInt 1)])). \<nexists>p. lower key = p @ ''_url''"
    by (rule stored_descriptors_hold_no_capability [THEN conjunct1]) (rule list.set_intros(1), simp)
  moreover have "''id'' \<in> set (json_keys (JObj [(''id'', JInt 1)]))" by code_simp
  ultimately show ?thesis by (rule bspec)
qed

end
