(* ===== verification/Intake.thy ===== *)
theory Intake
  imports JobHistory Canonical WriteOnce
begin

text \<open>
  What teachers put into the store before a job runs: the configuration of an activity, the uploads, and
  the batches of submissions.  The operations of \<open>web/repository.py\<close> that accept input, and what the queue
  relies on: an input that was accepted stays, and a queued aggregate takes no more.
\<close>

section \<open>Artifacts\<close>

definition get_artifact :: "JobStore \<Rightarrow> string \<Rightarrow> ArtifactRow option" where
  "get_artifact s = get_row ArtifactRow.ident (artifacts s)"

definition put_artifact :: "ArtifactRow \<Rightarrow> JobStore \<Rightarrow> JobStore" where
  "put_artifact r s = s\<lparr>artifacts := set_row ArtifactRow.ident r (artifacts s)\<rparr>"

definition add_artifact :: "ArtifactRow \<Rightarrow> JobStore \<Rightarrow> JobStore" where
  "add_artifact r s = s\<lparr>artifacts := artifacts s @ [r]\<rparr>"

interpretation artifact_table: row_table ArtifactRow.ident artifacts get_artifact put_artifact add_artifact
  by (rule row_table_of) (simp_all add: get_artifact_def put_artifact_def add_artifact_def)

definition the_artifact :: "JobStore \<Rightarrow> string \<Rightarrow> string \<Rightarrow> ArtifactRow option" where
  "the_artifact s fid tid = of_tenant ArtifactRow.tenant_id tid (get_artifact s fid)"

definition belongs :: "string \<Rightarrow> string \<Rightarrow> string option \<Rightarrow> ArtifactRow \<Rightarrow> bool" where
  "belongs aid tid sid f \<longleftrightarrow> ArtifactRow.activity_id f = aid \<and> ArtifactRow.tenant_id f = tid
     \<and> ArtifactRow.submission_id f = sid"

definition artifacts_for :: "string \<Rightarrow> string \<Rightarrow> string option \<Rightarrow> bool \<Rightarrow> JobStore \<Rightarrow> ArtifactRow list" where
  "artifacts_for aid tid sid complete_only s =
     sort_key (\<lambda>f. (instant (ArtifactRow.created_at f), ArtifactRow.ident f))
       (filter (\<lambda>f. belongs aid tid sid f \<and> (complete_only \<longrightarrow> ArtifactRow.status f = ''COMPLETE'')) (artifacts s))"

definition activities_of :: "string \<Rightarrow> JobStore \<Rightarrow> ActivityRow list" where
  "activities_of tid s = sort_key (\<lambda>a. (- instant (ActivityRow.created_at a), ActivityRow.ident a))
     (filter (\<lambda>a. ActivityRow.tenant_id a = tid) (activities s))"

definition submissions_for_activity :: "string \<Rightarrow> string \<Rightarrow> JobStore \<Rightarrow> SubmissionRow list" where
  "submissions_for_activity aid tid s = sort_key (\<lambda>r. (instant (SubmissionRow.created_at r), SubmissionRow.ident r))
     (filter (\<lambda>r. SubmissionRow.activity_id r = aid \<and> SubmissionRow.tenant_id r = tid) (submissions s))"

definition submission_for_activity :: "string \<Rightarrow> string \<Rightarrow> JobStore \<Rightarrow> SubmissionRow option" where
  "submission_for_activity aid tid s = (case submissions_for_activity aid tid s of [] \<Rightarrow> None | r # _ \<Rightarrow> Some r)"

section \<open>The configuration of an activity\<close>

definition config_etag :: "ActivityRow \<Rightarrow> string" where
  "config_etag a = [CHR 0x22] @ canonical_hash (ActivityRow.config a) @ [CHR 0x22]"

definition update_activity_config ::
  "string \<Rightarrow> string \<Rightarrow> json \<Rightarrow> json \<Rightarrow> string \<Rightarrow> datetime \<Rightarrow> JobStore \<Rightarrow> repo_error + ActivityRow \<times> JobStore" where
  "update_activity_config aid tid cfg policy expected_etag now s =
     and_then (found (the_activity s aid tid) ''activity not found'') (\<lambda>a.
     guarded (first_error [
         conflict_if (ActivityRow.status a \<noteq> ''DRAFT'') ''ACTIVITY_CONFIG_LOCKED'',
         conflict_if (config_etag a \<noteq> expected_etag) ''ETAG_MISMATCH''])
       (let a' = a\<lparr>ActivityRow.config := cfg, ActivityRow.blueprint_policy := policy, ActivityRow.updated_at := now\<rparr>
        in commit (a', put_activity a' s)))"

section \<open>Uploads\<close>

definition submission_frozen :: "SubmissionProcessingState \<Rightarrow> SubmissionRow \<Rightarrow> bool" where
  "submission_frozen st sub \<longleftrightarrow> SubmissionProcessingState.status st \<noteq> SubmissionProcessingStatus.UPLOADED
     \<or> SubmissionRow.active_job_id sub \<noteq> None"

text \<open>\<open>select ... where id = ..., tenant_id = ..., activity_id = ...\<close>.\<close>

definition submission_in :: "JobStore \<Rightarrow> string \<Rightarrow> string \<Rightarrow> string \<Rightarrow> SubmissionRow option" where
  "submission_in s sid tid aid = (case the_submission s sid tid of None \<Rightarrow> None
     | Some sub \<Rightarrow> if SubmissionRow.activity_id sub = aid then Some sub else None)"

lemma submission_in_Some [simp]:
  "submission_in s sid tid aid = Some sub \<longleftrightarrow> the_submission s sid tid = Some sub \<and> SubmissionRow.activity_id sub = aid"
  by (auto simp: submission_in_def split: option.splits)

text \<open>The guard of both ways to add an upload: the aggregate it is for still takes inputs.\<close>

definition inputs_open :: "ArtifactRow \<Rightarrow> string list \<Rightarrow> JobStore \<Rightarrow> repo_error + unit" where
  "inputs_open r allowed s =
     and_then (found (the_activity s (ArtifactRow.activity_id r) (ArtifactRow.tenant_id r)) ''activity not found'') (\<lambda>a.
     case ArtifactRow.submission_id r of
       None \<Rightarrow> guarded (conflict_if (ActivityRow.status a \<notin> set allowed) ''ACTIVITY_INPUTS_FROZEN'') (Inr ())
     | Some sid \<Rightarrow>
         and_then (found (submission_in s sid (ArtifactRow.tenant_id r) (ArtifactRow.activity_id r))
            ''submission not found'') (\<lambda>sub.
         and_then (checked SubmissionProcessingState_validate (SubmissionRow.state sub)) (\<lambda>st.
         guarded (conflict_if (submission_frozen st sub) ''SUBMISSION_INPUTS_FROZEN'') (Inr ()))))"

definition add_artifact_if_inputs_open ::
  "ArtifactRow \<Rightarrow> string list \<Rightarrow> JobStore \<Rightarrow> repo_error + unit \<times> JobStore" where
  "add_artifact_if_inputs_open r allowed s =
     and_then (inputs_open r allowed s) (\<lambda>u. commit ((), add_artifact r s))"

definition reusable :: "ArtifactRow \<Rightarrow> datetime \<Rightarrow> bool" where
  "reusable f now \<longleftrightarrow> ArtifactRow.status f = ''REJECTED''
     \<or> (ArtifactRow.status f = ''PENDING'' \<and> instant (ArtifactRow.upload_expires_at f) \<le> instant now)"

definition recycled :: "ArtifactRow \<Rightarrow> ArtifactRow \<Rightarrow> ArtifactRow" where
  "recycled f r = f\<lparr>ArtifactRow.filename := ArtifactRow.filename r, ArtifactRow.object_key := ArtifactRow.object_key r,
     ArtifactRow.declared_media_type := ArtifactRow.declared_media_type r,
     ArtifactRow.expected_byte_size := ArtifactRow.expected_byte_size r, ArtifactRow.media_type := None,
     ArtifactRow.byte_size := None, ArtifactRow.sha256 := None, ArtifactRow.status := ''PENDING'',
     ArtifactRow.upload_expires_at := ArtifactRow.upload_expires_at r\<rparr>"

definition reserve_artifact_upload ::
  "ArtifactRow \<Rightarrow> string list \<Rightarrow> datetime \<Rightarrow> JobStore \<Rightarrow> repo_error + ArtifactRow \<times> JobStore" where
  "reserve_artifact_upload r allowed now s =
     and_then (inputs_open r allowed s) (\<lambda>u.
     case find (\<lambda>f. scope_of f = scope_of r) (artifacts s) of
       None \<Rightarrow> commit (r, add_artifact r s)
     | Some f \<Rightarrow> guarded (first_error [
           conflict_if (\<not> reusable f now) ''ARTIFACT_ALREADY_EXISTS'',
           conflict_if (ArtifactRow.ident f \<noteq> ArtifactRow.ident r) ''ARTIFACT_RESERVATION_CHANGED''])
         (commit (recycled f r, put_artifact (recycled f r) s)))"

definition mark_artifact_rejected :: "string \<Rightarrow> string \<Rightarrow> JobStore \<Rightarrow> repo_error + unit \<times> JobStore" where
  "mark_artifact_rejected fid tid s =
     and_then (found (the_artifact s fid tid) ''artifact not found'') (\<lambda>f.
       commit ((), if ArtifactRow.status f = ''PENDING'' then put_artifact (f\<lparr>ArtifactRow.status := ''REJECTED''\<rparr>) s else s))"

text \<open>What the object store reports of the uploaded bytes.\<close>

record Upload =
  object_key :: string
  media_type :: string
  byte_size :: int
  sha256 :: string

definition same_upload :: "ArtifactRow \<Rightarrow> Upload \<Rightarrow> bool" where
  "same_upload f up \<longleftrightarrow> ArtifactRow.object_key f = Upload.object_key up
     \<and> ArtifactRow.media_type f = Some (Upload.media_type up) \<and> ArtifactRow.byte_size f = Some (Upload.byte_size up)
     \<and> ArtifactRow.sha256 f = Some (Upload.sha256 up)"

definition completed_artifact :: "ArtifactRow \<Rightarrow> Upload \<Rightarrow> ArtifactRow" where
  "completed_artifact f up = f\<lparr>ArtifactRow.object_key := Upload.object_key up,
     ArtifactRow.media_type := Some (Upload.media_type up), ArtifactRow.byte_size := Some (Upload.byte_size up),
     ArtifactRow.sha256 := Some (Upload.sha256 up), ArtifactRow.status := ''COMPLETE''\<rparr>"

text \<open>The snapshot and the locked row are the same row, since an operation is one step.\<close>

definition upload_guard :: "ArtifactRow \<Rightarrow> ActivityRow \<Rightarrow> SubmissionRow option \<Rightarrow> string list \<Rightarrow> repo_error + unit" where
  "upload_guard f a sub allowed =
     (case sub of
        None \<Rightarrow> guarded (conflict_if (ActivityRow.status a \<notin> set allowed) ''ACTIVITY_INPUTS_FROZEN'') (Inr ())
      | Some x \<Rightarrow> and_then (checked SubmissionProcessingState_validate (SubmissionRow.state x)) (\<lambda>st.
          guarded (conflict_if (submission_frozen st x) ''SUBMISSION_INPUTS_FROZEN'') (Inr ())))"

definition update_artifact_complete ::
  "string \<Rightarrow> string \<Rightarrow> Upload \<Rightarrow> string list \<Rightarrow> JobStore \<Rightarrow> repo_error + ArtifactRow \<times> JobStore" where
  "update_artifact_complete fid tid up allowed s =
     and_then (found (the_artifact s fid tid) ''artifact not found'') (\<lambda>f.
     and_then (found (the_activity s (ArtifactRow.activity_id f) tid) ''activity not found'') (\<lambda>a.
     and_then (case ArtifactRow.submission_id f of None \<Rightarrow> Inr None
         | Some sid \<Rightarrow> and_then (found (the_submission s sid tid) ''submission not found'') (\<lambda>x. Inr (Some x))) (\<lambda>sub.
     if ArtifactRow.status f = ''COMPLETE'' then
       guarded (conflict_if (\<not> same_upload f up) ''ARTIFACT_ALREADY_COMPLETE'') (Inr (f, s))
     else guarded (conflict_if (ArtifactRow.status f \<noteq> ''PENDING'') ''ARTIFACT_NOT_PENDING'')
       (and_then (upload_guard f a sub allowed) (\<lambda>u.
          commit (completed_artifact f up, put_artifact (completed_artifact f up) s))))))"

section \<open>Batches of submissions\<close>

definition create_submissions :: "SubmissionRow list \<Rightarrow> JobStore \<Rightarrow> repo_error + SubmissionRow list \<times> JobStore" where
  "create_submissions rows s =
     (case rows of [] \<Rightarrow> Inl (ValueError ''at least one submission is required'')
      | r # _ \<Rightarrow>
        (let tid = SubmissionRow.tenant_id r; aid = SubmissionRow.activity_id r;
             subjects = map SubmissionRow.subject_ref rows
         in guarded (first_error [
              raise_if (list_ex (\<lambda>x. SubmissionRow.tenant_id x \<noteq> tid \<or> SubmissionRow.activity_id x \<noteq> aid) rows)
                (ValueError ''a submission batch must share tenant and activity''),
              conflict_if (has_dup subjects \<or> has_dup (map SubmissionRow.ident rows)) ''SUBMISSION_BATCH_DUPLICATE''])
            (on_integrity ''SUBMISSION_SUBJECT_ALREADY_EXISTS''
              (and_then (found (the_activity s aid tid) ''activity not found'') (\<lambda>a.
               guarded (conflict_if (list_ex (\<lambda>x. SubmissionRow.tenant_id x = tid \<and> SubmissionRow.activity_id x = aid
                    \<and> SubmissionRow.subject_ref x \<in> set subjects) (submissions s)) ''SUBMISSION_SUBJECT_ALREADY_EXISTS'')
                 (commit (rows, s\<lparr>submissions := submissions s @ rows\<rparr>)))))))"

section \<open>Runs\<close>

text \<open>A step is a successful operation of the queue or one of the operations above.\<close>

inductive store_step :: "JobStore \<Rightarrow> JobStore \<Rightarrow> bool" where
  job: "job_step s s' \<Longrightarrow> store_step s s'"
| configure: "update_activity_config aid tid cfg policy etg now s = Inr (a, s') \<Longrightarrow> store_step s s'"
| upload: "add_artifact_if_inputs_open r allowed s = Inr (u, s') \<Longrightarrow> store_step s s'"
| reserve: "reserve_artifact_upload r allowed now s = Inr (f, s') \<Longrightarrow> store_step s s'"
| reject: "mark_artifact_rejected fid tid s = Inr (u, s') \<Longrightarrow> store_step s s'"
| complete: "update_artifact_complete fid tid up allowed s = Inr (f, s') \<Longrightarrow> store_step s s'"
| submit: "create_submissions rows s = Inr (rs, s') \<Longrightarrow> store_step s s'"

inductive_cases store_stepE: "store_step s s'"

section \<open>What the queue leaves alone\<close>

text \<open>The places of the aggregates: who they are and where they belong.  No operation of the queue moves
  one, and none touches an artifact.\<close>

definition place_of :: "SubmissionRow \<Rightarrow> string \<times> string \<times> string" where
  "place_of r = (SubmissionRow.ident r, SubmissionRow.tenant_id r, SubmissionRow.activity_id r)"

definition owner_of :: "ActivityRow \<Rightarrow> string \<times> string" where
  "owner_of a = (ActivityRow.ident a, ActivityRow.tenant_id a)"

definition charter_of :: "ActivityRow \<Rightarrow> (string \<times> string) \<times> json \<times> json" where
  "charter_of a = (owner_of a, ActivityRow.config a, ActivityRow.blueprint_policy a)"

definition undisturbed :: "JobStore \<Rightarrow> JobStore \<Rightarrow> bool" where
  "undisturbed s s' \<longleftrightarrow> artifacts s' = artifacts s \<and> map place_of (submissions s') = map place_of (submissions s)
     \<and> map charter_of (activities s') = map charter_of (activities s)"

definition distinct_places :: "JobStore \<Rightarrow> bool" where
  "distinct_places s \<longleftrightarrow> distinct (map SubmissionRow.ident (submissions s)) \<and> distinct (map ActivityRow.ident (activities s))"

lemma undisturbed_refl [simp]: "undisturbed s s"
  by (simp add: undisturbed_def)

lemma undisturbed_trans: "undisturbed a b \<Longrightarrow> undisturbed b c \<Longrightarrow> undisturbed a c"
  by (simp add: undisturbed_def)

lemma undisturbed_job_tables [simp]:
  "undisturbed s (put_job r t) = undisturbed s t" "undisturbed s (add_job r t) = undisturbed s t"
  "undisturbed s (add_control c t) = undisturbed s t" "undisturbed s (note_stage_retry r stg f d t) = undisturbed s t"
  "undisturbed s (t\<lparr>assessments := as, guides := gs\<rparr>) = undisturbed s t"
  by (simp_all add: undisturbed_def put_job_def add_job_def add_control_def note_stage_retry_def split: option.splits)

lemma idents_of_places: "map SubmissionRow.ident (submissions s) = map fst (map place_of (submissions s))"
  by (simp add: place_of_def)

lemma owners_of_charters: "map owner_of xs = map fst (map charter_of xs)"
  by (simp add: charter_of_def)

lemma idents_of_owners: "map ActivityRow.ident xs = map fst (map fst (map charter_of xs))"
  by (simp add: owner_of_def charter_of_def)

lemma undisturbed_distinct: "undisturbed s s' \<Longrightarrow> distinct_places s \<Longrightarrow> distinct_places s'"
  unfolding distinct_places_def undisturbed_def idents_of_places idents_of_owners by simp

lemma integrity_places: "integrity s \<Longrightarrow> distinct_places s"
  by (simp add: integrity_def distinct_places_def)

lemma map_set_row_same:
  assumes "distinct (map key rows)" and "x \<in> set rows" and "key r = key x" and "f r = f x"
  shows "map f (set_row key r rows) = map f rows"
proof -
  have "y = x" if "y \<in> set rows" "key y = key r" for y
    using assms(1-3) that by (auto simp: distinct_map inj_on_def)
  then show ?thesis using assms(4) by (auto simp: set_row_def)
qed

lemma undisturbed_put_submission:
  assumes "undisturbed s t" and "distinct_places s" and "the_submission t sid tid = Some sub" and "place_of x = place_of sub"
  shows "undisturbed s (put_submission x t)"
proof -
  have "sub \<in> set (submissions t)" using assms(3) submission_table.lookup_hit by (auto simp: the_submission_def)
  moreover have "SubmissionRow.ident x = SubmissionRow.ident sub" using assms(4) by (simp add: place_of_def)
  moreover have "distinct (map SubmissionRow.ident (submissions t))"
    using undisturbed_distinct [OF assms(1,2)] by (simp add: distinct_places_def)
  ultimately have "map place_of (set_row SubmissionRow.ident x (submissions t)) = map place_of (submissions t)"
    using assms(4) by (intro map_set_row_same)
  then show ?thesis using assms(1) by (simp add: undisturbed_def put_submission_def)
qed

lemma undisturbed_put_activity:
  assumes "undisturbed s t" and "distinct_places s" and "the_activity t aid tid = Some a" and "charter_of x = charter_of a"
  shows "undisturbed s (put_activity x t)"
proof -
  have "a \<in> set (activities t)" using assms(3) activity_table.lookup_hit by (auto simp: the_activity_def)
  moreover have "ActivityRow.ident x = ActivityRow.ident a" using assms(4) by (simp add: charter_of_def owner_of_def)
  moreover have "distinct (map ActivityRow.ident (activities t))"
    using undisturbed_distinct [OF assms(1,2)] by (simp add: distinct_places_def)
  ultimately have "map charter_of (set_row ActivityRow.ident x (activities t)) = map charter_of (activities t)"
    using assms(4) by (intro map_set_row_same)
  then show ?thesis using assms(1) by (simp add: undisturbed_def put_activity_def)
qed

lemma place_update [simp]:
  "place_of (r\<lparr>SubmissionRow.state := x\<rparr>) = place_of r" "place_of (r\<lparr>SubmissionRow.active_job_id := j\<rparr>) = place_of r"
  "place_of (r\<lparr>SubmissionRow.updated_at := t\<rparr>) = place_of r" "place_of (r\<lparr>SubmissionRow.blueprint_version := v\<rparr>) = place_of r"
  "place_of (cancelled_submission q r t) = place_of r"
  by (simp_all add: place_of_def cancelled_submission_def)

lemma charter_update [simp]:
  "charter_of (a\<lparr>ActivityRow.status := x\<rparr>) = charter_of a" "charter_of (a\<lparr>ActivityRow.updated_at := t\<rparr>) = charter_of a"
  by (simp_all add: charter_of_def owner_of_def)

lemma the_rows_simps [simp]:
  "the_submission (put_job r s) = the_submission s" "the_activity (put_job r s) = the_activity s"
  "the_submission (add_job r s) = the_submission s" "the_submission (add_control c s) = the_submission s"
  "the_activity (add_control c s) = the_activity s"
  by (simp_all add: fun_eq_iff the_submission_def the_activity_def get_submission_def get_activity_def put_job_def
      add_job_def add_control_def)

lemma undisturbed_put_job_submission:
  "distinct_places s \<Longrightarrow> the_submission s sid tid = Some sub \<Longrightarrow> place_of x = place_of sub
     \<Longrightarrow> undisturbed s (put_submission x (put_job r s))"
  using undisturbed_put_submission [of s "put_job r s"] by simp

lemma undisturbed_put_job_activity:
  "distinct_places s \<Longrightarrow> the_activity s aid tid = Some a \<Longrightarrow> charter_of x = charter_of a
     \<Longrightarrow> undisturbed s (put_activity x (put_job r s))"
  using undisturbed_put_activity [of s "put_job r s"] by simp

lemma complete_cancellation_undisturbed:
  assumes "distinct_places s" and "complete_cancellation r t s = Inr (q, s')"
  shows "undisturbed s s'"
  using assms by (auto simp: complete_cancellation_def Let_def undisturbed_put_job_submission undisturbed_put_job_activity split: if_splits)

lemma fail_aggregate_undisturbed:
  assumes "distinct_places s" and "fail_aggregate r d t (put_job x s) = Inr s'"
  shows "undisturbed s s'"
  using assms by (auto simp: fail_aggregate_def undisturbed_put_job_submission undisturbed_put_job_activity split: if_splits option.splits)

lemma activate_undisturbed:
  assumes "distinct_places s" and "activate_resulting_submission_job src cont t (add_job x s) = Inr s'"
  shows "undisturbed s s'"
  using assms undisturbed_put_submission [of s s] undisturbed_put_submission [of s "add_job x s"]
  by (auto simp: activate_resulting_submission_job_def split: if_splits)

lemma reconcile_rows_undisturbed:
  assumes "distinct_places s" and "reconcile_rows t rs s = Inr s'"
  shows "undisturbed s s'"
  using assms
proof (induction rs arbitrary: s)
  case (Cons r rs)
  then obtain s1 where s1: "reconcile_row t r s = Inr s1" "reconcile_rows t rs s1 = Inr s'" by auto
  have "undisturbed s s1"
    using s1(1) Cons.prems(1) complete_cancellation_undisturbed fail_aggregate_undisturbed
    by (auto simp: reconcile_row_def split: if_splits)
  then show ?case using Cons.IH [OF _ s1(2)] undisturbed_distinct [OF _ Cons.prems(1)] undisturbed_trans by blast
qed simp

lemma reconcile_undisturbed:
  assumes "distinct_places s" and "reconcile_stale_jobs lease now s = Inr (n, s')"
  shows "undisturbed s s'" and "integrity s'"
  using assms reconcile_rows_undisturbed by (auto simp: reconcile_stale_jobs_def Let_def)

lemma claim_undisturbed:
  assumes "distinct_places s" and "claim_next_job lease t0 now s = Inr (x, s')"
  shows "undisturbed s s'" and "integrity s'"
proof -
  obtain n s1 where s1: "reconcile_stale_jobs lease t0 s = Inr (n, s1)"
      and "s' = s1 \<or> (\<exists>r. s' = put_job r s1 \<and> integrity s')"
    using assms(2) by (auto simp: claim_next_job_def split: option.splits)
  then show "undisturbed s s'" and "integrity s'" using reconcile_undisturbed [OF assms(1) s1] by auto
qed

lemma queueing_undisturbed:
  "distinct_places s \<Longrightarrow> queue_activity_job st allowed now s = Inr (u, s') \<Longrightarrow> undisturbed s s'"
  "distinct_places s \<Longrightarrow> queue_submission_job st new v now s = Inr (u, s') \<Longrightarrow> undisturbed s s'"
  "distinct_places s \<Longrightarrow> set_activity_status aid tid stt now s = Inr (u, s') \<Longrightarrow> undisturbed s s'"
  using undisturbed_put_submission [of s s] undisturbed_put_activity [of s s]
  by (auto simp: queue_activity_job_def queue_submission_job_def set_activity_status_def Let_def)

lemma set_submission_undisturbed:
  assumes "distinct_places s" and "set_submission_state new now s = Inr (u, s')"
  shows "undisturbed s s'"
proof -
  obtain sub where sub: "get_submission s (SubmissionProcessingState.submission_id new) = Some sub"
      and s': "s' = put_submission (sub\<lparr>SubmissionRow.state := new, SubmissionRow.active_job_id :=
         SubmissionProcessingState.active_job_id new, SubmissionRow.updated_at := now\<rparr>) s"
    using assms(2) by (auto simp: set_submission_state_def)
  have "the_submission s (SubmissionProcessingState.submission_id new) (SubmissionRow.tenant_id sub) = Some sub"
    using sub by (simp add: the_submission_def)
  from undisturbed_put_submission [OF undisturbed_refl assms(1) this] show ?thesis by (simp add: s')
qed

lemma control_undisturbed:
  "distinct_places s \<Longrightarrow> complete_job_cancellation jid tid now s = Inr (r, s') \<Longrightarrow> undisturbed s s'"
  "distinct_places s \<Longrightarrow> fail_queued_dispatch jid tid dg failure now s = Inr (b, s') \<Longrightarrow> undisturbed s s'"
  "distinct_places s \<Longrightarrow> schedule_job_retry jid tid rid cid who reason failure nxt stg limit now s = Inr (x, s') \<Longrightarrow> undisturbed s s'"
  "distinct_places s \<Longrightarrow> schedule_job_resume jid tid rid cid who reason stg due now s = Inr (y, s') \<Longrightarrow> undisturbed s s'"
  "distinct_places s \<Longrightarrow> save_job_status st knd now s = Inr (u, s') \<Longrightarrow> undisturbed s s'"
  using complete_cancellation_undisturbed fail_aggregate_undisturbed activate_undisturbed
  by (auto simp: complete_job_cancellation_def fail_queued_dispatch_def schedule_job_retry_def schedule_job_resume_def
      save_job_status_def Let_def split: if_splits option.splits)

lemma request_cancel_undisturbed:
  assumes "distinct_places s" and run: "request_job_cancel jid tid who given reason now s = Inr (x, s')"
  shows "undisturbed s s'"
proof -
  have same: "undisturbed s (add_control c (put_job y s))" for c y by simp
  have step: "undisturbed s s1" if "complete_cancellation y t (add_control c (put_job z s)) = Inr (q, s1)" for y t c z q s1
    using complete_cancellation_undisturbed [OF undisturbed_distinct [OF same assms(1)] that] undisturbed_trans [OF same] by blast
  obtain r where r: "lock_job s jid tid = Inr r" using run by (auto simp: request_job_cancel_def)
  show ?thesis
  proof (cases "JobRow.control_state r \<in> {''CANCELLED'', ''CANCEL_REQUESTED''}")
    case True
    then show ?thesis using run r by (auto simp: request_job_cancel_def)
  next
    case False
    then have "(\<exists>c y. s' = add_control c (put_job y s))
        \<or> (\<exists>y c z q. complete_cancellation y now (add_control c (put_job z s)) = Inr (q, s'))"
      using run r by (auto simp: request_job_cancel_def Let_def split: if_splits)
    then show ?thesis using step same by blast
  qed
qed

lemma finalize_undisturbed:
  assumes "distinct_places s" and "finalize_submission_assessment jid tid a g now s = Inr (b, s')"
  shows "undisturbed s s'"
  using assms(2)
proof (cases rule: finalize_cases)
  case (1 job sub)
  have "place_of (published_row sub job now) = place_of sub" by (simp add: published_row_def)
  then show ?thesis using undisturbed_put_job_submission [OF assms(1) 1(2)] 1(8) by simp
next
  case (2 job sub q)
  then show ?thesis using complete_cancellation_undisturbed [OF assms(1)] by blast
qed simp

lemma job_step_undisturbed: "integrity s \<Longrightarrow> job_step s s' \<Longrightarrow> undisturbed s s'"
  by (drule integrity_places, erule job_stepE)
    (blast intro: queueing_undisturbed set_submission_undisturbed control_undisturbed request_cancel_undisturbed finalize_undisturbed
      reconcile_undisturbed(1) claim_undisturbed(1))+

lemma job_step_integrity: "integrity s \<Longrightarrow> job_step s s' \<Longrightarrow> integrity s'"
  by (erule job_stepE)
    (blast intro: commits save_commits conditional_commits dispatch_commits reconcile_undisturbed(2) claim_undisturbed(2) integrity_places)+

section \<open>Uploads\<close>

lemma get_artifact_facts: "get_artifact s k = Some f \<Longrightarrow> f \<in> set (artifacts s) \<and> ArtifactRow.ident f = k"
  using artifact_table.lookup_hit by blast

lemma the_artifact_facts:
  "the_artifact s fid tid = Some f \<Longrightarrow> f \<in> set (artifacts s) \<and> ArtifactRow.ident f = fid \<and> ArtifactRow.tenant_id f = tid"
  using get_artifact_facts by (auto simp: the_artifact_def)

text \<open>How an intake step changes the artifacts: it adds one, or it overwrites one that is not COMPLETE.\<close>

inductive artifact_change :: "JobStore \<Rightarrow> JobStore \<Rightarrow> bool" for s where
  same: "artifacts s' = artifacts s \<Longrightarrow> artifact_change s s'"
| added: "inputs_open r allowed s = Inr () \<Longrightarrow> s' = add_artifact r s \<Longrightarrow> artifact_change s s'"
| overwritten: "f \<in> set (artifacts s) \<Longrightarrow> ArtifactRow.status f \<noteq> ''COMPLETE'' \<Longrightarrow> ArtifactRow.ident f' = ArtifactRow.ident f
    \<Longrightarrow> belongs (ArtifactRow.activity_id f) (ArtifactRow.tenant_id f) (ArtifactRow.submission_id f) f'
    \<Longrightarrow> s' = put_artifact f' s \<Longrightarrow> artifact_change s s'"

lemma reserve_change:
  assumes "reserve_artifact_upload r allowed now s = Inr (x, s')"
  shows "artifact_change s s'"
proof -
  have opened: "inputs_open r allowed s = Inr ()" using assms by (auto simp: reserve_artifact_upload_def)
  show ?thesis
  proof (cases "find (\<lambda>f. scope_of f = scope_of r) (artifacts s)")
    case None
    then show ?thesis using assms artifact_change.added [OF opened] by (auto simp: reserve_artifact_upload_def)
  next
    case (Some f)
    then have f: "f \<in> set (artifacts s)" by (auto simp: find_Some_iff dest: nth_mem)
    have "reusable f now" "s' = put_artifact (recycled f r) s" using assms Some by (auto simp: reserve_artifact_upload_def split: option.splits)
    then show ?thesis
      using f by (intro artifact_change.overwritten [of f]) (auto simp: reusable_def recycled_def belongs_def)
  qed
qed

lemma reject_change:
  assumes "mark_artifact_rejected fid tid s = Inr (u, s')"
  shows "artifact_change s s'"
proof -
  obtain f where f: "the_artifact s fid tid = Some f"
      and s': "s' = (if ArtifactRow.status f = ''PENDING'' then put_artifact (f\<lparr>ArtifactRow.status := ''REJECTED''\<rparr>) s else s)"
    using assms by (auto simp: mark_artifact_rejected_def)
  show ?thesis
  proof (cases "ArtifactRow.status f = ''PENDING''")
    case True
    then show ?thesis using the_artifact_facts [OF f] s'
      by (intro artifact_change.overwritten [of f]) (auto simp: belongs_def)
  qed (simp add: s' artifact_change.same)
qed

lemma complete_upload_cases:
  assumes "update_artifact_complete fid tid up allowed s = Inr (x, s')"
  obtains "s' = s" "the_artifact s fid tid = Some x" "ArtifactRow.status x = ''COMPLETE''" "same_upload x up"
  | f where "the_artifact s fid tid = Some f" "ArtifactRow.status f = ''PENDING''"
      "x = completed_artifact f up" "s' = put_artifact (completed_artifact f up) s" "integrity s'"
proof -
  obtain f where f: "the_artifact s fid tid = Some f" using assms by (auto simp: update_artifact_complete_def)
  show thesis
  proof (cases "ArtifactRow.status f = ''COMPLETE''")
    case True
    then show ?thesis using assms f by (intro that(1)) (auto simp: update_artifact_complete_def)
  next
    case False
    then have "x = completed_artifact f up \<and> s' = put_artifact (completed_artifact f up) s \<and> integrity s'"
        "ArtifactRow.status f = ''PENDING''"
      using assms f by (auto simp: update_artifact_complete_def)
    then show ?thesis using that(2) [OF f] by blast
  qed
qed

lemma complete_change:
  assumes "update_artifact_complete fid tid up allowed s = Inr (x, s')"
  shows "artifact_change s s'"
  using assms
proof (cases rule: complete_upload_cases)
  case 1
  then show ?thesis by (simp add: artifact_change.same)
next
  case (2 f)
  then show ?thesis using the_artifact_facts [OF 2(1)]
    by (intro artifact_change.overwritten [of f]) (auto simp: belongs_def completed_artifact_def)
qed

section \<open>The invariant of the uploads\<close>

definition placed :: "JobStore \<Rightarrow> ArtifactRow \<Rightarrow> bool" where
  "placed s f \<longleftrightarrow> (case ArtifactRow.submission_id f of
       None \<Rightarrow> (ArtifactRow.activity_id f, ArtifactRow.tenant_id f) \<in> set (map owner_of (activities s))
     | Some sid \<Rightarrow> (sid, ArtifactRow.tenant_id f, ArtifactRow.activity_id f) \<in> set (map place_of (submissions s)))"

definition store_ok :: "JobStore \<Rightarrow> bool" where
  "store_ok s \<longleftrightarrow> integrity s \<and> (\<forall>f \<in> set (artifacts s). placed s f)"

definition accepted :: "JobStore \<Rightarrow> string \<Rightarrow> ArtifactRow option" where
  "accepted s k = (case get_artifact s k of None \<Rightarrow> None
     | Some f \<Rightarrow> if ArtifactRow.status f = ''COMPLETE'' then Some f else None)"

lemma accepted_Some [simp]: "accepted s k = Some f \<longleftrightarrow> get_artifact s k = Some f \<and> ArtifactRow.status f = ''COMPLETE''"
  by (auto simp: accepted_def split: option.splits)

definition widened :: "JobStore \<Rightarrow> JobStore \<Rightarrow> bool" where
  "widened s s' \<longleftrightarrow> set (map place_of (submissions s)) \<subseteq> set (map place_of (submissions s'))
     \<and> set (map owner_of (activities s)) \<subseteq> set (map owner_of (activities s'))"

lemma widened_same: "submissions s' = submissions s \<Longrightarrow> activities s' = activities s \<Longrightarrow> widened s s'"
  by (simp add: widened_def)

lemma undisturbed_widened: "undisturbed s s' \<Longrightarrow> widened s s'"
  unfolding undisturbed_def widened_def owners_of_charters by (simp only: order_refl simp_thms)

lemma placed_widened: "widened s s' \<Longrightarrow> placed s f \<Longrightarrow> placed s' f"
  unfolding placed_def widened_def by (cases "ArtifactRow.submission_id f") (simp_all only: option.case, blast+)

lemma integrity_artifacts: "integrity s \<Longrightarrow> distinct (map ArtifactRow.ident (artifacts s))"
  by (simp add: integrity_def content_integrity_def)

lemma artifact_tables [simp]:
  "submissions (put_artifact f s) = submissions s" "activities (put_artifact f s) = activities s"
  "submissions (add_artifact f s) = submissions s" "activities (add_artifact f s) = activities s"
  by (simp_all add: put_artifact_def add_artifact_def)

lemma change_accepted:
  assumes "integrity s" and "artifact_change s s'"
  shows "accepted s \<subseteq>\<^sub>m accepted s'"
proof (rule map_leI)
  fix k x assume "accepted s k = Some x"
  then have x: "get_artifact s k = Some x" "ArtifactRow.status x = ''COMPLETE''" by simp_all
  note d = integrity_artifacts [OF assms(1)]
  have "get_artifact s' k = Some x" using assms(2)
  proof cases
    case same
    then show ?thesis using x by (simp add: get_artifact_def)
  next
    case (added r allowed)
    then show ?thesis using x by (auto simp: get_artifact_def add_artifact_def get_row_prefix)
  next
    case (overwritten f f')
    have "k \<noteq> ArtifactRow.ident f'"
      using overwritten(1-3) x artifact_table.lookup_unique [OF d overwritten(1)] by auto
    then show ?thesis using artifact_table.lookup_replace_other [OF d] x(1) overwritten(5) by simp
  qed
  then show "accepted s' k = Some x" using x(2) by simp
qed

lemma inputs_open_submission:
  assumes "inputs_open r allowed s = Inr u" and "ArtifactRow.submission_id r = Some sid"
  shows "\<exists>sub. the_submission s sid (ArtifactRow.tenant_id r) = Some sub
     \<and> SubmissionRow.activity_id sub = ArtifactRow.activity_id r \<and> \<not> submission_frozen (SubmissionRow.state sub) sub"
  using assms(1) unfolding inputs_open_def and_then_Inr found_Inr assms(2) option.case submission_in_Some checked_Inr
    guarded_Inr conflict_if_None by blast

lemma inputs_open_placed:
  assumes "inputs_open r allowed s = Inr u"
  shows "placed s r"
proof (cases "ArtifactRow.submission_id r")
  case None
  obtain a where "the_activity s (ArtifactRow.activity_id r) (ArtifactRow.tenant_id r) = Some a"
    using assms by (auto simp: inputs_open_def)
  then have "a \<in> set (activities s)" "owner_of a = (ArtifactRow.activity_id r, ArtifactRow.tenant_id r)"
    using activity_table.lookup_hit by (auto simp: the_activity_def owner_of_def)
  then show ?thesis using None by (force simp: placed_def)
next
  case (Some sid)
  then obtain sub where "the_submission s sid (ArtifactRow.tenant_id r) = Some sub"
      "SubmissionRow.activity_id sub = ArtifactRow.activity_id r"
    using inputs_open_submission [OF assms] by blast
  then have "sub \<in> set (submissions s)" "place_of sub = (sid, ArtifactRow.tenant_id r, ArtifactRow.activity_id r)"
    using submission_table.lookup_hit by (auto simp: the_submission_def place_of_def)
  then show ?thesis using Some by (force simp: placed_def)
qed

lemma change_placed:
  assumes "artifact_change s s'" and "widened s s'" and "\<forall>f \<in> set (artifacts s). placed s f"
  shows "\<forall>f \<in> set (artifacts s'). placed s' f"
  using assms(1)
proof cases
  case same
  then show ?thesis using assms(2,3) placed_widened by simp
next
  case (added r allowed)
  have "placed s x" if "x \<in> set (artifacts s')" for x
    using that inputs_open_placed [OF added(1)] assms(3) unfolding added(2) artifact_table.mem_insert by blast
  then show ?thesis using placed_widened [OF assms(2)] by blast
next
  case (overwritten f f')
  have "placed s f' = placed s f"
    using overwritten(4) by (cases "ArtifactRow.submission_id f") (simp_all add: placed_def belongs_def)
  then have "placed s f'" using assms(3) overwritten(1) by blast
  then have "\<forall>x \<in> set (artifacts s'). placed s x"
    unfolding overwritten(5) by (intro artifact_table.all_replace assms(3))
  then show ?thesis using assms(2) placed_widened by blast
qed


lemma upload_step_tables:
  "add_artifact_if_inputs_open r allowed s = Inr (u, s') \<Longrightarrow> submissions s' = submissions s \<and> activities s' = activities s"
  "reserve_artifact_upload r allowed now s = Inr (f, s') \<Longrightarrow> submissions s' = submissions s \<and> activities s' = activities s"
  "mark_artifact_rejected fid tid s = Inr (u, s') \<Longrightarrow> submissions s' = submissions s \<and> activities s' = activities s"
  "update_artifact_complete fid tid up allowed s = Inr (f, s') \<Longrightarrow> submissions s' = submissions s \<and> activities s' = activities s"
  by (auto simp: add_artifact_if_inputs_open_def reserve_artifact_upload_def mark_artifact_rejected_def
      elim!: complete_upload_cases split: option.splits if_splits)

lemma configure_cases:
  assumes "update_activity_config aid tid cfg policy etg now s = Inr (x, s')"
  obtains a where "the_activity s aid tid = Some a" "ActivityRow.status a = ''DRAFT''" "config_etag a = etg"
    "x = a\<lparr>ActivityRow.config := cfg, ActivityRow.blueprint_policy := policy, ActivityRow.updated_at := now\<rparr>"
    "s' = put_activity x s" "integrity s'"
  using assms by (auto simp del: first_error_Cons simp add: update_activity_config_def Let_def first_error_None_Cons)

lemma configure_owners:
  assumes "integrity s" and "update_activity_config aid tid cfg policy etg now s = Inr (x, s')"
  shows "map owner_of (activities s') = map owner_of (activities s)"
  using assms(2)
proof (cases rule: configure_cases)
  case (1 a)
  then have "a \<in> set (activities s)" using activity_table.lookup_hit by (auto simp: the_activity_def)
  then have "map owner_of (set_row ActivityRow.ident x (activities s)) = map owner_of (activities s)"
    using assms(1) 1(4) by (intro map_set_row_same [of _ _ a]) (simp_all add: integrity_def owner_of_def)
  then show ?thesis by (simp add: 1(5) put_activity_def)
qed

lemma submit_cases:
  assumes "create_submissions rows s = Inr (rs, s')"
  shows "s' = s\<lparr>submissions := submissions s @ rows\<rparr> \<and> integrity s' \<and> rs = rows"
  using assms by (cases rows) (auto simp: create_submissions_def Let_def)

lemma store_step_facts:
  assumes "integrity s" and "store_step s s'"
  shows "artifact_change s s' \<and> widened s s' \<and> integrity s'"
  using assms(2)
proof cases
  case job
  then show ?thesis
    using job_step_undisturbed [OF assms(1)] job_step_integrity [OF assms(1)] undisturbed_widened artifact_change.same
    by (auto simp: undisturbed_def)
next
  case (configure aid tid cfg policy etg now x)
  then have "artifacts s' = artifacts s" "submissions s' = submissions s" "integrity s'"
    by (auto elim!: configure_cases simp: put_activity_def)
  then show ?thesis
    using configure_owners [OF assms(1) configure] artifact_change.same by (simp add: widened_def)
next
  case (upload r allowed u)
  then have "inputs_open r allowed s = Inr ()" "s' = add_artifact r s" "integrity s'"
    by (auto simp: add_artifact_if_inputs_open_def)
  then show ?thesis using artifact_change.added upload_step_tables(1) [OF upload] widened_same by blast
next
  case (reserve r allowed now f)
  have "integrity s'" using reserve by (auto simp: reserve_artifact_upload_def split: option.splits)
  then show ?thesis using reserve_change [OF reserve] upload_step_tables(2) [OF reserve] widened_same by blast
next
  case (reject fid tid u)
  have "integrity s'" using reject by (auto simp: mark_artifact_rejected_def)
  then show ?thesis using reject_change [OF reject] upload_step_tables(3) [OF reject] widened_same by blast
next
  case (complete fid tid up allowed f)
  from complete have "integrity s'" by (cases rule: complete_upload_cases) (use assms(1) in simp_all)
  then show ?thesis using complete_change [OF complete] upload_step_tables(4) [OF complete] widened_same by blast
next
  case (submit rows rs)
  from submit_cases [OF this] show ?thesis by (auto simp: widened_def intro: artifact_change.same)
qed

lemma store_step_ok:
  assumes "store_ok s" and "store_step s s'"
  shows "store_ok s'"
proof -
  have "integrity s" using assms(1) by (simp add: store_ok_def)
  note f = store_step_facts [OF this assms(2)]
  then show ?thesis using change_placed [of s s'] assms(1) unfolding store_ok_def by blast
qed

lemma store_step_accepted:
  assumes "store_ok s" and "store_step s s'"
  shows "accepted s \<subseteq>\<^sub>m accepted s'"
  using change_accepted store_step_facts [OF _ assms(2)] assms(1) by (simp add: store_ok_def)

interpretation uploads: write_once store_ok store_step accepted
  by unfold_locales (rule store_step_ok, assumption+, rule store_step_accepted)

end
