(* ===== verification/IntakeClaims.thy ===== *)
theory IntakeClaims
  imports Intake
begin

text \<open>
  What the intake promises the queue: an accepted upload is immutable, the inputs of a queued submission are
  fixed, every upload keeps its place, no configuration is overwritten unread, and a batch is atomic.
\<close>

section \<open>Frozen inputs\<close>

definition frozen_at :: "JobStore \<Rightarrow> string \<Rightarrow> string \<Rightarrow> bool" where
  "frozen_at s sid tid \<longleftrightarrow> (case the_submission s sid tid of None \<Rightarrow> False
     | Some sub \<Rightarrow> submission_frozen (SubmissionRow.state sub) sub)"

text \<open>The steps taken while a submission does not take inputs.\<close>

definition frozen_step :: "string \<Rightarrow> string \<Rightarrow> JobStore \<Rightarrow> JobStore \<Rightarrow> bool" where
  "frozen_step sid tid s s' \<longleftrightarrow> store_step s s' \<and> frozen_at s sid tid"

definition inputs_of :: "string \<Rightarrow> string \<Rightarrow> JobStore \<Rightarrow> ArtifactRow list" where
  "inputs_of sid tid s = filter (\<lambda>f. ArtifactRow.submission_id f = Some sid \<and> ArtifactRow.tenant_id f = tid) (artifacts s)"

lemma frozen_change:
  assumes "integrity s" and ch: "artifact_change s s'" and fr: "frozen_at s sid tid"
    and one: "inputs_of sid tid s = [f]" and "ArtifactRow.status f = ''COMPLETE''"
  shows "inputs_of sid tid s' = [f]"
  using ch
proof cases
  case same
  then show ?thesis using one by (simp add: inputs_of_def)
next
  case (added r allowed)
  have "\<not> (ArtifactRow.submission_id r = Some sid \<and> ArtifactRow.tenant_id r = tid)"
    using inputs_open_submission [OF added(1)] fr by (auto simp: frozen_at_def)
  then show ?thesis using one by (simp add: inputs_of_def added(2) add_artifact_def)
next
  case (overwritten g g')
  let ?P = "\<lambda>x. ArtifactRow.submission_id x = Some sid \<and> ArtifactRow.tenant_id x = tid"
  have f: "\<And>x. x \<in> set (artifacts s) \<and> ?P x \<longleftrightarrow> x = f"
    using arg_cong [OF one, of set] unfolding inputs_of_def set_filter by auto
  have "\<not> ?P g"
  proof
    assume "?P g"
    then have "g = f" using f [of g] overwritten(1) by simp
    then show False using overwritten(2) assms(5) by simp
  qed
  moreover have "x = g" if "x \<in> set (artifacts s)" "ArtifactRow.ident x = ArtifactRow.ident g'" for x
    using that overwritten(1,3) integrity_artifacts [OF assms(1)] by (auto simp: distinct_map inj_on_def)
  ultimately have "filter ?P (set_row ArtifactRow.ident g' (artifacts s)) = filter ?P (artifacts s)"
    using overwritten(4) unfolding set_row_def filter_map comp_def belongs_def
    by (intro trans [OF map_cong [OF filter_cong [OF refl] refl] map_idI]) auto
  then show ?thesis using one by (simp add: inputs_of_def overwritten(5) put_artifact_def)
qed

lemma frozen_run:
  assumes "(frozen_step sid tid)\<^sup>*\<^sup>* s s'" and "store_ok s" and "inputs_of sid tid s = [f]"
    and "ArtifactRow.status f = ''COMPLETE''"
  shows "store_ok s' \<and> inputs_of sid tid s' = [f]"
  using assms(1)
proof (induction rule: rtranclp_induct)
  case (step y z)
  then have y: "store_step y z" "frozen_at y sid tid" "integrity y" "store_ok y" by (simp_all add: frozen_step_def store_ok_def)
  then show ?case
    using frozen_change [OF y(3) _ y(2) _ assms(4)] store_step_facts [OF y(3,1)] store_step_ok [OF y(4,1)] step.IH by blast
qed (use assms in simp)


lemma queued_inputs:
  assumes "queue_submission_job st new ver now s = Inr (u, s1)"
  shows "\<exists>f. inputs_of (SubmissionProcessingState.submission_id new) (JobStatus.tenant_id st) s = [f]
     \<and> ArtifactRow.status f = ''COMPLETE''
     \<and> inputs_of (SubmissionProcessingState.submission_id new) (JobStatus.tenant_id st) s1 = [f]"
proof -
  let ?sid = "SubmissionProcessingState.submission_id new" and ?tid = "JobStatus.tenant_id st"
  obtain sub where sub: "the_submission s ?sid ?tid = Some sub" using assms by (auto simp: queue_submission_job_def)
  then have id: "SubmissionRow.ident sub = ?sid" "SubmissionRow.tenant_id sub = ?tid"
    using submission_table.lookup_hit by (auto simp: the_submission_def)
  have "length (inputs_of ?sid ?tid s) = 1 \<and> ArtifactRow.status (hd (inputs_of ?sid ?tid s)) = ''COMPLETE''
      \<and> artifacts s1 = artifacts s"
    using assms sub id
    by (auto simp del: first_error_Cons simp add: queue_submission_job_def Let_def first_error_None_Cons inputs_of_def
        add_job_def put_submission_def)
  then show ?thesis by (cases "inputs_of ?sid ?tid s") (auto simp: inputs_of_def)
qed

lemma placed_activity:
  assumes "placed s f" and "ArtifactRow.submission_id f = Some sid" and "integrity s"
    and "the_submission s sid (ArtifactRow.tenant_id f) = Some sub"
  shows "ArtifactRow.activity_id f = SubmissionRow.activity_id sub"
proof -
  obtain x where x: "x \<in> set (submissions s)" "place_of x = (sid, ArtifactRow.tenant_id f, ArtifactRow.activity_id f)"
    using assms(1,2) by (force simp: placed_def)
  moreover have "sub \<in> set (submissions s)" "SubmissionRow.ident sub = sid"
    using assms(4) submission_table.lookup_hit by (auto simp: the_submission_def)
  ultimately have "x = sub" using assms(3) by (auto simp: integrity_def distinct_map inj_on_def place_of_def)
  then show ?thesis using x(2) by (simp add: place_of_def)
qed

lemma artifacts_for_inputs:
  "artifacts_for aid tid (Some sid) only s = sort_key (\<lambda>f. (instant (ArtifactRow.created_at f), ArtifactRow.ident f))
     (filter (\<lambda>f. ArtifactRow.activity_id f = aid \<and> (only \<longrightarrow> ArtifactRow.status f = ''COMPLETE'')) (inputs_of sid tid s))"
  unfolding artifacts_for_def inputs_of_def filter_filter belongs_def
  by (rule arg_cong [where f = "sort_key _"], rule filter_cong) auto

section \<open>Configurations\<close>

definition config_at :: "JobStore \<Rightarrow> string \<Rightarrow> ((string \<times> string) \<times> json \<times> json) option" where
  "config_at s aid = map_option charter_of (get_activity s aid)"

text \<open>The steps that are not a successful update of the configuration of a given activity.\<close>

definition edits :: "string \<Rightarrow> JobStore \<Rightarrow> JobStore \<Rightarrow> bool" where
  "edits aid s s' \<longleftrightarrow> (\<exists>tid cfg policy etg now a. update_activity_config aid tid cfg policy etg now s = Inr (a, s'))"

definition other_step :: "string \<Rightarrow> JobStore \<Rightarrow> JobStore \<Rightarrow> bool" where
  "other_step aid s s' \<longleftrightarrow> store_step s s' \<and> \<not> edits aid s s'"

lemma find_map: "find P (map f xs) = map_option f (find (\<lambda>x. P (f x)) xs)"
  by (induction xs) simp_all

lemma config_at_charters: "config_at s aid = find (\<lambda>c. fst (fst c) = aid) (map charter_of (activities s))"
  by (simp add: config_at_def get_activity_def get_row_def find_map charter_of_def owner_of_def)

lemma other_step_config:
  assumes "integrity s" and "other_step aid s s'"
  shows "config_at s' aid = config_at s aid"
proof -
  have st: "store_step s s'" and no: "\<not> edits aid s s'" using assms(2) by (simp_all add: other_step_def)
  have same: "config_at s' aid = config_at s aid" if "map charter_of (activities s') = map charter_of (activities s)"
    by (simp only: config_at_charters that)
  show ?thesis using st
  proof cases
    case job
    then show ?thesis using job_step_undisturbed [OF assms(1)] same by (simp add: undisturbed_def)
  next
    case (configure aid' tid cfg policy etg now x)
    then obtain a where "the_activity s aid' tid = Some a" "ActivityRow.ident x = ActivityRow.ident a" "s' = put_activity x s"
      by (auto elim!: configure_cases)
    moreover have "aid' \<noteq> aid" using no configure by (auto simp: edits_def)
    ultimately have "aid \<noteq> ActivityRow.ident x" "s' = put_activity x s"
      using activity_table.lookup_hit by (auto simp: the_activity_def)
    then show ?thesis
      using activity_table.lookup_replace_other assms(1) by (simp add: config_at_def integrity_def)
  next
    case (submit rows rs)
    from submit_cases [OF this] have "activities s' = activities s" by simp
    then show ?thesis using same by simp
  qed (use same upload_step_tables in simp_all)
qed

lemma other_run_config:
  assumes "(other_step aid)\<^sup>*\<^sup>* s s'" and "integrity s"
  shows "integrity s' \<and> config_at s' aid = config_at s aid"
  using assms
proof (induction rule: rtranclp_induct)
  case (step y z)
  then have "integrity y" "store_step y z" by (simp_all add: other_step_def)
  then show ?case using step.IH [OF step.prems] other_step_config [OF _ step.hyps(2)] store_step_facts [of y z] by simp
qed simp

lemma store_run_ok: "store_step\<^sup>*\<^sup>* s s' \<Longrightarrow> store_ok s \<Longrightarrow> store_ok s'"
  by (rule uploads.run_inv)

section \<open>Properties\<close>

text \<open>C34: an accepted upload is immutable.  Once an artifact is COMPLETE it keeps every column, whatever
  operations of the queue and of the intake follow and in whatever order; completing it again with the
  same bytes changes nothing and returns it, and with other bytes is refused.\<close>

theorem accepted_upload_is_immutable:
  assumes "store_ok s" and "store_step\<^sup>*\<^sup>* s s'" and "get_artifact s k = Some f" and "ArtifactRow.status f = ''COMPLETE''"
  shows "get_artifact s' k = Some f
     \<and> (update_artifact_complete k tid up allowed s' = Inr (y, s2) \<longrightarrow> y = f \<and> s2 = s' \<and> same_upload f up)"
proof -
  have g: "get_artifact s' k = Some f" using uploads.run_entry [OF assms(2,1), of k f] assms(3,4) by simp
  moreover have "y = f \<and> s2 = s' \<and> same_upload f up" if "update_artifact_complete k tid up allowed s' = Inr (y, s2)"
    using that
  proof (cases rule: complete_upload_cases)
    case 1
    then show ?thesis using g by (simp add: the_artifact_def)
  next
    case (2 x)
    then show ?thesis using g assms(4) by (simp add: the_artifact_def)
  qed
  ultimately show ?thesis by blast
qed

text \<open>C35: a queued job reads the input it was queued with.  Queueing a submission needs exactly one upload, a
  complete one, and as long as the submission takes no inputs, whatever other operations run, the job that
  asks for the submission's artifacts gets exactly that row.\<close>

theorem queued_input_is_fixed:
  assumes "store_ok s" and "JobStatus_validate st = None" and "queue_submission_job st new ver now s = Inr (u, s1)"
    and "(frozen_step (SubmissionProcessingState.submission_id new) (JobStatus.tenant_id st))\<^sup>*\<^sup>* s1 s'"
    and "the_submission s' (SubmissionProcessingState.submission_id new) (JobStatus.tenant_id st) = Some sub"
  shows "\<exists>f. ArtifactRow.status f = ''COMPLETE'' \<and> f \<in> set (artifacts s)
     \<and> artifacts_for (SubmissionRow.activity_id sub) (JobStatus.tenant_id st)
         (Some (SubmissionProcessingState.submission_id new)) only s' = [f]"
proof -
  let ?sid = "SubmissionProcessingState.submission_id new" and ?tid = "JobStatus.tenant_id st"
  have ok1: "store_ok s1" by (rule store_step_ok [OF assms(1) store_step.job [OF job_step.queue_submission [OF assms(2,3)]]])
  obtain f where f: "inputs_of ?sid ?tid s = [f]" "ArtifactRow.status f = ''COMPLETE''" "inputs_of ?sid ?tid s1 = [f]"
    using queued_inputs [OF assms(3)] by blast
  have run: "store_ok s'" "inputs_of ?sid ?tid s' = [f]" using frozen_run [OF assms(4) ok1 f(3,2)] by blast+
  have "f \<in> set (inputs_of ?sid ?tid s)" "f \<in> set (inputs_of ?sid ?tid s')" using f(1) run(2) by simp_all
  then have mem: "f \<in> set (artifacts s)" "f \<in> set (artifacts s')" "ArtifactRow.submission_id f = Some ?sid" "ArtifactRow.tenant_id f = ?tid"
    by (simp_all add: inputs_of_def)
  then have "placed s' f" using run(1) by (simp add: store_ok_def)
  then have "ArtifactRow.activity_id f = SubmissionRow.activity_id sub"
    using placed_activity [OF _ mem(3)] assms(5) mem(4) run(1) by (simp add: store_ok_def)
  then have "artifacts_for (SubmissionRow.activity_id sub) ?tid (Some ?sid) only s' = [f]"
    using run(2) f(2) by (simp add: artifacts_for_inputs)
  then show ?thesis using f(2) mem(1) by blast
qed


definition ex_activity :: ActivityRow where
  "ex_activity = \<lparr>ActivityRow.ident = ''act_a'', tenant_id = ''tenant_a'', status = ''DRAFT'', config = JObj [],
     blueprint_policy = JObj [], created_by = ''user_a'', created_at = utc_time 0, updated_at = utc_time 0\<rparr>"

definition ex_intake :: JobStore where
  "ex_intake = ex_empty\<lparr>activities := [ex_activity]\<rparr>"

lemma ex_intake_ok: "store_ok ex_empty" "store_ok ex_intake"
  using ex_initial
  by (simp_all add: store_ok_def placed_def ex_intake_def ex_activity_def ex_empty_def place_of_def initial_store_def
      integrity_def content_integrity_def)

lemma ex_queue_step: "store_step ex_empty (snd (projr ex_queue))"
proof -
  have "JobStatus_validate (ex_status ''QUEUED'' 0) = None" by code_simp
  then have "job_step ex_empty (snd (projr ex_queue))" by (rule job_step.queue_submission) (rule ex_steps(1))
  then show ?thesis by (rule store_step.job)
qed

theorem accepted_upload_is_immutable_witness: "get_artifact (snd (projr ex_queue)) ''art_a'' = get_artifact ex_empty ''art_a''"
proof -
  obtain f where f: "get_artifact ex_empty ''art_a'' = Some f" "ArtifactRow.status f = ''COMPLETE''"
    by (simp add: get_artifact_def get_row_def ex_empty_def)
  have "store_step\<^sup>*\<^sup>* ex_empty (snd (projr ex_queue))" by (rule r_into_rtranclp, rule ex_queue_step)
  from accepted_upload_is_immutable [OF ex_intake_ok(1) this f] f(1) show ?thesis by simp
qed

theorem queued_input_is_fixed_witness:
  "\<exists>f. ArtifactRow.status f = ''COMPLETE'' \<and> artifacts_for ''act_a'' ''tenant_a'' (Some ''sub_a'') True (snd (projr ex_queue)) = [f]"
proof -
  have st: "JobStatus_validate (ex_status ''QUEUED'' 0) = None" by code_simp
  have "list_ex (\<lambda>x. SubmissionRow.activity_id x = ''act_a'' \<and> the_submission (snd (projr ex_queue)) ''sub_a'' ''tenant_a'' = Some x)
      (submissions (snd (projr ex_queue)))" by code_simp
  then obtain sub where sub: "the_submission (snd (projr ex_queue)) ''sub_a'' ''tenant_a'' = Some sub"
      "SubmissionRow.activity_id sub = ''act_a''" by (auto simp: list_ex_iff)
  have ids: "SubmissionProcessingState.submission_id (ex_state SubmissionProcessingStatus.VALIDATING (Some ''job_a'')) = ''sub_a''"
      "JobStatus.tenant_id (ex_status ''QUEUED'' 0) = ''tenant_a''" by (simp_all add: ex_state_def ex_status_def)
  from queued_input_is_fixed [OF ex_intake_ok(1) st ex_steps(1) rtranclp.rtrancl_refl, unfolded ids, OF sub(1)]
  show ?thesis unfolding sub(2) by blast
qed

text \<open>Every upload has its place.  Whatever operations run, every artifact names an activity of its own
  tenant, or a submission of its own tenant and activity; identifiers, scopes and object keys stay unique.\<close>

theorem uploads_stay_placed:
  assumes "store_ok s" and "store_step\<^sup>*\<^sup>* s s'" and "f \<in> set (artifacts s')"
  shows "integrity s' \<and> (case ArtifactRow.submission_id f of
       None \<Rightarrow> (\<exists>a \<in> set (activities s'). ActivityRow.ident a = ArtifactRow.activity_id f \<and> ActivityRow.tenant_id a = ArtifactRow.tenant_id f)
     | Some sid \<Rightarrow> (\<exists>x \<in> set (submissions s'). SubmissionRow.ident x = sid \<and> SubmissionRow.tenant_id x = ArtifactRow.tenant_id f
          \<and> SubmissionRow.activity_id x = ArtifactRow.activity_id f))"
proof -
  have ok: "store_ok s'" by (rule store_run_ok [OF assms(2,1)])
  then have "placed s' f" using assms(3) by (simp add: store_ok_def)
  then show ?thesis
    using ok by (cases "ArtifactRow.submission_id f") (auto simp: placed_def store_ok_def place_of_def owner_of_def image_iff)
qed

theorem uploads_stay_placed_witness: "integrity (snd (projr ex_queue))"
proof -
  have st: "store_step\<^sup>*\<^sup>* ex_empty (snd (projr ex_queue))" by (rule r_into_rtranclp, rule ex_queue_step)
  have "artifacts (snd (projr ex_queue)) \<noteq> []" by code_simp
  then obtain f where "f \<in> set (artifacts (snd (projr ex_queue)))" by (meson list.set_sel(1))
  from uploads_stay_placed [OF ex_intake_ok(1) st this] show ?thesis by blast
qed

text \<open>No configuration is overwritten unread.  After an update succeeds, whatever else happens, the next
  update that succeeds carries the hash of the configuration the first one wrote.\<close>

theorem no_lost_update:
  assumes "integrity s" and "update_activity_config aid tid cfg policy etg now s = Inr (x, s1)"
    and "(other_step aid)\<^sup>*\<^sup>* s1 s'" and "update_activity_config aid tid2 cfg2 policy2 etg2 now2 s' = Inr (y, s2)"
  shows "etg2 = [CHR 0x22] @ canonical_hash cfg @ [CHR 0x22] \<and> tid2 = tid"
proof -
  obtain a where a: "the_activity s aid tid = Some a" "s1 = put_activity x s" "integrity s1"
      "x = a\<lparr>ActivityRow.config := cfg, ActivityRow.blueprint_policy := policy, ActivityRow.updated_at := now\<rparr>"
    using assms(2) by (rule configure_cases)
  have id: "ActivityRow.ident a = aid" "ActivityRow.tenant_id a = tid"
    using a(1) activity_table.lookup_hit by (auto simp: the_activity_def)
  have "get_activity s1 aid = Some x"
    using activity_table.lookup_replace [of s x] assms(1) a id by (simp add: the_activity_def integrity_def)
  moreover have c: "charter_of x = ((aid, tid), cfg, policy)" using a(4) id by (simp add: charter_of_def owner_of_def)
  ultimately have "config_at s1 aid = Some ((aid, tid), cfg, policy)" by (simp add: config_at_def)
  then have "config_at s' aid = Some ((aid, tid), cfg, policy)" using other_run_config [OF assms(3) a(3)] by simp
  moreover obtain b where "the_activity s' aid tid2 = Some b" "config_etag b = etg2"
    using assms(4) by (rule configure_cases)
  ultimately show ?thesis by (auto simp: config_at_def the_activity_def charter_of_def owner_of_def config_etag_def)
qed

lemma ex_configured:
  "\<exists>x s1. update_activity_config ''act_a'' ''tenant_a'' (JObj [(''n'', JInt 1)]) (JObj []) (config_etag ex_activity) (utc_time 1) ex_intake
     = Inr (x, s1)"
  using ex_intake_ok(2)
  by (simp add: update_activity_config_def the_activity_def get_activity_def get_row_def ex_intake_def ex_activity_def of_tenant_def
      found_def Let_def commit_def conflict_if_def raise_if_def guarded_def put_activity_def set_row_def store_ok_def integrity_def
      content_integrity_def)

theorem no_lost_update_witness:
  "\<exists>s1. \<not> (\<exists>y s2. update_activity_config ''act_a'' ''tenant_a'' (JObj []) (JObj []) ''stale'' (utc_time 2) s1 = Inr (y, s2))"
proof -
  obtain x s1 where "update_activity_config ''act_a'' ''tenant_a'' (JObj [(''n'', JInt 1)]) (JObj []) (config_etag ex_activity)
      (utc_time 1) ex_intake = Inr (x, s1)" using ex_configured by blast
  note first = this
  have "integrity ex_intake" using ex_intake_ok(2) by (simp add: store_ok_def)
  note next_update = no_lost_update [OF this first rtranclp.rtrancl_refl, THEN conjunct1]
  have "\<not> (\<exists>y s2. update_activity_config ''act_a'' ''tenant_a'' (JObj []) (JObj []) ''stale'' (utc_time 2) s1 = Inr (y, s2))"
  proof (rule notI, elim exE)
    fix y s2
    assume "update_activity_config ''act_a'' ''tenant_a'' (JObj []) (JObj []) ''stale'' (utc_time 2) s1 = Inr (y, s2)"
    from next_update [OF this] show False by simp
  qed
  then show ?thesis by (rule exI)
qed

text \<open>A batch of submissions is stored whole or not at all, and exactly when it is well formed: it is not
  empty, it shares one tenant and one activity, which exists, and no two of its rows, nor one of its rows and
  a stored one, have the same identifier or the same subject within the activity.\<close>

theorem batch_is_atomic:
  assumes "integrity s"
  shows "create_submissions rows s = Inr (rs, s') \<longleftrightarrow>
     rs = rows \<and> s' = s\<lparr>submissions := submissions s @ rows\<rparr> \<and> rows \<noteq> []
     \<and> list_all (\<lambda>r. SubmissionRow.tenant_id r = SubmissionRow.tenant_id (hd rows)
          \<and> SubmissionRow.activity_id r = SubmissionRow.activity_id (hd rows)) rows
     \<and> the_activity s (SubmissionRow.activity_id (hd rows)) (SubmissionRow.tenant_id (hd rows)) \<noteq> None
     \<and> distinct (map SubmissionRow.ident (submissions s @ rows)) \<and> distinct (map subject_of (submissions s @ rows))"
proof (cases rows)
  case Nil
  then show ?thesis by (simp add: create_submissions_def)
next
  case (Cons r rest)
  let ?tid = "SubmissionRow.tenant_id r" and ?aid = "SubmissionRow.activity_id r"
  let ?share = "list_all (\<lambda>x. SubmissionRow.tenant_id x = ?tid \<and> SubmissionRow.activity_id x = ?aid) rows"
  let ?free = "\<not> list_ex (\<lambda>x. SubmissionRow.tenant_id x = ?tid \<and> SubmissionRow.activity_id x = ?aid
      \<and> SubmissionRow.subject_ref x \<in> set (map SubmissionRow.subject_ref rows)) (submissions s)"
  let ?new = "s\<lparr>submissions := submissions s @ rows\<rparr>"
  have run: "create_submissions rows s = Inr (rs, s') \<longleftrightarrow> ?share
      \<and> distinct (map SubmissionRow.subject_ref rows) \<and> distinct (map SubmissionRow.ident rows)
      \<and> the_activity s ?aid ?tid \<noteq> None \<and> ?free \<and> integrity ?new \<and> rs = rows \<and> s' = ?new"
    by (auto simp del: first_error_Cons simp add: create_submissions_def Let_def first_error_None_Cons Cons list_ex_iff list_all_iff)
  have new: "integrity ?new \<longleftrightarrow> distinct (map SubmissionRow.ident (submissions s @ rows)) \<and> distinct (map subject_of (submissions s @ rows))"
    using assms by (auto simp: integrity_def content_integrity_def)
  have subj: "distinct (map subject_of (submissions s @ rows)) \<longleftrightarrow> distinct (map SubmissionRow.subject_ref rows) \<and> ?free" if ?share
  proof -
    have sub: "subject_of x = (?tid, ?aid, SubmissionRow.subject_ref x)" if "x \<in> set rows" for x
      using that \<open>?share\<close> by (simp add: list_all_iff subject_of_def)
    then have "distinct (map subject_of rows) \<longleftrightarrow> distinct (map SubmissionRow.subject_ref rows)"
      by (auto simp: distinct_map inj_on_def)
    moreover have "subject_of x \<noteq> subject_of y \<longleftrightarrow> \<not> (SubmissionRow.tenant_id x = ?tid \<and> SubmissionRow.activity_id x = ?aid
        \<and> SubmissionRow.subject_ref x = SubmissionRow.subject_ref y)" if "y \<in> set rows" for x y
      unfolding sub [OF that] by (simp add: subject_of_def)
    then have "subject_of ` set (submissions s) \<inter> subject_of ` set rows = {} \<longleftrightarrow> ?free"
      unfolding disjoint_iff_not_equal ball_simps list_ex_iff set_map by blast
    moreover have "distinct (map subject_of (submissions s))" using assms by (simp add: integrity_def content_integrity_def)
    ultimately show ?thesis unfolding map_append distinct_append set_map by (simp only: simp_thms)
  qed
  have hd: "hd rows = r" "rows \<noteq> []" by (simp_all add: Cons)
  have "distinct (map SubmissionRow.ident rows)" if "distinct (map SubmissionRow.ident (submissions s @ rows))"
    using that by simp
  then show ?thesis unfolding run new hd(1) using subj hd(2) by blast
qed

definition ex_second :: SubmissionRow where
  "ex_second = \<lparr>SubmissionRow.ident = ''sub_b'', tenant_id = ''tenant_a'', activity_id = ''act_a'', subject_ref = ''subject_b'',
     blueprint_version = None, state = ex_state SubmissionProcessingStatus.UPLOADED None, active_job_id = None,
     created_at = utc_time 1, updated_at = utc_time 1\<rparr>"

theorem batch_is_atomic_witness:
  "create_submissions [ex_second] ex_intake = Inr ([ex_second], ex_intake\<lparr>submissions := submissions ex_intake @ [ex_second]\<rparr>)"
proof -
  have "integrity ex_intake" using ex_intake_ok(2) by (simp add: store_ok_def)
  note iff = batch_is_atomic [OF this]
  show ?thesis
    unfolding iff by (simp add: ex_second_def ex_intake_def ex_empty_def ex_activity_def subject_of_def the_activity_def
        get_activity_def get_row_def of_tenant_def)
qed

end
