(* ===== verification/Review.thy ===== *)
theory Review
  imports JobHistory Canonical WriteOnce
begin

text \<open>
  What teachers do to a finished assessment: \<open>approve_assessment_atomic\<close> and
  \<open>apply_question_review_action\<close> of \<open>web/repository.py\<close>, with the lookups of revisions, guides and audit
  events they share.  A row of \<open>question_review_actions\<close> is the record it stores.
\<close>

section \<open>Revisions\<close>

text \<open>\<open>order_by(version.desc()).limit(1)\<close>.\<close>

definition newest :: "AssessmentRow list \<Rightarrow> AssessmentRow option" where
  "newest rows = (case sort_key (\<lambda>r. - AssessmentRow.version r) rows of [] \<Rightarrow> None | r # _ \<Rightarrow> Some r)"

definition revisions :: "string \<Rightarrow> string \<Rightarrow> JobStore \<Rightarrow> AssessmentRow list" where
  "revisions aid tid s = filter (\<lambda>r. AssessmentRow.assessment_id r = aid \<and> AssessmentRow.tenant_id r = tid) (assessments s)"

definition latest_assessment :: "string \<Rightarrow> string \<Rightarrow> JobStore \<Rightarrow> repo_error + AssessmentRow" where
  "latest_assessment sid tid s = found (newest (filter (\<lambda>r. AssessmentRow.submission_id r = sid
     \<and> AssessmentRow.tenant_id r = tid) (assessments s))) ''assessment not found''"

definition assessment_by_id :: "string \<Rightarrow> string \<Rightarrow> JobStore \<Rightarrow> repo_error + AssessmentRow" where
  "assessment_by_id aid tid s = found (newest (revisions aid tid s)) ''assessment not found''"

definition guide_for_assessment :: "string \<Rightarrow> string \<Rightarrow> JobStore \<Rightarrow> repo_error + GuideRow" where
  "guide_for_assessment aid tid s = found (find (\<lambda>g. GuideRow.assessment_id g = aid \<and> GuideRow.tenant_id g = tid)
     (guides s)) ''guide not found''"

definition add_assessment :: "AssessmentRow \<Rightarrow> JobStore \<Rightarrow> JobStore" where
  "add_assessment r s = s\<lparr>assessments := assessments s @ [r]\<rparr>"

definition add_audit :: "AuditEventRow \<Rightarrow> JobStore \<Rightarrow> JobStore" where
  "add_audit e s = s\<lparr>audits := audits s @ [e]\<rparr>"

section \<open>Audit events\<close>

definition event_id :: "json list \<Rightarrow> repo_error + string" where
  "event_id parts = (case stable_id ''evt'' parts of Inl msg \<Rightarrow> Inl (ValueError msg) | Inr i \<Rightarrow> Inr i)"

text \<open>Two readings of the clock: the one in the identifier and the default of \<open>occurred_at\<close>.\<close>

definition audit ::
  "string \<Rightarrow> string \<Rightarrow> string \<Rightarrow> string \<Rightarrow> json \<Rightarrow> datetime \<Rightarrow> datetime \<Rightarrow> JobStore \<Rightarrow> repo_error + AuditEventRow \<times> JobStore" where
  "audit tid ev agg who load t now s =
     and_then (case canonical_time t of Inl msg \<Rightarrow> Inl (ValueError msg) | Inr ts \<Rightarrow> Inr ts) (\<lambda>ts.
     and_then (event_id [JStr tid, JStr ev, JStr agg, JStr who, JStr ts]) (\<lambda>i.
       let e = \<lparr>AuditEventRow.ident = i, tenant_id = tid, event_type = ev, aggregate_id = agg, actor_id = who,
             payload = load, occurred_at = now\<rparr>
       in commit (e, add_audit e s)))"

definition audit_events :: "string \<Rightarrow> string \<Rightarrow> string option \<Rightarrow> string option \<Rightarrow> JobStore \<Rightarrow> AuditEventRow list" where
  "audit_events tid ev agg who s =
     sort_key (\<lambda>e. (instant (AuditEventRow.occurred_at e), AuditEventRow.ident e))
       (filter (\<lambda>e. AuditEventRow.tenant_id e = tid \<and> AuditEventRow.event_type e = ev
          \<and> (case agg of None \<Rightarrow> True | Some a \<Rightarrow> AuditEventRow.aggregate_id e = a)
          \<and> (case who of None \<Rightarrow> True | Some a \<Rightarrow> AuditEventRow.actor_id e = a)) (audits s))"

section \<open>Approval\<close>

definition approved_state :: "SubmissionProcessingState \<Rightarrow> datetime \<Rightarrow> SubmissionProcessingState" where
  "approved_state st t = st\<lparr>SubmissionProcessingState.status := SubmissionProcessingStatus.APPROVED,
     SubmissionProcessingState.updated_at := t\<rparr>"

definition approval_event :: "AssessmentRow \<Rightarrow> string \<Rightarrow> datetime \<Rightarrow> string \<Rightarrow> AuditEventRow" where
  "approval_event r who t i = \<lparr>AuditEventRow.ident = i, tenant_id = AssessmentRow.tenant_id r,
     event_type = ''assessment.approved'', aggregate_id = AssessmentRow.assessment_id r, actor_id = who,
     payload = JObj [(''assessment_version'', JInt (AssessmentRow.version r))], occurred_at = t\<rparr>"

definition approved_store ::
  "AssessmentRow \<Rightarrow> SubmissionRow \<Rightarrow> SubmissionProcessingState \<Rightarrow> string \<Rightarrow> datetime \<Rightarrow> string \<Rightarrow> JobStore \<Rightarrow> JobStore" where
  "approved_store r sub st who t i s = add_audit (approval_event r who t i)
     (put_submission (sub\<lparr>SubmissionRow.state := approved_state st t, SubmissionRow.updated_at := t\<rparr>) (add_assessment r s))"

definition approve_assessment_atomic ::
  "string \<Rightarrow> AssessmentRow \<Rightarrow> string \<Rightarrow> JobStore \<Rightarrow> repo_error + AssessmentRow \<times> JobStore" where
  "approve_assessment_atomic expected_etag r who s =
     and_then (checked Assessment_validate (AssessmentRow.data r)) (\<lambda>approved.
     guarded (first_error [
         raise_if (Assessment.status approved \<noteq> WorkflowStatus.APPROVED)
           (ValueError ''approved_row must contain an APPROVED assessment''),
         raise_if (Assessment.approved_by approved \<noteq> Some who \<or> Assessment.approved_at approved = None)
           (ValueError ''approval actor metadata is inconsistent'')])
      (on_integrity ''ASSESSMENT_VERSION_CONFLICT''
       (and_then (assessment_by_id (AssessmentRow.assessment_id r) (AssessmentRow.tenant_id r) s) (\<lambda>latest.
        guarded (conflict_if (AssessmentRow.etag latest \<noteq> expected_etag) ''ETAG_MISMATCH'')
        (and_then (checked Assessment_validate (AssessmentRow.data latest)) (\<lambda>current.
         guarded (first_error [
           conflict_if (Assessment.status current \<noteq> WorkflowStatus.NEEDS_REVIEW) ''ASSESSMENT_NOT_REVIEWABLE'',
           conflict_if (AssessmentRow.version r \<noteq> AssessmentRow.version latest + 1
             \<or> AssessmentRow.submission_id r \<noteq> AssessmentRow.submission_id latest
             \<or> Assessment.submission_id approved \<noteq> AssessmentRow.submission_id latest) ''ASSESSMENT_VERSION_CONFLICT''])
         (and_then (found (the_submission s (AssessmentRow.submission_id latest) (AssessmentRow.tenant_id latest))
             ''submission not found'') (\<lambda>sub.
          and_then (checked SubmissionProcessingState_validate (SubmissionRow.state sub)) (\<lambda>st.
          guarded (conflict_if (SubmissionProcessingState.status st \<noteq> SubmissionProcessingStatus.NEEDS_REVIEW)
              ''ASSESSMENT_SUBMISSION_NOT_REVIEWABLE'')
          (and_then (event_id [JStr (AssessmentRow.tenant_id r), JStr ''assessment.approved'',
               JStr (AssessmentRow.assessment_id r), JStr who, JInt (AssessmentRow.version r)]) (\<lambda>i.
           commit (r, approved_store r sub st who (the (Assessment.approved_at approved)) i s))))))))))))"

section \<open>Question review actions\<close>

fun failure_name :: "FailureClass \<Rightarrow> string" where
  "failure_name FailureClass.TRANSIENT = ''TRANSIENT''"
| "failure_name FailureClass.PERMANENT = ''PERMANENT''"
| "failure_name FailureClass.SECURITY = ''SECURITY''"
| "failure_name FailureClass.VALIDATION = ''VALIDATION''"
| "failure_name FailureClass.PRECONDITION = ''PRECONDITION''"
| "failure_name FailureClass.PROVIDER = ''PROVIDER''"
| "failure_name FailureClass.CANCELLATION = ''CANCELLATION''"

lemma failure_of_name [simp]: "failure_of (failure_name c) = Some c"
  by (cases c) (simp_all add: failure_of_def)

definition applied :: "QuestionReviewActionRecord \<Rightarrow> bool" where
  "applied rec \<longleftrightarrow> QuestionReviewActionRecord.status rec = QuestionReviewRecordStatus.APPLIED"

definition action_type :: "QuestionReviewActionRecord \<Rightarrow> QuestionReviewActionType" where
  "action_type rec = QuestionReviewAction.action (QuestionReviewActionRecord.action rec)"

definition mutates_version :: "QuestionReviewActionRecord \<Rightarrow> bool" where
  "mutates_version rec \<longleftrightarrow> applied rec \<and> action_type rec \<noteq> QuestionReviewActionType.ACCEPT"

text \<open>The part of the transaction that adds the resulting version and merges the guide.\<close>

definition result_error :: "QuestionReviewActionRecord \<Rightarrow> AssessmentRow \<Rightarrow> bool" where
  "result_error rec r \<longleftrightarrow> AssessmentRow.tenant_id r \<noteq> QuestionReviewActionRecord.tenant_id rec
     \<or> AssessmentRow.submission_id r \<noteq> QuestionReviewActionRecord.submission_id rec
     \<or> AssessmentRow.assessment_id r \<noteq> QuestionReviewActionRecord.assessment_id rec
     \<or> Some (AssessmentRow.version r) \<noteq> QuestionReviewActionRecord.assessment_version_after rec"

definition guide_error :: "QuestionReviewActionRecord \<Rightarrow> GuideRow \<Rightarrow> bool" where
  "guide_error rec g \<longleftrightarrow> GuideRow.tenant_id g \<noteq> QuestionReviewActionRecord.tenant_id rec
     \<or> GuideRow.submission_id g \<noteq> QuestionReviewActionRecord.submission_id rec
     \<or> GuideRow.assessment_id g \<noteq> QuestionReviewActionRecord.assessment_id rec"

definition add_resulting ::
  "QuestionReviewActionRecord \<Rightarrow> AssessmentRow option \<Rightarrow> GuideRow option \<Rightarrow> JobStore \<Rightarrow> repo_error + JobStore" where
  "add_resulting rec res gd s =
     (if mutates_version rec then
        (case res of None \<Rightarrow> Inl (Conflict ''QUESTION_REVIEW_RESULTING_VERSION_REQUIRED'')
         | Some r \<Rightarrow> guarded (conflict_if (result_error rec r) ''QUESTION_REVIEW_RESULTING_VERSION_MISMATCH'')
            (and_then (checked Assessment_validate (AssessmentRow.data r)) (\<lambda>d.
             (case gd of None \<Rightarrow> Inr (add_assessment r s)
              | Some g \<Rightarrow>
                  if action_type rec \<in> {QuestionReviewActionType.EDIT, QuestionReviewActionType.REGENERATE}
                  then guarded (conflict_if (guide_error rec g) ''QUESTION_REVIEW_GUIDE_MISMATCH'')
                    (Inr ((add_assessment r s)\<lparr>guides := merge_guide g (guides s)\<rparr>))
                  else Inl (Conflict ''QUESTION_REVIEW_GUIDE_NOT_ALLOWED'')))))
      else guarded (conflict_if (res \<noteq> None \<or> gd \<noteq> None) ''QUESTION_REVIEW_UNEXPECTED_RESULTING_VERSION'') (Inr s))"

text \<open>The terminal projection of the job that ran the action.\<close>

definition terminal_row :: "JobRow \<Rightarrow> QuestionReviewActionRecord \<Rightarrow> FailureClass option \<Rightarrow> repo_error + JobRow" where
  "terminal_row job rec failure =
     (let j = job\<lparr>JobRow.finished_at := Some (QuestionReviewActionRecord.recorded_at rec), JobRow.next_attempt_at := None\<rparr>
      in if applied rec then guarded (raise_if (failure \<noteq> None) (ValueError ''an applied action cannot fail its job''))
           (Inr (j\<lparr>JobRow.stage := ''QUESTION_ACTION'', JobRow.status := ''SUCCEEDED'', JobRow.progress := 1,
                   JobRow.failure_class := None, JobRow.diagnostics := []\<rparr>))
         else (case failure of None \<Rightarrow> Inl (ValueError ''a failed action requires failure_class'')
           | Some c \<Rightarrow> Inr (j\<lparr>JobRow.status := ''FAILED'', JobRow.failure_class := Some (failure_name c),
               JobRow.diagnostics := QuestionReviewActionRecord.diagnostics rec\<rparr>)))"

definition persisted_question :: "Assessment \<Rightarrow> QuestionReviewActionRecord \<Rightarrow> SelectedQuestion option" where
  "persisted_question a rec = find (\<lambda>q. SelectedQuestion.question_id q
     = QuestionReviewAction.question_id (QuestionReviewActionRecord.action rec)) (Assessment.questions a)"

text \<open>What follows the checks of the job, which is \<open>None\<close> for an action outside the queue.\<close>

definition apply_record ::
  "QuestionReviewActionRecord \<Rightarrow> AssessmentRow option \<Rightarrow> GuideRow option \<Rightarrow> JobRow option \<Rightarrow> FailureClass option
     \<Rightarrow> JobStore \<Rightarrow> repo_error + QuestionReviewActionRecord option \<times> JobStore" where
  "apply_record rec res gd locked failure s =
     and_then (found (newest (revisions (QuestionReviewActionRecord.assessment_id rec) (QuestionReviewActionRecord.tenant_id rec) s))
         ''assessment version not found'') (\<lambda>latest.
     guarded (conflict_if (AssessmentRow.submission_id latest \<noteq> QuestionReviewActionRecord.submission_id rec
          \<or> AssessmentRow.version latest \<noteq> QuestionReviewActionRecord.assessment_version_before rec) ''QUESTION_REVIEW_STALE_VERSION'')
     (and_then (found (case the_submission s (QuestionReviewActionRecord.submission_id rec) (QuestionReviewActionRecord.tenant_id rec) of
           None \<Rightarrow> None | Some sub \<Rightarrow> if SubmissionRow.activity_id sub = QuestionReviewActionRecord.activity_id rec then Some sub else None)
         ''submission not found'') (\<lambda>sub.
      and_then (checked Assessment_validate (AssessmentRow.data latest)) (\<lambda>current.
      and_then (found (persisted_question current rec) ''question not found'') (\<lambda>q.
      guarded (conflict_if (q \<noteq> QuestionReviewActionRecord.before_question rec) ''QUESTION_REVIEW_BEFORE_SNAPSHOT_MISMATCH'')
      (and_then (add_resulting rec res gd s) (\<lambda>s1.
       let s2 = s1\<lparr>review_actions := review_actions s1 @ [rec]\<rparr>
       in case locked of None \<Rightarrow> commit (Some rec, s2)
          | Some job \<Rightarrow> and_then (terminal_row job rec failure) (\<lambda>j. commit (Some rec, put_job j s2)))))))))"

definition apply_question_review_action ::
  "QuestionReviewActionRecord \<Rightarrow> AssessmentRow option \<Rightarrow> GuideRow option \<Rightarrow> string option \<Rightarrow> FailureClass option
     \<Rightarrow> JobStore \<Rightarrow> repo_error + QuestionReviewActionRecord option \<times> JobStore" where
  "apply_question_review_action rec res gd terminal_job failure s =
     on_integrity ''QUESTION_REVIEW_ACTION_ALREADY_EXISTS''
      (case terminal_job of None \<Rightarrow> apply_record rec res gd None failure s
       | Some jid \<Rightarrow>
          and_then (lock_job s jid (QuestionReviewActionRecord.tenant_id rec)) (\<lambda>job.
          guarded (conflict_if (JobRow.kind job \<noteq> ''QUESTION_ACTION''
              \<or> JobRow.aggregate_id job \<noteq> QuestionReviewActionRecord.submission_id rec) ''QUESTION_REVIEW_JOB_MISMATCH'')
          (if JobRow.control_state job \<noteq> ''ACTIVE'' then
             (if JobRow.control_state job = ''CANCEL_REQUESTED'' then
                and_then (complete_cancellation job (QuestionReviewActionRecord.recorded_at rec) s) (\<lambda>p. commit (None, snd p))
              else Inr (None, s))
           else guarded (conflict_if (JobRow.status job \<noteq> ''RUNNING'') ''QUESTION_REVIEW_JOB_NOT_RUNNING'')
             (apply_record rec res gd (Some job) failure s))))"

definition question_review_actions ::
  "string \<Rightarrow> string \<Rightarrow> int option \<Rightarrow> string option \<Rightarrow> JobStore \<Rightarrow> QuestionReviewActionRecord list" where
  "question_review_actions tid aid ver qid s =
     sort_key (\<lambda>x. (instant (QuestionReviewActionRecord.recorded_at x), QuestionReviewActionRecord.record_id x))
       (filter (\<lambda>x. QuestionReviewActionRecord.tenant_id x = tid \<and> QuestionReviewActionRecord.assessment_id x = aid
          \<and> (case ver of None \<Rightarrow> True | Some v \<Rightarrow> QuestionReviewActionRecord.assessment_version_before x = v)
          \<and> (case qid of None \<Rightarrow> True | Some i \<Rightarrow> QuestionReviewAction.question_id (QuestionReviewActionRecord.action x) = i))
          (review_actions s))"

section \<open>What the operations do\<close>

lemma newest_Some:
  assumes "newest rows = Some r"
  shows "r \<in> set rows" and "x \<in> set rows \<Longrightarrow> AssessmentRow.version x \<le> AssessmentRow.version r"
proof -
  obtain rest where srt: "sort_key (\<lambda>r. - AssessmentRow.version r) rows = r # rest"
    using assms by (auto simp: newest_def split: list.splits)
  have mem: "set (r # rest) = set rows" using srt by (metis set_sort)
  then show "r \<in> set rows" by auto
  have "sorted (map (\<lambda>r. - AssessmentRow.version r) (r # rest))" using sorted_sort_key [of "\<lambda>r. - AssessmentRow.version r" rows] srt by simp
  then have "\<forall>x \<in> set (r # rest). AssessmentRow.version x \<le> AssessmentRow.version r" by auto
  then show "x \<in> set rows \<Longrightarrow> AssessmentRow.version x \<le> AssessmentRow.version r" using mem by blast
qed

lemma newest_None: "newest rows = None \<longleftrightarrow> rows = []"
proof -
  have "sort_key (\<lambda>r. - AssessmentRow.version r) rows = [] \<longleftrightarrow> rows = []" by (metis set_empty set_sort)
  then show ?thesis by (auto simp: newest_def split: list.splits)
qed

lemma newest_next:
  assumes "newest rows = Some l" and "AssessmentRow.version r = AssessmentRow.version l + 1"
  shows "newest (rows @ [r]) = Some r"
proof -
  obtain n where n: "newest (rows @ [r]) = Some n" using newest_None [of "rows @ [r]"] by auto
  note f = newest_Some [OF n]
  have "AssessmentRow.version r \<le> AssessmentRow.version n" using f(2) by simp
  moreover have "AssessmentRow.version n \<le> AssessmentRow.version l" if "n \<in> set rows" using newest_Some(2) [OF assms(1) that] .
  ultimately have "n = r" using f(1) assms(2) by auto
  then show ?thesis using n by simp
qed

lemma approve_cases:
  assumes "approve_assessment_atomic etg r who s = Inr (x, s')"
  obtains latest sub i where
    "newest (revisions (AssessmentRow.assessment_id r) (AssessmentRow.tenant_id r) s) = Some latest"
    "AssessmentRow.etag latest = etg" "Assessment.status (AssessmentRow.data latest) = WorkflowStatus.NEEDS_REVIEW"
    "AssessmentRow.version r = AssessmentRow.version latest + 1" "AssessmentRow.submission_id r = AssessmentRow.submission_id latest"
    "the_submission s (AssessmentRow.submission_id latest) (AssessmentRow.tenant_id latest) = Some sub"
    "SubmissionProcessingState.status (SubmissionRow.state sub) = SubmissionProcessingStatus.NEEDS_REVIEW"
    "Assessment.status (AssessmentRow.data r) = WorkflowStatus.APPROVED" "Assessment.approved_by (AssessmentRow.data r) = Some who"
    "x = r" "s' = approved_store r sub (SubmissionRow.state sub) who (the (Assessment.approved_at (AssessmentRow.data r))) i s"
    "integrity s'"
  using assms unfolding approve_assessment_atomic_def assessment_by_id_def and_then_Inr guarded_Inr on_integrity_Inr checked_Inr
    found_Inr commit_Inr first_error_None_Cons raise_if_None conflict_if_None prod.inject de_Morgan_disj not_not
  by (elim exE conjE) (simp only: snd_conv)

lemma add_resulting_cases:
  assumes "add_resulting rec res gd s = Inr s1"
  obtains "\<not> mutates_version rec" "s1 = s"
  | r where "mutates_version rec" "res = Some r" "\<not> result_error rec r" "assessments s1 = assessments s @ [r]"
      "jobs s1 = jobs s" "submissions s1 = submissions s" "review_actions s1 = review_actions s" "audits s1 = audits s"
proof (cases "mutates_version rec")
  case False
  then show ?thesis using assms by (intro that(1)) (auto simp: add_resulting_def)
next
  case True
  then obtain r where r: "res = Some r" using assms by (cases res) (auto simp: add_resulting_def)
  show ?thesis
    using assms True r by (intro that(2) [of r]) (auto simp: add_resulting_def add_assessment_def split: option.splits if_splits)
qed

lemma terminal_row_facts:
  assumes "terminal_row job rec failure = Inr j"
  shows "JobRow.ident j = JobRow.ident job \<and> JobRow.kind j = JobRow.kind job"
  using assms by (auto simp: terminal_row_def Let_def split: if_splits option.splits)

lemma apply_record_cases:
  assumes "apply_record rec res gd locked failure s = Inr (x, s')"
  obtains latest s1 where
    "newest (revisions (QuestionReviewActionRecord.assessment_id rec) (QuestionReviewActionRecord.tenant_id rec) s) = Some latest"
    "AssessmentRow.submission_id latest = QuestionReviewActionRecord.submission_id rec"
    "AssessmentRow.version latest = QuestionReviewActionRecord.assessment_version_before rec"
    "persisted_question (AssessmentRow.data latest) rec = Some (QuestionReviewActionRecord.before_question rec)"
    "add_resulting rec res gd s = Inr s1" "x = Some rec" "integrity s'"
    "assessments s' = assessments s1" "submissions s' = submissions s1" "audits s' = audits s1"
    "review_actions s' = review_actions s1 @ [rec]"
proof -
  from assms obtain latest s1 where l:
    "newest (revisions (QuestionReviewActionRecord.assessment_id rec) (QuestionReviewActionRecord.tenant_id rec) s) = Some latest"
    "AssessmentRow.submission_id latest = QuestionReviewActionRecord.submission_id rec"
    "AssessmentRow.version latest = QuestionReviewActionRecord.assessment_version_before rec"
    "persisted_question (AssessmentRow.data latest) rec = Some (QuestionReviewActionRecord.before_question rec)"
    "add_resulting rec res gd s = Inr s1"
    and rest: "(case locked of None \<Rightarrow> commit (Some rec, s1\<lparr>review_actions := review_actions s1 @ [rec]\<rparr>)
        | Some job \<Rightarrow> and_then (terminal_row job rec failure)
            (\<lambda>j. commit (Some rec, put_job j (s1\<lparr>review_actions := review_actions s1 @ [rec]\<rparr>)))) = Inr (x, s')"
    unfolding apply_record_def Let_def and_then_Inr guarded_Inr found_Inr checked_Inr conflict_if_None de_Morgan_disj not_not by blast
  have "x = Some rec \<and> integrity s' \<and> assessments s' = assessments s1 \<and> submissions s' = submissions s1
      \<and> audits s' = audits s1 \<and> review_actions s' = review_actions s1 @ [rec]"
    using rest by (cases locked) (auto simp: put_job_def)
  then show thesis using that [OF l] by blast
qed

end
