(* ===== verification/ReviewClaims.thy ===== *)
theory ReviewClaims
  imports Review
begin

text \<open>
  The review of an assessment as runs of approvals and review actions, and what they promise: an approval
  happens once, with its audit event; revisions are immutable and follow one another; a review record is
  applied at most once.
\<close>

section \<open>Runs\<close>

inductive review_step :: "JobStore \<Rightarrow> JobStore \<Rightarrow> bool" where
  approve: "approve_assessment_atomic etg r who s = Inr (x, s') \<Longrightarrow> review_step s s'"
| review: "QuestionReviewActionRecord_validate rec = None
    \<Longrightarrow> apply_question_review_action rec res gd job failure s = Inr (y, s') \<Longrightarrow> review_step s s'"
| log_event: "audit tid ev agg who load t now s = Inr (e, s') \<Longrightarrow> review_step s s'"

inductive_cases review_stepE: "review_step s s'"

lemma action_cases:
  assumes "apply_question_review_action rec res gd job failure s = Inr (y, s')"
  obtains "y = None" "assessments s' = assessments s" "submissions s' = submissions s"
      "review_actions s' = review_actions s" "integrity s \<Longrightarrow> integrity s'"
  | locked where "apply_record rec res gd locked failure s = Inr (y, s')"
proof (cases job)
  case None
  then show ?thesis using assms by (intro that(2)) (simp add: apply_question_review_action_def)
next
  case (Some jid)
  from assms obtain r where r: "lock_job s jid (QuestionReviewActionRecord.tenant_id rec) = Inr r" "JobRow.kind r = ''QUESTION_ACTION''"
    and rest: "(if JobRow.control_state r \<noteq> ''ACTIVE'' then
             (if JobRow.control_state r = ''CANCEL_REQUESTED'' then
                and_then (complete_cancellation r (QuestionReviewActionRecord.recorded_at rec) s) (\<lambda>p. commit (None, snd p))
              else Inr (None, s))
           else guarded (conflict_if (JobRow.status r \<noteq> ''RUNNING'') ''QUESTION_REVIEW_JOB_NOT_RUNNING'')
             (apply_record rec res gd (Some r) failure s)) = Inr (y, s')"
    unfolding apply_question_review_action_def Some option.case on_integrity_Inr and_then_Inr guarded_Inr conflict_if_None
      de_Morgan_disj not_not by blast
  show ?thesis
  proof (cases "JobRow.control_state r = ''ACTIVE''")
    case True
    then show ?thesis using rest by (intro that(2) [of "Some r"]) simp
  next
    case no: False
    have quiet: "complete_cancellation r (QuestionReviewActionRecord.recorded_at rec) s
        = Inr (cancelled_row r (QuestionReviewActionRecord.recorded_at rec), put_job (cancelled_row r (QuestionReviewActionRecord.recorded_at rec)) s)"
      using r(2) by (simp add: complete_cancellation_def Let_def)
    have "y = None \<and> (s' = s \<or> s' = put_job (cancelled_row r (QuestionReviewActionRecord.recorded_at rec)) s \<and> integrity s')"
      using rest no unfolding quiet by (auto split: if_splits)
    then show ?thesis by (intro that(1)) (auto simp: put_job_def)
  qed
qed

lemma newest_mem: "newest (revisions aid tid s) = Some r \<Longrightarrow> r \<in> set (assessments s) \<and> AssessmentRow.assessment_id r = aid
    \<and> AssessmentRow.tenant_id r = tid"
  using newest_Some(1) by (force simp: revisions_def)




lemma review_step_integrity:
  assumes "integrity s" and "review_step s s'"
  shows "integrity s'"
  using assms(2)
proof cases
  case approve
  then show ?thesis by (elim approve_cases)
next
  case (review rec res gd job failure y)
  from review(2) show ?thesis
    by (cases rule: action_cases) (use assms(1) in \<open>auto elim: apply_record_cases\<close>)
next
  case log_event
  then show ?thesis by (auto simp: audit_def Let_def)
qed





section \<open>Approved submissions and recorded actions\<close>

definition approved_at_rest :: "string \<Rightarrow> string \<Rightarrow> JobStore \<Rightarrow> bool" where
  "approved_at_rest sid tid s \<longleftrightarrow> (case the_submission s sid tid of None \<Rightarrow> False
     | Some sub \<Rightarrow> SubmissionProcessingState.status (SubmissionRow.state sub) = SubmissionProcessingStatus.APPROVED)"

lemma the_submission_same: "submissions s' = submissions s \<Longrightarrow> the_submission s' = the_submission s"
  by (simp add: fun_eq_iff the_submission_def get_submission_def)

lemma action_submissions:
  "apply_question_review_action rec res gd job failure s = Inr (y, s') \<Longrightarrow> submissions s' = submissions s"
  by (erule action_cases) (auto elim!: apply_record_cases add_resulting_cases)

lemma approved_submission:
  assumes "integrity s" and "the_submission s sid tid = Some sub"
  shows "the_submission (approved_store r sub st who t i s) sid tid
     = Some (sub\<lparr>SubmissionRow.state := approved_state st t, SubmissionRow.updated_at := t\<rparr>)"
    and "k \<noteq> sid \<Longrightarrow> the_submission (approved_store r sub st who t i s) k tid2 = the_submission s k tid2"
proof -
  let ?x = "sub\<lparr>SubmissionRow.state := approved_state st t, SubmissionRow.updated_at := t\<rparr>"
  have sub: "get_submission s sid = Some sub" "SubmissionRow.tenant_id sub = tid" "SubmissionRow.ident sub = sid"
    using assms(2) submission_table.lookup_hit by (auto simp: the_submission_def)
  have same: "get_submission (approved_store r sub st who t i s) = get_submission (put_submission ?x s)"
    by (simp add: fun_eq_iff approved_store_def get_submission_def add_audit_def put_submission_def add_assessment_def)
  have d: "distinct (map SubmissionRow.ident (submissions s))" using assms(1) by (simp add: integrity_def)
  show "the_submission (approved_store r sub st who t i s) sid tid = Some ?x"
    using submission_table.lookup_replace [of s ?x] d sub by (simp add: the_submission_def same)
  show "the_submission (approved_store r sub st who t i s) k tid2 = the_submission s k tid2" if "k \<noteq> sid"
    using submission_table.lookup_replace_other [of s k ?x] d sub that by (simp add: the_submission_def same)
qed

lemma step_approved:
  assumes "integrity s" and "review_step s s'" and "approved_at_rest sid tid s"
  shows "approved_at_rest sid tid s'"
  using assms(2)
proof cases
  case (approve etg r who x)
  then show ?thesis
  proof (cases rule: approve_cases)
    case (1 latest sub i)
    have "AssessmentRow.submission_id latest \<noteq> sid"
    proof
      assume same: "AssessmentRow.submission_id latest = sid"
      obtain y where y: "the_submission s sid tid = Some y"
          "SubmissionProcessingState.status (SubmissionRow.state y) = SubmissionProcessingStatus.APPROVED"
        using assms(3) by (auto simp: approved_at_rest_def split: option.splits)
      then have "y = sub" using 1(6) same by (simp add: the_submission_def)
      then show False using y(2) 1(7) by simp
    qed
    then show ?thesis
      using approved_submission(2) [OF assms(1) 1(6)] assms(3) by (simp add: 1(11) approved_at_rest_def)
  qed
next
  case (review rec res gd job failure y)
  from the_submission_same [OF action_submissions [OF review(2)]] show ?thesis using assms(3) by (simp add: approved_at_rest_def)
next
  case (log_event tid' ev agg who load t now e)
  then have "submissions s' = submissions s" by (auto simp: audit_def Let_def add_audit_def)
  from the_submission_same [OF this] show ?thesis using assms(3) by (simp add: approved_at_rest_def)
qed

lemma step_actions:
  assumes "review_step s s'"
  shows "set (review_actions s) \<subseteq> set (review_actions s')"
  using assms
proof cases
  case approve
  then show ?thesis
    by (elim approve_cases) (simp add: approved_store_def add_audit_def put_submission_def add_assessment_def)
next
  case review
  from review(2) show ?thesis by (elim action_cases) (auto elim!: apply_record_cases add_resulting_cases)
next
  case log_event
  then show ?thesis by (auto simp: audit_def Let_def add_audit_def)
qed

lemma run_review:
  assumes "review_step\<^sup>*\<^sup>* s s'" and "integrity s"
  shows "integrity s' \<and> set (review_actions s) \<subseteq> set (review_actions s')
     \<and> (approved_at_rest sid tid s \<longrightarrow> approved_at_rest sid tid s')"
  using assms
proof (induction rule: rtranclp_induct)
  case (step y z)
  then have "integrity y" by blast
  then show ?case
    using step review_step_integrity [OF _ step.hyps(2)] step_actions [OF step.hyps(2)] step_approved [OF _ step.hyps(2)] by blast
qed blast

section \<open>An example\<close>

definition ex_approved :: AssessmentRow where
  "ex_approved = ex_result\<lparr>AssessmentRow.row_id := ''row_b'', AssessmentRow.version := 2, AssessmentRow.status := ''APPROVED'',
     AssessmentRow.etag := ''etag_b'', AssessmentRow.data := (AssessmentRow.data ex_result)\<lparr>Assessment.status := WorkflowStatus.APPROVED,
       Assessment.approved_by := Some ''user_a'', Assessment.approved_at := Some (utc_time 5)\<rparr>\<rparr>"

definition ex_reviewed :: SubmissionRow where
  "ex_reviewed = the (the_submission ex_publication ''sub_a'' ''tenant_a'')"

definition ex_approval :: "string \<Rightarrow> JobStore" where
  "ex_approval i = approved_store ex_approved ex_reviewed (SubmissionRow.state ex_reviewed) ''user_a'' (utc_time 5) i ex_publication"

lemma ex_approved_valid: "Assessment_validate (AssessmentRow.data ex_approved) = None"
  by code_simp

lemma ex_revisions: "assessments ex_publication = [ex_result]"
proof -
  have "assessments (snd (projr ex_claim)) = []" by code_simp
  then show ?thesis by (simp add: ex_publication_def merge_assessment_def)
qed

lemma ex_reviewed_found: "the_submission ex_publication ''sub_a'' ''tenant_a'' = Some ex_reviewed"
proof -
  have "the_submission ex_publication ''sub_a'' ''tenant_a'' \<noteq> None" by code_simp
  then show ?thesis by (auto simp: ex_reviewed_def)
qed

lemma ex_reviewed_state:
  "SubmissionProcessingState_validate (SubmissionRow.state ex_reviewed) = None"
  "SubmissionProcessingState.status (SubmissionRow.state ex_reviewed) = SubmissionProcessingStatus.NEEDS_REVIEW"
  by code_simp+

lemma ex_approval_integrity: "integrity (ex_approval i)"
  by code_simp

lemma ex_approve:
  "\<exists>i. approve_assessment_atomic ''etag_a'' ex_approved ''user_a'' ex_publication = Inr (ex_approved, ex_approval i)"
proof -
  have "good_prefix ''evt''" by code_simp
  then obtain i where i: "stable_id ''evt'' [JStr ''tenant_a'', JStr ''assessment.approved'', JStr ''asm_a'', JStr ''user_a'', JInt 2] = Inr i"
    using ids.mk_Inr by blast
  have c: "AssessmentRow.tenant_id ex_approved = ''tenant_a''" "AssessmentRow.assessment_id ex_approved = ''asm_a''"
      "AssessmentRow.version ex_approved = 2" "AssessmentRow.submission_id ex_approved = ''sub_a''"
      "Assessment.status (AssessmentRow.data ex_approved) = WorkflowStatus.APPROVED"
      "Assessment.approved_by (AssessmentRow.data ex_approved) = Some ''user_a''"
      "Assessment.approved_at (AssessmentRow.data ex_approved) = Some (utc_time 5)"
      "Assessment.submission_id (AssessmentRow.data ex_approved) = ''sub_a''"
    by (simp_all add: ex_approved_def ex_result_def ex_assessment_def)
  have d: "AssessmentRow.version ex_result = 1" "AssessmentRow.submission_id ex_result = ''sub_a''"
      "AssessmentRow.tenant_id ex_result = ''tenant_a''" "AssessmentRow.etag ex_result = ''etag_a''"
      "Assessment.status (AssessmentRow.data ex_result) = WorkflowStatus.NEEDS_REVIEW"
    by (simp_all add: ex_result_def)
  have l: "assessment_by_id ''asm_a'' ''tenant_a'' ex_publication = Inr ex_result"
    by (simp add: assessment_by_id_def revisions_def ex_revisions newest_def ex_result_def)
  have e: "event_id [JStr ''tenant_a'', JStr ''assessment.approved'', JStr ''asm_a'', JStr ''user_a'', JInt 2] = Inr i"
    by (simp add: event_id_def i)
  have "approve_assessment_atomic ''etag_a'' ex_approved ''user_a'' ex_publication = Inr (ex_approved, ex_approval i)"
    unfolding approve_assessment_atomic_def
    using ex_approved_valid ex_result_valid(1) c d l e ex_reviewed_found ex_reviewed_state ex_approval_integrity [of i, unfolded ex_approval_def]
    by (simp del: first_error_Cons add: first_error_None_Cons ex_approval_def)
  then show ?thesis by blast
qed

text \<open>An acceptance, which keeps the version.\<close>

definition ex_accept :: QuestionReviewActionRecord where
  "ex_accept = \<lparr>QuestionReviewActionRecord.schema_version = CONTRACT_VERSION, record_id = ''rec_a'', tenant_id = ''tenant_a'',
     activity_id = ''act_a'', submission_id = ''sub_a'', assessment_id = ''asm_a'', assessment_version_before = 1,
     assessment_version_after = Some 1,
     action = \<lparr>QuestionReviewAction.schema_version = LEGACY_SCHEMA_VERSION, action_id = ''qra_a'', assessment_id = ''asm_a'',
       question_id = ''q_a'', action = QuestionReviewActionType.ACCEPT, actor_id = ''user_a'', occurred_at = utc_time 5,
       reason_code = None, note = None, replacement = None\<rparr>,
     status = QuestionReviewRecordStatus.APPLIED, revalidation_status = RevalidationStatus.NOT_REQUIRED,
     before_question = ex_question, after_question = Some ex_question, lineage_before = Assessment.lineage ex_assessment,
     lineage_after = Some (Assessment.lineage ex_assessment), diagnostics = [], recorded_at = utc_time 6\<rparr>"

definition ex_accepted :: JobStore where
  "ex_accepted = ex_publication\<lparr>review_actions := review_actions ex_publication @ [ex_accept]\<rparr>"

lemma ex_accept_parts:
  "SelectedQuestion_validate ex_question = None" "Lineage_validate (Assessment.lineage ex_assessment) = None"
  "QuestionReviewAction_validate (QuestionReviewActionRecord.action ex_accept) = None"
  by code_simp+

lemma ex_accept_valid: "QuestionReviewActionRecord_validate ex_accept = None"
proof -
  have ids: "Id_ok ''rec_a''" "Id_ok ''tenant_a''" "Id_ok ''act_a''" "Id_ok ''sub_a''" "Id_ok ''asm_a''" by code_simp+
  have "SelectedQuestion.question_id ex_question = ''q_a''" by code_simp
  then show ?thesis
    using ex_accept_parts(3) unfolding QuestionReviewActionRecord_validate_def first_error_None_Cons
    by (simp add: ex_accept_def ids ex_accept_parts(1,2) valid_def field_errors_def accept_action_error_def require_utc_def fail_if_def)
qed

lemma ex_accepted_integrity: "integrity ex_accepted"
proof -
  have "review_actions ex_publication = []" by code_simp
  then show ?thesis using ex_published_checks(2) by (simp add: ex_accepted_def integrity_def content_integrity_def)
qed

lemma ex_accept_applied: "apply_question_review_action ex_accept None None None None ex_publication = Inr (Some ex_accept, ex_accepted)"
proof -
  have "persisted_question (AssessmentRow.data ex_result) ex_accept = Some ex_question" by code_simp
  moreover have "SubmissionRow.activity_id ex_reviewed = ''act_a''" by code_simp
  moreover have c: "QuestionReviewActionRecord.tenant_id ex_accept = ''tenant_a''" "QuestionReviewActionRecord.activity_id ex_accept = ''act_a''"
      "QuestionReviewActionRecord.submission_id ex_accept = ''sub_a''" "QuestionReviewActionRecord.assessment_id ex_accept = ''asm_a''"
      "QuestionReviewActionRecord.assessment_version_before ex_accept = 1" "QuestionReviewActionRecord.before_question ex_accept = ex_question"
    by (simp_all add: ex_accept_def)
  moreover have "\<not> mutates_version ex_accept" by code_simp
  moreover have "newest (revisions ''asm_a'' ''tenant_a'' ex_publication) = Some ex_result"
    by (simp add: revisions_def ex_revisions newest_def ex_result_def)
  moreover have "AssessmentRow.submission_id ex_result = ''sub_a''" "AssessmentRow.version ex_result = 1" by (simp_all add: ex_result_def)
  ultimately show ?thesis
    using ex_result_valid(1) ex_reviewed_found ex_accepted_integrity [unfolded ex_accepted_def]
    by (simp add: apply_question_review_action_def apply_record_def add_resulting_def ex_accepted_def)
qed

section \<open>Properties\<close>

text \<open>C36: what an approval does.  It needs the entity tag of the newest revision, which is under review, and
  appends the approved revision with the next version; the submission becomes APPROVED, exactly one audit event
  names the actor and the version, and no job changes.\<close>

theorem approval_effects:
  assumes "integrity s" and "approve_assessment_atomic etg r who s = Inr (x, s')"
  shows "x = r \<and> assessments s' = assessments s @ [r] \<and> assessment_by_id (AssessmentRow.assessment_id r) (AssessmentRow.tenant_id r) s' = Inr r
     \<and> (\<exists>l. assessment_by_id (AssessmentRow.assessment_id r) (AssessmentRow.tenant_id r) s = Inr l \<and> AssessmentRow.etag l = etg
           \<and> Assessment.status (AssessmentRow.data l) = WorkflowStatus.NEEDS_REVIEW \<and> AssessmentRow.version r = AssessmentRow.version l + 1)
     \<and> (\<exists>sub. the_submission s' (AssessmentRow.submission_id r) (AssessmentRow.tenant_id r) = Some sub
           \<and> SubmissionProcessingState.status (SubmissionRow.state sub) = SubmissionProcessingStatus.APPROVED)
     \<and> (\<exists>e. audits s' = audits s @ [e] \<and> AuditEventRow.actor_id e = who \<and> AuditEventRow.event_type e = ''assessment.approved''
           \<and> AuditEventRow.aggregate_id e = AssessmentRow.assessment_id r
           \<and> AuditEventRow.payload e = JObj [(''assessment_version'', JInt (AssessmentRow.version r))])
     \<and> jobs s' = jobs s"
  using assms(2)
proof (cases rule: approve_cases)
  case (1 l sub i)
  have l: "AssessmentRow.tenant_id l = AssessmentRow.tenant_id r" using newest_mem [OF 1(1)] by simp
  have "revisions (AssessmentRow.assessment_id r) (AssessmentRow.tenant_id r) s'
      = revisions (AssessmentRow.assessment_id r) (AssessmentRow.tenant_id r) s @ [r]"
    by (simp add: 1(11) revisions_def approved_store_def add_audit_def put_submission_def add_assessment_def)
  then have "assessment_by_id (AssessmentRow.assessment_id r) (AssessmentRow.tenant_id r) s' = Inr r"
    using newest_next [OF 1(1,4)] by (simp add: assessment_by_id_def)
  moreover have "assessment_by_id (AssessmentRow.assessment_id r) (AssessmentRow.tenant_id r) s = Inr l"
    using 1(1) by (simp add: assessment_by_id_def)
  moreover note approved_submission(1) [OF assms(1) 1(6), of r "SubmissionRow.state sub" who
      "the (Assessment.approved_at (AssessmentRow.data r))" i, folded 1(11), unfolded l 1(5) [symmetric]]
  moreover have "audits s' = audits s @ [approval_event r who (the (Assessment.approved_at (AssessmentRow.data r))) i]"
      "assessments s' = assessments s @ [r]" "jobs s' = jobs s"
    by (simp_all add: 1(11) approved_store_def add_audit_def put_submission_def add_assessment_def)
  ultimately show ?thesis using 1(2-4,10) by (simp add: approved_state_def approval_event_def)
qed

theorem approval_effects_witness:
  "\<exists>i. assessment_by_id ''asm_a'' ''tenant_a'' (ex_approval i) = Inr ex_approved"
proof -
  obtain i where "approve_assessment_atomic ''etag_a'' ex_approved ''user_a'' ex_publication = Inr (ex_approved, ex_approval i)"
    using ex_approve by blast
  from approval_effects [OF ex_published_checks(2) this]
  have "assessment_by_id (AssessmentRow.assessment_id ex_approved) (AssessmentRow.tenant_id ex_approved) (ex_approval i) = Inr ex_approved"
    by blast
  then show ?thesis by (intro exI [of _ i]) (simp add: ex_approved_def ex_result_def)
qed





text \<open>A review record is applied at most once.  After it is stored, no call with the same record is ever
  applied again, whatever results, job and failure it brings and whatever happened in between.\<close>

theorem review_record_is_applied_once:
  assumes "integrity s" and "QuestionReviewActionRecord_validate rec = None"
    and "apply_question_review_action rec res gd job failure s = Inr (Some x, s1)" and "review_step\<^sup>*\<^sup>* s1 s'"
  shows "apply_question_review_action rec res2 gd2 job2 failure2 s' \<noteq> Inr (Some y, s2)"
proof
  assume "apply_question_review_action rec res2 gd2 job2 failure2 s' = Inr (Some y, s2)"
  then obtain locked2 where two: "apply_record rec res2 gd2 locked2 failure2 s' = Inr (Some y, s2)" by (rule action_cases) auto
  obtain locked where one: "apply_record rec res gd locked failure s = Inr (Some x, s1)" using assms(3) by (rule action_cases) auto
  have stored: "rec \<in> set (review_actions s1)" using one by (cases rule: apply_record_cases) simp
  have "integrity s1" using one by (cases rule: apply_record_cases)
  then have "rec \<in> set (review_actions s')" using run_review [OF assms(4)] stored by blast
  moreover have "review_actions s2 = review_actions s' @ [rec] \<and> integrity s2"
    using two by (cases rule: apply_record_cases) (auto elim!: add_resulting_cases)
  ultimately show False by (auto simp: integrity_def content_integrity_def)
qed

theorem review_record_is_applied_once_witness:
  "\<not> (\<exists>y s2. apply_question_review_action ex_accept None None None None ex_accepted = Inr (Some y, s2))"
  using review_record_is_applied_once [OF ex_published_checks(2) ex_accept_valid ex_accept_applied rtranclp.rtrancl_refl] by blast

end
