(* ===== verification/Registry.thy ===== *)
theory Registry
  imports ContractsStage2
begin

text \<open>
  \<open>model_gateway/registry.py\<close> and the lookup of \<open>contracts.py\<close>: the names of the canonical
  roots, the immutable table of the prompts P01 to P11 with the roots they take and return, and
  the fingerprint of an entry.
\<close>

section \<open>Canonical roots\<close>

definition contract_roots :: "string list" where
  "contract_roots = [''Diagnostic'', ''ArtifactRef'', ''EvidenceUnit'', ''CoursePassage'', ''SourceCitation'',
     ''EvidenceBundle'', ''TrustedPromptContext'', ''ModelTaskEnvelope'', ''ActivityConfig'', ''ActivitySpec'',
     ''RubricSpec'', ''AmbiguityReport'', ''PolicyDecision'', ''AssessmentPlanningPolicy'', ''BlueprintPolicy'',
     ''QuestionGenerationPolicy'', ''QuestionValidationPolicy'', ''AssessmentBlueprint'', ''BlueprintReview'',
     ''EvidenceMapPatch'', ''AssessmentPlan'', ''QuestionGenerationResult'', ''QuestionReviewResult'',
     ''EvaluationGuide'', ''Assessment'', ''CoverageReport'', ''QuestionReviewAction'',
     ''QuestionReviewActionRecord'', ''BulkApprovalRequest'', ''BulkApprovalRecord'', ''ExportRecord'',
     ''ExperimentMetrics'', ''FeedbackEvent'', ''ModelRoute'', ''ModelRouteResolution'', ''ModelCallLedger'',
     ''DomainEvent'', ''JobStatus'', ''StageRun'', ''JobControlRecord'', ''SubmissionProcessingState'',
     ''ProblemDetail'', ''ActivitySpecRequest'', ''RubricNormalizeRequest'', ''AmbiguityTriageRequest'',
     ''BlueprintBuildRequest'', ''BlueprintReviewRequest'', ''EvidenceMapRequest'', ''QuestionBuildRequest'',
     ''QuestionReviewRequest'', ''GuideBuildRequest'', ''SchemaRepairRequest'', ''SchemaRepairResult'']"

definition model_by_name :: "string \<Rightarrow> string + string" where
  "model_by_name nm =
     (if nm \<in> set contract_roots then Inr nm else Inl (''Unknown canonical contract root: '' @ nm))"

section \<open>The prompt registry\<close>

definition PROMPT_VERSION :: string where
  "PROMPT_VERSION = ''1.1.0''"

definition SYSTEM_PROMPT_ID :: string where
  "SYSTEM_PROMPT_ID = ''SYS_EVIDENCE_BOUND_V1''"

definition P11 :: string where
  "P11 = ''P11_SCHEMA_REPAIR_V1''"

definition PROMPT_CONTRACTS :: "(string \<times> string \<times> string) list" where
  "PROMPT_CONTRACTS =
    [(''P01_ACTIVITY_SPEC_V1'', ''ActivitySpecRequest'', ''ActivitySpec''),
     (''P02_RUBRIC_NORMALIZE_V1'', ''RubricNormalizeRequest'', ''RubricSpec''),
     (''P03_AMBIGUITY_TRIAGE_V1'', ''AmbiguityTriageRequest'', ''AmbiguityReport''),
     (''P04_BLUEPRINT_BUILD_V1'', ''BlueprintBuildRequest'', ''AssessmentBlueprint''),
     (''P05_BLUEPRINT_REVIEW_V1'', ''BlueprintReviewRequest'', ''BlueprintReview''),
     (''P06_EVIDENCE_MAP_V1'', ''EvidenceMapRequest'', ''EvidenceMapPatch''),
     (''P07_QUESTION_BUILD_V1'', ''QuestionBuildRequest'', ''QuestionGenerationResult''),
     (''P08_QUESTION_REVIEW_V1'', ''QuestionReviewRequest'', ''QuestionReviewResult''),
     (''P09_GUIDE_BUILD_V1'', ''GuideBuildRequest'', ''EvaluationGuide''),
     (''P10_ENRICHED_CONTEXT_V1'', ''QuestionBuildRequest'', ''QuestionGenerationResult''),
     (''P11_SCHEMA_REPAIR_V1'', ''SchemaRepairRequest'', ''SchemaRepairResult'')]"

record PromptSpec =
  prompt_id :: string
  prompt_version :: string
  system_prompt_id :: string
  task :: string
  input_schema_name :: string
  output_schema_name :: string
  reasoning_effort :: ReasoningEffort
  temperature :: pyfloat
  max_output_tokens :: int
  max_transient_retries :: int

definition spec_entry :: "string \<Rightarrow> string \<Rightarrow> ReasoningEffort \<Rightarrow> pyfloat \<Rightarrow> int \<Rightarrow> int \<Rightarrow> string + PromptSpec" where
  "spec_entry pid tsk effort temp tokens rs =
     (case map_of PROMPT_CONTRACTS pid of
        None \<Rightarrow> Inl pid
      | Some (input_root, output_root) \<Rightarrow>
          and_then (model_by_name input_root) (\<lambda>_.
          and_then (model_by_name output_root) (\<lambda>_.
            Inr \<lparr>PromptSpec.prompt_id = pid, prompt_version = PROMPT_VERSION,
                 system_prompt_id = SYSTEM_PROMPT_ID, task = tsk, input_schema_name = input_root,
                 output_schema_name = output_root, reasoning_effort = effort, temperature = temp,
                 max_output_tokens = tokens, max_transient_retries = rs\<rparr>)))"

definition default_temperature :: pyfloat where
  "default_temperature = fl (1 / 10)"

text \<open>The arguments of the entries of \<open>PROMPT_SPECS\<close>: task, effort, temperature, the output
  limit and the transient retries.\<close>

definition spec_arguments :: "(string \<times> string \<times> ReasoningEffort \<times> pyfloat \<times> int \<times> int) list" where
  "spec_arguments =
    [(''P01_ACTIVITY_SPEC_V1'', ''activity_specification'', ReasoningEffort.MEDIUM, default_temperature, 8000, 2),
     (''P02_RUBRIC_NORMALIZE_V1'', ''rubric_normalization'', ReasoningEffort.MEDIUM, default_temperature, 8000, 2),
     (''P03_AMBIGUITY_TRIAGE_V1'', ''ambiguity_triage'', ReasoningEffort.HIGH, default_temperature, 8000, 2),
     (''P04_BLUEPRINT_BUILD_V1'', ''blueprint_build'', ReasoningEffort.HIGH, default_temperature, 16000, 2),
     (''P05_BLUEPRINT_REVIEW_V1'', ''blueprint_review'', ReasoningEffort.HIGH, default_temperature, 16000, 2),
     (''P06_EVIDENCE_MAP_V1'', ''evidence_mapping'', ReasoningEffort.HIGH, default_temperature, 16000, 2),
     (''P07_QUESTION_BUILD_V1'', ''question_generation'', ReasoningEffort.HIGH, default_temperature, 10000, 2),
     (''P08_QUESTION_REVIEW_V1'', ''question_review'', ReasoningEffort.HIGH, default_temperature, 8000, 2),
     (''P09_GUIDE_BUILD_V1'', ''guide_build'', ReasoningEffort.HIGH, default_temperature, 10000, 2),
     (''P10_ENRICHED_CONTEXT_V1'', ''enriched_question_generation'', ReasoningEffort.HIGH, default_temperature, 10000, 2),
     (''P11_SCHEMA_REPAIR_V1'', ''schema_repair'', ReasoningEffort.MINIMAL, 0, 8000, 0)]"

definition prompt_spec :: "string \<Rightarrow> string + PromptSpec" where
  "prompt_spec pid =
     (case map_of spec_arguments pid of
        None \<Rightarrow> Inl (''Unknown prompt_id: '' @ pid)
      | Some (tsk, effort, temp, tokens, rs) \<Rightarrow> spec_entry pid tsk effort temp tokens rs)"

definition prompt_ids :: "string list" where
  "prompt_ids = map fst PROMPT_CONTRACTS"

text \<open>\<open>assert_registry_complete\<close>, evaluated when the module is imported.\<close>

definition assert_registry_complete :: "string option" where
  "assert_registry_complete = first_error [
     raise_if (set (map fst spec_arguments) \<noteq> set prompt_ids) ''P01-P11 prompt registry is incomplete'',
     first_error (map (\<lambda>(pid, input_root, output_root).
       case prompt_spec pid of
         Inl e \<Rightarrow> Some e
       | Inr s \<Rightarrow> first_error [
           raise_if ((input_schema_name s, output_schema_name s) \<noteq> (input_root, output_root)) (''Contract drift for '' @ pid),
           raise_if (prompt_version s \<noteq> LEGACY_SCHEMA_VERSION) (''Version drift for '' @ pid)]) PROMPT_CONTRACTS)]"

fun effort_text :: "ReasoningEffort \<Rightarrow> string" where
  "effort_text ReasoningEffort.MINIMAL = ''MINIMAL''"
| "effort_text ReasoningEffort.LOW = ''LOW''"
| "effort_text ReasoningEffort.MEDIUM = ''MEDIUM''"
| "effort_text ReasoningEffort.HIGH = ''HIGH''"

definition spec_json :: "PromptSpec \<Rightarrow> json" where
  "spec_json s = JObj [
     (''prompt_id'', JStr (PromptSpec.prompt_id s)), (''prompt_version'', JStr (prompt_version s)),
     (''system_prompt_id'', JStr (system_prompt_id s)), (''task'', JStr (task s)),
     (''input_schema_name'', JStr (input_schema_name s)), (''output_schema_name'', JStr (output_schema_name s)),
     (''reasoning_effort'', JStr (effort_text (reasoning_effort s))), (''temperature'', JFloat (temperature s)),
     (''max_output_tokens'', JInt (max_output_tokens s)),
     (''max_transient_retries'', JInt (max_transient_retries s))]"

definition prompt_hash :: "PromptSpec \<Rightarrow> string" where
  "prompt_hash s = canonical_hash (spec_json s)"

section \<open>The registry as a table\<close>

lemma registry_is_complete: "assert_registry_complete = None"
  by code_simp

lemma prompt_spec_cases:
  assumes "prompt_spec pid = Inr s"
  obtains tsk effort temp tokens rs input_root output_root where
    "map_of spec_arguments pid = Some (tsk, effort, temp, tokens, rs)"
    "map_of PROMPT_CONTRACTS pid = Some (input_root, output_root)"
    "s = \<lparr>PromptSpec.prompt_id = pid, prompt_version = PROMPT_VERSION, system_prompt_id = SYSTEM_PROMPT_ID,
       task = tsk, input_schema_name = input_root, output_schema_name = output_root,
       reasoning_effort = effort, temperature = temp, max_output_tokens = tokens,
       max_transient_retries = rs\<rparr>"
  using assms unfolding prompt_spec_def spec_entry_def
  by (auto split: option.splits)

lemma spec_argument_bounds:
  "list_all (\<lambda>(pid, tsk, effort, temp, tokens, rs). 0 \<le> rs \<and> rs \<le> 2 \<and> 0 < tokens \<and> tokens \<le> 16000
     \<and> trimmed tsk \<and> (pid = P11 \<longrightarrow> rs = 0)) spec_arguments"
  by code_simp

lemma prompt_spec_bounds:
  assumes "prompt_spec pid = Inr s"
  shows "0 \<le> max_transient_retries s" and "max_transient_retries s \<le> 2"
    and "0 < max_output_tokens s" and "max_output_tokens s \<le> 16000" and "PromptSpec.prompt_id s = pid"
    and "pid = P11 \<Longrightarrow> max_transient_retries s = 0" and "pid \<in> set prompt_ids"
    and "trimmed (task s)"
proof -
  obtain tsk effort temp tokens rs input_root output_root where
    a: "map_of spec_arguments pid = Some (tsk, effort, temp, tokens, rs)"
    and b: "map_of PROMPT_CONTRACTS pid = Some (input_root, output_root)"
    and s: "s = \<lparr>PromptSpec.prompt_id = pid, prompt_version = PROMPT_VERSION, system_prompt_id = SYSTEM_PROMPT_ID,
       task = tsk, input_schema_name = input_root, output_schema_name = output_root,
       reasoning_effort = effort, temperature = temp, max_output_tokens = tokens,
       max_transient_retries = rs\<rparr>"
    using assms by (rule prompt_spec_cases)
  have "0 \<le> rs \<and> rs \<le> 2 \<and> 0 < tokens \<and> tokens \<le> 16000 \<and> trimmed tsk \<and> (pid = P11 \<longrightarrow> rs = 0)"
    using map_of_SomeD [OF a] spec_argument_bounds by (auto simp: list_all_iff)
  moreover have "pid \<in> set prompt_ids"
    using map_of_SomeD [OF b] by (force simp: prompt_ids_def)
  ultimately show "0 \<le> max_transient_retries s" "max_transient_retries s \<le> 2" "0 < max_output_tokens s"
    "max_output_tokens s \<le> 16000" "PromptSpec.prompt_id s = pid" "pid = P11 \<Longrightarrow> max_transient_retries s = 0"
    "pid \<in> set prompt_ids" "trimmed (task s)"
    by (simp_all add: s)
qed

lemma prompt_spec_known: "pid \<in> set prompt_ids \<longleftrightarrow> (\<exists>s. prompt_spec pid = Inr s)"
proof -
  have "list_all (\<lambda>p. \<not> isl (prompt_spec p)) prompt_ids"
    by code_simp
  then have "pid \<in> set prompt_ids \<Longrightarrow> \<exists>s. prompt_spec pid = Inr s"
    by (cases "prompt_spec pid") (auto simp: list_all_iff)
  then show ?thesis
    using prompt_spec_bounds(7) by blast
qed

lemma prompt_hash_ok [simp]: "Hash_ok (prompt_hash s)"
  by (simp add: prompt_hash_def)

end
