(* ===== verification/GatewayChecks.thy ===== *)
theory GatewayChecks
  imports Registry
begin

text \<open>
  The checks of \<open>model_gateway/gateway.py\<close> on requests and answers: the allowlists and the context
  mode, the clean abstention of each prompt and the relationship of an answer to its request.

  The gateway handles every root through its attributes, so an instance of a canonical model is its
  class with its attributes in their JSON form (\<open>model_dump(mode="json")\<close>): enumeration members are
  their strings, with which they compare equal, nested models are objects, times are texts, which
  the gateway only compares with \<open>None\<close>.  An attribute that the class does not have raises
  \<open>AttributeError\<close>, as it does when a repaired answer is of another class.
\<close>

section \<open>Failures\<close>

datatype ValidationPhase = REQUEST | ENVELOPE | OUTPUT | REPAIRED_OUTPUT

datatype GatewayErrorClass = GatewayValidationError | GatewayContextError | GatewayRouteBlocked
  | GatewayBudgetExceeded | GatewayTimeout | GatewayProviderError | GatewaySafetyBlock
  | GatewaySchemaViolation

text \<open>\<open>Governed\<close> is a \<open>GatewayError\<close> with its class, message, phase, ledgers and route resolution;
  \<open>Escaped\<close> is any other exception that leaves the gateway.\<close>

datatype gateway_failure =
    Governed GatewayErrorClass string "ValidationPhase option" "ModelCallLedger list" "ModelRouteResolution option"
  | Escaped string

abbreviation ctx_error :: "string \<Rightarrow> gateway_failure" where
  "ctx_error msg \<equiv> Governed GatewayContextError msg None [] None"

definition refuse :: "bool \<Rightarrow> string \<Rightarrow> gateway_failure + unit" where
  "refuse b msg = (if b then Inl (ctx_error msg) else Inr ())"

fun each :: "('a \<Rightarrow> 'e + unit) \<Rightarrow> 'a list \<Rightarrow> 'e + unit" where
  "each f [] = Inr ()"
| "each f (x # xs) = and_then (f x) (\<lambda>_. each f xs)"

fun collect :: "('a \<Rightarrow> 'e + 'b) \<Rightarrow> 'a list \<Rightarrow> 'e + 'b list" where
  "collect f [] = Inr []"
| "collect f (x # xs) = and_then (f x) (\<lambda>y. and_then (collect f xs) (\<lambda>ys. Inr (y # ys)))"

text \<open>Python's \<open>or\<close> on conditions that may raise.\<close>

fun any_of :: "('e + bool) list \<Rightarrow> 'e + bool" where
  "any_of [] = Inr False"
| "any_of (c # cs) = and_then c (\<lambda>b. if b then Inr True else any_of cs)"

lemma refuse_Inr [simp]: "refuse b msg = Inr u \<longleftrightarrow> \<not> b"
  by (simp add: refuse_def)

lemma each_Inr: "each f xs = Inr u \<longleftrightarrow> (\<forall>x \<in> set xs. f x = Inr ())"
  by (induction xs) auto

lemma collect_Inr: "collect f xs = Inr ys \<Longrightarrow> length ys = length xs \<and> (\<forall>i < length xs. f (xs ! i) = Inr (ys ! i))"
proof (induction xs arbitrary: ys)
  case (Cons x xs)
  then obtain z zs where z: "f x = Inr z" "collect f xs = Inr zs" "ys = z # zs" by auto
  show ?case using Cons.IH [OF z(2)] z by (auto simp: nth_Cons split: nat.splits)
qed simp

lemma any_of_False: "any_of cs = Inr False \<longleftrightarrow> (\<forall>c \<in> set cs. c = Inr False)"
  by (induction cs) auto

section \<open>Instances of the canonical models\<close>

record model_obj =
  model_class :: string
  model_fields :: "(string \<times> json) list"

definition model_dump :: "model_obj \<Rightarrow> json" where
  "model_dump m = JObj (model_fields m)"

fun attr :: "string \<Rightarrow> json \<Rightarrow> gateway_failure + json" where
  "attr k (JObj kvs) = (case map_of kvs k of Some v \<Rightarrow> Inr v | None \<Rightarrow> Inl (Escaped ''AttributeError''))"
| "attr k _ = Inl (Escaped ''AttributeError'')"

fun attrs :: "string list \<Rightarrow> json \<Rightarrow> gateway_failure + json" where
  "attrs [] v = Inr v"
| "attrs (k # ks) v = and_then (attr k v) (attrs ks)"

text \<open>Truth value of an attribute, iteration over one, and the number in one.\<close>

fun truthy :: "json \<Rightarrow> bool" where
  "truthy JNull = False"
| "truthy (JBool b) = b"
| "truthy (JInt i) = (i \<noteq> 0)"
| "truthy (JFloat x) = (x \<noteq> 0)"
| "truthy (JStr s) = (s \<noteq> [])"
| "truthy (JList vs) = (vs \<noteq> [])"
| "truthy (JObj kvs) = (kvs \<noteq> [])"

fun iterate :: "json \<Rightarrow> gateway_failure + json list" where
  "iterate (JList vs) = Inr vs"
| "iterate (JStr s) = Inr (map (\<lambda>c. JStr [c]) s)"
| "iterate (JObj kvs) = Inr (map (JStr \<circ> fst) kvs)"
| "iterate _ = Inl (Escaped ''TypeError'')"

fun number :: "json \<Rightarrow> gateway_failure + rat" where
  "number (JInt i) = Inr (of_int i)"
| "number (JFloat x) = Inr x"
| "number (JBool b) = Inr (if b then 1 else 0)"
| "number _ = Inl (Escaped ''TypeError'')"

definition attr_list :: "string \<Rightarrow> json \<Rightarrow> gateway_failure + json list" where
  "attr_list k v = and_then (attr k v) iterate"

text \<open>The attribute \<open>k\<close> of every element of a list.\<close>

definition pluck :: "string \<Rightarrow> json list \<Rightarrow> gateway_failure + json list" where
  "pluck k = collect (attr k)"

definition attr_differs :: "string list \<Rightarrow> json \<Rightarrow> string list \<Rightarrow> json \<Rightarrow> gateway_failure + bool" where
  "attr_differs ks v ls w = and_then (attrs ks v) (\<lambda>a. and_then (attrs ls w) (\<lambda>b. Inr (a \<noteq> b)))"

definition attr_below :: "string list \<Rightarrow> json \<Rightarrow> string list \<Rightarrow> json \<Rightarrow> gateway_failure + bool" where
  "attr_below ks v ls w =
     and_then (attrs ks v) (\<lambda>a. and_then (attrs ls w) (\<lambda>b.
     and_then (number a) (\<lambda>x. and_then (number b) (\<lambda>y. Inr (x < y)))))"

section \<open>Allowlists and the context mode\<close>

fun walk_dicts :: "json \<Rightarrow> (string \<times> json) list list" where
  "walk_dicts (JObj kvs) = kvs # concat (map (\<lambda>(k, v). walk_dicts v) kvs)"
| "walk_dicts (JList vs) = concat (map walk_dicts vs)"
| "walk_dicts _ = []"

fun text_of :: "json \<Rightarrow> string list" where
  "text_of (JStr s) = [s]"
| "text_of _ = []"

text \<open>\<open>item.get(key)\<close> when it is a string, and the strings of \<open>item.get(key, [])\<close>.\<close>

definition text_at :: "(string \<times> json) list \<Rightarrow> string \<Rightarrow> string list" where
  "text_at kvs k = (case map_of kvs k of Some v \<Rightarrow> text_of v | None \<Rightarrow> [])"

definition texts_at :: "(string \<times> json) list \<Rightarrow> string \<Rightarrow> gateway_failure + string list" where
  "texts_at kvs k = (case map_of kvs k of
      None \<Rightarrow> Inr []
    | Some v \<Rightarrow> and_then (iterate v) (\<lambda>vs. Inr (concat (map text_of vs))))"

fun collect_authorized_ids :: "(string \<times> json) list list \<Rightarrow> gateway_failure + (string list \<times> string list)" where
  "collect_authorized_ids [] = Inr ([], [])"
| "collect_authorized_ids (kvs # rest) =
     and_then (texts_at kvs ''evidence_ids'') (\<lambda>es.
     and_then (texts_at kvs ''source_ids'') (\<lambda>ss.
     and_then (texts_at kvs ''course_source_ids'') (\<lambda>cs.
     and_then (collect_authorized_ids rest) (\<lambda>(evidence, sources).
       Inr (text_at kvs ''evidence_id'' @ es @ evidence, text_at kvs ''source_id'' @ ss @ cs @ sources)))))"

fun context_mode_text :: "ContextMode \<Rightarrow> string" where
  "context_mode_text ContextMode.CLOSED = ''CLOSED''"
| "context_mode_text ContextMode.COURSE_ENRICHED = ''COURSE_ENRICHED''"

text \<open>The set comprehension over \<open>context_mode\<close>: an unhashable value raises \<open>TypeError\<close>.\<close>

definition modes_of :: "(string \<times> json) list list \<Rightarrow> gateway_failure + json list" where
  "modes_of dicts =
     (let vs = filter (\<lambda>v. v \<noteq> JNull) (concat (map (\<lambda>kvs. case map_of kvs ''context_mode'' of None \<Rightarrow> [] | Some v \<Rightarrow> [v]) dicts))
      in if list_ex (\<lambda>v. case v of JList _ \<Rightarrow> True | JObj _ \<Rightarrow> True | _ \<Rightarrow> False) vs
         then Inl (Escaped ''TypeError'') else Inr vs)"

definition request_context :: "json \<Rightarrow> TrustedPromptContext \<Rightarrow> string \<Rightarrow> gateway_failure + unit" where
  "request_context data_json trusted pid =
     and_then (collect_authorized_ids (walk_dicts data_json)) (\<lambda>(evidence, sources).
     and_then (refuse (\<not> set evidence \<subseteq> set (TrustedPromptContext.allowed_evidence_ids trusted))
       ''Payload contains an evidence_id outside the allowlist'') (\<lambda>_.
     and_then (refuse (\<not> set sources \<subseteq> set (allowed_course_source_ids trusted))
       ''Payload contains a source_id outside the allowlist'') (\<lambda>_.
     and_then (modes_of (walk_dicts data_json)) (\<lambda>modes.
     and_then (refuse (list_ex (\<lambda>m. m \<noteq> JStr (context_mode_text (TrustedPromptContext.context_mode trusted))) modes)
       ''Context mode differs from the trusted envelope'') (\<lambda>_.
     and_then (refuse (pid = ''P07_QUESTION_BUILD_V1'' \<and> TrustedPromptContext.context_mode trusted \<noteq> ContextMode.CLOSED)
       ''P07 requires CLOSED context'') (\<lambda>_.
       refuse (pid = ''P10_ENRICHED_CONTEXT_V1'' \<and> TrustedPromptContext.context_mode trusted \<noteq> ContextMode.COURSE_ENRICHED)
         ''P10 requires COURSE_ENRICHED context''))))))"

section \<open>Clean abstention\<close>

text \<open>\<open>getattr(output, "diagnostics", None)\<close> does not raise.\<close>

definition require_diagnostic :: "json \<Rightarrow> gateway_failure + unit" where
  "require_diagnostic out =
     refuse (case attr ''diagnostics'' out of Inr v \<Rightarrow> \<not> truthy v | Inl _ \<Rightarrow> True)
       ''Abstention requires a complete diagnostic''"

definition attr_is_not :: "string \<Rightarrow> json \<Rightarrow> json \<Rightarrow> gateway_failure + bool" where
  "attr_is_not k out v = and_then (attr k out) (\<lambda>a. Inr (a \<noteq> v))"

definition attr_truthy :: "string \<Rightarrow> json \<Rightarrow> gateway_failure + bool" where
  "attr_truthy k out = and_then (attr k out) (\<lambda>a. Inr (truthy a))"

text \<open>The shape most prompts share: an answer that is not READY needs a diagnostic and must not
  carry what the condition finds in it.\<close>

definition abstention :: "json \<Rightarrow> (gateway_failure + bool) \<Rightarrow> string \<Rightarrow> gateway_failure + unit" where
  "abstention out exposed msg =
     and_then (attr_is_not ''status'' out (JStr ''READY'')) (\<lambda>abstains.
       if abstains
       then and_then (require_diagnostic out) (\<lambda>_. and_then exposed (\<lambda>b. refuse b msg))
       else Inr ())"

definition clean_abstention :: "string \<Rightarrow> json \<Rightarrow> gateway_failure + unit" where
  "clean_abstention pid out =
     (if pid = ''P01_ACTIVITY_SPEC_V1'' then
        abstention out
          (and_then (collect (\<lambda>k. attr_truthy k out)
             [''learning_outcomes'', ''expected_products'', ''requirements'', ''allowed_materials'', ''prohibited_materials''])
           (\<lambda>bs. Inr (list_ex id bs)))
          ''P01 abstention cannot fabricate sourced fields''
      else if pid = ''P02_RUBRIC_NORMALIZE_V1'' then
        abstention out (attr_truthy ''criteria'' out) ''P02 abstention cannot fabricate criteria''
      else if pid = ''P03_AMBIGUITY_TRIAGE_V1'' then
        and_then (attr_truthy ''blocked'' out) (\<lambda>blocked.
          if blocked
          then and_then (attr_truthy ''issues'' out) (\<lambda>b. refuse (\<not> b) ''Blocked P03 output requires an actionable issue'')
          else Inr ())
      else if pid = ''P04_BLUEPRINT_BUILD_V1'' then
        and_then (any_of [attr_is_not ''approved_by'' out JNull, attr_is_not ''approved_at'' out JNull]) (\<lambda>approved.
        and_then (refuse approved ''P04 cannot fabricate server-side human approval metadata'') (\<lambda>_.
        and_then (attr_is_not ''status'' out (JStr ''READY'')) (\<lambda>abstains.
          if abstains then require_diagnostic out else Inr ())))
      else if pid = ''P05_BLUEPRINT_REVIEW_V1'' then
        abstention out (attr_is_not ''approval_recommendation'' out JNull)
          ''Non-ready P05 output cannot recommend approval''
      else if pid = ''P06_EVIDENCE_MAP_V1'' then
        abstention out (attr_truthy ''opportunities'' out) ''Failed P06 output cannot expose opportunities''
      else if pid \<in> {''P07_QUESTION_BUILD_V1'', ''P10_ENRICHED_CONTEXT_V1''} then
        abstention out (attr_is_not ''candidate'' out JNull) ''Failed question generation cannot expose a candidate''
      else if pid = ''P08_QUESTION_REVIEW_V1'' then
        abstention out (attr_is_not ''review'' out JNull) ''P08 abstention cannot fabricate scores''
      else if pid = ''P09_GUIDE_BUILD_V1'' then
        abstention out (attr_truthy ''items'' out) ''P09 abstention cannot expose a partial guide''
      else if pid = P11 then
        and_then (attr ''repair_status'' out) (\<lambda>s.
          if s = JStr ''UNREPAIRABLE'' then require_diagnostic out else Inr ())
      else Inr ())"

text \<open>\<open>_validate_context\<close> with \<open>output=True\<close>.\<close>

definition output_context :: "json \<Rightarrow> TrustedPromptContext \<Rightarrow> string \<Rightarrow> gateway_failure + unit" where
  "output_context out trusted pid =
     and_then (request_context out trusted pid) (\<lambda>_.
     and_then (clean_abstention pid out) (\<lambda>_.
       if pid = ''P09_GUIDE_BUILD_V1'' then
         and_then (attr ''status'' out) (\<lambda>s.
           if s = JStr ''READY''
           then and_then (attr_truthy ''items'' out) (\<lambda>b. refuse (\<not> b) ''READY guide cannot be empty'')
           else Inr ())
       else Inr ()))"

end
