(* ===== verification/GatewayRelations.thy ===== *)
theory GatewayRelations
  imports GatewayChecks
begin

text \<open>
  \<open>ModelGateway._validate_output_relationship\<close>: what an answer must have in common with the request
  it answers, one definition per branch of the function.
\<close>

definition P01_relation :: "json \<Rightarrow> json \<Rightarrow> gateway_failure + unit" where
  "P01_relation req out =
     and_then (attr_differs [''activity_id''] out [''activity_config'', ''activity_id''] req) (\<lambda>b.
       refuse b ''P01 output activity_id mismatch'')"

definition same_activity :: "json \<Rightarrow> json \<Rightarrow> string \<Rightarrow> gateway_failure + unit" where
  "same_activity req out msg =
     and_then (attr_differs [''activity_id''] out [''activity_spec'', ''activity_id''] req) (\<lambda>b. refuse b msg)"

section \<open>P04: the blueprint\<close>

definition set_differs :: "string list \<Rightarrow> json \<Rightarrow> string list \<Rightarrow> json \<Rightarrow> gateway_failure + bool" where
  "set_differs ks v ls w =
     and_then (attrs ks v) (\<lambda>a. and_then (iterate a) (\<lambda>xs.
     and_then (attrs ls w) (\<lambda>b. and_then (iterate b) (\<lambda>ys. Inr (set xs \<noteq> set ys)))))"

definition constraints_changed :: "json \<Rightarrow> json \<Rightarrow> gateway_failure + bool" where
  "constraints_changed req out =
     and_then (attr ''assessment_constraints'' out) (\<lambda>constraints.
     and_then (attr ''blueprint_policy'' req) (\<lambda>policy. any_of [
       attr_differs [''question_count''] constraints [''question_count''] policy,
       attr_differs [''target_total_minutes''] constraints [''target_total_minutes''] policy,
       set_differs [''allowed_response_formats''] constraints [''allowed_response_formats''] policy]))"

definition decisions_changed :: "json \<Rightarrow> json \<Rightarrow> gateway_failure + bool" where
  "decisions_changed req out =
     and_then (attr_list ''decision_ids'' out) (\<lambda>ids.
     and_then (attr_list ''resolved_decisions'' req) (\<lambda>ds.
     and_then (pluck ''decision_id'' ds) (\<lambda>trusted. Inr (set ids \<noteq> set trusted))))"

definition statement_ids :: "json \<Rightarrow> string \<Rightarrow> gateway_failure + json list" where
  "statement_ids activity k = and_then (attr_list k activity) (pluck ''statement_id'')"

text \<open>\<open>rubric_criterion_ids or source_statement_ids\<close>.\<close>

definition allowed_criteria :: "json \<Rightarrow> gateway_failure + json list" where
  "allowed_criteria req =
     and_then (attr ''activity_spec'' req) (\<lambda>activity.
     and_then (statement_ids activity ''learning_outcomes'') (\<lambda>outcomes.
     and_then (statement_ids activity ''expected_products'') (\<lambda>products.
     and_then (statement_ids activity ''requirements'') (\<lambda>requirements.
     and_then (attr ''rubric_spec'' req) (\<lambda>rubric.
     and_then (if rubric = JNull then Inr [] else and_then (attr_list ''criteria'' rubric) (pluck ''criterion_id'')) (\<lambda>crits.
       Inr (if crits \<noteq> [] then crits else outcomes @ products @ requirements)))))))"

definition dimension_relation :: "json list \<Rightarrow> json list \<Rightarrow> json \<Rightarrow> gateway_failure + unit" where
  "dimension_relation outcomes crits dimension =
     and_then (attr_list ''learning_outcome_ids'' dimension) (\<lambda>os.
     and_then (refuse (\<not> set os \<subseteq> set outcomes) ''P04 output invented learning outcome IDs'') (\<lambda>_.
     and_then (attr_list ''criterion_ids'' dimension) (\<lambda>cs.
       refuse (\<not> set cs \<subseteq> set crits) ''P04 output invented criterion IDs'')))"

definition criteria_relation :: "json \<Rightarrow> json \<Rightarrow> gateway_failure + unit" where
  "criteria_relation req out =
     and_then (attr ''activity_spec'' req) (\<lambda>activity.
     and_then (statement_ids activity ''learning_outcomes'') (\<lambda>outcomes.
     and_then (allowed_criteria req) (\<lambda>crits.
     and_then (attr_list ''dimensions'' out) (\<lambda>ds.
     and_then (each (dimension_relation outcomes crits) ds) (\<lambda>_.
     and_then (collect (attr_list ''criterion_ids'') ds) (\<lambda>used.
     and_then (attr ''blueprint_policy'' req) (\<lambda>policy.
     and_then (attr_list ''priority_criterion_ids'' policy) (\<lambda>priority.
     and_then (attr_list ''required_criterion_ids'' policy) (\<lambda>required.
     and_then (refuse (\<not> set priority \<union> set required \<subseteq> set crits)
       ''P04 policy references criteria absent from normalized sources'') (\<lambda>_.
       refuse (\<not> set required \<subseteq> set (concat used)) ''P04 output omitted a required trusted criterion''))))))))))"

definition P04_relation :: "json \<Rightarrow> json \<Rightarrow> gateway_failure + unit" where
  "P04_relation req out =
     and_then (same_activity req out ''P04 output activity_id mismatch'') (\<lambda>_.
     and_then (constraints_changed req out) (\<lambda>b.
     and_then (refuse b ''P04 output changed trusted blueprint constraints'') (\<lambda>_.
     and_then (decisions_changed req out) (\<lambda>d.
     and_then (refuse d ''P04 output changed trusted policy decisions'') (\<lambda>_.
       criteria_relation req out)))))"

section \<open>P05 to P08\<close>

text \<open>The two triples are built before they are compared, so every attribute is read.\<close>

definition P05_relation :: "json \<Rightarrow> json \<Rightarrow> gateway_failure + unit" where
  "P05_relation req out =
     and_then (collect (\<lambda>ks. attrs ks req)
       [[''blueprint'', ''blueprint_id''], [''blueprint'', ''blueprint_version''], [''activity_spec'', ''activity_id'']]) (\<lambda>expected.
     and_then (collect (\<lambda>k. attr k out) [''blueprint_id'', ''blueprint_version'', ''activity_id'']) (\<lambda>actual.
       refuse (actual \<noteq> expected) ''P05 output blueprint reference mismatch''))"

definition P06_relation :: "json \<Rightarrow> json \<Rightarrow> gateway_failure + unit" where
  "P06_relation req out =
     and_then (attr_differs [''submission_id''] out [''evidence_bundle'', ''submission_id''] req) (\<lambda>b.
       refuse b ''P06 output submission_id mismatch'')"

definition candidate_moved :: "json \<Rightarrow> json \<Rightarrow> gateway_failure + bool" where
  "candidate_moved req cand = any_of (map
     (\<lambda>k. attr_differs [k] cand [''opportunity'', k] req)
     [''opportunity_template_id'', ''dimension_id'', ''variant_id'', ''cognitive_operation''])"

definition question_relation :: "json \<Rightarrow> json \<Rightarrow> gateway_failure + unit" where
  "question_relation req out =
     and_then (any_of [
       attr_differs [''submission_id''] out [''plan'', ''submission_id''] req,
       attr_differs [''opportunity_id''] out [''opportunity'', ''opportunity_id''] req,
       attr_differs [''context_mode''] out [''evidence_bundle'', ''context_mode''] req]) (\<lambda>b.
     and_then (refuse b ''Question output does not match its authorized request'') (\<lambda>_.
     and_then (attr ''candidate'' out) (\<lambda>cand.
       if cand = JNull then Inr ()
       else
         and_then (candidate_moved req cand) (\<lambda>c.
         and_then (refuse c ''Question output changed its planned opportunity'') (\<lambda>_.
         and_then (attr_list ''evidence_ids'' cand) (\<lambda>es.
         and_then (attrs [''evidence_bundle'', ''allowed_evidence_ids''] req) (\<lambda>a.
         and_then (iterate a) (\<lambda>allowed.
           refuse (\<not> set es \<subseteq> set allowed) ''Question output invented evidence_ids''))))))))"

definition gates_missed :: "json \<Rightarrow> json \<Rightarrow> gateway_failure + bool" where
  "gates_missed policy rvw = any_of [
     attr_truthy ''critical_failure_codes'' rvw,
     attr_below [''confidence''] rvw [''escalate_below_confidence''] policy,
     attr_below [''scores'', ''groundedness''] rvw [''minimum_groundedness''] policy,
     attr_below [''scores'', ''anchor_sufficiency''] rvw [''minimum_anchor_sufficiency''] policy,
     attr_below [''scores'', ''criterion_relevance''] rvw [''minimum_criterion_relevance''] policy,
     attr_below [''scores'', ''answerability''] rvw [''minimum_answerability''] policy]"

definition P08_relation :: "json \<Rightarrow> json \<Rightarrow> gateway_failure + unit" where
  "P08_relation req out =
     and_then (any_of [
       attr_differs [''submission_id''] out [''evidence_bundle'', ''submission_id''] req,
       attr_differs [''opportunity_id''] out [''opportunity'', ''opportunity_id''] req]) (\<lambda>b.
     and_then (refuse b ''P08 output request reference mismatch'') (\<lambda>_.
     and_then (attr ''review'' out) (\<lambda>rvw.
       if rvw = JNull then Inr ()
       else
         and_then (attrs [''generation_result'', ''candidate''] req) (\<lambda>cand.
         and_then (if cand = JNull then Inr True
                   else attr_differs [''candidate_id''] rvw [''candidate_id''] cand) (\<lambda>other.
         and_then (refuse other ''P08 reviewed a different candidate'') (\<lambda>_.
         and_then (attr ''validation_policy'' req) (\<lambda>policy.
         and_then (attr ''decision'' rvw) (\<lambda>dec.
           if dec = JStr ''ACCEPT''
           then and_then (gates_missed policy rvw) (\<lambda>g.
                  refuse g ''P08 accepted a question below trusted validation gates'')
           else Inr ()))))))))"

section \<open>P09 and P11\<close>

text \<open>The dictionary of questions by identifier: the last of equal keys, as in the comprehension.\<close>

definition questions_by_id :: "json \<Rightarrow> gateway_failure + (json \<times> json) list" where
  "questions_by_id req =
     and_then (attrs [''assessment'', ''questions''] req) (\<lambda>q.
     and_then (iterate q) (\<lambda>qs_by.
     and_then (pluck ''question_id'' qs_by) (\<lambda>ids. Inr (rev (zip ids qs_by)))))"

definition element_relation :: "json \<Rightarrow> json \<Rightarrow> gateway_failure + unit" where
  "element_relation question element =
     and_then (attr_list ''evidence_ids'' element) (\<lambda>es.
     and_then (attr_list ''evidence_ids'' question) (\<lambda>qs.
     and_then (refuse (\<not> set es \<subseteq> set qs) ''Guide invented evidence for a question'') (\<lambda>_.
     and_then (attr_list ''source_ids'' element) (\<lambda>ss.
     and_then (attr_list ''course_source_ids'' question) (\<lambda>cs.
       refuse (\<not> set ss \<subseteq> set cs) ''Guide invented a course source'')))))"

definition guide_item_relation :: "(json \<times> json) list \<Rightarrow> json \<Rightarrow> gateway_failure + unit" where
  "guide_item_relation qs_by guide_item =
     and_then (attr ''question_id'' guide_item) (\<lambda>qid.
       case map_of qs_by qid of
         None \<Rightarrow> Inl (ctx_error ''Guide references an unknown question_id'')
       | Some question \<Rightarrow>
           and_then (attrs [''guide'', ''observable_elements''] guide_item) (\<lambda>oe.
           and_then (iterate oe) (\<lambda>elements. each (element_relation question) elements)))"

definition P09_relation :: "json \<Rightarrow> json \<Rightarrow> gateway_failure + unit" where
  "P09_relation req out =
     and_then (any_of [
       attr_differs [''guide_id''] out [''guide_id''] req,
       attr_differs [''assessment_id''] out [''assessment'', ''assessment_id''] req,
       attr_differs [''submission_id''] out [''assessment'', ''submission_id''] req]) (\<lambda>b.
     and_then (refuse b ''P09 output assessment reference mismatch'') (\<lambda>_.
     and_then (questions_by_id req) (\<lambda>qs_by.
     and_then (attr ''status'' out) (\<lambda>s.
     and_then (if s = JStr ''READY''
               then and_then (attr_list ''items'' out) (\<lambda>gis. and_then (pluck ''question_id'' gis) (\<lambda>ids.
                      refuse (set ids \<noteq> fst ` set qs_by) ''READY guide must cover every assessment question''))
               else Inr ()) (\<lambda>_.
     and_then (attr_list ''items'' out) (\<lambda>gis. each (guide_item_relation qs_by) gis))))))"

definition P11_relation :: "json \<Rightarrow> json \<Rightarrow> gateway_failure + unit" where
  "P11_relation req out =
     and_then (attr_differs [''target_schema_name''] out [''target_schema_name''] req) (\<lambda>b.
       refuse b ''P11 changed target_schema_name'')"

definition output_relationship :: "string \<Rightarrow> json \<Rightarrow> json \<Rightarrow> gateway_failure + unit" where
  "output_relationship pid req out =
     (if pid = ''P01_ACTIVITY_SPEC_V1'' then P01_relation req out
      else if pid = ''P02_RUBRIC_NORMALIZE_V1'' then same_activity req out ''P02 output activity_id mismatch''
      else if pid = ''P03_AMBIGUITY_TRIAGE_V1'' then same_activity req out ''P03 output activity_id mismatch''
      else if pid = ''P04_BLUEPRINT_BUILD_V1'' then P04_relation req out
      else if pid = ''P05_BLUEPRINT_REVIEW_V1'' then P05_relation req out
      else if pid = ''P06_EVIDENCE_MAP_V1'' then P06_relation req out
      else if pid \<in> {''P07_QUESTION_BUILD_V1'', ''P10_ENRICHED_CONTEXT_V1''} then question_relation req out
      else if pid = ''P08_QUESTION_REVIEW_V1'' then P08_relation req out
      else if pid = ''P09_GUIDE_BUILD_V1'' then P09_relation req out
      else if pid = P11 then P11_relation req out
      else Inr ())"

end
