(* ===== verification/GatewayRoutes.thy ===== *)
theory GatewayRoutes
  imports GatewayRelations
begin

text \<open>
  \<open>model_gateway/gateway.py\<close>: the configuration, the deterministic identifiers, the mock route and
  \<open>ModelRouteResolver\<close>.
\<close>

datatype GatewayMode = MOCK | REAL

record GatewayConfig =
  mode :: GatewayMode
  timeout_seconds :: pyfloat
  max_retries :: int
  backoff_base_seconds :: pyfloat
  default_budget_usd :: pyfloat
  job_id :: string

definition GatewayConfig_check :: "GatewayConfig \<Rightarrow> string option" where
  "GatewayConfig_check c = first_error [
     raise_if (timeout_seconds c \<le> 0) ''timeout_seconds must be > 0'',
     raise_if (\<not> (0 \<le> max_retries c \<and> max_retries c \<le> 2)) ''max_retries must be between 0 and 2'',
     raise_if (backoff_base_seconds c < 0) ''backoff_base_seconds must be >= 0'',
     raise_if (default_budget_usd c < 0) ''default_budget_usd must be >= 0'']"

record CallBudget =
  max_cost_usd :: pyfloat
  estimated_cost_usd :: pyfloat

definition CallBudget_check :: "CallBudget \<Rightarrow> string option" where
  "CallBudget_check b =
     raise_if (CallBudget.max_cost_usd b < 0 \<or> CallBudget.estimated_cost_usd b < 0) ''cost budgets must be >= 0''"

text \<open>\<open>_stable_id\<close> of this module: 24 digits of the digest of the parts joined by bars.\<close>

definition gateway_id :: "string \<Rightarrow> string list \<Rightarrow> string" where
  "gateway_id prefix parts = prefix @ ''_'' @ take 24 (hexdigest (utf8 (join_with ''|'' parts)))"

text \<open>A constructor of a canonical model raises pydantic's \<open>ValidationError\<close>.\<close>

definition build_model :: "('a \<Rightarrow> contract_error option) \<Rightarrow> 'a \<Rightarrow> gateway_failure + 'a" where
  "build_model check x = (case check x of None \<Rightarrow> Inr x | Some e \<Rightarrow> Inl (Escaped ''ValidationError''))"

lemma build_model_Inr [simp]: "build_model check x = Inr y \<longleftrightarrow> check x = None \<and> y = x"
  by (auto simp: build_model_def split: option.splits)

section \<open>The mock route\<close>

definition mock_capabilities :: ModelCapabilities where
  "mock_capabilities = \<lparr>
     input_modalities = [ModelInputModality.TEXT, ModelInputModality.IMAGE, ModelInputModality.PDF],
     output_modalities = [ModelOutputModality.STRUCTURED_JSON], structured_outputs = True,
     max_context_tokens = 250000,
     supported_reasoning_efforts = [ReasoningEffort.MINIMAL, ReasoningEffort.LOW, ReasoningEffort.MEDIUM, ReasoningEffort.HIGH],
     supports_zero_data_retention = True, supported_regions = [''local-offline'']\<rparr>"

definition mock_route :: "PromptSpec \<Rightarrow> ModelRoute" where
  "mock_route s = \<lparr>
     ModelRoute.schema_version = LEGACY_SCHEMA_VERSION,
     route_id = ''route_mock_'' @ lower (PromptSpec.prompt_id s),
     task = PromptSpec.task s, provider = ''other'',
     model = ''deterministic-mock-'' @ lower (PromptSpec.prompt_id s),
     model_snapshot = ''deterministic-mock-v1'',
     reasoning_effort = PromptSpec.reasoning_effort s, temperature = PromptSpec.temperature s,
     capabilities = mock_capabilities, retention_mode = ''ZDR'', region = Some ''local-offline'',
     max_cost_usd = fl (1 / 100), max_input_tokens = 250000,
     max_output_tokens = max 16000 (PromptSpec.max_output_tokens s), fallback_route_id = None,
     reason_codes = [''MOCK_MODE'', ''NO_NETWORK'', ''PROMPT_POLICY_'' @ take 3 (PromptSpec.prompt_id s)]\<rparr>"

section \<open>Resolution\<close>

definition unresolved :: "PromptSpec \<Rightarrow> ModelInputModality list \<Rightarrow> ModelOutputModality list
    \<Rightarrow> string list \<Rightarrow> string \<Rightarrow> string \<Rightarrow> gateway_failure + ModelRouteResolution" where
  "unresolved s inputs outs evaluated reason verdict =
     build_model ModelRouteResolution_validate \<lparr>
       ModelRouteResolution.schema_version = LEGACY_SCHEMA_VERSION,
       resolution_id = gateway_id ''resolution'' [PromptSpec.prompt_id s, reason],
       task = PromptSpec.task s, status = verdict, required_input_modalities = inputs,
       required_output_modalities = outs, route = None, evaluated_route_ids = evaluated,
       reason_codes = [reason]\<rparr>"

definition resolved :: "PromptSpec \<Rightarrow> ModelInputModality list \<Rightarrow> ModelOutputModality list
    \<Rightarrow> ModelRoute \<Rightarrow> gateway_failure + ModelRouteResolution" where
  "resolved s inputs outs r =
     build_model ModelRouteResolution_validate \<lparr>
       ModelRouteResolution.schema_version = LEGACY_SCHEMA_VERSION,
       resolution_id = gateway_id ''resolution'' [PromptSpec.prompt_id s, ModelRoute.route_id r, ''resolved''],
       task = PromptSpec.task s, status = ''RESOLVED'', required_input_modalities = inputs,
       required_output_modalities = outs, route = Some r, evaluated_route_ids = [ModelRoute.route_id r],
       reason_codes = [''PROMPT_ROUTE_APPROVED'', ''CAPABILITIES_AND_POLICY_MATCH'']\<rparr>"

text \<open>The reason and the status for which a route is not resolved, the first that applies.\<close>

definition route_obstacle :: "GatewayMode \<Rightarrow> string list \<Rightarrow> PromptSpec \<Rightarrow> ModelInputModality list
    \<Rightarrow> ModelOutputModality list \<Rightarrow> CallBudget \<Rightarrow> int \<Rightarrow> ModelRoute \<Rightarrow> (string \<times> string) option" where
  "route_obstacle m providers s inputs outs b tokens r = first_error [
     raise_if (m = REAL \<and> ModelRoute.provider r \<notin> set providers) (''REAL_ADAPTER_NOT_CONFIGURED'', ''BLOCKED''),
     raise_if (CallBudget.estimated_cost_usd b > CallBudget.max_cost_usd b) (''CALL_BUDGET_EXCEEDED'', ''BLOCKED''),
     raise_if (CallBudget.estimated_cost_usd b > ModelRoute.max_cost_usd r) (''ROUTE_BUDGET_EXCEEDED'', ''BLOCKED''),
     raise_if (tokens > ModelRoute.max_input_tokens r) (''INPUT_TOKEN_LIMIT_EXCEEDED'', ''BLOCKED''),
     raise_if (PromptSpec.max_output_tokens s > ModelRoute.max_output_tokens r) (''OUTPUT_TOKEN_LIMIT_EXCEEDED'', ''BLOCKED''),
     raise_if (\<not> set inputs \<subseteq> set (input_modalities (capabilities r))) (''INPUT_MODALITY_UNSUPPORTED'', ''NEEDS_REVIEW''),
     raise_if (\<not> set outs \<subseteq> set (output_modalities (capabilities r))) (''OUTPUT_MODALITY_UNSUPPORTED'', ''NEEDS_REVIEW''),
     raise_if (\<not> structured_outputs (capabilities r)) (''STRUCTURED_OUTPUTS_REQUIRED'', ''BLOCKED'')]"

definition resolve :: "GatewayMode \<Rightarrow> (string \<times> ModelRoute) list \<Rightarrow> string list \<Rightarrow> PromptSpec
    \<Rightarrow> ModelInputModality list \<Rightarrow> ModelOutputModality list \<Rightarrow> CallBudget \<Rightarrow> int
    \<Rightarrow> gateway_failure + ModelRouteResolution" where
  "resolve m routes providers s inputs outs b tokens =
     and_then (case m of
        MOCK \<Rightarrow> and_then (build_model ModelRoute_validate (mock_route s)) (\<lambda>r. Inr (Some r))
      | REAL \<Rightarrow> Inr (map_of routes (PromptSpec.prompt_id s))) (\<lambda>chosen.
       case chosen of
         None \<Rightarrow> unresolved s inputs outs [] ''REAL_ROUTE_NOT_CONFIGURED'' ''BLOCKED''
       | Some r \<Rightarrow>
           (case route_obstacle m providers s inputs outs b tokens r of
              Some (reason, verdict) \<Rightarrow> unresolved s inputs outs [ModelRoute.route_id r] reason verdict
            | None \<Rightarrow> resolved s inputs outs r))"

section \<open>What resolution guarantees\<close>

lemma resolved_Inr:
  "resolved s inputs outs r = Inr res \<Longrightarrow> ModelRouteResolution.route res = Some r \<and> ModelRouteResolution.status res = ''RESOLVED''"
  unfolding resolved_def by auto

lemma unresolved_Inr:
  "unresolved s inputs outs ev reason verdict = Inr res \<Longrightarrow> ModelRouteResolution.route res = None"
  unfolding unresolved_def by auto

lemma resolve_route:
  assumes "resolve m routes providers s inputs outs b tokens = Inr res"
    and "ModelRouteResolution.route res = Some r"
  shows "ModelRouteResolution.status res = ''RESOLVED''"
    and "route_obstacle m providers s inputs outs b tokens r = None"
    and "m = MOCK \<Longrightarrow> r = mock_route s"
    and "m = REAL \<Longrightarrow> map_of routes (PromptSpec.prompt_id s) = Some r"
    and "m = REAL \<Longrightarrow> ModelRoute.provider r \<in> set providers"
proof -
  obtain chosen where c: "(case m of
        MOCK \<Rightarrow> and_then (build_model ModelRoute_validate (mock_route s)) (\<lambda>r. Inr (Some r))
      | REAL \<Rightarrow> Inr (map_of routes (PromptSpec.prompt_id s))) = Inr chosen"
    and k: "(case chosen of
         None \<Rightarrow> unresolved s inputs outs [] ''REAL_ROUTE_NOT_CONFIGURED'' ''BLOCKED''
       | Some r \<Rightarrow>
           (case route_obstacle m providers s inputs outs b tokens r of
              Some (reason, verdict) \<Rightarrow> unresolved s inputs outs [ModelRoute.route_id r] reason verdict
            | None \<Rightarrow> resolved s inputs outs r)) = Inr res"
    using assms(1) unfolding resolve_def and_then_Inr by blast
  obtain r' where r': "chosen = Some r'" "route_obstacle m providers s inputs outs b tokens r' = None"
      "resolved s inputs outs r' = Inr res"
    using k assms(2) unresolved_Inr by (fastforce split: option.splits)
  then have "r' = r" "ModelRouteResolution.status res = ''RESOLVED''"
    using resolved_Inr assms(2) by fastforce+
  then show "ModelRouteResolution.status res = ''RESOLVED''"
    "route_obstacle m providers s inputs outs b tokens r = None"
    "m = MOCK \<Longrightarrow> r = mock_route s"
    "m = REAL \<Longrightarrow> map_of routes (PromptSpec.prompt_id s) = Some r"
    "m = REAL \<Longrightarrow> ModelRoute.provider r \<in> set providers"
    using r' c by (auto simp: route_obstacle_def split: option.splits)
qed

end
