(* ===== verification/Gateway.thy ===== *)
theory Gateway
  imports GatewayRoutes
begin

text \<open>
  \<open>ModelGateway.invoke\<close>: the retry loop, the single structural repair and the call ledger.  The
  adapters, pydantic's \<open>model_validate\<close>, the clock and the measured latency are components of the
  gateway record.  What an invocation does to the outside, the adapter calls, the ledger entries
  handed to the sink and the waits between attempts, is the list of its events in order.
\<close>

section \<open>Adapters\<close>

datatype MockBehavior = HAPPY | ABSTAIN | INVALID_ONCE | TIMEOUT

record adapter_call =
  call_spec :: PromptSpec
  call_request :: model_obj
  call_envelope :: ModelTaskEnvelope
  call_route :: ModelRoute
  call_attempt :: int
  call_behavior :: MockBehavior

record AdapterResult =
  raw_output :: json
  input_tokens :: int
  cached_input_tokens :: int
  output_tokens :: int
  estimated_cost_usd :: pyfloat
  actual_cost_usd :: pyfloat

datatype adapter_outcome = TimedOut | RateLimited | Transient | SafetyRefused | Broken
  | Answered AdapterResult

text \<open>One entry of pydantic's \<open>errors()\<close>, its location as texts.\<close>

record validation_item =
  item_loc :: "string list"
  item_type :: string
  item_msg :: string

record ModelGateway =
  settings :: GatewayConfig
  real_routes :: "(string \<times> ModelRoute) list"
  adapters :: "(string \<times> (adapter_call \<Rightarrow> adapter_outcome)) list"
  mock_adapter :: "adapter_call \<Rightarrow> adapter_outcome"
  model_validate :: "string \<Rightarrow> json \<Rightarrow> validation_item list + model_obj"
  clock :: "adapter_call \<Rightarrow> datetime"
  latency :: "adapter_call \<Rightarrow> int"

datatype gateway_event = Called adapter_call | Recorded ModelCallLedger | Slept pyfloat

record GatewayCallResult =
  result_prompt :: string
  result_output :: model_obj
  result_envelope :: ModelTaskEnvelope
  result_resolution :: ModelRouteResolution
  result_ledgers :: "ModelCallLedger list"
  validation_order :: "ValidationPhase list"
  repair_validation_order :: "ValidationPhase list"
  repaired :: bool

section \<open>Events before a value or a failure\<close>

type_synonym 'a run = "gateway_event list \<times> (gateway_failure + 'a)"

abbreviation pure :: "gateway_failure + 'a \<Rightarrow> 'a run" where
  "pure r \<equiv> ([], r)"

fun chain :: "'a run \<Rightarrow> ('a \<Rightarrow> 'b run) \<Rightarrow> 'b run" where
  "chain (es, Inl e) f = (es, Inl e)"
| "chain (es, Inr a) f = (es @ fst (f a), snd (f a))"

text \<open>\<open>try: ... except GatewayContextError\<close>.\<close>

fun on_context_error :: "gateway_failure + 'a \<Rightarrow> (unit \<Rightarrow> 'b run) \<Rightarrow> ('a \<Rightarrow> 'b run) \<Rightarrow> 'b run" where
  "on_context_error (Inr a) handler k = k a"
| "on_context_error (Inl (Governed GatewayContextError m ph ls res)) handler k = handler ()"
| "on_context_error (Inl e) handler k = ([], Inl e)"

section \<open>The ledger\<close>

definition opt_json :: "string option \<Rightarrow> json" where
  "opt_json v = (case v of None \<Rightarrow> JNull | Some s \<Rightarrow> JStr s)"

definition strs :: "string list \<Rightarrow> json" where
  "strs xs = JList (map JStr xs)"

definition context_json :: "TrustedPromptContext \<Rightarrow> json" where
  "context_json t = JObj [
     (''tenant_id'', JStr (TrustedPromptContext.tenant_id t)), (''activity_id'', JStr (TrustedPromptContext.activity_id t)),
     (''submission_id'', opt_json (TrustedPromptContext.submission_id t)),
     (''blueprint_id'', opt_json (TrustedPromptContext.blueprint_id t)),
     (''blueprint_version'', case TrustedPromptContext.blueprint_version t of None \<Rightarrow> JNull | Some i \<Rightarrow> JInt i),
     (''allowed_evidence_ids'', strs (TrustedPromptContext.allowed_evidence_ids t)),
     (''allowed_course_source_ids'', strs (allowed_course_source_ids t)),
     (''output_language'', JStr (TrustedPromptContext.output_language t)),
     (''context_mode'', JStr (context_mode_text (TrustedPromptContext.context_mode t)))]"

definition envelope_json :: "ModelTaskEnvelope \<Rightarrow> json" where
  "envelope_json e = JObj [
     (''schema_version'', JStr (ModelTaskEnvelope.schema_version e)), (''prompt_id'', JStr (ModelTaskEnvelope.prompt_id e)),
     (''prompt_version'', JStr (ModelTaskEnvelope.prompt_version e)),
     (''output_schema_name'', JStr (ModelTaskEnvelope.output_schema_name e)),
     (''output_schema_version'', JStr (output_schema_version e)),
     (''trusted_context'', context_json (trusted_context e)),
     (''payload'', JObj (ModelTaskEnvelope.payload e))]"

definition elapsed_ms :: "ModelGateway \<Rightarrow> adapter_call \<Rightarrow> int" where
  "elapsed_ms g c = (if mode (settings g) = MOCK then 0 else max 0 (latency g c))"

definition aware :: "datetime \<Rightarrow> datetime" where
  "aware t = (if utc_offset t = None then t\<lparr>utc_offset := Some 0\<rparr> else t)"

definition ledger_entry :: "ModelGateway \<Rightarrow> adapter_call \<Rightarrow> string \<Rightarrow> int \<Rightarrow> int \<Rightarrow> int \<Rightarrow> pyfloat \<Rightarrow> pyfloat option
    \<Rightarrow> gateway_failure + ModelCallLedger" where
  "ledger_entry g c verdict tokens_in cached tokens_out est act =
     (let s = call_spec c; input_hash = canonical_hash (envelope_json (call_envelope c)) in
      build_model ModelCallLedger_validate \<lparr>
        ModelCallLedger.schema_version = LEGACY_SCHEMA_VERSION,
        model_call_id = gateway_id ''modelcall'' [GatewayConfig.job_id (settings g), PromptSpec.prompt_id s,
          input_hash, dec (call_attempt c), verdict],
        tenant_id = TrustedPromptContext.tenant_id (trusted_context (call_envelope c)),
        job_id = GatewayConfig.job_id (settings g), stage = PromptSpec.task s, prompt_id = PromptSpec.prompt_id s,
        prompt_version = PromptSpec.prompt_version s, prompt_hash = Registry.prompt_hash s,
        input_bundle_hash = input_hash, schema_name = PromptSpec.output_schema_name s,
        schema_version_used = LEGACY_SCHEMA_VERSION, route = call_route c,
        input_tokens = max 0 tokens_in, cached_input_tokens = max 0 cached, output_tokens = max 0 tokens_out,
        latency_ms = max 0 (elapsed_ms g c), estimated_cost_usd = max 0 est,
        actual_cost_usd = map_option (max 0) act, result = verdict, attempt = call_attempt c,
        created_at = aware (clock g c)\<rparr>)"

text \<open>\<open>_record\<close>: the entry is appended to the call's collection and handed to the sink.\<close>

definition record_ledger :: "gateway_failure + ModelCallLedger \<Rightarrow> ModelCallLedger list \<Rightarrow> ModelCallLedger list run" where
  "record_ledger entry ls = (case entry of Inl e \<Rightarrow> ([], Inl e) | Inr l \<Rightarrow> ([Recorded l], Inr (ls @ [l])))"

definition record_failure :: "ModelGateway \<Rightarrow> adapter_call \<Rightarrow> string \<Rightarrow> int \<Rightarrow> pyfloat
    \<Rightarrow> ModelCallLedger list \<Rightarrow> ModelCallLedger list run" where
  "record_failure g c verdict tokens est = record_ledger
     (ledger_entry g c verdict tokens 0 0 est (if mode (settings g) = MOCK then Some 0 else None))"

definition record_answer :: "ModelGateway \<Rightarrow> adapter_call \<Rightarrow> AdapterResult \<Rightarrow> string
    \<Rightarrow> ModelCallLedger list \<Rightarrow> ModelCallLedger list run" where
  "record_answer g c a verdict = record_ledger
     (ledger_entry g c verdict (AdapterResult.input_tokens a) (AdapterResult.cached_input_tokens a)
       (AdapterResult.output_tokens a) (AdapterResult.estimated_cost_usd a) (Some (AdapterResult.actual_cost_usd a)))"

section \<open>Validation of requests, envelopes and outputs\<close>

definition known_root :: "string \<Rightarrow> gateway_failure + string" where
  "known_root nm = (case model_by_name nm of Inl e \<Rightarrow> Inl (Escaped ''ValueError'') | Inr r \<Rightarrow> Inr r)"

definition validate_request :: "ModelGateway \<Rightarrow> PromptSpec \<Rightarrow> json \<Rightarrow> gateway_failure + model_obj" where
  "validate_request g s raw =
     and_then (known_root (input_schema_name s)) (\<lambda>nm.
       case model_validate g nm raw of
         Inr m \<Rightarrow> Inr m
       | Inl _ \<Rightarrow> Inl (Governed GatewayValidationError ''Request root validation failed'' (Some REQUEST) [] None))"

definition validate_envelope :: "PromptSpec \<Rightarrow> model_obj \<Rightarrow> TrustedPromptContext \<Rightarrow> gateway_failure + ModelTaskEnvelope" where
  "validate_envelope s req trusted =
     (let e = \<lparr>ModelTaskEnvelope.schema_version = LEGACY_SCHEMA_VERSION, prompt_id = PromptSpec.prompt_id s,
        prompt_version = PromptSpec.prompt_version s, output_schema_name = PromptSpec.output_schema_name s,
        output_schema_version = LEGACY_SCHEMA_VERSION, trusted_context = trusted, payload = model_fields req\<rparr>
      in case ModelTaskEnvelope_validate e of
           None \<Rightarrow> Inr e
         | Some _ \<Rightarrow> Inl (Governed GatewayValidationError ''ModelTaskEnvelope validation failed'' (Some ENVELOPE) [] None))"

text \<open>\<open>_validate_output\<close>: pydantic's errors, with which \<open>GatewaySchemaViolation\<close> is raised, or the
  instance.\<close>

definition validate_output :: "ModelGateway \<Rightarrow> PromptSpec \<Rightarrow> json \<Rightarrow> gateway_failure + (validation_item list + model_obj)" where
  "validate_output g s raw =
     and_then (known_root (PromptSpec.output_schema_name s)) (\<lambda>nm. Inr (model_validate g nm raw))"

definition encoded_tokens :: "model_obj \<Rightarrow> int" where
  "encoded_tokens m = max 1 (int (length (canonical_bytes (model_dump m)) div 4))"

definition adapter_for :: "ModelGateway \<Rightarrow> ModelRoute \<Rightarrow> gateway_failure + (adapter_call \<Rightarrow> adapter_outcome)" where
  "adapter_for g r =
     (if mode (settings g) = MOCK then Inr (mock_adapter g)
      else case map_of (adapters g) (ModelRoute.provider r) of
        Some a \<Rightarrow> Inr a
      | None \<Rightarrow> Inl (Governed GatewayRouteBlocked ''Resolved route has no installed adapter'' None [] None))"

definition providers :: "ModelGateway \<Rightarrow> string list" where
  "providers g = map fst (adapters g)"

section \<open>The structural repair\<close>

definition stripped :: "string \<Rightarrow> string" where
  "stripped = strip_by trim_space"

definition issue_of :: "validation_item \<Rightarrow> SchemaValidationIssue" where
  "issue_of i = \<lparr>SchemaValidationIssue.path = stripped (''/'' @ join_with ''/'' (item_loc i)),
     error_type = stripped (take 200 (item_type i)), message = stripped (take 1000 (item_msg i))\<rparr>"

definition default_issue :: SchemaValidationIssue where
  "default_issue = \<lparr>SchemaValidationIssue.path = ''/'', error_type = ''schema_error'', message = ''Schema validation failed''\<rparr>"

definition issues_of :: "validation_item list \<Rightarrow> gateway_failure + SchemaValidationIssue list" where
  "issues_of errs =
     and_then (collect (\<lambda>i. build_model SchemaValidationIssue_validate (issue_of i)) (take 100 errs)) (\<lambda>iss.
       Inr (if iss = [] then [default_issue] else iss))"

definition issue_json :: "SchemaValidationIssue \<Rightarrow> json" where
  "issue_json i = JObj [(''path'', JStr (SchemaValidationIssue.path i)), (''error_type'', JStr (error_type i)),
     (''message'', JStr (SchemaValidationIssue.message i))]"

definition repair_request :: "PromptSpec \<Rightarrow> json \<Rightarrow> SchemaValidationIssue list \<Rightarrow> gateway_failure + model_obj" where
  "repair_request s invalid iss =
     and_then (build_model SchemaRepairRequest_validate
       \<lparr>SchemaRepairRequest.schema_version = LEGACY_SCHEMA_VERSION, target_schema_name = PromptSpec.output_schema_name s,
        invalid_output = invalid, validation_issues = iss\<rparr>) (\<lambda>r.
     Inr \<lparr>model_class = ''SchemaRepairRequest'', model_fields =
       [(''schema_version'', JStr (SchemaRepairRequest.schema_version r)),
        (''target_schema_name'', JStr (SchemaRepairRequest.target_schema_name r)),
        (''invalid_output'', invalid_output r),
        (''validation_issues'', JList (map issue_json (validation_issues r)))]\<rparr>)"

text \<open>\<open>_revalidate_repair_target\<close>; \<open>None\<close> for an UNREPAIRABLE result.\<close>

definition revalidate_repair_target :: "ModelGateway \<Rightarrow> model_obj \<Rightarrow> gateway_failure + model_obj option" where
  "revalidate_repair_target g m =
     (let out = model_dump m in
      and_then (attr ''repair_status'' out) (\<lambda>s.
        if s = JStr ''UNREPAIRABLE'' then Inr None
        else
          and_then (attr ''target_schema_name'' out) (\<lambda>target_name.
          and_then (known_root (concat (text_of target_name))) (\<lambda>nm.
          and_then (attr ''repaired_output'' out) (\<lambda>raw.
            case model_validate g nm raw of
              Inr r \<Rightarrow> Inr (Some r)
            | Inl _ \<Rightarrow> Inl (Governed GatewaySchemaViolation ''P11 repaired_output still violates the target root''
                (Some REPAIRED_OUTPUT) [] None))))))"

text \<open>An exception of the adapter other than \<open>TimeoutError\<close> is not caught in the repair.\<close>

fun escaped_name :: "adapter_outcome \<Rightarrow> string" where
  "escaped_name RateLimited = ''RateLimitProviderError''"
| "escaped_name Transient = ''TransientProviderError''"
| "escaped_name SafetyRefused = ''SafetyBlockProviderError''"
| "escaped_name _ = ''Exception''"

definition repair_answer :: "ModelGateway \<Rightarrow> PromptSpec \<Rightarrow> TrustedPromptContext \<Rightarrow> adapter_call \<Rightarrow> AdapterResult
    \<Rightarrow> (model_obj \<times> ModelCallLedger list) run" where
  "repair_answer g s trusted c a =
     chain (pure (validate_output g s (raw_output a))) (\<lambda>v. case v of
       Inl _ \<Rightarrow> chain (record_answer g c a ''SCHEMA_INVALID'' []) (\<lambda>ls.
         pure (Inl (Governed GatewaySchemaViolation ''P11 returned an invalid result; a second repair is forbidden'' (Some OUTPUT) ls None)))
     | Inr m \<Rightarrow>
         on_context_error (output_context (model_dump m) trusted (PromptSpec.prompt_id s))
           (\<lambda>_. chain (record_answer g c a ''SCHEMA_INVALID'' []) (\<lambda>ls.
             pure (Inl (Governed GatewayContextError ''P11 output failed contextual validation'' None ls None))))
           (\<lambda>_. chain (record_answer g c a ''SCHEMA_VALID'' []) (\<lambda>ls.
             chain (pure (attr ''repair_status'' (model_dump m))) (\<lambda>st.
               if st \<noteq> JStr ''REPAIRED''
               then pure (Inl (Governed GatewaySchemaViolation ''P11 declared the output unrepairable'' (Some REPAIRED_OUTPUT) ls None))
               else chain (pure (revalidate_repair_target g m)) (\<lambda>r. case r of
                 None \<Rightarrow> pure (Inl (Escaped ''AssertionError''))
               | Some out \<Rightarrow> pure (Inr (out, ls)))))))"

definition repair_once :: "ModelGateway \<Rightarrow> PromptSpec \<Rightarrow> json \<Rightarrow> validation_item list \<Rightarrow> TrustedPromptContext
    \<Rightarrow> (model_obj \<times> ModelCallLedger list) run" where
  "repair_once g target_spec invalid errs trusted =
     chain (pure (case prompt_spec P11 of Inl _ \<Rightarrow> Inl (Escaped ''ValueError'') | Inr s \<Rightarrow> Inr s)) (\<lambda>s.
     chain (pure (issues_of errs)) (\<lambda>iss.
     chain (pure (repair_request target_spec invalid iss)) (\<lambda>req.
     chain (pure (validate_envelope s req trusted)) (\<lambda>envelope.
     chain (pure (resolve (mode (settings g)) (real_routes g) (providers g) s [ModelInputModality.TEXT]
       [ModelOutputModality.STRUCTURED_JSON]
       \<lparr>CallBudget.max_cost_usd = default_budget_usd (settings g), estimated_cost_usd = 0\<rparr> (encoded_tokens req))) (\<lambda>res.
     case (if ModelRouteResolution.status res = ''RESOLVED'' then ModelRouteResolution.route res else None) of
       None \<Rightarrow> pure (Inl (Governed GatewayRouteBlocked ''No approved route for the single structural repair'' None [] (Some res)))
     | Some r \<Rightarrow>
         chain (pure (adapter_for g r)) (\<lambda>adapter.
           let c = \<lparr>call_spec = s, call_request = req, call_envelope = envelope, call_route = r,
                    call_attempt = 1, call_behavior = HAPPY\<rparr>
           in chain ([Called c], Inr ()) (\<lambda>_. case adapter c of
                TimedOut \<Rightarrow> chain (record_failure g c ''TIMEOUT'' (encoded_tokens req) 0 []) (\<lambda>ls.
                  pure (Inl (Governed GatewaySchemaViolation ''The single P11 repair attempt timed out'' (Some OUTPUT) ls None)))
              | Answered a \<Rightarrow> repair_answer g s trusted c a
              | other \<Rightarrow> pure (Inl (Escaped (escaped_name other))))))))))"

section \<open>One attempt\<close>

text \<open>What \<open>invoke\<close> has fixed before its loop.\<close>

record invocation =
  inv_spec :: PromptSpec
  inv_request :: model_obj
  inv_envelope :: ModelTaskEnvelope
  inv_resolution :: ModelRouteResolution
  inv_route :: ModelRoute
  inv_behavior :: MockBehavior
  inv_budget :: CallBudget
  inv_tokens :: int
  retry_limit :: int

definition call_of :: "invocation \<Rightarrow> int \<Rightarrow> adapter_call" where
  "call_of k n = \<lparr>call_spec = inv_spec k, call_request = inv_request k, call_envelope = inv_envelope k,
     call_route = inv_route k, call_attempt = n, call_behavior = inv_behavior k\<rparr>"

text \<open>The exceptions of an adapter: the ledger verdict, whether the attempt may be repeated, and the
  error when it is not.\<close>

fun provider_failure :: "adapter_outcome \<Rightarrow> (string \<times> bool \<times> GatewayErrorClass \<times> string) option" where
  "provider_failure TimedOut = Some (''TIMEOUT'', True, GatewayTimeout, ''Model call timed out after governed retries'')"
| "provider_failure RateLimited = Some (''RATE_LIMIT'', True, GatewayProviderError, ''Provider rate limit exhausted governed retries'')"
| "provider_failure Transient = Some (''PROVIDER_ERROR'', True, GatewayProviderError, ''Transient provider failure exhausted governed retries'')"
| "provider_failure SafetyRefused = Some (''SAFETY_BLOCK'', False, GatewaySafetyBlock, ''Provider returned a safety block; no evasion retry is allowed'')"
| "provider_failure Broken = Some (''PROVIDER_ERROR'', False, GatewayProviderError, ''Non-retryable model adapter failure'')"
| "provider_failure (Answered a) = None"

definition call_result :: "invocation \<Rightarrow> model_obj \<Rightarrow> ModelCallLedger list \<Rightarrow> ValidationPhase list
    \<Rightarrow> ValidationPhase list \<Rightarrow> bool \<Rightarrow> GatewayCallResult" where
  "call_result k m ls order rorder rep = \<lparr>result_prompt = PromptSpec.prompt_id (inv_spec k), result_output = m,
     result_envelope = inv_envelope k, result_resolution = inv_resolution k, result_ledgers = ls,
     validation_order = order, repair_validation_order = rorder, repaired = rep\<rparr>"

definition output_checks :: "invocation \<Rightarrow> model_obj \<Rightarrow> gateway_failure + unit" where
  "output_checks k m =
     and_then (output_context (model_dump m) (trusted_context (inv_envelope k)) (PromptSpec.prompt_id (inv_spec k))) (\<lambda>_.
       output_relationship (PromptSpec.prompt_id (inv_spec k)) (model_dump (inv_request k)) (model_dump m))"

text \<open>The answer does not validate: one repair, which is not repeated and not repaired itself.\<close>

definition schema_invalid :: "ModelGateway \<Rightarrow> invocation \<Rightarrow> adapter_call \<Rightarrow> AdapterResult \<Rightarrow> validation_item list
    \<Rightarrow> ModelCallLedger list \<Rightarrow> GatewayCallResult run" where
  "schema_invalid g k c a errs ls =
     chain (record_answer g c a ''SCHEMA_INVALID'' ls) (\<lambda>ls1.
       if PromptSpec.prompt_id (inv_spec k) = P11
       then pure (Inl (Governed GatewaySchemaViolation ''P11 output was invalid; recursive repair is forbidden'' (Some OUTPUT) ls1 None))
       else
         chain (repair_once g (inv_spec k) (raw_output a) errs (trusted_context (inv_envelope k))) (\<lambda>(m, repair_ledgers).
           let ls2 = ls1 @ repair_ledgers in
           on_context_error (output_checks k m)
             (\<lambda>_. pure (Inl (Governed GatewayContextError ''Repaired output failed contextual validation'' None ls2 None)))
             (\<lambda>_. pure (Inr (call_result k m ls2 [REQUEST, ENVELOPE, OUTPUT, REPAIRED_OUTPUT]
                    [REQUEST, ENVELOPE, OUTPUT, REPAIRED_OUTPUT] True)))))"

definition schema_valid :: "ModelGateway \<Rightarrow> invocation \<Rightarrow> adapter_call \<Rightarrow> AdapterResult \<Rightarrow> model_obj
    \<Rightarrow> ModelCallLedger list \<Rightarrow> GatewayCallResult run" where
  "schema_valid g k c a m ls =
     on_context_error (output_checks k m)
       (\<lambda>_. chain (record_answer g c a ''SCHEMA_INVALID'' ls) (\<lambda>ls1.
         pure (Inl (Governed GatewayContextError ''Model output failed contextual validation'' None ls1 None))))
       (\<lambda>_.
         chain (pure (if PromptSpec.prompt_id (inv_spec k) = P11
           then and_then (revalidate_repair_target g m) (\<lambda>_.
                and_then (attr ''repair_status'' (model_dump m)) (\<lambda>st. Inr (st = JStr ''REPAIRED'')))
           else Inr False)) (\<lambda>again.
         chain (record_answer g c a ''SCHEMA_VALID'' ls) (\<lambda>ls1.
           pure (Inr (call_result k m ls1
             ([REQUEST, ENVELOPE, OUTPUT] @ (if again then [REPAIRED_OUTPUT] else [])) [] False)))))"

text \<open>\<open>_backoff\<close>: no wait when the delay is zero.\<close>

definition backoff :: "ModelGateway \<Rightarrow> int \<Rightarrow> unit run" where
  "backoff g n =
     (let delay = fmul (backoff_base_seconds (settings g)) (2 ^ nat (max 0 (n - 1)))
      in (if delay \<noteq> 0 then [Slept delay] else [], Inr ()))"

section \<open>The retry loop and \<open>invoke\<close>\<close>

fun run_attempts :: "ModelGateway \<Rightarrow> (adapter_call \<Rightarrow> adapter_outcome) \<Rightarrow> invocation \<Rightarrow> int list
    \<Rightarrow> ModelCallLedger list \<Rightarrow> GatewayCallResult run" where
  "run_attempts g adapter k [] ls = pure (Inl (Escaped ''unreachable retry loop''))"
| "run_attempts g adapter k (n # rest) ls =
     (let c = call_of k n in
      chain ([Called c], Inr ()) (\<lambda>_.
      case provider_failure (adapter c) of
        Some (verdict, may_retry, cls, msg) \<Rightarrow>
          chain (record_failure g c verdict (inv_tokens k) (CallBudget.estimated_cost_usd (inv_budget k)) ls) (\<lambda>ls1.
            if may_retry \<and> n \<le> retry_limit k
            then chain (backoff g n) (\<lambda>_. run_attempts g adapter k rest ls1)
            else pure (Inl (Governed cls msg None ls1 None)))
      | None \<Rightarrow>
          (case adapter c of
             Answered a \<Rightarrow>
               chain (pure (validate_output g (inv_spec k) (raw_output a))) (\<lambda>v. case v of
                 Inl errs \<Rightarrow> schema_invalid g k c a errs ls
               | Inr m \<Rightarrow> schema_valid g k c a m ls)
           | _ \<Rightarrow> pure (Inl (Escaped ''unreachable retry loop'')))))"

definition blocked_error :: "ModelRouteResolution \<Rightarrow> gateway_failure" where
  "blocked_error res = Governed
     (if list_ex (contains ''BUDGET'') (ModelRouteResolution.reason_codes res) then GatewayBudgetExceeded else GatewayRouteBlocked)
     (''Model route is '' @ ModelRouteResolution.status res @ '': '' @ join_with '','' (ModelRouteResolution.reason_codes res))
     None [] (Some res)"

text \<open>Everything before the loop.\<close>

definition prepare :: "ModelGateway \<Rightarrow> string \<Rightarrow> json \<Rightarrow> TrustedPromptContext \<Rightarrow> MockBehavior \<Rightarrow> CallBudget option
    \<Rightarrow> ModelInputModality list \<Rightarrow> gateway_failure + invocation \<times> (adapter_call \<Rightarrow> adapter_outcome)" where
  "prepare g pid raw trusted behavior budget inputs =
     and_then (case prompt_spec pid of Inl _ \<Rightarrow> Inl (Escaped ''ValueError'') | Inr s \<Rightarrow> Inr s) (\<lambda>s.
     and_then (validate_request g s raw) (\<lambda>req.
     and_then (validate_envelope s req trusted) (\<lambda>envelope.
     and_then (request_context (model_dump req) (trusted_context envelope) pid) (\<lambda>_.
     let tokens = encoded_tokens req;
         b = (case budget of Some x \<Rightarrow> x
              | None \<Rightarrow> \<lparr>CallBudget.max_cost_usd = default_budget_usd (settings g), estimated_cost_usd = 0\<rparr>) in
     and_then (resolve (mode (settings g)) (real_routes g) (providers g) s inputs
       [ModelOutputModality.STRUCTURED_JSON] b tokens) (\<lambda>res.
     case (if ModelRouteResolution.status res = ''RESOLVED'' then ModelRouteResolution.route res else None) of
       None \<Rightarrow> Inl (blocked_error res)
     | Some r \<Rightarrow>
         and_then (adapter_for g r) (\<lambda>adapter.
           Inr (\<lparr>inv_spec = s, inv_request = req, inv_envelope = envelope, inv_resolution = res, inv_route = r,
                 inv_behavior = (if mode (settings g) = MOCK then behavior else HAPPY), inv_budget = b,
                 inv_tokens = tokens, retry_limit = min (max_retries (settings g)) (max_transient_retries s)\<rparr>,
                adapter)))))))"

definition invoke :: "ModelGateway \<Rightarrow> string \<Rightarrow> json \<Rightarrow> TrustedPromptContext \<Rightarrow> MockBehavior \<Rightarrow> CallBudget option
    \<Rightarrow> ModelInputModality list \<Rightarrow> GatewayCallResult run" where
  "invoke g pid raw trusted behavior budget inputs =
     chain (pure (prepare g pid raw trusted behavior budget inputs)) (\<lambda>(k, adapter).
       run_attempts g adapter k [1..retry_limit k + 1] [])"

end
