(* ===== verification/GatewayRun.thy ===== *)
theory GatewayRun
  imports Gateway
begin

text \<open>
  The shape of every run of the gateway: its events, its calls and its ledger entries, proved along
  the loop from the single attempt and the single repair.
\<close>

section \<open>Events of a run\<close>

fun calls :: "gateway_event list \<Rightarrow> adapter_call list" where
  "calls [] = []"
| "calls (Called c # es) = c # calls es"
| "calls (Recorded l # es) = calls es"
| "calls (Slept x # es) = calls es"

fun ledgers :: "gateway_event list \<Rightarrow> ModelCallLedger list" where
  "ledgers [] = []"
| "ledgers (Called c # es) = ledgers es"
| "ledgers (Recorded l # es) = l # ledgers es"
| "ledgers (Slept x # es) = ledgers es"

lemma calls_append [simp]: "calls (es @ fs) = calls es @ calls fs"
  by (induction es rule: calls.induct) simp_all

lemma ledgers_append [simp]: "ledgers (es @ fs) = ledgers es @ ledgers fs"
  by (induction es rule: ledgers.induct) simp_all

lemma fst_chain: "fst (chain m f) = fst m @ (case snd m of Inl e \<Rightarrow> [] | Inr a \<Rightarrow> fst (f a))"
  by (cases "(m, f)" rule: chain.cases) simp_all

lemma snd_chain: "snd (chain m f) = (case snd m of Inl e \<Rightarrow> Inl e | Inr a \<Rightarrow> snd (f a))"
  by (cases "(m, f)" rule: chain.cases) simp_all

lemma snd_chain_Inr:
  "snd (chain m f) = Inr b \<longleftrightarrow> (\<exists>a. snd m = Inr a \<and> snd (f a) = Inr b)"
  by (cases "snd m") (simp_all add: snd_chain)

lemma chain_pure [simp]: "chain (pure (Inr a)) f = f a" "chain (pure (Inl e)) f = pure (Inl e)"
  by (simp_all add: prod_eq_iff)

section \<open>The loop is never left at its end\<close>

text \<open>A result is quiet when it is not the error of an exhausted loop.\<close>

named_theorems quiet "results that are not the unreachable error"

definition quiet :: "gateway_failure + 'a \<Rightarrow> bool" where
  "quiet r \<longleftrightarrow> r \<noteq> Inl (Escaped ''unreachable retry loop'')"

text \<open>What holds of the three continuations of a guarded check holds of the whole.\<close>

lemma on_context_error_rule:
  assumes "quiet m" and "\<And>a. m = Inr a \<Longrightarrow> Q (k a)" and "Q (h ())"
    and "\<And>e. m = Inl e \<Longrightarrow> quiet (Inl e :: gateway_failure + unit) \<Longrightarrow> Q (pure (Inl e))"
  shows "Q (on_context_error m h k)"
  using assms by (cases "(m, h, k)" rule: on_context_error.cases) (auto simp: quiet_def)

lemma quiet_Inr [quiet, simp]: "quiet (Inr a)"
  by (simp add: quiet_def)

lemma quiet_Governed [quiet, simp]: "quiet (Inl (Governed c m p ls r))"
  by (simp add: quiet_def)

lemma quiet_Escaped [quiet]:
  "quiet (Inl (Escaped ''ValueError''))" "quiet (Inl (Escaped ''AttributeError''))" "quiet (Inl (Escaped ''TypeError''))"
  "quiet (Inl (Escaped ''ValidationError''))" "quiet (Inl (Escaped ''AssertionError''))"
  by (simp_all add: quiet_def)

lemma quiet_and_then [quiet]:
  assumes "quiet m" and "\<And>a. m = Inr a \<Longrightarrow> quiet (f a)"
  shows "quiet (and_then m f)"
  using assms by (cases m) (simp_all add: quiet_def)

lemma quiet_if [quiet]: "(b \<Longrightarrow> quiet x) \<Longrightarrow> (\<not> b \<Longrightarrow> quiet y) \<Longrightarrow> quiet (if b then x else y)"
  by simp

lemma quiet_refuse [quiet]: "quiet (refuse b msg)"
  by (simp add: refuse_def)

lemma quiet_each [quiet]: "(\<And>x. quiet (f x)) \<Longrightarrow> quiet (each f xs)"
  by (induction xs) (auto intro: quiet)

lemma quiet_collect [quiet]: "(\<And>x. quiet (f x)) \<Longrightarrow> quiet (collect f xs)"
  by (induction xs) (auto intro!: quiet)

lemma quiet_any_of: "\<forall>c \<in> set cs. quiet c \<Longrightarrow> quiet (any_of cs)"
  by (induction cs) (auto intro!: quiet)

lemma quiet_attr [quiet]: "quiet (attr k v)"
  by (cases v) (auto intro: quiet split: option.splits)

lemma quiet_attrs [quiet]: "quiet (attrs ks v)"
  by (induction ks arbitrary: v) (auto intro!: quiet)

lemma quiet_iterate [quiet]: "quiet (iterate v)"
  by (cases v) (auto intro: quiet)

lemma quiet_number [quiet]: "quiet (number v)"
  by (cases v) (auto intro: quiet)

lemma quiet_build_model [quiet]: "quiet (build_model f x)"
  by (auto simp: build_model_def intro: quiet split: option.splits)

lemma quiet_texts_at [quiet]: "quiet (texts_at kvs k)"
  by (auto simp: texts_at_def intro!: quiet split: option.splits)

lemma quiet_collect_ids [quiet]: "quiet (collect_authorized_ids ds)"
  by (induction ds) (auto intro!: quiet split: prod.splits)

lemma quiet_modes [quiet]: "quiet (modes_of ds)"
  by (auto simp: modes_of_def Let_def intro!: quiet)

lemma quiet_leaf [quiet]:
  "quiet (attr_list k v)" "quiet (pluck k vs)" "quiet (attr_differs ks v ls w)" "quiet (attr_below ks v ls w)"
  "quiet (attr_is_not k v u)" "quiet (attr_truthy k v)" "quiet (set_differs ks v ls w)" "quiet (statement_ids v k)"
  by (auto simp: attr_list_def pluck_def attr_differs_def attr_below_def attr_is_not_def attr_truthy_def
      set_differs_def statement_ids_def intro!: quiet)

lemma quiet_request_context [quiet]: "quiet (request_context d t pid)"
  unfolding request_context_def by (intro quiet | clarsimp simp only: split_paired_all prod.case)+

lemma quiet_abstention [quiet]: "quiet b \<Longrightarrow> quiet (abstention out b msg)"
  unfolding abstention_def require_diagnostic_def by (intro quiet)

lemma quiet_clean_abstention [quiet]: "quiet (clean_abstention pid out)"
  unfolding clean_abstention_def require_diagnostic_def
  by (intro quiet quiet_any_of ballI) (auto intro: quiet)

lemma quiet_output_context [quiet]: "quiet (output_context out t pid)"
  unfolding output_context_def by (intro quiet)

lemma quiet_P04 [quiet]: "quiet (P04_relation req out)"
  unfolding P04_relation_def same_activity_def constraints_changed_def decisions_changed_def criteria_relation_def
    allowed_criteria_def dimension_relation_def
  by (intro quiet quiet_any_of ballI) (auto intro: quiet)

lemma quiet_P05 [quiet]: "quiet (P05_relation req out)"
  unfolding P05_relation_def by (intro quiet)

lemma quiet_question [quiet]: "quiet (question_relation req out)"
  unfolding question_relation_def candidate_moved_def
  by (intro quiet quiet_any_of ballI) (auto intro: quiet)

lemma quiet_P08 [quiet]: "quiet (P08_relation req out)"
  unfolding P08_relation_def gates_missed_def
  by (intro quiet quiet_any_of ballI) (auto intro: quiet)

lemma quiet_guide_item [quiet]: "quiet (guide_item_relation qs_by i)"
  unfolding guide_item_relation_def element_relation_def
  by (intro quiet) (auto intro!: quiet split: option.splits)

lemma quiet_P09 [quiet]: "quiet (P09_relation req out)"
  unfolding P09_relation_def questions_by_id_def
  by (intro quiet quiet_any_of ballI) (auto intro: quiet)

lemma quiet_relationship [quiet]: "quiet (output_relationship pid req out)"
  unfolding output_relationship_def P01_relation_def same_activity_def P06_relation_def P11_relation_def
  by (intro quiet)

lemma quiet_output_checks [quiet]: "quiet (output_checks k m)"
  unfolding output_checks_def by (intro quiet)

section \<open>Ledger entries\<close>

definition entry_of :: "adapter_call \<Rightarrow> string \<Rightarrow> ModelCallLedger \<Rightarrow> bool" where
  "entry_of c verdict l \<longleftrightarrow> ModelCallLedger.prompt_id l = PromptSpec.prompt_id (call_spec c)
     \<and> ModelCallLedger.attempt l = call_attempt c \<and> ModelCallLedger.result l = verdict
     \<and> ModelCallLedger_validate l = None"

lemma ledger_entry_Inr: "ledger_entry g c v ti ca tou es act = Inr l \<Longrightarrow> entry_of c v l"
  unfolding ledger_entry_def entry_of_def Let_def build_model_Inr by (elim conjE) simp

lemma quiet_ledger_entry [quiet]: "quiet (ledger_entry g c v ti ca tou es act)"
  unfolding ledger_entry_def Let_def by (intro quiet)

text \<open>A run that only records: no call, and on success exactly one valid entry of the call.\<close>

definition records :: "adapter_call \<Rightarrow> string \<Rightarrow> ModelCallLedger list \<Rightarrow> ModelCallLedger list run \<Rightarrow> bool" where
  "records c verdict ls m \<longleftrightarrow>
     (\<exists>e. m = ([], Inl e) \<and> quiet (Inl e :: gateway_failure + unit))
     \<or> (\<exists>l. m = ([Recorded l], Inr (ls @ [l])) \<and> entry_of c verdict l)"

lemma record_ledger_records: "records c v ls (record_ledger (ledger_entry g c v ti ca tou es act) ls)"
  using ledger_entry_Inr [of g c v ti ca tou es act] quiet_ledger_entry [of g c v ti ca tou es act]
  by (auto simp: records_def record_ledger_def quiet_def split: sum.splits)

lemma record_answer_records: "records c v ls (record_answer g c a v ls)"
  unfolding record_answer_def by (rule record_ledger_records)

lemma record_failure_records: "records c v ls (record_failure g c v t es ls)"
  unfolding record_failure_def by (rule record_ledger_records)

lemma records_cases:
  assumes "records c v ls m"
  obtains e where "m = ([], Inl e)" "quiet (Inl e :: gateway_failure + unit)"
  | l where "m = ([Recorded l], Inr (ls @ [l]))" "entry_of c v l"
  using assms unfolding records_def by blast

section \<open>The repair makes at most one call\<close>

definition repair_shape :: "(model_obj \<times> ModelCallLedger list) run \<Rightarrow> bool" where
  "repair_shape m \<longleftrightarrow> quiet (snd m) \<and> length (calls (fst m)) \<le> 1
     \<and> (\<forall>c \<in> set (calls (fst m)). PromptSpec.prompt_id (call_spec c) = P11 \<and> call_attempt c = 1)
     \<and> (\<forall>out ls. snd m = Inr (out, ls) \<longrightarrow> ledgers (fst m) = ls
          \<and> (\<exists>c l. calls (fst m) = [c] \<and> ls = [l] \<and> entry_of c ''SCHEMA_VALID'' l))"

lemma repair_shape_fail [intro]: "quiet (Inl e :: gateway_failure + unit) \<Longrightarrow> repair_shape (pure (Inl e))"
  by (simp add: repair_shape_def quiet_def)

lemma repair_shape_pure:
  assumes "quiet r" and "\<And>a. r = Inr a \<Longrightarrow> repair_shape (f a)"
  shows "repair_shape (chain (pure r) f)"
  using assms by (cases r) (auto simp: quiet_def)

text \<open>The shape of what follows the call.\<close>

definition answer_shape :: "adapter_call \<Rightarrow> (model_obj \<times> ModelCallLedger list) run \<Rightarrow> bool" where
  "answer_shape c m \<longleftrightarrow> quiet (snd m) \<and> calls (fst m) = []
     \<and> (\<forall>out ls. snd m = Inr (out, ls) \<longrightarrow> ledgers (fst m) = ls \<and> (\<exists>l. ls = [l] \<and> entry_of c ''SCHEMA_VALID'' l))"

lemma answer_shape_fail: "quiet (Inl e :: gateway_failure + unit) \<Longrightarrow> answer_shape c (pure (Inl e))"
  by (simp add: answer_shape_def quiet_def)

lemma answer_shape_pure:
  assumes "quiet r" and "\<And>a. r = Inr a \<Longrightarrow> answer_shape c (f a)"
  shows "answer_shape c (chain (pure r) f)"
  using assms by (cases r) (auto simp: quiet_def intro: answer_shape_fail)

lemma answer_shape_records_fail:
  assumes "records c v ls m" and "\<And>ls'. \<exists>e. f ls' = pure (Inl e) \<and> quiet (Inl e :: gateway_failure + unit)"
  shows "answer_shape c (chain m f)"
  using assms(1)
proof (cases rule: records_cases)
  case (2 l)
  obtain e where "f (ls @ [l]) = pure (Inl e)" "quiet (Inl e :: gateway_failure + unit)" using assms(2) by blast
  then show ?thesis using 2 by (simp add: answer_shape_def quiet_def)
qed (simp add: answer_shape_def quiet_def)

lemma quiet_known_root [quiet]: "quiet (known_root nm)"
  by (auto simp: known_root_def intro: quiet split: sum.splits)

lemma quiet_validate_output [quiet]: "quiet (validate_output g s raw)"
  unfolding validate_output_def by (intro quiet)

lemma quiet_revalidate [quiet]: "quiet (revalidate_repair_target g m)"
  unfolding revalidate_repair_target_def Let_def
  by (intro quiet) (auto intro: quiet split: sum.splits)

text \<open>A run without events that hands on the ledgers it was given.\<close>

definition silent :: "ModelCallLedger list \<Rightarrow> (model_obj \<times> ModelCallLedger list) run \<Rightarrow> bool" where
  "silent ls m \<longleftrightarrow> fst m = [] \<and> quiet (snd m) \<and> (\<forall>out ls'. snd m = Inr (out, ls') \<longrightarrow> ls' = ls)"

lemma silent_pure:
  "quiet (Inl e :: gateway_failure + unit) \<Longrightarrow> silent ls (pure (Inl e))" "silent ls (pure (Inr (out, ls)))"
  by (simp_all add: silent_def quiet_def)

lemma silent_chain:
  assumes "quiet r" and "\<And>a. r = Inr a \<Longrightarrow> silent ls (f a)"
  shows "silent ls (chain (pure r) f)"
  using assms by (cases r) (auto simp: quiet_def intro: silent_pure)

lemma answer_shape_valid:
  assumes "records c ''SCHEMA_VALID'' [] m" and "\<And>ls. silent ls (f ls)"
  shows "answer_shape c (chain m f)"
  using assms(1)
proof (cases rule: records_cases)
  case (2 l)
  have "silent [l] (f [l])" by (rule assms(2))
  then show ?thesis using 2 by (auto simp: answer_shape_def silent_def)
qed (simp add: answer_shape_def quiet_def)

lemma repair_answer_shape: "answer_shape c (repair_answer g s t c a)"
proof -
  have invalid: "answer_shape c (chain (record_answer g c a v []) (\<lambda>ls. pure (Inl (Governed cls msg ph ls None))))"
    for v cls msg ph
    by (rule answer_shape_records_fail [OF record_answer_records]) simp
  have verdict: "silent ls (chain (pure (attr ''repair_status'' d)) (\<lambda>st.
               if st \<noteq> JStr ''REPAIRED''
               then pure (Inl (Governed GatewaySchemaViolation msg ph ls None))
               else chain (pure (revalidate_repair_target g m)) (\<lambda>r. case r of
                 None \<Rightarrow> pure (Inl (Escaped ''AssertionError''))
               | Some out \<Rightarrow> pure (Inr (out, ls)))))" for d m ls msg ph
    by (intro silent_chain quiet)
      (auto intro!: silent_pure silent_chain quiet split: option.splits)
  have checked: "answer_shape c (on_context_error m h k)"
    if "quiet m" "answer_shape c (h ())" "\<And>a. m = Inr a \<Longrightarrow> answer_shape c (k a)" for m :: "gateway_failure + unit" and h k
    by (rule on_context_error_rule [where Q = "answer_shape c", OF that(1)])
      (simp_all add: that answer_shape_fail)
  show ?thesis
    unfolding repair_answer_def
    by (rule answer_shape_pure, rule quiet_validate_output)
      (auto split: sum.split intro!: checked invalid answer_shape_valid record_answer_records verdict quiet_output_context)
qed

lemma quiet_issues [quiet]: "quiet (issues_of errs)"
  unfolding issues_of_def by (intro quiet)

lemma quiet_repair_request [quiet]: "quiet (repair_request s raw iss)"
  unfolding repair_request_def by (intro quiet)

lemma quiet_envelope [quiet]: "quiet (validate_envelope s req t)"
  by (auto simp: validate_envelope_def Let_def intro: quiet split: option.splits)

lemma quiet_resolve [quiet]: "quiet (resolve m rs ps s i outs b n)"
  unfolding resolve_def unresolved_def resolved_def
  by (intro quiet) (auto split: GatewayMode.split option.split prod.split intro!: quiet)

lemma quiet_adapter [quiet]: "quiet (adapter_for g r)"
  by (auto simp: adapter_for_def intro: quiet split: option.splits)

lemma quiet_spec [quiet]: "quiet (case prompt_spec pid of Inl _ \<Rightarrow> Inl (Escaped ''ValueError'') | Inr s \<Rightarrow> Inr s)"
  by (auto intro: quiet split: sum.split)

lemma repair_shape_call:
  assumes "PromptSpec.prompt_id (call_spec c) = P11" and "call_attempt c = 1" and "answer_shape c m"
  shows "repair_shape (chain ([Called c], Inr ()) (\<lambda>_. m))"
  using assms by (auto simp: repair_shape_def answer_shape_def)

lemma repair_once_shape: "repair_shape (repair_once g s raw errs t)"
proof -
  have spec: "PromptSpec.prompt_id s = P11"
    if "(case prompt_spec P11 of Inl _ \<Rightarrow> Inl (Escaped ''ValueError'') | Inr s \<Rightarrow> Inr s) = Inr s" for s
    using that prompt_spec_bounds(5) [of P11 s] by (simp split: sum.splits)
  have timed: "answer_shape c (chain (record_failure g c ''TIMEOUT'' n x []) (\<lambda>ls. pure (Inl (Governed cls msg ph ls None))))"
    for c n x cls msg ph
    by (rule answer_shape_records_fail [OF record_failure_records]) simp
  have escaped: "answer_shape c (pure (Inl (Escaped (escaped_name other))))" for c other
    by (cases other) (auto intro!: answer_shape_fail simp: quiet_def)
  show ?thesis
    unfolding repair_once_def Let_def
    by (intro repair_shape_pure quiet)
      (auto split: sum.split option.split adapter_outcome.split intro!: repair_shape_pure repair_shape_call
        repair_answer_shape timed escaped quiet_adapter repair_shape_fail spec intro: quiet simp del: chain.simps escaped_name.simps)
qed

section \<open>One attempt\<close>

definition entry_for :: "adapter_call \<Rightarrow> ModelCallLedger \<Rightarrow> bool" where
  "entry_for c l \<longleftrightarrow> (\<exists>v. entry_of c v l)"

lemma entry_for_I: "entry_of c v l \<Longrightarrow> entry_for c l"
  by (auto simp: entry_for_def)

definition repair_call :: "adapter_call \<Rightarrow> bool" where
  "repair_call c \<longleftrightarrow> PromptSpec.prompt_id (call_spec c) = P11 \<and> call_attempt c = 1"

text \<open>What a result carries: the checked output, of the promised class unless it was repaired.\<close>

definition accepted_result :: "ModelGateway \<Rightarrow> invocation \<Rightarrow> GatewayCallResult \<Rightarrow> bool" where
  "accepted_result g k res \<longleftrightarrow> output_checks k (result_output res) = Inr ()
     \<and> result_prompt res = PromptSpec.prompt_id (inv_spec k) \<and> result_envelope res = inv_envelope k
     \<and> result_resolution res = inv_resolution k
     \<and> (\<not> repaired res \<longrightarrow> (\<exists>raw. model_validate g (PromptSpec.output_schema_name (inv_spec k)) raw = Inr (result_output res)))"

text \<open>What follows the call \<open>c\<close> in its attempt.\<close>

definition attempt_shape :: "ModelGateway \<Rightarrow> invocation \<Rightarrow> adapter_call \<Rightarrow> ModelCallLedger list \<Rightarrow> GatewayCallResult run \<Rightarrow> bool" where
  "attempt_shape g k c ls m \<longleftrightarrow> quiet (snd m) \<and> length (calls (fst m)) \<le> 1 \<and> list_all repair_call (calls (fst m))
     \<and> (PromptSpec.prompt_id (inv_spec k) = P11 \<longrightarrow> calls (fst m) = [])
     \<and> (\<forall>res. snd m = Inr res \<longrightarrow> accepted_result g k res \<and> result_ledgers res = ls @ ledgers (fst m)
          \<and> list_all2 entry_for (c # calls (fst m)) (ledgers (fst m)) \<and> repaired res = (calls (fst m) \<noteq> []))"

lemma attempt_fail: "quiet (Inl e :: gateway_failure + unit) \<Longrightarrow> attempt_shape g k c ls (pure (Inl e))"
  by (simp add: attempt_shape_def quiet_def)

lemma attempt_records_fail:
  assumes "records c v ls m" and "\<And>ls'. \<exists>e. f ls' = pure (Inl e) \<and> quiet (Inl e :: gateway_failure + unit)"
  shows "attempt_shape g k c ls (chain m f)"
  using assms(1)
proof (cases rule: records_cases)
  case (2 l)
  obtain e where "f (ls @ [l]) = pure (Inl e)" "quiet (Inl e :: gateway_failure + unit)" using assms(2) by blast
  then show ?thesis using 2 by (simp add: attempt_shape_def quiet_def)
qed (simp add: attempt_shape_def quiet_def)

lemma attempt_pure:
  assumes "quiet r" and "\<And>a. r = Inr a \<Longrightarrow> attempt_shape g k c ls (f a)"
  shows "attempt_shape g k c ls (chain (pure r) f)"
  using assms by (cases r) (auto simp: quiet_def intro: attempt_fail)

lemma attempt_checked:
  assumes "quiet m" "attempt_shape g k c ls (h ())" "\<And>a. m = Inr a \<Longrightarrow> attempt_shape g k c ls (f a)"
  shows "attempt_shape g k c ls (on_context_error m h f)"
  by (rule on_context_error_rule [where Q = "attempt_shape g k c ls", OF assms(1)])
    (simp_all add: assms attempt_fail)

lemma schema_valid_shape:
  assumes "model_validate g (PromptSpec.output_schema_name (inv_spec k)) raw = Inr m"
  shows "attempt_shape g k c ls (schema_valid g k c a m ls)"
proof -
  have invalid: "attempt_shape g k c ls (chain (record_answer g c a v ls) (\<lambda>ls. pure (Inl (Governed cls msg ph ls None))))"
    for v cls msg ph
    by (rule attempt_records_fail [OF record_answer_records]) simp
  have valid: "attempt_shape g k c ls (chain (record_answer g c a v ls) (\<lambda>ls1.
           pure (Inr (call_result k m ls1 order rorder False))))"
    if "output_checks k m = Inr ()" for v order rorder
    using record_answer_records [of c v ls g a]
  proof (cases rule: records_cases)
    case (2 l)
    then show ?thesis
      using assms that by (auto simp: attempt_shape_def accepted_result_def call_result_def entry_for_def)
  qed (simp add: attempt_shape_def quiet_def)
  show ?thesis
    unfolding schema_valid_def
    by (intro attempt_checked attempt_pure invalid quiet valid) (simp_all add: quiet)
qed

lemma schema_invalid_shape:
  assumes "repair_shape (repair_once g (inv_spec k) (raw_output a) errs (trusted_context (inv_envelope k)))"
  shows "attempt_shape g k c ls (schema_invalid g k c a errs ls)"
  using record_answer_records [of c "''SCHEMA_INVALID''" ls g a]
proof (cases rule: records_cases)
  case (2 l)
  let ?r = "repair_once g (inv_spec k) (raw_output a) errs (trusted_context (inv_envelope k))"
  show ?thesis
  proof (cases "PromptSpec.prompt_id (inv_spec k) = P11")
    case True
    then show ?thesis
      using 2 by (simp add: schema_invalid_def attempt_shape_def quiet_def)
  next
    case not11: False
    show ?thesis
    proof (cases "snd ?r")
      case (Inl e)
      then show ?thesis
        using 2 not11 assms
        by (simp add: schema_invalid_def attempt_shape_def repair_shape_def snd_chain fst_chain quiet_def
            list_all_iff repair_call_def)
    next
      case (Inr p)
      obtain m rls where p: "p = (m, rls)" by (cases p)
      obtain rc rl where r: "calls (fst ?r) = [rc]" "ledgers (fst ?r) = [rl]" "rls = [rl]"
          "entry_of rc ''SCHEMA_VALID'' rl" "repair_call rc"
        using assms Inr p by (auto simp: repair_shape_def repair_call_def)
      let ?tail = "on_context_error (output_checks k m)
             (\<lambda>_. pure (Inl (Governed GatewayContextError ''Repaired output failed contextual validation'' None ((ls @ [l]) @ rls) None)))
             (\<lambda>_. pure (Inr (call_result k m ((ls @ [l]) @ rls) [REQUEST, ENVELOPE, OUTPUT, REPAIRED_OUTPUT]
                    [REQUEST, ENVELOPE, OUTPUT, REPAIRED_OUTPUT] True)))"
      have tail: "fst ?tail = [] \<and> quiet (snd ?tail) \<and> (\<forall>res. snd ?tail = Inr res \<longrightarrow> output_checks k m = Inr ()
          \<and> res = call_result k m (ls @ [l, rl]) [REQUEST, ENVELOPE, OUTPUT, REPAIRED_OUTPUT] [REQUEST, ENVELOPE, OUTPUT, REPAIRED_OUTPUT] True)"
        by (rule on_context_error_rule [OF quiet_output_checks]) (auto simp: quiet_def r(3))
      then obtain t where t: "?tail = ([], t)" "quiet t" "\<And>res. t = Inr res \<Longrightarrow> output_checks k m = Inr ()
          \<and> res = call_result k m (ls @ [l, rl]) [REQUEST, ENVELOPE, OUTPUT, REPAIRED_OUTPUT] [REQUEST, ENVELOPE, OUTPUT, REPAIRED_OUTPUT] True"
        by (metis prod.collapse)
      have run: "schema_invalid g k c a errs ls = (Recorded l # fst ?r, t)"
        using 2 not11 Inr p t(1) by (simp add: schema_invalid_def prod_eq_iff snd_chain fst_chain Let_def)
      show ?thesis
        unfolding attempt_shape_def run fst_conv snd_conv
        using 2(2) not11 r t(2) by (auto dest!: t(3) simp: accepted_result_def call_result_def intro: entry_for_I)
    qed
  qed
qed (simp add: schema_invalid_def attempt_shape_def quiet_def)

section \<open>The loop\<close>

text \<open>
  The run of the remaining attempts \<open>ns\<close>: the first of them, in order, each at most once, then at
  most one repair; a result rests on every entry recorded, one for each call.
\<close>

definition loop_shape :: "ModelGateway \<Rightarrow> invocation \<Rightarrow> int list \<Rightarrow> ModelCallLedger list \<Rightarrow> GatewayCallResult run \<Rightarrow> bool" where
  "loop_shape g k ns ls m \<longleftrightarrow> quiet (snd m) \<and>
     (\<exists>own rep. calls (fst m) = map (call_of k) own @ rep \<and> own = take (length own) ns
        \<and> length rep \<le> 1 \<and> list_all repair_call rep \<and> (PromptSpec.prompt_id (inv_spec k) = P11 \<longrightarrow> rep = [])
        \<and> (\<forall>res. snd m = Inr res \<longrightarrow> accepted_result g k res \<and> result_ledgers res = ls @ ledgers (fst m)
             \<and> list_all2 entry_for (calls (fst m)) (ledgers (fst m)) \<and> repaired res = (rep \<noteq> [])))"

lemma loop_shape_attempt:
  assumes "attempt_shape g k (call_of k n) ls m"
  shows "loop_shape g k (n # rest) ls (chain ([Called (call_of k n)], Inr ()) (\<lambda>_. m))"
  unfolding loop_shape_def
proof (intro conjI exI)
  show "calls (fst (chain ([Called (call_of k n)], Inr ()) (\<lambda>_. m))) = map (call_of k) [n] @ calls (fst m)"
    by simp
  show "[n] = take (length [n]) (n # rest)" by simp
qed (use assms in \<open>auto simp: attempt_shape_def\<close>)

lemma backoff_run: "calls (fst (backoff g n)) = [] \<and> ledgers (fst (backoff g n)) = [] \<and> snd (backoff g n) = Inr ()"
  by (simp add: backoff_def Let_def)

lemma loop_shape_again:
  assumes "entry_of (call_of k n) v l" and "loop_shape g k rest (ls @ [l]) m"
  shows "loop_shape g k (n # rest) ls (chain ([Called (call_of k n)], Inr ()) (\<lambda>_.
      chain ([Recorded l], Inr (ls @ [l])) (\<lambda>ls1. chain (backoff g n) (\<lambda>_. m))))"
proof -
  obtain own rep where o: "calls (fst m) = map (call_of k) own @ rep" "own = take (length own) rest"
     "length rep \<le> 1" "list_all repair_call rep" "PromptSpec.prompt_id (inv_spec k) = P11 \<longrightarrow> rep = []"
     "\<forall>res. snd m = Inr res \<longrightarrow> accepted_result g k res \<and> result_ledgers res = (ls @ [l]) @ ledgers (fst m)
             \<and> list_all2 entry_for (calls (fst m)) (ledgers (fst m)) \<and> repaired res = (rep \<noteq> [])"
     and q: "quiet (snd m)"
    using assms(2) unfolding loop_shape_def by blast
  show ?thesis
    unfolding loop_shape_def
  proof (intro conjI exI)
    show "calls (fst (chain ([Called (call_of k n)], Inr ()) (\<lambda>_.
        chain ([Recorded l], Inr (ls @ [l])) (\<lambda>ls1. chain (backoff g n) (\<lambda>_. m))))) = map (call_of k) (n # own) @ rep"
      using o(1) by (simp add: fst_chain backoff_run)
    show "n # own = take (length (n # own)) (n # rest)" using o(2) by simp
  qed (use o q assms(1) in \<open>auto simp: fst_chain snd_chain backoff_run intro: entry_for_I\<close>)
qed

lemma run_attempts_shape:
  assumes "\<forall>n \<in> set ns. n \<le> retry_limit k \<or> n = last ns" and "last ns = retry_limit k + 1" and "ns \<noteq> []"
    and "sorted_wrt (<) ns"
  shows "loop_shape g k ns ls (run_attempts g adapter k ns ls)"
  using assms
proof (induction ns arbitrary: ls)
  case (Cons n rest)
  let ?c = "call_of k n"
  show ?case
  proof (cases "provider_failure (adapter ?c)")
    case None
    then obtain a where a: "adapter ?c = Answered a" by (cases "adapter ?c") auto
    have "attempt_shape g k ?c ls (chain (pure (validate_output g (inv_spec k) (raw_output a))) (\<lambda>v. case v of
                 Inl errs \<Rightarrow> schema_invalid g k ?c a errs ls
               | Inr m \<Rightarrow> schema_valid g k ?c a m ls))"
      by (rule attempt_pure, rule quiet)
        (auto split: sum.split simp: validate_output_def known_root_def model_by_name_def
          intro!: schema_invalid_shape repair_once_shape intro: schema_valid_shape split: if_splits)
    then show ?thesis
      using a None by (simp only: run_attempts.simps Let_def option.case adapter_outcome.case loop_shape_attempt)
  next
    case (Some p)
    obtain v may cls msg where p: "p = (v, may, cls, msg)" by (cases p)
    show ?thesis
      using record_failure_records [of ?c v ls g "inv_tokens k" "CallBudget.estimated_cost_usd (inv_budget k)"]
    proof (cases rule: records_cases)
      case (1 e)
      then show ?thesis
        using Some p loop_shape_attempt [OF attempt_fail [OF 1(2)]]
        by (simp only: run_attempts.simps Let_def option.case prod.case chain_pure)
    next
      case (2 l)
      show ?thesis
      proof (cases "may \<and> n \<le> retry_limit k")
        case True
        then have "rest \<noteq> []" using Cons.prems(2) by auto
        then have "loop_shape g k rest (ls @ [l]) (run_attempts g adapter k rest (ls @ [l]))"
          using Cons.prems by (intro Cons.IH) auto
        from loop_shape_again [OF 2(2) this] show ?thesis
          using Some p 2(1) True by (simp add: prod_eq_iff fst_chain snd_chain)
      next
        case False
        have "attempt_shape g k ?c ls (chain ([Recorded l], Inr (ls @ [l])) (\<lambda>ls1. pure (Inl (Governed cls msg None ls1 None))))"
          by (simp add: attempt_shape_def)
        from loop_shape_attempt [OF this] show ?thesis
          using Some p 2(1) False by (simp only: run_attempts.simps Let_def option.case prod.case if_False)
      qed
    qed
  qed
qed simp

section \<open>Before the loop\<close>

lemma quiet_request [quiet]: "quiet (validate_request g s raw)"
  unfolding validate_request_def by (intro quiet) (auto intro: quiet split: sum.splits)

lemma quiet_prepare: "quiet (prepare g pid raw t b budget inputs)"
  unfolding prepare_def Let_def
  by (intro quiet) (auto simp: blocked_error_def intro!: quiet split: option.split)

lemma validate_envelope_Inr:
  assumes "validate_envelope s req t = Inr e"
  shows "trusted_context e = t" and "ModelTaskEnvelope_validate e = None"
    and "ModelTaskEnvelope.output_schema_name e = PromptSpec.output_schema_name s"
    and "ModelTaskEnvelope.payload e = model_fields req"
  using assms by (auto simp: validate_envelope_def Let_def split: option.splits)

lemma prepare_Inr:
  assumes "prepare g pid raw t b budget inputs = Inr (k, adapter)"
  shows "prompt_spec pid = Inr (inv_spec k)" and "validate_request g (inv_spec k) raw = Inr (inv_request k)"
    and "validate_envelope (inv_spec k) (inv_request k) t = Inr (inv_envelope k)"
    and "request_context (model_dump (inv_request k)) t pid = Inr ()"
    and "retry_limit k = min (max_retries (settings g)) (max_transient_retries (inv_spec k))"
    and "adapter_for g (inv_route k) = Inr adapter"
    and "ModelRouteResolution.route (inv_resolution k) = Some (inv_route k)"
proof -
  obtain s where s: "prompt_spec pid = Inr s"
    using assms unfolding prepare_def and_then_Inr by (auto split: sum.splits)
  obtain req e where r: "validate_request g s raw = Inr req" "validate_envelope s req t = Inr e"
      "request_context (model_dump req) (trusted_context e) pid = Inr ()"
    using assms unfolding prepare_def and_then_Inr s by auto
  have t: "trusted_context e = t" using r(2) by (rule validate_envelope_Inr)
  show "prompt_spec pid = Inr (inv_spec k)" "validate_request g (inv_spec k) raw = Inr (inv_request k)"
    "validate_envelope (inv_spec k) (inv_request k) t = Inr (inv_envelope k)"
    "request_context (model_dump (inv_request k)) t pid = Inr ()"
    "retry_limit k = min (max_retries (settings g)) (max_transient_retries (inv_spec k))"
    "adapter_for g (inv_route k) = Inr adapter"
    "ModelRouteResolution.route (inv_resolution k) = Some (inv_route k)"
    using assms s r t unfolding prepare_def Let_def
    by (auto split: option.splits if_splits)
qed

lemma invoke_shape:
  assumes "prepare g pid raw t b budget inputs = Inr (k, adapter)" and "0 \<le> max_retries (settings g)"
  shows "loop_shape g k [1..retry_limit k + 1] [] (invoke g pid raw t b budget inputs)"
proof -
  have le: "0 \<le> retry_limit k"
    using prepare_Inr [OF assms(1)] prompt_spec_bounds(1) [of pid "inv_spec k"] assms(2) by simp
  have "[1..retry_limit k + 1] = [1..retry_limit k] @ [retry_limit k + 1]"
    using le upto_rec2 [of 1 "retry_limit k + 1"] by simp
  then have "last [1..retry_limit k + 1] = retry_limit k + 1" by simp
  moreover have "[1..retry_limit k + 1] \<noteq> []" using le by simp
  ultimately show ?thesis
    unfolding invoke_def assms(1) chain_pure prod.case
    by (intro run_attempts_shape) auto
qed

lemma invoke_unprepared:
  "prepare g pid raw t b budget inputs = Inl e \<Longrightarrow> invoke g pid raw t b budget inputs = ([], Inl e)"
  by (simp add: invoke_def)

lemma invoke_Inr:
  assumes "snd (invoke g pid raw t b budget inputs) = Inr res" and "0 \<le> max_retries (settings g)"
  obtains k adapter where "prepare g pid raw t b budget inputs = Inr (k, adapter)" "accepted_result g k res"
    "result_ledgers res = ledgers (fst (invoke g pid raw t b budget inputs))"
    "list_all2 entry_for (calls (fst (invoke g pid raw t b budget inputs))) (result_ledgers res)"
proof -
  obtain k adapter where p: "prepare g pid raw t b budget inputs = Inr (k, adapter)"
    using assms(1) by (cases "prepare g pid raw t b budget inputs") (auto simp: invoke_unprepared)
  show ?thesis
    using invoke_shape [OF p assms(2)] assms(1) that [OF p] by (auto simp: loop_shape_def)
qed

lemma config_retries: "GatewayConfig_check c = None \<Longrightarrow> 0 \<le> max_retries c \<and> max_retries c \<le> 2"
  by (simp add: GatewayConfig_check_def split: option.splits)

end
