(* ===== verification/GatewayExample.thy ===== *)
theory GatewayExample
  imports GatewayRun
begin

text \<open>
  Concrete invocations: a mock gateway whose adapter times out once and then answers, and one whose
  answer has to be repaired.  The digests in identifiers are not computed; that the identifiers and
  the ledger entries pass their classes' checks is proved in general first.
\<close>

section \<open>Identifiers and entries are valid\<close>

lemma gateway_id_ok:
  assumes "prefix = c # cs" and "is_lower c" and "list_all id_char cs" and "length cs < 100"
  shows "Id_ok (gateway_id prefix parts)"
  using assms by (auto simp: gateway_id_def Id_ok_def head_then_def list_all_iff id_char_def [of "CHR ''_''"]
      dest: take_hex_id)

lemma resolution_id_ok [simp]: "Id_ok (gateway_id ''resolution'' parts)"
  by (rule gateway_id_ok) (simp_all, code_simp+)

lemma modelcall_id_ok [simp]: "Id_ok (gateway_id ''modelcall'' parts)"
  by (rule gateway_id_ok) (simp_all, code_simp+)

lemma contract_texts:
  "list_all (\<lambda>(pid, i, out). trimmed pid \<and> trimmed i \<and> trimmed out) PROMPT_CONTRACTS" "trimmed PROMPT_VERSION"
  "trimmed LEGACY_SCHEMA_VERSION"
  by code_simp+

lemma spec_texts:
  assumes "prompt_spec pid = Inr s"
  shows "trimmed (PromptSpec.prompt_id s)" and "trimmed (PromptSpec.prompt_version s)"
    and "trimmed (PromptSpec.task s)" and "trimmed (PromptSpec.output_schema_name s)"
proof -
  obtain tsk effort temp tokens rs input_root output_root where
    b: "map_of PROMPT_CONTRACTS pid = Some (input_root, output_root)"
    and s: "s = \<lparr>PromptSpec.prompt_id = pid, prompt_version = PROMPT_VERSION, system_prompt_id = SYSTEM_PROMPT_ID,
       task = tsk, input_schema_name = input_root, output_schema_name = output_root,
       reasoning_effort = effort, temperature = temp, max_output_tokens = tokens,
       max_transient_retries = rs\<rparr>"
    using assms by (rule prompt_spec_cases)
  show "trimmed (PromptSpec.prompt_id s)" "trimmed (PromptSpec.prompt_version s)" "trimmed (PromptSpec.output_schema_name s)"
    using map_of_SomeD [OF b] contract_texts s by (auto simp: list_all_iff)
  show "trimmed (PromptSpec.task s)" by (rule prompt_spec_bounds(8) [OF assms])
qed

section \<open>The mock route is valid for every prompt\<close>

lemma id_char_solid: "id_char c \<Longrightarrow> \<not> trim_space c"
  by (auto simp: id_char_def trim_space_def is_lower_def is_digit_def between_def code_point_def)

lemma upper_code_solid: "upper_code_char c \<Longrightarrow> \<not> trim_space c"
  by (auto simp: upper_code_char_def trim_space_def is_upper_def is_digit_def between_def code_point_def)

lemma solid_trimmed: "\<forall>c \<in> set s. \<not> trim_space c \<Longrightarrow> trimmed s"
  by (simp add: trimmed_def strip_by_id)

lemma lower_upper_code: "upper_code_char c \<Longrightarrow> id_char (lower_char c)"
  by (auto simp: upper_code_char_def id_char_def lower_char_def is_upper_def is_lower_def is_digit_def between_def
      code_point_def)

lemma prompt_id_texts: "list_all (\<lambda>pid. list_all upper_code_char pid \<and> 3 \<le> length pid \<and> length pid \<le> 60) prompt_ids"
  by code_simp

lemma mock_literals:
  "list_all id_char ''route_mock_''" "list_all id_char ''deterministic-mock-''" "list_all upper_code_char ''PROMPT_POLICY_''"
  "is_lower (CHR ''r'')" "trimmed ''MOCK_MODE''" "trimmed ''NO_NETWORK''" "trimmed ''deterministic-mock-v1''"
  "trimmed ''local-offline''"
  by code_simp+

lemma effort_supported: "e \<in> set (supported_reasoning_efforts mock_capabilities)"
  by (cases e) (simp_all add: mock_capabilities_def)

lemma temperature_bounds: "0 \<le> default_temperature" "default_temperature \<le> 2" "0 < fl (1 / 100)"
  by code_simp+

lemma spec_temperature: "prompt_spec pid = Inr s \<Longrightarrow> PromptSpec.temperature s \<in> {0, default_temperature}"
proof (erule prompt_spec_cases)
  fix tsk effort temp tokens rs input_root output_root
  assume "map_of spec_arguments pid = Some (tsk, effort, temp, tokens, rs)"
    and s: "s = \<lparr>PromptSpec.prompt_id = pid, prompt_version = PROMPT_VERSION, system_prompt_id = SYSTEM_PROMPT_ID,
       task = tsk, input_schema_name = input_root, output_schema_name = output_root,
       reasoning_effort = effort, temperature = temp, max_output_tokens = tokens,
       max_transient_retries = rs\<rparr>"
  then have "temp \<in> (\<lambda>a. fst (snd (snd (snd a)))) ` set spec_arguments"
    by (force dest: map_of_SomeD)
  then show ?thesis by (auto simp: spec_arguments_def s)
qed

lemma mock_route_valid:
  assumes "prompt_spec pid = Inr s"
  shows "ModelRoute_validate (mock_route s) = None"
proof -
  let ?p = "PromptSpec.prompt_id s"
  have p: "list_all upper_code_char ?p" "3 \<le> length ?p" "length ?p \<le> 60"
    using prompt_id_texts prompt_spec_bounds(5,7) [OF assms] by (auto simp: list_all_iff)
  have low: "\<forall>c \<in> set (lower ?p). id_char c"
    using p(1) lower_upper_code by (auto simp: lower_def list_all_iff)
  have "Id_ok (''route_mock_'' @ lower ?p)"
    using p low mock_literals(1,4) by (simp add: Id_ok_def head_then_def list_all_iff lower_def)
  moreover have "str_field 1 255 (''deterministic-mock-'' @ lower ?p)"
    using p low mock_literals(2) id_char_solid
    by (auto simp: str_field_def list_all_iff lower_def simp del: append.simps intro!: solid_trimmed)
  moreover have "trimmed (''PROMPT_POLICY_'' @ take 3 ?p)"
    using in_set_takeD [of _ 3 ?p] p(1) mock_literals(3)
    by (intro solid_trimmed) (auto simp: list_all_iff simp del: append.simps dest!: upper_code_solid)
  moreover have "valid ModelCapabilities_validate mock_capabilities"
    using mock_literals(8)
    unfolding valid_def ModelCapabilities_validate_def first_error_None_Cons field_errors_None
    by (simp add: mock_capabilities_def)
  ultimately show ?thesis
    using spec_texts [OF assms] mock_literals contract_texts(3) effort_supported spec_temperature [OF assms]
      temperature_bounds
    unfolding ModelRoute_validate_def first_error_None_Cons field_errors_None
    by (auto simp: mock_route_def str_field_def fail_if_def mock_capabilities_def)
qed

section \<open>Entries are made and routes resolved\<close>

definition verdicts :: "string list" where
  "verdicts = [''SCHEMA_VALID'', ''SCHEMA_INVALID'', ''SAFETY_BLOCK'', ''RATE_LIMIT'', ''TIMEOUT'', ''PROVIDER_ERROR'']"

text \<open>An entry can be made whenever the job and the tenant have valid identifiers and the call is one
  the gateway makes.\<close>

lemma ledger_entry_made:
  assumes "prompt_spec pid = Inr (call_spec c)" and "Id_ok (GatewayConfig.job_id (settings g))"
    and "Id_ok (TrustedPromptContext.tenant_id (trusted_context (call_envelope c)))"
    and "ModelRoute_validate (call_route c) = None" and "1 \<le> call_attempt c" and "call_attempt c \<le> 10"
    and "v \<in> set verdicts"
  shows "\<exists>l. ledger_entry g c v ti ca tou es act = Inr l"
  using assms(2-7) spec_texts [OF assms(1)] contract_texts(3)
  unfolding ledger_entry_def Let_def build_model_Inr ModelCallLedger_validate_def first_error_None_Cons field_errors_None
  by (cases act) (simp_all add: verdicts_def valid_def canonical_hash_def)

lemma record_ledger_made: "\<exists>l. e = Inr l \<Longrightarrow> \<exists>l. record_ledger e ls = ([Recorded l], Inr (ls @ [l]))"
  by (auto simp: record_ledger_def)

lemma record_answer_made:
  assumes "prompt_spec pid = Inr (call_spec c)" and "Id_ok (GatewayConfig.job_id (settings g))"
    and "Id_ok (TrustedPromptContext.tenant_id (trusted_context (call_envelope c)))"
    and "ModelRoute_validate (call_route c) = None" and "1 \<le> call_attempt c" and "call_attempt c \<le> 10"
    and "v \<in> set verdicts"
  shows "\<exists>l. record_answer g c a v ls = ([Recorded l], Inr (ls @ [l]))"
  unfolding record_answer_def by (rule record_ledger_made [OF ledger_entry_made [OF assms]])

lemma record_failure_made:
  assumes "prompt_spec pid = Inr (call_spec c)" and "Id_ok (GatewayConfig.job_id (settings g))"
    and "Id_ok (TrustedPromptContext.tenant_id (trusted_context (call_envelope c)))"
    and "ModelRoute_validate (call_route c) = None" and "1 \<le> call_attempt c" and "call_attempt c \<le> 10"
    and "v \<in> set verdicts"
  shows "\<exists>l. record_failure g c v n x ls = ([Recorded l], Inr (ls @ [l]))"
  unfolding record_failure_def by (rule record_ledger_made [OF ledger_entry_made [OF assms]])

definition resolution_of :: "PromptSpec \<Rightarrow> ModelInputModality list \<Rightarrow> ModelRoute \<Rightarrow> ModelRouteResolution" where
  "resolution_of s inputs r = \<lparr>
       ModelRouteResolution.schema_version = LEGACY_SCHEMA_VERSION,
       resolution_id = gateway_id ''resolution'' [PromptSpec.prompt_id s, ModelRoute.route_id r, ''resolved''],
       task = PromptSpec.task s, status = ''RESOLVED'', required_input_modalities = inputs,
       required_output_modalities = [ModelOutputModality.STRUCTURED_JSON], route = Some r,
       evaluated_route_ids = [ModelRoute.route_id r],
       reason_codes = [''PROMPT_ROUTE_APPROVED'', ''CAPABILITIES_AND_POLICY_MATCH'']\<rparr>"

lemma resolve_mock:
  assumes "prompt_spec pid = Inr s"
    and "route_obstacle MOCK ps s inputs [ModelOutputModality.STRUCTURED_JSON] b n (mock_route s) = None"
    and "inputs \<noteq> []"
  shows "resolve MOCK rs ps s inputs [ModelOutputModality.STRUCTURED_JSON] b n = Inr (resolution_of s inputs (mock_route s))"
proof -
  note valid = mock_route_valid [OF assms(1)]
  have "Id_ok (ModelRoute.route_id (mock_route s))"
    using valid unfolding ModelRoute_validate_def first_error_None_Cons field_errors_None by simp
  moreover have "set inputs \<subseteq> set (input_modalities (capabilities (mock_route s)))"
    "STRUCTURED_JSON \<in> set (output_modalities (capabilities (mock_route s)))"
    using assms(2) unfolding route_obstacle_def first_error_None_Cons by simp_all
  moreover have "trimmed ''PROMPT_ROUTE_APPROVED''" "trimmed ''CAPABILITIES_AND_POLICY_MATCH''" by code_simp+
  moreover have "1 \<le> length inputs" using assms(3) by (cases inputs) simp_all
  ultimately have "ModelRouteResolution_validate (resolution_of s inputs (mock_route s)) = None"
    using spec_texts [OF assms(1)] valid
    unfolding ModelRouteResolution_validate_def first_error_None_Cons field_errors_None
    by (simp add: resolution_of_def valid_def fail_if_def raise_if_def)
  then show ?thesis
    using assms(2) valid by (simp add: resolve_def resolved_def build_model_def resolution_of_def)
qed

section \<open>A question after one time-out\<close>

text \<open>A stand-in for pydantic: an object is an instance of the class its \<open>kind\<close> names.\<close>

definition demo_validate :: "string \<Rightarrow> json \<Rightarrow> validation_item list + model_obj" where
  "demo_validate nm v = (case v of
      JObj kvs \<Rightarrow> if map_of kvs ''kind'' = Some (JStr nm) then Inr \<lparr>model_class = nm, model_fields = kvs\<rparr>
        else Inl [\<lparr>item_loc = [''kind''], item_type = ''missing'', item_msg = ''Field required''\<rparr>]
    | _ \<Rightarrow> Inl [\<lparr>item_loc = [], item_type = ''model_type'', item_msg = ''Input should be an object''\<rparr>])"

lemma demo_validate_class: "\<forall>nm v m. demo_validate nm v = Inr m \<longrightarrow> model_class m = nm"
  by (auto simp: demo_validate_def split: json.splits if_splits)

definition demo_context :: TrustedPromptContext where
  "demo_context = \<lparr>TrustedPromptContext.tenant_id = ''tnt_demo'', activity_id = ''act_demo'', submission_id = Some ''sub_demo'',
     blueprint_id = None, blueprint_version = None, allowed_evidence_ids = [''ev_one''],
     allowed_course_source_ids = [], output_language = ''es-CL'', context_mode = ContextMode.CLOSED\<rparr>"

definition demo_config :: GatewayConfig where
  "demo_config = \<lparr>mode = MOCK, timeout_seconds = 10, max_retries = 2, backoff_base_seconds = fl (1 / 100),
     default_budget_usd = fl (1 / 4), job_id = ''job_model_gateway''\<rparr>"

definition demo_request :: "(string \<times> json) list" where
  "demo_request = [(''kind'', JStr ''QuestionBuildRequest''), (''plan'', JObj [(''submission_id'', JStr ''sub_demo'')]),
     (''opportunity'', JObj [(''opportunity_id'', JStr ''opp_one''), (''opportunity_template_id'', JStr ''tpl_one''),
        (''dimension_id'', JStr ''dim_one''), (''variant_id'', JStr ''var_one''), (''cognitive_operation'', JStr ''TRACE_FLOW'')]),
     (''evidence_bundle'', JObj [(''submission_id'', JStr ''sub_demo''), (''context_mode'', JStr ''CLOSED''),
        (''allowed_evidence_ids'', strs [''ev_one''])])]"

definition demo_answer :: "(string \<times> json) list" where
  "demo_answer = [(''kind'', JStr ''QuestionGenerationResult''), (''submission_id'', JStr ''sub_demo''),
     (''opportunity_id'', JStr ''opp_one''), (''context_mode'', JStr ''CLOSED''), (''status'', JStr ''READY''),
     (''candidate'', JObj [(''opportunity_template_id'', JStr ''tpl_one''), (''dimension_id'', JStr ''dim_one''),
        (''variant_id'', JStr ''var_one''), (''cognitive_operation'', JStr ''TRACE_FLOW''), (''evidence_ids'', strs [''ev_one''])]),
     (''diagnostics'', JList [])]"

definition demo_result :: "json \<Rightarrow> AdapterResult" where
  "demo_result raw = \<lparr>raw_output = raw, input_tokens = 40, cached_input_tokens = 0, output_tokens = 60,
     estimated_cost_usd = 0, actual_cost_usd = 0\<rparr>"

definition demo_gateway :: "(adapter_call \<Rightarrow> adapter_outcome) \<Rightarrow> ModelGateway" where
  "demo_gateway adapter = \<lparr>settings = demo_config, real_routes = [], adapters = [], mock_adapter = adapter,
     model_validate = demo_validate, clock = (\<lambda>c. utc_time 0), latency = (\<lambda>c. 0)\<rparr>"

definition question_adapter :: "adapter_call \<Rightarrow> adapter_outcome" where
  "question_adapter c = (if call_attempt c = 1 then TimedOut else Answered (demo_result (JObj demo_answer)))"

abbreviation P07 :: string where
  "P07 \<equiv> ''P07_QUESTION_BUILD_V1''"

definition demo_spec :: "string \<Rightarrow> PromptSpec" where
  "demo_spec pid = projr (prompt_spec pid)"

definition demo_req :: "string \<Rightarrow> (string \<times> json) list \<Rightarrow> model_obj" where
  "demo_req pid kvs = \<lparr>model_class = input_schema_name (demo_spec pid), model_fields = kvs\<rparr>"

definition demo_budget :: CallBudget where
  "demo_budget = \<lparr>CallBudget.max_cost_usd = fl (1 / 4), estimated_cost_usd = 0\<rparr>"

definition demo_invocation :: "string \<Rightarrow> (string \<times> json) list \<Rightarrow> invocation" where
  "demo_invocation pid kvs = \<lparr>inv_spec = demo_spec pid, inv_request = demo_req pid kvs,
     inv_envelope = projr (validate_envelope (demo_spec pid) (demo_req pid kvs) demo_context),
     inv_resolution = resolution_of (demo_spec pid) [ModelInputModality.TEXT] (mock_route (demo_spec pid)),
     inv_route = mock_route (demo_spec pid), inv_behavior = HAPPY, inv_budget = demo_budget,
     inv_tokens = encoded_tokens (demo_req pid kvs), retry_limit = 2\<rparr>"

lemma demo_config_ok: "GatewayConfig_check demo_config = None"
  by code_simp

lemma demo_spec_ok: "pid \<in> set prompt_ids \<Longrightarrow> prompt_spec pid = Inr (demo_spec pid)"
  using prompt_spec_known [of pid] by (auto simp: demo_spec_def)

definition plain_spec :: "string \<Rightarrow> string \<Rightarrow> string \<Rightarrow> string \<Rightarrow> ReasoningEffort \<Rightarrow> int \<Rightarrow> PromptSpec" where
  "plain_spec pid tsk i out effort tokens = \<lparr>PromptSpec.prompt_id = pid, prompt_version = ''1.1.0'',
     system_prompt_id = ''SYS_EVIDENCE_BOUND_V1'', task = tsk, input_schema_name = i, output_schema_name = out,
     reasoning_effort = effort, temperature = default_temperature, max_output_tokens = tokens, max_transient_retries = 2\<rparr>"

lemma question_spec: "demo_spec P07 = plain_spec ''P07_QUESTION_BUILD_V1'' ''question_generation''
   ''QuestionBuildRequest'' ''QuestionGenerationResult'' ReasoningEffort.HIGH 10000"
  by code_simp

text \<open>The preparation succeeds for a prompt when each of its steps does.\<close>

lemma prepare_demo:
  assumes "prompt_spec pid = Inr (demo_spec pid)"
    and "validate_request (demo_gateway a) (demo_spec pid) (JObj kvs) = Inr (demo_req pid kvs)"
    and "\<not> isl (validate_envelope (demo_spec pid) (demo_req pid kvs) demo_context)"
    and "request_context (JObj kvs) demo_context pid = Inr ()"
    and "route_obstacle MOCK [] (demo_spec pid) [ModelInputModality.TEXT] [ModelOutputModality.STRUCTURED_JSON]
      demo_budget (encoded_tokens (demo_req pid kvs)) (mock_route (demo_spec pid)) = None"
    and "max_transient_retries (demo_spec pid) = 2"
  shows "prepare (demo_gateway a) pid (JObj kvs) demo_context HAPPY None [ModelInputModality.TEXT]
     = Inr (demo_invocation pid kvs, a)"
proof -
  let ?e = "projr (validate_envelope (demo_spec pid) (demo_req pid kvs) demo_context)"
  have env: "validate_envelope (demo_spec pid) (demo_req pid kvs) demo_context = Inr ?e"
    using assms(3) by (cases "validate_envelope (demo_spec pid) (demo_req pid kvs) demo_context") simp_all
  have t: "trusted_context ?e = demo_context"
    by (rule validate_envelope_Inr(1) [OF env])
  have dump: "model_dump (demo_req pid kvs) = JObj kvs"
    by (simp add: demo_req_def model_dump_def)
  note route = resolve_mock [OF assms(1,5), where rs = "[]", unfolded demo_budget_def]
  have g: "settings (demo_gateway a) = demo_config" "real_routes (demo_gateway a) = []" "providers (demo_gateway a) = []"
     "mode demo_config = MOCK" "default_budget_usd demo_config = fl (1 / 4)" "max_retries demo_config = 2"
     "adapter_for (demo_gateway a) r = Inr a" for r
    by (simp_all add: demo_gateway_def demo_config_def providers_def adapter_for_def)
  have "ModelRouteResolution.status (resolution_of s i r) = ''RESOLVED''" "ModelRouteResolution.route (resolution_of s i r) = Some r"
    for s i r by (simp_all add: resolution_of_def)
  then show ?thesis
    using assms(6) env t dump route
    unfolding prepare_def Let_def assms(1) demo_invocation_def demo_budget_def
    by (simp add: g assms(2,4))
qed

lemma question_prepared:
  "prepare (demo_gateway a) P07 (JObj demo_request) demo_context HAPPY None [ModelInputModality.TEXT]
     = Inr (demo_invocation P07 demo_request, a)"
proof (rule prepare_demo)
  show "prompt_spec P07 = Inr (demo_spec P07)"
    by (rule demo_spec_ok) code_simp
  have root: "input_schema_name (demo_spec P07) = ''QuestionBuildRequest''"
    by (simp add: question_spec plain_spec_def)
  have "demo_validate ''QuestionBuildRequest'' (JObj demo_request)
      = Inr \<lparr>model_class = ''QuestionBuildRequest'', model_fields = demo_request\<rparr>"
    by (simp add: demo_validate_def demo_request_def)
  moreover have "known_root ''QuestionBuildRequest'' = Inr ''QuestionBuildRequest''"
    by code_simp
  ultimately show "validate_request (demo_gateway a) (demo_spec P07) (JObj demo_request) = Inr (demo_req P07 demo_request)"
    by (simp add: validate_request_def root demo_gateway_def demo_req_def)
  show "\<not> isl (validate_envelope (demo_spec P07) (demo_req P07 demo_request) demo_context)"
    unfolding question_spec demo_req_def by code_simp
  show "request_context (JObj demo_request) demo_context P07 = Inr ()"
    by code_simp
  show "route_obstacle MOCK [] (demo_spec P07) [ModelInputModality.TEXT] [ModelOutputModality.STRUCTURED_JSON]
      demo_budget (encoded_tokens (demo_req P07 demo_request)) (mock_route (demo_spec P07)) = None"
    unfolding question_spec demo_req_def by code_simp
  show "max_transient_retries (demo_spec P07) = 2"
    by (simp add: question_spec plain_spec_def)
qed

definition question_output :: model_obj where
  "question_output = \<lparr>model_class = ''QuestionGenerationResult'', model_fields = demo_answer\<rparr>"

lemma question_checks:
  "output_context (JObj demo_answer) demo_context P07 = Inr ()"
  "output_relationship P07 (JObj demo_request) (JObj demo_answer) = Inr ()"
  by code_simp+

lemma demo_facts:
  assumes "prepare (demo_gateway a) pid (JObj kvs) demo_context HAPPY None [ModelInputModality.TEXT] = Inr (demo_invocation pid kvs, a)"
  shows "trusted_context (inv_envelope (demo_invocation pid kvs)) = demo_context"
    and "PromptSpec.prompt_id (inv_spec (demo_invocation pid kvs)) = pid"
    and "model_dump (inv_request (demo_invocation pid kvs)) = JObj kvs"
    and "retry_limit (demo_invocation pid kvs) = 2"
    and "prompt_spec pid = Inr (call_spec (call_of (demo_invocation pid kvs) n))"
    and "Id_ok (GatewayConfig.job_id (settings (demo_gateway a)))"
    and "Id_ok (TrustedPromptContext.tenant_id (trusted_context (call_envelope (call_of (demo_invocation pid kvs) n))))"
    and "ModelRoute_validate (call_route (call_of (demo_invocation pid kvs) n)) = None"
proof -
  let ?k = "demo_invocation pid kvs"
  note prep = prepare_Inr [OF assms]
  have ids: "Id_ok ''job_model_gateway''" "Id_ok ''tnt_demo''" by code_simp+
  show t: "trusted_context (inv_envelope ?k) = demo_context"
    by (rule validate_envelope_Inr(1) [OF prep(3)])
  show "PromptSpec.prompt_id (inv_spec ?k) = pid"
    using prompt_spec_bounds(5) [OF prep(1)] by simp
  show "model_dump (inv_request ?k) = JObj kvs" "retry_limit ?k = 2"
    by (simp_all add: demo_invocation_def demo_req_def model_dump_def)
  show "prompt_spec pid = Inr (call_spec (call_of ?k n))"
    using prep(1) by (simp add: call_of_def)
  show "Id_ok (GatewayConfig.job_id (settings (demo_gateway a)))"
    using ids by (simp add: demo_gateway_def demo_config_def)
  show "Id_ok (TrustedPromptContext.tenant_id (trusted_context (call_envelope (call_of ?k n))))"
    using ids t by (simp add: call_of_def demo_context_def)
  have "call_route (call_of ?k n) = mock_route (demo_spec pid)" "inv_spec ?k = demo_spec pid"
    by (simp_all add: call_of_def demo_invocation_def)
  then show "ModelRoute_validate (call_route (call_of ?k n)) = None"
    using mock_route_valid [OF prep(1)] by simp
qed

lemma question_output_checks: "output_checks (demo_invocation P07 demo_request) question_output = Inr ()"
  using question_checks demo_facts(1-3) [OF question_prepared]
  by (simp add: output_checks_def) (simp add: model_dump_def question_output_def)

text \<open>The first call times out and is recorded, the second is answered and recorded, and the answer
  is returned with both entries.\<close>

lemma question_run:
  "\<exists>first second wait res. invoke (demo_gateway question_adapter) P07 (JObj demo_request) demo_context HAPPY None [ModelInputModality.TEXT]
     = (Called (call_of (demo_invocation P07 demo_request) 1) # Recorded first # wait
         @ [Called (call_of (demo_invocation P07 demo_request) 2), Recorded second], Inr res)
     \<and> calls wait = [] \<and> result_output res = question_output \<and> result_ledgers res = [first, second] \<and> \<not> repaired res"
proof -
  let ?g = "demo_gateway question_adapter" and ?k = "demo_invocation P07 demo_request"
  note facts = demo_facts [OF question_prepared]
  have v: "''TIMEOUT'' \<in> set verdicts" "''SCHEMA_VALID'' \<in> set verdicts" by (simp_all add: verdicts_def)
  obtain first where first: "record_failure ?g (call_of ?k 1) ''TIMEOUT'' (inv_tokens ?k)
      (CallBudget.estimated_cost_usd (inv_budget ?k)) [] = ([Recorded first], Inr [first])"
    using record_failure_made [OF facts(5-8) _ _ v(1), where ls = "[]"] by (fastforce simp: call_of_def)
  obtain second where second: "record_answer ?g (call_of ?k 2) (demo_result (JObj demo_answer)) ''SCHEMA_VALID'' [first]
      = ([Recorded second], Inr ([first] @ [second]))"
    using record_answer_made [OF facts(5-8) _ _ v(2), where ls = "[first]"] by (fastforce simp: call_of_def)
  obtain wait where wait: "backoff ?g 1 = (wait, Inr ())" "calls wait = []"
    using backoff_run [of ?g 1] by (metis prod.collapse)
  have answers: "question_adapter (call_of ?k 1) = TimedOut" "question_adapter (call_of ?k 2) = Answered (demo_result (JObj demo_answer))"
    by (simp_all add: question_adapter_def call_of_def)
  have "demo_validate ''QuestionGenerationResult'' (JObj demo_answer) = Inr question_output"
    by (simp add: demo_validate_def demo_answer_def question_output_def)
  moreover have "known_root ''QuestionGenerationResult'' = Inr ''QuestionGenerationResult''" by code_simp
  moreover have "PromptSpec.output_schema_name (inv_spec ?k) = ''QuestionGenerationResult''"
    by (simp add: demo_invocation_def question_spec plain_spec_def)
  ultimately have out: "validate_output ?g (inv_spec ?k) (raw_output (demo_result (JObj demo_answer))) = Inr (Inr question_output)"
    by (simp add: validate_output_def demo_result_def demo_gateway_def)
  have "P07 \<noteq> P11" by (simp add: P11_def)
  then have valid: "schema_valid ?g ?k (call_of ?k 2) (demo_result (JObj demo_answer)) question_output [first]
     = ([Recorded second], Inr (call_result ?k question_output [first, second] [REQUEST, ENVELOPE, OUTPUT] [] False))"
    using second question_output_checks facts(2) by (simp add: schema_valid_def)
  have three: "[1..3] = [1, 2, 3 :: int]" by code_simp
  show ?thesis
    by (intro exI [of _ first] exI [of _ second] exI [of _ wait])
      (simp add: invoke_def question_prepared facts(4) three answers first wait out valid Let_def call_result_def)
qed

section \<open>A repair that changes the class\<close>

text \<open>
  The answer to P01 does not validate, and P11 returns a blueprint instead of the activity
  specification it was asked to repair.
\<close>

abbreviation P01 :: string where
  "P01 \<equiv> ''P01_ACTIVITY_SPEC_V1''"

definition spec_request :: "(string \<times> json) list" where
  "spec_request = [(''kind'', JStr ''ActivitySpecRequest''), (''activity_config'', JObj [(''activity_id'', JStr ''act_demo'')])]"

definition foreign_output :: "(string \<times> json) list" where
  "foreign_output = [(''kind'', JStr ''AssessmentBlueprint''), (''activity_id'', JStr ''act_demo''), (''status'', JStr ''READY'')]"

definition repair_output :: "(string \<times> json) list" where
  "repair_output = [(''kind'', JStr ''SchemaRepairResult''), (''target_schema_name'', JStr ''AssessmentBlueprint''),
     (''repair_status'', JStr ''REPAIRED''), (''repaired_output'', JObj foreign_output), (''diagnostics'', JList [])]"

definition drifting_adapter :: "adapter_call \<Rightarrow> adapter_outcome" where
  "drifting_adapter c = (if PromptSpec.prompt_id (call_spec c) = P11 then Answered (demo_result (JObj repair_output))
     else Answered (demo_result (JObj [])))"

definition demo_errors :: "validation_item list" where
  "demo_errors = [\<lparr>item_loc = [''kind''], item_type = ''missing'', item_msg = ''Field required''\<rparr>]"

definition asked_repair :: model_obj where
  "asked_repair = \<lparr>model_class = ''SchemaRepairRequest'', model_fields =
       [(''schema_version'', JStr ''1.1.0''), (''target_schema_name'', JStr ''ActivitySpec''),
        (''invalid_output'', JObj []),
        (''validation_issues'', JList [JObj [(''path'', JStr ''/kind''), (''error_type'', JStr ''missing''), (''message'', JStr ''Field required'')]])]\<rparr>"

lemma spec_spec: "demo_spec P01 = plain_spec ''P01_ACTIVITY_SPEC_V1'' ''activity_specification''
   ''ActivitySpecRequest'' ''ActivitySpec'' ReasoningEffort.MEDIUM 8000"
  by code_simp

lemma repair_spec: "demo_spec P11 = \<lparr>PromptSpec.prompt_id = P11, prompt_version = ''1.1.0'',
     system_prompt_id = ''SYS_EVIDENCE_BOUND_V1'', task = ''schema_repair'', input_schema_name = ''SchemaRepairRequest'',
     output_schema_name = ''SchemaRepairResult'', reasoning_effort = ReasoningEffort.MINIMAL, temperature = 0,
     max_output_tokens = 8000, max_transient_retries = 0\<rparr>"
  by code_simp

lemma known_demo_roots: "known_root ''ActivitySpecRequest'' = Inr ''ActivitySpecRequest''"
  "known_root ''ActivitySpec'' = Inr ''ActivitySpec''" "known_root ''SchemaRepairResult'' = Inr ''SchemaRepairResult''"
  "known_root ''AssessmentBlueprint'' = Inr ''AssessmentBlueprint''"
  by code_simp+

lemma spec_prepared:
  "prepare (demo_gateway a) P01 (JObj spec_request) demo_context HAPPY None [ModelInputModality.TEXT]
     = Inr (demo_invocation P01 spec_request, a)"
proof (rule prepare_demo)
  show "prompt_spec P01 = Inr (demo_spec P01)"
    by (rule demo_spec_ok) code_simp
  show "validate_request (demo_gateway a) (demo_spec P01) (JObj spec_request) = Inr (demo_req P01 spec_request)"
    by (simp add: validate_request_def spec_spec plain_spec_def known_demo_roots demo_gateway_def demo_req_def
        demo_validate_def spec_request_def)
  show "\<not> isl (validate_envelope (demo_spec P01) (demo_req P01 spec_request) demo_context)"
    unfolding spec_spec demo_req_def by code_simp
  show "request_context (JObj spec_request) demo_context P01 = Inr ()"
    by code_simp
  show "route_obstacle MOCK [] (demo_spec P01) [ModelInputModality.TEXT] [ModelOutputModality.STRUCTURED_JSON]
      demo_budget (encoded_tokens (demo_req P01 spec_request)) (mock_route (demo_spec P01)) = None"
    unfolding spec_spec demo_req_def by code_simp
  show "max_transient_retries (demo_spec P01) = 2"
    by (simp add: spec_spec plain_spec_def)
qed

lemma repair_asked:
  "issues_of demo_errors = Inr [\<lparr>SchemaValidationIssue.path = ''/kind'', error_type = ''missing'', message = ''Field required''\<rparr>]"
  "repair_request (demo_spec P01) (JObj []) [\<lparr>SchemaValidationIssue.path = ''/kind'', error_type = ''missing'', message = ''Field required''\<rparr>]
     = Inr asked_repair"
  "\<not> isl (validate_envelope (demo_spec P11) asked_repair demo_context)"
  "route_obstacle MOCK [] (demo_spec P11) [ModelInputModality.TEXT] [ModelOutputModality.STRUCTURED_JSON]
      demo_budget (encoded_tokens asked_repair) (mock_route (demo_spec P11)) = None"
  "output_context (JObj repair_output) demo_context P11 = Inr ()"
  unfolding spec_spec repair_spec by code_simp+

lemma foreign_checks:
  "output_context (JObj foreign_output) demo_context P01 = Inr ()"
  "output_relationship P01 (JObj spec_request) (JObj foreign_output) = Inr ()"
  by code_simp+

definition foreign_model :: model_obj where
  "foreign_model = \<lparr>model_class = ''AssessmentBlueprint'', model_fields = foreign_output\<rparr>"

definition repair_model :: model_obj where
  "repair_model = \<lparr>model_class = ''SchemaRepairResult'', model_fields = repair_output\<rparr>"

lemma repair_model_valid:
  "demo_validate ''SchemaRepairResult'' (JObj repair_output) = Inr repair_model"
  "demo_validate ''AssessmentBlueprint'' (JObj foreign_output) = Inr foreign_model"
  "demo_validate ''ActivitySpec'' (JObj []) = Inl demo_errors"
  by (simp_all add: demo_validate_def repair_output_def foreign_output_def repair_model_def foreign_model_def demo_errors_def)

lemma drifting_revalidates: "revalidate_repair_target (demo_gateway a) repair_model = Inr (Some foreign_model)"
  using repair_model_valid(2) known_demo_roots(4)
  by (simp add: revalidate_repair_target_def demo_gateway_def model_dump_def repair_model_def)
    (simp add: repair_output_def)

lemma demo_ids: "Id_ok ''job_model_gateway''" "Id_ok ''tnt_demo''"
  by code_simp+

lemma P11_spec: "prompt_spec P11 = Inr (demo_spec P11)"
  by (rule demo_spec_ok) code_simp

lemma drifting_repair:
  "\<exists>c entry. repair_once (demo_gateway drifting_adapter) (demo_spec P01) (JObj []) demo_errors demo_context
     = ([Called c, Recorded entry], Inr (foreign_model, [entry]))"
proof -
  let ?g = "demo_gateway drifting_adapter"
  obtain e where env: "validate_envelope (demo_spec P11) asked_repair demo_context = Inr e"
    using repair_asked(3) by (cases "validate_envelope (demo_spec P11) asked_repair demo_context") simp_all
  let ?c = "\<lparr>call_spec = demo_spec P11, call_request = asked_repair, call_envelope = e,
      call_route = mock_route (demo_spec P11), call_attempt = 1, call_behavior = HAPPY\<rparr>"
  have t: "trusted_context e = demo_context"
    by (rule validate_envelope_Inr(1) [OF env])
  note route = resolve_mock [OF P11_spec repair_asked(4), where rs = "[]", unfolded demo_budget_def]
  have g: "settings ?g = demo_config" "real_routes ?g = []" "providers ?g = []" "mode demo_config = MOCK"
     "default_budget_usd demo_config = fl (1 / 4)" "adapter_for ?g r = Inr drifting_adapter"
     "ModelRouteResolution.status (resolution_of s i r) = ''RESOLVED''" "ModelRouteResolution.route (resolution_of s i r) = Some r" for s i r
    by (simp_all add: demo_gateway_def demo_config_def providers_def adapter_for_def resolution_of_def)
  have answer: "drifting_adapter ?c = Answered (demo_result (JObj repair_output))"
    by (simp add: drifting_adapter_def repair_spec)
  obtain entry where entry: "record_answer ?g ?c (demo_result (JObj repair_output)) ''SCHEMA_VALID'' []
      = ([Recorded entry], Inr [entry])"
    using record_answer_made [of P11 ?c ?g "''SCHEMA_VALID''" "demo_result (JObj repair_output)" "[]"]
      P11_spec mock_route_valid [OF P11_spec] demo_ids t
    by (auto simp: g demo_config_def demo_context_def verdicts_def)
  have names: "PromptSpec.output_schema_name (demo_spec P11) = ''SchemaRepairResult''" "PromptSpec.prompt_id (demo_spec P11) = P11"
    by (simp_all add: repair_spec)
  have valid: "validate_output ?g (demo_spec P11) (JObj repair_output) = Inr (Inr repair_model)"
    using repair_model_valid(1) known_demo_roots(3) by (simp add: validate_output_def names) (simp add: demo_gateway_def)
  have dump: "model_dump repair_model = JObj repair_output" by (simp add: model_dump_def repair_model_def)
  have status: "attr ''repair_status'' (JObj repair_output) = Inr (JStr ''REPAIRED'')" by (simp add: repair_output_def)
  have "repair_answer ?g (demo_spec P11) demo_context ?c (demo_result (JObj repair_output))
      = ([Recorded entry], Inr (foreign_model, [entry]))"
    using valid entry repair_asked(5) status drifting_revalidates [of drifting_adapter]
    by (simp add: repair_answer_def demo_result_def dump names)
  then show ?thesis
    using env route repair_asked(1,2)
    by (simp add: repair_once_def P11_spec g answer)
qed

lemma drifting_run:
  "\<exists>res. snd (invoke (demo_gateway drifting_adapter) P01 (JObj spec_request) demo_context HAPPY None [ModelInputModality.TEXT]) = Inr res
     \<and> repaired res \<and> result_output res = foreign_model"
proof -
  let ?g = "demo_gateway drifting_adapter" and ?k = "demo_invocation P01 spec_request"
  note facts = demo_facts [OF spec_prepared]
  obtain c entry where repair: "repair_once ?g (demo_spec P01) (JObj []) demo_errors demo_context
     = ([Called c, Recorded entry], Inr (foreign_model, [entry]))"
    using drifting_repair by blast
  have "''SCHEMA_INVALID'' \<in> set verdicts" by (simp add: verdicts_def)
  then obtain first where first: "record_answer ?g (call_of ?k 1) (demo_result (JObj [])) ''SCHEMA_INVALID'' []
      = ([Recorded first], Inr [first])"
    using record_answer_made [OF facts(5-8), where ls = "[]"] by (fastforce simp: call_of_def)
  have k: "inv_spec ?k = demo_spec P01" "P01 \<noteq> P11" "PromptSpec.output_schema_name (demo_spec P01) = ''ActivitySpec''"
    by (simp_all add: demo_invocation_def P11_def spec_spec plain_spec_def)
  have answer: "drifting_adapter (call_of ?k 1) = Answered (demo_result (JObj []))"
    using facts(2) k by (simp add: drifting_adapter_def call_of_def)
  have invalid: "validate_output ?g (demo_spec P01) (JObj []) = Inr (Inl demo_errors)"
    using repair_model_valid(3) known_demo_roots(2) by (simp add: validate_output_def k) (simp add: demo_gateway_def)
  have "model_dump foreign_model = JObj foreign_output" by (simp add: model_dump_def foreign_model_def)
  then have checks: "output_checks ?k foreign_model = Inr ()"
    using foreign_checks facts(1-3) by (simp add: output_checks_def)
  have "schema_invalid ?g ?k (call_of ?k 1) (demo_result (JObj [])) demo_errors []
      = ([Recorded first, Called c, Recorded entry], Inr (call_result ?k foreign_model [first, entry]
          [REQUEST, ENVELOPE, OUTPUT, REPAIRED_OUTPUT] [REQUEST, ENVELOPE, OUTPUT, REPAIRED_OUTPUT] True))"
    using first repair checks facts(1,2) k by (simp add: schema_invalid_def demo_result_def)
  moreover have "[1..3] = [1, 2, 3 :: int]" by code_simp
  ultimately show ?thesis
    using invalid by (simp add: invoke_def spec_prepared facts(4) answer k demo_result_def call_result_def)
qed

end
