(* ===== verification/GatewayClaims.thy ===== *)
theory GatewayClaims
  imports GatewayExample
begin

text \<open>
  What the gateway guarantees: a bounded number of provider calls, each with its ledger, and
  accepted answers of the promised class that stay within the allowlists and the request.
\<close>

section \<open>Bounded work\<close>

lemma take_upto: "n \<le> nat m \<Longrightarrow> take n [1..m] = [1..int n]"
  by (rule nth_equalityI) (auto simp: nth_upto)

lemma invocation_calls:
  assumes "GatewayConfig_check (settings g) = None"
  shows "\<exists>own rep. calls (fst (invoke g pid raw t b budget inputs)) = own @ rep
     \<and> map call_attempt own = [1..int (length own)] \<and> int (length own) \<le> max_retries (settings g) + 1
     \<and> list_all (\<lambda>c. PromptSpec.prompt_id (call_spec c) = pid) own
     \<and> length rep \<le> 1 \<and> list_all repair_call rep \<and> (pid = P11 \<longrightarrow> rep = [] \<and> length own \<le> 1)"
proof (cases "prepare g pid raw t b budget inputs")
  case (Inl e)
  then show ?thesis
    using config_retries [OF assms] by (intro exI [of _ "[]"]) (simp add: invoke_unprepared)
next
  case (Inr p)
  obtain k adapter where p: "p = (k, adapter)" by (cases p)
  have k: "prompt_spec pid = Inr (inv_spec k)"
    "retry_limit k = min (max_retries (settings g)) (max_transient_retries (inv_spec k))"
    using prepare_Inr(1,5) [OF Inr [unfolded p]] by simp_all
  note spec = prompt_spec_bounds [OF k(1)]
  obtain ns rep where o: "calls (fst (invoke g pid raw t b budget inputs)) = map (call_of k) ns @ rep"
     "ns = take (length ns) [1..retry_limit k + 1]" "length rep \<le> 1" "list_all repair_call rep"
     "PromptSpec.prompt_id (inv_spec k) = P11 \<longrightarrow> rep = []"
    using invoke_shape [OF Inr [unfolded p] conjunct1 [OF config_retries [OF assms]]]
    unfolding loop_shape_def by (elim conjE exE) (rule that)
  have limit: "0 \<le> retry_limit k" "retry_limit k \<le> max_retries (settings g)" "pid = P11 \<Longrightarrow> retry_limit k = 0"
    using k(2) spec config_retries [OF assms] by auto
  have len: "length ns \<le> nat (retry_limit k + 1)"
    using arg_cong [OF o(2), of length] by simp
  have ns: "ns = [1..int (length ns)]" using o(2) take_upto [OF len] by simp
  have attempts: "map call_attempt (map (call_of k) ns) = ns"
    by (simp add: call_of_def comp_def)
  show ?thesis
  proof (intro exI conjI)
    show "calls (fst (invoke g pid raw t b budget inputs)) = map (call_of k) ns @ rep" by (rule o(1))
    show "map call_attempt (map (call_of k) ns) = [1..int (length (map (call_of k) ns))]"
      using attempts ns by simp
    show "int (length (map (call_of k) ns)) \<le> max_retries (settings g) + 1"
      using len limit by simp
    show "list_all (\<lambda>c. PromptSpec.prompt_id (call_spec c) = pid) (map (call_of k) ns)"
      using spec by (simp add: call_of_def list_all_iff)
    show "pid = P11 \<longrightarrow> rep = [] \<and> length (map (call_of k) ns) \<le> 1"
      using len limit o(5) spec by auto
  qed (use o in auto)
qed

text \<open>C14: an invocation does a bounded amount of work and ends.  Its own provider calls are the attempts
  1, 2, and so on, at most one more than the configured retries and hence at most three; after them
  there is at most one further call, the structural repair P11 in its first attempt, and none when
  the prompt is P11 itself, which is called once.  The loop is never left through the error behind it.
\<close>

theorem invocation_is_bounded:
  assumes "GatewayConfig_check (settings g) = None"
  shows "\<exists>own rep. calls (fst (invoke g pid raw t b budget inputs)) = own @ rep
     \<and> map call_attempt own = [1..int (length own)]
     \<and> int (length own) \<le> max_retries (settings g) + 1 \<and> length own \<le> 3
     \<and> list_all (\<lambda>c. PromptSpec.prompt_id (call_spec c) = pid) own
     \<and> length rep \<le> 1 \<and> list_all (\<lambda>c. PromptSpec.prompt_id (call_spec c) = P11 \<and> call_attempt c = 1) rep
     \<and> (pid = P11 \<longrightarrow> rep = [] \<and> length own \<le> 1)
     \<and> snd (invoke g pid raw t b budget inputs) \<noteq> Inl (Escaped ''unreachable retry loop'')"
proof -
  obtain own rep where o: "calls (fst (invoke g pid raw t b budget inputs)) = own @ rep"
     "map call_attempt own = [1..int (length own)]" "int (length own) \<le> max_retries (settings g) + 1"
     "list_all (\<lambda>c. PromptSpec.prompt_id (call_spec c) = pid) own"
     "length rep \<le> 1" "list_all repair_call rep" "pid = P11 \<longrightarrow> rep = [] \<and> length own \<le> 1"
    using invocation_calls [OF assms, of pid raw t b budget inputs] by (elim exE conjE) (rule that)
  have "quiet (snd (invoke g pid raw t b budget inputs))"
  proof (cases "prepare g pid raw t b budget inputs")
    case (Inl e)
    then show ?thesis using quiet_prepare [of g pid raw t b budget inputs] by (simp add: invoke_unprepared quiet_def)
  next
    case (Inr p)
    then show ?thesis
      using invoke_shape [of g pid raw t b budget inputs "fst p" "snd p"] config_retries [OF assms]
      by (simp add: loop_shape_def)
  qed
  moreover have "length own \<le> 3" using o(3) config_retries [OF assms] by linarith
  ultimately show ?thesis
    using o unfolding repair_call_def [abs_def] quiet_def
    by - (intro exI [of _ own] exI [of _ rep] conjI; assumption)
qed

abbreviation demo_run :: "GatewayCallResult run" where
  "demo_run \<equiv> invoke (demo_gateway question_adapter) P07 (JObj demo_request) demo_context HAPPY None [ModelInputModality.TEXT]"

lemma demo_settings: "settings (demo_gateway a) = demo_config" "model_validate (demo_gateway a) = demo_validate"
  by (simp_all add: demo_gateway_def)

lemma demo_settings_ok: "GatewayConfig_check (settings (demo_gateway a)) = None"
  by (simp add: demo_settings demo_config_ok)

theorem invocation_is_bounded_witness:
  "length (calls (fst demo_run)) = 2 \<and> length (calls (fst demo_run)) \<le> 4
     \<and> snd demo_run \<noteq> Inl (Escaped ''unreachable retry loop'')"
proof -
  obtain first second wait res where wait: "calls wait = []" and run: "demo_run = (Called (call_of (demo_invocation P07 demo_request) 1) # Recorded first # wait
         @ [Called (call_of (demo_invocation P07 demo_request) 2), Recorded second], Inr res)"
    using question_run by blast
  obtain own rep where b: "calls (fst demo_run) = own @ rep" "map call_attempt own = [1..int (length own)]" "length own \<le> 3"
      "length rep \<le> 1" "snd demo_run \<noteq> Inl (Escaped ''unreachable retry loop'')"
    using invocation_is_bounded [OF demo_settings_ok [of question_adapter],
        of P07 "JObj demo_request" demo_context HAPPY None "[ModelInputModality.TEXT]"] by (elim exE conjE) (rule that)
  have two: "length (calls (fst demo_run)) = 2" using run wait by simp
  have "length (calls (fst demo_run)) \<le> 4" using b(1,3,4) by simp
  with two b(5) show ?thesis by blast
qed

section \<open>Accepted answers\<close>

lemma schema_of_prompt:
  assumes "prompt_spec pid = Inr s"
  shows "map_of PROMPT_CONTRACTS pid = Some (input_schema_name s, PromptSpec.output_schema_name s)"
  using assms by (rule prompt_spec_cases) simp

lemma validate_request_Inr:
  "validate_request g s raw = Inr req \<Longrightarrow> model_validate g (input_schema_name s) raw = Inr req"
  by (auto simp: validate_request_def known_root_def model_by_name_def split: sum.splits if_splits)

text \<open>C20: when pydantic returns instances of the class it is asked for, an answer that was not repaired
  is an instance of the root the registry promises for the prompt, the envelope sent to the adapter
  names that root, and its payload is the validated request, an instance of the prompt's input root.
\<close>

theorem answer_has_promised_class:
  assumes "\<forall>nm v m. model_validate g nm v = Inr m \<longrightarrow> model_class m = nm"
    and "GatewayConfig_check (settings g) = None"
    and "snd (invoke g pid raw t b budget inputs) = Inr res" and "\<not> repaired res"
  shows "\<exists>req. map_of PROMPT_CONTRACTS pid = Some (model_class req, model_class (result_output res))
     \<and> model_validate g (model_class req) raw = Inr req
     \<and> ModelTaskEnvelope.output_schema_name (result_envelope res) = model_class (result_output res)
     \<and> ModelTaskEnvelope.payload (result_envelope res) = model_fields req
     \<and> trusted_context (result_envelope res) = t"
proof -
  obtain k adapter where k: "prepare g pid raw t b budget inputs = Inr (k, adapter)" "accepted_result g k res"
    using invoke_Inr [OF assms(3)] config_retries [OF assms(2)] by blast
  note prep = prepare_Inr [OF k(1)]
  note env = validate_envelope_Inr [OF prep(3)]
  note req = validate_request_Inr [OF prep(2)]
  have classes: "model_class (inv_request k) = input_schema_name (inv_spec k)"
    "model_class (result_output res) = PromptSpec.output_schema_name (inv_spec k)"
    using assms(1,4) req k(2) by (auto simp: accepted_result_def)
  show ?thesis
    using schema_of_prompt [OF prep(1)] req env k(2) classes
    by (intro exI [of _ "inv_request k"]) (simp add: accepted_result_def)
qed

theorem answer_has_promised_class_witness:
  "\<exists>res. snd demo_run = Inr res \<and> model_class (result_output res) = ''QuestionGenerationResult''
     \<and> ModelTaskEnvelope.output_schema_name (result_envelope res) = ''QuestionGenerationResult''
     \<and> trusted_context (result_envelope res) = demo_context"
proof -
  obtain res where r: "snd demo_run = Inr res" "result_output res = question_output" "\<not> repaired res"
    using question_run by (metis snd_conv)
  have "\<forall>nm v m. model_validate (demo_gateway question_adapter) nm v = Inr m \<longrightarrow> model_class m = nm"
    by (simp add: demo_settings demo_validate_class)
  then show ?thesis
    using answer_has_promised_class [OF _ demo_settings_ok r(1,3)] r by (auto simp: question_output_def)
qed

lemma collect_ids_in:
  assumes "collect_authorized_ids ds = Inr (es, ss)" and "kvs \<in> set ds"
  shows "set (text_at kvs ''evidence_id'') \<subseteq> set es" and "set (text_at kvs ''source_id'') \<subseteq> set ss"
    and "\<exists>xs. texts_at kvs ''evidence_ids'' = Inr xs \<and> set xs \<subseteq> set es"
    and "\<exists>xs. texts_at kvs ''source_ids'' = Inr xs \<and> set xs \<subseteq> set ss"
    and "\<exists>xs. texts_at kvs ''course_source_ids'' = Inr xs \<and> set xs \<subseteq> set ss"
  using assms
proof (induction ds arbitrary: es ss)
  case (Cons d ds)
  {
    case 1 then show ?case using Cons.IH(1) by fastforce
  next
    case 2 then show ?case using Cons.IH(2) by fastforce
  next
    case 3 then show ?case using Cons.IH(3) by fastforce
  next
    case 4 then show ?case using Cons.IH(4) by fastforce
  next
    case 5 then show ?case using Cons.IH(5) by fastforce
  }
qed simp_all

text \<open>What the check of the context establishes for every object inside a dump.\<close>

lemma request_context_Inr:
  assumes "request_context d t pid = Inr ()" and "kvs \<in> set (walk_dicts d)"
  shows "set (text_at kvs ''evidence_id'') \<subseteq> set (TrustedPromptContext.allowed_evidence_ids t)"
    and "set (text_at kvs ''source_id'') \<subseteq> set (allowed_course_source_ids t)"
    and "\<exists>xs. texts_at kvs ''evidence_ids'' = Inr xs \<and> set xs \<subseteq> set (TrustedPromptContext.allowed_evidence_ids t)"
    and "\<exists>xs. texts_at kvs ''source_ids'' = Inr xs \<and> set xs \<subseteq> set (allowed_course_source_ids t)"
    and "\<exists>xs. texts_at kvs ''course_source_ids'' = Inr xs \<and> set xs \<subseteq> set (allowed_course_source_ids t)"
    and "map_of kvs ''context_mode'' \<in> {None, Some JNull, Some (JStr (context_mode_text (TrustedPromptContext.context_mode t)))}"
proof -
  obtain es ss where c: "collect_authorized_ids (walk_dicts d) = Inr (es, ss)"
     "set es \<subseteq> set (TrustedPromptContext.allowed_evidence_ids t)" "set ss \<subseteq> set (allowed_course_source_ids t)"
    using assms(1) by (auto simp: request_context_def)
  obtain ms where m: "modes_of (walk_dicts d) = Inr ms"
     "\<forall>x \<in> set ms. x = JStr (context_mode_text (TrustedPromptContext.context_mode t))"
    using assms(1) by (auto simp: request_context_def list_ex_iff)
  note in_ds = collect_ids_in [OF c(1) assms(2)]
  show "set (text_at kvs ''evidence_id'') \<subseteq> set (TrustedPromptContext.allowed_evidence_ids t)"
    "set (text_at kvs ''source_id'') \<subseteq> set (allowed_course_source_ids t)"
    "\<exists>xs. texts_at kvs ''evidence_ids'' = Inr xs \<and> set xs \<subseteq> set (TrustedPromptContext.allowed_evidence_ids t)"
    "\<exists>xs. texts_at kvs ''source_ids'' = Inr xs \<and> set xs \<subseteq> set (allowed_course_source_ids t)"
    "\<exists>xs. texts_at kvs ''course_source_ids'' = Inr xs \<and> set xs \<subseteq> set (allowed_course_source_ids t)"
    using in_ds c(2,3) by (meson subset_trans)+
  have "x \<in> set ms" if "map_of kvs ''context_mode'' = Some x" "x \<noteq> JNull" for x
    using m(1) assms(2) that
    by (auto simp: modes_of_def Let_def split: if_splits intro!: bexI [of _ kvs])
  then show "map_of kvs ''context_mode'' \<in> {None, Some JNull, Some (JStr (context_mode_text (TrustedPromptContext.context_mode t)))}"
    using m(2) by (cases "map_of kvs ''context_mode''") auto
qed

text \<open>
  What the relationship check means for the question prompts: the answer is for the submission, the
  opportunity and the context mode of the request, and a candidate stays on the planned opportunity
  and within the evidence of the bundle.
\<close>

definition keeps_plan :: "json \<Rightarrow> json \<Rightarrow> bool" where
  "keeps_plan req out \<longleftrightarrow>
     attr ''submission_id'' out = attrs [''plan'', ''submission_id''] req
     \<and> attr ''opportunity_id'' out = attrs [''opportunity'', ''opportunity_id''] req
     \<and> attr ''context_mode'' out = attrs [''evidence_bundle'', ''context_mode''] req
     \<and> (\<forall>c. attr ''candidate'' out = Inr c \<and> c \<noteq> JNull \<longrightarrow>
          attr ''opportunity_template_id'' c = attrs [''opportunity'', ''opportunity_template_id''] req
          \<and> attr ''dimension_id'' c = attrs [''opportunity'', ''dimension_id''] req
          \<and> attr ''variant_id'' c = attrs [''opportunity'', ''variant_id''] req
          \<and> attr ''cognitive_operation'' c = attrs [''opportunity'', ''cognitive_operation''] req
          \<and> (\<exists>es allowed. attr_list ''evidence_ids'' c = Inr es
               \<and> and_then (attrs [''evidence_bundle'', ''allowed_evidence_ids''] req) iterate = Inr allowed
               \<and> set es \<subseteq> set allowed))"

lemma attr_differs_False: "attr_differs ks v ls w = Inr False \<Longrightarrow> \<exists>a. attrs ks v = Inr a \<and> attrs ls w = Inr a"
  by (auto simp: attr_differs_def)

lemma attrs_one: "attrs [k] v = Inr a \<Longrightarrow> attr k v = Inr a"
  by auto

lemma candidate_moved_False:
  assumes "candidate_moved req c = Inr False"
    and "k \<in> {''opportunity_template_id'', ''dimension_id'', ''variant_id'', ''cognitive_operation''}"
  shows "attr k c = attrs [''opportunity'', k] req"
proof -
  have "attr_differs [k] c [''opportunity'', k] req = Inr False"
    using assms unfolding candidate_moved_def any_of_False by (auto simp del: attrs.simps)
  then show ?thesis using attr_differs_False attrs_one by metis
qed

lemma question_relation_keeps_plan:
  assumes "question_relation req out = Inr ()"
  shows "keeps_plan req out"
proof -
  let ?subs = "attr_differs [''submission_id''] out [''plan'', ''submission_id''] req"
  let ?opp = "attr_differs [''opportunity_id''] out [''opportunity'', ''opportunity_id''] req"
  let ?mode = "attr_differs [''context_mode''] out [''evidence_bundle'', ''context_mode''] req"
  obtain c where any: "any_of [?subs, ?opp, ?mode] = Inr False" and c: "attr ''candidate'' out = Inr c"
    and rest: "(if c = JNull then Inr () else
         and_then (candidate_moved req c) (\<lambda>b.
         and_then (refuse b ''Question output changed its planned opportunity'') (\<lambda>_.
         and_then (attr_list ''evidence_ids'' c) (\<lambda>es.
         and_then (attrs [''evidence_bundle'', ''allowed_evidence_ids''] req) (\<lambda>a.
         and_then (iterate a) (\<lambda>allowed.
           refuse (\<not> set es \<subseteq> set allowed) ''Question output invented evidence_ids'')))))) = Inr ()"
    using assms unfolding question_relation_def and_then_Inr refuse_Inr by (elim exE conjE) simp
  have "?subs = Inr False" "?opp = Inr False" "?mode = Inr False"
    using any by (simp_all only: any_of_False list.set insert_iff ball_simps)
  from this [THEN attr_differs_False]
  have top: "attr ''submission_id'' out = attrs [''plan'', ''submission_id''] req"
    "attr ''opportunity_id'' out = attrs [''opportunity'', ''opportunity_id''] req"
    "attr ''context_mode'' out = attrs [''evidence_bundle'', ''context_mode''] req"
    using attrs_one by (elim exE conjE, simp only:)+
  have moved: "candidate_moved req c = Inr False"
    and within: "\<exists>es allowed. attr_list ''evidence_ids'' c = Inr es
          \<and> and_then (attrs [''evidence_bundle'', ''allowed_evidence_ids''] req) iterate = Inr allowed
          \<and> set es \<subseteq> set allowed" if "c \<noteq> JNull"
    using rest that unfolding if_not_P [OF that] and_then_Inr refuse_Inr by (elim exE conjE, simp)+
  show ?thesis
    unfolding keeps_plan_def c using top within candidate_moved_False [OF moved] by simp
qed

lemma relationship_of_question:
  "output_relationship ''P07_QUESTION_BUILD_V1'' req out = question_relation req out"
  "output_relationship ''P10_ENRICHED_CONTEXT_V1'' req out = question_relation req out"
  by (simp_all add: output_relationship_def)

lemma output_context_Inr:
  "output_context out t pid = Inr () \<Longrightarrow> request_context out t pid = Inr () \<and> clean_abstention pid out = Inr ()"
  by (auto simp: output_context_def)

definition within_allowlists :: "TrustedPromptContext \<Rightarrow> (string \<times> json) list \<Rightarrow> bool" where
  "within_allowlists t kvs \<longleftrightarrow>
     set (text_at kvs ''evidence_id'') \<subseteq> set (TrustedPromptContext.allowed_evidence_ids t)
     \<and> set (text_at kvs ''source_id'') \<subseteq> set (allowed_course_source_ids t)
     \<and> (\<exists>xs. texts_at kvs ''evidence_ids'' = Inr xs \<and> set xs \<subseteq> set (TrustedPromptContext.allowed_evidence_ids t))
     \<and> (\<exists>xs. texts_at kvs ''source_ids'' = Inr xs \<and> set xs \<subseteq> set (allowed_course_source_ids t))
     \<and> (\<exists>xs. texts_at kvs ''course_source_ids'' = Inr xs \<and> set xs \<subseteq> set (allowed_course_source_ids t))
     \<and> map_of kvs ''context_mode'' \<in> {None, Some JNull, Some (JStr (context_mode_text (TrustedPromptContext.context_mode t)))}"

text \<open>C39: whatever answer the gateway returns, repaired or not, stays within the trusted context and the
  request.  Every object at any depth of the answer names only evidence and course sources of the
  allowlists and no other context mode, a prompt that abstains does so cleanly, and the answer
  stands in the relationship its prompt requires to the validated request; for the question prompts
  that means the planned opportunity and the evidence of the bundle, in the context mode of the
  prompt.
\<close>

theorem accepted_answer_is_authorized:
  assumes "GatewayConfig_check (settings g) = None"
    and "snd (invoke g pid raw t b budget inputs) = Inr res"
  shows "(\<forall>kvs \<in> set (walk_dicts (model_dump (result_output res))).
       within_allowlists t kvs)
     \<and> clean_abstention pid (model_dump (result_output res)) = Inr ()
     \<and> (\<exists>nm req. model_validate g nm raw = Inr req
          \<and> output_relationship pid (model_dump req) (model_dump (result_output res)) = Inr ()
          \<and> (pid = ''P07_QUESTION_BUILD_V1'' \<longrightarrow> TrustedPromptContext.context_mode t = ContextMode.CLOSED
               \<and> keeps_plan (model_dump req) (model_dump (result_output res)))
          \<and> (pid = ''P10_ENRICHED_CONTEXT_V1'' \<longrightarrow> TrustedPromptContext.context_mode t = ContextMode.COURSE_ENRICHED
               \<and> keeps_plan (model_dump req) (model_dump (result_output res))))"
proof -
  let ?out = "model_dump (result_output res)"
  obtain k adapter where k: "prepare g pid raw t b budget inputs = Inr (k, adapter)" "accepted_result g k res"
    using invoke_Inr [OF assms(2)] config_retries [OF assms(1)] by blast
  note prep = prepare_Inr [OF k(1)]
  have pid: "PromptSpec.prompt_id (inv_spec k) = pid"
    using prompt_spec_bounds(5) [OF prep(1)] by simp
  have ctx: "output_context ?out t pid = Inr ()"
    and rel: "output_relationship pid (model_dump (inv_request k)) ?out = Inr ()"
    using k(2) validate_envelope_Inr(1) [OF prep(3)] pid by (auto simp: accepted_result_def output_checks_def)
  have req: "request_context ?out t pid = Inr ()" and clean: "clean_abstention pid ?out = Inr ()"
    using output_context_Inr [OF ctx] by blast+
  have within: "within_allowlists t kvs" if "kvs \<in> set (walk_dicts ?out)" for kvs
    unfolding within_allowlists_def by (intro conjI; rule request_context_Inr [OF req that])
  have modes: "pid = ''P07_QUESTION_BUILD_V1'' \<Longrightarrow> TrustedPromptContext.context_mode t = ContextMode.CLOSED"
    "pid = ''P10_ENRICHED_CONTEXT_V1'' \<Longrightarrow> TrustedPromptContext.context_mode t = ContextMode.COURSE_ENRICHED"
    using req by (auto simp: request_context_def)
  have plan: "pid \<in> {''P07_QUESTION_BUILD_V1'', ''P10_ENRICHED_CONTEXT_V1''} \<Longrightarrow> keeps_plan (model_dump (inv_request k)) ?out"
    using rel relationship_of_question question_relation_keeps_plan by (metis insertE singletonD)
  show ?thesis
  proof (intro conjI ballI exI impI)
    show "model_validate g (input_schema_name (inv_spec k)) raw = Inr (inv_request k)"
      by (rule validate_request_Inr [OF prep(2)])
  qed (use within clean rel modes plan in \<open>simp_all\<close>)
qed

theorem accepted_answer_is_authorized_witness:
  "\<exists>res. snd demo_run = Inr res \<and> attr ''status'' (model_dump (result_output res)) = Inr (JStr ''READY'')
     \<and> clean_abstention P07 (model_dump (result_output res)) = Inr ()
     \<and> TrustedPromptContext.context_mode demo_context = ContextMode.CLOSED"
proof -
  obtain res where r: "snd demo_run = Inr res" "result_output res = question_output"
    using question_run by (metis snd_conv)
  have "attr ''status'' (model_dump (result_output res)) = Inr (JStr ''READY'')"
    by (simp add: r model_dump_def question_output_def) (simp add: demo_answer_def)
  then show ?thesis
    using accepted_answer_is_authorized [OF demo_settings_ok r(1)] r(1) by blast
qed

text \<open>C40: a successful invocation is accounted for completely.  The ledgers of the result are exactly
  the entries handed to the sink, in order; there is one valid entry for every provider call, with
  that call's prompt and attempt.
\<close>

theorem accepted_answer_is_accounted:
  assumes "GatewayConfig_check (settings g) = None"
    and "snd (invoke g pid raw t b budget inputs) = Inr res"
  shows "result_ledgers res = ledgers (fst (invoke g pid raw t b budget inputs))
     \<and> list_all2 (\<lambda>c l. ModelCallLedger.prompt_id l = PromptSpec.prompt_id (call_spec c)
          \<and> ModelCallLedger.attempt l = call_attempt c \<and> ModelCallLedger_validate l = None)
        (calls (fst (invoke g pid raw t b budget inputs))) (result_ledgers res)"
proof -
  obtain k adapter where "result_ledgers res = ledgers (fst (invoke g pid raw t b budget inputs))"
    "list_all2 entry_for (calls (fst (invoke g pid raw t b budget inputs))) (result_ledgers res)"
    using invoke_Inr [OF assms(2)] config_retries [OF assms(1)] by metis
  then show ?thesis
    by (auto elim!: list_all2_mono simp: entry_for_def entry_of_def)
qed

theorem accepted_answer_is_accounted_witness:
  "\<exists>res. snd demo_run = Inr res \<and> length (result_ledgers res) = 2 \<and> result_ledgers res = ledgers (fst demo_run)"
proof -
  obtain first second res where r: "snd demo_run = Inr res" "result_ledgers res = [first, second]"
    using question_run by (metis snd_conv)
  show ?thesis
    using conjunct1 [OF accepted_answer_is_accounted [OF demo_settings_ok r(1)]] r(1) arg_cong [OF r(2), of length]
    by (intro exI [of _ res]) simp
qed

section \<open>A repaired answer may be of another class\<close>

text \<open>
  The registry promises an activity specification for P01.  The repair only checks that P11 returns
  some canonical root, not that it is the root it was asked for, so P01 can return a blueprint.
\<close>

theorem repair_may_change_the_class:
  "map_of PROMPT_CONTRACTS P01 = Some (''ActivitySpecRequest'', ''ActivitySpec'')
   \<and> (\<exists>res. snd (invoke (demo_gateway drifting_adapter) P01 (JObj spec_request) demo_context HAPPY None [ModelInputModality.TEXT]) = Inr res
     \<and> model_class (result_output res) = ''AssessmentBlueprint'')"
  using drifting_run by (auto simp: PROMPT_CONTRACTS_def foreign_model_def)

end
