(* ===== verification/ObjectStore.thy ===== *)
theory ObjectStore
  imports PyTime WriteOnce
begin

text \<open>
  \<open>web/object_store.py\<close>: the in-memory object store with its signed capabilities, and the
  conditional write of the R2 adapter.  JSON web tokens (\<open>jwt\<close>) and the S3 client (\<open>boto3\<close>) are
  third-party code: a token library is a pair of functions, an S3 bucket a record of the operations the
  adapter calls.  The clock readings are arguments, and the lock makes each operation one step.
\<close>

type_synonym bytes = "8 word list"

section \<open>Signed capabilities\<close>

datatype object_error = PermissionError string | ObjectSizeExceeded string | KeyError | TokenError string
  | AssertionFailed | ClientError string

text \<open>The claims the store reads; the issuer and the audience are constants of the token library's
  configuration.\<close>

record claims =
  claim_key :: string
  claim_method :: string
  claim_content_type :: "string option"
  claim_byte_size :: "int option"

text \<open>\<open>jwt.encode\<close> with issue and expiry times in microseconds, and \<open>jwt.decode\<close> at a time.\<close>

record token_library =
  encode :: "claims \<Rightarrow> int \<Rightarrow> int \<Rightarrow> string \<Rightarrow> string"
  decode :: "string \<Rightarrow> string \<Rightarrow> int \<Rightarrow> string + claims"

text \<open>
  Documented behaviour of the library: a token decodes under its own secret to its claims from its
  issue on, as long as its expiry, which the token holds in whole seconds, is in the future.
\<close>

definition token_law :: "token_library \<Rightarrow> bool" where
  "token_law J \<longleftrightarrow> (\<forall>c iat expiry secret now. iat \<le> now \<and> now < expiry div 1000000 * 1000000
     \<longrightarrow> decode J (encode J c iat expiry secret) secret now = Inr c)"

section \<open>The in-memory store\<close>

record MemoryObjectStore =
  secret :: string
  upload_ttl_seconds :: int
  download_ttl_seconds :: int
  objects :: "string \<Rightarrow> (bytes \<times> string) option"

record SignedObjectUrl =
  url :: string
  expires_at :: datetime
  headers :: "(string \<times> string) list"

definition token_for :: "token_library \<Rightarrow> MemoryObjectStore \<Rightarrow> string \<Rightarrow> string \<Rightarrow> int \<Rightarrow> string option \<Rightarrow> int option \<Rightarrow> int \<Rightarrow> string" where
  "token_for J s key meth ttl ctype nbytes now =
     encode J \<lparr>claim_key = key, claim_method = meth, claim_content_type = ctype, claim_byte_size = nbytes\<rparr>
       now (now + ttl * 1000000) (secret s)"

definition decode_claims :: "token_library \<Rightarrow> MemoryObjectStore \<Rightarrow> string \<Rightarrow> string \<Rightarrow> int \<Rightarrow> object_error + claims" where
  "decode_claims J s token meth now =
     (case decode J token (secret s) now of
        Inl e \<Rightarrow> Inl (TokenError e)
      | Inr c \<Rightarrow> if claim_method c \<noteq> meth then Inl (PermissionError ''signed object method mismatch'') else Inr c)"

definition upload_path :: string where
  "upload_path = ''/api/v1/object-uploads/''"

definition download_path :: string where
  "download_path = ''/api/v1/objects/''"

text \<open>Each signature reads the clock twice: for the expiry it reports and for the token.\<close>

definition sign_put :: "token_library \<Rightarrow> MemoryObjectStore \<Rightarrow> string \<Rightarrow> string \<Rightarrow> int option \<Rightarrow> int \<Rightarrow> int \<Rightarrow> SignedObjectUrl" where
  "sign_put J s key ctype nbytes now now2 =
     \<lparr>url = upload_path @ token_for J s key ''PUT'' (upload_ttl_seconds s) (Some ctype) nbytes now2,
      expires_at = utc_time (now + upload_ttl_seconds s * 1000000), headers = [(''Content-Type'', ctype)]\<rparr>"

definition sign_get :: "token_library \<Rightarrow> MemoryObjectStore \<Rightarrow> string \<Rightarrow> int \<Rightarrow> int \<Rightarrow> SignedObjectUrl" where
  "sign_get J s key now now2 =
     \<lparr>url = download_path @ token_for J s key ''GET'' (download_ttl_seconds s) None None now2,
      expires_at = utc_time (now + download_ttl_seconds s * 1000000), headers = []\<rparr>"

definition put_signed :: "token_library \<Rightarrow> string \<Rightarrow> bytes \<Rightarrow> string \<Rightarrow> int \<Rightarrow> MemoryObjectStore \<Rightarrow> object_error + MemoryObjectStore" where
  "put_signed J token body ctype now s =
     and_then (decode_claims J s token ''PUT'' now) (\<lambda>c.
     if claim_content_type c \<noteq> Some ctype then Inl (PermissionError ''signed content type mismatch'')
     else if (case claim_byte_size c of None \<Rightarrow> False | Some n \<Rightarrow> int (length body) \<noteq> n)
       then Inl (ObjectSizeExceeded ''signed object size mismatch'')
     else Inr (s\<lparr>objects := (objects s)(claim_key c \<mapsto> (body, ctype))\<rparr>))"

definition lookup_object :: "MemoryObjectStore \<Rightarrow> string \<Rightarrow> object_error + bytes \<times> string" where
  "lookup_object s key = (case objects s key of None \<Rightarrow> Inl KeyError | Some v \<Rightarrow> Inr v)"

definition get_signed :: "token_library \<Rightarrow> string \<Rightarrow> int \<Rightarrow> MemoryObjectStore \<Rightarrow> object_error + bytes \<times> string" where
  "get_signed J token now s =
     and_then (decode_claims J s token ''GET'' now) (\<lambda>c. lookup_object s (claim_key c))"

definition get_bytes :: "MemoryObjectStore \<Rightarrow> string \<Rightarrow> nat \<Rightarrow> object_error + bytes" where
  "get_bytes s key max_bytes =
     and_then (lookup_object s key) (\<lambda>(body, ctype).
       if length body > max_bytes then Inl (ObjectSizeExceeded ''object exceeds bounded read'') else Inr body)"

record ObjectMetadata =
  meta_key :: string
  meta_byte_size :: nat
  meta_content_type :: string

definition head_object :: "MemoryObjectStore \<Rightarrow> string \<Rightarrow> object_error + ObjectMetadata" where
  "head_object s key = and_then (lookup_object s key) (\<lambda>(body, ctype).
     Inr \<lparr>meta_key = key, meta_byte_size = length body, meta_content_type = ctype\<rparr>)"

definition put_immutable :: "string \<Rightarrow> bytes \<Rightarrow> string \<Rightarrow> MemoryObjectStore \<Rightarrow> object_error + MemoryObjectStore" where
  "put_immutable key body ctype s =
     (case objects s key of
        Some v \<Rightarrow> if v \<noteq> (body, ctype)
          then Inl (PermissionError ''immutable object already exists with different bytes'')
          else Inr (s\<lparr>objects := (objects s)(key \<mapsto> (body, ctype))\<rparr>)
      | None \<Rightarrow> Inr (s\<lparr>objects := (objects s)(key \<mapsto> (body, ctype))\<rparr>))"

text \<open>The application cuts the token out of the path.\<close>

definition token_of :: "string \<Rightarrow> string \<Rightarrow> string" where
  "token_of prefix link = drop (length prefix) link"

section \<open>The R2 adapter\<close>

text \<open>
  The S3 operations the adapter calls, on a bucket of type \<open>'b\<close>: a conditional \<open>put_object\<close> with
  \<open>IfNoneMatch="*"\<close>, \<open>get_object\<close>, whose body is read up to a bound, and \<open>head_object\<close>; errors are S3's
  error codes.
\<close>

record 'b s3_client =
  put_object :: "string \<Rightarrow> bytes \<Rightarrow> string \<Rightarrow> 'b \<Rightarrow> string + 'b"
  get_object :: "string \<Rightarrow> 'b \<Rightarrow> string + bytes"
  head_of :: "string \<Rightarrow> 'b \<Rightarrow> string + nat \<times> string option"

definition r2_get_bytes :: "'b s3_client \<Rightarrow> string \<Rightarrow> nat \<Rightarrow> 'b \<Rightarrow> object_error + bytes" where
  "r2_get_bytes C key max_bytes b =
     (case get_object C key b of
        Inl e \<Rightarrow> Inl (ClientError e)
      | Inr body \<Rightarrow>
          let got = take (max_bytes + 1) body in
          if length got > max_bytes then Inl (ObjectSizeExceeded ''object exceeds bounded read'') else Inr got)"

definition r2_head :: "'b s3_client \<Rightarrow> string \<Rightarrow> 'b \<Rightarrow> object_error + ObjectMetadata" where
  "r2_head C key b =
     (case head_of C key b of
        Inl e \<Rightarrow> Inl (ClientError e)
      | Inr (n, ctype) \<Rightarrow> Inr \<lparr>meta_key = key, meta_byte_size = n,
          meta_content_type = (case ctype of None \<Rightarrow> ''application/octet-stream''
            | Some t \<Rightarrow> if t = [] then ''application/octet-stream'' else t)\<rparr>)"

definition r2_put_immutable :: "'b s3_client \<Rightarrow> string \<Rightarrow> bytes \<Rightarrow> string \<Rightarrow> 'b \<Rightarrow> object_error + 'b" where
  "r2_put_immutable C key body ctype b =
     (case put_object C key body ctype b of
        Inr b' \<Rightarrow> Inr b'
      | Inl e \<Rightarrow>
          if e \<notin> {''PreconditionFailed'', ''412''} then Inl (ClientError e)
          else
            and_then (r2_head C key b) (\<lambda>m.
            if meta_content_type m \<noteq> ctype \<or> meta_byte_size m \<noteq> length body
            then Inl (PermissionError ''immutable object already exists with different metadata'')
            else
              and_then (r2_get_bytes C key (length body) b) (\<lambda>got.
              if got \<noteq> body
              then Inl (PermissionError ''immutable object already exists with different bytes'')
              else Inr b)))"

section \<open>What is stored stays, and what is uploaded is served\<close>

lemma put_immutable_Inr:
  assumes "put_immutable key body ctype s = Inr s'"
  shows "s' = s\<lparr>objects := (objects s)(key \<mapsto> (body, ctype))\<rparr>" and "objects s key \<in> {None, Some (body, ctype)}"
  using assms by (auto simp: put_immutable_def split: option.splits if_splits)

lemma put_immutable_extends:
  assumes "put_immutable key body ctype s = Inr s'"
  shows "objects s \<subseteq>\<^sub>m objects s'" and "objects s' key = Some (body, ctype)"
  using put_immutable_Inr [OF assms] by (auto simp: map_le_def)

text \<open>Artifacts written by the server go through \<open>put_immutable\<close> only: such a store is write-once.\<close>

inductive server_write :: "MemoryObjectStore \<Rightarrow> MemoryObjectStore \<Rightarrow> bool" where
  "put_immutable key body ctype s = Inr s' \<Longrightarrow> server_write s s'"

interpretation artifact: write_once "\<lambda>s. True" server_write objects
  by unfold_locales (auto elim!: server_write.cases dest: put_immutable_extends(1))

text \<open>Steps that leave the object \<open>key\<close> to its present value: server writes, and uploads through
  tokens of other keys.\<close>

inductive elsewhere_step :: "token_library \<Rightarrow> string \<Rightarrow> MemoryObjectStore \<Rightarrow> MemoryObjectStore \<Rightarrow> bool" for J key where
  server: "put_immutable k body ctype s = Inr s' \<Longrightarrow> elsewhere_step J key s s'"
| upload: "put_signed J token body ctype now s = Inr s' \<Longrightarrow> decode_claims J s token ''PUT'' now = Inr c
    \<Longrightarrow> claim_key c \<noteq> key \<Longrightarrow> elsewhere_step J key s s'"

lemma put_signed_Inr:
  assumes "put_signed J token body ctype now s = Inr s'"
  obtains c where "decode_claims J s token ''PUT'' now = Inr c" "claim_content_type c = Some ctype"
    "claim_byte_size c \<in> {None, Some (int (length body))}"
    "s' = s\<lparr>objects := (objects s)(claim_key c \<mapsto> (body, ctype))\<rparr>"
  using assms by (auto simp: put_signed_def split: if_splits option.splits)

lemma elsewhere_step_keeps:
  assumes "elsewhere_step J key s s'" and "objects s key = Some v"
  shows "objects s' key = Some v \<and> secret s' = secret s \<and> upload_ttl_seconds s' = upload_ttl_seconds s
    \<and> download_ttl_seconds s' = download_ttl_seconds s"
  using assms(1)
proof cases
  case (server k body ctype)
  then show ?thesis
    using put_immutable_Inr [OF server] put_immutable_extends(1) [OF server] assms(2) by (auto simp: map_le_def)
next
  case (upload token body ctype now c)
  then show ?thesis
    using assms(2) by (auto elim!: put_signed_Inr)
qed

lemma other_steps_keep:
  assumes "(elsewhere_step J key)\<^sup>*\<^sup>* s s'" and "objects s key = Some v"
  shows "objects s' key = Some v \<and> secret s' = secret s \<and> download_ttl_seconds s' = download_ttl_seconds s"
  using assms by (induction rule: rtranclp_induct) (auto dest: elsewhere_step_keeps)

lemma token_of_path [simp]: "token_of p (p @ t) = t"
  by (simp add: token_of_def)

lemma signed_token_decodes:
  assumes "token_law J" and "secret s' = secret s" and "t \<le> now" and "now < (t + ttl * 1000000) div 1000000 * 1000000"
  shows "decode_claims J s' (token_for J s key meth ttl ctype nbytes t) meth now
    = Inr \<lparr>claim_key = key, claim_method = meth, claim_content_type = ctype, claim_byte_size = nbytes\<rparr>"
  using assms by (simp add: decode_claims_def token_for_def token_law_def)

text \<open>C31: an upload is served back unchanged.  Within the lifetime of a signed upload URL the store accepts
  exactly the bytes of the signed type and size, and whatever else is stored afterwards without
  uploading to the same key, a signed download URL returns these bytes and this type, within its own
  lifetime; the server reads the same bytes and metadata.
\<close>

theorem signed_upload_round_trip:
  assumes "token_law J" and "secret s1 = secret s0" and "t0 \<le> t1"
    and "t1 < (t0 + upload_ttl_seconds s0 * 1000000) div 1000000 * 1000000"
    and "(elsewhere_step J key)\<^sup>*\<^sup>* (s1\<lparr>objects := (objects s1)(key \<mapsto> (body, ctype))\<rparr>) s2" and "t2 \<le> t3"
    and "t3 < (t2 + download_ttl_seconds s2 * 1000000) div 1000000 * 1000000"
    and "nbytes \<in> {None, Some (int (length body))}"
  shows "put_signed J (token_of upload_path (url (sign_put J s0 key ctype nbytes now t0))) body ctype t1 s1
       = Inr (s1\<lparr>objects := (objects s1)(key \<mapsto> (body, ctype))\<rparr>)
     \<and> (\<forall>body' ctype' s'. put_signed J (token_of upload_path (url (sign_put J s0 key ctype nbytes now t0))) body' ctype' t1 s1 = Inr s'
          \<longrightarrow> ctype' = ctype \<and> (nbytes \<noteq> None \<longrightarrow> length body' = length body))
     \<and> get_signed J (token_of download_path (url (sign_get J s2 key now' t2))) t3 s2 = Inr (body, ctype)
     \<and> get_bytes s2 key (length body) = Inr body
     \<and> head_object s2 key = Inr \<lparr>meta_key = key, meta_byte_size = length body, meta_content_type = ctype\<rparr>"
proof -
  have up: "decode_claims J s1 (token_for J s0 key ''PUT'' (upload_ttl_seconds s0) (Some ctype) nbytes t0) ''PUT'' t1
     = Inr \<lparr>claim_key = key, claim_method = ''PUT'', claim_content_type = Some ctype, claim_byte_size = nbytes\<rparr>"
    by (rule signed_token_decodes [OF assms(1-4)])
  have down: "decode_claims J s2 (token_for J s2 key ''GET'' (download_ttl_seconds s2) None None t2) ''GET'' t3
     = Inr \<lparr>claim_key = key, claim_method = ''GET'', claim_content_type = None, claim_byte_size = None\<rparr>"
    by (rule signed_token_decodes [OF assms(1) refl assms(6,7)])
  have kept: "objects s2 key = Some (body, ctype)"
    using other_steps_keep [OF assms(5)] by simp
  show ?thesis
    using up down kept assms(8)
    by (auto simp: sign_put_def sign_get_def put_signed_def get_signed_def lookup_object_def get_bytes_def
        head_object_def split: if_splits)
qed

section \<open>The R2 adapter keeps the same promise\<close>

text \<open>Documented behaviour of the bucket: \<open>look\<close> is its content; a conditional write of a new key
  stores it and of an existing key fails with \<open>PreconditionFailed\<close>.\<close>

definition bucket_law :: "'b s3_client \<Rightarrow> ('b \<Rightarrow> string \<Rightarrow> (bytes \<times> string) option) \<Rightarrow> bool" where
  "bucket_law C look \<longleftrightarrow> (\<forall>b key body ctype.
     (look b key = None \<longrightarrow> (\<exists>b'. put_object C key body ctype b = Inr b' \<and> look b' = (look b)(key \<mapsto> (body, ctype))))
     \<and> (\<forall>v t. look b key = Some (v, t) \<longrightarrow> put_object C key body ctype b = Inl ''PreconditionFailed''
          \<and> get_object C key b = Inr v \<and> head_of C key b = Inr (length v, Some t)))"

lemma r2_puts_as_memory:
  assumes "bucket_law C look" and "\<forall>v t. look b key = Some (v, t) \<longrightarrow> t \<noteq> []"
  shows "(\<exists>b'. r2_put_immutable C key body ctype b = Inr b' \<and> look b' = (look b)(key \<mapsto> (body, ctype)))
     \<longleftrightarrow> (\<exists>s'. put_immutable key body ctype (s\<lparr>objects := look b\<rparr>) = Inr s')"
proof (cases "look b key")
  case None
  then obtain b' where "put_object C key body ctype b = Inr b'" "look b' = (look b)(key \<mapsto> (body, ctype))"
    using assms(1) unfolding bucket_law_def by blast
  then show ?thesis using None by (simp add: r2_put_immutable_def put_immutable_def)
next
  case (Some p)
  obtain v t where p: "p = (v, t)" by (cases p)
  have s3: "put_object C key body ctype b = Inl ''PreconditionFailed''" "get_object C key b = Inr v"
      "head_of C key b = Inr (length v, Some t)"
    using assms(1) Some p unfolding bucket_law_def by blast+
  have "t \<noteq> []" using assms(2) Some p by blast
  then show ?thesis
    using Some p s3
    by (auto simp: r2_put_immutable_def put_immutable_def r2_head_def r2_get_bytes_def Let_def fun_upd_idem_iff)
qed

section \<open>A token library that satisfies the law\<close>

text \<open>A token in the clear: every field with its length in unary before it.\<close>

definition mark_nat :: "nat \<Rightarrow> string" where
  "mark_nat n = replicate n (CHR ''1'') @ ''0''"

definition read_nat :: "string \<Rightarrow> nat \<times> string" where
  "read_nat s = (length (takeWhile (\<lambda>c. c = CHR ''1'') s), drop 1 (dropWhile (\<lambda>c. c = CHR ''1'') s))"

definition mark_str :: "string \<Rightarrow> string" where
  "mark_str s = mark_nat (length s) @ s"

definition read_str :: "string \<Rightarrow> string \<times> string" where
  "read_str s = (let (n, r) = read_nat s in (take n r, drop n r))"

definition mark_int :: "int \<Rightarrow> string" where
  "mark_int i = mark_nat (if 0 \<le> i then 0 else 1) @ mark_nat (nat \<bar>i\<bar>)"

definition read_int :: "string \<Rightarrow> int \<times> string" where
  "read_int s = (let (g, r) = read_nat s; (n, r') = read_nat r in (if g = 0 then int n else - int n, r'))"

lemma read_mark [simp]:
  "read_nat (mark_nat n @ r) = (n, r)" "read_str (mark_str t @ r) = (t, r)" "read_int (mark_int i @ r) = (i, r)"
proof -
  show n: "read_nat (mark_nat n @ r) = (n, r)" for n r
    by (induction n) (simp_all add: read_nat_def mark_nat_def)
  show "read_str (mark_str t @ r) = (t, r)" "read_int (mark_int i @ r) = (i, r)"
    by (simp_all add: read_str_def mark_str_def read_int_def mark_int_def n)
qed

definition plain_encode :: "claims \<Rightarrow> int \<Rightarrow> int \<Rightarrow> string \<Rightarrow> string" where
  "plain_encode c iat expiry sec = mark_str sec @ mark_int iat @ mark_int expiry @ mark_str (claim_key c)
     @ mark_str (claim_method c)
     @ (case claim_content_type c of None \<Rightarrow> mark_nat 0 | Some t \<Rightarrow> mark_nat 1 @ mark_str t)
     @ (case claim_byte_size c of None \<Rightarrow> mark_nat 0 | Some n \<Rightarrow> mark_nat 1 @ mark_int n)"

definition plain_decode :: "string \<Rightarrow> string \<Rightarrow> int \<Rightarrow> string + claims" where
  "plain_decode token sec now =
     (let (s, r1) = read_str token; (iat, r2) = read_int r1; (expiry, r3) = read_int r2;
          (key, r4) = read_str r3; (meth, r5) = read_str r4; (f, r6) = read_nat r5;
          (ctype, r7) = (if f = 0 then (None, r6) else map_prod Some id (read_str r6));
          (g, r8) = read_nat r7; n = (if g = 0 then None else Some (fst (read_int r8)))
      in if s \<noteq> sec then Inl ''Signature verification failed''
         else if now < iat then Inl ''The token is not yet valid (iat)''
         else if expiry div 1000000 * 1000000 \<le> now then Inl ''Signature has expired''
         else Inr \<lparr>claim_key = key, claim_method = meth, claim_content_type = ctype, claim_byte_size = n\<rparr>)"

lemma read_mark_end [simp]: "read_nat (mark_nat n) = (n, [])" "fst (read_int (mark_int i)) = i"
  using read_mark(1) [of n "[]"] read_mark(3) [of i "[]"] by simp_all

definition plain_library :: token_library where
  "plain_library = \<lparr>encode = plain_encode, decode = plain_decode\<rparr>"

lemma plain_library_law: "token_law plain_library"
  unfolding token_law_def plain_library_def
  by (auto simp: plain_encode_def plain_decode_def Let_def split: option.split)

definition demo_store :: MemoryObjectStore where
  "demo_store = \<lparr>secret = ''s'', upload_ttl_seconds = 900, download_ttl_seconds = 300, objects = (\<lambda>k. None)\<rparr>"

theorem signed_upload_round_trip_witness:
  "\<exists>s2. put_immutable ''other'' [9] ''text/csv'' (demo_store\<lparr>objects := (objects demo_store)(''k'' \<mapsto> ([1, 2], ''text/plain''))\<rparr>) = Inr s2
     \<and> get_signed plain_library (token_of download_path (url (sign_get plain_library s2 ''k'' 0 900000000))) 950000000 s2
        = Inr ([1, 2], ''text/plain'')"
proof -
  let ?s1 = "demo_store\<lparr>objects := (objects demo_store)(''k'' \<mapsto> ([1, 2], ''text/plain''))\<rparr>"
  obtain s2 where s2: "put_immutable ''other'' [9] ''text/csv'' ?s1 = Inr s2"
    by (simp add: put_immutable_def demo_store_def)
  then have step: "(elsewhere_step plain_library ''k'')\<^sup>*\<^sup>* ?s1 s2"
    by (intro r_into_rtranclp elsewhere_step.server)
  have "download_ttl_seconds s2 = 300"
    using s2 by (auto simp: put_immutable_def demo_store_def)
  then have "950000000 < (900000000 + download_ttl_seconds s2 * 1000000) div 1000000 * 1000000" by simp
  from signed_upload_round_trip [OF plain_library_law refl _ _ step _ this, where ?t0.0 = 0 and ?t1.0 = 1 and nbytes = None]
  show ?thesis using s2 by (simp add: demo_store_def)
qed

end
