(* ===== verification/WorkStore.thy ===== *)
theory WorkStore
  imports Review Intake Idempotency Validation Diagnostics GatewayChecks
begin

text \<open>
  What the services of \<open>web/workflows.py\<close> and \<open>web/stage2.py\<close> work on: the tables of the repository, the
  worker's memory and the readings of its clock.  An operation is a function of this store that ends
  with a value or an exception; what it wrote before an exception stays, as in the code every call of the
  repository is a transaction of its own.
\<close>

section \<open>Exceptions\<close>

datatype failure = Repo repo_error | WorkflowError string int | MissingKey string | RuntimeFailure string
  | ContextViolation context_error | ParseRejected string | GatewayFailure gateway_failure
  | ConnectionLost | Cancelled

section \<open>The store\<close>

record BlueprintRow =
  row_id :: string
  tenant_id :: string
  activity_id :: string
  blueprint_id :: string
  version :: int
  status :: string
  etag :: string
  data :: AssessmentBlueprint
  review :: "BlueprintReview option"

record EvidenceRow =
  ident :: string
  tenant_id :: string
  submission_id :: string
  artifact_id :: string
  data :: EvidenceUnit

record EvidenceMapRow =
  submission_id :: string
  tenant_id :: string
  data :: EvidenceMapPatch

record AssessmentPlanRow =
  submission_id :: string
  tenant_id :: string
  data :: AssessmentPlan

record GeneratedQuestionRow =
  ident :: string
  tenant_id :: string
  submission_id :: string
  data :: QuestionGenerationResult

record QuestionReviewRow =
  question_id :: string
  tenant_id :: string
  submission_id :: string
  data :: QuestionReviewResult

record ModelCallRow =
  ident :: string
  tenant_id :: string
  job_id :: string
  stage :: string
  data :: ModelCallLedger

record WorkStore =
  base :: JobStore
  blueprints :: "BlueprintRow list"
  evidence_rows :: "EvidenceRow list"
  evidence_maps :: "EvidenceMapRow list"
  assessment_plans :: "AssessmentPlanRow list"
  generated_questions :: "GeneratedQuestionRow list"
  question_reviews :: "QuestionReviewRow list"
  model_call_rows :: "ModelCallRow list"
  resume_floor_reached :: "string list"
  readings :: "nat \<Rightarrow> datetime"
  ticks :: nat

text \<open>The authenticated user of a request (\<open>web/auth.py\<close>).\<close>

record Actor =
  user_id :: string
  email :: string
  workspace_id :: string
  role :: string
  can_approve_assessments :: bool
  csrf_token :: string

section \<open>Operations\<close>

type_synonym 'a act = "WorkStore \<Rightarrow> (failure + 'a) \<times> WorkStore"

definition give :: "'a \<Rightarrow> 'a act" where
  "give x w = (Inr x, w)"

definition fail_with :: "failure \<Rightarrow> 'a act" where
  "fail_with e w = (Inl e, w)"

definition pass :: "failure + 'a \<Rightarrow> 'a act" where
  "pass r w = (r, w)"

definition seq :: "'a act \<Rightarrow> ('a \<Rightarrow> 'b act) \<Rightarrow> 'b act" where
  "seq m f w = (case m w of (Inl e, w') \<Rightarrow> (Inl e, w') | (Inr x, w') \<Rightarrow> f x w')"

definition look :: "(WorkStore \<Rightarrow> 'a) \<Rightarrow> 'a act" where
  "look f w = (Inr (f w), w)"

definition adjust :: "(WorkStore \<Rightarrow> WorkStore) \<Rightarrow> unit act" where
  "adjust f w = (Inr (), f w)"

definition stop_if :: "bool \<Rightarrow> failure \<Rightarrow> unit act" where
  "stop_if b e = (if b then fail_with e else give ())"

definition refuse_if :: "bool \<Rightarrow> string \<Rightarrow> int \<Rightarrow> unit act" where
  "refuse_if b cd st = stop_if b (WorkflowError cd st)"

fun lift_repo :: "repo_error + 'a \<Rightarrow> failure + 'a" where
  "lift_repo (Inl e) = Inl (Repo e)"
| "lift_repo (Inr x) = Inr x"

definition reading :: "(JobStore \<Rightarrow> repo_error + 'a) \<Rightarrow> 'a act" where
  "reading f w = (lift_repo (f (base w)), w)"

definition transact :: "(JobStore \<Rightarrow> repo_error + 'a \<times> JobStore) \<Rightarrow> 'a act" where
  "transact f w = (case f (base w) of Inl e \<Rightarrow> (Inl (Repo e), w) | Inr (x, s) \<Rightarrow> (Inr x, w\<lparr>base := s\<rparr>))"

definition utc_now :: "datetime act" where
  "utc_now w = (Inr (readings w (ticks w)), w\<lparr>ticks := Suc (ticks w)\<rparr>)"

definition model_of :: "('a \<Rightarrow> contract_error option) \<Rightarrow> 'a \<Rightarrow> 'a act" where
  "model_of v x = pass (lift_repo (checked v x))"

definition make_id :: "string \<Rightarrow> json list \<Rightarrow> string act" where
  "make_id p parts = pass (case stable_id p parts of Inl msg \<Rightarrow> Inl (Repo (ValueError msg)) | Inr i \<Rightarrow> Inr i)"

definition error_diagnostic :: "string \<Rightarrow> string \<Rightarrow> bool \<Rightarrow> Diagnostic act" where
  "error_diagnostic cd msg retry = pass (case diagnostic cd msg Severity.ERROR [] [] retry [] of
     Inl e \<Rightarrow> Inl (Repo (ContractError e)) | Inr d \<Rightarrow> Inr d)"

text \<open>\<open>try: ... except NotFound: ... = None\<close>.\<close>

definition or_absent :: "'a act \<Rightarrow> 'a option act" where
  "or_absent m w = (case m w of (Inr x, w') \<Rightarrow> (Inr (Some x), w')
     | (Inl (Repo (NotFound _)), w') \<Rightarrow> (Inr None, w') | (Inl e, w') \<Rightarrow> (Inl e, w'))"

fun each_act :: "('a \<Rightarrow> 'b act) \<Rightarrow> 'a list \<Rightarrow> 'b list act" where
  "each_act f [] = give []"
| "each_act f (x # xs) = seq (f x) (\<lambda>y. seq (each_act f xs) (\<lambda>ys. give (y # ys)))"

section \<open>What they do\<close>

named_theorems acts "what it means that an operation ends with a value"

lemma seq_Inr [acts]: "seq m f w = (Inr y, w') \<longleftrightarrow> (\<exists>x v. m w = (Inr x, v) \<and> f x v = (Inr y, w'))"
  by (auto simp: seq_def split: prod.splits sum.splits)

lemma give_Inr [acts]: "give x w = (Inr y, w') \<longleftrightarrow> y = x \<and> w' = w"
  by (auto simp: give_def)

lemma fail_with_Inr [acts]: "fail_with e w = (Inr y, w') \<longleftrightarrow> False"
  by (simp add: fail_with_def)

lemma pass_Inr [acts]: "pass r w = (Inr y, w') \<longleftrightarrow> r = Inr y \<and> w' = w"
  by (auto simp: pass_def)

lemma look_Inr [acts]: "look f w = (Inr y, w') \<longleftrightarrow> y = f w \<and> w' = w"
  by (auto simp: look_def)

lemma adjust_Inr [acts]: "adjust f w = (Inr y, w') \<longleftrightarrow> w' = f w"
  by (auto simp: adjust_def)

lemma stop_if_Inr [acts]: "stop_if b e w = (Inr y, w') \<longleftrightarrow> \<not> b \<and> w' = w"
  by (auto simp: stop_if_def fail_with_def give_def)

lemma refuse_if_Inr [acts]: "refuse_if b cd st w = (Inr y, w') \<longleftrightarrow> \<not> b \<and> w' = w"
  by (simp add: refuse_if_def stop_if_Inr)

lemma lift_repo_Inr [acts, simp]: "lift_repo r = Inr x \<longleftrightarrow> r = Inr x"
  by (cases r) simp_all

lemma reading_Inr [acts]: "reading f w = (Inr y, w') \<longleftrightarrow> f (base w) = Inr y \<and> w' = w"
  by (auto simp: reading_def)

lemma transact_Inr [acts]:
  "transact f w = (Inr y, w') \<longleftrightarrow> (\<exists>s. f (base w) = Inr (y, s) \<and> w' = w\<lparr>base := s\<rparr>)"
  by (auto simp: transact_def split: sum.splits)

lemma utc_now_Inr [acts]:
  "utc_now w = (Inr t, w') \<longleftrightarrow> t = readings w (ticks w) \<and> w' = w\<lparr>ticks := Suc (ticks w)\<rparr>"
  by (auto simp: utc_now_def)

lemma model_of_Inr [acts]: "model_of v x w = (Inr y, w') \<longleftrightarrow> v x = None \<and> y = x \<and> w' = w"
  by (auto simp: model_of_def pass_def)

lemma make_id_Inr [acts]: "make_id p parts w = (Inr i, w') \<longleftrightarrow> stable_id p parts = Inr i \<and> w' = w"
  by (auto simp: make_id_def pass_def split: sum.splits)

lemma error_diagnostic_Inr [acts]:
  "error_diagnostic cd msg retry w = (Inr d, w') \<longleftrightarrow> diagnostic cd msg Severity.ERROR [] [] retry [] = Inr d \<and> w' = w"
  by (auto simp: error_diagnostic_def pass_def split: sum.splits)

lemma or_absent_Inr [acts]:
  "or_absent m w = (Inr y, w') \<longleftrightarrow> (\<exists>x. y = Some x \<and> m w = (Inr x, w')) \<or> (y = None \<and> (\<exists>k. m w = (Inl (Repo (NotFound k)), w')))"
  by (auto simp: or_absent_def split: prod.splits sum.splits failure.splits repo_error.splits)

text \<open>Operations that only read.\<close>

definition reads :: "'a act \<Rightarrow> bool" where
  "reads m \<longleftrightarrow> (\<forall>w. snd (m w) = w)"

lemma readsD: "reads m \<Longrightarrow> m w = (r, w') \<Longrightarrow> w' = w"
  by (metis reads_def snd_conv)

lemma reads_basic [simp]: "reads (give x)" "reads (fail_with e)" "reads (pass r)" "reads (look f)" "reads (reading g)"
  "reads (stop_if b e)" "reads (refuse_if b cd st)" "reads (model_of v x)" "reads (make_id p parts)"
  "reads (error_diagnostic cd msg retry)"
  by (simp_all add: reads_def give_def fail_with_def pass_def look_def reading_def stop_if_def refuse_if_def
      model_of_def make_id_def error_diagnostic_def)

lemma reads_seq [simp]: "reads m \<Longrightarrow> (\<And>x. reads (f x)) \<Longrightarrow> reads (seq m f)"
  unfolding reads_def seq_def by (auto split: prod.splits sum.splits) (metis snd_conv)+

lemma reads_or_absent [simp]: "reads m \<Longrightarrow> reads (or_absent m)"
  unfolding reads_def or_absent_def
  by (auto split: prod.splits sum.splits failure.splits repo_error.splits) (metis snd_conv)+

lemma reads_case_prod: "(\<And>a b. reads (f a b)) \<Longrightarrow> reads (case p of (a, b) \<Rightarrow> f a b)"
  by (cases p) simp

lemma reads_if [simp]: "reads m \<Longrightarrow> reads m' \<Longrightarrow> reads (if b then m else m')"
  by simp

section \<open>Tables with merge\<close>

text \<open>\<open>session.merge(row)\<close>: the row replaces the one with its key, or is inserted.\<close>

definition merge_row :: "('r \<Rightarrow> 'k) \<Rightarrow> 'r \<Rightarrow> 'r list \<Rightarrow> 'r list" where
  "merge_row key r rows = (if get_row key rows (key r) = None then rows @ [r] else set_row key r rows)"

lemma get_row_concat: "get_row key (xs @ ys) k = (case get_row key xs k of None \<Rightarrow> get_row key ys k | Some r \<Rightarrow> Some r)"
  by (induction xs) (auto simp: get_row_def)

lemma get_set_row:
  "get_row key (set_row key r rows) k = (if k = key r \<and> get_row key rows k \<noteq> None then Some r else get_row key rows k)"
  by (induction rows) (auto simp: get_row_def set_row_def)

lemma get_merge_row: "get_row key (merge_row key r rows) k = (if k = key r then Some r else get_row key rows k)"
  by (simp add: merge_row_def get_set_row get_row_concat) (auto simp: get_row_def split: option.splits)

section \<open>Rows of a tenant\<close>

text \<open>\<open>repository.scoped\<close>: a row of another tenant is as absent as a missing one.\<close>

definition scoped :: "('r \<Rightarrow> string) \<Rightarrow> string \<Rightarrow> 'r option \<Rightarrow> string \<Rightarrow> repo_error + 'r" where
  "scoped tenant tid r nm = found (of_tenant tenant tid r) (nm @ '' not found'')"

lemma scoped_Inr [simp]: "scoped tenant tid r nm = Inr x \<longleftrightarrow> r = Some x \<and> tenant x = tid"
  by (simp add: scoped_def)

definition scoped_submission :: "string \<Rightarrow> string \<Rightarrow> SubmissionRow act" where
  "scoped_submission sid tid = reading (\<lambda>s. scoped SubmissionRow.tenant_id tid (get_submission s sid) ''SubmissionRow'')"

definition scoped_activity :: "string \<Rightarrow> string \<Rightarrow> ActivityRow act" where
  "scoped_activity aid tid = reading (\<lambda>s. scoped ActivityRow.tenant_id tid (get_activity s aid) ''ActivityRow'')"

definition job_control :: "string \<Rightarrow> string \<Rightarrow> JobRow act" where
  "job_control jid tid = reading (\<lambda>s. scoped JobRow.tenant_id tid (get_job s jid) ''JobRow'')"

definition status_of_row :: "JobRow \<Rightarrow> JobStatus" where
  "status_of_row r = \<lparr>JobStatus.schema_version = LEGACY_SCHEMA_VERSION, job_id = JobRow.ident r,
     tenant_id = JobRow.tenant_id r, aggregate_id = JobRow.aggregate_id r, stage = JobRow.stage r,
     status = JobRow.status r, progress = JobRow.progress r, attempt = JobRow.attempt r,
     diagnostics = JobRow.diagnostics r, started_at = JobRow.started_at r, finished_at = JobRow.finished_at r\<rparr>"

definition job_status :: "string \<Rightarrow> string \<Rightarrow> JobStatus act" where
  "job_status jid tid = seq (job_control jid tid) (\<lambda>r. model_of JobStatus_validate (status_of_row r))"

definition evidence_map_of :: "string \<Rightarrow> string \<Rightarrow> EvidenceMapRow act" where
  "evidence_map_of sid tid w = pass (lift_repo (scoped EvidenceMapRow.tenant_id tid
     (get_row EvidenceMapRow.submission_id (evidence_maps w) sid) ''EvidenceMapRow'')) w"

definition assessment_plan_of :: "string \<Rightarrow> string \<Rightarrow> AssessmentPlanRow act" where
  "assessment_plan_of sid tid w = pass (lift_repo (scoped AssessmentPlanRow.tenant_id tid
     (get_row AssessmentPlanRow.submission_id (assessment_plans w) sid) ''AssessmentPlanRow'')) w"

definition has_audit_event :: "string \<Rightarrow> string \<Rightarrow> string \<Rightarrow> string option \<Rightarrow> (string \<times> json) list \<Rightarrow> JobStore \<Rightarrow> bool" where
  "has_audit_event tid ev agg who wanted s =
     list_ex (\<lambda>e. list_all (\<lambda>(k, v). case AuditEventRow.payload e of
           JObj kvs \<Rightarrow> (case map_of kvs k of None \<Rightarrow> py_eq JNull v | Some x \<Rightarrow> py_eq x v) | _ \<Rightarrow> False) wanted)
       (audit_events tid ev (Some agg) who s)"

section \<open>The approved blueprint\<close>

definition latest_blueprint :: "string \<Rightarrow> string \<Rightarrow> WorkStore \<Rightarrow> repo_error + BlueprintRow" where
  "latest_blueprint aid tid w = found
     (case sort_key (\<lambda>r. - BlueprintRow.version r) (filter (\<lambda>r. BlueprintRow.activity_id r = aid
        \<and> BlueprintRow.tenant_id r = tid) (blueprints w)) of [] \<Rightarrow> None | r # _ \<Rightarrow> Some r) ''blueprint not found''"

definition blueprint_version_row :: "string \<Rightarrow> int \<Rightarrow> string \<Rightarrow> WorkStore \<Rightarrow> repo_error + BlueprintRow" where
  "blueprint_version_row aid v tid w = found (find (\<lambda>r. BlueprintRow.activity_id r = aid \<and> BlueprintRow.version r = v
     \<and> BlueprintRow.tenant_id r = tid) (blueprints w)) ''blueprint not found''"

definition not_approved :: failure where
  "not_approved = WorkflowError ''BLUEPRINT_NOT_APPROVED'' 409"

definition approved_blueprint :: "string \<Rightarrow> string \<Rightarrow> int option \<Rightarrow> (BlueprintRow \<times> AssessmentBlueprint) act" where
  "approved_blueprint aid tid v =
     seq (look (\<lambda>w. case v of None \<Rightarrow> latest_blueprint aid tid w | Some n \<Rightarrow> blueprint_version_row aid n tid w)) (\<lambda>r.
     seq (pass (case r of Inl e \<Rightarrow> Inl (case e of NotFound _ \<Rightarrow> not_approved | _ \<Rightarrow> Repo e) | Inr x \<Rightarrow> Inr x)) (\<lambda>brow.
     seq (model_of AssessmentBlueprint_validate (BlueprintRow.data brow)) (\<lambda>b.
     seq (look (\<lambda>w. has_audit_event tid ''blueprint.approved'' (AssessmentBlueprint.blueprint_id b) None
        [(''blueprint_version'', JInt (BlueprintRow.version brow))] (base w))) (\<lambda>recorded_approval.
     seq (stop_if (BlueprintRow.status brow \<noteq> ''APPROVED'' \<or> AssessmentBlueprint.status b \<noteq> WorkflowStatus.APPROVED
         \<or> falsy (AssessmentBlueprint.approved_by b) \<or> AssessmentBlueprint.approved_at b = None
         \<or> \<not> recorded_approval) not_approved) (\<lambda>_.
     give (brow, b))))))"

lemma head_sorted: "(case sort_key f rows of [] \<Rightarrow> None | r # _ \<Rightarrow> Some r) = Some x \<Longrightarrow> x \<in> set rows"
  by (cases "sort_key f rows") (simp_all, metis list.set_intros(1) set_sort)

lemma approved_blueprintD:
  assumes "approved_blueprint aid tid v w = (Inr (brow, b), w')"
  shows "w' = w" and "AssessmentBlueprint_validate b = None" and "b = BlueprintRow.data brow"
    and "brow \<in> set (blueprints w)" and "BlueprintRow.activity_id brow = aid" and "BlueprintRow.tenant_id brow = tid"
    and "AssessmentBlueprint.status b = WorkflowStatus.APPROVED" and "AssessmentBlueprint.approved_at b \<noteq> None"
    and "v = Some n \<Longrightarrow> BlueprintRow.version brow = n"
proof -
  have r: "(case v of None \<Rightarrow> latest_blueprint aid tid w | Some n \<Rightarrow> blueprint_version_row aid n tid w) = Inr brow"
    and rest: "w' = w" "AssessmentBlueprint_validate b = None" "b = BlueprintRow.data brow"
      "AssessmentBlueprint.status b = WorkflowStatus.APPROVED" "AssessmentBlueprint.approved_at b \<noteq> None"
    using assms by (auto simp: approved_blueprint_def acts split: sum.splits)
  show "w' = w" "AssessmentBlueprint_validate b = None" "b = BlueprintRow.data brow"
      "AssessmentBlueprint.status b = WorkflowStatus.APPROVED" "AssessmentBlueprint.approved_at b \<noteq> None"
    by (fact rest)+
  have "brow \<in> set (filter (\<lambda>r. BlueprintRow.activity_id r = aid \<and> BlueprintRow.tenant_id r = tid) (blueprints w))"
    using r by (auto simp: latest_blueprint_def blueprint_version_row_def find_Some_iff dest: head_sorted split: option.splits)
  then show "brow \<in> set (blueprints w)" "BlueprintRow.activity_id brow = aid" "BlueprintRow.tenant_id brow = tid" by auto
  show "v = Some n \<Longrightarrow> BlueprintRow.version brow = n"
    using r by (auto simp: blueprint_version_row_def find_Some_iff)
qed

end
