(* ===== verification/Coverage.thy ===== *)
theory Coverage
  imports WorkStore ValidationClaims
begin

text \<open>
  The coverage views of \<open>web/stage2.py\<close>: what became of every opportunity of a submission's mapping, and
  the counts per dimension.  The JSON dumps of the models, which only feed the snapshot hash, are
  pydantic's and a parameter.
\<close>

section \<open>Inputs\<close>

record Dumps =
  blueprint_json :: "AssessmentBlueprint \<Rightarrow> json"
  mapping_json :: "EvidenceMapPatch \<Rightarrow> json"
  plan_json :: "AssessmentPlan \<Rightarrow> json"
  assessment_json :: "Assessment \<Rightarrow> json"

record CoverageInputs =
  cov_blueprint :: AssessmentBlueprint
  cov_mapping :: "EvidenceMapPatch option"
  cov_plan :: "AssessmentPlan option"
  cov_row :: "AssessmentRow option"
  cov_assessment :: "Assessment option"

definition submission_inputs :: "SubmissionRow \<Rightarrow> CoverageInputs act" where
  "submission_inputs sub =
     (let sid = SubmissionRow.ident sub; tid = SubmissionRow.tenant_id sub in
      seq (approved_blueprint (SubmissionRow.activity_id sub) tid (SubmissionRow.blueprint_version sub)) (\<lambda>(_, bp).
      seq (or_absent (seq (evidence_map_of sid tid) (\<lambda>r. model_of EvidenceMapPatch_validate (EvidenceMapRow.data r)))) (\<lambda>mp.
      seq (or_absent (seq (assessment_plan_of sid tid) (\<lambda>r. model_of AssessmentPlan_validate (AssessmentPlanRow.data r)))) (\<lambda>pl.
      seq (or_absent (seq (reading (latest_assessment sid tid)) (\<lambda>r.
             seq (model_of Assessment_validate (AssessmentRow.data r)) (\<lambda>a. give (r, a))))) (\<lambda>ra.
      give \<lparr>cov_blueprint = bp, cov_mapping = mp, cov_plan = pl, cov_row = map_option fst ra,
            cov_assessment = map_option snd ra\<rparr>)))))"

section \<open>Traces\<close>

text \<open>\<open>latest_actions\<close>; a record whose action does not validate is skipped.\<close>

definition latest_actions :: "QuestionReviewActionRecord list \<Rightarrow> string \<Rightarrow> QuestionReviewActionType option" where
  "latest_actions rs qid = map_option QuestionReviewAction.action (dict_by QuestionReviewAction.question_id
     (filter (\<lambda>a. QuestionReviewAction_validate a = None) (map QuestionReviewActionRecord.action rs)) qid)"

definition selected_by_opportunity :: "Assessment option \<Rightarrow> string \<Rightarrow> SelectedQuestion option" where
  "selected_by_opportunity a = (case a of None \<Rightarrow> \<lambda>_. None
     | Some x \<Rightarrow> dict_by SelectedQuestion.opportunity_id (Assessment.questions x))"

definition variant_use :: "Assessment option \<Rightarrow> string \<Rightarrow> nat" where
  "variant_use a v = length (filter (\<lambda>oid. map_option SelectedQuestion.variant_id (selected_by_opportunity a oid) = Some v)
     (case a of None \<Rightarrow> [] | Some x \<Rightarrow> remdups (map SelectedQuestion.opportunity_id (Assessment.questions x))))"

definition planning_role_of :: "AssessmentPlan option \<Rightarrow> string \<Rightarrow> CoveragePlanningRole" where
  "planning_role_of pl oid =
     (if oid \<in> set (case pl of None \<Rightarrow> [] | Some p \<Rightarrow> AssessmentPlan.selected_opportunity_ids p) then CoveragePlanningRole.PRIMARY
      else if oid \<in> set (case pl of None \<Rightarrow> [] | Some p \<Rightarrow> AssessmentPlan.reserve_opportunity_ids p) then CoveragePlanningRole.RESERVE
      else CoveragePlanningRole.EXCLUDED)"

definition reviewing :: "QuestionReviewActionType option \<Rightarrow> bool" where
  "reviewing act \<longleftrightarrow> act \<in> {Some QuestionReviewActionType.ACCEPT, Some QuestionReviewActionType.EDIT,
     Some QuestionReviewActionType.REGENERATE}"

text \<open>The outcome, the failure code and the exclusion code.\<close>

definition outcome_of :: "CoveragePlanningRole \<Rightarrow> SelectedQuestion option \<Rightarrow> Assessment option
    \<Rightarrow> (string \<Rightarrow> QuestionReviewActionType option) \<Rightarrow> CoverageOutcome \<times> string option \<times> string option" where
  "outcome_of pr chosen a latest =
     (if pr = CoveragePlanningRole.EXCLUDED then (CoverageOutcome.EXCLUDED, None, Some ''NOT_SELECTED_BY_PLAN'')
      else case chosen of
        Some q \<Rightarrow>
          (if (case a of None \<Rightarrow> False | Some x \<Rightarrow> Assessment.status x = WorkflowStatus.APPROVED)
             then (CoverageOutcome.APPROVED, None, None)
           else if reviewing (latest (SelectedQuestion.question_id q)) then (CoverageOutcome.REVIEWED, None, None)
           else (CoverageOutcome.GENERATED, None, None))
      | None \<Rightarrow>
          if a \<noteq> None \<and> pr = CoveragePlanningRole.PRIMARY
          then (CoverageOutcome.FAILED, Some ''QUESTION_REPLACED_OR_REJECTED'', None)
          else (CoverageOutcome.PLANNED, None, None))"

definition coverage_trace :: "SubmissionRow \<Rightarrow> CoverageInputs \<Rightarrow> (string \<Rightarrow> QuestionReviewActionType option)
    \<Rightarrow> BlueprintDimension \<Rightarrow> QuestionOpportunity \<Rightarrow> CoverageTraceItem" where
  "coverage_trace sub i latest d q =
     (let chosen = selected_by_opportunity (cov_assessment i) (QuestionOpportunity.opportunity_id q);
          pr = planning_role_of (cov_plan i) (QuestionOpportunity.opportunity_id q);
          res = outcome_of pr chosen (cov_assessment i) latest
      in \<lparr>CoverageTraceItem.submission_id = SubmissionRow.ident sub,
          assessment_id = map_option Assessment.assessment_id (cov_assessment i),
          assessment_version = map_option AssessmentRow.version (cov_row i),
          dimension_id = QuestionOpportunity.dimension_id q, criterion_ids = BlueprintDimension.criterion_ids d,
          variant_id = QuestionOpportunity.variant_id q, opportunity_id = QuestionOpportunity.opportunity_id q,
          evidence_ids = QuestionOpportunity.evidence_ids q,
          cognitive_operation = QuestionOpportunity.cognitive_operation q, planning_role = pr, outcome = fst res,
          reused_variant = (chosen \<noteq> None \<and> 1 < variant_use (cov_assessment i) (QuestionOpportunity.variant_id q)),
          failure_code = fst (snd res), exclusion_reason_code = snd (snd res), diagnostics = []\<rparr>)"

definition trace_item :: "SubmissionRow \<Rightarrow> CoverageInputs \<Rightarrow> (string \<Rightarrow> QuestionReviewActionType option)
    \<Rightarrow> QuestionOpportunity \<Rightarrow> failure + CoverageTraceItem" where
  "trace_item sub i latest q =
     (case dict_by BlueprintDimension.dimension_id (AssessmentBlueprint.dimensions (cov_blueprint i))
        (QuestionOpportunity.dimension_id q) of
        None \<Rightarrow> Inl (MissingKey (QuestionOpportunity.dimension_id q))
      | Some d \<Rightarrow> lift_repo (checked CoverageTraceItem_validate (coverage_trace sub i latest d q)))"

definition coverage_traces :: "SubmissionRow \<Rightarrow> CoverageInputs \<Rightarrow> JobStore \<Rightarrow> failure + CoverageTraceItem list" where
  "coverage_traces sub i s = (case cov_mapping i of None \<Rightarrow> Inr []
     | Some mp \<Rightarrow>
         let latest = (case cov_assessment i of None \<Rightarrow> (\<lambda>_. None)
           | Some a \<Rightarrow> latest_actions (question_review_actions (SubmissionRow.tenant_id sub) (Assessment.assessment_id a) None None s))
         in collect (trace_item sub i latest) (EvidenceMapPatch.opportunities mp))"

section \<open>Summary\<close>

definition summary_item :: "CoverageTraceItem list \<Rightarrow> BlueprintDimension \<Rightarrow> CoverageItem" where
  "summary_item ts d =
     (let own = filter (\<lambda>t. CoverageTraceItem.dimension_id t = BlueprintDimension.dimension_id d) ts
      in \<lparr>CoverageItem.dimension_id = BlueprintDimension.dimension_id d,
          available_variant_count = int (card (set (map CoverageTraceItem.variant_id own))),
          available_opportunity_count = int (length own),
          selected_opportunity_count = int (length (filter (\<lambda>t. CoverageTraceItem.planning_role t = CoveragePlanningRole.PRIMARY) own)),
          reused_variant_count = int (length (filter CoverageTraceItem.reused_variant own)),
          evidence_unit_count = int (card (set (concat (map CoverageTraceItem.evidence_ids own)))), diagnostics = []\<rparr>)"

definition coverage_summary :: "AssessmentBlueprint \<Rightarrow> CoverageTraceItem list \<Rightarrow> failure + CoverageItem list" where
  "coverage_summary bp ts = collect (\<lambda>d. lift_repo (checked CoverageItem_validate (summary_item ts d))) (AssessmentBlueprint.dimensions bp)"

section \<open>The report of a submission\<close>

definition opt_dump :: "('a \<Rightarrow> json) \<Rightarrow> 'a option \<Rightarrow> json" where
  "opt_dump f v = (case v of None \<Rightarrow> JNull | Some x \<Rightarrow> f x)"

definition snapshot_fields :: "Dumps \<Rightarrow> CoverageInputs \<Rightarrow> (string \<times> json) list" where
  "snapshot_fields D i = [(''mapping'', opt_dump (mapping_json D) (cov_mapping i)), (''plan'', opt_dump (plan_json D) (cov_plan i)),
     (''assessment'', opt_dump (assessment_json D) (cov_assessment i)),
     (''assessment_version'', opt_dump (\<lambda>r. JInt (AssessmentRow.version r)) (cov_row i))]"

definition submission_snapshot :: "Dumps \<Rightarrow> CoverageInputs \<Rightarrow> string" where
  "submission_snapshot D i = canonical_hash (JObj ((''blueprint'', blueprint_json D (cov_blueprint i)) # snapshot_fields D i))"

definition coverage_for_submission :: "Dumps \<Rightarrow> string \<Rightarrow> Actor \<Rightarrow> CoverageReport act" where
  "coverage_for_submission D sid who =
     seq (scoped_submission sid (workspace_id who)) (\<lambda>sub.
     seq (submission_inputs sub) (\<lambda>i.
     seq (look (\<lambda>w. coverage_traces sub i (base w))) (\<lambda>r.
     seq (pass r) (\<lambda>ts.
     seq (make_id ''coverage'' [JStr (workspace_id who), JStr (SubmissionRow.ident sub), JStr (submission_snapshot D i)]) (\<lambda>rid.
     seq (pass (coverage_summary (cov_blueprint i) ts)) (\<lambda>sm.
     seq utc_now (\<lambda>now.
     model_of CoverageReport_validate \<lparr>CoverageReport.schema_version = CONTRACT_VERSION, report_id = rid,
       tenant_id = workspace_id who, activity_id = SubmissionRow.activity_id sub, scope = CoverageScope.SUBMISSION,
       submission_id = Some (SubmissionRow.ident sub), assessment_id = map_option Assessment.assessment_id (cov_assessment i),
       assessment_version = map_option AssessmentRow.version (cov_row i),
       blueprint_id = AssessmentBlueprint.blueprint_id (cov_blueprint i),
       blueprint_version = AssessmentBlueprint.blueprint_version (cov_blueprint i),
       source_snapshot_hash = submission_snapshot D i, summary = sm, traces = ts, diagnostics = [],
       generated_at = now\<rparr>)))))))"

section \<open>The report of an activity\<close>

text \<open>One submission: its traces and its part of the snapshot, or the diagnostic of its exclusion.\<close>

definition activity_part :: "Dumps \<Rightarrow> BlueprintRow \<Rightarrow> AssessmentBlueprint \<Rightarrow> SubmissionRow
    \<Rightarrow> (CoverageTraceItem list \<times> json list \<times> Diagnostic list) act" where
  "activity_part D brow bp sub =
     (if SubmissionRow.blueprint_version sub \<notin> {None, Some (BlueprintRow.version brow)}
      then seq (error_diagnostic ''COVERAGE_BLUEPRINT_VERSION_EXCLUDED''
             ''A submission bound to another blueprint version is excluded from this activity snapshot.'' False)
           (\<lambda>d. give ([], [], [d]))
      else seq (submission_inputs sub) (\<lambda>i.
           seq (look (\<lambda>w. coverage_traces sub (i\<lparr>cov_blueprint := bp\<rparr>) (base w))) (\<lambda>r.
           seq (pass r) (\<lambda>ts.
           give (ts, [JObj ((''submission_id'', JStr (SubmissionRow.ident sub)) # snapshot_fields D i)], [])))))"

definition coverage_for_activity :: "Dumps \<Rightarrow> string \<Rightarrow> Actor \<Rightarrow> CoverageReport act" where
  "coverage_for_activity D aid who =
     (let tid = workspace_id who in
      seq (scoped_activity aid tid) (\<lambda>_.
      seq (approved_blueprint aid tid None) (\<lambda>(brow, bp).
      seq (look (\<lambda>w. submissions_for_activity aid tid (base w))) (\<lambda>subs.
      seq (each_act (activity_part D brow bp) subs) (\<lambda>parts.
      let ts = concat (map fst parts);
          h = canonical_hash (JObj [(''blueprint'', blueprint_json D bp), (''submissions'', JList (concat (map (fst \<circ> snd) parts)))])
      in seq (make_id ''coverage'' [JStr tid, JStr aid, JStr h]) (\<lambda>rid.
      seq (pass (coverage_summary bp ts)) (\<lambda>sm.
      seq utc_now (\<lambda>now.
      model_of CoverageReport_validate \<lparr>CoverageReport.schema_version = CONTRACT_VERSION, report_id = rid,
        tenant_id = tid, activity_id = aid, scope = CoverageScope.ACTIVITY,
        submission_id = None, assessment_id = None, assessment_version = None,
        blueprint_id = AssessmentBlueprint.blueprint_id bp, blueprint_version = AssessmentBlueprint.blueprint_version bp,
        source_snapshot_hash = h, summary = sm, traces = ts,
        diagnostics = concat (map (snd \<circ> snd) parts), generated_at = now\<rparr>))))))))"

end
