(* ===== verification/WorkExample.thy ===== *)
theory WorkExample
  imports WorkStore ValidationClaims
begin

text \<open>
  A store on which the services can run: the submission of the planning example, its approved blueprint,
  its mapping and its plan.
\<close>

definition ex_approved_bp :: AssessmentBlueprint where
  "ex_approved_bp = (ex_blueprint StructuredJustificationMode.ALL)\<lparr>AssessmentBlueprint.approved_by := Some ''usr_teacher'',
     AssessmentBlueprint.approved_at := Some (utc_time 0)\<rparr>"

definition ex_blueprint_row :: BlueprintRow where
  "ex_blueprint_row = \<lparr>BlueprintRow.row_id = ''bprow_a'', tenant_id = ''tenant_a'', activity_id = ''act_a'',
     blueprint_id = ''bp_a'', version = 1, status = ''APPROVED'', etag = ''etag_b'', data = ex_approved_bp, review = None\<rparr>"

definition ex_approval_audit :: AuditEventRow where
  "ex_approval_audit = \<lparr>AuditEventRow.ident = ''evt_a'', tenant_id = ''tenant_a'', event_type = ''blueprint.approved'',
     aggregate_id = ''bp_a'', actor_id = ''usr_teacher'', payload = JObj [(''blueprint_version'', JInt 1)],
     occurred_at = utc_time 0\<rparr>"

definition ex_plan :: AssessmentPlan where
  "ex_plan = \<lparr>AssessmentPlan.schema_version = LEGACY_SCHEMA_VERSION, plan_id = ''plan_a'', submission_id = ''sub_a'',
     blueprint_id = ''bp_a'', blueprint_version = 1, status = ''READY'', question_count = 2,
     selected_opportunity_ids = [''opp_a'', ''opp_b''], reserve_opportunity_ids = [''opp_c'', ''opp_d''],
     estimated_total_minutes = 10, diagnostics = []\<rparr>"

definition ex_work :: WorkStore where
  "ex_work = \<lparr>base = ex_empty\<lparr>audits := [ex_approval_audit]\<rparr>, blueprints = [ex_blueprint_row], evidence_rows = [],
     evidence_maps = [\<lparr>EvidenceMapRow.submission_id = ''sub_a'', tenant_id = ''tenant_a'', data = ex_mapping ex_opportunities\<rparr>],
     assessment_plans = [\<lparr>AssessmentPlanRow.submission_id = ''sub_a'', tenant_id = ''tenant_a'', data = ex_plan\<rparr>],
     generated_questions = [], question_reviews = [], model_call_rows = [], resume_floor_reached = [],
     readings = (\<lambda>n. utc_time (int n)), ticks = 0\<rparr>"

definition ex_teacher :: Actor where
  "ex_teacher = \<lparr>user_id = ''usr_teacher'', email = ''t@example.org'', workspace_id = ''tenant_a'', role = ''TEACHER'',
     can_approve_assessments = True, csrf_token = ''token''\<rparr>"

lemma ex_approved_bp_valid: "AssessmentBlueprint_validate ex_approved_bp = None"
  by code_simp

lemma ex_plan_valid: "AssessmentPlan_validate ex_plan = None"
  by code_simp

lemma ex_plan_accepted: "validate_assessment_plan ex_plan (ex_mapping ex_opportunities) = None"
  by code_simp

lemma ex_mapping_valid: "EvidenceMapPatch_validate (ex_mapping ex_opportunities) = None"
  by code_simp

lemma ex_approved_bp_mapping: "validate_evidence_map (ex_mapping ex_opportunities) ex_approved_bp ex_bundle = None"
  by code_simp

lemma ex_approval_recorded:
  "has_audit_event ''tenant_a'' ''blueprint.approved'' ''bp_a'' None [(''blueprint_version'', JInt 1)] (base ex_work)"
  by code_simp

lemma ex_current_blueprint:
  "approved_blueprint ''act_a'' ''tenant_a'' None ex_work = (Inr (ex_blueprint_row, ex_approved_bp), ex_work)"
proof -
  have l: "latest_blueprint ''act_a'' ''tenant_a'' ex_work = Inr ex_blueprint_row"
    by (simp add: latest_blueprint_def ex_work_def ex_blueprint_row_def found_def)
  have a: "AssessmentBlueprint.status ex_approved_bp = WorkflowStatus.APPROVED"
    "AssessmentBlueprint.approved_by ex_approved_bp = Some ''usr_teacher''"
    "AssessmentBlueprint.approved_at ex_approved_bp = Some (utc_time 0)" "AssessmentBlueprint.blueprint_id ex_approved_bp = ''bp_a''"
    by (simp_all add: ex_approved_bp_def ex_blueprint_def)
  show ?thesis
    unfolding approved_blueprint_def acts
    using ex_approved_bp_valid ex_approval_recorded
    by (simp add: seq_def look_def pass_def model_of_def stop_if_def give_def l a falsy_def checked_def)
      (simp add: ex_blueprint_row_def a)
qed

end
