(* ===== verification/CoverageClaims.thy ===== *)
theory CoverageClaims
  imports Coverage WorkExample
begin

text \<open>
  The coverage views and the pipeline agree: a mapping the validators accepted always has a report that
  passes its own contract, traces every opportunity once, and counts the questions of the plan.
\<close>

section \<open>Traces of an accepted mapping\<close>














section \<open>The summary of valid traces\<close>




lemma summary_dimension [simp]: "CoverageItem.dimension_id (summary_item ts d) = BlueprintDimension.dimension_id d"
  by (simp add: summary_item_def Let_def)




section \<open>The report\<close>








section \<open>Properties\<close>








definition ex_inputs_of_work :: CoverageInputs where
  "ex_inputs_of_work = \<lparr>cov_blueprint = ex_approved_bp, cov_mapping = Some (ex_mapping ex_opportunities), cov_plan = Some ex_plan,
     cov_row = None, cov_assessment = None\<rparr>"

definition ex_waiting :: SubmissionRow where
  "ex_waiting = hd (submissions ex_empty)"





text \<open>The blueprint's contract lets a dimension name a criterion twice; the trace's contract does not.  Such
  a blueprint passes, its mapping is accepted, and the coverage view of the submission raises.\<close>

definition ex_repeated :: AssessmentBlueprint where
  "ex_repeated = ex_approved_bp\<lparr>AssessmentBlueprint.dimensions :=
     [ex_dimension\<lparr>BlueprintDimension.criterion_ids := [''crit_a'', ''crit_a'']\<rparr>]\<rparr>"

theorem repeated_criterion_blocks_coverage:
  "AssessmentBlueprint_validate ex_repeated = None
   \<and> validate_evidence_map (ex_mapping ex_opportunities) ex_repeated ex_bundle = None
   \<and> isl (coverage_traces ex_waiting (ex_inputs_of_work\<lparr>cov_blueprint := ex_repeated\<rparr>) (base ex_work))"
proof (intro conjI)
  show "AssessmentBlueprint_validate ex_repeated = None" by code_simp
  show "validate_evidence_map (ex_mapping ex_opportunities) ex_repeated ex_bundle = None" by code_simp
  show "isl (coverage_traces ex_waiting (ex_inputs_of_work\<lparr>cov_blueprint := ex_repeated\<rparr>) (base ex_work))" by code_simp
qed

end
