(* ===== verification/Worker.thy ===== *)
theory Worker
  imports WorkStore Gateway ObjectStore StageStore
begin

text \<open>
  The worker's part of \<open>web/workflows.py\<close>: cooperative cancellation, the resume floor, the classes of
  failures, the governed model stage with its durable cache, and the failure of a job.
\<close>

section \<open>The environment\<close>

text \<open>
  What the worker is given: the settings, the object store's reads, the parser, pydantic's conversions and,
  at each moment of its clock, the mock adapter, the validation, the clock and the latency of a gateway.
  The \<open>code\<close> attribute of the database library's integrity error is a parameter too.
\<close>

datatype parser_failure = Rejected string | InvalidUnit contract_error | Crashed string

record Env =
  env_mode :: GatewayMode
  env_gateway :: "nat \<Rightarrow> ModelGateway"
  env_max_upload_bytes :: int
  env_head :: "string \<Rightarrow> object_error + ObjectMetadata"
  env_bytes :: "string \<Rightarrow> nat \<Rightarrow> object_error + bytes"
  env_parse :: "ArtifactRow \<Rightarrow> bytes \<Rightarrow> parser_failure + EvidenceUnit list"
  env_locator_json :: "SourceLocator \<Rightarrow> json"
  env_integrity_code :: string

record ('req, 'out) Codec =
  request_json :: "'req \<Rightarrow> json"
  output_json :: "'out \<Rightarrow> json"
  output_of :: "json \<Rightarrow> contract_error + 'out"

fun mode_text :: "GatewayMode \<Rightarrow> string" where
  "mode_text MOCK = ''mock''"
| "mode_text REAL = ''real''"

section \<open>Cooperative cancellation\<close>

definition complete_cancellation_if_requested :: "JobRow \<Rightarrow> bool act" where
  "complete_cancellation_if_requested job =
     seq (job_control (JobRow.ident job) (JobRow.tenant_id job)) (\<lambda>c.
       if JobRow.control_state c = ''ACTIVE'' then give False
       else if JobRow.control_state c = ''CANCEL_REQUESTED''
       then seq utc_now (\<lambda>t. seq (transact (complete_job_cancellation (JobRow.ident job) (JobRow.tenant_id job) t)) (\<lambda>_. give True))
       else give True)"

definition cancellation_checkpoint :: "JobRow \<Rightarrow> unit act" where
  "cancellation_checkpoint job = seq (complete_cancellation_if_requested job) (\<lambda>b. stop_if b Cancelled)"

section \<open>The resume floor\<close>

definition ACTIVITY_RESUME_ORDER :: "(string \<times> int) list" where
  "ACTIVITY_RESUME_ORDER = [(''ACTIVITY_PARSE'', 0), (''ACTIVITY_SPEC'', 1), (''RUBRIC_NORMALIZE'', 2),
     (''AMBIGUITY_TRIAGE'', 3), (''BLUEPRINT_BUILD'', 4), (''BLUEPRINT_REVIEW'', 5)]"

definition SUBMISSION_RESUME_ORDER :: "(string \<times> int) list" where
  "SUBMISSION_RESUME_ORDER = [(''SUBMISSION_PARSE'', 0), (''EVIDENCE_MAP'', 1), (''ASSESSMENT_PLAN'', 2),
     (''QUESTION_GENERATE'', 3), (''QUESTION_REVIEW'', 4), (''GUIDE_BUILD'', 5), (''ASSEMBLE'', 6)]"

definition PROMPT_APPLICATION_STAGE :: "(string \<times> string) list" where
  "PROMPT_APPLICATION_STAGE = [(''P01_ACTIVITY_SPEC_V1'', ''ACTIVITY_SPEC''), (''P02_RUBRIC_NORMALIZE_V1'', ''RUBRIC_NORMALIZE''),
     (''P03_AMBIGUITY_TRIAGE_V1'', ''AMBIGUITY_TRIAGE''), (''P04_BLUEPRINT_BUILD_V1'', ''BLUEPRINT_BUILD''),
     (''P05_BLUEPRINT_REVIEW_V1'', ''BLUEPRINT_REVIEW''), (''P06_EVIDENCE_MAP_V1'', ''EVIDENCE_MAP''),
     (''P07_QUESTION_BUILD_V1'', ''QUESTION_GENERATE''), (''P08_QUESTION_REVIEW_V1'', ''QUESTION_REVIEW''),
     (''P09_GUIDE_BUILD_V1'', ''GUIDE_BUILD'')]"

definition resume_order :: "JobRow \<Rightarrow> (string \<times> int) list" where
  "resume_order job = (if JobRow.kind job = ''ACTIVITY'' then ACTIVITY_RESUME_ORDER
     else if JobRow.kind job = ''SUBMISSION'' then SUBMISSION_RESUME_ORDER
     else if JobRow.kind job = ''QUESTION_ACTION'' then SUBMISSION_RESUME_ORDER else [])"

definition reach_floor :: "JobRow \<Rightarrow> unit act" where
  "reach_floor job = adjust (\<lambda>w. w\<lparr>resume_floor_reached := JobRow.ident job # resume_floor_reached w\<rparr>)"

definition mark_resume_floor :: "JobRow \<Rightarrow> string \<Rightarrow> unit act" where
  "mark_resume_floor job stg = (case JobRow.resume_from_stage job of None \<Rightarrow> give ()
     | Some fstage \<Rightarrow> (case map_of (resume_order job) fstage of
         None \<Rightarrow> fail_with (WorkflowError ''STAGE_RESUME_TARGET_INVALID'' 409)
       | Some n \<Rightarrow> if n \<le> (case map_of (resume_order job) stg of None \<Rightarrow> -1 | Some k \<Rightarrow> k) then reach_floor job else give ()))"

text \<open>\<open>_assert_application_stage_may_execute\<close>, of a stage that may be unknown.\<close>

definition may_execute :: "JobRow \<Rightarrow> string option \<Rightarrow> unit act" where
  "may_execute job stg = (case JobRow.resume_from_stage job of None \<Rightarrow> give ()
     | Some fstage \<Rightarrow> seq (look (\<lambda>w. JobRow.ident job \<in> set (resume_floor_reached w))) (\<lambda>reached.
         if reached then give ()
         else case (map_of (resume_order job) fstage, Option.bind stg (map_of (resume_order job))) of
           (Some n, Some k) \<Rightarrow> seq (refuse_if (k < n) ''STAGE_RESUME_REUSE_MISSING'' 409) (\<lambda>_. reach_floor job)
         | _ \<Rightarrow> fail_with (WorkflowError ''STAGE_RESUME_TARGET_INVALID'' 409)))"

definition assert_application_stage_may_execute :: "JobRow \<Rightarrow> string \<Rightarrow> unit act" where
  "assert_application_stage_may_execute job stg = may_execute job (Some stg)"

definition assert_resume_may_execute :: "JobRow \<Rightarrow> string \<Rightarrow> unit act" where
  "assert_resume_may_execute job pid = may_execute job (map_of PROMPT_APPLICATION_STAGE pid)"

definition opt_str :: "string option \<Rightarrow> json" where
  "opt_str v = (case v of None \<Rightarrow> JNull | Some s \<Rightarrow> JStr s)"

definition reuse_payload :: "StageRunRow \<Rightarrow> json" where
  "reuse_payload r = JObj [(''stage_run_id'', JStr (StageRunRow.ident r)), (''source_job_id'', JStr (StageRunRow.job_id r)),
     (''stage'', JStr (StageRunRow.stage r)), (''stage_key'', JStr (StageRunRow.stage_key r)),
     (''input_hash'', JStr (StageRunRow.input_hash r)), (''policy_hash'', JStr (StageRunRow.policy_hash r)),
     (''component_version'', opt_str (StageRunRow.component_version r)), (''output_hash'', opt_str (StageRunRow.output_hash r))]"

definition record_stage_reuse :: "JobRow \<Rightarrow> StageRunRow \<Rightarrow> unit act" where
  "record_stage_reuse job r = (case JobRow.resume_from_stage job of None \<Rightarrow> give ()
     | Some _ \<Rightarrow> seq (look (\<lambda>w. has_audit_event (JobRow.tenant_id job) ''stage.reused'' (JobRow.ident job) None
           [(''stage_run_id'', JStr (StageRunRow.ident r))] (base w))) (\<lambda>known.
         if known then give ()
         else seq utc_now (\<lambda>t. seq utc_now (\<lambda>now.
           seq (transact (audit (JobRow.tenant_id job) ''stage.reused'' (JobRow.ident job) ''system_worker'' (reuse_payload r) t now))
             (\<lambda>_. give ())))))"

section \<open>The class of a failure\<close>

definition SECURITY_FAILURE_CODES :: "string list" where
  "SECURITY_FAILURE_CODES = [''CROSS_SUBMISSION_EVIDENCE'', ''INGEST_ENCRYPTED_FILE'', ''IR_PROVENANCE_GAP'',
     ''MODEL_CONTEXT_NOT_ALLOWLISTED'', ''MODEL_SAFETY_BLOCK'', ''REJECTED_SECURITY'']"

definition PRECONDITION_FAILURE_CODES :: "string list" where
  "PRECONDITION_FAILURE_CODES = [''BLUEPRINT_NOT_APPROVED'', ''POLICY_DECISION_INVALID'', ''STAGE_RESUME_REUSE_MISSING'',
     ''SUBMISSION_ARTIFACT_REQUIRED'', ''SUBMISSION_FINALIZATION_STATE_CHANGED'', ''QUESTION_ACTION_ACTOR_REVOKED'',
     ''QUESTION_ACTION_RETRY_SOURCE_MISSING'', ''QUESTION_ACTION_VERSION_CHANGED'']"

fun gateway_code :: "GatewayErrorClass \<Rightarrow> string" where
  "gateway_code GatewayValidationError = ''MODEL_CONTRACT_VALIDATION_FAILED''"
| "gateway_code GatewayContextError = ''MODEL_CONTEXT_NOT_ALLOWLISTED''"
| "gateway_code GatewayRouteBlocked = ''MODEL_ROUTE_BLOCKED''"
| "gateway_code GatewayBudgetExceeded = ''MODEL_BUDGET_EXCEEDED''"
| "gateway_code GatewayTimeout = ''MODEL_TIMEOUT''"
| "gateway_code GatewayProviderError = ''MODEL_PROVIDER_ERROR''"
| "gateway_code GatewaySafetyBlock = ''MODEL_SAFETY_BLOCK''"
| "gateway_code GatewaySchemaViolation = ''MODEL_SCHEMA_VIOLATION''"

text \<open>\<open>getattr(exc, "code", "TECHNICAL_FAILURE")\<close>.\<close>

fun error_code :: "Env \<Rightarrow> failure \<Rightarrow> string" where
  "error_code env (WorkflowError cd _) = cd"
| "error_code env (ContextViolation (CtxErr cd _)) = cd"
| "error_code env (ParseRejected cd) = cd"
| "error_code env (GatewayFailure (Governed cls _ _ _ _)) = gateway_code cls"
| "error_code env (Repo IntegrityError) = env_integrity_code env"
| "error_code env _ = ''TECHNICAL_FAILURE''"

text \<open>\<open>_caused_by(exc, TransientProviderError)\<close>: the two messages the gateway raises from a transient
  failure of the adapter, a rate limit being one.\<close>

definition transient_cause :: "string \<Rightarrow> bool" where
  "transient_cause msg \<longleftrightarrow> msg \<in> {''Provider rate limit exhausted governed retries'',
     ''Transient provider failure exhausted governed retries''}"

definition classify_failure :: "Env \<Rightarrow> failure \<Rightarrow> FailureClass \<times> bool \<times> string" where
  "classify_failure env e =
     (let cd = error_code env e in
      if (case e of GatewayFailure (Governed cls _ _ _ _) \<Rightarrow> cls \<in> {GatewaySafetyBlock, GatewayContextError} | _ \<Rightarrow> False)
      then (FailureClass.SECURITY, False, cd)
      else if cd \<in> set SECURITY_FAILURE_CODES then (FailureClass.SECURITY, False, cd)
      else case e of
        ParseRejected _ \<Rightarrow> (FailureClass.VALIDATION, False, cd)
      | ContextViolation _ \<Rightarrow> (FailureClass.VALIDATION, False, cd)
      | Repo (ContractError _) \<Rightarrow> (FailureClass.VALIDATION, False, cd)
      | WorkflowError _ _ \<Rightarrow> (if cd \<in> set PRECONDITION_FAILURE_CODES then FailureClass.PRECONDITION else FailureClass.PERMANENT, False, cd)
      | GatewayFailure (Governed GatewayTimeout _ _ _ _) \<Rightarrow> (FailureClass.TRANSIENT, True, cd)
      | GatewayFailure (Governed GatewayProviderError msg _ _ _) \<Rightarrow>
          (if transient_cause msg then (FailureClass.PROVIDER, True, cd) else (FailureClass.PERMANENT, False, cd))
      | ConnectionLost \<Rightarrow> (FailureClass.TRANSIENT, True, ''TRANSIENT_RUNTIME_FAILURE'')
      | _ \<Rightarrow> (FailureClass.PERMANENT, False, cd))"

section \<open>Job and submission states\<close>

text \<open>\<open>save_job_status\<close> of a known job, whose row is updated; the creation time is that of an insertion.\<close>

definition save_status :: "JobStatus \<Rightarrow> unit act" where
  "save_status st = seq (look (\<lambda>w. readings w (ticks w))) (\<lambda>t. transact (save_job_status st None t))"

definition set_job :: "JobRow \<Rightarrow> string \<Rightarrow> pyfloat \<Rightarrow> unit act" where
  "set_job job stg prog =
     seq (cancellation_checkpoint job) (\<lambda>_.
     seq (mark_resume_floor job stg) (\<lambda>_.
     seq (job_status (JobRow.ident job) (JobRow.tenant_id job)) (\<lambda>st.
     seq utc_now (\<lambda>t.
     seq (save_status (st\<lparr>JobStatus.stage := stg, JobStatus.status := ''RUNNING'', JobStatus.progress := prog,
        JobStatus.started_at := Some t\<rparr>)) (\<lambda>_.
     cancellation_checkpoint job)))))"

definition processing_state :: "SubmissionRow \<Rightarrow> JobRow \<Rightarrow> SubmissionProcessingStatus \<Rightarrow> string \<Rightarrow> pyfloat
    \<Rightarrow> Diagnostic list \<Rightarrow> datetime \<Rightarrow> SubmissionProcessingState" where
  "processing_state sub job dst stg prog ds t = \<lparr>SubmissionProcessingState.schema_version = LEGACY_SCHEMA_VERSION,
     submission_id = SubmissionRow.ident sub, activity_id = SubmissionRow.activity_id sub, status = dst,
     current_stage = Some stg, progress = prog, active_job_id = Some (JobRow.ident job), diagnostics = ds, updated_at = t\<rparr>"

text \<open>The state object is built and validated first; \<open>set_submission_state\<close> then reads the clock for the row.\<close>

definition put_state :: "SubmissionRow \<Rightarrow> JobRow \<Rightarrow> SubmissionProcessingStatus \<Rightarrow> string \<Rightarrow> pyfloat \<Rightarrow> Diagnostic list \<Rightarrow> unit act" where
  "put_state sub job dst stg prog ds =
     seq utc_now (\<lambda>t.
     seq (model_of SubmissionProcessingState_validate (processing_state sub job dst stg prog ds t)) (\<lambda>new.
     seq utc_now (\<lambda>now. transact (set_submission_state new now))))"

definition set_submission :: "SubmissionRow \<Rightarrow> JobRow \<Rightarrow> SubmissionProcessingStatus \<Rightarrow> string \<Rightarrow> pyfloat \<Rightarrow> unit act" where
  "set_submission sub job dst stg prog =
     seq (set_job job stg prog) (\<lambda>_.
     seq (cancellation_checkpoint job) (\<lambda>_.
     seq (put_state sub job dst stg prog []) (\<lambda>_.
     cancellation_checkpoint job)))"

text \<open>\<open>m.SubmissionProcessingStatus(status)\<close> of a text.\<close>

definition processing_status_of :: "string \<Rightarrow> SubmissionProcessingStatus option" where
  "processing_status_of s = map_of [(''UPLOADED'', SubmissionProcessingStatus.UPLOADED), (''VALIDATING'', SubmissionProcessingStatus.VALIDATING),
     (''PARSING'', SubmissionProcessingStatus.PARSING), (''EVIDENCE_READY'', SubmissionProcessingStatus.EVIDENCE_READY),
     (''MAPPING_OPPORTUNITIES'', SubmissionProcessingStatus.MAPPING_OPPORTUNITIES), (''PLANNING'', SubmissionProcessingStatus.PLANNING),
     (''GENERATING'', SubmissionProcessingStatus.GENERATING), (''VALIDATING_QUESTIONS'', SubmissionProcessingStatus.VALIDATING_QUESTIONS),
     (''GUIDE_READY'', SubmissionProcessingStatus.GUIDE_READY), (''NEEDS_REVIEW'', SubmissionProcessingStatus.NEEDS_REVIEW),
     (''APPROVED'', SubmissionProcessingStatus.APPROVED),
     (''INSUFFICIENT_RELEVANT_EVIDENCE'', SubmissionProcessingStatus.INSUFFICIENT_RELEVANT_EVIDENCE),
     (''INSUFFICIENT_DISTINCT_QUESTION_OPPORTUNITIES'', SubmissionProcessingStatus.INSUFFICIENT_DISTINCT_QUESTION_OPPORTUNITIES),
     (''EVIDENCE_MAPPING_UNCERTAIN'', SubmissionProcessingStatus.EVIDENCE_MAPPING_UNCERTAIN),
     (''ASSESSMENT_PLAN_INFEASIBLE'', SubmissionProcessingStatus.ASSESSMENT_PLAN_INFEASIBLE),
     (''TECHNICAL_FAILURE'', SubmissionProcessingStatus.TECHNICAL_FAILURE), (''REJECTED_SECURITY'', SubmissionProcessingStatus.REJECTED_SECURITY), (''CANCELLED'', SubmissionProcessingStatus.CANCELLED)] s"

definition terminal_domain_failure :: "SubmissionRow \<Rightarrow> JobRow \<Rightarrow> string \<Rightarrow> Diagnostic list \<Rightarrow> string \<Rightarrow> unit act" where
  "terminal_domain_failure sub job st ds stg =
     seq (cancellation_checkpoint job) (\<lambda>_.
     seq (pass (case processing_status_of st of None \<Rightarrow> Inl (Repo (ValueError ''not a valid SubmissionProcessingStatus'')) | Some d \<Rightarrow> Inr d)) (\<lambda>dst.
     seq (put_state sub job dst stg 1 ds) (\<lambda>_.
     seq (job_status (JobRow.ident job) (JobRow.tenant_id job)) (\<lambda>js.
     seq utc_now (\<lambda>t.
     seq (save_status (js\<lparr>JobStatus.status := ''NEEDS_REVIEW'', JobStatus.progress := 1, JobStatus.diagnostics := ds,
        JobStatus.finished_at := Some t\<rparr>)) (\<lambda>_.
     cancellation_checkpoint job))))))"

text \<open>The row of the failed job gets its class in a session of its own.\<close>

definition classify_row :: "JobRow \<Rightarrow> FailureClass \<Rightarrow> JobStore \<Rightarrow> repo_error + unit \<times> JobStore" where
  "classify_row job cls s =
     and_then (found (of_tenant JobRow.tenant_id (JobRow.tenant_id job) (get_job s (JobRow.ident job))) ''job not found'') (\<lambda>r.
       commit ((), put_job (r\<lparr>JobRow.failure_class := Some (failure_name cls), JobRow.next_attempt_at := None\<rparr>) s))"

definition finish_failure :: "JobRow \<Rightarrow> FailureClass \<Rightarrow> JobStatus \<Rightarrow> Diagnostic \<Rightarrow> unit act" where
  "finish_failure job cls st d =
     seq (transact (classify_row job cls)) (\<lambda>_.
     if JobRow.kind job = ''ACTIVITY''
     then seq utc_now (\<lambda>now. transact (set_activity_status (JobRow.aggregate_id job) (JobRow.tenant_id job) ''TECHNICAL_FAILURE'' now))
     else if JobRow.kind job = ''SUBMISSION''
     then seq (scoped_submission (JobRow.aggregate_id job) (JobRow.tenant_id job)) (\<lambda>sub.
          put_state sub job SubmissionProcessingStatus.TECHNICAL_FAILURE (JobStatus.stage st) (JobStatus.progress st) [d])
     else give ())"

definition failed_status :: "JobStatus \<Rightarrow> datetime \<Rightarrow> Diagnostic \<Rightarrow> JobStatus" where
  "failed_status js t d = js\<lparr>JobStatus.status := ''FAILED'', JobStatus.finished_at := Some t, JobStatus.diagnostics := [d]\<rparr>"

definition fail_job :: "JobRow \<Rightarrow> string \<Rightarrow> string \<Rightarrow> FailureClass \<Rightarrow> bool \<Rightarrow> unit act" where
  "fail_job job cd msg cls retry =
     seq (complete_cancellation_if_requested job) (\<lambda>done1.
     if done1 then give ()
     else
       seq (error_diagnostic cd msg retry) (\<lambda>d.
       seq (job_status (JobRow.ident job) (JobRow.tenant_id job)) (\<lambda>js.
       seq utc_now (\<lambda>t.
       seq (save_status (failed_status js t d)) (\<lambda>_.
       seq (complete_cancellation_if_requested job) (\<lambda>done2.
       if done2 then give () else finish_failure job cls (failed_status js t d) d))))))"

end
