(* ===== verification/ModelStage.thy ===== *)
theory ModelStage
  imports Worker
begin

text \<open>
  The two kinds of stage the worker runs: \<open>_gateway_stage\<close>, which asks the model gateway once and keeps the
  answer under the address of its inputs, and the parsing of a sealed upload.
\<close>

section \<open>The context of a request\<close>

text \<open>\<open>build_trusted_context\<close> of \<open>model_gateway/mock_factory.py\<close>, on the JSON dump of the request.\<close>

definition first_value :: "string \<Rightarrow> (string \<times> json) list list \<Rightarrow> json option" where
  "first_value k objs = find (\<lambda>v. v \<noteq> JNull) (concat (map (\<lambda>kvs. case map_of kvs k of None \<Rightarrow> [] | Some v \<Rightarrow> [v]) objs))"

definition wrong_type :: "string \<Rightarrow> failure" where
  "wrong_type k = Repo (ContractError (FieldErrors [k]))"

fun text_value :: "string \<Rightarrow> json \<Rightarrow> failure + string" where
  "text_value k (JStr s) = Inr s"
| "text_value k _ = Inl (wrong_type k)"

fun int_value :: "string \<Rightarrow> json \<Rightarrow> failure + int" where
  "int_value k (JInt i) = Inr i"
| "int_value k _ = Inl (wrong_type k)"

fun mode_value :: "json \<Rightarrow> failure + ContextMode" where
  "mode_value (JStr s) = (if s = ''CLOSED'' then Inr ContextMode.CLOSED
     else if s = ''COURSE_ENRICHED'' then Inr ContextMode.COURSE_ENRICHED else Inl (wrong_type ''context_mode''))"
| "mode_value _ = Inl (wrong_type ''context_mode'')"

definition optional_value :: "(string \<Rightarrow> json \<Rightarrow> failure + 'a) \<Rightarrow> string \<Rightarrow> json option \<Rightarrow> failure + 'a option" where
  "optional_value f k v = (case v of None \<Rightarrow> Inr None | Some j \<Rightarrow> and_then (f k j) (\<lambda>x. Inr (Some x)))"

fun lift_gateway :: "gateway_failure + 'a \<Rightarrow> failure + 'a" where
  "lift_gateway (Inl e) = Inl (GatewayFailure e)"
| "lift_gateway (Inr x) = Inr x"

definition build_trusted_context :: "json \<Rightarrow> failure + TrustedPromptContext" where
  "build_trusted_context data_json =
     (let objs = walk_dicts data_json;
          or_default = (\<lambda>k d. case first_value k objs of None \<Rightarrow> JStr d | Some v \<Rightarrow> v);
          mode_json = or_default ''context_mode'' ''CLOSED'' in
      and_then (lift_gateway (collect_authorized_ids objs)) (\<lambda>(evidence, sources).
      and_then (text_value ''tenant_id'' (or_default ''tenant_id'' ''tnt_demo'')) (\<lambda>tid.
      and_then (text_value ''activity_id'' (or_default ''activity_id'' ''act_demo'')) (\<lambda>aid.
      and_then (optional_value text_value ''submission_id'' (first_value ''submission_id'' objs)) (\<lambda>sid.
      and_then (optional_value text_value ''blueprint_id'' (first_value ''blueprint_id'' objs)) (\<lambda>bid.
      and_then (optional_value int_value ''blueprint_version'' (first_value ''blueprint_version'' objs)) (\<lambda>bv.
      and_then (mode_value mode_json) (\<lambda>cm.
        lift_repo (checked TrustedPromptContext_validate \<lparr>TrustedPromptContext.tenant_id = tid, activity_id = aid,
          submission_id = sid, blueprint_id = bid, blueprint_version = bv, allowed_evidence_ids = sorted_set evidence,
          allowed_course_source_ids = (if mode_json = JStr ''COURSE_ENRICHED'' then sorted_set sources else []),
          output_language = ''es-CL'', context_mode = cm\<rparr>))))))))) "

section \<open>Asking the gateway\<close>

definition gateway_config :: "Env \<Rightarrow> string \<Rightarrow> GatewayConfig" where
  "gateway_config env jid = \<lparr>GatewayConfig.mode = env_mode env, timeout_seconds = 10, max_retries = 2,
     backoff_base_seconds = fl (1 / 100), default_budget_usd = 1 / 4, job_id = jid\<rparr>"

text \<open>The worker installs neither routes nor adapters: only the mock mode can answer.\<close>

definition model_gateway :: "Env \<Rightarrow> string \<Rightarrow> nat \<Rightarrow> ModelGateway" where
  "model_gateway env jid n = (env_gateway env n)\<lparr>settings := gateway_config env jid, real_routes := [], adapters := []\<rparr>"

definition model_call_row :: "ModelCallLedger \<Rightarrow> ModelCallRow" where
  "model_call_row l = \<lparr>ModelCallRow.ident = ModelCallLedger.model_call_id l, tenant_id = ModelCallLedger.tenant_id l,
     job_id = ModelCallLedger.job_id l, stage = ModelCallLedger.stage l, data = l\<rparr>"

definition model_call_sink :: "ModelCallLedger \<Rightarrow> unit act" where
  "model_call_sink l w =
     (if list_ex (\<lambda>r. ModelCallRow.ident r = ModelCallLedger.model_call_id l) (model_call_rows w)
      then (Inl (Repo IntegrityError), w)
      else (Inr (), w\<lparr>model_call_rows := model_call_rows w @ [model_call_row l]\<rparr>))"

text \<open>The ledger entries of an invocation reach the sink in order; when the sink raises, the invocation ends
  there.\<close>

fun hand_over :: "gateway_event list \<Rightarrow> unit act" where
  "hand_over [] = give ()"
| "hand_over (Recorded l # es) = seq (model_call_sink l) (\<lambda>_. hand_over es)"
| "hand_over (_ # es) = hand_over es"

definition invoke_gateway :: "Env \<Rightarrow> string \<Rightarrow> string \<Rightarrow> json \<Rightarrow> TrustedPromptContext \<Rightarrow> json act" where
  "invoke_gateway env jid pid data_json trusted =
     seq (look (\<lambda>w. invoke (model_gateway env jid (ticks w)) pid data_json trusted HAPPY None [ModelInputModality.TEXT])) (\<lambda>(es, r).
     seq (hand_over es) (\<lambda>_.
     pass (and_then (lift_gateway r) (\<lambda>res. Inr (model_dump (result_output res))))))"

definition converted :: "contract_error + 'a \<Rightarrow> failure + 'a" where
  "converted r = (case r of Inl e \<Rightarrow> Inl (Repo (ContractError e)) | Inr x \<Rightarrow> Inr x)"

definition model_answer :: "Env \<Rightarrow> ('req, 'out) Codec \<Rightarrow> JobRow \<Rightarrow> string \<Rightarrow> 'req \<Rightarrow> 'out act" where
  "model_answer env cdc job pid req =
     seq (pass (build_trusted_context (request_json cdc req))) (\<lambda>ctx.
     seq (invoke_gateway env (JobRow.ident job) pid (request_json cdc req)
        (ctx\<lparr>TrustedPromptContext.tenant_id := JobRow.tenant_id job\<rparr>)) (\<lambda>out.
     seq (cancellation_checkpoint job) (\<lambda>_.
     pass (converted (output_of cdc out)))))"

section \<open>The durable stage\<close>

definition stage_policy_hash :: "Env \<Rightarrow> JobRow \<Rightarrow> string act" where
  "stage_policy_hash env job =
     seq (if JobRow.kind job = ''ACTIVITY'' then scoped_activity (JobRow.aggregate_id job) (JobRow.tenant_id job)
          else seq (scoped_submission (JobRow.aggregate_id job) (JobRow.tenant_id job)) (\<lambda>sub.
               scoped_activity (SubmissionRow.activity_id sub) (JobRow.tenant_id job))) (\<lambda>a.
     give (canonical_hash (JObj [(''blueprint_policy'', ActivityRow.blueprint_policy a),
        (''model_mode'', JStr (mode_text (env_mode env))), (''p10_enabled'', JBool False)])))"

definition stage_args :: "JobRow \<Rightarrow> string \<Rightarrow> json \<Rightarrow> string \<Rightarrow> string \<Rightarrow> json \<Rightarrow> StageArgs" where
  "stage_args job stg ins pol ver out = \<lparr>StageArgs.job_id = JobRow.ident job, tenant_id = JobRow.tenant_id job, stage = stg,
     inputs = ins, component_version = ver, policy_hash = pol, output = Some out, status = ''SUCCEEDED'', diagnostics = [],
     failure_class = None, next_attempt_at = None, attempt = None, resumed_from_stage_run_id = None\<rparr>"

definition failed_stage_args :: "JobRow \<Rightarrow> string \<Rightarrow> json \<Rightarrow> string \<Rightarrow> string \<Rightarrow> Diagnostic \<Rightarrow> FailureClass \<Rightarrow> StageArgs" where
  "failed_stage_args job stg ins pol ver d cls = (stage_args job stg ins pol ver JNull)\<lparr>StageArgs.output := None,
     StageArgs.status := ''FAILED'', StageArgs.diagnostics := [d], StageArgs.failure_class := Some (failure_name cls)\<rparr>"

definition save_stage_run :: "StageArgs \<Rightarrow> (StageRunRow \<times> bool) act" where
  "save_stage_run a = seq utc_now (\<lambda>t. transact (save_stage a t))"

definition strip_failed :: "string \<Rightarrow> JobStore \<Rightarrow> repo_error + unit \<times> JobStore" where
  "strip_failed rid s = (case get_row StageRunRow.ident (stage_runs s) rid of
     None \<Rightarrow> Inr ((), s)
   | Some r \<Rightarrow> if StageRunRow.status r = ''FAILED''
       then commit ((), put_stage (r\<lparr>StageRunRow.output := None, StageRunRow.output_hash := None\<rparr>) s) else Inr ((), s))"

definition record_failed_stage :: "Env \<Rightarrow> JobRow \<Rightarrow> string \<Rightarrow> json \<Rightarrow> string \<Rightarrow> failure \<Rightarrow> unit act" where
  "record_failed_stage env job stg ins pol e =
     (let (cls, retry, cd) = classify_failure env e in
      seq (error_diagnostic cd ''The application stage failed without persisting provider or input detail.'' retry) (\<lambda>d.
      seq (save_stage_run (failed_stage_args job stg ins pol PROMPT_VERSION d cls)) (\<lambda>(r, reused).
      if reused then give () else transact (strip_failed (StageRunRow.ident r)))))"

text \<open>\<open>try: ... except _CooperativeJobCancellation: raise; except Exception\<close>.\<close>

definition rescue :: "'a act \<Rightarrow> (failure \<Rightarrow> 'a act) \<Rightarrow> 'a act" where
  "rescue m h w = (case m w of (Inr x, w') \<Rightarrow> (Inr x, w')
     | (Inl e, w') \<Rightarrow> if e = Cancelled then (Inl Cancelled, w') else h e w')"

definition cached_output :: "StageRunRow option \<Rightarrow> (StageRunRow \<times> json) option" where
  "cached_output r = Option.bind r (\<lambda>x. map_option (\<lambda>j. (x, j)) (StageRunRow.output x))"

definition stage_name :: "string \<Rightarrow> string \<Rightarrow> string" where
  "stage_name pid suffix = (if suffix = [] then pid else pid @ '':'' @ suffix)"

definition gateway_stage :: "Env \<Rightarrow> ('req, 'out) Codec \<Rightarrow> JobRow \<Rightarrow> string \<Rightarrow> string \<Rightarrow> 'req \<Rightarrow> 'out act" where
  "gateway_stage env cdc job pid suffix req =
     (let stg = stage_name pid suffix; ins = request_json cdc req in
      seq (cancellation_checkpoint job) (\<lambda>_.
      seq (stage_policy_hash env job) (\<lambda>pol.
      seq (look (\<lambda>w. stage_by_key (JobRow.tenant_id job) stg ins pol PROMPT_VERSION (base w))) (\<lambda>cached.
      case cached_output cached of
        Some (r, j) \<Rightarrow>
          seq (record_stage_reuse job r) (\<lambda>_.
          seq (pass (converted (output_of cdc j))) (\<lambda>out.
          seq (cancellation_checkpoint job) (\<lambda>_. give out)))
      | None \<Rightarrow>
          seq (assert_resume_may_execute job pid) (\<lambda>_.
          seq (rescue (model_answer env cdc job pid req) (\<lambda>e.
             seq (complete_cancellation_if_requested job) (\<lambda>stopped.
             if stopped then fail_with Cancelled
             else seq (record_failed_stage env job stg ins pol e) (\<lambda>_. fail_with e)))) (\<lambda>out.
          seq (save_stage_run (stage_args job stg ins pol PROMPT_VERSION (output_json cdc out))) (\<lambda>_.
          seq (cancellation_checkpoint job) (\<lambda>_. give out))))))))"

section \<open>Reading a sealed upload\<close>

definition PARSER_VERSION :: string where
  "PARSER_VERSION = ''stage2-parser/2.0.0''"

definition provenance_gap :: failure where
  "provenance_gap = WorkflowError ''IR_PROVENANCE_GAP'' 409"

fun storage_failure :: "object_error \<Rightarrow> failure" where
  "storage_failure (PermissionError _) = RuntimeFailure ''PermissionError''"
| "storage_failure (ObjectSizeExceeded _) = RuntimeFailure ''ObjectSizeExceeded''"
| "storage_failure object_error.KeyError = RuntimeFailure ''KeyError''"
| "storage_failure (TokenError _) = RuntimeFailure ''PyJWTError''"
| "storage_failure AssertionFailed = RuntimeFailure ''AssertionError''"
| "storage_failure (ClientError _) = RuntimeFailure ''ClientError''"

definition verified_artifact_bytes :: "Env \<Rightarrow> ArtifactRow \<Rightarrow> failure + bytes" where
  "verified_artifact_bytes env f =
     (case (ArtifactRow.byte_size f, ArtifactRow.sha256 f, ArtifactRow.media_type f) of
        (Some n, Some digest, Some media) \<Rightarrow>
          if ArtifactRow.status f \<noteq> ''COMPLETE'' then Inl (WorkflowError ''UPLOAD_INCOMPLETE'' 422)
          else if env_max_upload_bytes env < n then Inl provenance_gap
          else (case env_head env (ArtifactRow.object_key f) of
            Inl e \<Rightarrow> Inl (if e = object_error.KeyError then provenance_gap else storage_failure e)
          | Inr meta \<Rightarrow>
              if int (meta_byte_size meta) \<noteq> n \<or> meta_content_type meta \<noteq> media then Inl provenance_gap
              else (case env_bytes env (ArtifactRow.object_key f) (nat n) of
                Inl e \<Rightarrow> Inl (case e of object_error.KeyError \<Rightarrow> provenance_gap | ObjectSizeExceeded _ \<Rightarrow> provenance_gap | _ \<Rightarrow> storage_failure e)
              | Inr body \<Rightarrow> if int (length body) \<noteq> n \<or> sha256_bytes body \<noteq> digest then Inl provenance_gap else Inr body))
      | _ \<Rightarrow> Inl (WorkflowError ''UPLOAD_INCOMPLETE'' 422))"

definition durable_evidence_id :: "Env \<Rightarrow> ArtifactRow \<Rightarrow> EvidenceUnit \<Rightarrow> failure + string" where
  "durable_evidence_id env f u =
     (case stable_id ''ev'' [JStr (ArtifactRow.tenant_id f),
          JStr (if falsy (ArtifactRow.submission_id f) then ArtifactRow.role f else the (ArtifactRow.submission_id f)),
          JStr (ArtifactRow.ident f), JStr (EvidenceUnit.artifact_hash u), env_locator_json env (EvidenceUnit.locator u),
          JStr (EvidenceUnit.normalized_hash u)] of
        Inl msg \<Rightarrow> Inl (Repo (ValueError msg)) | Inr i \<Rightarrow> Inr i)"

definition rebound_unit :: "(string \<Rightarrow> string option) \<Rightarrow> string \<Rightarrow> EvidenceUnit \<Rightarrow> EvidenceUnit" where
  "rebound_unit ids aid u = (let rename = (\<lambda>e. case ids e of None \<Rightarrow> e | Some i \<Rightarrow> i) in
     u\<lparr>EvidenceUnit.evidence_id := rename (EvidenceUnit.evidence_id u), EvidenceUnit.artifact_id := aid,
       EvidenceUnit.relations := map (\<lambda>r. r\<lparr>EvidenceRelation.target_evidence_id := rename (EvidenceRelation.target_evidence_id r)\<rparr>)
         (EvidenceUnit.relations u)\<rparr>)"

fun parsing :: "parser_failure + 'a \<Rightarrow> failure + 'a" where
  "parsing (Inl (Rejected cd)) = Inl (ParseRejected cd)"
| "parsing (Inl (InvalidUnit e)) = Inl (Repo (ContractError e))"
| "parsing (Inl (Crashed nm)) = Inl (RuntimeFailure nm)"
| "parsing (Inr units) = Inr units"

definition parse_bytes :: "Env \<Rightarrow> ArtifactRow \<Rightarrow> bytes \<Rightarrow> failure + EvidenceUnit list" where
  "parse_bytes env f body =
     and_then (parsing (env_parse env f body)) (\<lambda>units.
     and_then (collect (\<lambda>u. and_then (durable_evidence_id env f u) (\<lambda>i. Inr (EvidenceUnit.evidence_id u, i))) units) (\<lambda>pairs.
     Inr (map (rebound_unit (\<lambda>e. map_option snd (dict_by fst pairs e)) (ArtifactRow.ident f)) units)))"

end
