(* ===== verification/Pipeline.thy ===== *)
theory Pipeline
  imports ModelStage RateLimit
begin

text \<open>
  \<open>_run_submission_pipeline\<close> of \<open>web/workflows.py\<close>: from the sealed upload of a submission to an assessment
  that waits for review, and \<open>process_job\<close>, which runs it for a claimed job.  The four model stages are
  an argument, so that what is proved of the pipeline holds whatever the models answer;
  \<open>gateway_stages\<close> is the argument the code passes.
\<close>

section \<open>Parameters\<close>

text \<open>pydantic's dumps and validations of the models the pipeline stores or sends.\<close>

record Pydantic =
  evidence_dump :: "EvidenceUnit \<Rightarrow> json"
  evidence_list_of :: "json \<Rightarrow> contract_error + EvidenceUnit list"
  plan_inputs_json :: "EvidenceMapPatch \<Rightarrow> AssessmentBlueprint \<Rightarrow> AssessmentPlanningPolicy \<Rightarrow> json"
  plan_dump :: "AssessmentPlan \<Rightarrow> json"
  plan_of :: "json \<Rightarrow> contract_error + AssessmentPlan"
  policy_of :: "json \<Rightarrow> contract_error + BlueprintPolicy"
  assessment_dump :: "Assessment \<Rightarrow> json"
  map_codec :: "(EvidenceMapRequest, EvidenceMapPatch) Codec"
  question_codec :: "(QuestionBuildRequest, QuestionGenerationResult) Codec"
  review_codec :: "(QuestionReviewRequest, QuestionReviewResult) Codec"
  guide_codec :: "(GuideBuildRequest, EvaluationGuide) Codec"

record Stages =
  map_stage :: "EvidenceMapRequest \<Rightarrow> EvidenceMapPatch act"
  question_stage :: "string \<Rightarrow> QuestionBuildRequest \<Rightarrow> QuestionGenerationResult act"
  review_stage :: "string \<Rightarrow> QuestionReviewRequest \<Rightarrow> QuestionReviewResult act"
  guide_stage :: "GuideBuildRequest \<Rightarrow> EvaluationGuide act"

definition gateway_stages :: "Env \<Rightarrow> Pydantic \<Rightarrow> JobRow \<Rightarrow> Stages" where
  "gateway_stages env P job = \<lparr>
     map_stage = gateway_stage env (map_codec P) job ''P06_EVIDENCE_MAP_V1'' [],
     question_stage = gateway_stage env (question_codec P) job ''P07_QUESTION_BUILD_V1'',
     review_stage = gateway_stage env (review_codec P) job ''P08_QUESTION_REVIEW_V1'',
     guide_stage = gateway_stage env (guide_codec P) job ''P09_GUIDE_BUILD_V1'' []\<rparr>"

definition context_check :: "context_error option \<Rightarrow> unit act" where
  "context_check r = pass (case r of None \<Rightarrow> Inr () | Some e \<Rightarrow> Inl (ContextViolation e))"

section \<open>Parsing\<close>

definition parse_inputs :: "ArtifactRow \<Rightarrow> json" where
  "parse_inputs f = JObj [(''artifact_id'', JStr (ArtifactRow.ident f)), (''artifact_sha256'', opt_str (ArtifactRow.sha256 f)),
     (''artifact_byte_size'', case ArtifactRow.byte_size f of None \<Rightarrow> JNull | Some n \<Rightarrow> JInt n),
     (''declared_media_type'', JStr (ArtifactRow.declared_media_type f)), (''media_type'', opt_str (ArtifactRow.media_type f))]"

text \<open>\<open>output.get("evidence_units", [])\<close>.\<close>

fun cached_units :: "json \<Rightarrow> json" where
  "cached_units (JObj kvs) = (case map_of kvs ''evidence_units'' of None \<Rightarrow> JList [] | Some v \<Rightarrow> v)"
| "cached_units _ = JNull"

definition parse_stage :: "Env \<Rightarrow> Pydantic \<Rightarrow> JobRow \<Rightarrow> ArtifactRow \<Rightarrow> EvidenceUnit list act" where
  "parse_stage env P job f =
     seq (stage_policy_hash env job) (\<lambda>pol.
     seq (look (\<lambda>w. stage_by_key (JobRow.tenant_id job) ''SUBMISSION_PARSE'' (parse_inputs f) pol PARSER_VERSION (base w))) (\<lambda>cached.
     case cached_output cached of
       Some (r, j) \<Rightarrow>
         seq (pass (converted (evidence_list_of P (cached_units j)))) (\<lambda>units.
         seq (refuse_if (units = []) ''STAGE_RESUME_REUSE_MISSING'' 409) (\<lambda>_.
         seq (record_stage_reuse job r) (\<lambda>_. give units)))
     | None \<Rightarrow>
         seq (assert_application_stage_may_execute job ''SUBMISSION_PARSE'') (\<lambda>_.
         seq (pass (and_then (verified_artifact_bytes env f) (parse_bytes env f))) (\<lambda>units.
         seq (save_stage_run (stage_args job ''SUBMISSION_PARSE'' (parse_inputs f) pol PARSER_VERSION
            (JObj [(''evidence_units'', JList (map (evidence_dump P) units))]))) (\<lambda>_. give units)))))"

definition evidence_row :: "JobRow \<Rightarrow> SubmissionRow \<Rightarrow> ArtifactRow \<Rightarrow> EvidenceUnit \<Rightarrow> EvidenceRow" where
  "evidence_row job sub f u = \<lparr>EvidenceRow.ident = EvidenceUnit.evidence_id u, tenant_id = JobRow.tenant_id job,
     submission_id = SubmissionRow.ident sub, artifact_id = ArtifactRow.ident f, data = u\<rparr>"

definition merge_evidence :: "JobRow \<Rightarrow> SubmissionRow \<Rightarrow> ArtifactRow \<Rightarrow> EvidenceUnit list \<Rightarrow> unit act" where
  "merge_evidence job sub f units = adjust (\<lambda>w. w\<lparr>evidence_rows :=
     foldl (\<lambda>rows u. merge_row EvidenceRow.ident (evidence_row job sub f u) rows) (evidence_rows w) units\<rparr>)"

definition bundle_of :: "JobRow \<Rightarrow> SubmissionRow \<Rightarrow> ArtifactRow \<Rightarrow> EvidenceUnit list \<Rightarrow> string \<Rightarrow> EvidenceBundle" where
  "bundle_of job sub f units bid = \<lparr>EvidenceBundle.schema_version = LEGACY_SCHEMA_VERSION, bundle_id = bid,
     tenant_id = JobRow.tenant_id job, activity_id = SubmissionRow.activity_id sub, submission_id = SubmissionRow.ident sub,
     context_mode = ContextMode.CLOSED, allowed_evidence_ids = map EvidenceUnit.evidence_id units,
     evidence_units = units, course_passages = []\<rparr>"

section \<open>Planning\<close>

definition plan_stage :: "Env \<Rightarrow> Pydantic \<Rightarrow> JobRow \<Rightarrow> EvidenceMapPatch \<Rightarrow> AssessmentBlueprint \<Rightarrow> AssessmentPlanningPolicy
    \<Rightarrow> AssessmentPlan act" where
  "plan_stage env P job mp bp pol =
     (let ins = plan_inputs_json P mp bp pol in
      seq (stage_policy_hash env job) (\<lambda>h.
      seq (look (\<lambda>w. stage_by_key (JobRow.tenant_id job) ''ASSESSMENT_PLAN'' ins h PLANNER_VERSION (base w))) (\<lambda>cached.
      case cached_output cached of
        Some (r, j) \<Rightarrow> seq (pass (converted (plan_of P j))) (\<lambda>pl. seq (record_stage_reuse job r) (\<lambda>_. give pl))
      | None \<Rightarrow>
          seq (assert_application_stage_may_execute job ''ASSESSMENT_PLAN'') (\<lambda>_.
          seq (pass (converted (build_assessment_plan mp bp pol))) (\<lambda>pl.
          seq (save_stage_run (stage_args job ''ASSESSMENT_PLAN'' ins h PLANNER_VERSION (plan_dump P pl))) (\<lambda>_. give pl))))))"

section \<open>One question\<close>

text \<open>What the loop over the opportunities keeps fixed.\<close>

record Drafting =
  draft_submission :: SubmissionRow
  draft_job :: JobRow
  draft_plan :: AssessmentPlan
  draft_mapping :: EvidenceMapPatch
  draft_bundle :: EvidenceBundle
  draft_generation :: QuestionGenerationPolicy
  draft_validation :: QuestionValidationPolicy

definition planning_score_of :: "QuestionOpportunity \<Rightarrow> pyfloat" where
  "planning_score_of q = fl (fadd (fadd (QuestionOpportunity.activity_priority q) (QuestionOpportunity.evidence_fit q))
     (QuestionOpportunity.opportunity_quality q) / 3)"

definition selected_question :: "QuestionCandidate \<Rightarrow> QuestionOpportunity \<Rightarrow> string \<Rightarrow> SelectedQuestion" where
  "selected_question c q qid = \<lparr>SelectedQuestion.question_id = qid, source_candidate_id = QuestionCandidate.candidate_id c,
     opportunity_id = QuestionCandidate.opportunity_id c, opportunity_template_id = QuestionCandidate.opportunity_template_id c,
     dimension_id = QuestionCandidate.dimension_id c, variant_id = QuestionCandidate.variant_id c,
     cognitive_operation = QuestionCandidate.cognitive_operation c, response_format = QuestionCandidate.response_format c,
     difficulty = QuestionCandidate.difficulty c, estimated_minutes = QuestionCandidate.estimated_minutes c,
     question_text = QuestionCandidate.question_text c, anchor = QuestionCandidate.anchor c,
     evidence_ids = QuestionCandidate.evidence_ids c, course_source_ids = QuestionCandidate.course_source_ids c,
     citations = QuestionCandidate.citations c, choices = QuestionCandidate.choices c,
     student_justification_required = QuestionCandidate.student_justification_required c,
     preliminary_guide = QuestionCandidate.preliminary_guide c, planning_score = planning_score_of q\<rparr>"

definition accepted_review :: "QuestionReviewResult \<Rightarrow> bool" where
  "accepted_review r \<longleftrightarrow> QuestionReviewResult.status r = ''READY''
     \<and> (case QuestionReviewResult.review r of None \<Rightarrow> False | Some x \<Rightarrow> QuestionSemanticReview.decision x = ReviewDecision.ACCEPT)"

definition keep_question :: "Drafting \<Rightarrow> QuestionCandidate \<Rightarrow> QuestionGenerationResult \<Rightarrow> string \<Rightarrow> QuestionReviewResult \<Rightarrow> unit act" where
  "keep_question c cand g qid r = (let tid = JobRow.tenant_id (draft_job c); sid = SubmissionRow.ident (draft_submission c) in
     adjust (\<lambda>w. w\<lparr>generated_questions := merge_row GeneratedQuestionRow.ident \<lparr>GeneratedQuestionRow.ident = QuestionCandidate.candidate_id cand,
          tenant_id = tid, submission_id = sid, data = g\<rparr> (generated_questions w),
        question_reviews := merge_row QuestionReviewRow.question_id \<lparr>QuestionReviewRow.question_id = qid,
          tenant_id = tid, submission_id = sid, data = r\<rparr> (question_reviews w)\<rparr>))"

text \<open>The review of a generated candidate, and the question it becomes.\<close>

definition judge_candidate :: "Stages \<Rightarrow> Drafting \<Rightarrow> string \<Rightarrow> QuestionOpportunity \<Rightarrow> QuestionGenerationResult \<Rightarrow> QuestionCandidate
    \<Rightarrow> SelectedQuestion option act" where
  "judge_candidate S c oid q g cand =
     (let job = draft_job c; sub = draft_submission c in
      seq (set_submission sub job SubmissionProcessingStatus.VALIDATING_QUESTIONS ''QUESTION_REVIEW'' (fl (55 / 100))) (\<lambda>_.
      seq (model_of QuestionReviewRequest_validate \<lparr>QuestionReviewRequest.schema_version = LEGACY_SCHEMA_VERSION,
         generation_result = g, opportunity = q, evidence_bundle = draft_bundle c, validation_policy = draft_validation c\<rparr>) (\<lambda>rreq.
      seq (review_stage S oid rreq) (\<lambda>r.
      seq (context_check (validate_review_result r g (draft_validation c))) (\<lambda>_.
      seq (cancellation_checkpoint job) (\<lambda>_.
      if \<not> accepted_review r then give None
      else
        seq (make_id ''question'' [JStr (SubmissionRow.ident sub), JStr (QuestionCandidate.candidate_id cand)]) (\<lambda>qid.
        seq (model_of SelectedQuestion_validate (selected_question cand q qid)) (\<lambda>x.
        seq (keep_question c cand g qid r) (\<lambda>_. give (Some x))))))))))"

text \<open>The body of the loop: \<open>None\<close> when the opportunity must be replaced from the reserve.\<close>

definition try_opportunity :: "Stages \<Rightarrow> Drafting \<Rightarrow> string \<Rightarrow> SelectedQuestion option act" where
  "try_opportunity S c oid =
     seq (pass (case dict_by QuestionOpportunity.opportunity_id (EvidenceMapPatch.opportunities (draft_mapping c)) oid of
        None \<Rightarrow> Inl (MissingKey oid) | Some q \<Rightarrow> Inr q)) (\<lambda>q.
     seq (model_of QuestionBuildRequest_validate \<lparr>QuestionBuildRequest.schema_version = LEGACY_SCHEMA_VERSION,
        plan = draft_plan c, opportunity = q, evidence_bundle = draft_bundle c, generation_policy = draft_generation c, avoid = []\<rparr>) (\<lambda>req.
     seq (question_stage S oid req) (\<lambda>g.
     seq (context_check (validate_generation_result g q (draft_bundle c))) (\<lambda>_.
     seq (cancellation_checkpoint (draft_job c)) (\<lambda>_.
     case (if QuestionGenerationResult.status g = ''READY'' then QuestionGenerationResult.candidate g else None) of
       None \<Rightarrow> give None | Some cand \<Rightarrow> judge_candidate S c oid q g cand)))))"

section \<open>The loop over the opportunities\<close>

text \<open>The primaries in order; one that fails is replaced by the next reserve at the end of the queue, and
  without a reserve the loop stops.\<close>

function question_loop :: "Stages \<Rightarrow> Drafting \<Rightarrow> int \<Rightarrow> string list \<Rightarrow> string list \<Rightarrow> SelectedQuestion list
    \<Rightarrow> SelectedQuestion list act" where
  "question_loop S c n [] reserves chosen = give chosen"
| "question_loop S c n (oid # rest) reserves chosen =
     (if n \<le> int (length chosen) then give chosen
      else seq (try_opportunity S c oid) (\<lambda>res. case res of
          Some x \<Rightarrow> question_loop S c n rest reserves (chosen @ [x])
        | None \<Rightarrow> (case reserves of [] \<Rightarrow> give chosen
            | r # rs \<Rightarrow> question_loop S c n (rest @ [r]) rs chosen)))"
  by pat_completeness auto

termination
  by (relation "measure (\<lambda>(S, c, n, primary, reserves, chosen). length primary + length reserves)") auto

section \<open>The assessment\<close>

definition RENDERER_VERSION :: string where
  "RENDERER_VERSION = ''stage1-renderer/2.1.0''"

definition job_control_records :: "string \<Rightarrow> string option \<Rightarrow> string option \<Rightarrow> JobStore \<Rightarrow> JobControlRecord list" where
  "job_control_records tid jid rid s =
     sort_key (\<lambda>r. (instant (JobControlRecord.requested_at r), JobControlRecord.control_id r))
       (filter (\<lambda>r. JobControlRecord.tenant_id r = tid
          \<and> (case jid of None \<Rightarrow> True | Some j \<Rightarrow> JobControlRecord.job_id r = j)
          \<and> (case rid of None \<Rightarrow> True | Some j \<Rightarrow> JobControlRecord.resulting_job_id r = Some j)) (controls s))"

definition source_job :: "string \<Rightarrow> string \<Rightarrow> JobStore \<Rightarrow> string option" where
  "source_job tid cur s = map_option JobControlRecord.job_id
     (find (\<lambda>r. JobControlRecord.action r \<in> {JobControlActionType.RETRY, JobControlActionType.RESUME}
        \<and> JobControlRecord.status r = JobControlStatus.APPLIED) (job_control_records tid None (Some cur) s))"

lemma source_job_known: "source_job tid cur s = Some src \<Longrightarrow> src \<in> set (map JobControlRecord.job_id (controls s))"
  by (auto simp: source_job_def job_control_records_def dest!: find_SomeD)

text \<open>\<open>_job_lineage_ids\<close>: the chain of sources, the first one in front; a job is never visited twice.\<close>

function lineage :: "JobStore \<Rightarrow> string \<Rightarrow> string list \<Rightarrow> string \<Rightarrow> string list" where
  "lineage s tid seen cur = (case source_job tid cur s of None \<Rightarrow> seen
     | Some src \<Rightarrow> if src \<in> set seen then seen else lineage s tid (src # seen) src)"
  by pat_completeness auto

termination
proof (relation "measure (\<lambda>(s, tid, seen, cur). card (set (map JobControlRecord.job_id (controls s)) - set seen))")
  fix s tid seen cur src
  assume "source_job tid cur s = Some src" and "src \<notin> set seen"
  then have "set (map JobControlRecord.job_id (controls s)) - set (src # seen)
      \<subset> set (map JobControlRecord.job_id (controls s)) - set seen"
    using source_job_known by auto
  then show "((s, tid, src # seen, src), (s, tid, seen, cur))
      \<in> measure (\<lambda>(s, tid, seen, cur). card (set (map JobControlRecord.job_id (controls s)) - set seen))"
    by (simp add: psubset_card_mono)
qed simp

definition job_lineage_ids :: "JobRow \<Rightarrow> JobStore \<Rightarrow> string list" where
  "job_lineage_ids job s = lineage s (JobRow.tenant_id job) [JobRow.ident job] (JobRow.ident job)"

definition model_calls :: "string \<Rightarrow> string option \<Rightarrow> WorkStore \<Rightarrow> ModelCallLedger list" where
  "model_calls tid jid w = map ModelCallRow.data (sort_key ModelCallRow.ident
     (filter (\<lambda>r. ModelCallRow.tenant_id r = tid \<and> (case jid of None \<Rightarrow> True | Some j \<Rightarrow> ModelCallRow.job_id r = j)) (model_call_rows w)))"

definition lineage_ledgers :: "JobRow \<Rightarrow> WorkStore \<Rightarrow> ModelCallLedger list" where
  "lineage_ledgers job w = filter (\<lambda>l. ModelCallLedger.prompt_id l \<noteq> ''P09_GUIDE_BUILD_V1'')
     (concat (map (\<lambda>jid. model_calls (JobRow.tenant_id job) (Some jid) w) (job_lineage_ids job (base w))))"

definition snapshots_of :: "ModelCallLedger list \<Rightarrow> (string \<times> string) list" where
  "snapshots_of ls = foldl (\<lambda>d l. dict_set (ModelCallLedger.prompt_id l) (ModelRoute.model_snapshot (ModelCallLedger.route l)) d) [] ls"

definition hashes_with_role :: "string \<Rightarrow> ArtifactRow list \<Rightarrow> string list" where
  "hashes_with_role rl fs = concat (map (\<lambda>f. if ArtifactRow.role f = rl \<and> \<not> falsy (ArtifactRow.sha256 f)
     then [the (ArtifactRow.sha256 f)] else []) fs)"

definition in_utc :: "datetime \<Rightarrow> datetime" where
  "in_utc t = (case utc_offset t of None \<Rightarrow> t\<lparr>utc_offset := Some 0\<rparr> | Some _ \<Rightarrow> \<lparr>wall_us = instant t, utc_offset = Some 0\<rparr>)"

definition dimension_coverage :: "EvidenceMapPatch \<Rightarrow> SelectedQuestion list \<Rightarrow> BlueprintDimension \<Rightarrow> CoverageItem" where
  "dimension_coverage mp qs d =
     (let own = filter (\<lambda>o'. QuestionOpportunity.dimension_id o' = BlueprintDimension.dimension_id d) (EvidenceMapPatch.opportunities mp)
      in \<lparr>CoverageItem.dimension_id = BlueprintDimension.dimension_id d,
          available_variant_count = int (length (BlueprintDimension.evidence_variants d)),
          available_opportunity_count = int (length own),
          selected_opportunity_count = int (length (filter (\<lambda>q. SelectedQuestion.dimension_id q = BlueprintDimension.dimension_id d) qs)),
          reused_variant_count = 0,
          evidence_unit_count = int (card (set (concat (map QuestionOpportunity.evidence_ids own)))), diagnostics = []\<rparr>)"

text \<open>\<open>_assemble_assessment\<close> after its reads of the store.\<close>

definition assessment_of :: "string \<Rightarrow> ActivityRow \<Rightarrow> SubmissionRow \<Rightarrow> AssessmentBlueprint \<Rightarrow> AssessmentPlan \<Rightarrow> EvidenceMapPatch
    \<Rightarrow> SelectedQuestion list \<Rightarrow> ArtifactRow \<Rightarrow> JobRow \<Rightarrow> ArtifactRow list \<Rightarrow> (string \<times> string) list \<Rightarrow> string \<Rightarrow> CoverageItem list
    \<Rightarrow> Assessment" where
  "assessment_of aid act sub bp pl mp qs f job course_files snaps digest cov =
     (let jm = StructuredJustificationPolicy.mode (AssessmentConstraints.structured_justification_policy (AssessmentBlueprint.assessment_constraints bp))
      in \<lparr>Assessment.schema_version = LEGACY_SCHEMA_VERSION, assessment_id = aid, tenant_id = JobRow.tenant_id job,
          activity_id = ActivityRow.ident act, submission_id = SubmissionRow.ident sub, subject_ref = SubmissionRow.subject_ref sub,
          status = WorkflowStatus.NEEDS_REVIEW, context_mode = ContextMode.CLOSED, assessment_plan_id = AssessmentPlan.plan_id pl,
          question_count = AssessmentPlan.question_count pl, questions = qs, coverage = cov,
          structured_justification = \<lparr>StructuredJustificationSummary.mode = jm,
            required_question_ids = required_ids qs,
            limited_evidence_notice_required = (jm \<noteq> StructuredJustificationMode.ALL)\<rparr>,
          diagnostics = [],
          lineage = \<lparr>Lineage.assignment_prompt_hashes = hashes_with_role ''ASSIGNMENT_PROMPT'' course_files,
            rubric_hashes = hashes_with_role ''RUBRIC'' course_files, submission_hashes = [digest],
            blueprint_id = AssessmentBlueprint.blueprint_id bp, blueprint_version = AssessmentBlueprint.blueprint_version bp,
            parser_versions = [(if falsy (ArtifactRow.media_type f) then ''unknown'' else the (ArtifactRow.media_type f), PARSER_VERSION)],
            prompt_versions = map (\<lambda>(k, v). (k, PROMPT_VERSION)) snaps, schema_version = LEGACY_SCHEMA_VERSION, model_snapshots = snaps,
            policy_hash = canonical_hash (ActivityRow.blueprint_policy act), planner_version = PLANNER_VERSION,
            renderer_version = RENDERER_VERSION\<rparr>,
          created_at = in_utc (SubmissionRow.created_at sub), approved_by = None, approved_at = None\<rparr>)"

definition assemble_assessment :: "ActivityRow \<Rightarrow> SubmissionRow \<Rightarrow> AssessmentBlueprint \<Rightarrow> AssessmentPlan \<Rightarrow> EvidenceMapPatch
    \<Rightarrow> SelectedQuestion list \<Rightarrow> ArtifactRow \<Rightarrow> JobRow \<Rightarrow> Assessment act" where
  "assemble_assessment act sub bp pl mp qs f job =
     seq (each_act (\<lambda>d. model_of CoverageItem_validate (dimension_coverage mp qs d)) (AssessmentBlueprint.dimensions bp)) (\<lambda>cov.
     seq (look (\<lambda>w. snapshots_of (lineage_ledgers job w))) (\<lambda>snaps.
     seq (look (\<lambda>w. artifacts_for (ActivityRow.ident act) (JobRow.tenant_id job) None True (base w))) (\<lambda>course_files.
     seq (make_id ''assessment'' [JStr (SubmissionRow.ident sub), JStr (AssessmentPlan.plan_id pl),
        JList (map (\<lambda>q. JStr (SelectedQuestion.source_candidate_id q)) qs)]) (\<lambda>aid.
     seq (pass (case ArtifactRow.sha256 f of None \<Rightarrow> Inl (wrong_type ''submission_hashes'') | Some h \<Rightarrow> Inr h)) (\<lambda>digest.
     model_of Assessment_validate (assessment_of aid act sub bp pl mp qs f job course_files snaps digest cov))))))"

definition etag_text :: "json \<Rightarrow> string" where
  "etag_text v = [CHR 0x22] @ canonical_hash v @ [CHR 0x22]"

definition new_assessment_row :: "Pydantic \<Rightarrow> JobRow \<Rightarrow> SubmissionRow \<Rightarrow> Assessment \<Rightarrow> string \<Rightarrow> datetime \<Rightarrow> AssessmentRow" where
  "new_assessment_row P job sub a rid t = \<lparr>AssessmentRow.row_id = rid, assessment_id = Assessment.assessment_id a,
     tenant_id = JobRow.tenant_id job, submission_id = SubmissionRow.ident sub, version = 1, status = ''NEEDS_REVIEW'',
     etag = etag_text (assessment_dump P a), data = a, created_at = t\<rparr>"

definition new_guide_row :: "JobRow \<Rightarrow> SubmissionRow \<Rightarrow> Assessment \<Rightarrow> EvaluationGuide \<Rightarrow> GuideRow" where
  "new_guide_row job sub a g = \<lparr>GuideRow.guide_id = EvaluationGuide.guide_id g, assessment_id = Assessment.assessment_id a,
     tenant_id = JobRow.tenant_id job, submission_id = SubmissionRow.ident sub, data = g\<rparr>"

section \<open>The phases of the pipeline\<close>

text \<open>What the job works on: read once, before the first stage.\<close>

record Task =
  task_submission :: SubmissionRow
  task_activity :: ActivityRow
  task_blueprint :: AssessmentBlueprint
  task_policy :: BlueprintPolicy
  task_artifact :: ArtifactRow

definition load_task :: "Pydantic \<Rightarrow> JobRow \<Rightarrow> Task act" where
  "load_task P job = (let tid = JobRow.tenant_id job in
     seq (scoped_submission (JobRow.aggregate_id job) tid) (\<lambda>sub.
     seq (scoped_activity (SubmissionRow.activity_id sub) tid) (\<lambda>act.
     seq (stop_if (SubmissionRow.blueprint_version sub = None) not_approved) (\<lambda>_.
     seq (approved_blueprint (ActivityRow.ident act) tid (SubmissionRow.blueprint_version sub)) (\<lambda>(_, bp).
     seq (pass (converted (policy_of P (ActivityRow.blueprint_policy act)))) (\<lambda>pol.
     seq (look (\<lambda>w. artifacts_for (ActivityRow.ident act) tid (Some (SubmissionRow.ident sub)) True (base w))) (\<lambda>fs.
     seq (pass (case fs of [] \<Rightarrow> Inl (RuntimeFailure ''IndexError'') | f # _ \<Rightarrow> Inr f)) (\<lambda>f.
     give \<lparr>task_submission = sub, task_activity = act, task_blueprint = bp, task_policy = pol, task_artifact = f\<rparr>))))))))"

definition evidence_phase :: "Env \<Rightarrow> Pydantic \<Rightarrow> JobRow \<Rightarrow> Task \<Rightarrow> EvidenceBundle act" where
  "evidence_phase env P job k = (let sub = task_submission k; f = task_artifact k in
     seq (set_submission sub job SubmissionProcessingStatus.PARSING ''SUBMISSION_PARSE'' (fl (8 / 100))) (\<lambda>_.
     seq (parse_stage env P job f) (\<lambda>units.
     seq (cancellation_checkpoint job) (\<lambda>_.
     seq (merge_evidence job sub f units) (\<lambda>_.
     seq (make_id ''bundle'' [JStr (SubmissionRow.ident sub), opt_str (ArtifactRow.sha256 f)]) (\<lambda>bid.
     model_of EvidenceBundle_validate (bundle_of job sub f units bid)))))))"

definition mapping_phase :: "Stages \<Rightarrow> JobRow \<Rightarrow> Task \<Rightarrow> EvidenceBundle \<Rightarrow> EvidenceMapPatch act" where
  "mapping_phase S job k bundle = (let sub = task_submission k in
     seq (set_submission sub job SubmissionProcessingStatus.EVIDENCE_READY ''EVIDENCE_MAP'' (fl (1 / 5))) (\<lambda>_.
     seq (model_of EvidenceMapRequest_validate \<lparr>EvidenceMapRequest.schema_version = LEGACY_SCHEMA_VERSION,
        blueprint = task_blueprint k, evidence_bundle = bundle\<rparr>) (\<lambda>req.
     seq (map_stage S req) (\<lambda>mp.
     seq (context_check (validate_evidence_map mp (task_blueprint k) bundle)) (\<lambda>_.
     seq (adjust (\<lambda>w. w\<lparr>evidence_maps := merge_row EvidenceMapRow.submission_id \<lparr>EvidenceMapRow.submission_id = SubmissionRow.ident sub,
        tenant_id = JobRow.tenant_id job, data = mp\<rparr> (evidence_maps w)\<rparr>)) (\<lambda>_. give mp))))))"

definition planning_phase :: "Env \<Rightarrow> Pydantic \<Rightarrow> JobRow \<Rightarrow> Task \<Rightarrow> EvidenceMapPatch \<Rightarrow> AssessmentPlan act" where
  "planning_phase env P job k mp = (let sub = task_submission k in
     seq (set_submission sub job SubmissionProcessingStatus.PLANNING ''ASSESSMENT_PLAN'' (fl (32 / 100))) (\<lambda>_.
     seq (plan_stage env P job mp (task_blueprint k) (BlueprintPolicy.planning_policy (task_policy k))) (\<lambda>pl.
     seq (context_check (validate_assessment_plan pl mp)) (\<lambda>_.
     seq (cancellation_checkpoint job) (\<lambda>_.
     seq (adjust (\<lambda>w. w\<lparr>assessment_plans := merge_row AssessmentPlanRow.submission_id \<lparr>AssessmentPlanRow.submission_id = SubmissionRow.ident sub,
        tenant_id = JobRow.tenant_id job, data = pl\<rparr> (assessment_plans w)\<rparr>)) (\<lambda>_. give pl))))))"

text \<open>The policies with the defaults of their classes.\<close>

definition generation_policy_with :: "string \<Rightarrow> QuestionGenerationPolicy" where
  "generation_policy_with pid = \<lparr>QuestionGenerationPolicy.schema_version = LEGACY_SCHEMA_VERSION, policy_id = pid,
     max_anchor_fragments = 4, max_course_passages = 8, require_accessible_alternative = True, max_local_regenerations = 1\<rparr>"

definition validation_policy_with :: "string \<Rightarrow> QuestionValidationPolicy" where
  "validation_policy_with pid = \<lparr>QuestionValidationPolicy.schema_version = LEGACY_SCHEMA_VERSION, policy_id = pid,
     minimum_groundedness = fl (9 / 10), minimum_anchor_sufficiency = fl (8 / 10), minimum_answerability = fl (85 / 100),
     minimum_criterion_relevance = fl (8 / 10), escalate_below_confidence = fl (65 / 100), critical_failure_codes = []\<rparr>"

definition question_phase :: "Stages \<Rightarrow> JobRow \<Rightarrow> Task \<Rightarrow> EvidenceBundle \<Rightarrow> EvidenceMapPatch \<Rightarrow> AssessmentPlan
    \<Rightarrow> SelectedQuestion list act" where
  "question_phase S job k bundle mp pl = (let sub = task_submission k; aid = ActivityRow.ident (task_activity k) in
     seq (make_id ''policy'' [JStr aid, JStr ''question_generation'']) (\<lambda>gid.
     seq (model_of QuestionGenerationPolicy_validate (generation_policy_with gid)) (\<lambda>gp.
     seq (make_id ''policy'' [JStr aid, JStr ''question_validation'']) (\<lambda>vid.
     seq (model_of QuestionValidationPolicy_validate (validation_policy_with vid)) (\<lambda>vp.
     seq (set_submission sub job SubmissionProcessingStatus.GENERATING ''QUESTION_GENERATE'' (fl (2 / 5))) (\<lambda>_.
     question_loop S \<lparr>draft_submission = sub, draft_job = job, draft_plan = pl, draft_mapping = mp, draft_bundle = bundle,
         draft_generation = gp, draft_validation = vp\<rparr>
       (AssessmentPlan.question_count pl) (AssessmentPlan.selected_opportunity_ids pl) (AssessmentPlan.reserve_opportunity_ids pl) []))))))"

definition publish_row :: "Pydantic \<Rightarrow> JobRow \<Rightarrow> SubmissionRow \<Rightarrow> Assessment \<Rightarrow> EvaluationGuide \<Rightarrow> string \<Rightarrow> datetime \<Rightarrow> datetime
    \<Rightarrow> unit act" where
  "publish_row P job sub a g rid t now =
     seq (transact (finalize_submission_assessment (JobRow.ident job) (JobRow.tenant_id job)
        (new_assessment_row P job sub a rid t) (new_guide_row job sub a g) now)) (\<lambda>published.
     stop_if (\<not> published) Cancelled)"

definition finalize :: "Pydantic \<Rightarrow> JobRow \<Rightarrow> SubmissionRow \<Rightarrow> Assessment \<Rightarrow> EvaluationGuide \<Rightarrow> unit act" where
  "finalize P job sub a g =
     seq (make_id ''assessmentrow'' [JStr (Assessment.assessment_id a), JInt 1]) (\<lambda>rid.
     seq (mark_resume_floor job ''ASSEMBLE'') (\<lambda>_.
     seq utc_now (\<lambda>t. seq utc_now (\<lambda>now. publish_row P job sub a g rid t now))))"

definition publish_phase :: "Pydantic \<Rightarrow> Stages \<Rightarrow> JobRow \<Rightarrow> Task \<Rightarrow> EvidenceBundle \<Rightarrow> EvidenceMapPatch \<Rightarrow> AssessmentPlan
    \<Rightarrow> SelectedQuestion list \<Rightarrow> unit act" where
  "publish_phase P S job k bundle mp pl qs = (let sub = task_submission k in
     seq (assemble_assessment (task_activity k) sub (task_blueprint k) pl mp qs (task_artifact k) job) (\<lambda>a.
     seq (make_id ''guide'' [JStr (Assessment.assessment_id a), JStr (SubmissionRow.ident sub)]) (\<lambda>gid.
     seq (set_submission sub job SubmissionProcessingStatus.GUIDE_READY ''GUIDE_BUILD'' (fl (82 / 100))) (\<lambda>_.
     seq (model_of GuideBuildRequest_validate \<lparr>GuideBuildRequest.schema_version = LEGACY_SCHEMA_VERSION, guide_id = gid,
        assessment = a, evidence_bundle = bundle\<rparr>) (\<lambda>req.
     seq (guide_stage S req) (\<lambda>g.
     seq (context_check (validate_evaluation_guide g a bundle)) (\<lambda>_.
     seq (cancellation_checkpoint job) (\<lambda>_.
     if EvaluationGuide.status g \<noteq> ''READY'' then
       (if EvaluationGuide.status g = ''NEEDS_REVIEW''
        then terminal_domain_failure sub job ''NEEDS_REVIEW'' (EvaluationGuide.diagnostics g) ''GUIDE_BUILD''
        else fail_with (WorkflowError ''GUIDE_TECHNICAL_FAILURE'' 500))
     else finalize P job sub a g))))))))"

definition run_submission_pipeline :: "Env \<Rightarrow> Pydantic \<Rightarrow> Stages \<Rightarrow> JobRow \<Rightarrow> unit act" where
  "run_submission_pipeline env P S job =
     seq (load_task P job) (\<lambda>k. let sub = task_submission k in
     seq (evidence_phase env P job k) (\<lambda>bundle.
     seq (mapping_phase S job k bundle) (\<lambda>mp.
     seq (planning_phase env P job k mp) (\<lambda>pl.
     if AssessmentPlan.status pl \<noteq> ''READY''
     then terminal_domain_failure sub job (AssessmentPlan.status pl) (AssessmentPlan.diagnostics pl) ''ASSESSMENT_PLAN''
     else
       seq (question_phase S job k bundle mp pl) (\<lambda>qs.
       if int (length qs) \<noteq> AssessmentPlan.question_count pl
       then seq (error_diagnostic ''ASSESSMENT_PLAN_INFEASIBLE'' ''No fue posible validar exactamente N preguntas tras usar la reserva.'' False)
              (\<lambda>d. terminal_domain_failure sub job ''ASSESSMENT_PLAN_INFEASIBLE'' [d] ''ASSESSMENT_PLAN'')
       else publish_phase P S job k bundle mp pl qs)))))"

section \<open>Processing a job\<close>

definition start_job :: "JobRow \<Rightarrow> unit act" where
  "start_job job =
     seq (cancellation_checkpoint job) (\<lambda>_.
     seq (job_status (JobRow.ident job) (JobRow.tenant_id job)) (\<lambda>st.
     let n = (if JobStatus.status st = ''RUNNING'' \<and> JobStatus.attempt st \<noteq> 0 then JobStatus.attempt st else JobStatus.attempt st + 1) in
     seq (case JobStatus.started_at st of Some t \<Rightarrow> give t | None \<Rightarrow> utc_now) (\<lambda>t.
     seq (save_status (st\<lparr>JobStatus.status := ''RUNNING'', JobStatus.attempt := max 1 n, JobStatus.started_at := Some t\<rparr>)) (\<lambda>_.
     cancellation_checkpoint job))))"

text \<open>The pipelines of the other kinds are arguments; a question action needs a processor.\<close>

definition run_kind :: "(JobRow \<Rightarrow> unit act) \<Rightarrow> (JobRow \<Rightarrow> unit act) \<Rightarrow> (JobRow \<Rightarrow> unit act) option \<Rightarrow> JobRow \<Rightarrow> unit act" where
  "run_kind activity submission processor job =
     (if JobRow.kind job = ''ACTIVITY'' then activity job
      else if JobRow.kind job = ''SUBMISSION'' then submission job
      else case (if JobRow.kind job = ''QUESTION_ACTION'' then processor else None) of
        Some p \<Rightarrow> p job | None \<Rightarrow> fail_with (WorkflowError ''JOB_KIND_INVALID'' 500))"

definition forget_floor :: "string \<Rightarrow> WorkStore \<Rightarrow> WorkStore" where
  "forget_floor jid w = w\<lparr>resume_floor_reached := filter (\<lambda>j. j \<noteq> jid) (resume_floor_reached w)\<rparr>"

text \<open>The handler's own failure propagates; \<open>finally\<close> runs in every case.\<close>

definition process_job :: "Env \<Rightarrow> (JobRow \<Rightarrow> unit act) \<Rightarrow> string \<Rightarrow> unit act" where
  "process_job env run jid w =
     (case get_job (base w) jid of
        None \<Rightarrow> (Inl (Repo (NotFound ''JobRow not found'')), w)
      | Some job \<Rightarrow>
          let (r, w1) = seq (start_job job) (\<lambda>_. run job) w;
              (r', w2) = (case r of
                  Inr _ \<Rightarrow> (Inr (), w1)
                | Inl e \<Rightarrow> if e = Cancelled then (Inr (), w1)
                    else let (cls, retry, cd) = classify_failure env e in
                      fail_job job cd ''The workflow failed at a content-minimizing boundary.'' cls retry w1)
          in (r', forget_floor jid w2))"

text \<open>\<open>run_once\<close> of \<open>web/worker.py\<close>: the exit status.\<close>

definition run_once :: "Env \<Rightarrow> (JobRow \<Rightarrow> unit act) \<Rightarrow> int \<Rightarrow> int act" where
  "run_once env run lease =
     seq utc_now (\<lambda>t0. seq utc_now (\<lambda>now.
     seq (transact (claim_next_job lease t0 now)) (\<lambda>claimed. case claimed of
        None \<Rightarrow> give 0
      | Some r \<Rightarrow>
          seq (process_job env run (JobRow.ident r)) (\<lambda>_.
          seq (job_status (JobRow.ident r) (JobRow.tenant_id r)) (\<lambda>st.
          give (if JobStatus.status st = ''FAILED'' then 1 else 0))))))"

end
