(* ===== verification/StoreOrder.thy ===== *)
theory StoreOrder
  imports Pipeline
begin

text \<open>
  What the worker's operations keep of the store.  A reflexive and transitive relation between the stores
  before and after an operation is respected by a composition when its parts respect it, whatever the
  values and exceptions in between; so it is enough to know the few writes the worker makes.
\<close>

section \<open>Respecting a relation\<close>

definition obeys :: "(WorkStore \<Rightarrow> WorkStore \<Rightarrow> bool) \<Rightarrow> 'a act \<Rightarrow> bool" where
  "obeys R m \<longleftrightarrow> (\<forall>w. R w (snd (m w)))"

lemma obeysD: "obeys R m \<Longrightarrow> m w = (r, w') \<Longrightarrow> R w w'"
  by (metis obeys_def snd_conv)

lemma obeys_split:
  "(\<And>x. obeys R (f x)) \<Longrightarrow> obeys R (case p of (x, y) \<Rightarrow> f x)"
  "(\<And>x y. obeys R (g x y)) \<Longrightarrow> obeys R (case p of (x, y) \<Rightarrow> g x y)"
  "obeys R a \<Longrightarrow> (\<And>x. obeys R (h x)) \<Longrightarrow> obeys R (case v of None \<Rightarrow> a | Some x \<Rightarrow> h x)"
  "obeys R a \<Longrightarrow> obeys R b \<Longrightarrow> obeys R (if t then a else b)"
  by (auto split: prod.splits option.splits)

locale store_order =
  fixes R :: "WorkStore \<Rightarrow> WorkStore \<Rightarrow> bool"
  assumes order_refl: "R w w" and order_trans: "R a b \<Longrightarrow> R b c \<Longrightarrow> R a c"
begin

lemma obeys_reads: "reads m \<Longrightarrow> obeys R m"
  by (simp add: obeys_def reads_def order_refl)

lemma obeys_basic: "obeys R (give x)" "obeys R (fail_with e)" "obeys R (pass r)" "obeys R (look f)"
  "obeys R (reading g)" "obeys R (stop_if b e)" "obeys R (refuse_if b cd st)" "obeys R (model_of v y)"
  "obeys R (make_id p parts)" "obeys R (error_diagnostic cd msg retry)"
  by (rule obeys_reads; simp)+

lemma obeys_seq: "obeys R m \<Longrightarrow> (\<And>x. obeys R (f x)) \<Longrightarrow> obeys R (seq m f)"
  unfolding obeys_def seq_def using order_trans
  by (auto split: prod.splits sum.splits) (metis snd_conv)+

lemma obeys_rescue: "obeys R m \<Longrightarrow> (\<And>e. obeys R (h e)) \<Longrightarrow> obeys R (rescue m h)"
  unfolding obeys_def rescue_def using order_trans
  by (auto split: prod.splits sum.splits) (metis snd_conv)+

lemma obeys_or_absent: "obeys R m \<Longrightarrow> obeys R (or_absent m)"
  unfolding obeys_def or_absent_def
  by (auto split: prod.splits sum.splits failure.splits repo_error.splits) (metis snd_conv)+

lemma obeys_each: "(\<And>x. obeys R (f x)) \<Longrightarrow> obeys R (each_act f xs)"
  by (induction xs) (simp_all add: obeys_basic obeys_seq)

lemma obeys_adjust: "(\<And>w. R w (f w)) \<Longrightarrow> obeys R (adjust f)"
  by (simp add: obeys_def adjust_def)

lemma obeys_transact: "(\<And>w x s. f (base w) = Inr (x, s) \<Longrightarrow> R w (w\<lparr>base := s\<rparr>)) \<Longrightarrow> obeys R (transact f)"
  by (auto simp: obeys_def transact_def order_refl split: sum.splits)

lemmas obeys_rules = obeys_basic obeys_seq obeys_rescue obeys_or_absent obeys_each obeys_split

end

section \<open>The writes of the worker\<close>

text \<open>The transactions of the worker other than the publication.\<close>

inductive quiet_write :: "JobStore \<Rightarrow> JobStore \<Rightarrow> bool" where
  state: "set_submission_state new now s = Inr (u, s') \<Longrightarrow> quiet_write s s'"
| activity: "set_activity_status aid tid st now s = Inr (u, s') \<Longrightarrow> quiet_write s s'"
| job_status: "save_job_status js None now s = Inr (u, s') \<Longrightarrow> quiet_write s s'"
| cancel: "complete_job_cancellation jid tid now s = Inr (r, s') \<Longrightarrow> quiet_write s s'"
| stage: "save_stage a now s = Inr (x, s') \<Longrightarrow> quiet_write s s'"
| event: "audit tid ev agg who load t now s = Inr (e, s') \<Longrightarrow> quiet_write s s'"
| classify: "classify_row job cls s = Inr (u, s') \<Longrightarrow> quiet_write s s'"
| strip: "strip_failed rid s = Inr (u, s') \<Longrightarrow> quiet_write s s'"

locale quiet_order = store_order +
  assumes order_tick: "R w (w\<lparr>ticks := n\<rparr>)"
    and order_floor: "R w (w\<lparr>resume_floor_reached := js\<rparr>)"
    and order_calls: "R w (w\<lparr>model_call_rows := ls\<rparr>)"
    and order_base: "quiet_write (base w) s \<Longrightarrow> R w (w\<lparr>base := s\<rparr>)"
begin

lemma obeys_clock: "obeys R utc_now"
  by (simp add: obeys_def utc_now_def order_tick)

lemma obeys_writes:
  "obeys R (transact (set_submission_state new now))" "obeys R (transact (set_activity_status aid tid st now))"
  "obeys R (transact (save_job_status js None now))" "obeys R (transact (complete_job_cancellation jid tid now))"
  "obeys R (transact (save_stage a now))" "obeys R (transact (audit tid ev agg who load t now))"
  "obeys R (transact (classify_row job cls))" "obeys R (transact (strip_failed rid))"
  by (rule obeys_transact, rule order_base, erule quiet_write.intros)+

lemma obeys_reach_floor: "obeys R (reach_floor job)"
  unfolding reach_floor_def by (rule obeys_adjust) (rule order_floor)

lemma obeys_sink: "obeys R (model_call_sink l)"
  by (simp add: obeys_def model_call_sink_def order_refl order_calls)

lemma obeys_hand_over: "obeys R (hand_over es)"
  by (induction es rule: hand_over.induct) (simp_all add: obeys_basic obeys_seq obeys_sink)

lemmas quiet_rules = obeys_rules obeys_clock obeys_writes obeys_reach_floor obeys_hand_over

lemma obeys_scoped: "obeys R (scoped_submission sid tid)" "obeys R (scoped_activity aid tid)"
  "obeys R (job_control jid tid)" "obeys R (job_status jid tid)"
  unfolding scoped_submission_def scoped_activity_def job_control_def job_status_def
  by (intro quiet_rules)+

lemma obeys_cancellation: "obeys R (complete_cancellation_if_requested job)" "obeys R (cancellation_checkpoint job)"
  unfolding cancellation_checkpoint_def complete_cancellation_if_requested_def
  by (intro quiet_rules obeys_scoped)+

lemma obeys_floor: "obeys R (mark_resume_floor job stg)" "obeys R (may_execute job v)"
  "obeys R (assert_application_stage_may_execute job stg)" "obeys R (assert_resume_may_execute job pid)"
  unfolding mark_resume_floor_def assert_application_stage_may_execute_def assert_resume_may_execute_def may_execute_def
  by (intro quiet_rules)+

lemma obeys_reuse: "obeys R (record_stage_reuse job r)"
  unfolding record_stage_reuse_def by (intro quiet_rules)

lemma obeys_job_states: "obeys R (save_status js)" "obeys R (set_job job stg prog)"
  "obeys R (put_state sub job dst stg prog ds)" "obeys R (set_submission sub job dst stg prog)"
  unfolding set_submission_def set_job_def put_state_def save_status_def
  by (intro quiet_rules obeys_cancellation obeys_floor obeys_scoped)+

lemma obeys_terminal: "obeys R (terminal_domain_failure sub job st ds stg)"
  unfolding terminal_domain_failure_def
  by (intro quiet_rules obeys_cancellation obeys_scoped obeys_job_states)

lemma obeys_fail_job: "obeys R (fail_job job cd msg cls retry)"
  unfolding fail_job_def finish_failure_def
  by (intro quiet_rules obeys_cancellation obeys_scoped obeys_job_states)

lemma obeys_start: "obeys R (start_job job)"
  unfolding start_job_def Let_def
  by (intro quiet_rules obeys_cancellation obeys_scoped obeys_job_states)

lemma obeys_stage_parts: "obeys R (stage_policy_hash env job)" "obeys R (save_stage_run a)"
  "obeys R (record_failed_stage env job stg ins pol e)"
  unfolding record_failed_stage_def Let_def save_stage_run_def stage_policy_hash_def
  by (intro quiet_rules obeys_scoped)+

lemma obeys_answer: "obeys R (model_answer env cdc job pid req)"
  unfolding model_answer_def invoke_gateway_def by (intro quiet_rules obeys_cancellation)

lemma obeys_gateway_stage: "obeys R (gateway_stage env cdc job pid suffix req)"
  unfolding gateway_stage_def Let_def
  by (intro quiet_rules obeys_cancellation obeys_stage_parts obeys_floor obeys_reuse obeys_answer)

lemma obeys_parse: "obeys R (parse_stage env P job f)"
  unfolding parse_stage_def by (intro quiet_rules obeys_stage_parts obeys_floor obeys_reuse)

lemma obeys_plan_stage: "obeys R (plan_stage env P job mp bp pol)"
  unfolding plan_stage_def Let_def by (intro quiet_rules obeys_stage_parts obeys_floor obeys_reuse)

lemma obeys_approved: "obeys R (approved_blueprint aid tid v)"
  unfolding approved_blueprint_def by (intro quiet_rules)

lemma obeys_load: "obeys R (load_task P job)"
  unfolding load_task_def Let_def by (intro quiet_rules obeys_scoped obeys_approved)

lemma obeys_assemble: "obeys R (assemble_assessment act sub bp pl mp qs f job)"
  unfolding assemble_assessment_def by (intro quiet_rules)

end

end
