(* ===== verification/WorkerRun.thy ===== *)
theory WorkerRun
  imports StoreOrder JobHistory
begin

text \<open>
  Two relations every operation of the worker respects: outside the publication nothing of the content
  changes, and the invariant of the job queue survives whatever the models answer and wherever the worker
  stops.
\<close>

section \<open>Content\<close>

definition same_content :: "WorkStore \<Rightarrow> WorkStore \<Rightarrow> bool" where
  "same_content w w' \<longleftrightarrow> question_reviews w' = question_reviews w \<and> generated_questions w' = generated_questions w
     \<and> evidence_rows w' = evidence_rows w \<and> evidence_maps w' = evidence_maps w
     \<and> assessment_plans w' = assessment_plans w \<and> blueprints w' = blueprints w
     \<and> assessments (base w') = assessments (base w) \<and> guides (base w') = guides (base w)"

lemma save_status_outputs:
  assumes "save_job_status js knd now s = Inr (u, s')"
  shows "assessments s' = assessments s \<and> guides s' = guides s"
proof (cases "get_job s (JobStatus.job_id js)")
  case None
  then show ?thesis using assms by (cases knd) (auto simp: save_job_status_def add_job_def)
next
  case (Some r)
  then show ?thesis using assms by (auto simp: save_job_status_def Let_def put_job_def split: if_splits)
qed

lemma same_stages: "\<exists>rs. s = s\<lparr>stage_runs := rs\<rparr>"
  by (rule exI [of _ "stage_runs s"]) simp

lemma save_stage_tables:
  assumes "save_stage a now s = Inr (x, s')"
  shows "\<exists>rs. s' = s\<lparr>stage_runs := rs\<rparr>"
proof -
  obtain r b where "x = (r, b)" by (cases x)
  with assms have "save_stage a now s = Inr ((r, b), s')" by simp
  moreover have "s = s\<lparr>stage_runs := stage_runs s\<rparr>" by simp
  ultimately show ?thesis
    by (elim save_stage_cases) (blast, unfold put_stage_def add_stage_def, blast+)
qed

lemma audit_tables:
  assumes "audit tid ev agg who load t now s = Inr (e, s')"
  shows "s' = add_audit e s \<and> integrity s'"
  using assms by (auto simp: audit_def Let_def)

lemma strip_tables:
  assumes "strip_failed rid s = Inr (u, s')"
  shows "\<exists>rs. s' = s\<lparr>stage_runs := rs\<rparr>"
  using assms by (auto simp: strip_failed_def put_stage_def intro: same_stages split: option.splits if_splits)

lemma quiet_write_outputs: "quiet_write s s' \<Longrightarrow> assessments s' = assessments s \<and> guides s' = guides s"
proof (induction rule: quiet_write.induct)
  case (cancel jid tid now s r s')
  then show ?case
    using complete_cancellation_outputs by (fastforce simp: complete_job_cancellation_def split: if_splits)
next
  case (stage a now s x s')
  then show ?case using save_stage_tables by fastforce
next
  case (event tid ev agg who load t now s e s')
  then show ?case using audit_tables by (fastforce simp: add_audit_def)
next
  case (strip rid s u s')
  then show ?case using strip_tables by fastforce
qed (auto simp: set_submission_state_def set_activity_status_def put_submission_def put_activity_def classify_row_def
    put_job_def save_status_outputs)

interpretation silent: quiet_order same_content
  by unfold_locales (auto simp: same_content_def dest: quiet_write_outputs)

section \<open>The queue\<close>

definition orderly :: "WorkStore \<Rightarrow> WorkStore \<Rightarrow> bool" where
  "orderly w w' \<longleftrightarrow> (job_invariant (base w) \<longrightarrow> job_invariant (base w') \<and> evolves (base w) (base w'))"

lemma other_tables_keep:
  assumes "job_invariant s"
  shows "job_invariant (s\<lparr>stage_runs := rs\<rparr>) \<and> evolves s (s\<lparr>stage_runs := rs\<rparr>)"
    and "integrity (add_audit e s) \<Longrightarrow> job_invariant (add_audit e s) \<and> evolves s (add_audit e s)"
  using assms by (auto simp: job_invariant_def integrity_def content_integrity_def core_def linked_def evolves_def add_audit_def
      intro: job_le_refl)

lemma classify_keeps:
  assumes inv: "job_invariant s" and run: "classify_row job cls s = Inr (u, s')"
  shows "keeps s s'"
proof -
  obtain r where r: "get_job s (JobRow.ident job) = Some r"
    and s': "s' = put_job (r\<lparr>JobRow.failure_class := Some (failure_name cls), JobRow.next_attempt_at := None\<rparr>) s"
    using run by (auto simp: classify_row_def)
  have "job_ok r" using inv get_job_mem [OF r] by (simp add: job_invariant_def core_def)
  then show ?thesis
    unfolding s' using inv r get_job_ident [OF r] integrity_distinct
    by (intro keeps_put_job) (auto simp: job_invariant_def job_le_def job_ok_def)
qed

lemma job_step_orderly:
  assumes "job_invariant s" and "job_step s s'" and "integrity s'"
  shows "job_invariant s' \<and> evolves s s'"
  using step_keeps [OF assms(1,2)] assms(3) by (simp add: keeps_def job_invariant_def)

lemma quiet_write_orderly:
  assumes "quiet_write s s'" and inv: "job_invariant s"
  shows "job_invariant s' \<and> evolves s s'"
  using assms(1)
proof cases
  case (state new now u)
  then show ?thesis using job_step_orderly [OF inv job_step.set_submission] commits(3) by blast
next
  case (activity aid tid st now u)
  then show ?thesis using job_step_orderly [OF inv job_step.set_activity] commits(4) by blast
next
  case (job_status js now u)
  then show ?thesis using job_step_orderly [OF inv job_step.save_status] save_commits by blast
next
  case (cancel jid tid now r)
  then show ?thesis
    using job_step_orderly [OF inv job_step.complete_cancel [OF cancel]] conditional_commits(2) [OF _ cancel] inv
    by (simp add: job_invariant_def)
next
  case (stage a now x)
  then show ?thesis using save_stage_tables [OF stage] other_tables_keep(1) [OF inv] by auto
next
  case (event tid ev agg who load t now e)
  then show ?thesis using audit_tables [OF event] other_tables_keep(2) [OF inv] by auto
next
  case (classify job cls u)
  then show ?thesis using classify_keeps [OF inv classify] by (auto simp: classify_row_def keeps_def job_invariant_def)
next
  case (strip rid u)
  then show ?thesis using strip_tables [OF strip] other_tables_keep(1) [OF inv] by auto
qed

interpretation queue: quiet_order orderly
  by unfold_locales (auto simp: orderly_def dest: quiet_write_orderly intro: evolves_trans)

lemma evolves_job:
  assumes "evolves s s'" and "distinct_jobs s'" and "get_job s k = Some r"
  shows "\<exists>r'. get_job s' k = Some r' \<and> job_le r r'"
proof -
  obtain r' where r': "r' \<in> set (jobs s')" "job_le r r'"
    using assms(1) get_job_mem [OF assms(3)] by (auto simp: evolves_def)
  then have "get_job s' (JobRow.ident r') = Some r'"
    using assms(2) by (metis distinct_jobs_def get_job_def get_row_unique)
  then show ?thesis using r' get_job_ident [OF assms(3)] by (auto simp: job_le_def)
qed

end
