(* ===== verification/WorkerCancel.thy ===== *)
theory WorkerCancel
  imports WorkerRun
begin

text \<open>
  Cooperative cancellation: the private exception of \<open>web/workflows.py\<close> is raised only when the job's row is
  already CANCELLED, so the worker may end without writing anything more.
\<close>

section \<open>Exceptions that are not a cancellation\<close>

definition calm :: "failure + 'a \<Rightarrow> bool" where
  "calm r \<longleftrightarrow> r \<noteq> Inl Cancelled"

lemma calm_basic [simp]: "calm (Inr x)" "calm (Inl e) \<longleftrightarrow> e \<noteq> Cancelled" "calm (lift_repo q)" "calm (lift_gateway g)"
    "calm (converted c)" "calm (parsing p)"
  by (auto simp: calm_def converted_def split: sum.splits elim: lift_repo.elims lift_gateway.elims parsing.elims)

lemma calm_and_then: "calm r \<Longrightarrow> (\<And>x. calm (f x)) \<Longrightarrow> calm (and_then r f)"
  by (cases r) (auto simp: calm_def)

lemma calm_case: "calm (case p of (x, y) \<Rightarrow> g x y) \<longleftrightarrow> calm (g (fst p) (snd p))"
  by (cases p) simp

lemma calm_values [simp]: "calm (text_value k v)" "calm (int_value k v)" "calm (mode_value v)"
  by (cases v; simp add: wrong_type_def)+

lemma calm_optional [simp]: "calm (optional_value text_value k v)" "calm (optional_value int_value k v)"
  by (auto simp: optional_value_def split: option.splits intro!: calm_and_then)

lemma calm_context: "calm (build_trusted_context d)"
  unfolding build_trusted_context_def Let_def
  by (intro calm_and_then calm_basic(3,4) calm_values calm_optional) (simp add: calm_case calm_and_then)

lemma calm_collect: "(\<And>x. calm (f x)) \<Longrightarrow> calm (collect f xs)"
  by (induction xs) (auto intro!: calm_and_then)

section \<open>Operations that heed the request\<close>

definition cancelled :: "JobRow \<Rightarrow> JobStore \<Rightarrow> bool" where
  "cancelled job s \<longleftrightarrow> (\<exists>r. get_job s (JobRow.ident job) = Some r \<and> JobRow.control_state r = ''CANCELLED'')"

definition heeds :: "JobRow \<Rightarrow> 'a act \<Rightarrow> bool" where
  "heeds job m \<longleftrightarrow> obeys orderly m
     \<and> (\<forall>w w'. job_invariant (base w) \<longrightarrow> m w = (Inl Cancelled, w') \<longrightarrow> cancelled job (base w'))"

lemma heeds_cancelled: "heeds job m \<Longrightarrow> job_invariant (base w) \<Longrightarrow> m w = (Inl Cancelled, w') \<Longrightarrow> cancelled job (base w')"
  by (simp add: heeds_def)

lemma heeds_invariant: "heeds job m \<Longrightarrow> job_invariant (base w) \<Longrightarrow> m w = (r, w') \<Longrightarrow> job_invariant (base w')"
  using obeysD [of orderly m w] by (auto simp: heeds_def orderly_def)

lemma heeds_calm: "obeys orderly m \<Longrightarrow> (\<And>w. calm (fst (m w))) \<Longrightarrow> heeds job m"
  by (auto simp: heeds_def calm_def) (metis fst_conv)

lemma heeds_basic: "heeds job (give x)" "e \<noteq> Cancelled \<Longrightarrow> heeds job (fail_with e)" "calm r \<Longrightarrow> heeds job (pass r)"
    "heeds job (look f)" "heeds job (reading g)" "e \<noteq> Cancelled \<Longrightarrow> heeds job (stop_if b e)" "heeds job (refuse_if b cd st)"
    "heeds job (model_of v y)" "heeds job (make_id p parts)" "heeds job (error_diagnostic cd msg retry)"
  by (rule heeds_calm; simp add: queue.obeys_basic give_def fail_with_def pass_def look_def reading_def stop_if_def
      refuse_if_def model_of_def make_id_def error_diagnostic_def split: sum.splits)+

lemma heeds_seq:
  assumes m: "heeds job m" and f: "\<And>x. heeds job (f x)"
  shows "heeds job (seq m f)"
proof -
  have "cancelled job (base w')" if i: "job_invariant (base w)" and run: "seq m f w = (Inl Cancelled, w')" for w w'
  proof (cases "m w")
    case (Pair r v)
    note k = heeds_invariant [OF m i Pair]
    show ?thesis
    proof (cases r)
      case (Inl e)
      then show ?thesis using run Pair heeds_cancelled [OF m i] by (simp add: seq_def)
    next
      case (Inr x)
      then show ?thesis using run Pair heeds_cancelled [OF f k] by (simp add: seq_def)
    qed
  qed
  moreover have "obeys orderly (seq m f)" using m f by (intro queue.obeys_seq) (auto simp: heeds_def)
  ultimately show ?thesis by (simp add: heeds_def)
qed

lemma heeds_rescue:
  assumes m: "heeds job m" and h: "\<And>e. heeds job (h e)"
  shows "heeds job (rescue m h)"
proof -
  have "cancelled job (base w')" if i: "job_invariant (base w)" and run: "rescue m h w = (Inl Cancelled, w')" for w w'
  proof (cases "m w")
    case (Pair r v)
    note k = heeds_invariant [OF m i Pair]
    show ?thesis
    proof (cases r)
      case (Inl e)
      then show ?thesis using run Pair heeds_cancelled [OF m i] heeds_cancelled [OF h k] by (simp add: rescue_def split: if_splits)
    next
      case (Inr x)
      then show ?thesis using run Pair by (simp add: rescue_def)
    qed
  qed
  moreover have "obeys orderly (rescue m h)" using m h by (intro queue.obeys_rescue) (auto simp: heeds_def)
  ultimately show ?thesis by (simp add: heeds_def)
qed

lemma heeds_rescue_other:
  assumes m: "heeds job m" and h: "\<And>e. e \<noteq> Cancelled \<Longrightarrow> heeds job (h e)"
  shows "heeds job (rescue m h)"
proof -
  have "rescue m h = rescue m (\<lambda>e. if e = Cancelled then fail_with (RuntimeFailure []) else h e)"
    by (auto simp: rescue_def fun_eq_iff split: prod.splits sum.splits)
  moreover have "heeds job (rescue m (\<lambda>e. if e = Cancelled then fail_with (RuntimeFailure []) else h e))"
    using m h heeds_basic(2) by (intro heeds_rescue) auto
  ultimately show ?thesis by simp
qed

lemma heeds_split:
  "(\<And>x y. heeds job (g x y)) \<Longrightarrow> heeds job (case p of (x, y) \<Rightarrow> g x y)"
  "heeds job a \<Longrightarrow> (\<And>x. heeds job (h x)) \<Longrightarrow> heeds job (case v of None \<Rightarrow> a | Some x \<Rightarrow> h x)"
  "heeds job a \<Longrightarrow> heeds job b \<Longrightarrow> heeds job (if t then a else b)"
  by (auto split: prod.splits option.splits)

lemma heeds_each: "(\<And>x. heeds job (f x)) \<Longrightarrow> heeds job (each_act f xs)"
  by (induction xs) (simp_all add: heeds_basic heeds_seq)

lemma heeds_clock: "heeds job utc_now"
  by (rule heeds_calm) (simp_all add: queue.obeys_clock utc_now_def)

lemma heeds_transact: "obeys orderly (transact f) \<Longrightarrow> heeds job (transact f)"
  by (rule heeds_calm) (auto simp: transact_def split: sum.splits)

lemma heeds_adjust: "(\<And>w. base (f w) = base w) \<Longrightarrow> heeds job (adjust f)"
  by (rule heeds_calm) (auto simp: adjust_def orderly_def intro: queue.obeys_adjust)

lemma heeds_hand_over: "heeds job (hand_over es)"
proof -
  have "heeds job (model_call_sink l)" for l
    by (rule heeds_calm) (simp_all add: queue.obeys_sink model_call_sink_def)
  then show ?thesis by (induction es rule: hand_over.induct) (simp_all add: heeds_basic heeds_seq)
qed

lemmas heeds_rules = heeds_basic heeds_seq heeds_rescue heeds_split heeds_each heeds_clock heeds_transact heeds_hand_over
  queue.obeys_writes calm_basic

section \<open>The checkpoint\<close>

lemma heeds_scoped: "heeds job (scoped_submission sid tid)" "heeds job (scoped_activity aid tid)"
  "heeds job (job_control jid tid)" "heeds job (job_status jid tid)"
  unfolding scoped_submission_def scoped_activity_def job_control_def job_status_def
  by (intro heeds_rules)+

lemma job_control_Inr:
  "job_control jid tid w = (Inr r, w') \<longleftrightarrow> get_job (base w) jid = Some r \<and> JobRow.tenant_id r = tid \<and> w' = w"
  by (auto simp: job_control_def acts)

lemma cancellation_True:
  assumes inv: "job_invariant (base w)" and run: "complete_cancellation_if_requested job w = (Inr True, w')"
  shows "cancelled job (base w')"
proof -
  obtain r where r: "get_job (base w) (JobRow.ident job) = Some r" "JobRow.tenant_id r = JobRow.tenant_id job"
    and st: "JobRow.control_state r \<noteq> ''ACTIVE''"
    using run by (auto simp: complete_cancellation_if_requested_def acts job_control_Inr split: if_splits)
  have rest: "JobRow.control_state r \<noteq> ''CANCEL_REQUESTED'' \<Longrightarrow> w' = w"
    using run r(1) st by (auto simp: complete_cancellation_if_requested_def acts job_control_Inr)
  have step: "\<exists>t x. complete_job_cancellation (JobRow.ident job) (JobRow.tenant_id job) t (base w) = Inr (x, base w')"
    if "JobRow.control_state r = ''CANCEL_REQUESTED''"
    using run r(1) that by (auto simp: complete_cancellation_if_requested_def acts job_control_Inr) blast
  have id: "JobRow.ident r = JobRow.ident job" by (rule get_job_ident [OF r(1)])
  show ?thesis
  proof (cases "JobRow.control_state r = ''CANCEL_REQUESTED''")
    case True
    obtain t x where s: "complete_job_cancellation (JobRow.ident job) (JobRow.tenant_id job) t (base w) = Inr (x, base w')"
      using step [OF True] by blast
    have "lock_job (base w) (JobRow.ident job) (JobRow.tenant_id job) = Inr r"
      using r by (simp add: lock_job_def)
    then have "\<exists>q. complete_cancellation r t (base w) = Inr (q, base w')"
      using s True by (auto simp: complete_job_cancellation_def)
    moreover have "core (base w)" "distinct_jobs (base w)"
      using inv integrity_distinct by (simp_all add: job_invariant_def)
    ultimately have "get_job (base w') (JobRow.ident r) = Some (cancelled_row r t)"
      using complete_cancellation_keeps(4) r(1) id by metis
    then show ?thesis using id by (simp add: cancelled_def)
  next
    case False
    moreover have "job_row_ok r"
      using inv get_job_mem [OF r(1)] by (simp add: job_invariant_def integrity_def list_all_iff)
    ultimately have "JobRow.control_state r = ''CANCELLED''"
      using st by (auto simp: job_row_ok_def JOB_CONTROL_STATES_def)
    then show ?thesis using r(1) rest [OF False] by (simp add: cancelled_def)
  qed
qed

lemma cancellation_False:
  "complete_cancellation_if_requested job w = (Inr False, w') \<Longrightarrow> w' = w \<and> (\<exists>r. get_job (base w) (JobRow.ident job) = Some r
     \<and> JobRow.tenant_id r = JobRow.tenant_id job \<and> JobRow.control_state r = ''ACTIVE'')"
  by (auto simp: complete_cancellation_if_requested_def acts job_control_Inr split: if_splits)

lemma heeds_cancellation: "heeds job (complete_cancellation_if_requested job)"
  unfolding complete_cancellation_if_requested_def by (intro heeds_rules heeds_scoped)

text \<open>The pattern of the code: raise the private exception exactly when the cancellation is complete.\<close>

lemma heeds_unless_cancelled:
  assumes m: "heeds job m"
  shows "heeds job (seq (complete_cancellation_if_requested job) (\<lambda>b. if b then fail_with Cancelled else m))"
proof -
  have "cancelled job (base w')" if i: "job_invariant (base w)"
    and run: "seq (complete_cancellation_if_requested job) (\<lambda>b. if b then fail_with Cancelled else m) w = (Inl Cancelled, w')" for w w'
  proof (cases "complete_cancellation_if_requested job w")
    case (Pair r v)
    note k = heeds_invariant [OF heeds_cancellation i Pair]
    show ?thesis
    proof (cases r)
      case (Inl e)
      then show ?thesis using run Pair heeds_cancelled [OF heeds_cancellation i] by (simp add: seq_def)
    next
      case (Inr b)
      then show ?thesis
        using run Pair cancellation_True [OF i] heeds_cancelled [OF m k] by (cases b) (auto simp: seq_def fail_with_def)
    qed
  qed
  moreover have "obeys orderly (seq (complete_cancellation_if_requested job) (\<lambda>b. if b then fail_with Cancelled else m))"
    using m by (intro queue.quiet_rules queue.obeys_cancellation) (simp add: heeds_def)
  ultimately show ?thesis by (simp add: heeds_def)
qed

lemma heeds_checkpoint: "heeds job (cancellation_checkpoint job)"
  using heeds_unless_cancelled [of job "give ()"] heeds_basic(1) [of job "()"]
  by (simp add: cancellation_checkpoint_def stop_if_def)

section \<open>The operations of the worker\<close>

lemma heeds_floor: "heeds job (mark_resume_floor job' stg)" "heeds job (may_execute job' v)"
  "heeds job (assert_application_stage_may_execute job' stg)" "heeds job (assert_resume_may_execute job' pid)"
proof -
  have "heeds job (reach_floor job')"
    unfolding reach_floor_def by (rule heeds_adjust) simp
  then show "heeds job (mark_resume_floor job' stg)" "heeds job (may_execute job' v)"
    "heeds job (assert_application_stage_may_execute job' stg)" "heeds job (assert_resume_may_execute job' pid)"
    unfolding mark_resume_floor_def assert_application_stage_may_execute_def assert_resume_may_execute_def may_execute_def
    by (intro heeds_rules; simp)+
qed

lemma heeds_reuse: "heeds job (record_stage_reuse job' r)"
  unfolding record_stage_reuse_def by (intro heeds_rules)

lemma heeds_job_states: "heeds job (save_status js)" "heeds job (set_job job stg prog)"
  "heeds job (put_state sub job' dst stg prog ds)" "heeds job (set_submission sub job dst stg prog)"
  unfolding set_submission_def set_job_def put_state_def save_status_def
  by (intro heeds_rules heeds_checkpoint heeds_floor heeds_scoped)+

lemma heeds_terminal: "heeds job (terminal_domain_failure sub job st ds stg)"
  unfolding terminal_domain_failure_def
  by (intro heeds_rules heeds_checkpoint heeds_scoped heeds_job_states) (simp split: option.splits)

lemma heeds_start: "heeds job (start_job job)"
  unfolding start_job_def Let_def
  by (intro heeds_rules heeds_checkpoint heeds_scoped heeds_job_states)

lemma heeds_stage_parts: "heeds job (stage_policy_hash env job')" "heeds job (save_stage_run a)"
  "heeds job (record_failed_stage env job' stg ins pol e)"
  unfolding record_failed_stage_def Let_def save_stage_run_def stage_policy_hash_def
  by (intro heeds_rules heeds_scoped)+

lemma heeds_answer: "heeds job (model_answer env cdc job pid req)"
  unfolding model_answer_def invoke_gateway_def
  by (intro heeds_rules heeds_checkpoint calm_context calm_and_then)

lemma heeds_gateway_stage: "heeds job (gateway_stage env cdc job pid suffix req)"
proof -
  have "heeds job (seq (complete_cancellation_if_requested job) (\<lambda>stopped.
      if stopped then fail_with Cancelled else seq (record_failed_stage env job stg ins pol e) (\<lambda>_. fail_with e)))"
    if "e \<noteq> Cancelled" for stg ins pol e
    using that by (intro heeds_unless_cancelled heeds_seq heeds_stage_parts heeds_basic)
  then have h: "heeds job (rescue (model_answer env cdc job pid req) (\<lambda>e. seq (complete_cancellation_if_requested job) (\<lambda>stopped.
      if stopped then fail_with Cancelled else seq (record_failed_stage env job stg ins pol e) (\<lambda>_. fail_with e))))"
    for stg ins pol
    by (rule heeds_rescue_other [OF heeds_answer])
  show ?thesis
    unfolding gateway_stage_def Let_def
    by (intro heeds_basic heeds_seq heeds_split heeds_checkpoint heeds_stage_parts heeds_floor heeds_reuse h calm_basic)
qed

lemma heeds_parse: "heeds job (parse_stage env P job' f)"
proof -
  have "calm (verified_artifact_bytes env f)"
    by (auto simp: verified_artifact_bytes_def provenance_gap_def elim!: storage_failure.elims
        split: option.splits sum.splits object_error.splits)
  moreover have "calm (durable_evidence_id env f u)" for u
    by (simp add: durable_evidence_id_def split: sum.splits)
  then have "calm (parse_bytes env f body)" for body
    unfolding parse_bytes_def by (intro calm_and_then calm_basic calm_collect)
  ultimately show ?thesis
    unfolding parse_stage_def
    by (intro heeds_rules heeds_stage_parts heeds_floor heeds_reuse calm_and_then)
qed

lemma heeds_plan_stage: "heeds job (plan_stage env P job' mp bp pol)"
  unfolding plan_stage_def Let_def by (intro heeds_rules heeds_stage_parts heeds_floor heeds_reuse)

lemma heeds_approved: "heeds job (approved_blueprint aid tid v)"
  unfolding approved_blueprint_def not_approved_def
  by (intro heeds_rules; simp split: sum.splits repo_error.splits)

lemma heeds_load: "heeds job (load_task P job')"
  unfolding load_task_def Let_def
  by (intro heeds_rules heeds_scoped heeds_approved; simp add: not_approved_def split: list.splits)

lemma heeds_assemble: "heeds job (assemble_assessment act sub bp pl mp qs f job')"
  unfolding assemble_assessment_def by (intro heeds_rules; simp add: wrong_type_def split: option.splits)

end
