(* ===== verification/PipelineRun.thy ===== *)
theory PipelineRun
  imports WorkerCancel
begin

text \<open>
  The submission pipeline over any four stages that keep to what a stage promises: the queue's invariant and
  the cooperative cancellation, and no write to the content.  \<open>gateway_stages\<close>, which the code passes, does.
\<close>

section \<open>The loop\<close>

text \<open>The induction of the loop: a question is added, or a reserve moves to the end of the queue.\<close>

lemma loop_induct [case_names empty step]:
  assumes empty: "\<And>reserves chosen. Q [] reserves chosen"
    and step: "\<And>oid rest reserves chosen. (\<And>x. Q rest reserves (chosen @ [x]))
        \<Longrightarrow> (\<And>r rs. reserves = r # rs \<Longrightarrow> Q (rest @ [r]) rs chosen) \<Longrightarrow> Q (oid # rest) reserves chosen"
  shows "Q primary reserves chosen"
proof (induction "length primary + length reserves" arbitrary: primary reserves chosen rule: less_induct)
  case less
  show ?case
  proof (cases primary)
    case Nil
    then show ?thesis using empty by simp
  next
    case (Cons oid rest)
    then show ?thesis using less by (auto intro!: step)
  qed
qed

section \<open>Publication\<close>

text \<open>The ends of the last step: the assessment is published, or the job was cancelled meanwhile.\<close>

lemma publication_refused:
  assumes inv: "job_invariant s" and run: "finalize_submission_assessment jid tid a g now s = Inr (False, s')"
  shows "\<exists>r. get_job s' jid = Some r \<and> JobRow.control_state r = ''CANCELLED''"
  using run
proof (cases rule: finalize_cases)
  case (2 job sub q)
  have j: "get_job s jid = Some job" "JobRow.ident job = jid" using lock_jobD [OF 2(1)] by simp_all
  have "core s" "distinct_jobs s" using inv integrity_distinct by (simp_all add: job_invariant_def)
  then have "get_job s' jid = Some (cancelled_row job now)"
    using complete_cancellation_keeps(4) [OF _ _ _ 2(5)] j by simp
  then show ?thesis by simp
next
  case (3 job sub)
  have j: "get_job s jid = Some job" using lock_jobD [OF 3(1)] by simp
  have "job_row_ok job" using inv get_job_mem [OF j] by (simp add: job_invariant_def integrity_def list_all_iff)
  then have "JobRow.control_state job = ''CANCELLED''"
    using 3 by (auto simp: job_row_ok_def JOB_CONTROL_STATES_def)
  then show ?thesis using j 3 by simp
qed simp

lemma publish_heeds: "heeds job (publish_row P job sub a g rid t now)"
proof -
  let ?tx = "finalize_submission_assessment (JobRow.ident job) (JobRow.tenant_id job) (new_assessment_row P job sub a rid t)
    (new_guide_row job sub a g) now"
  have o: "orderly w (w\<lparr>base := s\<rparr>)" if "?tx (base w) = Inr (b, s)" for w b s
    using that job_step_orderly [OF _ job_step.finalize [OF that]] conditional_commits(3) [OF _ that]
    by (auto simp: orderly_def job_invariant_def)
  have "obeys orderly (publish_row P job sub a g rid t now)"
    unfolding publish_row_def by (intro queue.quiet_rules queue.obeys_transact) (rule o)
  moreover have "cancelled job (base w')" if i: "job_invariant (base w)"
    and run: "publish_row P job sub a g rid t now w = (Inl Cancelled, w')" for w w'
  proof (cases "?tx (base w)")
    case (Inl e)
    then show ?thesis using run by (simp add: publish_row_def seq_def transact_def)
  next
    case (Inr q)
    obtain b s where q: "q = (b, s)" by (cases q)
    have "\<not> b" and s: "base w' = s"
      using run Inr q by (auto simp: publish_row_def seq_def transact_def stop_if_def fail_with_def give_def split: if_splits)
    then show ?thesis using publication_refused [OF i] Inr q by (auto simp: cancelled_def)
  qed
  ultimately show ?thesis by (simp add: heeds_def)
qed

lemma finalize_heeds: "heeds job (finalize P job sub a g)"
  unfolding finalize_def by (intro heeds_rules heeds_floor publish_heeds)

section \<open>The contract of a stage\<close>

locale careful_stages =
  fixes S :: Stages and job :: JobRow
  assumes map_heeds: "heeds job (map_stage S a)" and question_heeds: "heeds job (question_stage S oid b)"
    and review_heeds: "heeds job (review_stage S oid c)" and guide_heeds: "heeds job (guide_stage S d)"
    and map_quiet: "obeys same_content (map_stage S a)" and question_quiet: "obeys same_content (question_stage S oid b)"
    and review_quiet: "obeys same_content (review_stage S oid c)" and guide_quiet: "obeys same_content (guide_stage S d)"
begin

lemmas stage_heeds = map_heeds question_heeds review_heeds guide_heeds

lemma check_heeds: "heeds job (context_check r)"
  unfolding context_check_def by (intro heeds_rules) (simp split: option.splits)

lemma evidence_heeds: "heeds job (evidence_phase env P job k)"
  unfolding evidence_phase_def Let_def merge_evidence_def
  by (intro heeds_rules heeds_job_states heeds_parse heeds_checkpoint heeds_adjust; simp)

lemma mapping_heeds: "heeds job (mapping_phase S job k bundle)"
  unfolding mapping_phase_def Let_def
  by (intro heeds_rules heeds_job_states stage_heeds check_heeds heeds_adjust; simp)

lemma planning_heeds: "heeds job (planning_phase env P job k mp)"
  unfolding planning_phase_def Let_def
  by (intro heeds_rules heeds_job_states heeds_plan_stage check_heeds heeds_checkpoint heeds_adjust; simp)

lemma judge_heeds: "draft_job c = job \<Longrightarrow> heeds job (judge_candidate S c oid q g cand)"
  unfolding judge_candidate_def Let_def keep_question_def
  by (intro heeds_rules heeds_job_states stage_heeds check_heeds heeds_checkpoint heeds_adjust;
      simp add: heeds_job_states heeds_checkpoint)

lemma try_heeds: "draft_job c = job \<Longrightarrow> heeds job (try_opportunity S c oid)"
  unfolding try_opportunity_def
  by (intro heeds_rules stage_heeds check_heeds judge_heeds; simp add: heeds_checkpoint split: option.splits)

lemma loop_heeds:
  assumes c: "draft_job c = job"
  shows "heeds job (question_loop S c n primary reserves chosen)"
proof (induction primary reserves chosen rule: loop_induct)
  case (empty reserves chosen)
  then show ?case by (simp add: heeds_basic)
next
  case (step oid rest reserves chosen)
  then show ?case using try_heeds [OF c, of oid]
    by (auto split: option.splits list.splits intro!: heeds_basic heeds_seq)
qed

lemma questions_heeds: "heeds job (question_phase S job k bundle mp pl)"
  unfolding question_phase_def Let_def by (intro heeds_rules heeds_job_states loop_heeds) simp

lemma publish_phase_heeds: "heeds job (publish_phase P S job k bundle mp pl qs)"
  unfolding publish_phase_def Let_def
  by (intro heeds_rules heeds_job_states heeds_assemble stage_heeds check_heeds heeds_checkpoint heeds_terminal finalize_heeds)
    simp

lemma pipeline_heeds: "heeds job (run_submission_pipeline env P S job)"
  unfolding run_submission_pipeline_def Let_def
  by (intro heeds_rules heeds_load evidence_heeds mapping_heeds planning_heeds questions_heeds publish_phase_heeds heeds_terminal)

end

interpretation gateway: careful_stages "gateway_stages env P job" job for env P job
  by unfold_locales (simp_all add: gateway_stages_def heeds_gateway_stage silent.obeys_gateway_stage)

end
