(* ===== verification/PipelineEnd.thy ===== *)
theory PipelineEnd
  imports PipelineRun
begin

text \<open>
  The ends of a job: whatever the pipeline did, the job that \<open>process_job\<close> returns from is at rest, and only
  a finished publication has changed the assessments.
\<close>

section \<open>The row at the end\<close>

definition at_rest :: "string \<Rightarrow> JobStore \<Rightarrow> bool" where
  "at_rest k s \<longleftrightarrow> (\<exists>r. get_job s k = Some r
     \<and> (JobRow.control_state r = ''CANCELLED'' \<or> JobRow.status r \<in> {''FAILED'', ''NEEDS_REVIEW'', ''SUCCEEDED''}))"

definition has_status :: "string \<Rightarrow> JobStore \<Rightarrow> string \<Rightarrow> bool" where
  "has_status k s v \<longleftrightarrow> (\<exists>r. get_job s k = Some r \<and> JobRow.status r = v)"

lemma has_status_same: "jobs s' = jobs s \<Longrightarrow> has_status k s' v = has_status k s v"
  by (simp add: has_status_def get_job_def)

lemma at_rest_intro: "has_status k s v \<Longrightarrow> v \<in> {''FAILED'', ''NEEDS_REVIEW'', ''SUCCEEDED''} \<Longrightarrow> at_rest k s"
  "cancelled job s \<Longrightarrow> at_rest (JobRow.ident job) s"
  by (auto simp: has_status_def at_rest_def cancelled_def)

lemma save_status_row:
  assumes d: "distinct_jobs s" and run: "save_job_status js None now s = Inr (u, s')"
  shows "has_status (JobStatus.job_id js) s' (JobStatus.status js)"
proof -
  obtain r where r: "get_job s (JobStatus.job_id js) = Some r" using run by (auto simp: save_job_status_def split: option.splits)
  then obtain r' where "s' = put_job r' s" "JobRow.ident r' = JobStatus.job_id js" "JobRow.status r' = JobStatus.status js"
    using run get_job_ident [OF r] by (auto simp: save_job_status_def Let_def split: if_splits)
  then show ?thesis using put_job_lookups(1) [OF d, of r'] r by (auto simp: has_status_def)
qed

lemma set_state_jobs: "set_submission_state new now s = Inr (u, s') \<Longrightarrow> jobs s' = jobs s"
  by (auto simp: set_submission_state_def put_submission_def)

lemma put_state_jobs: "put_state sub job dst stg prog ds w = (Inr u, w') \<Longrightarrow> jobs (base w') = jobs (base w)"
  by (auto simp: put_state_def acts dest: set_state_jobs)

lemma save_status_Inr:
  assumes "save_status js w = (Inr u, w')" and "job_invariant (base w)"
  shows "has_status (JobStatus.job_id js) (base w') (JobStatus.status js)"
  using assms save_status_row integrity_distinct by (fastforce simp: save_status_def acts job_invariant_def)

lemma checkpoint_Inr: "cancellation_checkpoint job w = (Inr u, w') \<Longrightarrow> w' = w"
  using cancellation_False by (auto simp: cancellation_checkpoint_def acts)

lemma job_status_Inr: "job_status jid tid w = (Inr js, w') \<Longrightarrow> w' = w \<and> JobStatus.job_id js = jid"
  using get_job_ident by (auto simp: job_status_def acts job_control_Inr status_of_row_def)

section \<open>What holds when an operation returns\<close>

definition ends :: "JobRow \<Rightarrow> 'a act \<Rightarrow> (JobStore \<Rightarrow> bool) \<Rightarrow> bool" where
  "ends job m Q \<longleftrightarrow> (\<forall>w w' x. job_invariant (base w) \<longrightarrow> m w = (Inr x, w') \<longrightarrow> Q (base w'))"

lemma endsD: "ends job m Q \<Longrightarrow> job_invariant (base w) \<Longrightarrow> m w = (Inr x, w') \<Longrightarrow> Q (base w')"
  by (simp add: ends_def)

lemma ends_weaken: "ends job m Q \<Longrightarrow> (\<And>s. Q s \<Longrightarrow> Q' s) \<Longrightarrow> ends job m Q'"
  by (simp add: ends_def)

lemma ends_fail: "ends job (fail_with e) Q"
  by (simp add: ends_def acts)

lemma ends_seq: "heeds job m \<Longrightarrow> (\<And>x. ends job (f x) Q) \<Longrightarrow> ends job (seq m f) Q"
  using heeds_invariant unfolding ends_def seq_Inr by fast

lemma ends_seq_status: "(\<And>js. JobStatus.job_id js = jid \<Longrightarrow> ends job (f js) Q) \<Longrightarrow> ends job (seq (job_status jid tid) f) Q"
  using job_status_Inr unfolding ends_def seq_Inr by fast

text \<open>What the first operation establishes may be kept by the rest.\<close>

lemma ends_then:
  assumes "ends job m Q" and "\<And>x y w w'. f x w = (Inr y, w') \<Longrightarrow> Q (base w) \<Longrightarrow> Q (base w')"
  shows "ends job (seq m f) Q"
  using assms unfolding ends_def seq_Inr by fast

lemma ends_split:
  "ends job a Q \<Longrightarrow> ends job b Q \<Longrightarrow> ends job (if t then a else b) Q"
  "(\<And>x y. ends job (g x y) Q) \<Longrightarrow> ends job (case p of (x, y) \<Rightarrow> g x y) Q"
  "ends job a Q \<Longrightarrow> (\<And>x. ends job (h x) Q) \<Longrightarrow> ends job (case v of None \<Rightarrow> a | Some x \<Rightarrow> h x) Q"
  by (auto split: prod.splits option.splits)

lemma ends_save: "JobStatus.job_id js = JobRow.ident job \<Longrightarrow> JobStatus.status js = v
    \<Longrightarrow> ends job (save_status js) (\<lambda>s. has_status (JobRow.ident job) s v)"
  using save_status_Inr unfolding ends_def by fastforce

lemma terminal_ends: "ends job (terminal_domain_failure sub job st ds stg) (\<lambda>s. has_status (JobRow.ident job) s ''NEEDS_REVIEW'')"
  unfolding terminal_domain_failure_def
proof (intro ends_seq [OF heeds_checkpoint] ends_seq [OF heeds_job_states(3)] ends_seq [OF heeds_clock] ends_seq_status
    ends_seq [OF heeds_basic(3)])
  show "calm (case processing_status_of st of None \<Rightarrow> Inl (Repo (ValueError ''not a valid SubmissionProcessingStatus''))
      | Some d \<Rightarrow> Inr d)"
    by (simp split: option.splits)
next
  fix js :: JobStatus and t
  assume "JobStatus.job_id js = JobRow.ident job"
  then show "ends job (seq (save_status (js\<lparr>JobStatus.status := ''NEEDS_REVIEW'', JobStatus.progress := 1,
      JobStatus.diagnostics := ds, JobStatus.finished_at := Some t\<rparr>)) (\<lambda>_. cancellation_checkpoint job))
      (\<lambda>s. has_status (JobRow.ident job) s ''NEEDS_REVIEW'')"
    using checkpoint_Inr by (intro ends_then [OF ends_save]) auto
qed

lemma publish_ends: "ends job (publish_row P job sub a g rid t now) (\<lambda>s. has_status (JobRow.ident job) s ''SUCCEEDED'')"
  unfolding ends_def
proof (intro allI impI)
  fix w w' x
  assume i: "job_invariant (base w)" and run: "publish_row P job sub a g rid t now w = (Inr x, w')"
  have "finalize_submission_assessment (JobRow.ident job) (JobRow.tenant_id job) (new_assessment_row P job sub a rid t)
      (new_guide_row job sub a g) now (base w) = Inr (True, base w')"
    using run by (auto simp: publish_row_def acts)
  then show "has_status (JobRow.ident job) (base w') ''SUCCEEDED''"
  proof (cases rule: finalize_cases)
    case (1 r s)
    have "distinct_jobs (base w)" using i integrity_distinct by (simp add: job_invariant_def)
    moreover have "get_job (base w) (JobRow.ident (finished_row r now)) = Some r"
      using lock_jobD [OF 1(1)] by (simp add: finished_row_def)
    ultimately have "get_job (put_job (finished_row r now) (base w)) (JobRow.ident job) = Some (finished_row r now)"
      using put_job_lookups(1) lock_jobD [OF 1(1)] by (metis finished_row_def JobRow.select_convs(1) get_job_ident option.distinct(1))
    then show ?thesis by (simp add: 1(8) has_status_def get_job_def finished_row_def)
  qed auto
qed

lemma finalize_ends: "ends job (finalize P job sub a g) (\<lambda>s. has_status (JobRow.ident job) s ''SUCCEEDED'')"
  unfolding finalize_def by (intro ends_seq heeds_rules heeds_floor publish_ends)

definition handed_over :: "JobRow \<Rightarrow> JobStore \<Rightarrow> bool" where
  "handed_over job s \<longleftrightarrow> has_status (JobRow.ident job) s ''NEEDS_REVIEW'' \<or> has_status (JobRow.ident job) s ''SUCCEEDED''"

lemma handed_over_ends: "ends job (terminal_domain_failure sub job st ds stg) (handed_over job)"
  "ends job (finalize P job sub a g) (handed_over job)"
  by (rule ends_weaken [OF terminal_ends], simp add: handed_over_def, rule ends_weaken [OF finalize_ends], simp add: handed_over_def)

context careful_stages
begin

lemma publish_phase_ends: "ends job (publish_phase P S job k bundle mp pl qs) (handed_over job)"
  unfolding publish_phase_def Let_def
  by (intro ends_seq ends_split ends_fail handed_over_ends heeds_basic heeds_job_states heeds_assemble stage_heeds check_heeds
      heeds_checkpoint)

lemma pipeline_ends: "ends job (run_submission_pipeline env P S job) (handed_over job)"
  unfolding run_submission_pipeline_def Let_def
  by (intro ends_seq ends_split publish_phase_ends handed_over_ends heeds_load evidence_heeds mapping_heeds planning_heeds
      questions_heeds heeds_basic)

end

section \<open>A failed job\<close>

lemma cancellation_Inr:
  "job_invariant (base w) \<Longrightarrow> complete_cancellation_if_requested job w = (Inr b, w') \<Longrightarrow> if b then cancelled job (base w') else w' = w"
  using cancellation_True cancellation_False by (cases b) auto

lemma ends_unless_cancelled:
  assumes "ends job m (at_rest (JobRow.ident job))"
  shows "ends job (seq (complete_cancellation_if_requested job) (\<lambda>b. if b then give () else m)) (at_rest (JobRow.ident job))"
  unfolding ends_def
proof (intro allI impI)
  fix w w' x
  assume i: "job_invariant (base w)"
    and "seq (complete_cancellation_if_requested job) (\<lambda>b. if b then give () else m) w = (Inr x, w')"
  then obtain b v where b: "complete_cancellation_if_requested job w = (Inr b, v)" "(if b then give () else m) v = (Inr x, w')"
    by (auto simp: seq_Inr)
  show "at_rest (JobRow.ident job) (base w')"
    using cancellation_Inr [OF i b(1)] b(2) endsD [OF assms] i at_rest_intro(2)
    by (cases b) (auto simp: give_Inr)
qed

lemma classify_status:
  assumes "job_invariant s" and "classify_row job cls s = Inr (u, s')" and "has_status k s v"
  shows "has_status k s' v"
proof -
  obtain r where r: "get_job s (JobRow.ident job) = Some r"
    and s': "s' = put_job (r\<lparr>JobRow.failure_class := Some (failure_name cls), JobRow.next_attempt_at := None\<rparr>) s"
    using assms(2) by (auto simp: classify_row_def)
  have "distinct_jobs s" using assms(1) integrity_distinct by (simp add: job_invariant_def)
  then show ?thesis
    using put_job_lookups [of s "r\<lparr>JobRow.failure_class := Some (failure_name cls), JobRow.next_attempt_at := None\<rparr>"]
      r get_job_ident [OF r] assms(3) s' by (cases "k = JobRow.ident job") (auto simp: has_status_def)
qed

lemma finish_failure_Inr:
  assumes i: "job_invariant (base w)" and run: "finish_failure job cls st d w = (Inr u, w')" and "has_status k (base w) v"
  shows "has_status k (base w') v"
proof -
  obtain s where s: "classify_row job cls (base w) = Inr ((), s)" and "jobs (base w') = jobs s"
    using run by (auto simp: finish_failure_def seq_Inr transact_Inr utc_now_Inr give_Inr set_activity_status_def put_activity_def
        scoped_submission_def reading_Inr dest!: put_state_jobs split: if_splits)
  then show ?thesis using classify_status [OF i s assms(3)] by (simp add: has_status_same [of "base w'" s])
qed

text \<open>From the moment the failure is written.\<close>

lemma fail_tail:
  assumes failed: "has_status (JobRow.ident job) (base w) ''FAILED''" and i: "job_invariant (base w)"
    and run: "seq (complete_cancellation_if_requested job) (\<lambda>b. if b then give () else finish_failure job cls st d) w = (Inr u, w')"
  shows "at_rest (JobRow.ident job) (base w')"
proof -
  obtain b v where b: "complete_cancellation_if_requested job w = (Inr b, v)"
      "(if b then give () else finish_failure job cls st d) v = (Inr u, w')"
    using run by (auto simp: seq_Inr)
  show ?thesis
  proof (cases b)
    case True
    then show ?thesis using b(2) cancellation_Inr [OF i b(1)] at_rest_intro(2) by (simp add: give_Inr)
  next
    case False
    then have "finish_failure job cls st d w = (Inr u, w')" using b(2) cancellation_Inr [OF i b(1)] by simp
    from at_rest_intro(1) [OF finish_failure_Inr [OF i this failed]] show ?thesis by simp
  qed
qed

lemma fail_job_ends: "ends job (fail_job job cd msg cls retry) (at_rest (JobRow.ident job))"
  unfolding fail_job_def
proof (intro ends_unless_cancelled ends_seq [OF heeds_basic(10)] ends_seq_status ends_seq [OF heeds_clock])
  fix d t and js :: JobStatus
  assume id: "JobStatus.job_id js = JobRow.ident job"
  let ?st = "failed_status js t d"
  have st: "JobStatus.job_id ?st = JobRow.ident job" "JobStatus.status ?st = ''FAILED''"
    using id by (simp_all add: failed_status_def)
  let ?rest = "seq (complete_cancellation_if_requested job) (\<lambda>b. if b then give () else finish_failure job cls ?st d)"
  show "ends job (seq (save_status ?st) (\<lambda>_. ?rest)) (at_rest (JobRow.ident job))"
    unfolding ends_def seq_Inr [of "save_status ?st"]
  proof (intro allI impI, elim exE conjE)
    fix w w' x y v
    assume i: "job_invariant (base w)" and m: "save_status ?st w = (Inr y, v)" and rest: "?rest v = (Inr x, w')"
    from fail_tail [OF endsD [OF ends_save [OF st] i m] heeds_invariant [OF heeds_job_states(1) i m] rest]
    show "at_rest (JobRow.ident job) (base w')" .
  qed
qed

end
