(* ===== verification/PipelineOutputs.thy ===== *)
theory PipelineOutputs
  imports PipelineEnd
begin

text \<open>
  What the pipeline leaves on file: the questions of the loop with their accepted reviews, the mapping they
  come from, and the assessment with its guide.
\<close>

section \<open>Relations\<close>

definition same_outputs :: "WorkStore \<Rightarrow> WorkStore \<Rightarrow> bool" where
  "same_outputs w w' \<longleftrightarrow> assessments (base w') = assessments (base w) \<and> guides (base w') = guides (base w)"

definition same_files :: "WorkStore \<Rightarrow> WorkStore \<Rightarrow> bool" where
  "same_files w w' \<longleftrightarrow> evidence_maps w' = evidence_maps w \<and> assessment_plans w' = assessment_plans w \<and> blueprints w' = blueprints w"

interpretation unpublished: quiet_order same_outputs
  by unfold_locales (auto simp: same_outputs_def dest: quiet_write_outputs)

interpretation files: quiet_order same_files
  by unfold_locales (auto simp: same_files_def)

lemma obeys_mono: "obeys R m \<Longrightarrow> (\<And>w w'. R w w' \<Longrightarrow> R' w w') \<Longrightarrow> obeys R' m"
  by (simp add: obeys_def)

lemma quiet_same: "same_content w w' \<Longrightarrow> same_outputs w w'" "same_content w w' \<Longrightarrow> same_files w w'"
  by (simp_all add: same_content_def same_outputs_def same_files_def)

lemma context_check_Inr: "context_check r w = (Inr u, w') \<longleftrightarrow> r = None \<and> w' = w"
  by (auto simp: context_check_def acts split: option.splits)

section \<open>One question\<close>

text \<open>What the loop knows of a question it has kept.\<close>

definition kept :: "Drafting \<Rightarrow> string \<Rightarrow> SelectedQuestion \<Rightarrow> QuestionReviewResult \<Rightarrow> bool" where
  "kept c oid x r \<longleftrightarrow> (\<exists>q cand g qid. q \<in> set (EvidenceMapPatch.opportunities (draft_mapping c))
     \<and> QuestionOpportunity.opportunity_id q = oid \<and> x = selected_question cand q qid
     \<and> QuestionGenerationResult.candidate g = Some cand \<and> QuestionCandidate_validate cand = None
     \<and> validate_question_candidate cand q (draft_bundle c) = None
     \<and> validate_review_result r g (draft_validation c) = None \<and> accepted_review r)"

definition files_review :: "Drafting \<Rightarrow> SelectedQuestion \<Rightarrow> QuestionReviewResult \<Rightarrow> WorkStore \<Rightarrow> WorkStore \<Rightarrow> bool" where
  "files_review c x r w w' \<longleftrightarrow> question_reviews w' = merge_row QuestionReviewRow.question_id
     \<lparr>QuestionReviewRow.question_id = SelectedQuestion.question_id x, tenant_id = JobRow.tenant_id (draft_job c),
      submission_id = SubmissionRow.ident (draft_submission c), data = r\<rparr> (question_reviews w)"

lemma quiet_reviews: "obeys same_content m \<Longrightarrow> m w = (r, w') \<Longrightarrow> question_reviews w' = question_reviews w"
  using obeysD [of same_content m w r w'] by (simp add: same_content_def)

lemma dict_by_mem: "dict_by key xs k = Some x \<Longrightarrow> x \<in> set xs \<and> key x = k"
  by (auto simp: dict_by_def find_Some_iff) (metis nth_mem set_rev length_rev)

lemma review_request_candidate:
  assumes "QuestionReviewRequest_validate rq = None"
    and "QuestionGenerationResult.candidate (QuestionReviewRequest.generation_result rq) = Some cand"
  shows "QuestionCandidate_validate cand = None"
proof -
  have "QuestionGenerationResult_validate (QuestionReviewRequest.generation_result rq) = None"
    using assms(1) by (simp add: QuestionReviewRequest_validate_def checks valid_def)
  then show ?thesis using assms(2) by (simp add: QuestionGenerationResult_validate_def checks valid_def)
qed

context careful_stages
begin

lemma stage_reviews:
  "question_stage S oid rq w = (Inr g, w') \<Longrightarrow> question_reviews w' = question_reviews w"
  "review_stage S oid rr w = (Inr r, w') \<Longrightarrow> question_reviews w' = question_reviews w"
  "set_submission sub j dst stg prog w = (Inr u, w') \<Longrightarrow> question_reviews w' = question_reviews w"
  "cancellation_checkpoint j w = (Inr u, w') \<Longrightarrow> question_reviews w' = question_reviews w"
  by (rule quiet_reviews, rule question_quiet review_quiet silent.obeys_job_states silent.obeys_cancellation, assumption)+

lemma judge_Inr:
  assumes "judge_candidate S c oid q g cand w = (Inr res, w')"
  shows "case res of None \<Rightarrow> question_reviews w' = question_reviews w
     | Some x \<Rightarrow> \<exists>qid r rq. x = selected_question cand q qid \<and> accepted_review r
         \<and> validate_review_result r g (draft_validation c) = None \<and> QuestionReviewRequest_validate rq = None
         \<and> QuestionReviewRequest.generation_result rq = g \<and> files_review c x r w w'"
proof -
  let ?rq = "\<lparr>QuestionReviewRequest.schema_version = LEGACY_SCHEMA_VERSION,
         generation_result = g, opportunity = q, evidence_bundle = draft_bundle c, validation_policy = draft_validation c\<rparr>"
  obtain w1 r w2 w3 where s: "set_submission (draft_submission c) (draft_job c) SubmissionProcessingStatus.VALIDATING_QUESTIONS
        ''QUESTION_REVIEW'' (fl (55 / 100)) w = (Inr (), w1)"
    and rq: "QuestionReviewRequest_validate ?rq = None" and r: "review_stage S oid ?rq w1 = (Inr r, w2)"
    and ok: "validate_review_result r g (draft_validation c) = None"
    and cp: "cancellation_checkpoint (draft_job c) w2 = (Inr (), w3)"
    and rest: "(if \<not> accepted_review r then give None
      else
        seq (make_id ''question'' [JStr (SubmissionRow.ident (draft_submission c)), JStr (QuestionCandidate.candidate_id cand)]) (\<lambda>qid.
        seq (model_of SelectedQuestion_validate (selected_question cand q qid)) (\<lambda>x.
        seq (keep_question c cand g qid r) (\<lambda>_. give (Some x))))) w3 = (Inr res, w')"
    using assms unfolding judge_candidate_def Let_def
    by (auto simp: seq_Inr [of "set_submission a b d e f" for a b d e f] seq_Inr [of "model_of QuestionReviewRequest_validate a" for a]
        seq_Inr [of "review_stage S oid a" for a] seq_Inr [of "context_check a" for a] seq_Inr [of "cancellation_checkpoint a" for a]
        model_of_Inr context_check_Inr)
  have w3: "question_reviews w3 = question_reviews w"
    using stage_reviews(3) [OF s] stage_reviews(2) [OF r] stage_reviews(4) [OF cp] by simp
  show ?thesis
  proof (cases "accepted_review r")
    case False
    then show ?thesis using rest w3 by (simp add: give_Inr)
  next
    case True
    then obtain qid where "res = Some (selected_question cand q qid)" "keep_question c cand g qid r w3 = (Inr (), w')"
      using rest by (auto simp: seq_Inr make_id_Inr model_of_Inr give_Inr)
    moreover have "SelectedQuestion.question_id (selected_question cand q qid) = qid" by (simp add: selected_question_def)
    ultimately show ?thesis
      using True ok rq w3
      by (auto simp: files_review_def keep_question_def Let_def adjust_Inr intro!: exI [of _ qid] exI [of _ r] exI [of _ ?rq])
  qed
qed

lemma try_Inr:
  assumes "try_opportunity S c oid w = (Inr res, w')"
  shows "case res of None \<Rightarrow> question_reviews w' = question_reviews w
     | Some x \<Rightarrow> \<exists>r. kept c oid x r \<and> files_review c x r w w'"
proof -
  obtain q rq w1 g w2 where q: "q \<in> set (EvidenceMapPatch.opportunities (draft_mapping c))"
      "QuestionOpportunity.opportunity_id q = oid"
    and g: "question_stage S oid rq w = (Inr g, w1)" "validate_generation_result g q (draft_bundle c) = None"
    and cp: "cancellation_checkpoint (draft_job c) w1 = (Inr (), w2)"
    and rest: "(case (if QuestionGenerationResult.status g = ''READY'' then QuestionGenerationResult.candidate g else None) of
       None \<Rightarrow> give None | Some cand \<Rightarrow> judge_candidate S c oid q g cand) w2 = (Inr res, w')"
    using assms unfolding try_opportunity_def
    by (auto simp: seq_Inr pass_Inr model_of_Inr context_check_Inr dest!: dict_by_mem split: option.splits)
  have w2: "question_reviews w2 = question_reviews w" using stage_reviews(1) [OF g(1)] stage_reviews(4) [OF cp] by simp
  show ?thesis
  proof (cases "if QuestionGenerationResult.status g = ''READY'' then QuestionGenerationResult.candidate g else None")
    case None
    then show ?thesis using rest w2 by (simp add: give_Inr)
  next
    case (Some cand)
    then have cand: "QuestionGenerationResult.candidate g = Some cand" "QuestionGenerationResult.status g = ''READY''"
      by (auto split: if_splits)
    have vc: "validate_question_candidate cand q (draft_bundle c) = None"
      using g(2) cand by (simp add: validate_generation_result_def)
    have "judge_candidate S c oid q g cand w2 = (Inr res, w')" using rest Some by simp
    note j = judge_Inr [OF this]
    show ?thesis
    proof (cases res)
      case None
      then show ?thesis using j w2 by simp
    next
      case (Some x)
      then obtain qid r rq where x: "x = selected_question cand q qid" "accepted_review r"
          "validate_review_result r g (draft_validation c) = None" "QuestionReviewRequest_validate rq = None"
          "QuestionReviewRequest.generation_result rq = g" "files_review c x r w2 w'"
        using j by auto
      have "kept c oid x r"
        unfolding kept_def
        using q vc x cand(1) review_request_candidate [OF x(4), of cand]
        by (intro exI [of _ q] exI [of _ cand] exI [of _ g] exI [of _ qid]) simp
      moreover have "files_review c x r w w'" using x(6) w2 by (simp add: files_review_def)
      ultimately show ?thesis using Some by auto
    qed
  qed
qed

section \<open>The loop\<close>

end

definition filed :: "Drafting \<Rightarrow> WorkStore \<Rightarrow> SelectedQuestion \<Rightarrow> bool" where
  "filed c w x \<longleftrightarrow> (\<exists>row. get_row QuestionReviewRow.question_id (question_reviews w) (SelectedQuestion.question_id x) = Some row
     \<and> kept c (SelectedQuestion.opportunity_id x) x (QuestionReviewRow.data row))"

definition all_filed :: "Drafting \<Rightarrow> WorkStore \<Rightarrow> SelectedQuestion list \<Rightarrow> bool" where
  "all_filed c w qs \<longleftrightarrow> (distinct (map SelectedQuestion.question_id qs) \<longrightarrow> (\<forall>x \<in> set qs. filed c w x))"

lemma kept_opportunity: "kept c oid x r \<Longrightarrow> SelectedQuestion.opportunity_id x = oid"
  by (auto simp: kept_def selected_question_def dest!: candidate_checks(2)) (simp add: candidate_path_error_def checks)

lemma all_filed_same: "question_reviews w' = question_reviews w \<Longrightarrow> all_filed c w' qs = all_filed c w qs"
  by (simp add: all_filed_def filed_def)

lemma all_filed_snoc:
  assumes "all_filed c w qs" and k: "kept c oid x r" and f: "files_review c x r w w'"
  shows "all_filed c w' (qs @ [x])"
  unfolding all_filed_def
proof (intro impI ballI)
  fix y
  assume d: "distinct (map SelectedQuestion.question_id (qs @ [x]))" and y: "y \<in> set (qs @ [x])"
  show "filed c w' y"
  proof (cases "SelectedQuestion.question_id y = SelectedQuestion.question_id x")
    case True
    then have "y = x" using d y by (auto simp: image_iff)
    then show ?thesis
      using k f kept_opportunity [OF k] by (simp add: filed_def files_review_def get_merge_row)
  next
    case False
    then have "filed c w y" using assms(1) d y by (auto simp: all_filed_def)
    then show ?thesis using f False by (simp add: filed_def files_review_def get_merge_row)
  qed
qed

context careful_stages
begin

lemma loop_Inr:
  assumes "question_loop S c n primary reserves chosen w = (Inr qs, w')" and "all_filed c w chosen"
    and "distinct (map SelectedQuestion.opportunity_id chosen @ primary @ reserves)"
  shows "all_filed c w' qs \<and> distinct (map SelectedQuestion.opportunity_id qs)
     \<and> set (map SelectedQuestion.opportunity_id qs) \<subseteq> set (map SelectedQuestion.opportunity_id chosen @ primary @ reserves)"
  using assms
proof (induction primary reserves chosen arbitrary: w rule: loop_induct)
  case (empty reserves chosen)
  then show ?case by (auto simp: give_Inr)
next
  case (step oid rest reserves chosen)
  show ?case
  proof (cases "n \<le> int (length chosen)")
    case True
    then show ?thesis using step.prems by (auto simp: give_Inr)
  next
    case False
    then obtain res v where t: "try_opportunity S c oid w = (Inr res, v)"
      and go: "(case res of Some x \<Rightarrow> question_loop S c n rest reserves (chosen @ [x])
        | None \<Rightarrow> (case reserves of [] \<Rightarrow> give chosen | r # rs \<Rightarrow> question_loop S c n (rest @ [r]) rs chosen)) v = (Inr qs, w')"
      using step.prems(1) by (auto simp: seq_Inr)
    show ?thesis
    proof (cases res)
      case (Some x)
      then obtain r where x: "kept c oid x r" "files_review c x r w v" using try_Inr [OF t] by auto
      have "all_filed c v (chosen @ [x])" by (rule all_filed_snoc [OF step.prems(2) x])
      moreover have "distinct (map SelectedQuestion.opportunity_id (chosen @ [x]) @ rest @ reserves)"
        using step.prems(3) kept_opportunity [OF x(1)] by auto
      moreover have "question_loop S c n rest reserves (chosen @ [x]) v = (Inr qs, w')" using go Some by simp
      ultimately have "all_filed c w' qs \<and> distinct (map SelectedQuestion.opportunity_id qs)
          \<and> set (map SelectedQuestion.opportunity_id qs)
            \<subseteq> set (map SelectedQuestion.opportunity_id (chosen @ [x]) @ rest @ reserves)"
        by (intro step.IH(1))
      then show ?thesis using kept_opportunity [OF x(1)] by auto
    next
      case None
      then have same: "question_reviews v = question_reviews w" using try_Inr [OF t] by simp
      have f: "all_filed c v chosen" by (rule iffD2 [OF all_filed_same [OF same] step.prems(2)])
      show ?thesis
      proof (cases reserves)
        case Nil
        then show ?thesis using go None f step.prems(3) by (auto simp: give_Inr)
      next
        case (Cons r rs)
        have "distinct (map SelectedQuestion.opportunity_id chosen @ (rest @ [r]) @ rs)"
          using step.prems(3) Cons by auto
        moreover have "question_loop S c n (rest @ [r]) rs chosen v = (Inr qs, w')" using go None Cons by simp
        ultimately have "all_filed c w' qs \<and> distinct (map SelectedQuestion.opportunity_id qs)
          \<and> set (map SelectedQuestion.opportunity_id qs)
            \<subseteq> set (map SelectedQuestion.opportunity_id chosen @ (rest @ [r]) @ rs)"
          using f by (intro step.IH(2) [OF Cons])
        then show ?thesis using Cons by auto
      qed
    qed
  qed
qed

text \<open>Whatever the loop does beyond its stages is to file the question and its review.\<close>

lemma loop_obeys:
  assumes o: "quiet_order R" and r: "\<And>w w'. same_content w w' \<Longrightarrow> R w w'"
    and k: "\<And>w gs rs. R w (w\<lparr>generated_questions := gs, question_reviews := rs\<rparr>)"
  shows "obeys R (question_loop S c n primary reserves chosen)"
proof -
  have so: "store_order R" using o by (simp add: quiet_order_def)
  note rules = store_order.obeys_rules [OF so] and m = obeys_mono [OF _ r]
  have j: "obeys R (judge_candidate S c oid q g cand)" for oid q g cand
    unfolding judge_candidate_def Let_def keep_question_def context_check_def
    by (intro rules m [OF silent.obeys_job_states(4)] m [OF review_quiet] m [OF silent.obeys_cancellation(2)]
        store_order.obeys_adjust [OF so] k)
  have t: "obeys R (try_opportunity S c oid)" for oid
    unfolding try_opportunity_def context_check_def
    by (intro rules m [OF question_quiet] m [OF silent.obeys_cancellation(2)] j)
  show ?thesis
  proof (induction primary reserves chosen rule: loop_induct)
    case (empty reserves chosen)
    then show ?case by (simp add: rules)
  next
    case (step oid rest reserves chosen)
    then show ?case by (auto split: option.splits list.splits intro!: rules t)
  qed
qed

end

end
