(* ===== verification/PipelinePhases.thy ===== *)
theory PipelinePhases
  imports PipelineOutputs
begin

text \<open>
  What each phase of the pipeline has checked when it returns, and that a phase that fails has published
  nothing.
\<close>

section \<open>Publication or nothing\<close>

definition yields :: "JobRow \<Rightarrow> 'a act \<Rightarrow> bool" where
  "yields job m \<longleftrightarrow> (\<forall>w r w'. job_invariant (base w) \<longrightarrow> m w = (r, w') \<longrightarrow>
     same_outputs w w' \<or> ((\<exists>x. r = Inr x) \<and> has_status (JobRow.ident job) (base w') ''SUCCEEDED''))"

lemma yields_obeys: "obeys same_outputs m \<Longrightarrow> yields job m"
  using obeysD unfolding yields_def by blast

lemma yields_seq:
  assumes m: "heeds job m" "obeys same_outputs m" and f: "\<And>x. yields job (f x)"
  shows "yields job (seq m f)"
  unfolding yields_def
proof (intro allI impI)
  fix w r w'
  assume i: "job_invariant (base w)" and run: "seq m f w = (r, w')"
  obtain q v where q: "m w = (q, v)" by (cases "m w")
  have v: "job_invariant (base v)" "same_outputs w v"
    using heeds_invariant [OF m(1) i q] obeysD [OF m(2) q] by simp_all
  show "same_outputs w w' \<or> ((\<exists>x. r = Inr x) \<and> has_status (JobRow.ident job) (base w') ''SUCCEEDED'')"
  proof (cases q)
    case (Inl e)
    then show ?thesis using run q v by (simp add: seq_def)
  next
    case (Inr x)
    then have "f x v = (r, w')" using run q by (simp add: seq_def)
    then show ?thesis using f v unfolding yields_def same_outputs_def by metis
  qed
qed

lemma yields_split: "yields job a \<Longrightarrow> yields job b \<Longrightarrow> yields job (if t then a else b)"
  by simp

lemma publish_row_outputs:
  assumes "publish_row P job sub a g rid t now w = (Inl e, w')"
  shows "same_outputs w w'"
proof -
  let ?r = "finalize_submission_assessment (JobRow.ident job) (JobRow.tenant_id job) (new_assessment_row P job sub a rid t)
    (new_guide_row job sub a g) now (base w)"
  show ?thesis
  proof (cases ?r)
    case (Inl x)
    then show ?thesis using assms by (simp add: publish_row_def seq_def transact_def same_outputs_def)
  next
    case (Inr q)
    obtain b s where q: "q = (b, s)" by (cases q)
    have b: "\<not> b" and s: "base w' = s"
      using assms Inr q by (auto simp: publish_row_def seq_def transact_def stop_if_def fail_with_def give_def split: if_splits)
    have "?r = Inr (b, s)" using Inr q by simp
    then have "assessments s = assessments (base w) \<and> guides s = guides (base w)"
      using b complete_cancellation_outputs by (cases rule: finalize_cases) auto
    then show ?thesis using s by (simp add: same_outputs_def)
  qed
qed

lemma publish_row_yields: "yields job (publish_row P job sub a g rid t now)"
  unfolding yields_def
proof (intro allI impI)
  fix w r w'
  assume i: "job_invariant (base w)" and run: "publish_row P job sub a g rid t now w = (r, w')"
  show "same_outputs w w' \<or> ((\<exists>x. r = Inr x) \<and> has_status (JobRow.ident job) (base w') ''SUCCEEDED'')"
    using run publish_row_outputs endsD [OF publish_ends i] by (cases r) auto
qed

lemmas unpublished_rules = unpublished.quiet_rules unpublished.obeys_job_states unpublished.obeys_cancellation
  unpublished.obeys_floor unpublished.obeys_parse unpublished.obeys_plan_stage unpublished.obeys_load unpublished.obeys_assemble
  unpublished.obeys_terminal

lemma finalize_yields: "yields job (finalize P job sub a g)"
  unfolding finalize_def
  by (intro yields_seq publish_row_yields heeds_rules heeds_floor unpublished_rules)

context careful_stages
begin

lemma stage_unpublished: "obeys same_outputs (map_stage S a)" "obeys same_outputs (question_stage S oid b)"
  "obeys same_outputs (review_stage S oid c)" "obeys same_outputs (guide_stage S d)"
  by (rule obeys_mono [where R = same_content], rule map_quiet question_quiet review_quiet guide_quiet, erule quiet_same(1))+

lemma keep_unpublished: "(\<And>w. base (h w) = base w) \<Longrightarrow> obeys same_outputs (adjust h)"
  by (rule unpublished.obeys_adjust) (simp add: same_outputs_def)

lemma check_unpublished: "obeys same_outputs (context_check r)"
  by (simp add: context_check_def unpublished.obeys_basic)

lemma loop_unpublished: "obeys same_outputs (question_loop S c n primary reserves chosen)"
  by (rule loop_obeys [OF unpublished.quiet_order_axioms]) (simp_all add: quiet_same, simp add: same_outputs_def)

lemma phases_unpublished: "obeys same_outputs (evidence_phase env P job' k)" "obeys same_outputs (mapping_phase S job' k bundle)"
  "obeys same_outputs (planning_phase env P job' k mp)" "obeys same_outputs (question_phase S job' k bundle mp pl)"
  unfolding evidence_phase_def mapping_phase_def planning_phase_def question_phase_def merge_evidence_def Let_def
  by (intro unpublished_rules stage_unpublished keep_unpublished check_unpublished loop_unpublished; simp)+

lemma publish_phase_yields: "yields job (publish_phase P S job k bundle mp pl qs)"
  unfolding publish_phase_def Let_def
  by (intro yields_seq yields_split finalize_yields yields_obeys unpublished_rules stage_unpublished check_unpublished
      heeds_basic heeds_job_states heeds_assemble stage_heeds check_heeds heeds_checkpoint)

lemma pipeline_yields: "yields job (run_submission_pipeline env P S job)"
  unfolding run_submission_pipeline_def Let_def
  by (intro yields_seq yields_split publish_phase_yields yields_obeys unpublished_rules phases_unpublished heeds_load evidence_heeds
      mapping_heeds planning_heeds questions_heeds heeds_basic)

end

section \<open>What the phases have checked\<close>

lemma load_task_Inr:
  assumes "load_task P job w = (Inr k, w')"
  shows "w' = w" and "SubmissionRow.ident (task_submission k) = JobRow.aggregate_id job"
    and "SubmissionRow.tenant_id (task_submission k) = JobRow.tenant_id job"
    and "\<exists>brow \<in> set (blueprints w). BlueprintRow.data brow = task_blueprint k
      \<and> SubmissionRow.blueprint_version (task_submission k) = Some (BlueprintRow.version brow)
      \<and> BlueprintRow.activity_id brow = ActivityRow.ident (task_activity k) \<and> BlueprintRow.tenant_id brow = JobRow.tenant_id job"
    and "AssessmentBlueprint.status (task_blueprint k) = WorkflowStatus.APPROVED"
    and "ActivityRow.ident (task_activity k) = SubmissionRow.activity_id (task_submission k)"
proof -
  obtain sub act brow bp pol f w1 where s: "get_submission (base w) (JobRow.aggregate_id job) = Some sub"
      "SubmissionRow.tenant_id sub = JobRow.tenant_id job"
    and a: "get_activity (base w) (SubmissionRow.activity_id sub) = Some act" "SubmissionRow.blueprint_version sub \<noteq> None"
    and b: "approved_blueprint (ActivityRow.ident act) (JobRow.tenant_id job) (SubmissionRow.blueprint_version sub) w = (Inr (brow, bp), w1)"
    and k: "k = \<lparr>task_submission = sub, task_activity = act, task_blueprint = bp, task_policy = pol, task_artifact = f\<rparr>" "w' = w1"
    using assms by (auto simp: load_task_def Let_def scoped_submission_def scoped_activity_def acts split: prod.splits)
  note ab = approved_blueprintD [OF b]
  obtain n where n: "SubmissionRow.blueprint_version sub = Some n" using a(2) by blast
  show "w' = w" using k ab(1) by simp
  show "SubmissionRow.ident (task_submission k) = JobRow.aggregate_id job" using submission_table.lookup_hit [OF s(1)] k by simp
  show "SubmissionRow.tenant_id (task_submission k) = JobRow.tenant_id job" using s k by simp
  show "\<exists>brow \<in> set (blueprints w). BlueprintRow.data brow = task_blueprint k
      \<and> SubmissionRow.blueprint_version (task_submission k) = Some (BlueprintRow.version brow)
      \<and> BlueprintRow.activity_id brow = ActivityRow.ident (task_activity k) \<and> BlueprintRow.tenant_id brow = JobRow.tenant_id job"
    using ab(3-6) ab(9) [OF n] k n by (intro bexI [of _ brow]) auto
  show "AssessmentBlueprint.status (task_blueprint k) = WorkflowStatus.APPROVED" using ab(7) k by simp
  show "ActivityRow.ident (task_activity k) = SubmissionRow.activity_id (task_submission k)"
    using activity_table.lookup_hit [OF a(1)] k by simp
qed

lemma evidence_phase_Inr:
  assumes "evidence_phase env P job k w = (Inr bundle, w')"
  shows "EvidenceBundle_validate bundle = None" and "\<exists>units bid. bundle = bundle_of job (task_submission k) (task_artifact k) units bid"
  using assms by (auto simp: evidence_phase_def Let_def seq_Inr model_of_Inr)

lemma mapping_phase_Inr:
  assumes "mapping_phase S job k bundle w = (Inr mp, w')"
  shows "validate_evidence_map mp (task_blueprint k) bundle = None"
    and "get_row EvidenceMapRow.submission_id (evidence_maps w') (SubmissionRow.ident (task_submission k))
      = Some \<lparr>EvidenceMapRow.submission_id = SubmissionRow.ident (task_submission k), tenant_id = JobRow.tenant_id job, data = mp\<rparr>"
  using assms by (auto simp: mapping_phase_def Let_def seq_Inr context_check_Inr adjust_Inr give_Inr get_merge_row)

lemma planning_phase_Inr:
  assumes "planning_phase env P job k mp w = (Inr pl, w')"
  shows "validate_assessment_plan pl mp = None" and "evidence_maps w' = evidence_maps w" and "blueprints w' = blueprints w"
proof -
  obtain w1 w2 w3 where 1: "set_submission (task_submission k) job SubmissionProcessingStatus.PLANNING ''ASSESSMENT_PLAN'' (fl (32 / 100)) w = (Inr (), w1)"
    and 2: "plan_stage env P job mp (task_blueprint k) (BlueprintPolicy.planning_policy (task_policy k)) w1 = (Inr pl, w2)"
    and 3: "cancellation_checkpoint job w2 = (Inr (), w3)"
    and w': "evidence_maps w' = evidence_maps w3" "blueprints w' = blueprints w3"
    and v: "validate_assessment_plan pl mp = None"
    using assms by (auto simp: planning_phase_def Let_def seq_Inr context_check_Inr adjust_Inr give_Inr)
  show "validate_assessment_plan pl mp = None" by (rule v)
  show "evidence_maps w' = evidence_maps w" "blueprints w' = blueprints w"
    using obeysD [OF files.obeys_job_states(4) 1] obeysD [OF files.obeys_plan_stage 2] obeysD [OF files.obeys_cancellation(2) 3] w'
    by (simp_all add: same_files_def)
qed

context careful_stages
begin

lemma question_phase_Inr:
  assumes run: "question_phase S job k bundle mp pl w = (Inr qs, w')"
    and d: "distinct (AssessmentPlan.selected_opportunity_ids pl @ AssessmentPlan.reserve_opportunity_ids pl)"
  shows "same_files w w'" and "\<exists>c vid. draft_mapping c = mp \<and> draft_bundle c = bundle
    \<and> draft_validation c = validation_policy_with vid \<and> all_filed c w' qs \<and> distinct (map SelectedQuestion.opportunity_id qs)"
proof -
  let ?c = "\<lambda>gp vp. \<lparr>draft_submission = task_submission k, draft_job = job, draft_plan = pl, draft_mapping = mp,
    draft_bundle = bundle, draft_generation = gp, draft_validation = vp\<rparr>"
  obtain gp vid w1 where 1: "set_submission (task_submission k) job SubmissionProcessingStatus.GENERATING ''QUESTION_GENERATE'' (fl (2 / 5)) w = (Inr (), w1)"
    and 2: "question_loop S (?c gp (validation_policy_with vid)) (AssessmentPlan.question_count pl)
      (AssessmentPlan.selected_opportunity_ids pl) (AssessmentPlan.reserve_opportunity_ids pl) [] w1 = (Inr qs, w')"
    using run unfolding question_phase_def Let_def by (auto simp: seq_Inr make_id_Inr model_of_Inr)
  have l: "obeys same_files (question_loop S c n primary reserves chosen)" for c n primary reserves chosen
    by (rule loop_obeys [OF files.quiet_order_axioms]) (simp_all add: quiet_same, simp add: same_files_def)
  then show "same_files w w'"
    using obeysD [OF files.obeys_job_states(4) 1] obeysD [OF l 2] by (simp add: same_files_def)
  have "all_filed (?c gp (validation_policy_with vid)) w1 []" by (simp add: all_filed_def)
  from loop_Inr [OF 2 this] d
  show "\<exists>c vid. draft_mapping c = mp \<and> draft_bundle c = bundle
    \<and> draft_validation c = validation_policy_with vid \<and> all_filed c w' qs \<and> distinct (map SelectedQuestion.opportunity_id qs)"
    by (intro exI [of _ "?c gp (validation_policy_with vid)"] exI [of _ vid]) simp
qed

end

lemma assemble_Inr:
  assumes "assemble_assessment act sub bp pl mp qs f job w = (Inr a, w')"
  shows "Assessment_validate a = None" and "Assessment.questions a = qs" and "Assessment.question_count a = AssessmentPlan.question_count pl"
    and "Assessment.status a = WorkflowStatus.NEEDS_REVIEW" and "Assessment.submission_id a = SubmissionRow.ident sub"
    and "Assessment.tenant_id a = JobRow.tenant_id job"
    and "Lineage.blueprint_version (Assessment.lineage a) = AssessmentBlueprint.blueprint_version bp"
  using assms by (auto simp: assemble_assessment_def seq_Inr model_of_Inr assessment_of_def Let_def)

lemma finalize_Inr:
  assumes "finalize P job sub a g w = (Inr u, w')"
  shows "question_reviews w' = question_reviews w" and "same_files w w'"
    and "\<exists>r gr. r \<in> set (assessments (base w')) \<and> gr \<in> set (guides (base w')) \<and> AssessmentRow.data r = a \<and> GuideRow.data gr = g
      \<and> AssessmentRow.submission_id r = SubmissionRow.ident sub \<and> AssessmentRow.tenant_id r = JobRow.tenant_id job
      \<and> AssessmentRow.status r = ''NEEDS_REVIEW'' \<and> AssessmentRow.version r = 1
      \<and> GuideRow.assessment_id gr = AssessmentRow.assessment_id r"
    and "EvaluationGuide_validate g = None"
proof -
  obtain rid v t now where 1: "mark_resume_floor job ''ASSEMBLE'' w = (Inr (), v)"
    and 2: "publish_row P job sub a g rid t now (v\<lparr>ticks := Suc (Suc (ticks v))\<rparr>) = (Inr (), w')"
    using assms by (auto simp: finalize_def seq_Inr make_id_Inr utc_now_Inr)
  then obtain s where s: "finalize_submission_assessment (JobRow.ident job) (JobRow.tenant_id job) (new_assessment_row P job sub a rid t)
      (new_guide_row job sub a g) now (base v) = Inr (True, s)" and w': "w' = v\<lparr>ticks := Suc (Suc (ticks v)), base := s\<rparr>"
    by (auto simp: publish_row_def acts)
  have v: "same_files w v" "question_reviews v = question_reviews w"
    using obeysD [OF files.obeys_floor(1) 1] quiet_reviews [OF silent.obeys_floor(1) 1] by simp_all
  show "question_reviews w' = question_reviews w" "same_files w w'" using v w' by (simp_all add: same_files_def)
  show "EvaluationGuide_validate g = None"
    using s by (simp add: finalize_submission_assessment_def new_guide_row_def)
  have "new_assessment_row P job sub a rid t \<in> set (assessments s)" "new_guide_row job sub a g \<in> set (guides s)"
    using s by (cases rule: finalize_cases; simp add: mem_merge_assessment mem_merge_guide)+
  then show "\<exists>r gr. r \<in> set (assessments (base w')) \<and> gr \<in> set (guides (base w')) \<and> AssessmentRow.data r = a \<and> GuideRow.data gr = g
      \<and> AssessmentRow.submission_id r = SubmissionRow.ident sub \<and> AssessmentRow.tenant_id r = JobRow.tenant_id job
      \<and> AssessmentRow.status r = ''NEEDS_REVIEW'' \<and> AssessmentRow.version r = 1
      \<and> GuideRow.assessment_id gr = AssessmentRow.assessment_id r"
    using w' by (intro exI [of _ "new_assessment_row P job sub a rid t"] exI [of _ "new_guide_row job sub a g"])
      (simp add: new_assessment_row_def new_guide_row_def)
qed

end
