(* ===== verification/PipelineClaims.thy ===== *)
theory PipelineClaims
  imports PipelinePhases ValidationClaims
begin

text \<open>
  The guarantees of the submission pipeline and of \<open>process_job\<close>, with whatever answers the models give.
\<close>

section \<open>A published question\<close>

text \<open>What can be said of a question of a published assessment: its opportunity is one of the mapping on
  file, a path of the approved blueprint grounded in the submission's own evidence, its text is safe, its
  anchor quotes the opportunity's evidence, and a review on file accepted exactly its candidate with every
  threshold of the policy.\<close>

definition question_grounded :: "AssessmentBlueprint \<Rightarrow> EvidenceMapPatch \<Rightarrow> EvidenceBundle \<Rightarrow> SelectedQuestion \<Rightarrow> bool" where
  "question_grounded bp mp b x \<longleftrightarrow> (\<exists>q \<in> set (EvidenceMapPatch.opportunities mp).
     QuestionOpportunity.opportunity_id q = SelectedQuestion.opportunity_id x \<and> grounded_opportunity bp b q
     \<and> set (SelectedQuestion.evidence_ids x) \<subseteq> set (QuestionOpportunity.evidence_ids q)
     \<and> SelectedQuestion.cognitive_operation x = QuestionOpportunity.cognitive_operation q
     \<and> SelectedQuestion.estimated_minutes x = QuestionOpportunity.target_minutes q
     \<and> (\<forall>fr \<in> set (Anchor.fragments (SelectedQuestion.anchor x)). quoted_fragment b fr
          \<and> AnchorFragment.evidence_id fr \<in> set (QuestionOpportunity.evidence_ids q))
     \<and> SelectedQuestion.citations x = [] \<and> check_safe_generated_text (SelectedQuestion.question_text x) = None)"

definition accepted_on_file :: "WorkStore \<Rightarrow> SelectedQuestion \<Rightarrow> bool" where
  "accepted_on_file w x \<longleftrightarrow> (\<exists>fr rv.
     get_row QuestionReviewRow.question_id (question_reviews w) (SelectedQuestion.question_id x) = Some fr
     \<and> QuestionReviewResult.review (QuestionReviewRow.data fr) = Some rv
     \<and> QuestionSemanticReview.candidate_id rv = SelectedQuestion.source_candidate_id x
     \<and> QuestionSemanticReview.decision rv = ReviewDecision.ACCEPT
     \<and> fl (9 / 10) \<le> QuestionScores.groundedness (QuestionSemanticReview.scores rv)
     \<and> fl (8 / 10) \<le> QuestionScores.anchor_sufficiency (QuestionSemanticReview.scores rv)
     \<and> fl (8 / 10) \<le> QuestionScores.criterion_relevance (QuestionSemanticReview.scores rv)
     \<and> fl (85 / 100) \<le> QuestionScores.answerability (QuestionSemanticReview.scores rv)
     \<and> QuestionSemanticReview.critical_failure_codes rv = [])"

definition sound_assessment :: "AssessmentBlueprint \<Rightarrow> EvidenceMapPatch \<Rightarrow> EvidenceBundle \<Rightarrow> WorkStore \<Rightarrow> Assessment \<Rightarrow> bool" where
  "sound_assessment bp mp b w a \<longleftrightarrow> Assessment_validate a = None
     \<and> int (length (Assessment.questions a)) = Assessment.question_count a
     \<and> distinct (map SelectedQuestion.opportunity_id (Assessment.questions a))
     \<and> (\<forall>x \<in> set (Assessment.questions a). question_grounded bp mp b x \<and> accepted_on_file w x)"

lemma candidate_anchor:
  assumes "QuestionCandidate_validate cand = None" and "validate_question_candidate cand q b = None"
  shows "\<forall>fr \<in> set (Anchor.fragments (QuestionCandidate.anchor cand)). quoted_fragment b fr
      \<and> AnchorFragment.evidence_id fr \<in> set (QuestionOpportunity.evidence_ids q)"
    and "EvidenceBundle.context_mode b = ContextMode.CLOSED \<Longrightarrow> QuestionCandidate.citations cand = []"
proof -
  note k = candidate_checks [OF assms(2)]
  have "set (map AnchorFragment.evidence_id (Anchor.fragments (QuestionCandidate.anchor cand)))
      \<subseteq> set (QuestionCandidate.evidence_ids cand)"
    using assms(1) by (simp add: QuestionCandidate_validate_def checks)
  then show "\<forall>fr \<in> set (Anchor.fragments (QuestionCandidate.anchor cand)). quoted_fragment b fr
      \<and> AnchorFragment.evidence_id fr \<in> set (QuestionOpportunity.evidence_ids q)"
    using k(1,3,5) fragment_quoted by (auto simp: image_subset_iff)
  show "EvidenceBundle.context_mode b = ContextMode.CLOSED \<Longrightarrow> QuestionCandidate.citations cand = []"
    using k(6) by (simp add: citation_error_def checks)
qed

lemma kept_grounded:
  assumes k: "kept c oid x r" and m: "validate_evidence_map (draft_mapping c) bp (draft_bundle c) = None"
    and closed: "EvidenceBundle.context_mode (draft_bundle c) = ContextMode.CLOSED"
  shows "question_grounded bp (draft_mapping c) (draft_bundle c) x"
proof -
  obtain q cand g qid where q: "q \<in> set (EvidenceMapPatch.opportunities (draft_mapping c))"
      "QuestionOpportunity.opportunity_id q = oid" and x: "x = selected_question cand q qid"
    and v: "QuestionCandidate_validate cand = None" "validate_question_candidate cand q (draft_bundle c) = None"
    using k by (auto simp: kept_def)
  have "EvidenceMapPatch.status (draft_mapping c) = ''READY''"
    using m q(1) by (auto simp: validate_evidence_map_def Let_def checks split: if_splits)
  note ready = ready_map_checks [OF m this]
  have g: "grounded_opportunity bp (draft_bundle c) q" using opportunity_grounded [OF ready(1,2)] ready(3) q(1) by blast
  note cg = candidate_anchor [OF v]
  note cc = candidate_checks [OF v(2)]
  show ?thesis
    unfolding question_grounded_def
    using q g cc(3,4) cg closed kept_opportunity [OF k] x cc(2)
    by (intro bexI [of _ q]) (auto simp: selected_question_def candidate_path_error_def checks)
qed

lemma kept_accepted:
  assumes k: "kept c (SelectedQuestion.opportunity_id x) x (QuestionReviewRow.data fr)"
    and fr: "get_row QuestionReviewRow.question_id (question_reviews w) (SelectedQuestion.question_id x) = Some fr"
    and vp: "draft_validation c = validation_policy_with pid"
  shows "accepted_on_file w x"
proof -
  let ?r = "QuestionReviewRow.data fr"
  obtain q cand g qid where x: "x = selected_question cand q qid" and g: "QuestionGenerationResult.candidate g = Some cand"
    and ok: "validate_review_result ?r g (validation_policy_with pid) = None" and acc: "accepted_review ?r"
    using k vp by (auto simp: kept_def)
  obtain rv where rv: "QuestionReviewResult.review ?r = Some rv" "QuestionSemanticReview.decision rv = ReviewDecision.ACCEPT"
    "QuestionReviewResult.status ?r = ''READY''"
    using acc by (auto simp: accepted_review_def split: option.splits)
  have e: "ready_review_error ?r rv g cand (validation_policy_with pid) = None"
    using ok rv g by (simp add: validate_review_result_def)
  then show ?thesis
    unfolding accepted_on_file_def
    using fr rv x
    by (intro exI [of _ fr] exI [of _ rv])
      (auto simp: ready_review_error_def checks below_threshold_def Let_def not_less validation_policy_with_def selected_question_def)
qed

section \<open>The end of the pipeline\<close>

context careful_stages
begin

lemma publish_phase_Inr:
  assumes i: "job_invariant (base w)" and run: "publish_phase P S job k bundle mp pl qs w = (Inr u, w')"
  shows "has_status (JobRow.ident job) (base w') ''NEEDS_REVIEW'' \<and> same_outputs w w'
   \<or> has_status (JobRow.ident job) (base w') ''SUCCEEDED'' \<and> question_reviews w' = question_reviews w \<and> same_files w w'
     \<and> (\<exists>a g r gr. Assessment_validate a = None \<and> Assessment.questions a = qs
        \<and> Assessment.question_count a = AssessmentPlan.question_count pl
        \<and> Assessment.submission_id a = SubmissionRow.ident (task_submission k)
        \<and> Lineage.blueprint_version (Assessment.lineage a) = AssessmentBlueprint.blueprint_version (task_blueprint k)
        \<and> r \<in> set (assessments (base w')) \<and> gr \<in> set (guides (base w')) \<and> AssessmentRow.data r = a \<and> GuideRow.data gr = g
        \<and> AssessmentRow.submission_id r = SubmissionRow.ident (task_submission k) \<and> AssessmentRow.tenant_id r = JobRow.tenant_id job
        \<and> AssessmentRow.status r = ''NEEDS_REVIEW'' \<and> GuideRow.assessment_id gr = AssessmentRow.assessment_id r
        \<and> EvaluationGuide_validate g = None \<and> EvaluationGuide.status g = ''READY'' \<and> validate_evaluation_guide g a bundle = None)"
proof -
  let ?sub = "task_submission k"
  obtain a w1 gid w2 rq g w3 w4 where 1: "assemble_assessment (task_activity k) ?sub (task_blueprint k) pl mp qs (task_artifact k) job w = (Inr a, w1)"
    and 2: "set_submission ?sub job SubmissionProcessingStatus.GUIDE_READY ''GUIDE_BUILD'' (fl (82 / 100)) w1 = (Inr (), w2)"
    and 3: "guide_stage S rq w2 = (Inr g, w3)" and 4: "validate_evaluation_guide g a bundle = None"
    and 5: "cancellation_checkpoint job w3 = (Inr (), w4)"
    and 6: "(if EvaluationGuide.status g \<noteq> ''READY'' then
       (if EvaluationGuide.status g = ''NEEDS_REVIEW''
        then terminal_domain_failure ?sub job ''NEEDS_REVIEW'' (EvaluationGuide.diagnostics g) ''GUIDE_BUILD''
        else fail_with (WorkflowError ''GUIDE_TECHNICAL_FAILURE'' 500))
     else finalize P job ?sub a g) w4 = (Inr u, w')"
    using run unfolding publish_phase_def Let_def
    by (auto simp: seq_Inr [of "assemble_assessment a b c d e f g h" for a b c d e f g h] seq_Inr [of "make_id a b" for a b]
        seq_Inr [of "set_submission a b c d e" for a b c d e] seq_Inr [of "model_of GuideBuildRequest_validate a" for a]
        seq_Inr [of "guide_stage S a" for a] seq_Inr [of "context_check a" for a] seq_Inr [of "cancellation_checkpoint a" for a]
        model_of_Inr context_check_Inr make_id_Inr)
  have q: "same_content w w1" "same_content w1 w2" "same_content w2 w3" "same_content w3 w4"
    using obeysD [OF silent.obeys_assemble 1] obeysD [OF silent.obeys_job_states(4) 2] obeysD [OF guide_quiet 3]
      obeysD [OF silent.obeys_cancellation(2) 5] by simp_all
  then have q4: "same_content w w4" by (simp add: same_content_def)
  have i4: "job_invariant (base w4)"
    using heeds_invariant [OF heeds_assemble i 1] heeds_invariant [OF heeds_job_states(4) _ 2] heeds_invariant [OF guide_heeds _ 3]
      heeds_invariant [OF heeds_checkpoint _ 5] by blast
  show ?thesis
  proof (cases "EvaluationGuide.status g = ''READY''")
    case True
    then have f: "finalize P job ?sub a g w4 = (Inr u, w')" using 6 by simp
    note fin = finalize_Inr [OF f] and asm = assemble_Inr [OF 1]
    obtain r gr where r: "r \<in> set (assessments (base w'))" "gr \<in> set (guides (base w'))" "AssessmentRow.data r = a" "GuideRow.data gr = g"
      "AssessmentRow.submission_id r = SubmissionRow.ident ?sub" "AssessmentRow.tenant_id r = JobRow.tenant_id job"
      "AssessmentRow.status r = ''NEEDS_REVIEW''" "GuideRow.assessment_id gr = AssessmentRow.assessment_id r" using fin(3) by blast
    have "has_status (JobRow.ident job) (base w') ''SUCCEEDED''" by (rule endsD [OF finalize_ends i4 f])
    moreover have "question_reviews w' = question_reviews w" "same_files w w'"
      using fin(1,2) q4 by (simp_all add: same_content_def same_files_def)
    ultimately show ?thesis
      using True 4 r asm fin(4)
      by (intro disjI2 conjI exI [of _ a] exI [of _ g] exI [of _ r] exI [of _ gr]) simp_all
  next
    case False
    then have t: "terminal_domain_failure ?sub job ''NEEDS_REVIEW'' (EvaluationGuide.diagnostics g) ''GUIDE_BUILD'' w4 = (Inr u, w')"
      using 6 by (simp add: fail_with_Inr split: if_splits)
    have "same_outputs w w'" using q4 obeysD [OF unpublished.obeys_terminal t] by (simp add: same_content_def same_outputs_def)
    then show ?thesis using endsD [OF terminal_ends i4 t] by simp
  qed
qed

end

definition sound_publication :: "JobRow \<Rightarrow> WorkStore \<Rightarrow> WorkStore \<Rightarrow> bool" where
  "sound_publication job w w' \<longleftrightarrow> (\<exists>brow \<in> set (blueprints w). \<exists>mrow b. \<exists>r \<in> set (assessments (base w')). \<exists>gr \<in> set (guides (base w')).
     AssessmentBlueprint.status (BlueprintRow.data brow) = WorkflowStatus.APPROVED
     \<and> get_row EvidenceMapRow.submission_id (evidence_maps w') (JobRow.aggregate_id job) = Some mrow
     \<and> EvidenceBundle.submission_id b = JobRow.aggregate_id job \<and> EvidenceBundle.tenant_id b = JobRow.tenant_id job
     \<and> AssessmentRow.submission_id r = JobRow.aggregate_id job \<and> AssessmentRow.tenant_id r = JobRow.tenant_id job
     \<and> AssessmentRow.status r = ''NEEDS_REVIEW''
     \<and> Lineage.blueprint_version (Assessment.lineage (AssessmentRow.data r)) = AssessmentBlueprint.blueprint_version (BlueprintRow.data brow)
     \<and> sound_assessment (BlueprintRow.data brow) (EvidenceMapRow.data mrow) b w' (AssessmentRow.data r)
     \<and> GuideRow.assessment_id gr = AssessmentRow.assessment_id r \<and> EvaluationGuide.status (GuideRow.data gr) = ''READY''
     \<and> validate_evaluation_guide (GuideRow.data gr) (AssessmentRow.data r) b = None)"

lemma sound_assessment_intro:
  assumes a: "Assessment_validate a = None" and st: "int (length (Assessment.questions a)) = Assessment.question_count a"
    and c: "all_filed c w (Assessment.questions a)" "draft_validation c = validation_policy_with vid"
    and d: "distinct (map SelectedQuestion.opportunity_id (Assessment.questions a))"
    and m: "validate_evidence_map (draft_mapping c) bp (draft_bundle c) = None"
    and closed: "EvidenceBundle.context_mode (draft_bundle c) = ContextMode.CLOSED"
  shows "sound_assessment bp (draft_mapping c) (draft_bundle c) w a"
proof -
  have "question_grounded bp (draft_mapping c) (draft_bundle c) x \<and> accepted_on_file w x" if x: "x \<in> set (Assessment.questions a)" for x
  proof -
    have "filed c w x" using c(1) assessment_distinct [OF a] x by (simp add: all_filed_def)
    then obtain fr where "get_row QuestionReviewRow.question_id (question_reviews w) (SelectedQuestion.question_id x) = Some fr"
      "kept c (SelectedQuestion.opportunity_id x) x (QuestionReviewRow.data fr)" unfolding filed_def by blast
    then show ?thesis using kept_grounded [OF _ m closed] kept_accepted [OF _ _ c(2)] by blast
  qed
  then show ?thesis using a st d by (simp add: sound_assessment_def)
qed

context careful_stages
begin

lemma pipeline_Inr:
  assumes i: "job_invariant (base w)" and run: "run_submission_pipeline env P S job w = (Inr u, w')"
  shows "has_status (JobRow.ident job) (base w') ''NEEDS_REVIEW'' \<and> same_outputs w w'
    \<or> has_status (JobRow.ident job) (base w') ''SUCCEEDED'' \<and> sound_publication job w w'"
proof -
  obtain k w1 bnd w2 mp w3 pl w4 where 1: "load_task P job w = (Inr k, w1)"
    and 2: "evidence_phase env P job k w1 = (Inr bnd, w2)" and 3: "mapping_phase S job k bnd w2 = (Inr mp, w3)"
    and 4: "planning_phase env P job k mp w3 = (Inr pl, w4)"
    and rest: "(if AssessmentPlan.status pl \<noteq> ''READY''
     then terminal_domain_failure (task_submission k) job (AssessmentPlan.status pl) (AssessmentPlan.diagnostics pl) ''ASSESSMENT_PLAN''
     else
       seq (question_phase S job k bnd mp pl) (\<lambda>qs.
       if int (length qs) \<noteq> AssessmentPlan.question_count pl
       then seq (error_diagnostic ''ASSESSMENT_PLAN_INFEASIBLE'' ''No fue posible validar exactamente N preguntas tras usar la reserva.'' False)
              (\<lambda>d. terminal_domain_failure (task_submission k) job ''ASSESSMENT_PLAN_INFEASIBLE'' [d] ''ASSESSMENT_PLAN'')
       else publish_phase P S job k bnd mp pl qs)) w4 = (Inr u, w')"
    using run unfolding run_submission_pipeline_def Let_def
    by (auto simp: seq_Inr [of "load_task a b" for a b] seq_Inr [of "evidence_phase a b c d" for a b c d]
        seq_Inr [of "mapping_phase a b c d" for a b c d] seq_Inr [of "planning_phase a b c d e" for a b c d e])
  have i4: "job_invariant (base w4)" "same_outputs w w4"
    using heeds_invariant [OF heeds_load i 1] heeds_invariant [OF evidence_heeds _ 2] heeds_invariant [OF mapping_heeds _ 3]
      heeds_invariant [OF planning_heeds _ 4] obeysD [OF unpublished.obeys_load 1] obeysD [OF phases_unpublished(1) 2]
      obeysD [OF phases_unpublished(2) 3] obeysD [OF phases_unpublished(3) 4] by (blast, simp add: same_outputs_def)
  have stopped: ?thesis if "terminal_domain_failure sub job st ds stg v = (Inr u, w')" "job_invariant (base v)" "same_outputs w v"
    for sub st ds stg v
    using endsD [OF terminal_ends that(2,1)] obeysD [OF unpublished.obeys_terminal that(1)] that(3) by (simp add: same_outputs_def)
  show ?thesis
  proof (cases "AssessmentPlan.status pl = ''READY''")
    case False
    then show ?thesis using rest stopped i4 by auto
  next
    case True
    then obtain qs w5 where 5: "question_phase S job k bnd mp pl w4 = (Inr qs, w5)"
      and rest: "(if int (length qs) \<noteq> AssessmentPlan.question_count pl
       then seq (error_diagnostic ''ASSESSMENT_PLAN_INFEASIBLE'' ''No fue posible validar exactamente N preguntas tras usar la reserva.'' False)
              (\<lambda>d. terminal_domain_failure (task_submission k) job ''ASSESSMENT_PLAN_INFEASIBLE'' [d] ''ASSESSMENT_PLAN'')
       else publish_phase P S job k bnd mp pl qs) w5 = (Inr u, w')"
      using rest by (auto simp: seq_Inr [of "question_phase a b c d e f" for a b c d e f])
    have i5: "job_invariant (base w5)" "same_outputs w w5"
      using heeds_invariant [OF questions_heeds i4(1) 5] obeysD [OF phases_unpublished(4) 5] i4(2) by (blast, simp add: same_outputs_def)
    show ?thesis
    proof (cases "int (length qs) = AssessmentPlan.question_count pl")
      case False
      then show ?thesis using rest stopped i5 by (auto simp: seq_Inr error_diagnostic_Inr)
    next
      case n: True
      then have p: "publish_phase P S job k bnd mp pl qs w5 = (Inr u, w')" using rest by simp
      show ?thesis using publish_phase_Inr [OF i5(1) p]
      proof (elim disjE conjE exE)
        fix a g r gr
        assume files: "same_files w5 w'" "question_reviews w' = question_reviews w5" and "has_status (JobRow.ident job) (base w') ''SUCCEEDED''"
          and a: "Assessment_validate a = None" "Assessment.questions a = qs" "Assessment.question_count a = AssessmentPlan.question_count pl"
            "Lineage.blueprint_version (Assessment.lineage a) = AssessmentBlueprint.blueprint_version (task_blueprint k)"
          and r: "r \<in> set (assessments (base w'))" "gr \<in> set (guides (base w'))" "AssessmentRow.data r = a" "GuideRow.data gr = g"
            "AssessmentRow.submission_id r = SubmissionRow.ident (task_submission k)" "AssessmentRow.tenant_id r = JobRow.tenant_id job"
            "AssessmentRow.status r = ''NEEDS_REVIEW''" "GuideRow.assessment_id gr = AssessmentRow.assessment_id r"
            "EvaluationGuide.status g = ''READY''" "validate_evaluation_guide g a bnd = None"
        note k = load_task_Inr [OF 1] and mp = mapping_phase_Inr [OF 3] and pl = planning_phase_Inr [OF 4]
        have "distinct (AssessmentPlan.selected_opportunity_ids pl @ AssessmentPlan.reserve_opportunity_ids pl)"
          using pl(1) True by (simp add: validate_assessment_plan_def Let_def checks)
        note q = question_phase_Inr [OF 5 this]
        obtain c vid where c: "draft_mapping c = mp" "draft_bundle c = bnd" "draft_validation c = validation_policy_with vid"
          "all_filed c w5 qs" "distinct (map SelectedQuestion.opportunity_id qs)" using q(2) by blast
        obtain units bid where b: "bnd = bundle_of job (task_submission k) (task_artifact k) units bid"
          using evidence_phase_Inr(2) [OF 2] by blast
        have "all_filed c w' qs" using c(4) files(2) by (simp add: all_filed_def filed_def)
        then have sound: "sound_assessment (task_blueprint k) mp bnd w' a"
          using sound_assessment_intro [of a c w' vid "task_blueprint k"] a n c mp(1) b by (simp add: bundle_of_def)
        obtain brow where brow: "brow \<in> set (blueprints w)" "BlueprintRow.data brow = task_blueprint k" using k(4) by blast
        have "evidence_maps w' = evidence_maps w3" using files(1) q(1) pl(2) by (simp add: same_files_def)
        then have "sound_publication job w w'"
          unfolding sound_publication_def
          using brow r a(4) sound mp(2) k(2,5) b
          by (intro bexI [OF _ brow(1)] exI [of _ "\<lparr>EvidenceMapRow.submission_id = SubmissionRow.ident (task_submission k),
              tenant_id = JobRow.tenant_id job, data = mp\<rparr>"] exI [of _ bnd] bexI [OF _ r(1)] bexI [OF _ r(2)])
            (simp add: bundle_of_def)
        then show ?thesis using \<open>has_status (JobRow.ident job) (base w') ''SUCCEEDED''\<close> by simp
      next
        assume "has_status (JobRow.ident job) (base w') ''NEEDS_REVIEW''" "same_outputs w5 w'"
        then show ?thesis using i5(2) by (simp add: same_outputs_def)
      qed
    qed
  qed
qed

end

end
