(* ===== verification/ProcessJob.thy ===== *)
theory ProcessJob
  imports PipelineClaims WorkExample GatewayExample
begin

text \<open>
  \<open>process_job\<close> and \<open>run_once\<close>: how a claimed submission job ends.
\<close>

section \<open>The ends of process_job\<close>

lemma process_cases [consumes 2, case_names returned stopped failed]:
  assumes "get_job (base w) jid = Some job" and "process_job env run jid w = (r, w')"
  obtains v where "seq (start_job job) (\<lambda>_. run job) w = (Inr (), v)" "r = Inr ()" "w' = forget_floor jid v"
  | v where "seq (start_job job) (\<lambda>_. run job) w = (Inl Cancelled, v)" "r = Inr ()" "w' = forget_floor jid v"
  | e v cls retry cd v' where "seq (start_job job) (\<lambda>_. run job) w = (Inl e, v)" "e \<noteq> Cancelled"
      "classify_failure env e = (cls, retry, cd)"
      "fail_job job cd ''The workflow failed at a content-minimizing boundary.'' cls retry v = (r, v')" "w' = forget_floor jid v'"
proof -
  obtain q v where q: "seq (start_job job) (\<lambda>_. run job) w = (q, v)" by (cases "seq (start_job job) (\<lambda>_. run job) w")
  note p = assms(2) [unfolded process_job_def Let_def assms(1) option.case q prod.case]
  show thesis
  proof (cases q)
    case (Inr u)
    then have "r = Inr ()" "w' = forget_floor jid v" using p by simp_all
    then show thesis using q Inr by (intro that(1)) simp_all
  next
    case (Inl e)
    obtain cls retry cd where c: "classify_failure env e = (cls, retry, cd)" by (cases "classify_failure env e")
    obtain q' v' where f: "fail_job job cd ''The workflow failed at a content-minimizing boundary.'' cls retry v = (q', v')"
      by (cases "fail_job job cd ''The workflow failed at a content-minimizing boundary.'' cls retry v")
    show thesis
    proof (cases "e = Cancelled")
      case True
      then have "r = Inr ()" "w' = forget_floor jid v" using p Inl by simp_all
      then show thesis using q Inl True by (intro that(2)) simp_all
    next
      case False
      then have "r = q'" "w' = forget_floor jid v'" using p Inl c f by simp_all
      then show thesis using q Inl False c f by (intro that(3)) simp_all
    qed
  qed
qed

lemma forget_floor_simps [simp]: "base (forget_floor jid w) = base w" "evidence_maps (forget_floor jid w) = evidence_maps w"
  "question_reviews (forget_floor jid w) = question_reviews w"
  by (simp_all add: forget_floor_def)

text \<open>The fields of the stores that soundness speaks of.\<close>

lemma sound_publication_same:
  assumes "sound_publication job v v'" and "blueprints v = blueprints w" and "base w' = base v'"
    and "evidence_maps w' = evidence_maps v'" and "question_reviews w' = question_reviews v'"
  shows "sound_publication job w w'"
  using assms by (simp add: sound_publication_def sound_assessment_def accepted_on_file_def)

definition submission_run :: "Env \<Rightarrow> Pydantic \<Rightarrow> (JobRow \<Rightarrow> unit act) \<Rightarrow> (JobRow \<Rightarrow> unit act) option \<Rightarrow> JobRow \<Rightarrow> unit act" where
  "submission_run env P activity processor =
     run_kind activity (\<lambda>job. run_submission_pipeline env P (gateway_stages env P job) job) processor"

lemma submission_run_eq: "JobRow.kind job = ''SUBMISSION''
    \<Longrightarrow> submission_run env P activity processor job = run_submission_pipeline env P (gateway_stages env P job) job"
  by (simp add: submission_run_def run_kind_def)

text \<open>Recording a failure never raises the private exception.\<close>

definition placid :: "'a act \<Rightarrow> bool" where
  "placid m \<longleftrightarrow> (\<forall>w. calm (fst (m w)))"

lemma placid_rules: "placid (give x)" "placid (reading f)" "placid (transact g)" "placid utc_now" "placid (look h)"
  "placid (model_of v y)" "placid (error_diagnostic cd msg retry)"
  by (auto simp: placid_def give_def reading_def transact_def utc_now_def look_def model_of_def pass_def error_diagnostic_def
      split: sum.splits)

lemma placid_seq: "placid m \<Longrightarrow> (\<And>x. placid (f x)) \<Longrightarrow> placid (seq m f)"
  by (auto simp: placid_def seq_def split: prod.splits sum.splits) (metis calm_def fst_conv)

lemma placid_if: "placid a \<Longrightarrow> placid b \<Longrightarrow> placid (if t then a else b)"
  by simp

lemma fail_job_placid: "placid (fail_job job cd msg cls retry)"
  unfolding fail_job_def finish_failure_def complete_cancellation_if_requested_def job_control_def job_status_def save_status_def
    put_state_def scoped_submission_def
  by (intro placid_seq placid_if placid_rules)

context careful_stages
begin

lemma started_heeds: "heeds job (seq (start_job job) (\<lambda>_. run_submission_pipeline env P S job))"
  by (intro heeds_seq heeds_start pipeline_heeds)

lemma started_yields: "yields job (seq (start_job job) (\<lambda>_. run_submission_pipeline env P S job))"
  by (intro yields_seq heeds_start unpublished.obeys_start pipeline_yields)

lemma started_Inr:
  assumes i: "job_invariant (base w)" and run: "seq (start_job job) (\<lambda>_. run_submission_pipeline env P S job) w = (Inr u, w')"
  shows "has_status (JobRow.ident job) (base w') ''NEEDS_REVIEW'' \<and> same_outputs w w'
    \<or> has_status (JobRow.ident job) (base w') ''SUCCEEDED'' \<and> sound_publication job w w'"
proof -
  obtain v where 1: "start_job job w = (Inr (), v)" and 2: "run_submission_pipeline env P S job v = (Inr u, w')"
    using run by (auto simp: seq_Inr)
  have "same_content w v" by (rule obeysD [OF silent.obeys_start 1])
  then have same: "blueprints v = blueprints w" "same_outputs w v" by (simp_all add: same_content_def same_outputs_def)
  have sound: "sound_publication job w w'" if "sound_publication job v w'"
    by (rule sound_publication_same [OF that same(1)]) simp_all
  have out: "same_outputs w w'" if "same_outputs v w'" by (rule unpublished.order_trans [OF same(2) that])
  from pipeline_Inr [OF heeds_invariant [OF heeds_start i 1] 2] sound out show ?thesis by blast
qed

end

section \<open>A job to process\<close>

text \<open>The worker has claimed the submission job of the queue's example; its activity has been deleted.\<close>

definition ex_env :: Env where
  "ex_env = \<lparr>env_mode = MOCK, env_gateway = (\<lambda>_. demo_gateway question_adapter), env_max_upload_bytes = 100,
     env_head = (\<lambda>_. Inl object_error.KeyError), env_bytes = (\<lambda>_ _. Inl object_error.KeyError), env_parse = (\<lambda>_ _. Inl (Crashed ''OSError'')),
     env_locator_json = (\<lambda>_. JNull), env_integrity_code = ''gkpj''\<rparr>"

definition no_codec :: "('req, 'out) Codec" where
  "no_codec = \<lparr>request_json = (\<lambda>_. JNull), output_json = (\<lambda>_. JNull), output_of = (\<lambda>_. Inl (ValueErr ''json''))\<rparr>"

definition ex_pydantic :: Pydantic where
  "ex_pydantic = \<lparr>evidence_dump = (\<lambda>_. JNull), evidence_list_of = (\<lambda>_. Inr []), plan_inputs_json = (\<lambda>_ _ _. JNull),
     plan_dump = (\<lambda>_. JNull), plan_of = (\<lambda>_. Inl (ValueErr ''json'')), policy_of = (\<lambda>_. Inl (ValueErr ''json'')), assessment_dump = (\<lambda>_. JNull),
     map_codec = no_codec, question_codec = no_codec, review_codec = no_codec, guide_codec = no_codec\<rparr>"

definition ex_claimed :: WorkStore where
  "ex_claimed = \<lparr>base = snd (projr ex_claim), blueprints = [], evidence_rows = [], evidence_maps = [], assessment_plans = [],
     generated_questions = [], question_reviews = [], model_call_rows = [], resume_floor_reached = [],
     readings = (\<lambda>n. utc_time (int n)), ticks = 0\<rparr>"

definition ex_claimed_job :: JobRow where
  "ex_claimed_job = the (get_job (base ex_claimed) ''job_a'')"

lemma ex_claimed_row: "get_job (base ex_claimed) ''job_a'' = Some ex_claimed_job" "JobRow.kind ex_claimed_job = ''SUBMISSION''"
proof -
  have "get_job (base ex_claimed) ''job_a'' \<noteq> None" by code_simp
  then show "get_job (base ex_claimed) ''job_a'' = Some ex_claimed_job" by (auto simp: ex_claimed_job_def)
  show "JobRow.kind ex_claimed_job = ''SUBMISSION''" by code_simp
qed

definition ex_started :: WorkStore where
  "ex_started = snd (start_job ex_claimed_job ex_claimed)"

lemma seq_step: "m w = (Inr x, v) \<Longrightarrow> seq m f w = f x v"
  by (simp add: seq_def)

lemma look_step: "look f w = (Inr (f w), w)"
  by (simp add: look_def)

lemma steps: "give x w = (Inr x, w)" "pass (Inr x) w = (Inr x, w)" "v y = None \<Longrightarrow> model_of v y w = (Inr y, w)"
    "stable_id p parts = Inr i \<Longrightarrow> make_id p parts w = (Inr i, w)" "context_check None w = (Inr (), w)"
  by (simp_all add: give_Inr pass_Inr model_of_Inr make_id_Inr context_check_Inr)

lemma returned_unit: "\<not> isl (fst r) \<Longrightarrow> r = (Inr (), snd r)"
  by (cases r; cases "fst r") simp_all

lemma ex_started_runs: "start_job ex_claimed_job ex_claimed = (Inr (), ex_started)"
proof -
  have "\<not> isl (fst (start_job ex_claimed_job ex_claimed))" by code_simp
  then show ?thesis unfolding ex_started_def by (rule returned_unit)
qed

lemma ex_load: "\<exists>k v. load_task ex_pydantic ex_claimed_job ex_started = (Inl (Repo (NotFound k)), v) \<and> v = ex_started"
proof -
  let ?r = "load_task ex_pydantic ex_claimed_job ex_started"
  have "case fst ?r of Inl e \<Rightarrow> (case e of Repo x \<Rightarrow> (case x of NotFound k \<Rightarrow> True | _ \<Rightarrow> False) | _ \<Rightarrow> False) | Inr x \<Rightarrow> False" by code_simp
  then obtain k where k: "fst ?r = Inl (Repo (NotFound k))" by (auto split: sum.splits failure.splits repo_error.splits)
  have "reads (load_task ex_pydantic ex_claimed_job)"
    unfolding load_task_def Let_def scoped_submission_def scoped_activity_def approved_blueprint_def
    by (intro reads_seq reads_basic reads_case_prod)
  then have "snd ?r = ex_started" by (simp add: reads_def)
  then show ?thesis using k by (cases ?r) auto
qed

lemma ex_unit_parts: "Hash_ok (''sha256:'' @ replicate 64 (CHR ''0''))" "SourceLocator_validate (ex_locator 1) = None"
    "trimmed ''I chose a queue because order matters.''" "Score_ok 1" "Id_ok ''tenant_a''" "Id_ok ''sub_a''" "Id_ok ''art_a''"
  by code_simp+

lemma ex_unit_valid: "Id_ok e \<Longrightarrow> EvidenceUnit_validate (ex_unit e) = None"
  using ex_unit_parts by (simp add: EvidenceUnit_validate_def ex_unit_def checks valid_def str_field_def)

definition ex_failed :: WorkStore where
  "ex_failed = snd (fail_job ex_claimed_job ''TECHNICAL_FAILURE'' ''The workflow failed at a content-minimizing boundary.''
     FailureClass.PERMANENT False ex_started)"

lemma ex_failed_runs: "fail_job ex_claimed_job ''TECHNICAL_FAILURE'' ''The workflow failed at a content-minimizing boundary.''
     FailureClass.PERMANENT False ex_started = (Inr (), ex_failed)"
proof -
  have "\<not> isl (fst (fail_job ex_claimed_job ''TECHNICAL_FAILURE'' ''The workflow failed at a content-minimizing boundary.''
     FailureClass.PERMANENT False ex_started))" by code_simp
  then show ?thesis unfolding ex_failed_def by (rule returned_unit)
qed

lemma ex_processed: "process_job ex_env (submission_run ex_env ex_pydantic (\<lambda>_. give ()) None) ''job_a'' ex_claimed
    = (Inr (), forget_floor ''job_a'' ex_failed)"
proof -
  obtain k where k: "load_task ex_pydantic ex_claimed_job ex_started = (Inl (Repo (NotFound k)), ex_started)" using ex_load by blast
  have "seq (start_job ex_claimed_job) (\<lambda>_. submission_run ex_env ex_pydantic (\<lambda>_. give ()) None ex_claimed_job) ex_claimed
      = (Inl (Repo (NotFound k)), ex_started)"
    unfolding submission_run_eq [OF ex_claimed_row(2)] run_submission_pipeline_def Let_def
    by (simp add: seq_def ex_started_runs k)
  moreover have "classify_failure ex_env (Repo (NotFound k)) = (FailureClass.PERMANENT, False, ''TECHNICAL_FAILURE'')"
    by (simp add: classify_failure_def SECURITY_FAILURE_CODES_def)
  ultimately show ?thesis
    by (simp add: process_job_def ex_claimed_row(1) ex_failed_runs)
qed

lemma ex_claimed_invariant: "job_invariant (base ex_claimed)"
  using reachable_job_invariant [OF ex_reachable(2)] by (simp add: ex_claimed_def)

section \<open>Guarantees\<close>

text \<open>C8: processing a submission job is orderly however it ends.  With any answers of the models, any failure
  and any request to cancel, the invariant of the job queue holds afterwards, every job keeps its identity
  and its control state only advances, and the private exception of the cancellation never escapes.\<close>

theorem processing_keeps_the_queue:
  assumes "job_invariant (base w)" and "get_job (base w) jid = Some job" and "JobRow.kind job = ''SUBMISSION''"
    and "process_job env (submission_run env P activity processor) jid w = (r, w')"
  shows "job_invariant (base w') \<and> evolves (base w) (base w') \<and> r \<noteq> Inl Cancelled"
proof -
  let ?m = "seq (start_job job) (\<lambda>_. submission_run env P activity processor job)"
  have m: "heeds job ?m" using gateway.started_heeds by (simp add: submission_run_eq [OF assms(3)])
  have o: "orderly w v" "job_invariant (base v)" if "?m w = (q, v)" for q v
    using heeds_invariant [OF m assms(1) that] obeysD [OF m [unfolded heeds_def, THEN conjunct1] that] by simp_all
  from assms(2,4) show ?thesis
  proof (cases rule: process_cases)
    case (returned v)
    then show ?thesis using o(1) assms(1) by (simp add: orderly_def)
  next
    case (stopped v)
    then show ?thesis using o(1) assms(1) by (simp add: orderly_def)
  next
    case (failed e v cls retry cd v')
    have "orderly w v'" using queue.order_trans o(1) [OF failed(1)] obeysD [OF queue.obeys_fail_job failed(4)] by blast
    moreover have "r \<noteq> Inl Cancelled"
    proof
      assume "r = Inl Cancelled"
      then show False using failed(4) fail_job_placid [unfolded placid_def calm_def] by (metis fst_conv)
    qed
    ultimately show ?thesis using failed(5) assms(1) by (simp add: orderly_def)
  qed
qed

theorem processing_keeps_the_queue_witness: "job_invariant (base ex_failed)"
  using processing_keeps_the_queue [OF ex_claimed_invariant ex_claimed_row ex_processed] by simp



end
