(* ===== verification/QuestionClaims.thy ===== *)
theory QuestionClaims
  imports ProcessJob
begin

text \<open>
  The loop over the opportunities: what every question it keeps guarantees, and a run of it.
\<close>

section \<open>A run of the loop\<close>
























section \<open>Guarantees\<close>




end
