(* ===== verification/StageClaims.thy ===== *)
theory StageClaims
  imports ProcessJob
begin

text \<open>
  The model stage of a resumed job, and the failures the worker calls retryable.
\<close>

section \<open>Provider calls\<close>

definition same_calls :: "WorkStore \<Rightarrow> WorkStore \<Rightarrow> bool" where
  "same_calls w w' \<longleftrightarrow> model_call_rows w' = model_call_rows w"

interpretation calls: store_order same_calls
  by unfold_locales (simp_all add: same_calls_def)

lemma calls_clock: "obeys same_calls utc_now"
  by (simp add: obeys_def utc_now_def same_calls_def)

lemma calls_transact: "obeys same_calls (transact f)"
  by (rule calls.obeys_transact) (simp add: same_calls_def)

lemma calls_adjust: "obeys same_calls (reach_floor job)"
  by (simp add: reach_floor_def obeys_def adjust_def same_calls_def)

lemmas calls_rules = calls.obeys_rules calls_clock calls_transact calls_adjust

lemma calls_checkpoint: "obeys same_calls (cancellation_checkpoint job)"
  unfolding cancellation_checkpoint_def complete_cancellation_if_requested_def job_control_def
  by (intro calls_rules)

lemma calls_reuse: "obeys same_calls (record_stage_reuse job r)"
  unfolding record_stage_reuse_def by (intro calls_rules)

lemma policy_reads: "reads (stage_policy_hash env job)"
  unfolding stage_policy_hash_def scoped_activity_def scoped_submission_def
  by (intro reads_seq reads_basic) (auto intro!: reads_seq)

text \<open>A stage before the floor of a resumption is refused.\<close>

lemma floor_refuses:
  assumes "JobRow.resume_from_stage job = Some fstage" and "JobRow.ident job \<notin> set (resume_floor_reached w)"
    and "map_of (resume_order job) fstage = Some n" and "map_of PROMPT_APPLICATION_STAGE pid = Some stg"
    and "map_of (resume_order job) stg = Some k" and "k < n"
  shows "assert_resume_may_execute job pid w = (Inl (WorkflowError ''STAGE_RESUME_REUSE_MISSING'' 409), w)"
  using assms
  by (simp add: assert_resume_may_execute_def may_execute_def seq_def look_def refuse_if_def stop_if_def fail_with_def)

section \<open>Guarantees\<close>

text \<open>C10: a resumed job never pays twice for a stage before its floor.  Until the floor is reached, a model stage
  earlier than it makes no provider call, and what it returns is the answer stored for exactly these inputs, this
  policy and this prompt version.\<close>

theorem resumed_stage_makes_no_call:
  assumes "JobRow.resume_from_stage job = Some fstage" and "JobRow.ident job \<notin> set (resume_floor_reached w)"
    and "map_of (resume_order job) fstage = Some n" and "map_of PROMPT_APPLICATION_STAGE pid = Some stg"
    and "map_of (resume_order job) stg = Some k" and "k < n"
    and "gateway_stage env cdc job pid suffix req w = (r, w')"
  shows "model_call_rows w' = model_call_rows w
    \<and> (\<forall>out. r = Inr out \<longrightarrow> (\<exists>pol x j. stage_policy_hash env job w = (Inr pol, w)
        \<and> stage_by_key (JobRow.tenant_id job) (stage_name pid suffix) (request_json cdc req) pol PROMPT_VERSION (base w) = Some x
        \<and> StageRunRow.output x = Some j \<and> output_of cdc j = Inr out))"
proof (cases "cancellation_checkpoint job w")
  case (Pair c w1)
  show ?thesis
  proof (cases c)
    case (Inl e)
    then have "r = Inl e" "w' = w1" using assms(7) Pair by (simp_all add: gateway_stage_def Let_def seq_def)
    then show ?thesis using obeysD [OF calls_checkpoint Pair] by (simp add: same_calls_def)
  next
    case (Inr u)
    then have 1: "cancellation_checkpoint job w = (Inr (), w)" using Pair checkpoint_Inr by simp
    obtain p where p: "stage_policy_hash env job w = (p, w)"
      using policy_reads [of env job] by (metis reads_def prod.collapse)
    show ?thesis
    proof (cases p)
      case (Inl e)
      then show ?thesis using assms(7) 1 p by (auto simp: gateway_stage_def Let_def seq_def)
    next
      case (Inr pol)
      let ?x = "stage_by_key (JobRow.tenant_id job) (stage_name pid suffix) (request_json cdc req) pol PROMPT_VERSION (base w)"
      note run = assms(7) [unfolded gateway_stage_def Let_def seq_step [of "cancellation_checkpoint job", OF 1]
          seq_step [of "stage_policy_hash env job", OF p [unfolded Inr]] seq_step [of "look f" for f, OF look_step]]
      show ?thesis
      proof (cases "cached_output ?x")
        case None
        then have "r = Inl (WorkflowError ''STAGE_RESUME_REUSE_MISSING'' 409)" "w' = w"
          using run by (simp_all add: seq_def floor_refuses [OF assms(1-6)])
        then show ?thesis by simp
      next
        case (Some a)
        then obtain x j where x: "?x = Some x" "StageRunRow.output x = Some j" and a: "a = (x, j)"
          by (auto simp: cached_output_def bind_eq_Some_conv)
        have run: "seq (record_stage_reuse job x) (\<lambda>_.
          seq (pass (converted (output_of cdc j))) (\<lambda>out.
          seq (cancellation_checkpoint job) (\<lambda>_. give out))) w = (r, w')"
          using run Some a by simp
        have "obeys same_calls (seq (record_stage_reuse job x) (\<lambda>_.
          seq (pass (converted (output_of cdc j))) (\<lambda>out.
          seq (cancellation_checkpoint job) (\<lambda>_. give out))))"
          by (intro calls_rules calls_reuse calls_checkpoint)
        then have "same_calls w w'" by (rule obeysD) (rule run)
        then have "model_call_rows w' = model_call_rows w" by (simp add: same_calls_def)
        moreover have "output_of cdc j = Inr out" if "r = Inr out" for out
          using run that by (auto simp: acts converted_def split: sum.splits)
        ultimately show ?thesis using x p Inr by blast
      qed
    qed
  qed
qed

definition ex_resumed_job :: JobRow where
  "ex_resumed_job = ex_claimed_job\<lparr>JobRow.resume_from_stage := Some ''GUIDE_BUILD''\<rparr>"

lemma ex_nothing_stored: "stage_runs (base ex_claimed) = []"
  by code_simp

theorem resumed_stage_makes_no_call_witness:
  "\<exists>e w'. gateway_stage ex_env (no_codec :: (unit, unit) Codec) ex_resumed_job ''P06_EVIDENCE_MAP_V1'' [] () ex_claimed = (Inl e, w')
    \<and> model_call_rows w' = []"
proof -
  obtain r w' where run: "gateway_stage ex_env (no_codec :: (unit, unit) Codec) ex_resumed_job ''P06_EVIDENCE_MAP_V1'' [] () ex_claimed = (r, w')"
    by (cases "gateway_stage ex_env (no_codec :: (unit, unit) Codec) ex_resumed_job ''P06_EVIDENCE_MAP_V1'' [] () ex_claimed")
  have k: "JobRow.kind ex_resumed_job = ''SUBMISSION''" using ex_claimed_row(2) by (simp add: ex_resumed_job_def)
  have "model_call_rows w' = model_call_rows ex_claimed \<and> (\<forall>out. r = Inr out \<longrightarrow> (\<exists>pol x j.
      stage_policy_hash ex_env ex_resumed_job ex_claimed = (Inr pol, ex_claimed)
      \<and> stage_by_key (JobRow.tenant_id ex_resumed_job) (stage_name ''P06_EVIDENCE_MAP_V1'' []) (request_json (no_codec :: (unit, unit) Codec) ())
          pol PROMPT_VERSION (base ex_claimed) = Some x \<and> StageRunRow.output x = Some j \<and> output_of (no_codec :: (unit, unit) Codec) j = Inr out))"
    by (rule resumed_stage_makes_no_call [where fstage = "''GUIDE_BUILD''" and stg = "''EVIDENCE_MAP''" and n = 5 and k = 1, OF _ _ _ _ _ _ run])
      (simp_all add: k resume_order_def SUBMISSION_RESUME_ORDER_def PROMPT_APPLICATION_STAGE_def, simp_all add: ex_resumed_job_def ex_claimed_def)
  moreover have "\<And>out. r \<noteq> Inr out"
    using calculation by (auto simp: no_codec_def)
  moreover have "model_call_rows ex_claimed = []" by (simp add: ex_claimed_def)
  ultimately show ?thesis using run by (cases r) auto
qed

text \<open>The worker and the queue agree on what may be retried.  A failure is reported as retryable exactly when
  its class is one of those the queue accepts a retry for.\<close>

theorem retryable_failures_agree:
  "fst (snd (classify_failure env e)) \<longleftrightarrow> failure_name (fst (classify_failure env e)) \<in> set RETRYABLE_JOB_FAILURE_CLASSES"
  by (simp add: classify_failure_def Let_def RETRYABLE_JOB_FAILURE_CLASSES_def
      split: failure.splits gateway_failure.splits repo_error.splits GatewayErrorClass.splits)

end
