(* ===== verification/Approval.thy ===== *)
theory Approval
  imports Pipeline
begin

text \<open>
  What a teacher decides in \<open>web/workflows.py\<close>: the approval of a blueprint, the verification of an anchor
  against the sealed upload, and the approval of an assessment, which needs a receipt of that verification for
  every fragment of every question.
\<close>

section \<open>Receipts\<close>

text \<open>\<open>EvidenceReceipt\<close> of \<open>web/dto.py\<close>.\<close>

record EvidenceReceipt =
  receipt_id :: string
  assessment_id :: string
  assessment_version :: int
  assessment_etag :: string
  question_id :: string
  fragment_index :: int
  evidence_id :: string
  artifact_hash :: string
  locator_hash :: string
  normalized_hash :: string
  verified_at :: datetime

definition EvidenceReceipt_validate :: "EvidenceReceipt \<Rightarrow> contract_error option" where
  "EvidenceReceipt_validate x = field_errors [
     (''receipt_id'', Id_ok (EvidenceReceipt.receipt_id x)), (''assessment_id'', Id_ok (EvidenceReceipt.assessment_id x)),
     (''assessment_version'', 1 \<le> EvidenceReceipt.assessment_version x),
     (''assessment_etag'', str_field 10 128 (EvidenceReceipt.assessment_etag x)),
     (''question_id'', Id_ok (EvidenceReceipt.question_id x)),
     (''fragment_index'', 0 \<le> EvidenceReceipt.fragment_index x \<and> EvidenceReceipt.fragment_index x \<le> 7),
     (''evidence_id'', Id_ok (EvidenceReceipt.evidence_id x)), (''artifact_hash'', Hash_ok (EvidenceReceipt.artifact_hash x)),
     (''locator_hash'', Hash_ok (EvidenceReceipt.locator_hash x)), (''normalized_hash'', Hash_ok (EvidenceReceipt.normalized_hash x))]"

text \<open>
  What the endpoints are given beside the worker's environment: the signing of download links, the dump of a
  blueprint, and pydantic's conversion of a payload and a time to the fields of a receipt.
\<close>

record Desk =
  desk_env :: Env
  desk_pydantic :: Pydantic
  desk_sign :: "nat \<Rightarrow> string \<Rightarrow> object_error + SignedObjectUrl"
  blueprint_dump :: "AssessmentBlueprint \<Rightarrow> json"
  receipt_fields :: "(string \<times> json) list \<Rightarrow> datetime \<Rightarrow> contract_error + EvidenceReceipt"

definition receipt_of :: "Desk \<Rightarrow> (string \<times> json) list \<Rightarrow> datetime \<Rightarrow> contract_error + EvidenceReceipt" where
  "receipt_of D kvs t = (case receipt_fields D kvs t of Inl e \<Rightarrow> Inl e
     | Inr x \<Rightarrow> (case EvidenceReceipt_validate x of None \<Rightarrow> Inr x | Some e \<Rightarrow> Inl e))"

definition locator_digest :: "Desk \<Rightarrow> EvidenceUnit \<Rightarrow> string" where
  "locator_digest D u = canonical_hash (env_locator_json (desk_env D) (EvidenceUnit.locator u))"

definition receipt_ident :: "Desk \<Rightarrow> AssessmentRow \<Rightarrow> string \<Rightarrow> string \<Rightarrow> int \<Rightarrow> EvidenceUnit \<Rightarrow> string + string" where
  "receipt_ident D r who qid i u = stable_id ''receipt'' [JStr (AssessmentRow.tenant_id r), JStr who,
     JStr (AssessmentRow.assessment_id r), JInt (AssessmentRow.version r), JStr (AssessmentRow.etag r), JStr qid, JInt i,
     JStr (EvidenceUnit.evidence_id u), JStr (EvidenceUnit.artifact_hash u), JStr (locator_digest D u),
     JStr (EvidenceUnit.normalized_hash u)]"

definition receipt_fields_of :: "Desk \<Rightarrow> AssessmentRow \<Rightarrow> string \<Rightarrow> int \<Rightarrow> EvidenceUnit \<Rightarrow> string \<Rightarrow> (string \<times> json) list" where
  "receipt_fields_of D r qid i u rid = [(''receipt_id'', JStr rid), (''assessment_id'', JStr (AssessmentRow.assessment_id r)),
     (''assessment_version'', JInt (AssessmentRow.version r)), (''assessment_etag'', JStr (AssessmentRow.etag r)),
     (''question_id'', JStr qid), (''fragment_index'', JInt i), (''evidence_id'', JStr (EvidenceUnit.evidence_id u)),
     (''artifact_hash'', JStr (EvidenceUnit.artifact_hash u)), (''locator_hash'', JStr (locator_digest D u)),
     (''normalized_hash'', JStr (EvidenceUnit.normalized_hash u))]"

definition receipt_payload :: "Desk \<Rightarrow> AssessmentRow \<Rightarrow> string \<Rightarrow> string \<Rightarrow> int \<Rightarrow> EvidenceUnit \<Rightarrow> (string \<times> (string \<times> json) list) act" where
  "receipt_payload D r who qid i u =
     seq (pass (case receipt_ident D r who qid i u of Inl msg \<Rightarrow> Inl (Repo (ValueError msg)) | Inr rid \<Rightarrow> Inr rid)) (\<lambda>rid.
     give (rid, receipt_fields_of D r qid i u rid))"

text \<open>The payload column is a dictionary; \<open>payload.get(key) == value\<close>.\<close>

fun payload_items :: "json \<Rightarrow> failure + (string \<times> json) list" where
  "payload_items (JObj kvs) = Inr kvs"
| "payload_items _ = Inl (RuntimeFailure ''TypeError'')"

definition entry_is :: "(string \<times> json) list \<Rightarrow> string \<Rightarrow> json \<Rightarrow> bool" where
  "entry_is kvs k v = py_eq (case map_of kvs k of None \<Rightarrow> JNull | Some x \<Rightarrow> x) v"

definition viewed_events :: "string \<Rightarrow> string \<Rightarrow> string \<Rightarrow> JobStore \<Rightarrow> AuditEventRow list" where
  "viewed_events tid aid who s = audit_events tid ''evidence.viewed'' (Some aid) (Some who) s"

definition event_receipt :: "Desk \<Rightarrow> AssessmentRow \<Rightarrow> AuditEventRow \<Rightarrow> failure + EvidenceReceipt option" where
  "event_receipt D r e = and_then (payload_items (AuditEventRow.payload e)) (\<lambda>kvs.
     if \<not> entry_is kvs ''assessment_version'' (JInt (AssessmentRow.version r)) \<or> \<not> entry_is kvs ''assessment_etag'' (JStr (AssessmentRow.etag r))
     then Inr None
     else (case receipt_of D (dict_set ''assessment_id'' (JStr (AssessmentRow.assessment_id r)) kvs) (AuditEventRow.occurred_at e) of
         Inl x \<Rightarrow> Inr None | Inr rc \<Rightarrow> Inr (Some rc)))"

text \<open>The receipts by identifier, in the order of the identifiers; a later event replaces an earlier one.\<close>

definition evidence_receipts :: "Desk \<Rightarrow> AssessmentRow \<Rightarrow> Actor \<Rightarrow> EvidenceReceipt list act" where
  "evidence_receipts D r who =
     seq (look (\<lambda>w. viewed_events (workspace_id who) (AssessmentRow.assessment_id r) (user_id who) (base w))) (\<lambda>es.
     seq (pass (collect (event_receipt D r) es)) (\<lambda>rcs.
     let found_receipts = concat (map (\<lambda>x. case x of None \<Rightarrow> [] | Some rc \<Rightarrow> [rc]) rcs)
     in give (map (\<lambda>i. the (dict_by EvidenceReceipt.receipt_id found_receipts i))
          (sorted_set (map EvidenceReceipt.receipt_id found_receipts)))))"

section \<open>The evidence of a submission\<close>

definition evidence_for_submission :: "string \<Rightarrow> string \<Rightarrow> WorkStore \<Rightarrow> EvidenceRow list" where
  "evidence_for_submission sid tid w = sort_key EvidenceRow.ident
     (filter (\<lambda>r. EvidenceRow.submission_id r = sid \<and> EvidenceRow.tenant_id r = tid) (evidence_rows w))"

definition signed_link :: "Desk \<Rightarrow> string \<Rightarrow> SignedObjectUrl act" where
  "signed_link D key = seq (look (\<lambda>w. desk_sign D (ticks w) key)) (\<lambda>r.
     pass (case r of Inl e \<Rightarrow> Inl (storage_failure e) | Inr x \<Rightarrow> Inr x))"

definition source_link :: "Desk \<Rightarrow> ArtifactRow \<Rightarrow> (string \<times> SignedObjectUrl) list \<Rightarrow> SignedObjectUrl act" where
  "source_link D f links = (case map_of links (ArtifactRow.ident f) of Some x \<Rightarrow> give x
     | None \<Rightarrow> seq (pass (verified_artifact_bytes (desk_env D) f)) (\<lambda>_. signed_link D (ArtifactRow.object_key f)))"

definition view_item :: "Desk \<Rightarrow> EvidenceUnit \<Rightarrow> SignedObjectUrl \<Rightarrow> json" where
  "view_item D u x = JObj [(''evidence'', evidence_dump (desk_pydantic D) u), (''source_url'', JStr (SignedObjectUrl.url x)),
     (''source_url_expires_at'', JStr (isoformat (SignedObjectUrl.expires_at x)))]"

text \<open>Each artifact is read and checked once, at the first unit that comes from it.\<close>

fun view_units :: "Desk \<Rightarrow> ArtifactRow list \<Rightarrow> (string \<times> SignedObjectUrl) list \<Rightarrow> EvidenceRow list \<Rightarrow> json list act" where
  "view_units D fs links [] = give []"
| "view_units D fs links (r # rs) =
     seq (model_of EvidenceUnit_validate (EvidenceRow.data r)) (\<lambda>u.
     seq (pass (case dict_by ArtifactRow.ident fs (EvidenceUnit.artifact_id u) of None \<Rightarrow> Inl provenance_gap | Some f \<Rightarrow> Inr f)) (\<lambda>f.
     seq (source_link D f links) (\<lambda>x.
     seq (stop_if (ArtifactRow.sha256 f \<noteq> Some (EvidenceUnit.artifact_hash u)) provenance_gap) (\<lambda>_.
     seq (view_units D fs ((ArtifactRow.ident f, x) # links) rs) (\<lambda>vs. give (view_item D u x # vs))))))"

definition evidence_view :: "Desk \<Rightarrow> string \<Rightarrow> Actor \<Rightarrow> json list act" where
  "evidence_view D sid who =
     seq (scoped_submission sid (workspace_id who)) (\<lambda>sub.
     seq (look (\<lambda>w. artifacts_for (SubmissionRow.activity_id sub) (workspace_id who) (Some sid) True (base w))) (\<lambda>fs.
     seq (look (\<lambda>w. evidence_for_submission sid (workspace_id who) w)) (\<lambda>rows. view_units D fs [] rows)))"

section \<open>Verifying a fragment\<close>

text \<open>Python's indexing of a list, where a negative index counts from the end.\<close>

definition item_at :: "'a list \<Rightarrow> int \<Rightarrow> failure + 'a" where
  "item_at xs i = (let k = (if i < 0 then int (length xs) + i else i) in
     if k < 0 \<or> int (length xs) \<le> k then Inl (RuntimeFailure ''IndexError'') else Inr (xs ! nat k))"

definition same_locator :: "Desk \<Rightarrow> SourceLocator \<Rightarrow> SourceLocator \<Rightarrow> bool" where
  "same_locator D a b \<longleftrightarrow> py_eq (env_locator_json (desk_env D) a) (env_locator_json (desk_env D) b)"

definition gap_if :: "bool \<Rightarrow> unit act" where
  "gap_if b = stop_if b provenance_gap"

text \<open>The assessment and the submission must both be under review.\<close>

definition reviewable_assessment :: "AssessmentRow \<Rightarrow> Actor \<Rightarrow> Assessment act" where
  "reviewable_assessment r who =
     seq (model_of Assessment_validate (AssessmentRow.data r)) (\<lambda>a.
     seq (refuse_if (Assessment.status a \<noteq> WorkflowStatus.NEEDS_REVIEW) ''ASSESSMENT_NOT_REVIEWABLE'' 409) (\<lambda>_.
     seq (scoped_submission (Assessment.submission_id a) (workspace_id who)) (\<lambda>sub.
     seq (model_of SubmissionProcessingState_validate (SubmissionRow.state sub)) (\<lambda>st.
     seq (refuse_if (SubmissionProcessingState.status st \<noteq> SubmissionProcessingStatus.NEEDS_REVIEW)
        ''ASSESSMENT_SUBMISSION_NOT_REVIEWABLE'' 409) (\<lambda>_. give a)))))"

definition question_fragment :: "Assessment \<Rightarrow> string \<Rightarrow> int \<Rightarrow> AnchorFragment act" where
  "question_fragment a qid i = (let missing = fail_with (WorkflowError ''EVIDENCE_FRAGMENT_NOT_FOUND'' 404) in
     case find (\<lambda>q. SelectedQuestion.question_id q = qid) (Assessment.questions a) of None \<Rightarrow> missing
     | Some q \<Rightarrow> (let frs = Anchor.fragments (SelectedQuestion.anchor q) in
         if int (length frs) \<le> i then missing else pass (item_at frs i)))"

definition persisted_unit :: "Desk \<Rightarrow> string \<Rightarrow> string \<Rightarrow> AnchorFragment \<Rightarrow> EvidenceUnit act" where
  "persisted_unit D sid tid fr =
     seq (look (\<lambda>w. dict_by EvidenceRow.ident (evidence_for_submission sid tid w) (AnchorFragment.evidence_id fr))) (\<lambda>found_row.
     seq (pass (case found_row of None \<Rightarrow> Inl provenance_gap | Some r \<Rightarrow> Inr r)) (\<lambda>r.
     seq (model_of EvidenceUnit_validate (EvidenceRow.data r)) (\<lambda>u.
     seq (gap_if (EvidenceUnit.evidence_id u \<noteq> AnchorFragment.evidence_id fr
        \<or> \<not> same_locator D (EvidenceUnit.locator u) (AnchorFragment.locator fr))) (\<lambda>_. give u))))"

definition exact_artifact :: "EvidenceUnit \<Rightarrow> string \<Rightarrow> string \<Rightarrow> ArtifactRow act" where
  "exact_artifact u sid tid =
     seq (reading (\<lambda>s. scoped ArtifactRow.tenant_id tid (get_artifact s (EvidenceUnit.artifact_id u)) ''ArtifactRow'')) (\<lambda>f.
     seq (gap_if (ArtifactRow.submission_id f \<noteq> Some sid \<or> ArtifactRow.sha256 f \<noteq> Some (EvidenceUnit.artifact_hash u))) (\<lambda>_. give f))"

text \<open>The sealed bytes, read and parsed again.\<close>

definition reparsed_units :: "Desk \<Rightarrow> ArtifactRow \<Rightarrow> failure + EvidenceUnit list" where
  "reparsed_units D f = (case and_then (verified_artifact_bytes (desk_env D) f) (parse_bytes (desk_env D) f) of
       Inl (ParseRejected cd) \<Rightarrow> Inl provenance_gap | r \<Rightarrow> r)"

definition same_unit :: "Desk \<Rightarrow> EvidenceUnit \<Rightarrow> EvidenceUnit \<Rightarrow> bool" where
  "same_unit D x u \<longleftrightarrow> EvidenceUnit.artifact_id x = EvidenceUnit.artifact_id u \<and> EvidenceUnit.artifact_hash x = EvidenceUnit.artifact_hash u
     \<and> EvidenceUnit.normalized_hash x = EvidenceUnit.normalized_hash u \<and> same_locator D (EvidenceUnit.locator x) (EvidenceUnit.locator u)"

fun recorded_view :: "(string \<times> json) list \<Rightarrow> AuditEventRow list \<Rightarrow> failure + AuditEventRow option" where
  "recorded_view wanted [] = Inr None"
| "recorded_view wanted (e # es) = and_then (payload_items (AuditEventRow.payload e)) (\<lambda>kvs.
     if list_all (\<lambda>(k, v). entry_is kvs k v) wanted then Inr (Some e) else recorded_view wanted es)"

definition record_event :: "string \<Rightarrow> string \<Rightarrow> string \<Rightarrow> string \<Rightarrow> json \<Rightarrow> AuditEventRow act" where
  "record_event tid ev agg who load = seq utc_now (\<lambda>t. seq utc_now (\<lambda>now. transact (audit tid ev agg who load t now)))"

text \<open>The checks before the receipt: the fragment, its unit on file, its artifact, and the unit in the bytes.\<close>

definition resolve_fragment :: "Desk \<Rightarrow> string \<Rightarrow> int \<Rightarrow> string \<Rightarrow> string \<Rightarrow> int \<Rightarrow> Actor \<Rightarrow> (AssessmentRow \<times> EvidenceUnit \<times> ArtifactRow) act" where
  "resolve_fragment D aid ver etg qid i who = (let tid = workspace_id who in
     seq (reading (assessment_by_id aid tid)) (\<lambda>current.
     seq (refuse_if (AssessmentRow.version current \<noteq> ver \<or> AssessmentRow.etag current \<noteq> etg) ''ETAG_MISMATCH'' 412) (\<lambda>_.
     seq (reviewable_assessment current who) (\<lambda>a.
     seq (question_fragment a qid i) (\<lambda>fr.
     seq (persisted_unit D (Assessment.submission_id a) tid fr) (\<lambda>u.
     seq (exact_artifact u (Assessment.submission_id a) tid) (\<lambda>f.
     seq (pass (reparsed_units D f)) (\<lambda>units.
     seq (gap_if (case dict_by EvidenceUnit.evidence_id units (EvidenceUnit.evidence_id u) of None \<Rightarrow> True | Some x \<Rightarrow> \<not> same_unit D x u)) (\<lambda>_.
     give (current, u, f))))))))))"

definition logged_view :: "string \<Rightarrow> string \<Rightarrow> string \<Rightarrow> (string \<times> json) list \<Rightarrow> AuditEventRow act" where
  "logged_view tid aid who kvs =
     seq (look (\<lambda>w. viewed_events tid aid who (base w))) (\<lambda>es.
     seq (pass (recorded_view kvs es)) (\<lambda>known.
     case known of Some e \<Rightarrow> give e | None \<Rightarrow> record_event tid ''evidence.viewed'' aid who (JObj kvs)))"

definition verify_evidence_fragment :: "Desk \<Rightarrow> string \<Rightarrow> int \<Rightarrow> string \<Rightarrow> string \<Rightarrow> int \<Rightarrow> Actor
    \<Rightarrow> (EvidenceReceipt \<times> EvidenceUnit \<times> SignedObjectUrl) act" where
  "verify_evidence_fragment D aid ver etg qid i who =
     seq (resolve_fragment D aid ver etg qid i who) (\<lambda>(current, u, f).
     seq (receipt_payload D current (user_id who) qid i u) (\<lambda>(rid, kvs).
     seq (logged_view (workspace_id who) aid (user_id who) kvs) (\<lambda>e.
     seq (signed_link D (ArtifactRow.object_key f)) (\<lambda>x.
     seq (pass (converted (receipt_of D kvs (AuditEventRow.occurred_at e)))) (\<lambda>rc.
     give (rc, u, x))))))"

section \<open>Approving an assessment\<close>

definition expected_receipt :: "Desk \<Rightarrow> AssessmentRow \<Rightarrow> Actor \<Rightarrow> (string \<Rightarrow> EvidenceUnit option) \<Rightarrow> string \<Rightarrow> nat \<times> AnchorFragment
    \<Rightarrow> failure + string" where
  "expected_receipt D r who units qid p = (case units (AnchorFragment.evidence_id (snd p)) of None \<Rightarrow> Inl provenance_gap
     | Some u \<Rightarrow> (case receipt_ident D r (user_id who) qid (int (fst p)) u of
         Inl msg \<Rightarrow> Inl (Repo (ValueError msg)) | Inr rid \<Rightarrow> Inr rid))"

definition expected_receipts :: "Desk \<Rightarrow> AssessmentRow \<Rightarrow> Actor \<Rightarrow> (string \<Rightarrow> EvidenceUnit option) \<Rightarrow> SelectedQuestion
    \<Rightarrow> failure + string list" where
  "expected_receipts D r who units q = collect (expected_receipt D r who units (SelectedQuestion.question_id q))
     (enumerate 0 (Anchor.fragments (SelectedQuestion.anchor q)))"

definition assert_evidence_receipts_complete :: "Desk \<Rightarrow> AssessmentRow \<Rightarrow> Assessment \<Rightarrow> Actor \<Rightarrow> unit act" where
  "assert_evidence_receipts_complete D r a who =
     seq (evidence_receipts D r who) (\<lambda>actual.
     seq (look (\<lambda>w. evidence_for_submission (Assessment.submission_id a) (workspace_id who) w)) (\<lambda>rows.
     seq (each_act (\<lambda>x. seq (model_of EvidenceUnit_validate (EvidenceRow.data x)) (\<lambda>u. give (EvidenceRow.ident x, u))) rows) (\<lambda>units.
     seq (pass (collect (expected_receipts D r who (\<lambda>e. map_option snd (dict_by fst units e))) (Assessment.questions a))) (\<lambda>expected.
     refuse_if (set (concat expected) \<noteq> set (map EvidenceReceipt.receipt_id actual)) ''EVIDENCE_REVIEW_REQUIRED'' 409))))"

definition approved_assessment :: "Assessment \<Rightarrow> Actor \<Rightarrow> datetime \<Rightarrow> Assessment" where
  "approved_assessment a who t = a\<lparr>Assessment.status := WorkflowStatus.APPROVED, Assessment.approved_by := Some (user_id who),
     Assessment.approved_at := Some t\<rparr>"

definition approved_row :: "Desk \<Rightarrow> AssessmentRow \<Rightarrow> Assessment \<Rightarrow> Actor \<Rightarrow> string \<Rightarrow> datetime \<Rightarrow> AssessmentRow" where
  "approved_row D r a who rid now = \<lparr>AssessmentRow.row_id = rid, assessment_id = AssessmentRow.assessment_id r,
     tenant_id = workspace_id who, submission_id = Assessment.submission_id a, version = AssessmentRow.version r + 1,
     status = ''APPROVED'', etag = etag_text (assessment_dump (desk_pydantic D) a), data = a, created_at = now\<rparr>"

text \<open>\<open>except Conflict as exc\<close>; \<open>str.isupper\<close> asks for a cased letter and for no lower-case one.\<close>

definition lower_case :: "char \<Rightarrow> bool" where
  "lower_case c \<longleftrightarrow> is_lower c \<or> code_point c \<in> {170, 181, 186} \<or> 223 \<le> code_point c \<and> code_point c \<noteq> 247"

definition isupper :: "string \<Rightarrow> bool" where
  "isupper s \<longleftrightarrow> list_ex (\<lambda>c. isalpha c \<and> \<not> lower_case c) s \<and> \<not> list_ex lower_case s"

definition approval_conflict :: "'a act \<Rightarrow> 'a act" where
  "approval_conflict m w = (case m w of
       (Inl (Repo (Conflict cd)), w') \<Rightarrow> (Inl (WorkflowError (if isupper cd then cd else ''ASSESSMENT_VERSION_CONFLICT'')
          (if cd = ''ETAG_MISMATCH'' then 412 else 409)), w')
     | r \<Rightarrow> r)"

definition approve_assessment :: "Desk \<Rightarrow> string \<Rightarrow> string \<Rightarrow> Actor \<Rightarrow> AssessmentRow act" where
  "approve_assessment D aid if_match who = (let tid = workspace_id who in
     seq (refuse_if (\<not> can_approve_assessments who) ''ROLE_FORBIDDEN'' 403) (\<lambda>_.
     seq (reading (assessment_by_id aid tid)) (\<lambda>current.
     seq (refuse_if (AssessmentRow.etag current \<noteq> if_match) ''ETAG_MISMATCH'' 412) (\<lambda>_.
     seq (reviewable_assessment current who) (\<lambda>a.
     seq (reading (guide_for_assessment aid tid)) (\<lambda>g.
     seq (model_of EvaluationGuide_validate (GuideRow.data g)) (\<lambda>gd.
     seq (refuse_if (EvaluationGuide.status gd \<noteq> ''READY'') ''GUIDE_NOT_READY'' 409) (\<lambda>_.
     seq (evidence_view D (Assessment.submission_id a) who) (\<lambda>_.
     seq (assert_evidence_receipts_complete D current a who) (\<lambda>_.
     seq utc_now (\<lambda>t.
     seq (make_id ''assessmentrow'' [JStr aid, JInt (AssessmentRow.version current + 1)]) (\<lambda>rid.
     seq utc_now (\<lambda>now.
     approval_conflict (transact (approve_assessment_atomic if_match
        (approved_row D current (approved_assessment a who t) who rid now) (user_id who))))))))))))))))"

section \<open>Approving a blueprint\<close>

text \<open>The constraints of the table: the primary key, one row per activity and version, and the unique etag.\<close>

definition blueprint_integrity :: "BlueprintRow list \<Rightarrow> bool" where
  "blueprint_integrity rows \<longleftrightarrow> distinct (map BlueprintRow.row_id rows) \<and> distinct (map BlueprintRow.etag rows)
     \<and> distinct (map (\<lambda>r. (BlueprintRow.activity_id r, BlueprintRow.version r)) rows)"

definition add_blueprint :: "BlueprintRow \<Rightarrow> unit act" where
  "add_blueprint r w = (if blueprint_integrity (blueprints w @ [r]) then (Inr (), w\<lparr>blueprints := blueprints w @ [r]\<rparr>)
     else (Inl (Repo IntegrityError), w))"

definition version_conflict :: "'a act \<Rightarrow> 'a act" where
  "version_conflict m w = (case m w of
       (Inl (Repo IntegrityError), w') \<Rightarrow> (Inl (WorkflowError ''BLUEPRINT_VERSION_CONFLICT'' 409), w') | r \<Rightarrow> r)"

fun workflow_status_text :: "WorkflowStatus \<Rightarrow> string" where
  "workflow_status_text WorkflowStatus.DRAFT = ''DRAFT''"
| "workflow_status_text WorkflowStatus.BLOCKED = ''BLOCKED''"
| "workflow_status_text WorkflowStatus.READY = ''READY''"
| "workflow_status_text WorkflowStatus.NEEDS_REVIEW = ''NEEDS_REVIEW''"
| "workflow_status_text WorkflowStatus.APPROVED = ''APPROVED''"
| "workflow_status_text WorkflowStatus.PUBLISHED = ''PUBLISHED''"
| "workflow_status_text WorkflowStatus.INSUFFICIENT_RELEVANT_EVIDENCE = ''INSUFFICIENT_RELEVANT_EVIDENCE''"
| "workflow_status_text WorkflowStatus.INSUFFICIENT_DISTINCT_QUESTION_OPPORTUNITIES = ''INSUFFICIENT_DISTINCT_QUESTION_OPPORTUNITIES''"
| "workflow_status_text WorkflowStatus.EVIDENCE_MAPPING_UNCERTAIN = ''EVIDENCE_MAPPING_UNCERTAIN''"
| "workflow_status_text WorkflowStatus.ASSESSMENT_PLAN_INFEASIBLE = ''ASSESSMENT_PLAN_INFEASIBLE''"
| "workflow_status_text WorkflowStatus.TECHNICAL_FAILURE = ''TECHNICAL_FAILURE''"
| "workflow_status_text WorkflowStatus.REJECTED_SECURITY = ''REJECTED_SECURITY''"

definition blueprint_row :: "Desk \<Rightarrow> string \<Rightarrow> AssessmentBlueprint \<Rightarrow> BlueprintReview \<Rightarrow> BlueprintRow act" where
  "blueprint_row D tid b rv =
     seq (make_id ''blueprintrow'' [JStr (AssessmentBlueprint.activity_id b), JInt (AssessmentBlueprint.blueprint_version b)]) (\<lambda>rid.
     give \<lparr>BlueprintRow.row_id = rid, tenant_id = tid, activity_id = AssessmentBlueprint.activity_id b,
       blueprint_id = AssessmentBlueprint.blueprint_id b, version = AssessmentBlueprint.blueprint_version b,
       status = workflow_status_text (AssessmentBlueprint.status b), etag = etag_text (blueprint_dump D b), data = b, review = Some rv\<rparr>)"

definition approved_copy :: "AssessmentBlueprint \<Rightarrow> int \<Rightarrow> string \<Rightarrow> datetime \<Rightarrow> AssessmentBlueprint" where
  "approved_copy b v who t = b\<lparr>AssessmentBlueprint.blueprint_version := v, AssessmentBlueprint.status := WorkflowStatus.APPROVED,
     AssessmentBlueprint.approved_by := Some who, AssessmentBlueprint.approved_at := Some t\<rparr>"

text \<open>The version of the activity, which must be under review, with its stored review.\<close>

definition reviewable_blueprint :: "string \<Rightarrow> int \<Rightarrow> string \<Rightarrow> string \<Rightarrow> (BlueprintRow \<times> AssessmentBlueprint \<times> BlueprintReview) act" where
  "reviewable_blueprint aid ver if_match tid =
     seq (look (blueprint_version_row aid ver tid)) (\<lambda>r.
     seq (pass (lift_repo r)) (\<lambda>current.
     seq (scoped_activity aid tid) (\<lambda>a.
     seq (refuse_if (ActivityRow.status a \<notin> {''BLUEPRINT_READY'', ''NEEDS_REVIEW''}) ''BLUEPRINT_APPROVAL_NOT_ALLOWED'' 409) (\<lambda>_.
     seq (refuse_if (BlueprintRow.etag current \<noteq> if_match) ''ETAG_MISMATCH'' 412) (\<lambda>_.
     seq (model_of AssessmentBlueprint_validate (BlueprintRow.data current)) (\<lambda>b.
     seq (pass (case BlueprintRow.review current of None \<Rightarrow> Inl (wrong_type ''review'') | Some x \<Rightarrow> Inr x)) (\<lambda>x.
     seq (model_of BlueprintReview_validate x) (\<lambda>rv.
     seq (refuse_if (AssessmentBlueprint.status b \<noteq> WorkflowStatus.READY \<or> AssessmentBlueprint.approved_by b \<noteq> None
        \<or> AssessmentBlueprint.approved_at b \<noteq> None) ''BLUEPRINT_NOT_REVIEWABLE'' 409) (\<lambda>_.
     seq (refuse_if (BlueprintReview.status rv \<noteq> ''READY''
        \<or> BlueprintReview.approval_recommendation rv = Some BlueprintApprovalRecommendation.REJECT) ''BLUEPRINT_REVIEW_BLOCKED'' 409) (\<lambda>_.
     give (current, b, rv)))))))))))"

definition approve_blueprint :: "Desk \<Rightarrow> string \<Rightarrow> int \<Rightarrow> string \<Rightarrow> Actor \<Rightarrow> BlueprintRow act" where
  "approve_blueprint D aid ver if_match who = (let tid = workspace_id who in
     seq (refuse_if (Actor.role who \<notin> {''OWNER'', ''TEACHER''}) ''ROLE_FORBIDDEN'' 403) (\<lambda>_.
     seq (reviewable_blueprint aid ver if_match tid) (\<lambda>(current, b, rv).
     seq utc_now (\<lambda>t.
     let approved = approved_copy b (BlueprintRow.version current + 1) (user_id who) t in
     seq (blueprint_row D tid approved (rv\<lparr>BlueprintReview.blueprint_version := AssessmentBlueprint.blueprint_version approved\<rparr>)) (\<lambda>new.
     seq (version_conflict (add_blueprint new)) (\<lambda>_.
     seq utc_now (\<lambda>now.
     seq (transact (set_activity_status aid tid ''BLUEPRINT_APPROVED'' now)) (\<lambda>_.
     seq (record_event tid ''blueprint.approved'' (AssessmentBlueprint.blueprint_id approved) (user_id who)
        (JObj [(''blueprint_version'', JInt (AssessmentBlueprint.blueprint_version approved))])) (\<lambda>_.
     give new)))))))))"

end
