(* ===== verification/ApprovalSteps.thy ===== *)
theory ApprovalSteps
  imports Approval WorkExample
begin

text \<open>
  What an approval rests on: every unit of the submission's evidence on its sealed bytes, every fragment of
  every question on a receipt of the approving teacher, and a blueprint on a teacher's recorded decision.
\<close>

section \<open>Reading\<close>

lemma each_act_Inr:
  assumes "each_act f xs w = (Inr ys, w')" and "\<And>x. reads (f x)"
  shows "w' = w \<and> list_all2 (\<lambda>x y. f x w = (Inr y, w)) xs ys"
  using assms(1)
proof (induction xs arbitrary: ys)
  case (Cons x xs)
  then obtain y v zs where "f x w = (Inr y, v)" "each_act f xs v = (Inr zs, w')" "ys = y # zs" by (auto simp: acts)
  moreover then have "v = w" using readsD [OF assms(2)] by blast
  ultimately show ?case using Cons.IH by auto
qed (simp add: acts)

lemma collect_mem: "collect f xs = Inr ys \<Longrightarrow> x \<in> set xs \<Longrightarrow> \<exists>y \<in> set ys. f x = Inr y"
  using collect_Inr by (metis in_set_conv_nth)

lemma collect_source: "collect f xs = Inr ys \<Longrightarrow> y \<in> set ys \<Longrightarrow> \<exists>x \<in> set xs. f x = Inr y"
  using collect_Inr by (metis in_set_conv_nth)

lemma all2_source: "list_all2 P xs ys \<Longrightarrow> y \<in> set ys \<Longrightarrow> \<exists>x \<in> set xs. P x y"
  by (induction xs ys rule: list_all2_induct) auto

lemma find_only: "p x \<Longrightarrow> (\<And>y. y \<in> set xs \<Longrightarrow> \<not> p y) \<Longrightarrow> find p (xs @ [x]) = Some x"
  by (induction xs) auto

lemma reads_link: "reads (signed_link D key)"
  unfolding signed_link_def by (intro reads_seq reads_basic)

lemma reads_source: "reads (source_link D f links)"
  unfolding source_link_def by (auto intro!: reads_seq reads_link split: option.splits)

lemma reads_units: "reads (view_units D fs links rows)"
proof (induction rows arbitrary: links)
  case (Cons r rows)
  show ?case unfolding view_units.simps by (intro reads_seq reads_basic reads_source Cons.IH)
qed simp

lemma reads_view: "reads (evidence_view D sid who)"
  unfolding evidence_view_def scoped_submission_def by (intro reads_seq reads_basic reads_units)

lemma reads_receipts: "reads (evidence_receipts D r who)"
  unfolding evidence_receipts_def Let_def by (intro reads_seq reads_basic)

lemma reads_unit: "reads (seq (model_of EvidenceUnit_validate (EvidenceRow.data x)) (\<lambda>u. give (EvidenceRow.ident x, u)))"
  by (intro reads_seq reads_basic)

lemma reads_complete: "reads (assert_evidence_receipts_complete D r a who)"
proof -
  have "reads (each_act (\<lambda>x. seq (model_of EvidenceUnit_validate (EvidenceRow.data x)) (\<lambda>u. give (EvidenceRow.ident x, u))) rows)" for rows
    by (induction rows) (auto intro!: reads_seq reads_unit)
  then show ?thesis unfolding assert_evidence_receipts_complete_def by (intro reads_seq reads_basic reads_receipts)
qed

lemma reads_reviewable: "reads (reviewable_assessment r who)"
  unfolding reviewable_assessment_def scoped_submission_def by (intro reads_seq reads_basic)

section \<open>Sealed evidence\<close>

definition sealed :: "Desk \<Rightarrow> ArtifactRow \<Rightarrow> EvidenceUnit \<Rightarrow> bool" where
  "sealed D f u \<longleftrightarrow> ArtifactRow.ident f = EvidenceUnit.artifact_id u \<and> ArtifactRow.sha256 f = Some (EvidenceUnit.artifact_hash u)
     \<and> (\<exists>bs. verified_artifact_bytes (desk_env D) f = Inr bs \<and> sha256_bytes bs = EvidenceUnit.artifact_hash u)"

lemma verified_digest: "verified_artifact_bytes env f = Inr bs \<Longrightarrow> ArtifactRow.sha256 f = Some (sha256_bytes bs) \<and> ArtifactRow.status f = ''COMPLETE''"
  by (auto simp: verified_artifact_bytes_def split: option.splits if_splits sum.splits)

lemma source_link_Inr:
  assumes "source_link D f links w = (Inr x, w')" and "map_of links (ArtifactRow.ident f) \<noteq> None \<longrightarrow> P"
    and "\<And>bs. verified_artifact_bytes (desk_env D) f = Inr bs \<Longrightarrow> P"
  shows P
  using assms by (auto simp: source_link_def acts split: option.splits)

lemma view_units_Inr:
  assumes "view_units D fs links rows w = (Inr vs, w')"
    and "\<And>i f. map_of links i \<noteq> None \<Longrightarrow> dict_by ArtifactRow.ident fs i = Some f \<Longrightarrow> \<exists>bs. verified_artifact_bytes (desk_env D) f = Inr bs"
    and "r \<in> set rows"
  shows "EvidenceUnit_validate (EvidenceRow.data r) = None \<and> (\<exists>f \<in> set fs. sealed D f (EvidenceRow.data r))"
  using assms
proof (induction rows arbitrary: links vs w)
  case (Cons y rows)
  let ?u = "EvidenceRow.data y"
  obtain f x v vs' where u: "EvidenceUnit_validate ?u = None" and f: "dict_by ArtifactRow.ident fs (EvidenceUnit.artifact_id ?u) = Some f"
    and l: "source_link D f links w = (Inr x, v)" and h: "ArtifactRow.sha256 f = Some (EvidenceUnit.artifact_hash ?u)"
    and rest: "view_units D fs ((ArtifactRow.ident f, x) # links) rows v = (Inr vs', w')"
    using Cons.prems(1) by (auto simp: acts split: option.splits)
  note fi = dict_by_hit [OF f]
  obtain bs where bs: "verified_artifact_bytes (desk_env D) f = Inr bs"
    using source_link_Inr [OF l] Cons.prems(2) [of "ArtifactRow.ident f" f] f fi by metis
  then have s: "sealed D f ?u" using fi h verified_digest [OF bs] by (simp add: sealed_def)
  show ?case
  proof (cases "r = y")
    case True
    then show ?thesis using u s fi by auto
  next
    case False
    have "\<exists>bs. verified_artifact_bytes (desk_env D) g = Inr bs"
      if "map_of ((ArtifactRow.ident f, x) # links) i \<noteq> None" "dict_by ArtifactRow.ident fs i = Some g" for i g
      using that bs f fi Cons.prems(2) [of i g] by (auto split: if_splits)
    then show ?thesis using Cons.IH [OF rest] Cons.prems(3) False by auto
  qed
qed simp

section \<open>Receipts\<close>

text \<open>An event of the log that counts as the actor's receipt for a fragment of this revision of the assessment.\<close>

definition counts_for :: "Desk \<Rightarrow> AssessmentRow \<Rightarrow> Actor \<Rightarrow> string \<Rightarrow> AuditEventRow \<Rightarrow> bool" where
  "counts_for D r who rid e \<longleftrightarrow> AuditEventRow.tenant_id e = workspace_id who \<and> AuditEventRow.event_type e = ''evidence.viewed''
     \<and> AuditEventRow.aggregate_id e = AssessmentRow.assessment_id r \<and> AuditEventRow.actor_id e = user_id who
     \<and> (\<exists>kvs rc. AuditEventRow.payload e = JObj kvs \<and> entry_is kvs ''assessment_version'' (JInt (AssessmentRow.version r))
          \<and> entry_is kvs ''assessment_etag'' (JStr (AssessmentRow.etag r))
          \<and> receipt_of D (dict_set ''assessment_id'' (JStr (AssessmentRow.assessment_id r)) kvs) (AuditEventRow.occurred_at e) = Inr rc
          \<and> EvidenceReceipt.receipt_id rc = rid)"

definition receipted :: "Desk \<Rightarrow> AssessmentRow \<Rightarrow> Actor \<Rightarrow> JobStore \<Rightarrow> string \<Rightarrow> int \<Rightarrow> EvidenceUnit \<Rightarrow> bool" where
  "receipted D r who s qid i u \<longleftrightarrow> (\<exists>rid. receipt_ident D r (user_id who) qid i u = Inr rid \<and> (\<exists>e \<in> set (audits s). counts_for D r who rid e))"

lemma viewed_events_set: "set (viewed_events tid aid who s) = {e \<in> set (audits s). AuditEventRow.tenant_id e = tid
    \<and> AuditEventRow.event_type e = ''evidence.viewed'' \<and> AuditEventRow.aggregate_id e = aid \<and> AuditEventRow.actor_id e = who}"
  by (auto simp: viewed_events_def audit_events_def)

lemma event_receipt_Inr:
  "event_receipt D r e = Inr (Some rc) \<longleftrightarrow> (\<exists>kvs. AuditEventRow.payload e = JObj kvs
     \<and> entry_is kvs ''assessment_version'' (JInt (AssessmentRow.version r)) \<and> entry_is kvs ''assessment_etag'' (JStr (AssessmentRow.etag r))
     \<and> receipt_of D (dict_set ''assessment_id'' (JStr (AssessmentRow.assessment_id r)) kvs) (AuditEventRow.occurred_at e) = Inr rc)"
  by (cases "AuditEventRow.payload e") (auto simp: event_receipt_def split: sum.splits if_splits)

lemma receipt_ids:
  assumes "evidence_receipts D r who w = (Inr rcs, w')"
  shows "rid \<in> EvidenceReceipt.receipt_id ` set rcs \<longleftrightarrow> (\<exists>e \<in> set (audits (base w)). counts_for D r who rid e)"
proof -
  let ?es = "viewed_events (workspace_id who) (AssessmentRow.assessment_id r) (user_id who) (base w)"
  obtain xs where xs: "collect (event_receipt D r) ?es = Inr xs"
    and r: "rcs = map (\<lambda>i. the (dict_by EvidenceReceipt.receipt_id (concat (map (\<lambda>x. case x of None \<Rightarrow> [] | Some rc \<Rightarrow> [rc]) xs)) i))
      (sorted_set (map EvidenceReceipt.receipt_id (concat (map (\<lambda>x. case x of None \<Rightarrow> [] | Some rc \<Rightarrow> [rc]) xs))))"
    using assms by (auto simp: evidence_receipts_def Let_def acts)
  let ?ys = "concat (map (\<lambda>x. case x of None \<Rightarrow> [] | Some rc \<Rightarrow> [rc]) xs)"
  have in_ys: "rc \<in> set ?ys \<longleftrightarrow> Some rc \<in> set xs" for rc by (auto split: option.splits)
  have "EvidenceReceipt.receipt_id (the (dict_by EvidenceReceipt.receipt_id ?ys i)) = i" if "i \<in> EvidenceReceipt.receipt_id ` set ?ys" for i
    using that dict_by_miss [of EvidenceReceipt.receipt_id ?ys i] dict_by_hit [of EvidenceReceipt.receipt_id ?ys i]
    by (cases "dict_by EvidenceReceipt.receipt_id ?ys i") auto
  then have "EvidenceReceipt.receipt_id ` set rcs = EvidenceReceipt.receipt_id ` set ?ys" unfolding r by (auto simp: image_image)
  also have "rid \<in> \<dots> \<longleftrightarrow> (\<exists>rc. Some rc \<in> set xs \<and> EvidenceReceipt.receipt_id rc = rid)" using in_ys by auto
  also have "\<dots> \<longleftrightarrow> (\<exists>e \<in> set ?es. \<exists>rc. event_receipt D r e = Inr (Some rc) \<and> EvidenceReceipt.receipt_id rc = rid)"
    using collect_mem [OF xs] collect_source [OF xs] by (metis sum.inject(2))
  finally show ?thesis by (auto simp: viewed_events_set event_receipt_Inr counts_for_def)
qed

lemma complete_Inr:
  assumes "assert_evidence_receipts_complete D r a who w = (Inr u, w')" and q: "q \<in> set (Assessment.questions a)"
    and i: "i < length (Anchor.fragments (SelectedQuestion.anchor q))"
  shows "\<exists>x \<in> set (evidence_for_submission (Assessment.submission_id a) (workspace_id who) w).
     EvidenceRow.ident x = AnchorFragment.evidence_id (Anchor.fragments (SelectedQuestion.anchor q) ! i)
     \<and> receipted D r who (base w) (SelectedQuestion.question_id q) (int i) (EvidenceRow.data x)"
proof -
  let ?rows = "evidence_for_submission (Assessment.submission_id a) (workspace_id who) w"
  let ?unit = "\<lambda>x. seq (model_of EvidenceUnit_validate (EvidenceRow.data x)) (\<lambda>u. give (EvidenceRow.ident x, u))"
  let ?fr = "Anchor.fragments (SelectedQuestion.anchor q) ! i"
  obtain rcs v units v' xs where 1: "evidence_receipts D r who w = (Inr rcs, v)" and 2: "each_act ?unit (evidence_for_submission (Assessment.submission_id a) (workspace_id who) v) v = (Inr units, v')"
    and 3: "collect (expected_receipts D r who (\<lambda>e. map_option snd (dict_by fst units e))) (Assessment.questions a) = Inr xs"
    and 4: "set (concat xs) = set (map EvidenceReceipt.receipt_id rcs)"
    using assms(1) by (auto simp: assert_evidence_receipts_complete_def acts)
  have v: "v = w" by (rule readsD [OF reads_receipts 1])
  have units: "list_all2 (\<lambda>x y. ?unit x w = (Inr y, w)) ?rows units"
    using each_act_Inr [OF 2 reads_unit] by (simp add: v)
  obtain ids where ids: "ids \<in> set xs" "expected_receipts D r who (\<lambda>e. map_option snd (dict_by fst units e)) q = Inr ids"
    using collect_mem [OF 3 q] by blast
  have "(i, ?fr) \<in> set (enumerate 0 (Anchor.fragments (SelectedQuestion.anchor q)))"
    using i by (simp add: in_set_enumerate_eq)
  then obtain rid where rid: "rid \<in> set ids"
      "expected_receipt D r who (\<lambda>e. map_option snd (dict_by fst units e)) (SelectedQuestion.question_id q) (i, ?fr) = Inr rid"
    using collect_mem [OF ids(2) [unfolded expected_receipts_def]] by blast
  then obtain y where y: "dict_by fst units (AnchorFragment.evidence_id ?fr) = Some y"
      "receipt_ident D r (user_id who) (SelectedQuestion.question_id q) (int i) (snd y) = Inr rid"
    by (auto simp: expected_receipt_def split: option.splits sum.splits)
  obtain x where x: "x \<in> set ?rows" "?unit x w = (Inr y, w)"
    using all2_source [OF units] dict_by_hit [OF y(1)] by blast
  then have "fst y = EvidenceRow.ident x" "snd y = EvidenceRow.data x" by (auto simp: acts)
  moreover have "rid \<in> EvidenceReceipt.receipt_id ` set rcs" using 4 ids(1) rid(1) by auto
  then obtain e where "e \<in> set (audits (base w))" "counts_for D r who rid e" using receipt_ids [OF 1] by blast
  ultimately show ?thesis using x(1) y dict_by_hit [OF y(1)] unfolding receipted_def by auto
qed

section \<open>The approval\<close>

lemma reviewable_Inr:
  assumes "reviewable_assessment r who w = (Inr a, w')"
  shows "w' = w \<and> a = AssessmentRow.data r \<and> Assessment_validate a = None \<and> Assessment.status a = WorkflowStatus.NEEDS_REVIEW"
  using assms readsD [OF reads_reviewable assms] by (auto simp: reviewable_assessment_def acts)

lemma evidence_view_Inr:
  assumes "evidence_view D sid who w = (Inr vs, w')" and "x \<in> set (evidence_for_submission sid (workspace_id who) w)"
  shows "\<exists>f \<in> set (artifacts (base w)). sealed D f (EvidenceRow.data x)"
proof -
  have "\<exists>sub :: SubmissionRow. view_units D (artifacts_for (SubmissionRow.activity_id sub) (workspace_id who) (Some sid) True (base w)) []
      (evidence_for_submission sid (workspace_id who) w) w = (Inr vs, w')"
    using assms(1) by (auto simp: evidence_view_def scoped_submission_def acts)
  then obtain sub :: SubmissionRow where "view_units D (artifacts_for (SubmissionRow.activity_id sub) (workspace_id who) (Some sid) True (base w)) []
      (evidence_for_submission sid (workspace_id who) w) w = (Inr vs, w')" by blast
  then have "\<exists>f \<in> set (artifacts_for (SubmissionRow.activity_id sub) (workspace_id who) (Some sid) True (base w)). sealed D f (EvidenceRow.data x)"
    using view_units_Inr [OF _ _ assms(2)] by fastforce
  then show ?thesis by (auto simp: artifacts_for_def)
qed

lemma approval_conflict_Inr: "approval_conflict m w = (Inr x, w') \<longleftrightarrow> m w = (Inr x, w')"
  by (auto simp: approval_conflict_def split: prod.splits sum.splits failure.splits repo_error.splits)

lemma approve_assessment_Inr:
  assumes "approve_assessment D aid etg who w = (Inr r, w')"
  obtains cur vs w2 rid t now v where "can_approve_assessments who" "assessment_by_id aid (workspace_id who) (base w) = Inr cur" "AssessmentRow.etag cur = etg"
    "Assessment_validate (AssessmentRow.data cur) = None" "Assessment.status (AssessmentRow.data cur) = WorkflowStatus.NEEDS_REVIEW"
    "evidence_view D (Assessment.submission_id (AssessmentRow.data cur)) who w = (Inr vs, w2)"
    "assert_evidence_receipts_complete D cur (AssessmentRow.data cur) who w = (Inr (), w)"
    "approve_assessment_atomic etg (approved_row D cur (approved_assessment (AssessmentRow.data cur) who t) who rid now) (user_id who) (base w) = Inr (r, base w')"
proof -
  from assms obtain u1 cur u2 u3 a v1 g u4 gd u5 u6 vs v2 v3 t v4 rid v5 now v6 x1 x2 x3 x4 where raw:
      "refuse_if (\<not> can_approve_assessments who) ''ROLE_FORBIDDEN'' 403 w = (Inr x1, u1)"
      "reading (assessment_by_id aid (workspace_id who)) u1 = (Inr cur, u2)"
      "refuse_if (AssessmentRow.etag cur \<noteq> etg) ''ETAG_MISMATCH'' 412 u2 = (Inr x2, u3)"
      "reviewable_assessment cur who u3 = (Inr a, v1)"
      "reading (guide_for_assessment aid (workspace_id who)) v1 = (Inr g, u4)"
      "model_of EvaluationGuide_validate (GuideRow.data g) u4 = (Inr gd, u5)"
      "refuse_if (EvaluationGuide.status gd \<noteq> ''READY'') ''GUIDE_NOT_READY'' 409 u5 = (Inr x3, u6)"
      "evidence_view D (Assessment.submission_id a) who u6 = (Inr vs, v2)"
      "assert_evidence_receipts_complete D cur a who v2 = (Inr x4, v3)" "utc_now v3 = (Inr t, v4)"
      "make_id ''assessmentrow'' [JStr aid, JInt (AssessmentRow.version cur + 1)] v4 = (Inr rid, v5)" "utc_now v5 = (Inr now, v6)"
      "approval_conflict (transact (approve_assessment_atomic etg
         (approved_row D cur (approved_assessment a who t) who rid now) (user_id who))) v6 = (Inr r, w')"
    unfolding approve_assessment_def Let_def seq_Inr by (elim exE conjE) (rule that, assumption+)
  have u: "u3 = w" "u6 = v1" using raw(1-3,5-7) by (simp_all add: refuse_if_Inr reading_Inr model_of_Inr)
  have v: "v1 = w" "a = AssessmentRow.data cur" using reviewable_Inr [OF raw(4)] u by simp_all
  moreover have "v2 = w" using readsD [OF reads_view raw(8)] u v by simp
  moreover have "v3 = v2" by (rule readsD [OF reads_complete raw(9)])
  moreover have "base v6 = base v3" using raw(10-12) by (simp add: utc_now_Inr make_id_Inr)
  ultimately show thesis
    using that [of cur vs v2 t rid now] raw(1-3,8,9,13) reviewable_Inr [OF raw(4)] u
    by (auto simp: refuse_if_Inr reading_Inr approval_conflict_Inr transact_Inr)
qed

section \<open>The verification of a fragment\<close>

text \<open>The unit a fragment quotes, found again in the sealed bytes.\<close>

definition reread :: "Desk \<Rightarrow> ArtifactRow \<Rightarrow> EvidenceUnit \<Rightarrow> bool" where
  "reread D f u \<longleftrightarrow> (\<exists>bs units x. verified_artifact_bytes (desk_env D) f = Inr bs \<and> parse_bytes (desk_env D) f bs = Inr units
     \<and> x \<in> set units \<and> EvidenceUnit.evidence_id x = EvidenceUnit.evidence_id u \<and> same_unit D x u)"

lemma reparsed_Inr: "reparsed_units D f = Inr units \<longleftrightarrow>
    (\<exists>bs. verified_artifact_bytes (desk_env D) f = Inr bs \<and> parse_bytes (desk_env D) f bs = Inr units)"
  by (auto simp: reparsed_units_def split: sum.splits failure.splits)

lemma persisted_Inr:
  assumes "persisted_unit D sid tid fr w = (Inr u, w')"
  shows "w' = w \<and> EvidenceUnit.evidence_id u = AnchorFragment.evidence_id fr \<and> EvidenceUnit_validate u = None
     \<and> same_locator D (EvidenceUnit.locator u) (AnchorFragment.locator fr)
     \<and> (\<exists>x \<in> set (evidence_for_submission sid tid w). EvidenceRow.ident x = AnchorFragment.evidence_id fr \<and> EvidenceRow.data x = u)"
  using assms by (auto simp: persisted_unit_def gap_if_def acts split: option.splits dest!: dict_by_hit)

lemma exact_artifact_Inr:
  assumes "exact_artifact u sid tid w = (Inr f, w')"
  shows "w' = w \<and> get_artifact (base w) (EvidenceUnit.artifact_id u) = Some f \<and> ArtifactRow.submission_id f = Some sid
     \<and> ArtifactRow.sha256 f = Some (EvidenceUnit.artifact_hash u)"
  using assms by (auto simp: exact_artifact_def gap_if_def acts)

lemma question_fragment_Inr:
  assumes "question_fragment a qid i w = (Inr fr, w')"
  shows "w' = w \<and> (\<exists>q \<in> set (Assessment.questions a). SelectedQuestion.question_id q = qid
     \<and> fr \<in> set (Anchor.fragments (SelectedQuestion.anchor q)))"
proof -
  obtain q where q: "find (\<lambda>q. SelectedQuestion.question_id q = qid) (Assessment.questions a) = Some q"
    and i: "w' = w" "fr \<in> set (Anchor.fragments (SelectedQuestion.anchor q))"
    using assms by (auto simp: question_fragment_def Let_def acts item_at_def split: option.splits if_splits intro!: nth_mem)
  then show ?thesis using find_SomeD [OF q] by blast
qed

lemma resolve_Inr:
  assumes "resolve_fragment D aid ver etg qid i who w = (Inr (cur, u, f), w')"
  shows "assessment_by_id aid (workspace_id who) (base w) = Inr cur \<and> AssessmentRow.version cur = ver \<and> AssessmentRow.etag cur = etg
     \<and> Assessment.status (AssessmentRow.data cur) = WorkflowStatus.NEEDS_REVIEW
     \<and> (\<exists>q \<in> set (Assessment.questions (AssessmentRow.data cur)). SelectedQuestion.question_id q = qid
          \<and> (\<exists>fr \<in> set (Anchor.fragments (SelectedQuestion.anchor q)). EvidenceUnit.evidence_id u = AnchorFragment.evidence_id fr
               \<and> same_locator D (EvidenceUnit.locator u) (AnchorFragment.locator fr)))
     \<and> (\<exists>x \<in> set (evidence_for_submission (Assessment.submission_id (AssessmentRow.data cur)) (workspace_id who) w). EvidenceRow.data x = u)
     \<and> get_artifact (base w) (EvidenceUnit.artifact_id u) = Some f \<and> reread D f u"
proof -
  from assms obtain c0 f0 u0 u1 u2 x1 a u3 fr u4 u5 u6 units u7 x2 u8 where steps_of:
      "reading (assessment_by_id aid (workspace_id who)) w = (Inr c0, u1)"
      "refuse_if (AssessmentRow.version c0 \<noteq> ver \<or> AssessmentRow.etag c0 \<noteq> etg) ''ETAG_MISMATCH'' 412 u1 = (Inr x1, u2)"
      "reviewable_assessment c0 who u2 = (Inr a, u3)" "question_fragment a qid i u3 = (Inr fr, u4)"
      "persisted_unit D (Assessment.submission_id a) (workspace_id who) fr u4 = (Inr u0, u5)"
      "exact_artifact u0 (Assessment.submission_id a) (workspace_id who) u5 = (Inr f0, u6)"
      "pass (reparsed_units D f0) u6 = (Inr units, u7)"
      "gap_if (case dict_by EvidenceUnit.evidence_id units (EvidenceUnit.evidence_id u0) of None \<Rightarrow> True | Some x \<Rightarrow> \<not> same_unit D x u0) u7 = (Inr x2, u8)"
      "c0 = cur" "u0 = u" "f0 = f"
    unfolding resolve_fragment_def Let_def seq_Inr give_Inr prod.inject by (elim exE conjE) (rule that, assumption+, simp_all)
  note raw = steps_of(1-8) [unfolded steps_of(9-11)]
  have u: "u2 = w" "u3 = w" "a = AssessmentRow.data cur" "u4 = w" "u5 = w"
    using raw(1,2) reviewable_Inr [OF raw(3)] question_fragment_Inr [OF raw(4)] persisted_Inr [OF raw(5)]
    by (simp_all add: reading_Inr refuse_if_Inr)
  obtain x where x: "dict_by EvidenceUnit.evidence_id units (EvidenceUnit.evidence_id u) = Some x" "same_unit D x u"
    using raw(8) by (auto simp: gap_if_def stop_if_Inr split: option.splits)
  then have "reread D f u" using raw(7) dict_by_hit [OF x(1)] by (auto simp: reread_def pass_Inr reparsed_Inr)
  then show ?thesis
    using raw(1,2) reviewable_Inr [OF raw(3)] question_fragment_Inr [OF raw(4)] persisted_Inr [OF raw(5)] exact_artifact_Inr [OF raw(6)] u
    by (auto simp: reading_Inr refuse_if_Inr)
qed

lemma reads_resolve: "reads (resolve_fragment D aid ver etg qid i who)"
proof -
  have "reads (question_fragment a qid i)" for a by (auto simp: question_fragment_def Let_def split: option.splits)
  moreover have "reads (persisted_unit D sid tid fr)" for sid tid fr unfolding persisted_unit_def gap_if_def by (intro reads_seq reads_basic)
  moreover have "reads (exact_artifact u sid tid)" for u sid tid unfolding exact_artifact_def gap_if_def by (intro reads_seq reads_basic)
  ultimately show ?thesis unfolding resolve_fragment_def Let_def gap_if_def by (intro reads_seq reads_basic reads_reviewable)
qed

text \<open>A composition whose first part only reads.\<close>

lemma seq_reads_cases [consumes 2]:
  assumes "seq m f w = (r, w')" and "reads m"
  obtains e where "r = Inl e" "w' = w" | x where "m w = (Inr x, w)" "f x w = (r, w')"
  using assms by (cases "m w"; cases "fst (m w)") (auto simp: seq_def reads_def split: sum.splits dest: spec [of _ w])

lemma recorded_view_Some: "recorded_view wanted es = Inr (Some e) \<Longrightarrow> e \<in> set es
    \<and> (\<exists>kvs. AuditEventRow.payload e = JObj kvs \<and> list_all (\<lambda>(k, v). entry_is kvs k v) wanted)"
proof (induction es)
  case (Cons x es)
  then show ?case by (cases "AuditEventRow.payload x") (auto split: if_splits)
qed simp

lemma record_event_Inr:
  assumes "record_event tid ev agg who load w = (Inr e, w')"
  shows "audits (base w') = audits (base w) @ [e] \<and> AuditEventRow.tenant_id e = tid \<and> AuditEventRow.event_type e = ev
     \<and> AuditEventRow.aggregate_id e = agg \<and> AuditEventRow.actor_id e = who \<and> AuditEventRow.payload e = load"
  using assms by (auto simp: record_event_def acts audit_def Let_def add_audit_def split: sum.splits)

lemma logged_view_cases:
  assumes "logged_view tid aid who kvs w = (r, w')"
  obtains "base w' = base w"
  | e where "base w' = add_audit e (base w)" "AuditEventRow.tenant_id e = tid" "AuditEventRow.event_type e = ''evidence.viewed''"
      "AuditEventRow.aggregate_id e = aid" "AuditEventRow.actor_id e = who" "AuditEventRow.payload e = JObj kvs"
proof (cases "recorded_view kvs (viewed_events tid aid who (base w))")
  case (Inl x)
  then show thesis using assms that(1) by (simp add: logged_view_def seq_def look_def pass_def)
next
  case (Inr known)
  show thesis
  proof (cases known)
    case (Some e)
    then show thesis using assms that(1) Inr by (simp add: logged_view_def seq_def look_def pass_def give_def)
  next
    case None
    then have run: "record_event tid ''evidence.viewed'' aid who (JObj kvs) w = (r, w')"
      using assms Inr by (simp add: logged_view_def seq_def look_def pass_def)
    then show thesis
      using that by (auto simp: record_event_def seq_def utc_now_def transact_def audit_def Let_def commit_def split: sum.splits if_splits)
  qed
qed

lemma seq_then_reads: "m w = (q, v) \<Longrightarrow> (\<And>x. reads (f x)) \<Longrightarrow> seq m f w = (r, w') \<Longrightarrow> w' = v"
  by (cases q) (auto simp: seq_def dest: readsD)

text \<open>Whatever becomes of it, a verification adds at most one event, after all its checks.\<close>

lemma verify_cases:
  assumes "verify_evidence_fragment D aid ver etg qid i who w = (r, w')"
  obtains "base w' = base w"
  | cur u f rid e where "resolve_fragment D aid ver etg qid i who w = (Inr (cur, u, f), w)"
      "receipt_ident D cur (user_id who) qid i u = Inr rid" "base w' = add_audit e (base w)"
      "AuditEventRow.tenant_id e = workspace_id who" "AuditEventRow.event_type e = ''evidence.viewed''"
      "AuditEventRow.aggregate_id e = aid" "AuditEventRow.actor_id e = user_id who"
      "AuditEventRow.payload e = JObj (receipt_fields_of D cur qid i u rid)"
proof -
  note start = assms [unfolded verify_evidence_fragment_def]
  from start reads_resolve show thesis
  proof (cases rule: seq_reads_cases)
  case (2 y)
  obtain cur u f where y: "y = (cur, u, f)" by (cases y)
  let ?kvs = "receipt_fields_of D cur qid i u"
  note run = 2(2) [unfolded y prod.case]
  have p: "reads (receipt_payload D cur (user_id who) qid i u)" unfolding receipt_payload_def by (intro reads_seq reads_basic)
  from run p show thesis
  proof (cases rule: seq_reads_cases)
    case inner: (2 z)
    then obtain rid where rid: "receipt_ident D cur (user_id who) qid i u = Inr rid" and z: "z = (rid, ?kvs rid)"
      by (auto simp: receipt_payload_def acts split: sum.splits)
    have run: "seq (logged_view (workspace_id who) aid (user_id who) (?kvs rid)) (\<lambda>e.
        seq (signed_link D (ArtifactRow.object_key f)) (\<lambda>x.
        seq (pass (converted (receipt_of D (?kvs rid) (AuditEventRow.occurred_at e)))) (\<lambda>rc. give (rc, u, x)))) w = (r, w')"
      using inner(2) by (simp add: z)
    obtain q v where q: "logged_view (workspace_id who) aid (user_id who) (?kvs rid) w = (q, v)"
      by (cases "logged_view (workspace_id who) aid (user_id who) (?kvs rid) w")
    have "reads (seq (signed_link D (ArtifactRow.object_key f)) (\<lambda>x.
        seq (pass (converted (receipt_of D (?kvs rid) (AuditEventRow.occurred_at e)))) (\<lambda>rc. give (rc, u, x))))" for e
      by (intro reads_seq reads_basic reads_link)
    then have same: "w' = v" by (rule seq_then_reads [OF q _ run])
    from q show thesis
    proof (cases rule: logged_view_cases)
      case 1
      then show thesis using that(1) same by simp
    next
      case (2 e)
      then show thesis using that(2) [of cur u f rid e] \<open>resolve_fragment D aid ver etg qid i who w = (Inr y, w)\<close> y rid same by simp
    qed
  qed (use that(1) in simp)
  qed (use that(1) in simp)
qed

section \<open>The approval of a blueprint\<close>

lemma version_conflict_Inr: "version_conflict m w = (Inr x, w') \<longleftrightarrow> m w = (Inr x, w')"
  by (auto simp: version_conflict_def split: prod.splits sum.splits failure.splits repo_error.splits)

lemma add_blueprint_Inr: "add_blueprint r w = (Inr u, w') \<longleftrightarrow> blueprint_integrity (blueprints w @ [r]) \<and> w' = w\<lparr>blueprints := blueprints w @ [r]\<rparr>"
  by (auto simp: add_blueprint_def)

lemma record_event_store: "record_event tid ev agg who load w = (Inr e, w') \<Longrightarrow> blueprints w' = blueprints w"
  by (auto simp: record_event_def acts)

lemma approved_copy_valid:
  assumes "AssessmentBlueprint_validate b = None" and "1 \<le> v" and "PrincipalId_ok who"
  shows "AssessmentBlueprint_validate (approved_copy b v who t) = None"
  using assms by (simp add: AssessmentBlueprint_validate_def approved_copy_def checks blueprint_variants_def blueprint_templates_def)

lemma reviewable_blueprint_Inr:
  assumes "reviewable_blueprint aid ver etg tid w = (Inr (cur, b, rv), w')"
  shows "w' = w \<and> cur \<in> set (blueprints w) \<and> BlueprintRow.activity_id cur = aid \<and> BlueprintRow.version cur = ver \<and> BlueprintRow.tenant_id cur = tid
     \<and> b = BlueprintRow.data cur \<and> AssessmentBlueprint_validate b = None \<and> AssessmentBlueprint.status b = WorkflowStatus.READY
     \<and> AssessmentBlueprint.approved_by b = None \<and> BlueprintReview.status rv = ''READY''
     \<and> BlueprintReview.approval_recommendation rv \<noteq> Some BlueprintApprovalRecommendation.REJECT"
proof -
  have "reads (reviewable_blueprint aid ver etg tid)"
    unfolding reviewable_blueprint_def scoped_activity_def by (intro reads_seq reads_basic)
  then have "w' = w" using readsD assms by blast
  moreover obtain cur' where "blueprint_version_row aid ver tid w = Inr cur'" "cur' = cur" and rest: "b = BlueprintRow.data cur"
      "AssessmentBlueprint_validate b = None" "AssessmentBlueprint.status b = WorkflowStatus.READY"
      "AssessmentBlueprint.approved_by b = None" "BlueprintReview.status rv = ''READY''"
      "BlueprintReview.approval_recommendation rv \<noteq> Some BlueprintApprovalRecommendation.REJECT"
    using assms by (auto simp: reviewable_blueprint_def scoped_activity_def acts split: option.splits)
  then have "find (\<lambda>r. BlueprintRow.activity_id r = aid \<and> BlueprintRow.version r = ver \<and> BlueprintRow.tenant_id r = tid) (blueprints w) = Some cur"
    by (simp add: blueprint_version_row_def)
  from find_SomeD [OF this] show ?thesis using rest \<open>w' = w\<close> by simp
qed

lemma approve_blueprint_Inr:
  assumes "approve_blueprint D aid ver etg who w = (Inr r, w')"
  obtains cur rv t rid v e where "reviewable_blueprint aid ver etg (workspace_id who) w = (Inr (cur, BlueprintRow.data cur, rv), w)"
    "r = \<lparr>BlueprintRow.row_id = rid, tenant_id = workspace_id who, activity_id = AssessmentBlueprint.activity_id (BlueprintRow.data cur),
       blueprint_id = AssessmentBlueprint.blueprint_id (BlueprintRow.data cur), version = ver + 1, status = ''APPROVED'',
       etag = etag_text (blueprint_dump D (approved_copy (BlueprintRow.data cur) (ver + 1) (user_id who) t)),
       data = approved_copy (BlueprintRow.data cur) (ver + 1) (user_id who) t, review = Some (rv\<lparr>BlueprintReview.blueprint_version := ver + 1\<rparr>)\<rparr>"
    "blueprint_integrity (blueprints w @ [r])" "blueprints w' = blueprints w @ [r]" "audits (base w') = v @ [e]"
    "AuditEventRow.tenant_id e = workspace_id who" "AuditEventRow.event_type e = ''blueprint.approved''"
    "AuditEventRow.aggregate_id e = AssessmentBlueprint.blueprint_id (BlueprintRow.data cur)" "AuditEventRow.actor_id e = user_id who"
    "AuditEventRow.payload e = JObj [(''blueprint_version'', JInt (ver + 1))]"
proof -
  from assms obtain x1 u1 cur b rv u2 t u3 new u4 x2 u5 now u6 x3 u7 e u8 where raw:
      "refuse_if (Actor.role who \<notin> {''OWNER'', ''TEACHER''}) ''ROLE_FORBIDDEN'' 403 w = (Inr x1, u1)"
      "reviewable_blueprint aid ver etg (workspace_id who) u1 = (Inr (cur, b, rv), u2)" "utc_now u2 = (Inr t, u3)"
      "blueprint_row D (workspace_id who) (approved_copy b (BlueprintRow.version cur + 1) (user_id who) t)
         (rv\<lparr>BlueprintReview.blueprint_version := AssessmentBlueprint.blueprint_version (approved_copy b (BlueprintRow.version cur + 1) (user_id who) t)\<rparr>) u3 = (Inr new, u4)"
      "version_conflict (add_blueprint new) u4 = (Inr x2, u5)" "utc_now u5 = (Inr now, u6)"
      "transact (set_activity_status aid (workspace_id who) ''BLUEPRINT_APPROVED'' now) u6 = (Inr x3, u7)"
      "record_event (workspace_id who) ''blueprint.approved'' (AssessmentBlueprint.blueprint_id (approved_copy b (BlueprintRow.version cur + 1) (user_id who) t))
         (user_id who) (JObj [(''blueprint_version'', JInt (AssessmentBlueprint.blueprint_version (approved_copy b (BlueprintRow.version cur + 1) (user_id who) t)))]) u7 = (Inr e, w')"
      "new = r"
    unfolding approve_blueprint_def Let_def seq_Inr give_Inr split_paired_Ex prod.case by (elim exE conjE) (rule that, assumption+, simp_all)
  have u1: "u1 = w" using raw(1) by (simp add: refuse_if_Inr)
  note rv = reviewable_blueprint_Inr [OF raw(2)]
  have u4: "blueprints u4 = blueprints w" using raw(3,4) rv u1 by (auto simp: utc_now_Inr blueprint_row_def acts)
  have r: "\<exists>rid. r = \<lparr>BlueprintRow.row_id = rid, tenant_id = workspace_id who, activity_id = AssessmentBlueprint.activity_id b,
       blueprint_id = AssessmentBlueprint.blueprint_id b, version = ver + 1, status = ''APPROVED'',
       etag = etag_text (blueprint_dump D (approved_copy b (ver + 1) (user_id who) t)),
       data = approved_copy b (ver + 1) (user_id who) t, review = Some (rv\<lparr>BlueprintReview.blueprint_version := ver + 1\<rparr>)\<rparr>"
    using raw(4,9) rv by (auto simp: blueprint_row_def acts approved_copy_def)
  have i: "blueprint_integrity (blueprints w @ [r])" "blueprints u5 = blueprints w @ [r]"
    using raw(5,9) u4 by (auto simp: version_conflict_Inr add_blueprint_Inr)
  have "blueprints w' = blueprints w @ [r]"
    using record_event_store [OF raw(8)] raw(6,7) i(2) by (auto simp: utc_now_Inr transact_Inr)
  with r i(1) rv u1 raw(2) record_event_Inr [OF raw(8)] that [of cur rv] show thesis by (auto simp: approved_copy_def)
qed

end
