(* ===== verification/ApprovalExample.thy ===== *)
theory ApprovalExample
  imports ApprovalSteps ProcessJob ReviewClaims
begin

text \<open>
  An assessment under review whose one fragment the teacher has verified, and its approval.
\<close>

section \<open>The desk\<close>

definition ex_body :: bytes where
  "ex_body = [1]"

definition ex_upload :: ArtifactRow where
  "ex_upload = \<lparr>ArtifactRow.ident = ''art_a'', tenant_id = ''tenant_a'', activity_id = ''act_a'', submission_id = Some ''sub_a'',
     scope_key = ''sub_a'', role = ''SUBMISSION'', filename = ''essay.txt'', object_key = ''key_a'', declared_media_type = ''text/plain'',
     expected_byte_size = 1, media_type = Some ''text/plain'', byte_size = Some 1, sha256 = Some (sha256_bytes ex_body),
     status = ''COMPLETE'', upload_expires_at = utc_time 0, created_at = utc_time 0\<rparr>"

definition ex_seen :: EvidenceUnit where
  "ex_seen = (ex_unit ''ev_a'')\<lparr>EvidenceUnit.artifact_hash := sha256_bytes ex_body\<rparr>"

definition text_entry :: "string \<Rightarrow> (string \<times> json) list \<Rightarrow> string" where
  "text_entry k kvs = (case map_of kvs k of Some (JStr s) \<Rightarrow> s | _ \<Rightarrow> [])"

definition int_entry :: "string \<Rightarrow> (string \<times> json) list \<Rightarrow> int" where
  "int_entry k kvs = (case map_of kvs k of Some (JInt n) \<Rightarrow> n | _ \<Rightarrow> 0)"

definition ex_fields :: "(string \<times> json) list \<Rightarrow> datetime \<Rightarrow> EvidenceReceipt" where
  "ex_fields kvs t = \<lparr>EvidenceReceipt.receipt_id = text_entry ''receipt_id'' kvs, assessment_id = text_entry ''assessment_id'' kvs,
     assessment_version = int_entry ''assessment_version'' kvs, assessment_etag = text_entry ''assessment_etag'' kvs,
     question_id = text_entry ''question_id'' kvs, fragment_index = int_entry ''fragment_index'' kvs,
     evidence_id = text_entry ''evidence_id'' kvs, artifact_hash = text_entry ''artifact_hash'' kvs,
     locator_hash = text_entry ''locator_hash'' kvs, normalized_hash = text_entry ''normalized_hash'' kvs, verified_at = t\<rparr>"

definition ex_desk :: Desk where
  "ex_desk = \<lparr>desk_env = ex_env\<lparr>env_head := (\<lambda>k. Inr \<lparr>meta_key = k, meta_byte_size = 1, meta_content_type = ''text/plain''\<rparr>),
       env_bytes := (\<lambda>_ _. Inr ex_body), env_parse := (\<lambda>_ _. Inr [ex_seen])\<rparr>,
     desk_pydantic = ex_pydantic, desk_sign = (\<lambda>n k. Inr \<lparr>SignedObjectUrl.url = k, expires_at = utc_time (int n), headers = []\<rparr>),
     blueprint_dump = (\<lambda>_. JNull), receipt_fields = (\<lambda>kvs t. Inr (ex_fields kvs t))\<rparr>"

definition ex_reviewer :: Actor where
  "ex_reviewer = ex_teacher\<lparr>Actor.user_id := ''user_a''\<rparr>"

definition ex_row :: AssessmentRow where
  "ex_row = ex_result\<lparr>AssessmentRow.etag := ''etag_asm_a''\<rparr>"

definition ex_rid :: string where
  "ex_rid = projr (receipt_ident ex_desk ex_row ''user_a'' ''q_a'' 0 ex_seen)"

lemma ex_rid: "receipt_ident ex_desk ex_row ''user_a'' ''q_a'' 0 ex_seen = Inr ex_rid" "Id_ok ex_rid"
proof -
  have p: "good_prefix ''receipt''" by code_simp
  show "receipt_ident ex_desk ex_row ''user_a'' ''q_a'' 0 ex_seen = Inr ex_rid"
    unfolding ex_rid_def receipt_ident_def by (rule ids.mk_Inr [OF p])
  show "Id_ok ex_rid" unfolding ex_rid_def receipt_ident_def by (rule ids.mk_Id [OF p])
qed

definition ex_view_event :: AuditEventRow where
  "ex_view_event = \<lparr>AuditEventRow.ident = ''evt_view'', tenant_id = ''tenant_a'', event_type = ''evidence.viewed'',
     aggregate_id = ''asm_a'', actor_id = ''user_a'', payload = JObj (receipt_fields_of ex_desk ex_row ''q_a'' 0 ex_seen ex_rid),
     occurred_at = utc_time 4\<rparr>"

definition ex_desk_base :: JobStore where
  "ex_desk_base = ex_publication\<lparr>assessments := [ex_row], artifacts := [ex_upload], audits := [ex_view_event]\<rparr>"

definition ex_evidence :: EvidenceRow where
  "ex_evidence = \<lparr>EvidenceRow.ident = ''ev_a'', tenant_id = ''tenant_a'', submission_id = ''sub_a'', artifact_id = ''art_a'', data = ex_seen\<rparr>"

definition ex_office :: WorkStore where
  "ex_office = ex_claimed\<lparr>base := ex_desk_base, evidence_rows := [ex_evidence], readings := (\<lambda>_. utc_time 5)\<rparr>"

section \<open>The evidence\<close>

lemma ex_seen_valid: "EvidenceUnit_validate ex_seen = None"
proof -
  have "Id_ok ''ev_a''" by code_simp
  then show ?thesis
    using ex_unit_parts by (simp add: EvidenceUnit_validate_def ex_seen_def ex_unit_def checks valid_def str_field_def)
qed

lemma ex_rows_on_file: "evidence_for_submission ''sub_a'' ''tenant_a'' ex_office = [ex_evidence]"
  by (simp add: evidence_for_submission_def ex_office_def ex_evidence_def)

lemma ex_bytes_verified: "verified_artifact_bytes (desk_env ex_desk) ex_upload = Inr ex_body"
  by (simp add: verified_artifact_bytes_def ex_upload_def ex_desk_def ex_env_def ex_body_def)

lemma ex_submission_of: "\<exists>sub. scoped_submission ''sub_a'' ''tenant_a'' ex_office = (Inr sub, ex_office) \<and> SubmissionRow.activity_id sub = ''act_a''
    \<and> sub = ex_reviewed"
proof -
  have "get_submission ex_desk_base ''sub_a'' = get_submission ex_publication ''sub_a''" by (simp add: ex_desk_base_def get_submission_def)
  moreover have "get_submission ex_publication ''sub_a'' = Some ex_reviewed \<and> SubmissionRow.tenant_id ex_reviewed = ''tenant_a''"
    using ex_reviewed_found by (auto simp: the_submission_def)
  moreover have "SubmissionRow.activity_id ex_reviewed = ''act_a''" by code_simp
  ultimately show ?thesis by (simp add: scoped_submission_def reading_def ex_office_def)
qed

lemma ex_viewed: "\<exists>vs. evidence_view ex_desk ''sub_a'' ex_reviewer ex_office = (Inr vs, ex_office)"
proof -
  obtain sub where sub: "scoped_submission ''sub_a'' ''tenant_a'' ex_office = (Inr sub, ex_office)" "SubmissionRow.activity_id sub = ''act_a''"
    using ex_submission_of by blast
  have who: "workspace_id ex_reviewer = ''tenant_a''" by (simp add: ex_reviewer_def ex_teacher_def)
  have fs: "artifacts_for ''act_a'' ''tenant_a'' (Some ''sub_a'') True (base ex_office) = [ex_upload]"
    by (simp add: artifacts_for_def ex_office_def ex_desk_base_def belongs_def ex_upload_def)
  have f: "dict_by ArtifactRow.ident [ex_upload] (EvidenceUnit.artifact_id ex_seen) = Some ex_upload"
    by (simp add: dict_by_def ex_upload_def ex_seen_def ex_unit_def)
  have l: "\<exists>x. source_link ex_desk ex_upload [] ex_office = (Inr x, ex_office)"
    by (simp add: source_link_def seq_def pass_def ex_bytes_verified signed_link_def look_def) (simp add: ex_desk_def)
  have h: "ArtifactRow.sha256 ex_upload = Some (EvidenceUnit.artifact_hash ex_seen)" by (simp add: ex_upload_def ex_seen_def)
  have m: "model_of EvidenceUnit_validate (EvidenceRow.data ex_evidence) ex_office = (Inr ex_seen, ex_office)"
    using ex_seen_valid by (simp add: model_of_Inr ex_evidence_def)
  show ?thesis
    using l unfolding evidence_view_def who
    by (auto simp: sub fs ex_rows_on_file seq_def look_def m pass_def f h stop_if_def give_def)
qed

section \<open>The receipt\<close>

lemma ex_receipt: "receipt_of ex_desk (receipt_fields_of ex_desk ex_row ''q_a'' 0 ex_seen ex_rid) t
    = Inr (ex_fields (receipt_fields_of ex_desk ex_row ''q_a'' 0 ex_seen ex_rid) t)"
proof -
  have i: "Id_ok ''asm_a'' \<and> Id_ok ''q_a'' \<and> Id_ok ''ev_a'' \<and> trimmed ''etag_asm_a''" by code_simp
  have "receipt_fields ex_desk = (\<lambda>kvs t. Inr (ex_fields kvs t))" by (simp add: ex_desk_def)
  moreover have "EvidenceReceipt_validate (ex_fields (receipt_fields_of ex_desk ex_row ''q_a'' 0 ex_seen ex_rid) t) = None"
    using i ex_rid(2) ex_unit_parts(1)
    by (simp add: EvidenceReceipt_validate_def ex_fields_def text_entry_def int_entry_def receipt_fields_of_def locator_digest_def checks
        ex_row_def ex_result_def ex_seen_def ex_unit_def str_field_def)
  ultimately show ?thesis by (simp add: receipt_of_def)
qed

lemma ex_same_payload: "dict_set ''assessment_id'' (JStr ''asm_a'') (receipt_fields_of ex_desk ex_row ''q_a'' 0 ex_seen ex_rid)
    = receipt_fields_of ex_desk ex_row ''q_a'' 0 ex_seen ex_rid"
  by (simp add: dict_set_def receipt_fields_of_def ex_row_def ex_result_def)

lemma ex_event_counts: "event_receipt ex_desk ex_row ex_view_event
    = Inr (Some (ex_fields (receipt_fields_of ex_desk ex_row ''q_a'' 0 ex_seen ex_rid) (utc_time 4)))"
proof -
  have "AssessmentRow.assessment_id ex_row = ''asm_a''" by (simp add: ex_row_def ex_result_def)
  moreover have "entry_is (receipt_fields_of ex_desk ex_row ''q_a'' 0 ex_seen ex_rid) ''assessment_version'' (JInt (AssessmentRow.version ex_row))"
    "entry_is (receipt_fields_of ex_desk ex_row ''q_a'' 0 ex_seen ex_rid) ''assessment_etag'' (JStr (AssessmentRow.etag ex_row))"
    by (simp_all add: entry_is_def receipt_fields_of_def py_eq_def)
  ultimately show ?thesis
    by (simp add: event_receipt_def ex_view_event_def ex_same_payload ex_receipt)
qed

lemma ex_receipts: "\<exists>rc. evidence_receipts ex_desk ex_row ex_reviewer ex_office = (Inr [rc], ex_office) \<and> EvidenceReceipt.receipt_id rc = ex_rid"
proof -
  have "viewed_events ''tenant_a'' ''asm_a'' ''user_a'' (base ex_office) = [ex_view_event]"
    by (simp add: viewed_events_def audit_events_def ex_office_def ex_desk_base_def ex_view_event_def)
  moreover have "workspace_id ex_reviewer = ''tenant_a''" "user_id ex_reviewer = ''user_a''" "AssessmentRow.assessment_id ex_row = ''asm_a''"
    by (simp_all add: ex_reviewer_def ex_teacher_def ex_row_def ex_result_def)
  moreover have "EvidenceReceipt.receipt_id (ex_fields (receipt_fields_of ex_desk ex_row ''q_a'' 0 ex_seen ex_rid) (utc_time 4)) = ex_rid"
    by (simp add: ex_fields_def text_entry_def receipt_fields_of_def)
  ultimately show ?thesis
    by (simp add: evidence_receipts_def seq_def look_def pass_def give_def ex_event_counts Let_def sorted_set_def dict_by_def)
qed

lemma ex_all_receipts: "assert_evidence_receipts_complete ex_desk ex_row (AssessmentRow.data ex_row) ex_reviewer ex_office = (Inr (), ex_office)"
proof -
  obtain rc where rc: "evidence_receipts ex_desk ex_row ex_reviewer ex_office = (Inr [rc], ex_office)" "EvidenceReceipt.receipt_id rc = ex_rid"
    using ex_receipts by blast
  have a: "Assessment.submission_id (AssessmentRow.data ex_row) = ''sub_a''" "Assessment.questions (AssessmentRow.data ex_row) = [ex_question]"
    "workspace_id ex_reviewer = ''tenant_a''" "user_id ex_reviewer = ''user_a''"
    by (simp_all add: ex_row_def ex_result_def ex_assessment_def ex_reviewer_def ex_teacher_def)
  have m: "model_of EvidenceUnit_validate (EvidenceRow.data ex_evidence) ex_office = (Inr ex_seen, ex_office)"
    using ex_seen_valid by (simp add: model_of_Inr ex_evidence_def)
  have e: "EvidenceRow.ident ex_evidence = ''ev_a''" by (simp add: ex_evidence_def)
  have "collect (expected_receipts ex_desk ex_row ex_reviewer (\<lambda>e. map_option snd (dict_by fst [(''ev_a'', ex_seen)] e))) [ex_question] = Inr [[ex_rid]]"
    by (simp add: expected_receipts_def expected_receipt_def ex_question_def ex_anchor_def dict_by_def a(4) ex_rid(1))
  then show ?thesis
    unfolding assert_evidence_receipts_complete_def a
    by (simp add: rc seq_def look_def ex_rows_on_file m e pass_def refuse_if_def stop_if_def give_def)
qed

section \<open>The approval\<close>

lemma stable_id_long: "stable_id p parts = Inr i \<Longrightarrow> 20 < length i"
  by (auto simp: stable_id_length_def Let_def split: if_splits)

definition ex_decision :: "string \<Rightarrow> AssessmentRow" where
  "ex_decision rid = approved_row ex_desk ex_row (approved_assessment (AssessmentRow.data ex_row) ex_reviewer (utc_time 5)) ex_reviewer rid (utc_time 5)"

definition ex_decided :: "string \<Rightarrow> string \<Rightarrow> JobStore" where
  "ex_decided rid i = approved_store (ex_decision rid) ex_reviewed (SubmissionRow.state ex_reviewed) ''user_a'' (utc_time 5) i ex_desk_base"

lemma ex_decision_data: "AssessmentRow.data (ex_decision rid) = AssessmentRow.data ex_approved"
  by (simp add: ex_decision_def approved_row_def approved_assessment_def ex_row_def ex_approved_def ex_reviewer_def)

lemma ex_decided_integrity:
  assumes "20 < length rid" and "20 < length i"
  shows "integrity (ex_decided rid i)"
proof -
  have as: "assessments (ex_decided rid i) = [ex_row, ex_decision rid]"
    by (simp add: ex_decided_def approved_store_def add_audit_def put_submission_def add_assessment_def ex_desk_base_def)
  have "rid \<noteq> ''row_a''" "i \<noteq> ''evt_view''" using assms by auto
  moreover have "''etag_asm_a'' \<noteq> etag_text v" for v by (simp add: etag_text_def)
  moreover have "guides (ex_decided rid i) = guides (ex_approval i)" "jobs (ex_decided rid i) = jobs (ex_approval i)"
    "controls (ex_decided rid i) = controls (ex_approval i)" "submissions (ex_decided rid i) = submissions (ex_approval i)"
    "activities (ex_decided rid i) = activities (ex_approval i)" "review_actions (ex_decided rid i) = review_actions (ex_approval i)"
    by (simp_all add: ex_decided_def ex_approval_def approved_store_def add_audit_def put_submission_def add_assessment_def ex_desk_base_def)
  moreover have "artifacts (ex_decided rid i) = [ex_upload]"
    "map AuditEventRow.ident (audits (ex_decided rid i)) = [''evt_view'', i]"
    by (simp_all add: ex_decided_def approved_store_def add_audit_def put_submission_def add_assessment_def ex_desk_base_def
        ex_view_event_def approval_event_def)
  moreover have "map AssessmentRow.row_id (assessments (ex_decided rid i)) = [''row_a'', rid]"
    "map revision_of (assessments (ex_decided rid i)) = [(''sub_a'', 1), (''sub_a'', 2)]"
    "\<exists>v. map AssessmentRow.etag (assessments (ex_decided rid i)) = [''etag_asm_a'', etag_text v]"
    unfolding as by (simp_all add: revision_of_def ex_decision_def approved_row_def approved_assessment_def ex_row_def ex_result_def ex_assessment_def) blast
  ultimately show ?thesis
    using ex_approval_integrity [of i] by (elim exE) (simp add: integrity_def content_integrity_def)
qed

lemma ex_decide:
  assumes "20 < length rid"
  shows "\<exists>i. approve_assessment_atomic ''etag_asm_a'' (ex_decision rid) ''user_a'' ex_desk_base = Inr (ex_decision rid, ex_decided rid i)"
proof -
  have "good_prefix ''evt''" by code_simp
  then obtain i where i: "stable_id ''evt'' [JStr ''tenant_a'', JStr ''assessment.approved'', JStr ''asm_a'', JStr ''user_a'', JInt 2] = Inr i"
    using ids.mk_Inr by blast
  have c: "AssessmentRow.tenant_id (ex_decision rid) = ''tenant_a''" "AssessmentRow.assessment_id (ex_decision rid) = ''asm_a''"
      "AssessmentRow.version (ex_decision rid) = 2" "AssessmentRow.submission_id (ex_decision rid) = ''sub_a''"
    by (simp_all add: ex_decision_def approved_row_def ex_row_def ex_result_def ex_reviewer_def ex_teacher_def approved_assessment_def ex_assessment_def)
  have a: "Assessment.status (AssessmentRow.data ex_approved) = WorkflowStatus.APPROVED"
      "Assessment.approved_by (AssessmentRow.data ex_approved) = Some ''user_a''"
      "Assessment.approved_at (AssessmentRow.data ex_approved) = Some (utc_time 5)"
      "Assessment.submission_id (AssessmentRow.data ex_approved) = ''sub_a''"
    by (simp_all add: ex_approved_def ex_result_def ex_assessment_def)
  have d: "AssessmentRow.version ex_row = 1" "AssessmentRow.submission_id ex_row = ''sub_a''"
      "AssessmentRow.tenant_id ex_row = ''tenant_a''" "AssessmentRow.etag ex_row = ''etag_asm_a''" "AssessmentRow.data ex_row = AssessmentRow.data ex_result"
      "Assessment.status (AssessmentRow.data ex_result) = WorkflowStatus.NEEDS_REVIEW"
    by (simp_all add: ex_row_def ex_result_def)
  have l: "assessment_by_id ''asm_a'' ''tenant_a'' ex_desk_base = Inr ex_row"
    by (simp add: assessment_by_id_def revisions_def newest_def ex_desk_base_def ex_row_def ex_result_def)
  have e: "event_id [JStr ''tenant_a'', JStr ''assessment.approved'', JStr ''asm_a'', JStr ''user_a'', JInt 2] = Inr i"
    by (simp add: event_id_def i)
  have s: "the_submission ex_desk_base ''sub_a'' ''tenant_a'' = Some ex_reviewed"
    using ex_reviewed_found by (simp add: the_submission_def get_submission_def ex_desk_base_def)
  have "approve_assessment_atomic ''etag_asm_a'' (ex_decision rid) ''user_a'' ex_desk_base = Inr (ex_decision rid, ex_decided rid i)"
    unfolding approve_assessment_atomic_def
    using ex_approved_valid ex_result_valid(1) c d a l e s ex_reviewed_state ex_decided_integrity [OF assms stable_id_long [OF i], unfolded ex_decided_def]
    by (simp del: first_error_Cons add: first_error_None_Cons ex_decided_def ex_decision_data)
  then show ?thesis by blast
qed

lemma ex_approved_run: "\<exists>rid w'. approve_assessment ex_desk ''asm_a'' ''etag_asm_a'' ex_reviewer ex_office = (Inr (ex_decision rid), w')"
proof -
  obtain vs where vs: "evidence_view ex_desk ''sub_a'' ex_reviewer ex_office = (Inr vs, ex_office)" using ex_viewed by blast
  have who: "workspace_id ex_reviewer = ''tenant_a''" "user_id ex_reviewer = ''user_a''" "can_approve_assessments ex_reviewer"
    by (simp_all add: ex_reviewer_def ex_teacher_def)
  have l: "assessment_by_id ''asm_a'' ''tenant_a'' (base ex_office) = Inr ex_row"
    by (simp add: assessment_by_id_def revisions_def newest_def ex_office_def ex_desk_base_def ex_row_def ex_result_def)
  have g: "guide_for_assessment ''asm_a'' ''tenant_a'' (base ex_office) = Inr ex_result_guide"
  proof -
    have "guides (snd (projr ex_claim)) = []" by code_simp
    then show ?thesis
      by (simp add: guide_for_assessment_def ex_office_def ex_desk_base_def ex_publication_def merge_guide_def ex_result_guide_def)
  qed
  have st: "EvaluationGuide.status (GuideRow.data ex_result_guide) = ''READY''" by (simp add: ex_result_guide_def ex_guide_def)
  have a: "AssessmentRow.etag ex_row = ''etag_asm_a''" "AssessmentRow.version ex_row = 1"
    "Assessment.submission_id (AssessmentRow.data ex_row) = ''sub_a''"
    by (simp_all add: ex_row_def ex_result_def ex_assessment_def)
  have rev: "reviewable_assessment ex_row ex_reviewer ex_office = (Inr (AssessmentRow.data ex_row), ex_office)"
  proof -
    have "Assessment_validate (AssessmentRow.data ex_row) = None" "Assessment.status (AssessmentRow.data ex_row) = WorkflowStatus.NEEDS_REVIEW"
      using ex_result_valid(1) by (simp_all add: ex_row_def ex_result_def)
    then show ?thesis
      using ex_submission_of ex_reviewed_state
      by (auto simp: reviewable_assessment_def seq_def steps refuse_if_def stop_if_def who a give_def)
  qed
  have "good_prefix ''assessmentrow''" by code_simp
  then obtain rid where rid: "stable_id ''assessmentrow'' [JStr ''asm_a'', JInt 2] = Inr rid" using ids.mk_Inr by blast
  obtain i where "approve_assessment_atomic ''etag_asm_a'' (ex_decision rid) ''user_a'' ex_desk_base = Inr (ex_decision rid, ex_decided rid i)"
    using ex_decide [OF stable_id_long [OF rid]] by blast
  moreover have "readings ex_office = (\<lambda>_. utc_time 5)" "base ex_office = ex_desk_base" by (simp_all add: ex_office_def)
  ultimately have "approve_assessment ex_desk ''asm_a'' ''etag_asm_a'' ex_reviewer ex_office
      = (Inr (ex_decision rid), ex_office\<lparr>base := ex_decided rid i, ticks := Suc (Suc (ticks ex_office))\<rparr>)"
    using l g st rev vs ex_all_receipts rid ex_result_valid(2)
    by (simp add: approve_assessment_def Let_def seq_def who a reading_def refuse_if_def stop_if_def give_def steps utc_now_def
        transact_def approval_conflict_def ex_decision_def)
  then show ?thesis by blast
qed

section \<open>A blueprint to approve\<close>

definition ex_draft_bp :: AssessmentBlueprint where
  "ex_draft_bp = (ex_blueprint StructuredJustificationMode.ALL)\<lparr>AssessmentBlueprint.status := WorkflowStatus.READY\<rparr>"

definition ex_bp_review :: BlueprintReview where
  "ex_bp_review = \<lparr>BlueprintReview.schema_version = LEGACY_SCHEMA_VERSION, activity_id = ''act_a'', blueprint_id = ''bp_a'',
     blueprint_version = 1, status = ''READY'', approval_recommendation = Some BlueprintApprovalRecommendation.APPROVE,
     checks = [], diagnostics = []\<rparr>"

definition ex_draft_row :: BlueprintRow where
  "ex_draft_row = ex_blueprint_row\<lparr>BlueprintRow.status := ''READY'', BlueprintRow.data := ex_draft_bp, BlueprintRow.review := Some ex_bp_review\<rparr>"

definition ex_activity :: ActivityRow where
  "ex_activity = \<lparr>ActivityRow.ident = ''act_a'', tenant_id = ''tenant_a'', status = ''BLUEPRINT_READY'', config = JNull,
     blueprint_policy = JNull, created_by = ''usr_teacher'', created_at = utc_time 0, updated_at = utc_time 0\<rparr>"

definition ex_drafted :: WorkStore where
  "ex_drafted = ex_work\<lparr>base := ex_empty\<lparr>activities := [ex_activity]\<rparr>, blueprints := [ex_draft_row], readings := (\<lambda>_. utc_time 5)\<rparr>"

definition ex_new_bp_row :: "string \<Rightarrow> BlueprintRow" where
  "ex_new_bp_row rid = \<lparr>BlueprintRow.row_id = rid, tenant_id = ''tenant_a'', activity_id = ''act_a'', blueprint_id = ''bp_a'', version = 2,
     status = ''APPROVED'', etag = etag_text JNull, data = approved_copy ex_draft_bp 2 ''usr_teacher'' (utc_time 5),
     review = Some (ex_bp_review\<lparr>BlueprintReview.blueprint_version := 2\<rparr>)\<rparr>"

definition ex_bp_event :: "string \<Rightarrow> AuditEventRow" where
  "ex_bp_event i = \<lparr>AuditEventRow.ident = i, tenant_id = ''tenant_a'', event_type = ''blueprint.approved'', aggregate_id = ''bp_a'',
     actor_id = ''usr_teacher'', payload = JObj [(''blueprint_version'', JInt 2)], occurred_at = utc_time 5\<rparr>"

definition ex_approved_activity :: JobStore where
  "ex_approved_activity = ex_empty\<lparr>activities := [ex_activity\<lparr>ActivityRow.status := ''BLUEPRINT_APPROVED'', ActivityRow.updated_at := utc_time 5\<rparr>]\<rparr>"

lemma ex_activity_integrity: "integrity ex_approved_activity" "integrity (add_audit (ex_bp_event i) ex_approved_activity)"
  by code_simp+

lemma ex_draft_valid: "AssessmentBlueprint_validate ex_draft_bp = None" "BlueprintReview_validate ex_bp_review = None"
  by code_simp+

lemma ex_time: "\<exists>ts. canonical_time (utc_time 5) = Inr ts"
  by (simp add: canonical_time_def utc_time_def)

lemma ex_draft_reviewable:
  "reviewable_blueprint ''act_a'' 1 ''etag_b'' ''tenant_a'' ex_drafted = (Inr (ex_draft_row, ex_draft_bp, ex_bp_review), ex_drafted)"
proof -
  have l: "blueprint_version_row ''act_a'' 1 ''tenant_a'' ex_drafted = Inr ex_draft_row"
    by (simp add: blueprint_version_row_def ex_drafted_def ex_draft_row_def ex_blueprint_row_def)
  have a: "scoped_activity ''act_a'' ''tenant_a'' ex_drafted = (Inr ex_activity, ex_drafted)"
    by (simp add: scoped_activity_def reading_def ex_drafted_def get_activity_def get_row_def ex_activity_def)
  have r: "BlueprintRow.data ex_draft_row = ex_draft_bp" "BlueprintRow.review ex_draft_row = Some ex_bp_review" "BlueprintRow.etag ex_draft_row = ''etag_b''"
    by (simp_all add: ex_draft_row_def ex_blueprint_row_def)
  have s: "ActivityRow.status ex_activity = ''BLUEPRINT_READY''" "AssessmentBlueprint.status ex_draft_bp = WorkflowStatus.READY"
    "AssessmentBlueprint.approved_by ex_draft_bp = None" "AssessmentBlueprint.approved_at ex_draft_bp = None"
    "BlueprintReview.status ex_bp_review = ''READY''" "BlueprintReview.approval_recommendation ex_bp_review = Some BlueprintApprovalRecommendation.APPROVE"
    by (simp_all add: ex_activity_def ex_draft_bp_def ex_blueprint_def ex_bp_review_def)
  show ?thesis
    using ex_draft_valid
    by (simp add: reviewable_blueprint_def seq_def look_def l a r s steps refuse_if_def stop_if_def give_def pass_def)
qed

lemma ex_blueprint_run: "\<exists>rid w'. approve_blueprint ex_desk ''act_a'' 1 ''etag_b'' ex_teacher ex_drafted = (Inr (ex_new_bp_row rid), w')"
proof -
  have "good_prefix ''blueprintrow''" "good_prefix ''evt''" by code_simp+
  then obtain rid where rid: "stable_id ''blueprintrow'' [JStr ''act_a'', JInt 2] = Inr rid"
    using ids.mk_Inr by blast
  obtain ts where ts: "canonical_time (utc_time 5) = Inr ts" using ex_time by blast
  obtain i where i: "stable_id ''evt'' [JStr ''tenant_a'', JStr ''blueprint.approved'', JStr ''bp_a'', JStr ''usr_teacher'', JStr ts] = Inr i"
    using ids.mk_Inr \<open>good_prefix ''evt''\<close> by blast
  let ?w = "ex_drafted\<lparr>blueprints := [ex_draft_row, ex_new_bp_row rid], ticks := Suc (ticks ex_drafted)\<rparr>"
  have who: "Actor.role ex_teacher = ''TEACHER''" "workspace_id ex_teacher = ''tenant_a''" "user_id ex_teacher = ''usr_teacher''"
    by (simp_all add: ex_teacher_def)
  have r: "readings ex_drafted = (\<lambda>_. utc_time 5)" "BlueprintRow.version ex_draft_row = 1" "blueprints ex_drafted = [ex_draft_row]"
    "blueprint_dump ex_desk = (\<lambda>_. JNull)" "base ex_drafted = ex_empty\<lparr>activities := [ex_activity]\<rparr>"
    by (simp_all add: ex_drafted_def ex_draft_row_def ex_blueprint_row_def ex_desk_def)
  have b: "blueprint_row ex_desk ''tenant_a'' (approved_copy ex_draft_bp 2 ''usr_teacher'' (utc_time 5))
      (ex_bp_review\<lparr>BlueprintReview.blueprint_version := 2\<rparr>) w = (Inr (ex_new_bp_row rid), w)" for w
    using rid by (simp add: blueprint_row_def seq_def steps approved_copy_def ex_new_bp_row_def r(4) give_def) (simp add: ex_draft_bp_def ex_blueprint_def steps)
  have v: "AssessmentBlueprint.blueprint_version (approved_copy ex_draft_bp 2 ''usr_teacher'' (utc_time 5)) = 2"
    "AssessmentBlueprint.blueprint_id (approved_copy ex_draft_bp 2 ''usr_teacher'' (utc_time 5)) = ''bp_a''"
    by (simp_all add: approved_copy_def ex_draft_bp_def ex_blueprint_def)
  have "rid \<noteq> ''bprow_a''" using stable_id_long [OF rid] by auto
  then have a: "blueprint_integrity [ex_draft_row, ex_new_bp_row rid]"
    by (auto simp: blueprint_integrity_def ex_draft_row_def ex_blueprint_row_def ex_new_bp_row_def etag_text_def)
  have s: "set_activity_status ''act_a'' ''tenant_a'' ''BLUEPRINT_APPROVED'' (utc_time 5) (ex_empty\<lparr>activities := [ex_activity]\<rparr>) = Inr ((), ex_approved_activity)"
    using ex_activity_integrity(1)
    by (simp add: set_activity_status_def the_activity_def of_tenant_def get_activity_def get_row_def put_activity_def set_row_def
        ex_activity_def ex_approved_activity_def)
  have e: "audit ''tenant_a'' ''blueprint.approved'' ''bp_a'' ''usr_teacher'' (JObj [(''blueprint_version'', JInt 2)]) (utc_time 5) (utc_time 5)
      ex_approved_activity = Inr (ex_bp_event i, add_audit (ex_bp_event i) ex_approved_activity)"
    using ex_activity_integrity(2) [of i] by (simp add: audit_def ts event_id_def i ex_bp_event_def Let_def)
  show ?thesis
    by (intro exI [of _ rid]) (simp add: approve_blueprint_def Let_def seq_def who refuse_if_def stop_if_def give_def ex_draft_reviewable utc_now_def r v b
        version_conflict_def add_blueprint_def a transact_def s record_event_def e)
qed

end
