(* ===== verification/ApprovalClaims.thy ===== *)
theory ApprovalClaims
  imports ApprovalExample
begin

text \<open>
  The guarantees of the approvals and of the verification of evidence.
\<close>

section \<open>Guarantees\<close>




text \<open>C13: a teacher's approval makes the blueprint runnable.  An approval adds exactly one row, the next version,
  with the reviewed content; afterwards the submission pipeline's own check of an approved blueprint passes for
  that version and returns that row, approved by the actor.\<close>

theorem approved_blueprint_is_runnable:
  assumes "approve_blueprint D aid ver etg who w = (Inr r, w')" and "0 \<le> ver" and "PrincipalId_ok (user_id who)"
    and "\<forall>x \<in> set (blueprints w). AssessmentBlueprint.activity_id (BlueprintRow.data x) = BlueprintRow.activity_id x"
  shows "approved_blueprint aid (workspace_id who) (Some (ver + 1)) w' = (Inr (r, BlueprintRow.data r), w')
    \<and> blueprints w' = blueprints w @ [r] \<and> AssessmentBlueprint.approved_by (BlueprintRow.data r) = Some (user_id who)
    \<and> (\<exists>cur \<in> set (blueprints w). BlueprintRow.activity_id cur = aid \<and> BlueprintRow.version cur = ver
        \<and> AssessmentBlueprint.dimensions (BlueprintRow.data r) = AssessmentBlueprint.dimensions (BlueprintRow.data cur)
        \<and> AssessmentBlueprint.assessment_constraints (BlueprintRow.data r) = AssessmentBlueprint.assessment_constraints (BlueprintRow.data cur))"
proof -
  obtain cur rv t rid v e where rev: "reviewable_blueprint aid ver etg (workspace_id who) w = (Inr (cur, BlueprintRow.data cur, rv), w)"
    and r: "r = \<lparr>BlueprintRow.row_id = rid, tenant_id = workspace_id who, activity_id = AssessmentBlueprint.activity_id (BlueprintRow.data cur),
       blueprint_id = AssessmentBlueprint.blueprint_id (BlueprintRow.data cur), version = ver + 1, status = ''APPROVED'',
       etag = etag_text (blueprint_dump D (approved_copy (BlueprintRow.data cur) (ver + 1) (user_id who) t)),
       data = approved_copy (BlueprintRow.data cur) (ver + 1) (user_id who) t, review = Some (rv\<lparr>BlueprintReview.blueprint_version := ver + 1\<rparr>)\<rparr>"
    and i: "blueprint_integrity (blueprints w @ [r])" "blueprints w' = blueprints w @ [r]" and a: "audits (base w') = v @ [e]"
    and e: "AuditEventRow.tenant_id e = workspace_id who" "AuditEventRow.event_type e = ''blueprint.approved''"
      "AuditEventRow.aggregate_id e = AssessmentBlueprint.blueprint_id (BlueprintRow.data cur)"
      "AuditEventRow.payload e = JObj [(''blueprint_version'', JInt (ver + 1))]"
    by (rule approve_blueprint_Inr [OF assms(1)]) blast
  note cur = reviewable_blueprint_Inr [OF rev]
  have aid: "BlueprintRow.activity_id r = aid" "BlueprintRow.version r = ver + 1" "BlueprintRow.tenant_id r = workspace_id who"
    using cur assms(4) by (simp_all add: r)
  have row: "blueprint_version_row aid (ver + 1) (workspace_id who) w' = Inr r"
  proof -
    have "\<not> (BlueprintRow.activity_id x = aid \<and> BlueprintRow.version x = ver + 1 \<and> BlueprintRow.tenant_id x = workspace_id who)" if "x \<in> set (blueprints w)" for x
      using i(1) aid that by (auto simp: blueprint_integrity_def image_iff)
    then have "find (\<lambda>x. BlueprintRow.activity_id x = aid \<and> BlueprintRow.version x = ver + 1 \<and> BlueprintRow.tenant_id x = workspace_id who) (blueprints w @ [r]) = Some r"
      using aid by (intro find_only) auto
    then show ?thesis by (simp add: blueprint_version_row_def i(2))
  qed
  have valid: "AssessmentBlueprint_validate (BlueprintRow.data r) = None"
    using approved_copy_valid [of "BlueprintRow.data cur"] cur assms(2,3) by (simp add: r)
  have facts: "BlueprintRow.status r = ''APPROVED''" "AssessmentBlueprint.status (BlueprintRow.data r) = WorkflowStatus.APPROVED"
    "AssessmentBlueprint.approved_by (BlueprintRow.data r) = Some (user_id who)" "AssessmentBlueprint.approved_at (BlueprintRow.data r) = Some t"
    "AssessmentBlueprint.blueprint_id (BlueprintRow.data r) = AssessmentBlueprint.blueprint_id (BlueprintRow.data cur)"
    "AssessmentBlueprint.dimensions (BlueprintRow.data r) = AssessmentBlueprint.dimensions (BlueprintRow.data cur)"
    "AssessmentBlueprint.assessment_constraints (BlueprintRow.data r) = AssessmentBlueprint.assessment_constraints (BlueprintRow.data cur)"
    by (simp_all add: r approved_copy_def)
  have "has_audit_event (workspace_id who) ''blueprint.approved'' (AssessmentBlueprint.blueprint_id (BlueprintRow.data r)) None
      [(''blueprint_version'', JInt (BlueprintRow.version r))] (base w')"
    using e by (auto simp: has_audit_event_def audit_events_def a aid facts(5) py_eq_def list_ex_iff)
  moreover have "user_id who \<noteq> []" using assms(3) by (auto simp: PrincipalId_ok_def)
  ultimately have "approved_blueprint aid (workspace_id who) (Some (ver + 1)) w' = (Inr (r, BlueprintRow.data r), w')"
    using valid facts by (simp add: approved_blueprint_def acts row falsy_def)
  then show ?thesis using i(2) facts cur by auto
qed

theorem approved_blueprint_is_runnable_witness:
  "\<exists>rid w'. approved_blueprint ''act_a'' ''tenant_a'' (Some 2) w' = (Inr (ex_new_bp_row rid, BlueprintRow.data (ex_new_bp_row rid)), w')"
proof -
  obtain rid w' where run: "approve_blueprint ex_desk ''act_a'' 1 ''etag_b'' ex_teacher ex_drafted = (Inr (ex_new_bp_row rid), w')"
    using ex_blueprint_run by blast
  have "PrincipalId_ok ''usr_teacher''" by code_simp
  then show ?thesis
    using approved_blueprint_is_runnable [OF run]
    by (auto simp: ex_teacher_def ex_drafted_def ex_draft_row_def ex_draft_bp_def ex_blueprint_row_def ex_blueprint_def)
qed

end
