(* ===== verification/Spec2Isabelle.thy ===== *)
theory Spec2Isabelle
  imports ValidationClaims ContractsStage2 JobHistory StageStore RateLimit Idempotency IntakeClaims ReviewClaims GatewayClaims ObjectStore CoverageClaims QuestionClaims StageClaims ApprovalClaims
begin

text \<open>
  A verification library of the comprehension verification system (\<open>src/src/comprehension_verification\<close>).

  The system turns a student's submission into a personalised assessment.  Teachers configure an activity and
  approve a blueprint; a worker takes a submission's job from a durable queue, extracts evidence units from the
  sealed upload, has a model map the evidence to the blueprint's opportunities, plans exactly N questions, has
  every question drafted and reviewed by a model, and publishes the assessment with its guide for a teacher to
  review and approve.  Models are never trusted: each answer crosses a governed gateway and contextual
  validators, and each stage is stored under the hash of its inputs.

  THE PARTS, from the values up.

  Values.  \<open>Prelude\<close> holds what all components share: a Python validator is the list of its guards in the
  code's order, \<open>first_error\<close> takes the first that fires, and the collection \<open>checks\<close> opens an accepted one.
  \<open>PyText\<close> models strings, \<open>PyFloat\<close> binary64 arithmetic as correctly rounded rationals (\<open>fl\<close>), \<open>PyTime\<close> times
  and their ISO form, \<open>Canonical\<close> the canonical JSON bytes, SHA-256 on 32-bit words and \<open>stable_id\<close> of
  \<open>canonical.py\<close>, \<open>Diagnostics\<close> the constructor of \<open>diagnostics.py\<close>.

  Contracts.  \<open>ContractsBase\<close>, \<open>ContractsActivity\<close>, \<open>ContractsQuestion\<close>, \<open>ContractsRuntime\<close> and
  \<open>ContractsStage2\<close> follow \<open>specification/models_v1.1(1).py\<close>: an enumeration is a datatype, a StrictModel class a
  record, and \<open>X_validate\<close> the constraints of its fields and its validators, returning the error or \<open>None\<close>.

  Planner.  \<open>Planning\<close> is \<open>planning.py\<close>, the beam search \<open>select_exact\<close> and \<open>build_assessment_plan\<close> with its
  reserve.  \<open>PlanningSearch\<close> relates the search to a specification of the selections that fit, \<open>PlanningPlan\<close> and
  \<open>PlanningResult\<close> follow the chosen state into the plan, \<open>PlannerCorrect\<close> has the properties: what a READY plan
  promises, totality, independence of the order of the input, completeness and optimality.

  Validators.  \<open>SafeText\<close> has the regular expressions and \<open>Validation\<close> the validators of \<open>validation.py\<close>;
  \<open>ValidationCorrect\<close> and \<open>ValidationClaims\<close> show what an accepted mapping, plan, candidate, review and guide are.

  Gateway.  \<open>Registry\<close> (\<open>model_gateway/registry.py\<close>), \<open>GatewayChecks\<close>, \<open>GatewayRelations\<close>, \<open>GatewayRoutes\<close> and
  \<open>Gateway\<close> follow \<open>model_gateway/gateway.py\<close>: \<open>invoke\<close> returns the list of its events (provider calls, ledger
  entries, sleeps) with a result or an error.  \<open>GatewayRun\<close> and \<open>GatewayClaims\<close> bound the calls, type and authorise
  the answers and account for them.

  The database of \<open>web/repository.py\<close>.  \<open>RowTable\<close> states a table as a locale, \<open>JobStore\<close> the tables with their
  constraints; an operation of the repository is one transaction, a function to an error or a new store.
  \<open>JobControl\<close> has the control operations, \<open>JobSteps\<close> the queue as an inductive step relation with its
  invariant, \<open>JobClaims\<close> and \<open>JobHistory\<close> its properties over all runs; \<open>StageStore\<close> the stage cache and its
  refinement of a partial map (the locale of \<open>WriteOnce\<close>); \<open>Idempotency\<close> the replay of requests; \<open>Intake\<close> and
  \<open>IntakeClaims\<close> configuration, uploads and submissions; \<open>Review\<close> and \<open>ReviewClaims\<close> approval and question review.
  Beside it stand \<open>RateLimit\<close> (\<open>web/rate_limit.py\<close>) and \<open>ObjectStore\<close> (\<open>web/object_store.py\<close>).

  The services.  An operation of \<open>web/workflows.py\<close> or \<open>web/stage2.py\<close> makes several transactions; it is an
  \<open>act\<close> of \<open>WorkStore\<close>, from a store to a result and a store, whose writes before an exception stay.  \<open>seq\<close>
  composes acts.  \<open>Worker\<close> has cancellation, the resume floor, failure classes and job states, \<open>ModelStage\<close> the
  governed stage with its cache and the reading of uploads, \<open>Pipeline\<close> \<open>_run_submission_pipeline\<close> in its phases,
  \<open>process_job\<close> and \<open>run_once\<close>; \<open>Coverage\<close> the coverage views of \<open>web/stage2.py\<close>.

  The lemmas on the services are layered.  \<open>StoreOrder\<close>: \<open>obeys R\<close>, every step of an act stays in the order \<open>R\<close>;
  two locales reduce it to the few writes the worker makes, and \<open>WorkerRun\<close> interprets them by two orders, the
  unchanged content and the invariant and history of the queue.  \<open>WorkerCancel\<close>: \<open>heeds\<close>, the cancellation exception
  leaves only when the job's row is CANCELLED.  \<open>PipelineRun\<close>: the locale \<open>careful_stages\<close> states what the pipeline
  relies on in its four model stages, and the stages the code passes (\<open>gateway_stages\<close>) are an interpretation.
  \<open>PipelineEnd\<close>: \<open>ends\<close>, the state of the job where an act returns.  \<open>PipelineOutputs\<close> and \<open>PipelinePhases\<close>: what
  each phase has checked and written.  \<open>PipelineClaims\<close>: a sound assessment and the whole pipeline.  \<open>ProcessJob\<close>,
  \<open>QuestionClaims\<close>, \<open>StageClaims\<close> and \<open>CoverageClaims\<close> have the properties, \<open>WorkExample\<close>, \<open>PlanningExample\<close> and
  \<open>GatewayExample\<close> the concrete runs they are applied to.

  BOUNDS AND CHOICES.  No definition uses fuel: the loops over opportunities, lineages and retries end by a
  measure.  The planner keeps 512 states per depth; completeness and optimality are proved up to eleven usable
  opportunities, where no level can exceed that width.  Characters are the 256 Latin-1 code points.  The clock
  is an argument of a transaction, and a sequence of readings for an act.  A transaction is one step: the locks
  and conditional updates of the code make it so, and interleavings of callers are sequences of steps.  Model
  instances at the gateway are their attributes in JSON form.  Parameters stand for what is not under \<open>src/\<close>:
  pydantic's dumps and validations (\<open>Pydantic\<close>, \<open>Codec\<close>), the provider adapters, the token library, the S3
  client, and for the document parsers, which the worker only calls (\<open>Env\<close>).  Properties hold for all of them.

  NOT MODELLED, and why.  The activity pipeline and the blueprint, receipt, approval and export endpoints of
  \<open>web/workflows.py\<close>, and the question actions, feedback, metrics, exports and bulk approval of \<open>web/stage2.py\<close>:
  they compose operations of the repository that are modelled, and are next in the plan.  \<open>web/app.py\<close>,
  \<open>web/dto.py\<close>, \<open>web/auth.py\<close>, the settings and the command line are wiring around third-party frameworks.  The
  parsers and the renderers of \<open>exports.py\<close> drive PDF, office and template libraries.  \<open>mock_factory.py\<close> is canned
  demonstration data, except for the derivation of a request's context.
\<close>

end
